(* ===== verification/Steam_Prelude.thy ===== *)
theory Steam_Prelude
  imports Main "HOL-Library.Word"
begin

text \<open>
  Shared vocabulary of the development: the machine types of the program, the errors a
  C++ operation can end with, the little-endian byte loops of the wire format, and the
  generic contracts (locales) that several components implement.
\<close>

unbundle bit_operations_syntax

section \<open>Machine types and errors\<close>

type_synonym byte = "8 word"
type_synonym u16 = "16 word"
type_synonym u32 = "32 word"
type_synonym u64 = "64 word"

text \<open>
  Exceptions carry the text passed to their constructor. \<open>Undefined\<close> stands for C++
  undefined behaviour (an access outside an object, a recursion that exhausts the stack): no
  \<open>catch\<close> clause sees it.
\<close>

datatype exn =
    RuntimeError string
  | OutOfRange string
  | InvalidArgument string
  | LengthError
  | BadVariantAccess
  | BadAlloc
  | CryptoError

datatype ub = OutOfBounds | StackExhausted

datatype error = Exn exn | Undefined ub

definition bindE :: "error + 'a \<Rightarrow> ('a \<Rightarrow> error + 'b) \<Rightarrow> error + 'b" where
  "bindE m k = (case m of Inl e \<Rightarrow> Inl e | Inr x \<Rightarrow> k x)"

lemma bindE_simps [simp]:
  "bindE (Inl e) k = Inl e"
  "bindE (Inr x) k = k x"
  by (simp_all add: bindE_def)

lemma bindE_Inr_iff: "bindE m k = Inr y \<longleftrightarrow> (\<exists>x. m = Inr x \<and> k x = Inr y)"
  by (cases m) auto

lemma bindE_Inl_iff:
  "bindE m k = Inl e \<longleftrightarrow> m = Inl e \<or> (\<exists>x. m = Inr x \<and> k x = Inl e)"
  by (cases m) auto

primrec mapE :: "('a \<Rightarrow> error + 'b) \<Rightarrow> 'a list \<Rightarrow> error + 'b list" where
  "mapE f [] = Inr []"
| "mapE f (x # xs) = bindE (f x) (\<lambda>y. bindE (mapE f xs) (\<lambda>ys. Inr (y # ys)))"

lemma mapE_Inr_length: "mapE f xs = Inr ys \<Longrightarrow> length ys = length xs"
  by (induction xs arbitrary: ys) (auto simp: bindE_Inr_iff)

lemma mapE_all: "(\<And>x. x \<in> set xs \<Longrightarrow> f x = Inr (g x)) \<Longrightarrow> mapE f xs = Inr (map g xs)"
  by (induction xs) auto

lemma mapE_first_error:
  "(\<And>x. x \<in> set xs \<Longrightarrow> f x = Inr (g x)) \<Longrightarrow> f y = Inl e \<Longrightarrow> mapE f (xs @ y # ys) = Inl e"
  by (induction xs) auto

text \<open>
  \<open>size_t\<close> is 64 bits wide and wraps; a \<open>std::vector\<close> never holds \<open>2 ^ 63\<close> bytes or
  more (\<open>max_size\<close> is \<open>PTRDIFF_MAX\<close>).
\<close>

definition sz_add :: "nat \<Rightarrow> nat \<Rightarrow> nat" where
  "sz_add a b = (a + b) mod 2 ^ 64"

definition sz_mul :: "nat \<Rightarrow> nat \<Rightarrow> nat" where
  "sz_mul a b = (a * b) mod 2 ^ 64"

definition vec_limit :: nat where
  "vec_limit = 2 ^ 63"

lemma sz_add_small: "a < vec_limit \<Longrightarrow> b < vec_limit \<Longrightarrow> sz_add a b = a + b"
  by (simp add: sz_add_def vec_limit_def)

section \<open>Little-endian bytes\<close>

text \<open>
  The two loops of \<open>Stream::Write<T>\<close> and \<open>Stream::Read<T>\<close>: one pushes
  \<open>(value >> (8 * i)) & 0xFF\<close> for each byte index, the other ors
  \<open>byte << (8 * i)\<close> into the result.
\<close>

definition le_bytes :: "'a::len word \<Rightarrow> byte list" where
  "le_bytes w = map (\<lambda>i. ucast (drop_bit (8 * i) w AND 0xFF)) [0..<LENGTH('a) div 8]"

primrec le_read :: "nat \<Rightarrow> 'a::len word \<Rightarrow> byte list \<Rightarrow> 'a word" where
  "le_read i v [] = v"
| "le_read i v (b # bs) = le_read (Suc i) (v OR push_bit (8 * i) (ucast b)) bs"

definition le_word :: "byte list \<Rightarrow> 'a::len word" where
  "le_word bs = le_read 0 0 bs"

lemma length_le_bytes [simp]: "length (le_bytes (w :: 'a::len word)) = LENGTH('a) div 8"
  by (simp add: le_bytes_def)

lemma bit_le_read:
  "bit (le_read i v bs) n \<longleftrightarrow>
     bit v n \<or>
     (n < LENGTH('a) \<and> 8 * i \<le> n \<and> n < 8 * (i + length bs) \<and>
       bit (bs ! ((n - 8 * i) div 8)) (n mod 8))"
  for v :: "'a::len word"
proof (induction bs arbitrary: i v n)
  case Nil
  then show ?case by auto
next
  case (Cons b bs i v n)
  consider "n < 8 * i" | "8 * i \<le> n" "n < 8 * Suc i" | "8 * Suc i \<le> n" by linarith
  then show ?case
  proof cases
    case 1
    then show ?thesis by (simp add: Cons.IH bit_or_iff bit_push_bit_iff)
  next
    case 2
    then obtain r where r: "n = 8 * i + r" "r < 8" by (metis add_less_cancel_left le_Suc_ex mult_Suc_right add.commute)
    then have "(n - 8 * i) div 8 = 0" "n mod 8 = n - 8 * i" by simp_all
    with 2 show ?thesis
      by (auto simp: Cons.IH bit_or_iff bit_push_bit_iff bit_ucast_iff)
  next
    case 3
    then obtain r where r: "n = 8 * i + 8 + r" by (metis add.commute le_Suc_ex mult_Suc_right)
    have "\<not> bit b (8 + r)" by (auto dest: bit_imp_le_length)
    moreover have "(n - 8 * i) div 8 = Suc ((n - 8 * Suc i) div 8)" unfolding r by simp
    ultimately show ?thesis using 3
      by (simp add: Cons.IH bit_or_iff bit_push_bit_iff bit_ucast_iff r)
  qed
qed

lemma bit_ff: "bit (0xFF :: 'a::len word) n \<longleftrightarrow> n < 8 \<and> n < LENGTH('a)"
proof -
  have eq: "(0xFF :: 'a word) = mask 8" by (simp add: mask_eq_exp_minus_1)
  show ?thesis unfolding eq bit_mask_iff by auto
qed

lemma bit_le_bytes:
  "i < LENGTH('a) div 8 \<Longrightarrow> k < 8 \<Longrightarrow> bit (le_bytes (w :: 'a::len word) ! i) k \<longleftrightarrow> bit w (8 * i + k)"
proof -
  assume a: "i < LENGTH('a) div 8" "k < 8"
  have "bit (ucast (drop_bit (8 * i) w AND 0xFF) :: byte) k \<longleftrightarrow> bit (drop_bit (8 * i) w) k \<and> bit (0xFF :: 'a word) k"
    using a(2) by (simp only: bit_ucast_iff bit_and_iff) auto
  also have "\<dots> \<longleftrightarrow> bit w (8 * i + k)"
    unfolding bit_ff bit_drop_bit_eq using a(2) by (auto dest: bit_imp_le_length)
  finally show ?thesis using a(1) by (simp add: le_bytes_def)
qed

lemma le_word_le_bytes: "8 dvd LENGTH('a) \<Longrightarrow> le_word (le_bytes w) = (w :: 'a::len word)"
proof (rule bit_word_eqI)
  fix n assume d: "8 dvd LENGTH('a)" and n: "n < LENGTH('a)"
  have "n div 8 < LENGTH('a) div 8" using d n by (simp add: div_less_iff_less_mult less_mult_imp_div_less)
  then have "bit (le_bytes w ! (n div 8)) (n mod 8) = bit w n" 
    by (simp add: bit_le_bytes)
  then show "bit (le_word (le_bytes w) :: 'a word) n = bit w n" using d n
    by (simp add: le_word_def bit_le_read)
qed

lemma le_bytes_le_word:
  assumes "8 * length bs = LENGTH('a)"
  shows "le_bytes (le_word bs :: 'a::len word) = bs"
proof (rule nth_equalityI)
  have l: "LENGTH('a) div 8 = length bs" using assms by simp
  then show "length (le_bytes (le_word bs :: 'a word)) = length bs" by (simp add: le_bytes_def)
  fix i assume i: "i < length (le_bytes (le_word bs :: 'a word))"
  then have i': "i < length bs" by (simp add: le_bytes_def l)
  show "le_bytes (le_word bs :: 'a word) ! i = bs ! i"
  proof (rule bit_word_eqI)
    fix k assume "k < LENGTH(8)"
    then have k: "k < 8" by simp
    have "8 * i + k < LENGTH('a)" using assms i' k by linarith
    moreover have "(8 * i + k) div 8 = i" using k by simp
    ultimately show "bit (le_bytes (le_word bs :: 'a word) ! i) k = bit (bs ! i) k"
      using k i' l assms by (simp add: bit_le_bytes le_word_def bit_le_read)
  qed
qed

lemma le_bytes_inject:
  "8 dvd LENGTH('a) \<Longrightarrow> le_bytes v = le_bytes w \<longleftrightarrow> v = (w :: 'a::len word)"
proof -
  assume d: "8 dvd LENGTH('a)"
  show ?thesis
  proof
    assume "le_bytes v = le_bytes w"
    then have "le_word (le_bytes v) = (le_word (le_bytes w) :: 'a word)" by (rule arg_cong)
    then show "v = w" unfolding le_word_le_bytes [OF d] .
  qed (rule arg_cong)
qed

section \<open>Contracts shared by several components\<close>

text \<open>
  A registry is a table that a registration writes and a dispatch reads: the two arrays of
  \<open>DispatchTable\<close>, the array of \<open>RequestRouter\<close> and the listener map of \<open>EventEmitter\<close>.
  \<open>valid t k\<close> says that slot \<open>k\<close> exists in \<open>t\<close>.
\<close>

definition put_all :: "('k \<Rightarrow> 'v \<Rightarrow> 't \<Rightarrow> 't) \<Rightarrow> ('k \<times> 'v) list \<Rightarrow> 't \<Rightarrow> 't" where
  "put_all put kvs t = fold (\<lambda>(k, v). put k v) kvs t"

lemma put_all_simps [simp]:
  "put_all put [] t = t"
  "put_all put ((k, v) # kvs) t = put_all put kvs (put k v t)"
  by (simp_all add: put_all_def)

locale registry =
  fixes put :: "'k \<Rightarrow> 'v \<Rightarrow> 't \<Rightarrow> 't"
    and look :: "'t \<Rightarrow> 'k \<Rightarrow> 'v option"
    and valid :: "'t \<Rightarrow> 'k \<Rightarrow> bool"
  assumes look_put: "valid t k \<Longrightarrow> look (put k v t) k' = (if k' = k then Some v else look t k')"
    and valid_put: "valid (put k v t) k' = valid t k'"
begin

lemma look_put_same: "valid t k \<Longrightarrow> look (put k v t) k = Some v"
  by (simp add: look_put)

lemma look_put_other: "valid t k \<Longrightarrow> k' \<noteq> k \<Longrightarrow> look (put k v t) k' = look t k'"
  by (simp add: look_put)

lemma valid_put_all: "valid (put_all put kvs t) k = valid t k"
proof (induction kvs arbitrary: t)
  case (Cons kv kvs)
  then show ?case by (cases kv) (simp add: valid_put)
qed simp

lemma look_put_all:
  "\<forall>k \<in> fst ` set kvs. valid t k \<Longrightarrow> distinct (map fst kvs) \<Longrightarrow>
     look (put_all put kvs t) k = (case map_of kvs k of Some v \<Rightarrow> Some v | None \<Rightarrow> look t k)"
proof (induction kvs arbitrary: t)
  case Nil
  then show ?case by simp
next
  case (Cons kv kvs)
  obtain k' v' where kv: "kv = (k', v')" by (cases kv)
  with Cons.prems have "look (put_all put kvs (put k' v' t)) k =
      (case map_of kvs k of Some v \<Rightarrow> Some v | None \<Rightarrow> look (put k' v' t) k)"
    by (intro Cons.IH) (auto simp: valid_put)
  moreover have "map_of kvs k' = None"
    using Cons.prems(2) kv by (auto simp: map_of_eq_None_iff)
  ultimately show ?case
    using Cons.prems(1) kv by (auto simp: look_put split: option.splits)
qed

text \<open>The order in which distinct slots are filled does not matter.\<close>

lemma look_put_all_perm:
  assumes "\<forall>k \<in> fst ` set kvs. valid t k" and "distinct (map fst kvs)"
    and "set kvs' = set kvs" and "distinct (map fst kvs')"
  shows "look (put_all put kvs' t) k = look (put_all put kvs t) k"
proof -
  have "map_of kvs' = map_of kvs"
    using assms by (metis map_of_inject_set)
  moreover have "\<forall>k \<in> fst ` set kvs'. valid t k"
    using assms(1,3) by simp
  ultimately show ?thesis
    using assms by (simp add: look_put_all)
qed

end

text \<open>
  A framing writes messages one after the other into a byte string and cuts them out of its
  front again: the TCP framing of \<open>TCPConnection\<close> and the length-prefixed parts of a
  \<open>Multi\<close> message. \<open>drain\<close> is the loop that cuts as long as it can; every cut takes at least
  one byte, so the length of the input bounds the number of rounds.
\<close>

fun drain :: "nat \<Rightarrow> (byte list \<Rightarrow> ('m \<times> byte list) option) \<Rightarrow> byte list \<Rightarrow> 'm list \<times> byte list" where
  "drain 0 u bs = ([], bs)"
| "drain (Suc n) u bs =
     (case u bs of
        None \<Rightarrow> ([], bs)
      | Some (m, r) \<Rightarrow> (let (ms, r') = drain n u r in (m # ms, r')))"

locale framing =
  fixes frame :: "'m \<Rightarrow> byte list"
    and unframe :: "byte list \<Rightarrow> ('m \<times> byte list) option"
    and ok :: "'m \<Rightarrow> bool"
  assumes unframe_frame: "ok m \<Longrightarrow> unframe (frame m @ r) = Some (m, r)"
    and unframe_shrinks: "unframe bs = Some (m, r) \<Longrightarrow> length r < length bs"
    and unframe_partial: "ok m \<Longrightarrow> n < length (frame m) \<Longrightarrow> unframe (take n (frame m)) = None"
begin

lemma unframe_nil: "unframe [] = None"
  using unframe_shrinks [of "[]"] by (cases "unframe []") auto

lemma drain_frames:
  assumes "\<forall>m \<in> set ms. ok m" and "unframe r = None" and "length ms < n"
  shows "drain n unframe (concat (map frame ms) @ r) = (ms, r)"
  using assms
proof (induction ms arbitrary: n)
  case Nil
  then show ?case by (cases n) auto
next
  case (Cons m ms)
  then obtain n' where "n = Suc n'" by (cases n) auto
  with Cons show ?case by (simp add: unframe_frame)
qed

text \<open>A byte string cut anywhere inside a frame yields exactly the frames before the cut.\<close>

lemma drain_partial:
  assumes "\<forall>m \<in> set ms. ok m" and "ok m'" and "k < length (frame m')" and "length ms < n"
  shows "drain n unframe (concat (map frame ms) @ take k (frame m')) = (ms, take k (frame m'))"
  using assms by (intro drain_frames) (auto simp: unframe_partial)

lemma drain_enough:
  "length bs < n \<Longrightarrow> length bs < n' \<Longrightarrow> drain n unframe bs = drain n' unframe bs"
proof (induction n arbitrary: bs n')
  case 0
  then show ?case by simp
next
  case (Suc n)
  then obtain k where k: "n' = Suc k" by (cases n') auto
  show ?case
  proof (cases "unframe bs")
    case None
    with k show ?thesis by simp
  next
    case (Some mr)
    obtain m r where mr: "mr = (m, r)" by (cases mr)
    with Some have "length r < length bs" by (auto intro: unframe_shrinks)
    with Suc.prems k have "drain n unframe r = drain k unframe r" by (intro Suc.IH) auto
    with Some mr k show ?thesis by simp
  qed
qed

text \<open>Any prefix of a sequence of frames yields the messages whose frames are complete in it.\<close>

lemma drain_prefix:
  assumes "\<forall>m \<in> set ms. ok m" and "w @ r = concat (map frame ms)" and "length ms < n"
  shows "\<exists>k t. drain n unframe w = (take k ms, t) \<and> w = concat (map frame (take k ms)) @ t"
  using assms
proof (induction ms arbitrary: w n)
  case Nil
  then show ?case by (cases n) (auto simp: unframe_nil)
next
  case (Cons m ms)
  obtain n' where n: "n = Suc n'" using Cons.prems(3) by (cases n) auto
  show ?case
  proof (cases "length (frame m) \<le> length w")
    case True
    with Cons.prems(2) have "take (length (frame m)) w = frame m"
      by (metis append_eq_append_conv_if concat.simps(2) list.simps(9))
    then obtain w' where w: "w = frame m @ w'" by (metis append_take_drop_id)
    with Cons.prems obtain k t where "drain n' unframe w' = (take k ms, t)"
        "w' = concat (map frame (take k ms)) @ t"
      using Cons.IH [of w' n'] n by auto
    with w n Cons.prems(1) have "drain n unframe w = (take (Suc k) (m # ms), t) \<and>
        w = concat (map frame (take (Suc k) (m # ms))) @ t"
      by (simp add: unframe_frame)
    then show ?thesis by blast
  next
    case False
    with Cons.prems(2) have "w = take (length w) (frame m)"
      by (simp add: append_eq_append_conv_if)
    with False Cons.prems(1) have "unframe w = None"
      using unframe_partial [of m "length w"] by simp
    with n have "drain n unframe w = (take 0 (m # ms), w) \<and> w = concat (map frame (take 0 (m # ms))) @ w"
      by simp
    then show ?thesis by blast
  qed
qed

lemma frames_inject:
  assumes "\<forall>m \<in> set ms. ok m" and "\<forall>m \<in> set ms'. ok m"
    and "concat (map frame ms) = concat (map frame ms')"
  shows "ms = ms'"
proof -
  let ?n = "Suc (length ms + length ms')"
  have "drain ?n unframe (concat (map frame ms) @ []) = (ms, [])"
    using assms(1) by (intro drain_frames) (auto simp: unframe_nil)
  moreover have "drain ?n unframe (concat (map frame ms') @ []) = (ms', [])"
    using assms(2) by (intro drain_frames) (auto simp: unframe_nil)
  ultimately show ?thesis using assms(3) by simp
qed

end

text \<open>
  A component with state is a start predicate and a step relation; an invariant of the
  component holds at the start and is kept by every step.
\<close>

locale invariant_system =
  fixes start :: "'s \<Rightarrow> bool"
    and step :: "'s \<Rightarrow> 's \<Rightarrow> bool"
    and inv :: "'s \<Rightarrow> bool"
  assumes inv_start: "start s \<Longrightarrow> inv s"
    and inv_step: "inv s \<Longrightarrow> step s t \<Longrightarrow> inv t"
begin

lemma inv_steps: "step\<^sup>*\<^sup>* s t \<Longrightarrow> inv s \<Longrightarrow> inv t"
  by (induction rule: rtranclp_induct) (auto intro: inv_step)

lemma inv_reachable: "start s \<Longrightarrow> step\<^sup>*\<^sup>* s t \<Longrightarrow> inv t"
  by (blast intro: inv_start inv_steps)

end

end
