(* ===== verification/Byte_Stream.thy ===== *)
theory Byte_Stream
  imports Steam_Prelude
begin

text \<open>
  \<open>Steam::Utils::Stream\<close> (include/steamclient/utilities/stream.hpp): a byte buffer that is
  either written or read. The operations are state transformers that may throw; offsets are
  \<open>size_t\<close> values, so the bound checks are written with the wrapping addition of the code.
  The second half is the calculus used by every message codec: what a sequence of reads
  consumes (\<open>reads\<close>), what a sequence of writes appends (\<open>writes\<close>), and the contract that a
  serialize/deserialize pair of a fixed-size structure keeps (\<open>struct_codec\<close>).
\<close>

section \<open>The stream and its operations\<close>

record stream =
  readBuffer :: "byte list option"
  buffer :: "byte list"
  position :: nat

type_synonym 'a sm = "stream \<Rightarrow> error + 'a \<times> stream"

definition write_mode_error :: error where
  "write_mode_error = Exn (RuntimeError ''Stream is in write mode'')"

definition read_mode_error :: error where
  "read_mode_error = Exn (RuntimeError ''Stream is in read mode'')"

definition underflow_error :: error where
  "underflow_error = Exn (RuntimeError ''Stream underflow'')"

definition Stream_new :: stream where
  "Stream_new = \<lparr>readBuffer = None, buffer = [], position = 0\<rparr>"

definition Stream_read :: "byte list \<Rightarrow> stream" where
  "Stream_read input = \<lparr>readBuffer = Some input, buffer = [], position = 0\<rparr>"

definition Stream_read_at :: "byte list \<Rightarrow> nat \<Rightarrow> stream" where
  "Stream_read_at input offset = \<lparr>readBuffer = Some input, buffer = [], position = offset\<rparr>"

definition Position :: "stream \<Rightarrow> nat" where
  "Position s = position s"

definition Length :: "stream \<Rightarrow> nat" where
  "Length s = (case readBuffer s of Some b \<Rightarrow> length b | None \<Rightarrow> length (buffer s))"

definition GetBuffer :: "stream \<Rightarrow> byte list" where
  "GetBuffer s = buffer s"

definition MoveBuffer :: "stream \<Rightarrow> byte list \<times> stream" where
  "MoveBuffer s = (buffer s, s\<lparr>buffer := []\<rparr>)"

definition Write_word :: "'a::len word \<Rightarrow> unit sm" where
  "Write_word value s =
     (case readBuffer s of
        Some _ \<Rightarrow> Inl read_mode_error
      | None \<Rightarrow> Inr ((), s\<lparr>buffer := buffer s @ le_bytes value\<rparr>))"

definition Write_vector :: "byte list \<Rightarrow> unit sm" where
  "Write_vector data s =
     (case readBuffer s of
        Some _ \<Rightarrow> Inl read_mode_error
      | None \<Rightarrow> Inr ((), s\<lparr>buffer := buffer s @ data\<rparr>))"

definition Write_bytes :: "byte list \<Rightarrow> unit sm" where
  "Write_bytes data s =
     (case readBuffer s of
        Some _ \<Rightarrow> Inl read_mode_error
      | None \<Rightarrow> Inr ((), s\<lparr>buffer := buffer s @ data\<rparr>))"

text \<open>The \<open>const void*\<close> overload, chosen for \<open>char\<close> data, has no mode check.\<close>

definition Write_raw :: "byte list \<Rightarrow> unit sm" where
  "Write_raw data s = Inr ((), s\<lparr>buffer := buffer s @ data\<rparr>)"

text \<open>
  The reads share the mode check, the bound check \<open>position + size > readBuffer->size()\<close> in
  \<open>size_t\<close> arithmetic, and the access to \<open>size\<close> bytes from \<open>position\<close> on. Where the sum wraps the
  check passes although the bytes are not there: the access is undefined.
\<close>

definition read_slice :: "nat \<Rightarrow> byte list sm" where
  "read_slice sz s =
     (case readBuffer s of
        None \<Rightarrow> Inl write_mode_error
      | Some b \<Rightarrow>
          if length b < sz_add (position s) sz then Inl underflow_error
          else if length b < position s + sz then Inl (Undefined OutOfBounds)
          else Inr (take sz (drop (position s) b), s\<lparr>position := sz_add (position s) sz\<rparr>))"

definition Read_word :: "'a::len word sm" where
  "Read_word s =
     (case read_slice (LENGTH('a) div 8) s of
        Inl e \<Rightarrow> Inl e
      | Inr (bs, s') \<Rightarrow> Inr (le_word bs, s'))"

definition Read_into :: "nat \<Rightarrow> byte list sm" where
  "Read_into sz = read_slice sz"

definition ReadBytes :: "nat \<Rightarrow> byte list sm" where
  "ReadBytes sz = read_slice sz"

fun read_words :: "nat \<Rightarrow> 'a::len word list sm" where
  "read_words 0 s = Inr ([], s)"
| "read_words (Suc n) s =
     (case Read_word s of
        Inl e \<Rightarrow> Inl e
      | Inr (w, s') \<Rightarrow>
          (case read_words n s' of Inl e \<Rightarrow> Inl e | Inr (ws, s'') \<Rightarrow> Inr (w # ws, s'')))"

definition ReadArray :: "nat \<Rightarrow> 'a::len word list sm" where
  "ReadArray count s =
     (case readBuffer s of
        None \<Rightarrow> Inl write_mode_error
      | Some b \<Rightarrow>
          if length b < sz_add (position s) (sz_mul (LENGTH('a) div 8) count)
          then Inl underflow_error
          else if vec_limit \<le> LENGTH('a) div 8 * count then Inl (Exn LengthError)
          else read_words count s)"

section \<open>Sequencing\<close>

definition returnS :: "'a \<Rightarrow> 'a sm" where
  "returnS x s = Inr (x, s)"

definition throwS :: "error \<Rightarrow> 'a sm" where
  "throwS e s = Inl e"

definition bindS :: "'a sm \<Rightarrow> ('a \<Rightarrow> 'b sm) \<Rightarrow> 'b sm" where
  "bindS m k s = (case m s of Inl e \<Rightarrow> Inl e | Inr (x, s') \<Rightarrow> k x s')"

definition thenS :: "'a sm \<Rightarrow> 'b sm \<Rightarrow> 'b sm" where
  "thenS m k = bindS m (\<lambda>_. k)"

lemma bindS_simps [simp]:
  "m s = Inl e \<Longrightarrow> bindS m k s = Inl e"
  "m s = Inr (x, s') \<Longrightarrow> bindS m k s = k x s'"
  by (simp_all add: bindS_def)

section \<open>What reads consume and writes append\<close>

definition reads :: "'a sm \<Rightarrow> nat \<Rightarrow> (byte list \<Rightarrow> 'a) \<Rightarrow> bool" where
  "reads m n f \<longleftrightarrow>
     (\<forall>b buf p. length b < vec_limit \<longrightarrow> p \<le> length b \<longrightarrow>
        m \<lparr>readBuffer = Some b, buffer = buf, position = p\<rparr> =
          (if p + n \<le> length b
           then Inr (f (take n (drop p b)), \<lparr>readBuffer = Some b, buffer = buf, position = p + n\<rparr>)
           else Inl underflow_error))"

definition writes :: "unit sm \<Rightarrow> byte list \<Rightarrow> bool" where
  "writes m bs \<longleftrightarrow>
     (\<forall>s. readBuffer s = None \<longrightarrow> m s = Inr ((), s\<lparr>buffer := buffer s @ bs\<rparr>))"

lemma reads_slice: "n < vec_limit \<Longrightarrow> reads (read_slice n) n (\<lambda>bs. bs)"
  by (auto simp: reads_def read_slice_def sz_add_small vec_limit_def sz_add_def)

lemma reads_word:
  "LENGTH('a) div 8 < vec_limit \<Longrightarrow> reads (Read_word :: 'a::len word sm) (LENGTH('a) div 8) le_word"
  using reads_slice [of "LENGTH('a) div 8"] by (auto simp: reads_def Read_word_def)

lemma reads_Read_into: "n < vec_limit \<Longrightarrow> reads (Read_into n) n (\<lambda>bs. bs)"
  by (simp add: Read_into_def reads_slice)

lemma reads_return: "reads (returnS x) 0 (\<lambda>_. x)"
  by (simp add: reads_def returnS_def)

lemma reads_bind:
  assumes "reads m n f" and "\<And>x. reads (k x) n' (g x)"
  shows "reads (bindS m k) (n + n') (\<lambda>bs. g (f (take n bs)) (drop n bs))"
  unfolding reads_def
proof (intro allI impI)
  fix b buf :: "byte list" and p :: nat
  assume b: "length b < vec_limit" and p: "p \<le> length b"
  let ?s = "\<lambda>p. \<lparr>readBuffer = Some b, buffer = buf, position = p\<rparr>"
  have m: "m (?s p) =
      (if p + n \<le> length b then Inr (f (take n (drop p b)), ?s (p + n)) else Inl underflow_error)"
    using assms(1) b p by (simp add: reads_def)
  show "bindS m k (?s p) =
      (if p + (n + n') \<le> length b
       then Inr (g (f (take n (take (n + n') (drop p b)))) (drop n (take (n + n') (drop p b))),
              ?s (p + (n + n')))
       else Inl underflow_error)"
  proof (cases "p + n \<le> length b")
    case True
    then have k: "k x (?s (p + n)) =
        (if p + n + n' \<le> length b then Inr (g x (take n' (drop (p + n) b)), ?s (p + n + n'))
         else Inl underflow_error)" for x
      using assms(2) b by (simp add: reads_def)
    have "drop n (take (n + n') (drop p b)) = take n' (drop (p + n) b)"
      by (simp add: drop_take add.commute)
    with True show ?thesis by (simp add: m k add.assoc min_def)
  qed (simp add: m)
qed

lemma writes_word: "writes (Write_word w) (le_bytes w)"
  by (simp add: writes_def Write_word_def)

lemma writes_vector: "writes (Write_vector bs) bs"
  by (simp add: writes_def Write_vector_def)

lemma writes_bytes: "writes (Write_bytes bs) bs"
  by (simp add: writes_def Write_bytes_def)

lemma writes_raw: "writes (Write_raw bs) bs"
  by (simp add: writes_def Write_raw_def)

lemma writes_return: "writes (returnS ()) []"
  by (simp add: writes_def returnS_def)

lemma writes_then: "writes m bs \<Longrightarrow> writes m' bs' \<Longrightarrow> writes (thenS m m') (bs @ bs')"
  by (simp add: writes_def thenS_def)

lemmas writes_intros = writes_word writes_vector writes_bytes writes_raw writes_return writes_then

text \<open>\<open>Stream s; x.Serialize(s); return s.MoveBuffer();\<close>\<close>

definition serialized :: "unit sm \<Rightarrow> error + byte list" where
  "serialized m = (case m Stream_new of Inl e \<Rightarrow> Inl e | Inr (_, s) \<Rightarrow> Inr (fst (MoveBuffer s)))"

lemma serialized_writes: "writes m bs \<Longrightarrow> serialized m = Inr bs"
  by (simp add: serialized_def writes_def Stream_new_def MoveBuffer_def)

section \<open>The contract of a fixed-size structure\<close>

text \<open>
  \<open>codec ok ser des n\<close>: every value accepted by \<open>ok\<close> is written as exactly \<open>n\<close> bytes, and
  reading consumes exactly \<open>n\<close> bytes and gives the value back.
\<close>

definition codec :: "('a \<Rightarrow> bool) \<Rightarrow> ('a \<Rightarrow> unit sm) \<Rightarrow> 'a sm \<Rightarrow> nat \<Rightarrow> bool" where
  "codec ok ser des n \<longleftrightarrow>
     (\<exists>enc dec. reads des n dec \<and>
        (\<forall>x. ok x \<longrightarrow> writes (ser x) (enc x) \<and> length (enc x) = n \<and> dec (enc x) = x))"

lemma codecI:
  assumes "reads des n' dec" and "n' = n" and "\<And>x. writes (ser x) (enc x)"
    and "\<And>x. ok x \<Longrightarrow> length (enc x) = n" and "\<And>x. ok x \<Longrightarrow> dec (enc x) = x"
  shows "codec ok ser des n"
  using assms unfolding codec_def by blast

locale struct_codec =
  fixes ok :: "'a \<Rightarrow> bool"
    and ser :: "'a \<Rightarrow> unit sm"
    and des :: "'a sm"
    and n :: nat
  assumes codec: "codec ok ser des n"
begin

lemma serialized_length:
  assumes "ok x"
  obtains bs where "serialized (ser x) = Inr bs" and "length bs = n"
  using codec assms unfolding codec_def by (metis serialized_writes)

lemma encoded:
  assumes "ok x"
  obtains bs where "writes (ser x) bs" and "length bs = n"
    and "\<And>b pre rest p q. b = pre @ bs @ rest \<Longrightarrow> length b < vec_limit \<Longrightarrow> p = length pre \<Longrightarrow>
      q = length pre + n \<Longrightarrow> des (Stream_read_at b p) = Inr (x, Stream_read_at b q)"
proof -
  obtain enc dec where d: "reads des n dec" and e: "writes (ser x) (enc x)"
    and l: "length (enc x) = n" and i: "dec (enc x) = x"
    using codec assms unfolding codec_def by blast
  have "des (Stream_read_at b p) = Inr (x, Stream_read_at b q)"
    if "b = pre @ enc x @ rest" "length b < vec_limit" "p = length pre" "q = length pre + n"
    for b pre rest p q
    using d that l i unfolding reads_def Stream_read_at_def by simp
  with e l show ?thesis by (rule that)
qed

lemma roundtrip:
  assumes "ok x" and "length pre + n + length rest < vec_limit"
  shows "\<exists>bs. serialized (ser x) = Inr bs \<and> length bs = n \<and>
    des (Stream_read_at (pre @ bs @ rest) (length pre)) =
      Inr (x, Stream_read_at (pre @ bs @ rest) (length pre + n))"
proof (rule encoded [OF assms(1)])
  fix bs
  assume w: "writes (ser x) bs" and l: "length bs = n"
    and d: "\<And>b pre rest p q. b = pre @ bs @ rest \<Longrightarrow> length b < vec_limit \<Longrightarrow> p = length pre \<Longrightarrow>
      q = length pre + n \<Longrightarrow> des (Stream_read_at b p) = Inr (x, Stream_read_at b q)"
  have "des (Stream_read_at (pre @ bs @ rest) (length pre)) =
      Inr (x, Stream_read_at (pre @ bs @ rest) (length pre + n))"
    using assms(2) l by (intro d [of _ pre rest]) simp_all
  with w l show ?thesis by (blast intro: serialized_writes)
qed

lemma inject:
  assumes "ok x" and "ok y" and "serialized (ser x) = serialized (ser y)"
  shows "x = y"
proof -
  obtain enc dec where "\<And>x. ok x \<Longrightarrow> writes (ser x) (enc x) \<and> dec (enc x) = x"
    using codec unfolding codec_def by blast
  with assms show ?thesis by (metis serialized_writes Inr_inject)
qed

lemma truncated:
  assumes "length b < vec_limit" and "p \<le> length b" and "length b < p + n"
  shows "des (Stream_read_at b p) = Inl underflow_error"
  using codec assms unfolding codec_def reads_def Stream_read_at_def by auto

lemma total:
  assumes "length b < vec_limit" and "p + n \<le> length b"
  shows "\<exists>x. des (Stream_read_at b p) = Inr (x, Stream_read_at b (p + n))"
  using codec assms unfolding codec_def reads_def Stream_read_at_def by auto

end

end
