(* ===== verification/Msg_Utils.thy ===== *)
theory Msg_Utils
  imports Steam_Enums
begin

text \<open>
  \<open>Steam::Utils::MsgUtil\<close> (include/steamclient/utilities/msg_utils.hpp): the top bit of a raw
  message number says whether the message has a protobuf header.
\<close>

definition PROTO_MASK :: u32 where
  "PROTO_MASK = 0x80000000"

definition make_msg :: "u32 \<Rightarrow> bool \<Rightarrow> u32" where
  "make_msg msg isProto = (let value = msg in if isProto then value OR PROTO_MASK else value)"

definition get_msg :: "u32 \<Rightarrow> u32" where
  "get_msg raw = raw AND NOT PROTO_MASK"

definition make_gc_msg :: "u32 \<Rightarrow> bool \<Rightarrow> u32" where
  "make_gc_msg msg isProto = (if isProto then msg OR PROTO_MASK else msg)"

definition get_gc_msg :: "u32 \<Rightarrow> u32" where
  "get_gc_msg raw = raw AND NOT PROTO_MASK"

definition is_protobuf_msg :: "u32 \<Rightarrow> bool" where
  "is_protobuf_msg emsg \<longleftrightarrow> emsg AND PROTO_MASK > 0"

section \<open>The mask as a bit\<close>

lemma bit_PROTO_MASK: "bit PROTO_MASK k \<longleftrightarrow> k = 31"
proof -
  have eq: "PROTO_MASK = push_bit 31 1" by (simp add: PROTO_MASK_def)
  show ?thesis unfolding eq by (auto simp only: bit_push_bit_iff bit_1_iff) simp_all
qed

lemma is_protobuf_msg_iff: "is_protobuf_msg m \<longleftrightarrow> bit m 31"
proof -
  have "m AND PROTO_MASK = (if bit m 31 then PROTO_MASK else 0)"
    by (rule bit_word_eqI) (auto simp: bit_and_iff bit_PROTO_MASK)
  then show ?thesis by (simp add: is_protobuf_msg_def PROTO_MASK_def)
qed

lemma bit_get_msg: "bit (get_msg m) k \<longleftrightarrow> bit m k \<and> k \<noteq> 31"
  by (auto simp: get_msg_def bit_and_iff bit_not_iff bit_PROTO_MASK dest: bit_imp_le_length)

lemma bit_make_msg: "bit (make_msg m p) k \<longleftrightarrow> bit m k \<or> (p \<and> k = 31)"
  by (auto simp: make_msg_def bit_or_iff bit_PROTO_MASK)

lemma get_msg_make_msg: "\<not> bit m 31 \<Longrightarrow> get_msg (make_msg m p) = m"
  by (rule bit_word_eqI) (auto simp: bit_get_msg bit_make_msg)

lemma is_protobuf_make_msg: "is_protobuf_msg (make_msg m True)"
  by (simp add: is_protobuf_msg_iff bit_make_msg)

lemma gc_msg_eq: "make_gc_msg = make_msg" "get_gc_msg = get_msg"
  by (simp_all add: fun_eq_iff make_gc_msg_def make_msg_def get_gc_msg_def get_msg_def)

lemma bit31_iff: "bit (m :: u32) 31 \<longleftrightarrow> 2 ^ 31 \<le> unat m"
proof -
  have "bit m 31 \<longleftrightarrow> bit (unat m) 31"
    by (simp add: bit_unsigned_iff)
  then have "bit m 31 \<longleftrightarrow> odd (unat m div 2 ^ 31)"
    by (simp only: bit_iff_odd)
  moreover have "unat m div 2 ^ 31 < 2"
    using unsigned_less [of m, where 'a = nat] by (simp add: div_less_iff_less_mult)
  ultimately show ?thesis
    by (auto simp: less_2_cases_iff div_eq_0_iff not_less)
qed

end
