(* ===== verification/Steam_Headers.thy ===== *)
theory Steam_Headers
  imports Byte_Stream Msg_Utils
begin

text \<open>
  The identifiers and message headers of
  include/steamclient/types/generated/SteamLanguageInternal.hpp: every structure is a record
  with its constructor (\<open>_new\<close>), its accessors and its \<open>Serialize\<close>/\<open>Deserialize\<close> pair as stream
  programs. Each fixed-size pair is shown to keep the contract \<open>struct_codec\<close>. The two protobuf
  headers embed a generated protobuf message, which is a parameter of their operations.
\<close>

section \<open>Reading and writing words of the four widths\<close>

lemma reads_u8: "reads (Read_word :: byte sm) 1 le_word"
  using reads_word [where 'a = 8] by (simp add: vec_limit_def)

lemma reads_u16: "reads (Read_word :: u16 sm) 2 le_word"
  using reads_word [where 'a = 16] by (simp add: vec_limit_def)

lemma reads_u32: "reads (Read_word :: u32 sm) 4 le_word"
  using reads_word [where 'a = 32] by (simp add: vec_limit_def)

lemma reads_u64: "reads (Read_word :: u64 sm) 8 le_word"
  using reads_word [where 'a = 64] by (simp add: vec_limit_def)

lemmas reads_intros = reads_bind reads_u8 reads_u16 reads_u32 reads_u64 reads_return

lemma le_word_le_bytes_8 [simp]: "le_word (le_bytes (w :: byte)) = w"
  by (simp add: le_word_le_bytes)

lemma le_word_le_bytes_16 [simp]: "le_word (le_bytes (w :: u16)) = w"
  by (simp add: le_word_le_bytes)

lemma le_word_le_bytes_32 [simp]: "le_word (le_bytes (w :: u32)) = w"
  by (simp add: le_word_le_bytes)

lemma le_word_le_bytes_64 [simp]: "le_word (le_bytes (w :: u64)) = w"
  by (simp add: le_word_le_bytes)

section \<open>Identifiers\<close>

record SteamID =
  SteamID_value :: u64

definition SteamID_default :: SteamID where
  "SteamID_default = \<lparr>SteamID_value = 0\<rparr>"

definition SteamID_of :: "u64 \<Rightarrow> SteamID" where
  "SteamID_of val = \<lparr>SteamID_value = val\<rparr>"

definition SteamID_ConvertToUInt64 :: "SteamID \<Rightarrow> u64" where
  "SteamID_ConvertToUInt64 s = SteamID_value s"

definition ACCOUNT_ID_SHIFT :: nat where "ACCOUNT_ID_SHIFT = 0"
definition INSTANCE_SHIFT :: nat where "INSTANCE_SHIFT = 32"
definition ACCOUNT_TYPE_SHIFT :: nat where "ACCOUNT_TYPE_SHIFT = 52"
definition UNIVERSE_SHIFT :: nat where "UNIVERSE_SHIFT = 56"

definition ACCOUNT_ID_MASK :: u64 where "ACCOUNT_ID_MASK = 0xFFFFFFFF"
definition INSTANCE_MASK :: u64 where "INSTANCE_MASK = 0xFFFFF"
definition ACCOUNT_TYPE_MASK :: u64 where "ACCOUNT_TYPE_MASK = 0xF"
definition UNIVERSE_MASK :: u64 where "UNIVERSE_MASK = 0xFF"

text \<open>
  The conversions to \<open>uint64_t\<close> extend the unsigned account and instance numbers with zeros and
  the \<open>int\<close> behind the two enumerations with its sign.
\<close>

definition SteamID_make :: "u32 \<Rightarrow> u32 \<Rightarrow> u32 \<Rightarrow> u32 \<Rightarrow> SteamID" where
  "SteamID_make accountID inst universe accountType =
     \<lparr>SteamID_value =
        push_bit ACCOUNT_ID_SHIFT (ucast accountID) OR
        push_bit INSTANCE_SHIFT (ucast inst) OR
        push_bit ACCOUNT_TYPE_SHIFT (scast accountType) OR
        push_bit UNIVERSE_SHIFT (scast universe)\<rparr>"

record GameID =
  GameID_value :: u64

definition GameID_default :: GameID where
  "GameID_default = \<lparr>GameID_value = 0\<rparr>"

definition GameID_of :: "u64 \<Rightarrow> GameID" where
  "GameID_of v = \<lparr>GameID_value = v\<rparr>"

definition GameID_ConvertToUInt64 :: "GameID \<Rightarrow> u64" where
  "GameID_ConvertToUInt64 g = GameID_value g"

lemma id_of_convert [simp]:
  "SteamID_of (SteamID_ConvertToUInt64 s) = s"
  "GameID_of (GameID_ConvertToUInt64 g) = g"
  by (simp_all add: SteamID_of_def SteamID_ConvertToUInt64_def GameID_of_def
      GameID_ConvertToUInt64_def)

section \<open>Fixed-size headers\<close>

definition UdpHeader_MAGIC :: u32 where
  "UdpHeader_MAGIC = 0x31305356"

record UdpHeader =
  UdpHeader_magic :: u32
  UdpHeader_payloadSize :: u16
  UdpHeader_packetType :: byte
  UdpHeader_flags :: byte
  UdpHeader_sourceConnID :: u32
  UdpHeader_destConnID :: u32
  UdpHeader_seqThis :: u32
  UdpHeader_seqAck :: u32
  UdpHeader_packetsInMsg :: u32
  UdpHeader_msgStartSeq :: u32
  UdpHeader_msgSize :: u32

definition UdpHeader_new :: UdpHeader where
  "UdpHeader_new =
     \<lparr>UdpHeader_magic = UdpHeader_MAGIC,
      UdpHeader_payloadSize = 0,
      UdpHeader_packetType = EUdpPacketType_Invalid,
      UdpHeader_flags = 0,
      UdpHeader_sourceConnID = 512,
      UdpHeader_destConnID = 0,
      UdpHeader_seqThis = 0,
      UdpHeader_seqAck = 0,
      UdpHeader_packetsInMsg = 0,
      UdpHeader_msgStartSeq = 0,
      UdpHeader_msgSize = 0\<rparr>"

definition UdpHeader_Serialize :: "UdpHeader \<Rightarrow> unit sm" where
  "UdpHeader_Serialize m =
     thenS (Write_word (UdpHeader_magic m)) (
     thenS (Write_word (UdpHeader_payloadSize m)) (
     thenS (Write_word (UdpHeader_packetType m)) (
     thenS (Write_word (UdpHeader_flags m)) (
     thenS (Write_word (UdpHeader_sourceConnID m)) (
     thenS (Write_word (UdpHeader_destConnID m)) (
     thenS (Write_word (UdpHeader_seqThis m)) (
     thenS (Write_word (UdpHeader_seqAck m)) (
     thenS (Write_word (UdpHeader_packetsInMsg m)) (
     thenS (Write_word (UdpHeader_msgStartSeq m)) (
     Write_word (UdpHeader_msgSize m)))))))))))"

definition UdpHeader_Deserialize :: "UdpHeader sm" where
  "UdpHeader_Deserialize =
     bindS Read_word (\<lambda>magic.
     bindS Read_word (\<lambda>payloadSize.
     bindS Read_word (\<lambda>packetType.
     bindS Read_word (\<lambda>flags.
     bindS Read_word (\<lambda>sourceConnID.
     bindS Read_word (\<lambda>destConnID.
     bindS Read_word (\<lambda>seqThis.
     bindS Read_word (\<lambda>seqAck.
     bindS Read_word (\<lambda>packetsInMsg.
     bindS Read_word (\<lambda>msgStartSeq.
     bindS Read_word (\<lambda>msgSize.
     returnS \<lparr>UdpHeader_magic = magic,
        UdpHeader_payloadSize = payloadSize,
        UdpHeader_packetType = packetType,
        UdpHeader_flags = flags,
        UdpHeader_sourceConnID = sourceConnID,
        UdpHeader_destConnID = destConnID,
        UdpHeader_seqThis = seqThis,
        UdpHeader_seqAck = seqAck,
        UdpHeader_packetsInMsg = packetsInMsg,
        UdpHeader_msgStartSeq = msgStartSeq,
        UdpHeader_msgSize = msgSize\<rparr>)))))))))))"

lemma UdpHeader_codec: "codec (\<lambda>_. True) UdpHeader_Serialize UdpHeader_Deserialize 36"
  unfolding UdpHeader_Serialize_def UdpHeader_Deserialize_def
  by (rule codecI, (rule reads_intros)+, simp, (rule writes_intros)+, simp_all)

interpretation UdpHeader: struct_codec "\<lambda>_. True" UdpHeader_Serialize UdpHeader_Deserialize 36
  by unfold_locales (rule UdpHeader_codec)

definition ChallengeData_CHALLENGE_MASK :: u32 where
  "ChallengeData_CHALLENGE_MASK = 0xA426DF2B"

record ChallengeData =
  ChallengeData_challengeValue :: u32
  ChallengeData_serverLoad :: u32

definition ChallengeData_new :: ChallengeData where
  "ChallengeData_new =
     \<lparr>ChallengeData_challengeValue = 0,
      ChallengeData_serverLoad = 0\<rparr>"

definition ChallengeData_Serialize :: "ChallengeData \<Rightarrow> unit sm" where
  "ChallengeData_Serialize m =
     thenS (Write_word (ChallengeData_challengeValue m)) (
     Write_word (ChallengeData_serverLoad m))"

definition ChallengeData_Deserialize :: "ChallengeData sm" where
  "ChallengeData_Deserialize =
     bindS Read_word (\<lambda>challengeValue.
     bindS Read_word (\<lambda>serverLoad.
     returnS \<lparr>ChallengeData_challengeValue = challengeValue,
        ChallengeData_serverLoad = serverLoad\<rparr>))"

lemma ChallengeData_codec: "codec (\<lambda>_. True) ChallengeData_Serialize ChallengeData_Deserialize 8"
  unfolding ChallengeData_Serialize_def ChallengeData_Deserialize_def
  by (rule codecI, (rule reads_intros)+, simp, (rule writes_intros)+, simp_all)

interpretation ChallengeData: struct_codec "\<lambda>_. True" ChallengeData_Serialize ChallengeData_Deserialize 8
  by unfold_locales (rule ChallengeData_codec)

definition ConnectData_CHALLENGE_MASK :: u32 where
  "ConnectData_CHALLENGE_MASK = ChallengeData_CHALLENGE_MASK"

record ConnectData =
  ConnectData_challengeValue :: u32

definition ConnectData_new :: ConnectData where
  "ConnectData_new =
     \<lparr>ConnectData_challengeValue = 0\<rparr>"

definition ConnectData_Serialize :: "ConnectData \<Rightarrow> unit sm" where
  "ConnectData_Serialize m =
     Write_word (ConnectData_challengeValue m)"

definition ConnectData_Deserialize :: "ConnectData sm" where
  "ConnectData_Deserialize =
     bindS Read_word (\<lambda>challengeValue.
     returnS \<lparr>ConnectData_challengeValue = challengeValue\<rparr>)"

lemma ConnectData_codec: "codec (\<lambda>_. True) ConnectData_Serialize ConnectData_Deserialize 4"
  unfolding ConnectData_Serialize_def ConnectData_Deserialize_def
  by (rule codecI, (rule reads_intros)+, simp, (rule writes_intros)+, simp_all)

interpretation ConnectData: struct_codec "\<lambda>_. True" ConnectData_Serialize ConnectData_Deserialize 4
  by unfold_locales (rule ConnectData_codec)

datatype Accept = Accept_new

definition Accept_Serialize :: "Accept \<Rightarrow> unit sm" where
  "Accept_Serialize m =
     returnS ()"

definition Accept_Deserialize :: "Accept sm" where
  "Accept_Deserialize =
     returnS Accept_new"

lemma Accept_codec: "codec (\<lambda>_. True) Accept_Serialize Accept_Deserialize 0"
  unfolding Accept_Serialize_def Accept_Deserialize_def
  by (rule codecI, (rule reads_intros)+, simp, (rule writes_intros)+, simp, metis (full_types) Accept.exhaust)

interpretation Accept: struct_codec "\<lambda>_. True" Accept_Serialize Accept_Deserialize 0
  by unfold_locales (rule Accept_codec)

datatype Datagram = Datagram_new

definition Datagram_Serialize :: "Datagram \<Rightarrow> unit sm" where
  "Datagram_Serialize m =
     returnS ()"

definition Datagram_Deserialize :: "Datagram sm" where
  "Datagram_Deserialize =
     returnS Datagram_new"

lemma Datagram_codec: "codec (\<lambda>_. True) Datagram_Serialize Datagram_Deserialize 0"
  unfolding Datagram_Serialize_def Datagram_Deserialize_def
  by (rule codecI, (rule reads_intros)+, simp, (rule writes_intros)+, simp, metis (full_types) Datagram.exhaust)

interpretation Datagram: struct_codec "\<lambda>_. True" Datagram_Serialize Datagram_Deserialize 0
  by unfold_locales (rule Datagram_codec)

datatype Disconnect = Disconnect_new

definition Disconnect_Serialize :: "Disconnect \<Rightarrow> unit sm" where
  "Disconnect_Serialize m =
     returnS ()"

definition Disconnect_Deserialize :: "Disconnect sm" where
  "Disconnect_Deserialize =
     returnS Disconnect_new"

lemma Disconnect_codec: "codec (\<lambda>_. True) Disconnect_Serialize Disconnect_Deserialize 0"
  unfolding Disconnect_Serialize_def Disconnect_Deserialize_def
  by (rule codecI, (rule reads_intros)+, simp, (rule writes_intros)+, simp, metis (full_types) Disconnect.exhaust)

interpretation Disconnect: struct_codec "\<lambda>_. True" Disconnect_Serialize Disconnect_Deserialize 0
  by unfold_locales (rule Disconnect_codec)

record MsgHdr =
  MsgHdr_Msg :: u32
  MsgHdr_targetJobID :: u64
  MsgHdr_sourceJobID :: u64

definition MsgHdr_new :: MsgHdr where
  "MsgHdr_new =
     \<lparr>MsgHdr_Msg = EMsg_Invalid,
      MsgHdr_targetJobID = - 1,
      MsgHdr_sourceJobID = - 1\<rparr>"

definition MsgHdr_SetEMsg :: "u32 \<Rightarrow> MsgHdr \<Rightarrow> MsgHdr" where
  "MsgHdr_SetEMsg msg m = m\<lparr>MsgHdr_Msg := msg\<rparr>"

definition MsgHdr_Serialize :: "MsgHdr \<Rightarrow> unit sm" where
  "MsgHdr_Serialize m =
     thenS (Write_word (MsgHdr_Msg m)) (
     thenS (Write_word (MsgHdr_targetJobID m)) (
     Write_word (MsgHdr_sourceJobID m)))"

definition MsgHdr_Deserialize :: "MsgHdr sm" where
  "MsgHdr_Deserialize =
     bindS Read_word (\<lambda>Msg.
     bindS Read_word (\<lambda>targetJobID.
     bindS Read_word (\<lambda>sourceJobID.
     returnS \<lparr>MsgHdr_Msg = Msg,
        MsgHdr_targetJobID = targetJobID,
        MsgHdr_sourceJobID = sourceJobID\<rparr>)))"

lemma MsgHdr_codec: "codec (\<lambda>_. True) MsgHdr_Serialize MsgHdr_Deserialize 20"
  unfolding MsgHdr_Serialize_def MsgHdr_Deserialize_def
  by (rule codecI, (rule reads_intros)+, simp, (rule writes_intros)+, simp_all)

interpretation MsgHdr: struct_codec "\<lambda>_. True" MsgHdr_Serialize MsgHdr_Deserialize 20
  by unfold_locales (rule MsgHdr_codec)

record ExtendedClientMsgHdr =
  ExtendedClientMsgHdr_Msg :: u32
  ExtendedClientMsgHdr_headerSize :: byte
  ExtendedClientMsgHdr_headerVersion :: u16
  ExtendedClientMsgHdr_targetJobID :: u64
  ExtendedClientMsgHdr_sourceJobID :: u64
  ExtendedClientMsgHdr_headerCanary :: byte
  ExtendedClientMsgHdr_steamID :: u64
  ExtendedClientMsgHdr_sessionID :: u32

definition ExtendedClientMsgHdr_new :: ExtendedClientMsgHdr where
  "ExtendedClientMsgHdr_new =
     \<lparr>ExtendedClientMsgHdr_Msg = EMsg_Invalid,
      ExtendedClientMsgHdr_headerSize = 36,
      ExtendedClientMsgHdr_headerVersion = 2,
      ExtendedClientMsgHdr_targetJobID = - 1,
      ExtendedClientMsgHdr_sourceJobID = - 1,
      ExtendedClientMsgHdr_headerCanary = 239,
      ExtendedClientMsgHdr_steamID = 0,
      ExtendedClientMsgHdr_sessionID = 0\<rparr>"

definition ExtendedClientMsgHdr_SetEMsg :: "u32 \<Rightarrow> ExtendedClientMsgHdr \<Rightarrow> ExtendedClientMsgHdr" where
  "ExtendedClientMsgHdr_SetEMsg msg m = m\<lparr>ExtendedClientMsgHdr_Msg := msg\<rparr>"

definition ExtendedClientMsgHdr_GetsteamID :: "ExtendedClientMsgHdr \<Rightarrow> SteamID" where
  "ExtendedClientMsgHdr_GetsteamID m = SteamID_of (ExtendedClientMsgHdr_steamID m)"

definition ExtendedClientMsgHdr_SetsteamID :: "SteamID \<Rightarrow> ExtendedClientMsgHdr \<Rightarrow> ExtendedClientMsgHdr" where
  "ExtendedClientMsgHdr_SetsteamID val m = m\<lparr>ExtendedClientMsgHdr_steamID := SteamID_ConvertToUInt64 val\<rparr>"

definition ExtendedClientMsgHdr_Serialize :: "ExtendedClientMsgHdr \<Rightarrow> unit sm" where
  "ExtendedClientMsgHdr_Serialize m =
     thenS (Write_word (ExtendedClientMsgHdr_Msg m)) (
     thenS (Write_word (ExtendedClientMsgHdr_headerSize m)) (
     thenS (Write_word (ExtendedClientMsgHdr_headerVersion m)) (
     thenS (Write_word (ExtendedClientMsgHdr_targetJobID m)) (
     thenS (Write_word (ExtendedClientMsgHdr_sourceJobID m)) (
     thenS (Write_word (ExtendedClientMsgHdr_headerCanary m)) (
     thenS (Write_word (ExtendedClientMsgHdr_steamID m)) (
     Write_word (ExtendedClientMsgHdr_sessionID m))))))))"

definition ExtendedClientMsgHdr_Deserialize :: "ExtendedClientMsgHdr sm" where
  "ExtendedClientMsgHdr_Deserialize =
     bindS Read_word (\<lambda>Msg.
     bindS Read_word (\<lambda>headerSize.
     bindS Read_word (\<lambda>headerVersion.
     bindS Read_word (\<lambda>targetJobID.
     bindS Read_word (\<lambda>sourceJobID.
     bindS Read_word (\<lambda>headerCanary.
     bindS Read_word (\<lambda>steamID.
     bindS Read_word (\<lambda>sessionID.
     returnS \<lparr>ExtendedClientMsgHdr_Msg = Msg,
        ExtendedClientMsgHdr_headerSize = headerSize,
        ExtendedClientMsgHdr_headerVersion = headerVersion,
        ExtendedClientMsgHdr_targetJobID = targetJobID,
        ExtendedClientMsgHdr_sourceJobID = sourceJobID,
        ExtendedClientMsgHdr_headerCanary = headerCanary,
        ExtendedClientMsgHdr_steamID = steamID,
        ExtendedClientMsgHdr_sessionID = sessionID\<rparr>))))))))"

lemma ExtendedClientMsgHdr_codec: "codec (\<lambda>_. True) ExtendedClientMsgHdr_Serialize ExtendedClientMsgHdr_Deserialize 36"
  unfolding ExtendedClientMsgHdr_Serialize_def ExtendedClientMsgHdr_Deserialize_def
  by (rule codecI, (rule reads_intros)+, simp, (rule writes_intros)+, simp_all)

interpretation ExtendedClientMsgHdr: struct_codec "\<lambda>_. True" ExtendedClientMsgHdr_Serialize ExtendedClientMsgHdr_Deserialize 36
  by unfold_locales (rule ExtendedClientMsgHdr_codec)

record MsgGCHdr =
  MsgGCHdr_headerVersion :: u16
  MsgGCHdr_targetJobID :: u64
  MsgGCHdr_sourceJobID :: u64

definition MsgGCHdr_new :: MsgGCHdr where
  "MsgGCHdr_new =
     \<lparr>MsgGCHdr_headerVersion = 1,
      MsgGCHdr_targetJobID = - 1,
      MsgGCHdr_sourceJobID = - 1\<rparr>"

definition MsgGCHdr_SetEMsg :: "u32 \<Rightarrow> MsgGCHdr \<Rightarrow> MsgGCHdr" where
  "MsgGCHdr_SetEMsg msg m = m"

definition MsgGCHdr_Serialize :: "MsgGCHdr \<Rightarrow> unit sm" where
  "MsgGCHdr_Serialize m =
     thenS (Write_word (MsgGCHdr_headerVersion m)) (
     thenS (Write_word (MsgGCHdr_targetJobID m)) (
     Write_word (MsgGCHdr_sourceJobID m)))"

definition MsgGCHdr_Deserialize :: "MsgGCHdr sm" where
  "MsgGCHdr_Deserialize =
     bindS Read_word (\<lambda>headerVersion.
     bindS Read_word (\<lambda>targetJobID.
     bindS Read_word (\<lambda>sourceJobID.
     returnS \<lparr>MsgGCHdr_headerVersion = headerVersion,
        MsgGCHdr_targetJobID = targetJobID,
        MsgGCHdr_sourceJobID = sourceJobID\<rparr>)))"

lemma MsgGCHdr_codec: "codec (\<lambda>_. True) MsgGCHdr_Serialize MsgGCHdr_Deserialize 18"
  unfolding MsgGCHdr_Serialize_def MsgGCHdr_Deserialize_def
  by (rule codecI, (rule reads_intros)+, simp, (rule writes_intros)+, simp_all)

interpretation MsgGCHdr: struct_codec "\<lambda>_. True" MsgGCHdr_Serialize MsgGCHdr_Deserialize 18
  by unfold_locales (rule MsgGCHdr_codec)

section \<open>Headers with a protobuf part\<close>

text \<open>
  The class of a protobuf message is generated at build time. \<open>SerializeToString\<close> gives the
  bytes or \<open>None\<close> where it returns false; \<open>ParseFromArray\<close> clears the message, gives whether
  the input was well formed and the message it left behind; \<open>proto_new\<close> is the default message.
\<close>

record 'p proto_api =
  SerializeToString :: "'p \<Rightarrow> byte list option"
  ParseFromArray :: "byte list \<Rightarrow> bool \<times> 'p"
  proto_new :: 'p

text \<open>What the protobuf library documents of the pair: a message parses back from its bytes,
  and no serialized message reaches 2 GiB.\<close>

definition proto_lawful :: "('p, 'z) proto_api_scheme \<Rightarrow> bool" where
  "proto_lawful api \<longleftrightarrow>
     (\<forall>p d. SerializeToString api p = Some d \<longrightarrow>
        ParseFromArray api d = (True, p) \<and> length d < 2 ^ 31)"

record 'p MsgHdrProtoBuf =
  MsgHdrProtoBuf_Msg :: u32
  MsgHdrProtoBuf_headerLength :: u32
  MsgHdrProtoBuf_proto :: 'p

definition MsgHdrProtoBuf_new :: "('p, 'z) proto_api_scheme \<Rightarrow> 'p MsgHdrProtoBuf" where
  "MsgHdrProtoBuf_new api =
     \<lparr>MsgHdrProtoBuf_Msg = EMsg_Invalid,
      MsgHdrProtoBuf_headerLength = 0,
      MsgHdrProtoBuf_proto = proto_new api\<rparr>"

definition MsgHdrProtoBuf_SetEMsg :: "u32 \<Rightarrow> 'p MsgHdrProtoBuf \<Rightarrow> 'p MsgHdrProtoBuf" where
  "MsgHdrProtoBuf_SetEMsg msg m = m\<lparr>MsgHdrProtoBuf_Msg := msg\<rparr>"

text \<open>\<open>Serialize\<close> is \<open>const\<close> but stores the length in a mutable field: it gives the header back.\<close>

definition MsgHdrProtoBuf_Serialize ::
    "('p, 'z) proto_api_scheme \<Rightarrow> 'p MsgHdrProtoBuf \<Rightarrow> 'p MsgHdrProtoBuf sm" where
  "MsgHdrProtoBuf_Serialize api m =
     (case SerializeToString api (MsgHdrProtoBuf_proto m) of
        None \<Rightarrow> throwS (Exn (RuntimeError ''Failed to serialize proto message''))
      | Some protoData \<Rightarrow>
          (let m' = m\<lparr>MsgHdrProtoBuf_headerLength := word_of_nat (length protoData)\<rparr> in
           thenS (Write_word (make_msg (MsgHdrProtoBuf_Msg m') True)) (
           thenS (Write_word (MsgHdrProtoBuf_headerLength m')) (
           thenS (Write_raw protoData) (
           returnS m')))))"

definition MsgHdrProtoBuf_Deserialize ::
    "('p, 'z) proto_api_scheme \<Rightarrow> 'p MsgHdrProtoBuf sm" where
  "MsgHdrProtoBuf_Deserialize api =
     bindS Read_word (\<lambda>raw.
     bindS Read_word (\<lambda>headerLength.
     if sint headerLength < 0 then throwS (Exn (OutOfRange ''Negative length''))
     else
       bindS (Read_into (unat headerLength)) (\<lambda>buffer.
       case ParseFromArray api buffer of
         (False, _) \<Rightarrow> throwS (Exn (RuntimeError ''Failed to parse protobuf message''))
       | (True, proto) \<Rightarrow>
           returnS \<lparr>MsgHdrProtoBuf_Msg = get_msg raw,
             MsgHdrProtoBuf_headerLength = headerLength,
             MsgHdrProtoBuf_proto = proto\<rparr>)))"

record 'p MsgGCHdrProtoBuf =
  MsgGCHdrProtoBuf_Msg :: u32
  MsgGCHdrProtoBuf_headerLength :: u32
  MsgGCHdrProtoBuf_proto :: 'p

definition MsgGCHdrProtoBuf_new :: "('p, 'z) proto_api_scheme \<Rightarrow> 'p MsgGCHdrProtoBuf" where
  "MsgGCHdrProtoBuf_new api =
     \<lparr>MsgGCHdrProtoBuf_Msg = 0,
      MsgGCHdrProtoBuf_headerLength = 0,
      MsgGCHdrProtoBuf_proto = proto_new api\<rparr>"

definition MsgGCHdrProtoBuf_SetEMsg :: "u32 \<Rightarrow> 'p MsgGCHdrProtoBuf \<Rightarrow> 'p MsgGCHdrProtoBuf" where
  "MsgGCHdrProtoBuf_SetEMsg msg m = m\<lparr>MsgGCHdrProtoBuf_Msg := msg\<rparr>"

text \<open>Unlike its sibling, this \<open>Serialize\<close> ends after the length: the message is not written.\<close>

definition MsgGCHdrProtoBuf_Serialize ::
    "('p, 'z) proto_api_scheme \<Rightarrow> 'p MsgGCHdrProtoBuf \<Rightarrow> 'p MsgGCHdrProtoBuf sm" where
  "MsgGCHdrProtoBuf_Serialize api m =
     (case SerializeToString api (MsgGCHdrProtoBuf_proto m) of
        None \<Rightarrow> throwS (Exn (RuntimeError ''Failed to serialize proto message''))
      | Some protoData \<Rightarrow>
          (let m' = m\<lparr>MsgGCHdrProtoBuf_headerLength := word_of_nat (length protoData)\<rparr> in
           thenS (Write_word (make_gc_msg (MsgGCHdrProtoBuf_Msg m') True)) (
           thenS (Write_word (MsgGCHdrProtoBuf_headerLength m')) (
           returnS m'))))"

definition MsgGCHdrProtoBuf_Deserialize ::
    "('p, 'z) proto_api_scheme \<Rightarrow> 'p MsgGCHdrProtoBuf sm" where
  "MsgGCHdrProtoBuf_Deserialize api =
     bindS Read_word (\<lambda>raw.
     bindS Read_word (\<lambda>headerLength.
     if sint headerLength < 0 then throwS (Exn (OutOfRange ''Negative length''))
     else
       bindS (Read_into (unat headerLength)) (\<lambda>buffer.
       case ParseFromArray api buffer of
         (False, _) \<Rightarrow> throwS (Exn (RuntimeError ''Failed to parse protobuf message''))
       | (True, proto) \<Rightarrow>
           returnS \<lparr>MsgGCHdrProtoBuf_Msg = get_gc_msg raw,
             MsgGCHdrProtoBuf_headerLength = headerLength,
             MsgGCHdrProtoBuf_proto = proto\<rparr>)))"

section \<open>Reading at an offset\<close>

text \<open>
  The reads of a header are followed through a buffer \<open>pre @ bs @ rest\<close> whose next bytes are
  known.
\<close>

lemma Stream_read_0: "Stream_read b = Stream_read_at b 0"
  by (simp add: Stream_read_def Stream_read_at_def)

lemma Read_word_at:
  assumes "b = pre @ le_bytes (w :: u32) @ rest" and "length b < vec_limit"
    and "p = length pre" and "q = length pre + 4"
  shows "Read_word (Stream_read_at b p) = Inr (w, Stream_read_at b q)"
  using reads_u32 assms unfolding reads_def Stream_read_at_def by simp

lemma Read_into_at:
  assumes "b = pre @ d @ rest" and "length b < vec_limit"
    and "p = length pre" and "l = length d" and "q = length pre + length d"
  shows "Read_into l (Stream_read_at b p) = Inr (d, Stream_read_at b q)"
  using reads_Read_into [of l] assms unfolding reads_def Stream_read_at_def by simp

lemma Read_into_short:
  assumes "length b < vec_limit" and "p \<le> length b" and "length b < p + l" and "l < vec_limit"
  shows "Read_into l (Stream_read_at b p) = Inl underflow_error"
  using reads_Read_into [of l] assms unfolding reads_def Stream_read_at_def by simp

lemma small_length_word:
  assumes "n < 2 ^ 31"
  shows "\<not> sint (word_of_nat n :: u32) < 0" and "unat (word_of_nat n :: u32) = n"
proof -
  show u: "unat (word_of_nat n :: u32) = n"
    using assms by (simp add: unsigned_of_nat take_bit_nat_eq_self)
  have "sint (word_of_nat n :: u32) = int n"
    using assms by (simp add: signed_of_nat signed_take_bit_int_eq_self)
  then show "\<not> sint (word_of_nat n :: u32) < 0" by simp
qed

definition proto_hdr_bytes :: "u32 \<Rightarrow> byte list \<Rightarrow> byte list" where
  "proto_hdr_bytes msg d = le_bytes (make_msg msg True) @ le_bytes (word_of_nat (length d) :: u32) @ d"

lemma length_proto_hdr_bytes [simp]: "length (proto_hdr_bytes msg d) = 8 + length d"
  by (simp add: proto_hdr_bytes_def)

lemma MsgHdrProtoBuf_Serialize_bytes:
  assumes "SerializeToString api (MsgHdrProtoBuf_proto m) = Some d" and "readBuffer s = None"
  shows "MsgHdrProtoBuf_Serialize api m s =
    Inr (m\<lparr>MsgHdrProtoBuf_headerLength := word_of_nat (length d)\<rparr>,
      s\<lparr>buffer := buffer s @ proto_hdr_bytes (MsgHdrProtoBuf_Msg m) d\<rparr>)"
  using assms
  by (simp add: MsgHdrProtoBuf_Serialize_def thenS_def Write_word_def Write_raw_def returnS_def
      proto_hdr_bytes_def)

lemma MsgHdrProtoBuf_Deserialize_bytes:
  assumes "ParseFromArray api d = (True, p)" and "length d < 2 ^ 31"
    and "b = pre @ proto_hdr_bytes msg d @ rest" and "length b < vec_limit"
  shows "MsgHdrProtoBuf_Deserialize api (Stream_read_at b (length pre)) =
    Inr (\<lparr>MsgHdrProtoBuf_Msg = get_msg (make_msg msg True),
        MsgHdrProtoBuf_headerLength = word_of_nat (length d), MsgHdrProtoBuf_proto = p\<rparr>,
      Stream_read_at b (length pre + 8 + length d))"
proof -
  let ?raw = "make_msg msg True" and ?l = "word_of_nat (length d) :: u32"
  note b = assms(3) [unfolded proto_hdr_bytes_def append_assoc]
  have r1: "Read_word (Stream_read_at b (length pre)) =
      Inr (?raw, Stream_read_at b (length pre + 4))"
    by (rule Read_word_at [OF b assms(4)]) simp_all
  have r2: "Read_word (Stream_read_at b (length pre + 4)) =
      Inr (?l, Stream_read_at b (length pre + 8))"
    using b assms(4) by (intro Read_word_at [of _ "pre @ le_bytes ?raw" _ "d @ rest"]) simp_all
  have r3: "Read_into (length d) (Stream_read_at b (length pre + 8)) =
      Inr (d, Stream_read_at b (length pre + 8 + length d))"
    using b assms(4)
    by (intro Read_into_at [of _ "pre @ le_bytes ?raw @ le_bytes ?l" _ rest]) simp_all
  show ?thesis
    using assms(1) small_length_word [OF assms(2)] r1 r2 r3
    by (simp add: MsgHdrProtoBuf_Deserialize_def returnS_def)
qed

lemma MsgGCHdrProtoBuf_Serialize_bytes:
  assumes "SerializeToString api (MsgGCHdrProtoBuf_proto m) = Some d" and "readBuffer s = None"
  shows "MsgGCHdrProtoBuf_Serialize api m s =
    Inr (m\<lparr>MsgGCHdrProtoBuf_headerLength := word_of_nat (length d)\<rparr>,
      s\<lparr>buffer := buffer s @ le_bytes (make_msg (MsgGCHdrProtoBuf_Msg m) True) @
        le_bytes (word_of_nat (length d) :: u32)\<rparr>)"
  using assms
  by (simp add: MsgGCHdrProtoBuf_Serialize_def thenS_def Write_word_def returnS_def gc_msg_eq)

lemma MsgGCHdrProtoBuf_Deserialize_short:
  assumes "length d < 2 ^ 31" and "d \<noteq> []"
  shows "MsgGCHdrProtoBuf_Deserialize api
      (Stream_read (le_bytes (make_msg msg True) @ le_bytes (word_of_nat (length d) :: u32))) =
    Inl underflow_error"
proof -
  let ?raw = "make_msg msg True" and ?l = "word_of_nat (length d) :: u32"
  let ?b = "le_bytes ?raw @ le_bytes ?l"
  have b: "length ?b < vec_limit" by (simp add: vec_limit_def)
  have r1: "Read_word (Stream_read_at ?b 0) = Inr (?raw, Stream_read_at ?b 4)"
    using b by (intro Read_word_at [of _ "[]" _ "le_bytes ?l"]) simp_all
  have r2: "Read_word (Stream_read_at ?b 4) = Inr (?l, Stream_read_at ?b 8)"
    using b by (intro Read_word_at [of _ "le_bytes ?raw" _ "[]"]) simp_all
  have r3: "Read_into (length d) (Stream_read_at ?b 8) = Inl underflow_error"
    using assms by (intro Read_into_short) (auto simp: vec_limit_def)
  show ?thesis
    using small_length_word [OF assms(1)] r1 r2 r3
    by (simp add: MsgGCHdrProtoBuf_Deserialize_def Stream_read_0)
qed

end
