(* ===== verification/Steam_Bodies.thy ===== *)
theory Steam_Bodies
  imports Steam_Headers
begin

text \<open>
  The message bodies of include/steamclient/types/generated/SteamLanguageInternal.hpp. Every
  structure is a record with its constructor (\<open>_new\<close>), \<open>GetEMsg\<close>, its accessors and its
  \<open>Serialize\<close>/\<open>Deserialize\<close> pair; each pair is shown to be a codec of its fixed size and
  interprets the contract \<open>struct_codec\<close>, whose facts then hold for it.
\<close>

datatype MsgClientJustStrings = MsgClientJustStrings_new

definition MsgClientJustStrings_GetEMsg :: u32 where
  "MsgClientJustStrings_GetEMsg = EMsg_Invalid"

definition MsgClientJustStrings_Serialize :: "MsgClientJustStrings \<Rightarrow> unit sm" where
  "MsgClientJustStrings_Serialize m =
     returnS ()"

definition MsgClientJustStrings_Deserialize :: "MsgClientJustStrings sm" where
  "MsgClientJustStrings_Deserialize =
     returnS MsgClientJustStrings_new"

lemma MsgClientJustStrings_codec: "codec (\<lambda>_. True) MsgClientJustStrings_Serialize MsgClientJustStrings_Deserialize 0"
  unfolding MsgClientJustStrings_Serialize_def MsgClientJustStrings_Deserialize_def
  by (rule codecI, (rule reads_intros)+, simp, (rule writes_intros)+, simp, metis (full_types) MsgClientJustStrings.exhaust)

interpretation MsgClientJustStrings: struct_codec "\<lambda>_. True" MsgClientJustStrings_Serialize MsgClientJustStrings_Deserialize 0
  by unfold_locales (rule MsgClientJustStrings_codec)

record MsgClientGenericResponse =
  MsgClientGenericResponse_result :: u32

definition MsgClientGenericResponse_new :: MsgClientGenericResponse where
  "MsgClientGenericResponse_new =
     \<lparr>MsgClientGenericResponse_result = EResult_Invalid\<rparr>"

definition MsgClientGenericResponse_GetEMsg :: u32 where
  "MsgClientGenericResponse_GetEMsg = EMsg_Invalid"

definition MsgClientGenericResponse_Serialize :: "MsgClientGenericResponse \<Rightarrow> unit sm" where
  "MsgClientGenericResponse_Serialize m =
     Write_word (MsgClientGenericResponse_result m)"

definition MsgClientGenericResponse_Deserialize :: "MsgClientGenericResponse sm" where
  "MsgClientGenericResponse_Deserialize =
     bindS Read_word (\<lambda>result.
     returnS \<lparr>MsgClientGenericResponse_result = result\<rparr>)"

lemma MsgClientGenericResponse_codec: "codec (\<lambda>_. True) MsgClientGenericResponse_Serialize MsgClientGenericResponse_Deserialize 4"
  unfolding MsgClientGenericResponse_Serialize_def MsgClientGenericResponse_Deserialize_def
  by (rule codecI, (rule reads_intros)+, simp, (rule writes_intros)+, simp_all)

interpretation MsgClientGenericResponse: struct_codec "\<lambda>_. True" MsgClientGenericResponse_Serialize MsgClientGenericResponse_Deserialize 4
  by unfold_locales (rule MsgClientGenericResponse_codec)

definition MsgChannelEncryptRequest_PROTOCOL_VERSION :: u32 where
  "MsgChannelEncryptRequest_PROTOCOL_VERSION = 1"

record MsgChannelEncryptRequest =
  MsgChannelEncryptRequest_protocolVersion :: u32
  MsgChannelEncryptRequest_universe :: u32

definition MsgChannelEncryptRequest_new :: MsgChannelEncryptRequest where
  "MsgChannelEncryptRequest_new =
     \<lparr>MsgChannelEncryptRequest_protocolVersion = MsgChannelEncryptRequest_PROTOCOL_VERSION,
      MsgChannelEncryptRequest_universe = EUniverse_Invalid\<rparr>"

definition MsgChannelEncryptRequest_GetEMsg :: u32 where
  "MsgChannelEncryptRequest_GetEMsg = EMsg_ChannelEncryptRequest"

definition MsgChannelEncryptRequest_Serialize :: "MsgChannelEncryptRequest \<Rightarrow> unit sm" where
  "MsgChannelEncryptRequest_Serialize m =
     thenS (Write_word (MsgChannelEncryptRequest_protocolVersion m)) (
     Write_word (MsgChannelEncryptRequest_universe m))"

definition MsgChannelEncryptRequest_Deserialize :: "MsgChannelEncryptRequest sm" where
  "MsgChannelEncryptRequest_Deserialize =
     bindS Read_word (\<lambda>protocolVersion.
     bindS Read_word (\<lambda>universe.
     returnS \<lparr>MsgChannelEncryptRequest_protocolVersion = protocolVersion,
        MsgChannelEncryptRequest_universe = universe\<rparr>))"

lemma MsgChannelEncryptRequest_codec: "codec (\<lambda>_. True) MsgChannelEncryptRequest_Serialize MsgChannelEncryptRequest_Deserialize 8"
  unfolding MsgChannelEncryptRequest_Serialize_def MsgChannelEncryptRequest_Deserialize_def
  by (rule codecI, (rule reads_intros)+, simp, (rule writes_intros)+, simp_all)

interpretation MsgChannelEncryptRequest: struct_codec "\<lambda>_. True" MsgChannelEncryptRequest_Serialize MsgChannelEncryptRequest_Deserialize 8
  by unfold_locales (rule MsgChannelEncryptRequest_codec)

record MsgChannelEncryptResponse =
  MsgChannelEncryptResponse_protocolVersion :: u32
  MsgChannelEncryptResponse_keySize :: u32

definition MsgChannelEncryptResponse_new :: MsgChannelEncryptResponse where
  "MsgChannelEncryptResponse_new =
     \<lparr>MsgChannelEncryptResponse_protocolVersion = MsgChannelEncryptRequest_PROTOCOL_VERSION,
      MsgChannelEncryptResponse_keySize = 128\<rparr>"

definition MsgChannelEncryptResponse_GetEMsg :: u32 where
  "MsgChannelEncryptResponse_GetEMsg = EMsg_ChannelEncryptResponse"

definition MsgChannelEncryptResponse_Serialize :: "MsgChannelEncryptResponse \<Rightarrow> unit sm" where
  "MsgChannelEncryptResponse_Serialize m =
     thenS (Write_word (MsgChannelEncryptResponse_protocolVersion m)) (
     Write_word (MsgChannelEncryptResponse_keySize m))"

definition MsgChannelEncryptResponse_Deserialize :: "MsgChannelEncryptResponse sm" where
  "MsgChannelEncryptResponse_Deserialize =
     bindS Read_word (\<lambda>protocolVersion.
     bindS Read_word (\<lambda>keySize.
     returnS \<lparr>MsgChannelEncryptResponse_protocolVersion = protocolVersion,
        MsgChannelEncryptResponse_keySize = keySize\<rparr>))"

lemma MsgChannelEncryptResponse_codec: "codec (\<lambda>_. True) MsgChannelEncryptResponse_Serialize MsgChannelEncryptResponse_Deserialize 8"
  unfolding MsgChannelEncryptResponse_Serialize_def MsgChannelEncryptResponse_Deserialize_def
  by (rule codecI, (rule reads_intros)+, simp, (rule writes_intros)+, simp_all)

interpretation MsgChannelEncryptResponse: struct_codec "\<lambda>_. True" MsgChannelEncryptResponse_Serialize MsgChannelEncryptResponse_Deserialize 8
  by unfold_locales (rule MsgChannelEncryptResponse_codec)

record MsgChannelEncryptResult =
  MsgChannelEncryptResult_result :: u32

definition MsgChannelEncryptResult_new :: MsgChannelEncryptResult where
  "MsgChannelEncryptResult_new =
     \<lparr>MsgChannelEncryptResult_result = EResult_Invalid\<rparr>"

definition MsgChannelEncryptResult_GetEMsg :: u32 where
  "MsgChannelEncryptResult_GetEMsg = EMsg_ChannelEncryptResult"

definition MsgChannelEncryptResult_Serialize :: "MsgChannelEncryptResult \<Rightarrow> unit sm" where
  "MsgChannelEncryptResult_Serialize m =
     Write_word (MsgChannelEncryptResult_result m)"

definition MsgChannelEncryptResult_Deserialize :: "MsgChannelEncryptResult sm" where
  "MsgChannelEncryptResult_Deserialize =
     bindS Read_word (\<lambda>result.
     returnS \<lparr>MsgChannelEncryptResult_result = result\<rparr>)"

lemma MsgChannelEncryptResult_codec: "codec (\<lambda>_. True) MsgChannelEncryptResult_Serialize MsgChannelEncryptResult_Deserialize 4"
  unfolding MsgChannelEncryptResult_Serialize_def MsgChannelEncryptResult_Deserialize_def
  by (rule codecI, (rule reads_intros)+, simp, (rule writes_intros)+, simp_all)

interpretation MsgChannelEncryptResult: struct_codec "\<lambda>_. True" MsgChannelEncryptResult_Serialize MsgChannelEncryptResult_Deserialize 4
  by unfold_locales (rule MsgChannelEncryptResult_codec)

definition MsgClientLogon_ObfuscationMask :: u32 where
  "MsgClientLogon_ObfuscationMask = 0xBAADF00D"

definition MsgClientLogon_CurrentProtocol :: u32 where
  "MsgClientLogon_CurrentProtocol = 65581"

definition MsgClientLogon_ProtocolVerMajorMask :: u32 where
  "MsgClientLogon_ProtocolVerMajorMask = 0xFFFF0000"

definition MsgClientLogon_ProtocolVerMinorMask :: u32 where
  "MsgClientLogon_ProtocolVerMinorMask = 0xFFFF"

definition MsgClientLogon_ProtocolVerMinorMinGameServers :: u16 where
  "MsgClientLogon_ProtocolVerMinorMinGameServers = 4"

definition MsgClientLogon_ProtocolVerMinorMinForSupportingEMsgMulti :: u16 where
  "MsgClientLogon_ProtocolVerMinorMinForSupportingEMsgMulti = 12"

definition MsgClientLogon_ProtocolVerMinorMinForSupportingEMsgClientEncryptPct :: u16 where
  "MsgClientLogon_ProtocolVerMinorMinForSupportingEMsgClientEncryptPct = 14"

definition MsgClientLogon_ProtocolVerMinorMinForExtendedMsgHdr :: u16 where
  "MsgClientLogon_ProtocolVerMinorMinForExtendedMsgHdr = 17"

definition MsgClientLogon_ProtocolVerMinorMinForCellId :: u16 where
  "MsgClientLogon_ProtocolVerMinorMinForCellId = 18"

definition MsgClientLogon_ProtocolVerMinorMinForSessionIDLast :: u16 where
  "MsgClientLogon_ProtocolVerMinorMinForSessionIDLast = 19"

definition MsgClientLogon_ProtocolVerMinorMinForServerAvailablityMsgs :: u16 where
  "MsgClientLogon_ProtocolVerMinorMinForServerAvailablityMsgs = 24"

definition MsgClientLogon_ProtocolVerMinorMinClients :: u16 where
  "MsgClientLogon_ProtocolVerMinorMinClients = 25"

definition MsgClientLogon_ProtocolVerMinorMinForOSType :: u16 where
  "MsgClientLogon_ProtocolVerMinorMinForOSType = 26"

definition MsgClientLogon_ProtocolVerMinorMinForCegApplyPESig :: u16 where
  "MsgClientLogon_ProtocolVerMinorMinForCegApplyPESig = 27"

definition MsgClientLogon_ProtocolVerMinorMinForMarketingMessages2 :: u16 where
  "MsgClientLogon_ProtocolVerMinorMinForMarketingMessages2 = 27"

definition MsgClientLogon_ProtocolVerMinorMinForAnyProtoBufMessages :: u16 where
  "MsgClientLogon_ProtocolVerMinorMinForAnyProtoBufMessages = 28"

definition MsgClientLogon_ProtocolVerMinorMinForProtoBufLoggedOffMessage :: u16 where
  "MsgClientLogon_ProtocolVerMinorMinForProtoBufLoggedOffMessage = 28"

definition MsgClientLogon_ProtocolVerMinorMinForProtoBufMultiMessages :: u16 where
  "MsgClientLogon_ProtocolVerMinorMinForProtoBufMultiMessages = 28"

definition MsgClientLogon_ProtocolVerMinorMinForSendingProtocolToUFS :: u16 where
  "MsgClientLogon_ProtocolVerMinorMinForSendingProtocolToUFS = 30"

definition MsgClientLogon_ProtocolVerMinorMinForMachineAuth :: u16 where
  "MsgClientLogon_ProtocolVerMinorMinForMachineAuth = 33"

definition MsgClientLogon_ProtocolVerMinorMinForSessionIDLastAnon :: u16 where
  "MsgClientLogon_ProtocolVerMinorMinForSessionIDLastAnon = 36"

definition MsgClientLogon_ProtocolVerMinorMinForEnhancedAppList :: u16 where
  "MsgClientLogon_ProtocolVerMinorMinForEnhancedAppList = 40"

definition MsgClientLogon_ProtocolVerMinorMinForSteamGuardNotificationUI :: u16 where
  "MsgClientLogon_ProtocolVerMinorMinForSteamGuardNotificationUI = 41"

definition MsgClientLogon_ProtocolVerMinorMinForProtoBufServiceModuleCalls :: u16 where
  "MsgClientLogon_ProtocolVerMinorMinForProtoBufServiceModuleCalls = 42"

definition MsgClientLogon_ProtocolVerMinorMinForGzipMultiMessages :: u16 where
  "MsgClientLogon_ProtocolVerMinorMinForGzipMultiMessages = 43"

definition MsgClientLogon_ProtocolVerMinorMinForNewVoiceCallAuthorize :: u16 where
  "MsgClientLogon_ProtocolVerMinorMinForNewVoiceCallAuthorize = 44"

definition MsgClientLogon_ProtocolVerMinorMinForClientInstanceIDs :: u16 where
  "MsgClientLogon_ProtocolVerMinorMinForClientInstanceIDs = 44"

datatype MsgClientLogon = MsgClientLogon_new

definition MsgClientLogon_GetEMsg :: u32 where
  "MsgClientLogon_GetEMsg = EMsg_ClientLogon"

definition MsgClientLogon_Serialize :: "MsgClientLogon \<Rightarrow> unit sm" where
  "MsgClientLogon_Serialize m =
     returnS ()"

definition MsgClientLogon_Deserialize :: "MsgClientLogon sm" where
  "MsgClientLogon_Deserialize =
     returnS MsgClientLogon_new"

lemma MsgClientLogon_codec: "codec (\<lambda>_. True) MsgClientLogon_Serialize MsgClientLogon_Deserialize 0"
  unfolding MsgClientLogon_Serialize_def MsgClientLogon_Deserialize_def
  by (rule codecI, (rule reads_intros)+, simp, (rule writes_intros)+, simp, metis (full_types) MsgClientLogon.exhaust)

interpretation MsgClientLogon: struct_codec "\<lambda>_. True" MsgClientLogon_Serialize MsgClientLogon_Deserialize 0
  by unfold_locales (rule MsgClientLogon_codec)

record MsgClientVACBanStatus =
  MsgClientVACBanStatus_numBans :: u32

definition MsgClientVACBanStatus_new :: MsgClientVACBanStatus where
  "MsgClientVACBanStatus_new =
     \<lparr>MsgClientVACBanStatus_numBans = 0\<rparr>"

definition MsgClientVACBanStatus_GetEMsg :: u32 where
  "MsgClientVACBanStatus_GetEMsg = EMsg_ClientVACBanStatus"

definition MsgClientVACBanStatus_Serialize :: "MsgClientVACBanStatus \<Rightarrow> unit sm" where
  "MsgClientVACBanStatus_Serialize m =
     Write_word (MsgClientVACBanStatus_numBans m)"

definition MsgClientVACBanStatus_Deserialize :: "MsgClientVACBanStatus sm" where
  "MsgClientVACBanStatus_Deserialize =
     bindS Read_word (\<lambda>numBans.
     returnS \<lparr>MsgClientVACBanStatus_numBans = numBans\<rparr>)"

lemma MsgClientVACBanStatus_codec: "codec (\<lambda>_. True) MsgClientVACBanStatus_Serialize MsgClientVACBanStatus_Deserialize 4"
  unfolding MsgClientVACBanStatus_Serialize_def MsgClientVACBanStatus_Deserialize_def
  by (rule codecI, (rule reads_intros)+, simp, (rule writes_intros)+, simp_all)

interpretation MsgClientVACBanStatus: struct_codec "\<lambda>_. True" MsgClientVACBanStatus_Serialize MsgClientVACBanStatus_Deserialize 4
  by unfold_locales (rule MsgClientVACBanStatus_codec)

record MsgClientAppUsageEvent =
  MsgClientAppUsageEvent_appUsageEvent :: u32
  MsgClientAppUsageEvent_gameID :: u64
  MsgClientAppUsageEvent_offline :: u16

definition MsgClientAppUsageEvent_new :: MsgClientAppUsageEvent where
  "MsgClientAppUsageEvent_new =
     \<lparr>MsgClientAppUsageEvent_appUsageEvent = EAppUsageEvent_Unknown,
      MsgClientAppUsageEvent_gameID = 0,
      MsgClientAppUsageEvent_offline = 0\<rparr>"

definition MsgClientAppUsageEvent_GetEMsg :: u32 where
  "MsgClientAppUsageEvent_GetEMsg = EMsg_ClientAppUsageEvent"

definition MsgClientAppUsageEvent_GetgameID :: "MsgClientAppUsageEvent \<Rightarrow> GameID" where
  "MsgClientAppUsageEvent_GetgameID m = GameID_of (MsgClientAppUsageEvent_gameID m)"

definition MsgClientAppUsageEvent_SetgameID :: "GameID \<Rightarrow> MsgClientAppUsageEvent \<Rightarrow> MsgClientAppUsageEvent" where
  "MsgClientAppUsageEvent_SetgameID val m = m\<lparr>MsgClientAppUsageEvent_gameID := GameID_ConvertToUInt64 val\<rparr>"

definition MsgClientAppUsageEvent_Serialize :: "MsgClientAppUsageEvent \<Rightarrow> unit sm" where
  "MsgClientAppUsageEvent_Serialize m =
     thenS (Write_word (MsgClientAppUsageEvent_appUsageEvent m)) (
     thenS (Write_word (MsgClientAppUsageEvent_gameID m)) (
     Write_word (MsgClientAppUsageEvent_offline m)))"

definition MsgClientAppUsageEvent_Deserialize :: "MsgClientAppUsageEvent sm" where
  "MsgClientAppUsageEvent_Deserialize =
     bindS Read_word (\<lambda>appUsageEvent.
     bindS Read_word (\<lambda>gameID.
     bindS Read_word (\<lambda>offline.
     returnS \<lparr>MsgClientAppUsageEvent_appUsageEvent = appUsageEvent,
        MsgClientAppUsageEvent_gameID = gameID,
        MsgClientAppUsageEvent_offline = offline\<rparr>)))"

lemma MsgClientAppUsageEvent_codec: "codec (\<lambda>_. True) MsgClientAppUsageEvent_Serialize MsgClientAppUsageEvent_Deserialize 14"
  unfolding MsgClientAppUsageEvent_Serialize_def MsgClientAppUsageEvent_Deserialize_def
  by (rule codecI, (rule reads_intros)+, simp, (rule writes_intros)+, simp_all)

interpretation MsgClientAppUsageEvent: struct_codec "\<lambda>_. True" MsgClientAppUsageEvent_Serialize MsgClientAppUsageEvent_Deserialize 14
  by unfold_locales (rule MsgClientAppUsageEvent_codec)

record MsgClientUpdateGuestPassesList =
  MsgClientUpdateGuestPassesList_result :: u32
  MsgClientUpdateGuestPassesList_countGuestPassesToGive :: u32
  MsgClientUpdateGuestPassesList_countGuestPassesToRedeem :: u32

definition MsgClientUpdateGuestPassesList_new :: MsgClientUpdateGuestPassesList where
  "MsgClientUpdateGuestPassesList_new =
     \<lparr>MsgClientUpdateGuestPassesList_result = EResult_Invalid,
      MsgClientUpdateGuestPassesList_countGuestPassesToGive = 0,
      MsgClientUpdateGuestPassesList_countGuestPassesToRedeem = 0\<rparr>"

definition MsgClientUpdateGuestPassesList_GetEMsg :: u32 where
  "MsgClientUpdateGuestPassesList_GetEMsg = EMsg_ClientUpdateGuestPassesList"

definition MsgClientUpdateGuestPassesList_Serialize :: "MsgClientUpdateGuestPassesList \<Rightarrow> unit sm" where
  "MsgClientUpdateGuestPassesList_Serialize m =
     thenS (Write_word (MsgClientUpdateGuestPassesList_result m)) (
     thenS (Write_word (MsgClientUpdateGuestPassesList_countGuestPassesToGive m)) (
     Write_word (MsgClientUpdateGuestPassesList_countGuestPassesToRedeem m)))"

definition MsgClientUpdateGuestPassesList_Deserialize :: "MsgClientUpdateGuestPassesList sm" where
  "MsgClientUpdateGuestPassesList_Deserialize =
     bindS Read_word (\<lambda>result.
     bindS Read_word (\<lambda>countGuestPassesToGive.
     bindS Read_word (\<lambda>countGuestPassesToRedeem.
     returnS \<lparr>MsgClientUpdateGuestPassesList_result = result,
        MsgClientUpdateGuestPassesList_countGuestPassesToGive = countGuestPassesToGive,
        MsgClientUpdateGuestPassesList_countGuestPassesToRedeem = countGuestPassesToRedeem\<rparr>)))"

lemma MsgClientUpdateGuestPassesList_codec: "codec (\<lambda>_. True) MsgClientUpdateGuestPassesList_Serialize MsgClientUpdateGuestPassesList_Deserialize 12"
  unfolding MsgClientUpdateGuestPassesList_Serialize_def MsgClientUpdateGuestPassesList_Deserialize_def
  by (rule codecI, (rule reads_intros)+, simp, (rule writes_intros)+, simp_all)

interpretation MsgClientUpdateGuestPassesList: struct_codec "\<lambda>_. True" MsgClientUpdateGuestPassesList_Serialize MsgClientUpdateGuestPassesList_Deserialize 12
  by unfold_locales (rule MsgClientUpdateGuestPassesList_codec)

record MsgClientP2PIntroducerMessage =
  MsgClientP2PIntroducerMessage_steamID :: u64
  MsgClientP2PIntroducerMessage_routingType :: u32
  MsgClientP2PIntroducerMessage_data :: "byte list"
  MsgClientP2PIntroducerMessage_dataLen :: u32

definition MsgClientP2PIntroducerMessage_new :: MsgClientP2PIntroducerMessage where
  "MsgClientP2PIntroducerMessage_new =
     \<lparr>MsgClientP2PIntroducerMessage_steamID = 0,
      MsgClientP2PIntroducerMessage_routingType = EIntroducerRouting_Unknown,
      MsgClientP2PIntroducerMessage_data = replicate 1450 0,
      MsgClientP2PIntroducerMessage_dataLen = 0\<rparr>"

definition MsgClientP2PIntroducerMessage_GetEMsg :: u32 where
  "MsgClientP2PIntroducerMessage_GetEMsg = EMsg_ClientP2PIntroducerMessage"

definition MsgClientP2PIntroducerMessage_GetsteamID :: "MsgClientP2PIntroducerMessage \<Rightarrow> SteamID" where
  "MsgClientP2PIntroducerMessage_GetsteamID m = SteamID_of (MsgClientP2PIntroducerMessage_steamID m)"

definition MsgClientP2PIntroducerMessage_SetsteamID :: "SteamID \<Rightarrow> MsgClientP2PIntroducerMessage \<Rightarrow> MsgClientP2PIntroducerMessage" where
  "MsgClientP2PIntroducerMessage_SetsteamID val m = m\<lparr>MsgClientP2PIntroducerMessage_steamID := SteamID_ConvertToUInt64 val\<rparr>"

definition MsgClientP2PIntroducerMessage_Serialize :: "MsgClientP2PIntroducerMessage \<Rightarrow> unit sm" where
  "MsgClientP2PIntroducerMessage_Serialize m =
     thenS (Write_word (MsgClientP2PIntroducerMessage_steamID m)) (
     thenS (Write_word (MsgClientP2PIntroducerMessage_routingType m)) (
     thenS (Write_vector (MsgClientP2PIntroducerMessage_data m)) (
     Write_word (MsgClientP2PIntroducerMessage_dataLen m))))"

definition MsgClientP2PIntroducerMessage_Deserialize :: "MsgClientP2PIntroducerMessage sm" where
  "MsgClientP2PIntroducerMessage_Deserialize =
     bindS Read_word (\<lambda>steamID.
     bindS Read_word (\<lambda>routingType.
     bindS (ReadArray 1450) (\<lambda>data.
     bindS Read_word (\<lambda>dataLen.
     returnS \<lparr>MsgClientP2PIntroducerMessage_steamID = steamID,
        MsgClientP2PIntroducerMessage_routingType = routingType,
        MsgClientP2PIntroducerMessage_data = data,
        MsgClientP2PIntroducerMessage_dataLen = dataLen\<rparr>))))"

record MsgClientOGSBeginSession =
  MsgClientOGSBeginSession_accountType :: byte
  MsgClientOGSBeginSession_accountId :: u64
  MsgClientOGSBeginSession_appId :: u32
  MsgClientOGSBeginSession_timeStarted :: u32

definition MsgClientOGSBeginSession_new :: MsgClientOGSBeginSession where
  "MsgClientOGSBeginSession_new =
     \<lparr>MsgClientOGSBeginSession_accountType = 0,
      MsgClientOGSBeginSession_accountId = 0,
      MsgClientOGSBeginSession_appId = 0,
      MsgClientOGSBeginSession_timeStarted = 0\<rparr>"

definition MsgClientOGSBeginSession_GetEMsg :: u32 where
  "MsgClientOGSBeginSession_GetEMsg = EMsg_ClientOGSBeginSession"

definition MsgClientOGSBeginSession_GetaccountId :: "MsgClientOGSBeginSession \<Rightarrow> SteamID" where
  "MsgClientOGSBeginSession_GetaccountId m = SteamID_of (MsgClientOGSBeginSession_accountId m)"

definition MsgClientOGSBeginSession_SetaccountId :: "SteamID \<Rightarrow> MsgClientOGSBeginSession \<Rightarrow> MsgClientOGSBeginSession" where
  "MsgClientOGSBeginSession_SetaccountId val m = m\<lparr>MsgClientOGSBeginSession_accountId := SteamID_ConvertToUInt64 val\<rparr>"

definition MsgClientOGSBeginSession_Serialize :: "MsgClientOGSBeginSession \<Rightarrow> unit sm" where
  "MsgClientOGSBeginSession_Serialize m =
     thenS (Write_word (MsgClientOGSBeginSession_accountType m)) (
     thenS (Write_word (MsgClientOGSBeginSession_accountId m)) (
     thenS (Write_word (MsgClientOGSBeginSession_appId m)) (
     Write_word (MsgClientOGSBeginSession_timeStarted m))))"

definition MsgClientOGSBeginSession_Deserialize :: "MsgClientOGSBeginSession sm" where
  "MsgClientOGSBeginSession_Deserialize =
     bindS Read_word (\<lambda>accountType.
     bindS Read_word (\<lambda>accountId.
     bindS Read_word (\<lambda>appId.
     bindS Read_word (\<lambda>timeStarted.
     returnS \<lparr>MsgClientOGSBeginSession_accountType = accountType,
        MsgClientOGSBeginSession_accountId = accountId,
        MsgClientOGSBeginSession_appId = appId,
        MsgClientOGSBeginSession_timeStarted = timeStarted\<rparr>))))"

lemma MsgClientOGSBeginSession_codec: "codec (\<lambda>_. True) MsgClientOGSBeginSession_Serialize MsgClientOGSBeginSession_Deserialize 17"
  unfolding MsgClientOGSBeginSession_Serialize_def MsgClientOGSBeginSession_Deserialize_def
  by (rule codecI, (rule reads_intros)+, simp, (rule writes_intros)+, simp_all)

interpretation MsgClientOGSBeginSession: struct_codec "\<lambda>_. True" MsgClientOGSBeginSession_Serialize MsgClientOGSBeginSession_Deserialize 17
  by unfold_locales (rule MsgClientOGSBeginSession_codec)

record MsgClientOGSBeginSessionResponse =
  MsgClientOGSBeginSessionResponse_result :: u32
  MsgClientOGSBeginSessionResponse_collectingAny :: byte
  MsgClientOGSBeginSessionResponse_collectingDetails :: byte
  MsgClientOGSBeginSessionResponse_sessionId :: u64

definition MsgClientOGSBeginSessionResponse_new :: MsgClientOGSBeginSessionResponse where
  "MsgClientOGSBeginSessionResponse_new =
     \<lparr>MsgClientOGSBeginSessionResponse_result = EResult_Invalid,
      MsgClientOGSBeginSessionResponse_collectingAny = 0,
      MsgClientOGSBeginSessionResponse_collectingDetails = 0,
      MsgClientOGSBeginSessionResponse_sessionId = 0\<rparr>"

definition MsgClientOGSBeginSessionResponse_GetEMsg :: u32 where
  "MsgClientOGSBeginSessionResponse_GetEMsg = EMsg_ClientOGSBeginSessionResponse"

definition MsgClientOGSBeginSessionResponse_Serialize :: "MsgClientOGSBeginSessionResponse \<Rightarrow> unit sm" where
  "MsgClientOGSBeginSessionResponse_Serialize m =
     thenS (Write_word (MsgClientOGSBeginSessionResponse_result m)) (
     thenS (Write_word (MsgClientOGSBeginSessionResponse_collectingAny m)) (
     thenS (Write_word (MsgClientOGSBeginSessionResponse_collectingDetails m)) (
     Write_word (MsgClientOGSBeginSessionResponse_sessionId m))))"

definition MsgClientOGSBeginSessionResponse_Deserialize :: "MsgClientOGSBeginSessionResponse sm" where
  "MsgClientOGSBeginSessionResponse_Deserialize =
     bindS Read_word (\<lambda>result.
     bindS Read_word (\<lambda>collectingAny.
     bindS Read_word (\<lambda>collectingDetails.
     bindS Read_word (\<lambda>sessionId.
     returnS \<lparr>MsgClientOGSBeginSessionResponse_result = result,
        MsgClientOGSBeginSessionResponse_collectingAny = collectingAny,
        MsgClientOGSBeginSessionResponse_collectingDetails = collectingDetails,
        MsgClientOGSBeginSessionResponse_sessionId = sessionId\<rparr>))))"

lemma MsgClientOGSBeginSessionResponse_codec: "codec (\<lambda>_. True) MsgClientOGSBeginSessionResponse_Serialize MsgClientOGSBeginSessionResponse_Deserialize 14"
  unfolding MsgClientOGSBeginSessionResponse_Serialize_def MsgClientOGSBeginSessionResponse_Deserialize_def
  by (rule codecI, (rule reads_intros)+, simp, (rule writes_intros)+, simp_all)

interpretation MsgClientOGSBeginSessionResponse: struct_codec "\<lambda>_. True" MsgClientOGSBeginSessionResponse_Serialize MsgClientOGSBeginSessionResponse_Deserialize 14
  by unfold_locales (rule MsgClientOGSBeginSessionResponse_codec)

record MsgClientOGSEndSession =
  MsgClientOGSEndSession_sessionId :: u64
  MsgClientOGSEndSession_timeEnded :: u32
  MsgClientOGSEndSession_reasonCode :: u32
  MsgClientOGSEndSession_countAttributes :: u32

definition MsgClientOGSEndSession_new :: MsgClientOGSEndSession where
  "MsgClientOGSEndSession_new =
     \<lparr>MsgClientOGSEndSession_sessionId = 0,
      MsgClientOGSEndSession_timeEnded = 0,
      MsgClientOGSEndSession_reasonCode = 0,
      MsgClientOGSEndSession_countAttributes = 0\<rparr>"

definition MsgClientOGSEndSession_GetEMsg :: u32 where
  "MsgClientOGSEndSession_GetEMsg = EMsg_ClientOGSEndSession"

definition MsgClientOGSEndSession_Serialize :: "MsgClientOGSEndSession \<Rightarrow> unit sm" where
  "MsgClientOGSEndSession_Serialize m =
     thenS (Write_word (MsgClientOGSEndSession_sessionId m)) (
     thenS (Write_word (MsgClientOGSEndSession_timeEnded m)) (
     thenS (Write_word (MsgClientOGSEndSession_reasonCode m)) (
     Write_word (MsgClientOGSEndSession_countAttributes m))))"

definition MsgClientOGSEndSession_Deserialize :: "MsgClientOGSEndSession sm" where
  "MsgClientOGSEndSession_Deserialize =
     bindS Read_word (\<lambda>sessionId.
     bindS Read_word (\<lambda>timeEnded.
     bindS Read_word (\<lambda>reasonCode.
     bindS Read_word (\<lambda>countAttributes.
     returnS \<lparr>MsgClientOGSEndSession_sessionId = sessionId,
        MsgClientOGSEndSession_timeEnded = timeEnded,
        MsgClientOGSEndSession_reasonCode = reasonCode,
        MsgClientOGSEndSession_countAttributes = countAttributes\<rparr>))))"

lemma MsgClientOGSEndSession_codec: "codec (\<lambda>_. True) MsgClientOGSEndSession_Serialize MsgClientOGSEndSession_Deserialize 20"
  unfolding MsgClientOGSEndSession_Serialize_def MsgClientOGSEndSession_Deserialize_def
  by (rule codecI, (rule reads_intros)+, simp, (rule writes_intros)+, simp_all)

interpretation MsgClientOGSEndSession: struct_codec "\<lambda>_. True" MsgClientOGSEndSession_Serialize MsgClientOGSEndSession_Deserialize 20
  by unfold_locales (rule MsgClientOGSEndSession_codec)

record MsgClientOGSEndSessionResponse =
  MsgClientOGSEndSessionResponse_result :: u32

definition MsgClientOGSEndSessionResponse_new :: MsgClientOGSEndSessionResponse where
  "MsgClientOGSEndSessionResponse_new =
     \<lparr>MsgClientOGSEndSessionResponse_result = EResult_Invalid\<rparr>"

definition MsgClientOGSEndSessionResponse_GetEMsg :: u32 where
  "MsgClientOGSEndSessionResponse_GetEMsg = EMsg_ClientOGSEndSessionResponse"

definition MsgClientOGSEndSessionResponse_Serialize :: "MsgClientOGSEndSessionResponse \<Rightarrow> unit sm" where
  "MsgClientOGSEndSessionResponse_Serialize m =
     Write_word (MsgClientOGSEndSessionResponse_result m)"

definition MsgClientOGSEndSessionResponse_Deserialize :: "MsgClientOGSEndSessionResponse sm" where
  "MsgClientOGSEndSessionResponse_Deserialize =
     bindS Read_word (\<lambda>result.
     returnS \<lparr>MsgClientOGSEndSessionResponse_result = result\<rparr>)"

lemma MsgClientOGSEndSessionResponse_codec: "codec (\<lambda>_. True) MsgClientOGSEndSessionResponse_Serialize MsgClientOGSEndSessionResponse_Deserialize 4"
  unfolding MsgClientOGSEndSessionResponse_Serialize_def MsgClientOGSEndSessionResponse_Deserialize_def
  by (rule codecI, (rule reads_intros)+, simp, (rule writes_intros)+, simp_all)

interpretation MsgClientOGSEndSessionResponse: struct_codec "\<lambda>_. True" MsgClientOGSEndSessionResponse_Serialize MsgClientOGSEndSessionResponse_Deserialize 4
  by unfold_locales (rule MsgClientOGSEndSessionResponse_codec)

record MsgClientOGSWriteRow =
  MsgClientOGSWriteRow_sessionId :: u64
  MsgClientOGSWriteRow_countAttributes :: u32

definition MsgClientOGSWriteRow_new :: MsgClientOGSWriteRow where
  "MsgClientOGSWriteRow_new =
     \<lparr>MsgClientOGSWriteRow_sessionId = 0,
      MsgClientOGSWriteRow_countAttributes = 0\<rparr>"

definition MsgClientOGSWriteRow_GetEMsg :: u32 where
  "MsgClientOGSWriteRow_GetEMsg = EMsg_ClientOGSWriteRow"

definition MsgClientOGSWriteRow_Serialize :: "MsgClientOGSWriteRow \<Rightarrow> unit sm" where
  "MsgClientOGSWriteRow_Serialize m =
     thenS (Write_word (MsgClientOGSWriteRow_sessionId m)) (
     Write_word (MsgClientOGSWriteRow_countAttributes m))"

definition MsgClientOGSWriteRow_Deserialize :: "MsgClientOGSWriteRow sm" where
  "MsgClientOGSWriteRow_Deserialize =
     bindS Read_word (\<lambda>sessionId.
     bindS Read_word (\<lambda>countAttributes.
     returnS \<lparr>MsgClientOGSWriteRow_sessionId = sessionId,
        MsgClientOGSWriteRow_countAttributes = countAttributes\<rparr>))"

lemma MsgClientOGSWriteRow_codec: "codec (\<lambda>_. True) MsgClientOGSWriteRow_Serialize MsgClientOGSWriteRow_Deserialize 12"
  unfolding MsgClientOGSWriteRow_Serialize_def MsgClientOGSWriteRow_Deserialize_def
  by (rule codecI, (rule reads_intros)+, simp, (rule writes_intros)+, simp_all)

interpretation MsgClientOGSWriteRow: struct_codec "\<lambda>_. True" MsgClientOGSWriteRow_Serialize MsgClientOGSWriteRow_Deserialize 12
  by unfold_locales (rule MsgClientOGSWriteRow_codec)

record MsgClientGetFriendsWhoPlayGame =
  MsgClientGetFriendsWhoPlayGame_gameId :: u64

definition MsgClientGetFriendsWhoPlayGame_new :: MsgClientGetFriendsWhoPlayGame where
  "MsgClientGetFriendsWhoPlayGame_new =
     \<lparr>MsgClientGetFriendsWhoPlayGame_gameId = 0\<rparr>"

definition MsgClientGetFriendsWhoPlayGame_GetEMsg :: u32 where
  "MsgClientGetFriendsWhoPlayGame_GetEMsg = EMsg_ClientGetFriendsWhoPlayGame"

definition MsgClientGetFriendsWhoPlayGame_GetgameId :: "MsgClientGetFriendsWhoPlayGame \<Rightarrow> GameID" where
  "MsgClientGetFriendsWhoPlayGame_GetgameId m = GameID_of (MsgClientGetFriendsWhoPlayGame_gameId m)"

definition MsgClientGetFriendsWhoPlayGame_SetgameId :: "GameID \<Rightarrow> MsgClientGetFriendsWhoPlayGame \<Rightarrow> MsgClientGetFriendsWhoPlayGame" where
  "MsgClientGetFriendsWhoPlayGame_SetgameId val m = m\<lparr>MsgClientGetFriendsWhoPlayGame_gameId := GameID_ConvertToUInt64 val\<rparr>"

definition MsgClientGetFriendsWhoPlayGame_Serialize :: "MsgClientGetFriendsWhoPlayGame \<Rightarrow> unit sm" where
  "MsgClientGetFriendsWhoPlayGame_Serialize m =
     Write_word (MsgClientGetFriendsWhoPlayGame_gameId m)"

definition MsgClientGetFriendsWhoPlayGame_Deserialize :: "MsgClientGetFriendsWhoPlayGame sm" where
  "MsgClientGetFriendsWhoPlayGame_Deserialize =
     bindS Read_word (\<lambda>gameId.
     returnS \<lparr>MsgClientGetFriendsWhoPlayGame_gameId = gameId\<rparr>)"

lemma MsgClientGetFriendsWhoPlayGame_codec: "codec (\<lambda>_. True) MsgClientGetFriendsWhoPlayGame_Serialize MsgClientGetFriendsWhoPlayGame_Deserialize 8"
  unfolding MsgClientGetFriendsWhoPlayGame_Serialize_def MsgClientGetFriendsWhoPlayGame_Deserialize_def
  by (rule codecI, (rule reads_intros)+, simp, (rule writes_intros)+, simp_all)

interpretation MsgClientGetFriendsWhoPlayGame: struct_codec "\<lambda>_. True" MsgClientGetFriendsWhoPlayGame_Serialize MsgClientGetFriendsWhoPlayGame_Deserialize 8
  by unfold_locales (rule MsgClientGetFriendsWhoPlayGame_codec)

record MsgClientGetFriendsWhoPlayGameResponse =
  MsgClientGetFriendsWhoPlayGameResponse_result :: u32
  MsgClientGetFriendsWhoPlayGameResponse_gameId :: u64
  MsgClientGetFriendsWhoPlayGameResponse_countFriends :: u32

definition MsgClientGetFriendsWhoPlayGameResponse_new :: MsgClientGetFriendsWhoPlayGameResponse where
  "MsgClientGetFriendsWhoPlayGameResponse_new =
     \<lparr>MsgClientGetFriendsWhoPlayGameResponse_result = EResult_Invalid,
      MsgClientGetFriendsWhoPlayGameResponse_gameId = 0,
      MsgClientGetFriendsWhoPlayGameResponse_countFriends = 0\<rparr>"

definition MsgClientGetFriendsWhoPlayGameResponse_GetEMsg :: u32 where
  "MsgClientGetFriendsWhoPlayGameResponse_GetEMsg = EMsg_ClientGetFriendsWhoPlayGameResponse"

definition MsgClientGetFriendsWhoPlayGameResponse_GetgameId :: "MsgClientGetFriendsWhoPlayGameResponse \<Rightarrow> GameID" where
  "MsgClientGetFriendsWhoPlayGameResponse_GetgameId m = GameID_of (MsgClientGetFriendsWhoPlayGameResponse_gameId m)"

definition MsgClientGetFriendsWhoPlayGameResponse_SetgameId :: "GameID \<Rightarrow> MsgClientGetFriendsWhoPlayGameResponse \<Rightarrow> MsgClientGetFriendsWhoPlayGameResponse" where
  "MsgClientGetFriendsWhoPlayGameResponse_SetgameId val m = m\<lparr>MsgClientGetFriendsWhoPlayGameResponse_gameId := GameID_ConvertToUInt64 val\<rparr>"

definition MsgClientGetFriendsWhoPlayGameResponse_Serialize :: "MsgClientGetFriendsWhoPlayGameResponse \<Rightarrow> unit sm" where
  "MsgClientGetFriendsWhoPlayGameResponse_Serialize m =
     thenS (Write_word (MsgClientGetFriendsWhoPlayGameResponse_result m)) (
     thenS (Write_word (MsgClientGetFriendsWhoPlayGameResponse_gameId m)) (
     Write_word (MsgClientGetFriendsWhoPlayGameResponse_countFriends m)))"

definition MsgClientGetFriendsWhoPlayGameResponse_Deserialize :: "MsgClientGetFriendsWhoPlayGameResponse sm" where
  "MsgClientGetFriendsWhoPlayGameResponse_Deserialize =
     bindS Read_word (\<lambda>result.
     bindS Read_word (\<lambda>gameId.
     bindS Read_word (\<lambda>countFriends.
     returnS \<lparr>MsgClientGetFriendsWhoPlayGameResponse_result = result,
        MsgClientGetFriendsWhoPlayGameResponse_gameId = gameId,
        MsgClientGetFriendsWhoPlayGameResponse_countFriends = countFriends\<rparr>)))"

lemma MsgClientGetFriendsWhoPlayGameResponse_codec: "codec (\<lambda>_. True) MsgClientGetFriendsWhoPlayGameResponse_Serialize MsgClientGetFriendsWhoPlayGameResponse_Deserialize 16"
  unfolding MsgClientGetFriendsWhoPlayGameResponse_Serialize_def MsgClientGetFriendsWhoPlayGameResponse_Deserialize_def
  by (rule codecI, (rule reads_intros)+, simp, (rule writes_intros)+, simp_all)

interpretation MsgClientGetFriendsWhoPlayGameResponse: struct_codec "\<lambda>_. True" MsgClientGetFriendsWhoPlayGameResponse_Serialize MsgClientGetFriendsWhoPlayGameResponse_Deserialize 16
  by unfold_locales (rule MsgClientGetFriendsWhoPlayGameResponse_codec)

record MsgGSPerformHardwareSurvey =
  MsgGSPerformHardwareSurvey_flags :: u32

definition MsgGSPerformHardwareSurvey_new :: MsgGSPerformHardwareSurvey where
  "MsgGSPerformHardwareSurvey_new =
     \<lparr>MsgGSPerformHardwareSurvey_flags = 0\<rparr>"

definition MsgGSPerformHardwareSurvey_GetEMsg :: u32 where
  "MsgGSPerformHardwareSurvey_GetEMsg = EMsg_GSPerformHardwareSurvey"

definition MsgGSPerformHardwareSurvey_Serialize :: "MsgGSPerformHardwareSurvey \<Rightarrow> unit sm" where
  "MsgGSPerformHardwareSurvey_Serialize m =
     Write_word (MsgGSPerformHardwareSurvey_flags m)"

definition MsgGSPerformHardwareSurvey_Deserialize :: "MsgGSPerformHardwareSurvey sm" where
  "MsgGSPerformHardwareSurvey_Deserialize =
     bindS Read_word (\<lambda>flags.
     returnS \<lparr>MsgGSPerformHardwareSurvey_flags = flags\<rparr>)"

lemma MsgGSPerformHardwareSurvey_codec: "codec (\<lambda>_. True) MsgGSPerformHardwareSurvey_Serialize MsgGSPerformHardwareSurvey_Deserialize 4"
  unfolding MsgGSPerformHardwareSurvey_Serialize_def MsgGSPerformHardwareSurvey_Deserialize_def
  by (rule codecI, (rule reads_intros)+, simp, (rule writes_intros)+, simp_all)

interpretation MsgGSPerformHardwareSurvey: struct_codec "\<lambda>_. True" MsgGSPerformHardwareSurvey_Serialize MsgGSPerformHardwareSurvey_Deserialize 4
  by unfold_locales (rule MsgGSPerformHardwareSurvey_codec)

record MsgGSGetPlayStatsResponse =
  MsgGSGetPlayStatsResponse_result :: u32
  MsgGSGetPlayStatsResponse_rank :: u32
  MsgGSGetPlayStatsResponse_lifetimeConnects :: u32
  MsgGSGetPlayStatsResponse_lifetimeMinutesPlayed :: u32

definition MsgGSGetPlayStatsResponse_new :: MsgGSGetPlayStatsResponse where
  "MsgGSGetPlayStatsResponse_new =
     \<lparr>MsgGSGetPlayStatsResponse_result = EResult_Invalid,
      MsgGSGetPlayStatsResponse_rank = 0,
      MsgGSGetPlayStatsResponse_lifetimeConnects = 0,
      MsgGSGetPlayStatsResponse_lifetimeMinutesPlayed = 0\<rparr>"

definition MsgGSGetPlayStatsResponse_GetEMsg :: u32 where
  "MsgGSGetPlayStatsResponse_GetEMsg = EMsg_GSGetPlayStatsResponse"

definition MsgGSGetPlayStatsResponse_Serialize :: "MsgGSGetPlayStatsResponse \<Rightarrow> unit sm" where
  "MsgGSGetPlayStatsResponse_Serialize m =
     thenS (Write_word (MsgGSGetPlayStatsResponse_result m)) (
     thenS (Write_word (MsgGSGetPlayStatsResponse_rank m)) (
     thenS (Write_word (MsgGSGetPlayStatsResponse_lifetimeConnects m)) (
     Write_word (MsgGSGetPlayStatsResponse_lifetimeMinutesPlayed m))))"

definition MsgGSGetPlayStatsResponse_Deserialize :: "MsgGSGetPlayStatsResponse sm" where
  "MsgGSGetPlayStatsResponse_Deserialize =
     bindS Read_word (\<lambda>result.
     bindS Read_word (\<lambda>rank.
     bindS Read_word (\<lambda>lifetimeConnects.
     bindS Read_word (\<lambda>lifetimeMinutesPlayed.
     returnS \<lparr>MsgGSGetPlayStatsResponse_result = result,
        MsgGSGetPlayStatsResponse_rank = rank,
        MsgGSGetPlayStatsResponse_lifetimeConnects = lifetimeConnects,
        MsgGSGetPlayStatsResponse_lifetimeMinutesPlayed = lifetimeMinutesPlayed\<rparr>))))"

lemma MsgGSGetPlayStatsResponse_codec: "codec (\<lambda>_. True) MsgGSGetPlayStatsResponse_Serialize MsgGSGetPlayStatsResponse_Deserialize 16"
  unfolding MsgGSGetPlayStatsResponse_Serialize_def MsgGSGetPlayStatsResponse_Deserialize_def
  by (rule codecI, (rule reads_intros)+, simp, (rule writes_intros)+, simp_all)

interpretation MsgGSGetPlayStatsResponse: struct_codec "\<lambda>_. True" MsgGSGetPlayStatsResponse_Serialize MsgGSGetPlayStatsResponse_Deserialize 16
  by unfold_locales (rule MsgGSGetPlayStatsResponse_codec)

record MsgGSGetReputationResponse =
  MsgGSGetReputationResponse_result :: u32
  MsgGSGetReputationResponse_reputationScore :: u32
  MsgGSGetReputationResponse_banned :: byte
  MsgGSGetReputationResponse_bannedIp :: u32
  MsgGSGetReputationResponse_bannedPort :: u16
  MsgGSGetReputationResponse_bannedGameId :: u64
  MsgGSGetReputationResponse_timeBanExpires :: u32

definition MsgGSGetReputationResponse_new :: MsgGSGetReputationResponse where
  "MsgGSGetReputationResponse_new =
     \<lparr>MsgGSGetReputationResponse_result = EResult_Invalid,
      MsgGSGetReputationResponse_reputationScore = 0,
      MsgGSGetReputationResponse_banned = 0,
      MsgGSGetReputationResponse_bannedIp = 0,
      MsgGSGetReputationResponse_bannedPort = 0,
      MsgGSGetReputationResponse_bannedGameId = 0,
      MsgGSGetReputationResponse_timeBanExpires = 0\<rparr>"

definition MsgGSGetReputationResponse_GetEMsg :: u32 where
  "MsgGSGetReputationResponse_GetEMsg = EMsg_GSGetReputationResponse"

definition MsgGSGetReputationResponse_Serialize :: "MsgGSGetReputationResponse \<Rightarrow> unit sm" where
  "MsgGSGetReputationResponse_Serialize m =
     thenS (Write_word (MsgGSGetReputationResponse_result m)) (
     thenS (Write_word (MsgGSGetReputationResponse_reputationScore m)) (
     thenS (Write_word (MsgGSGetReputationResponse_banned m)) (
     thenS (Write_word (MsgGSGetReputationResponse_bannedIp m)) (
     thenS (Write_word (MsgGSGetReputationResponse_bannedPort m)) (
     thenS (Write_word (MsgGSGetReputationResponse_bannedGameId m)) (
     Write_word (MsgGSGetReputationResponse_timeBanExpires m)))))))"

definition MsgGSGetReputationResponse_Deserialize :: "MsgGSGetReputationResponse sm" where
  "MsgGSGetReputationResponse_Deserialize =
     bindS Read_word (\<lambda>result.
     bindS Read_word (\<lambda>reputationScore.
     bindS Read_word (\<lambda>banned.
     bindS Read_word (\<lambda>bannedIp.
     bindS Read_word (\<lambda>bannedPort.
     bindS Read_word (\<lambda>bannedGameId.
     bindS Read_word (\<lambda>timeBanExpires.
     returnS \<lparr>MsgGSGetReputationResponse_result = result,
        MsgGSGetReputationResponse_reputationScore = reputationScore,
        MsgGSGetReputationResponse_banned = banned,
        MsgGSGetReputationResponse_bannedIp = bannedIp,
        MsgGSGetReputationResponse_bannedPort = bannedPort,
        MsgGSGetReputationResponse_bannedGameId = bannedGameId,
        MsgGSGetReputationResponse_timeBanExpires = timeBanExpires\<rparr>)))))))"

lemma MsgGSGetReputationResponse_codec: "codec (\<lambda>_. True) MsgGSGetReputationResponse_Serialize MsgGSGetReputationResponse_Deserialize 27"
  unfolding MsgGSGetReputationResponse_Serialize_def MsgGSGetReputationResponse_Deserialize_def
  by (rule codecI, (rule reads_intros)+, simp, (rule writes_intros)+, simp_all)

interpretation MsgGSGetReputationResponse: struct_codec "\<lambda>_. True" MsgGSGetReputationResponse_Serialize MsgGSGetReputationResponse_Deserialize 27
  by unfold_locales (rule MsgGSGetReputationResponse_codec)

record MsgGSDeny =
  MsgGSDeny_steamId :: u64
  MsgGSDeny_denyReason :: u32

definition MsgGSDeny_new :: MsgGSDeny where
  "MsgGSDeny_new =
     \<lparr>MsgGSDeny_steamId = 0,
      MsgGSDeny_denyReason = EDenyReason_Unknown\<rparr>"

definition MsgGSDeny_GetEMsg :: u32 where
  "MsgGSDeny_GetEMsg = EMsg_GSDeny"

definition MsgGSDeny_GetsteamId :: "MsgGSDeny \<Rightarrow> SteamID" where
  "MsgGSDeny_GetsteamId m = SteamID_of (MsgGSDeny_steamId m)"

definition MsgGSDeny_SetsteamId :: "SteamID \<Rightarrow> MsgGSDeny \<Rightarrow> MsgGSDeny" where
  "MsgGSDeny_SetsteamId val m = m\<lparr>MsgGSDeny_steamId := SteamID_ConvertToUInt64 val\<rparr>"

definition MsgGSDeny_Serialize :: "MsgGSDeny \<Rightarrow> unit sm" where
  "MsgGSDeny_Serialize m =
     thenS (Write_word (MsgGSDeny_steamId m)) (
     Write_word (MsgGSDeny_denyReason m))"

definition MsgGSDeny_Deserialize :: "MsgGSDeny sm" where
  "MsgGSDeny_Deserialize =
     bindS Read_word (\<lambda>steamId.
     bindS Read_word (\<lambda>denyReason.
     returnS \<lparr>MsgGSDeny_steamId = steamId, MsgGSDeny_denyReason = denyReason\<rparr>))"

lemma MsgGSDeny_codec: "codec (\<lambda>_. True) MsgGSDeny_Serialize MsgGSDeny_Deserialize 12"
  unfolding MsgGSDeny_Serialize_def MsgGSDeny_Deserialize_def
  by (rule codecI, (rule reads_intros)+, simp, (rule writes_intros)+, simp_all)

interpretation MsgGSDeny: struct_codec "\<lambda>_. True" MsgGSDeny_Serialize MsgGSDeny_Deserialize 12
  by unfold_locales (rule MsgGSDeny_codec)

record MsgGSApprove =
  MsgGSApprove_steamId :: u64

definition MsgGSApprove_new :: MsgGSApprove where
  "MsgGSApprove_new =
     \<lparr>MsgGSApprove_steamId = 0\<rparr>"

definition MsgGSApprove_GetEMsg :: u32 where
  "MsgGSApprove_GetEMsg = EMsg_GSApprove"

definition MsgGSApprove_GetsteamId :: "MsgGSApprove \<Rightarrow> SteamID" where
  "MsgGSApprove_GetsteamId m = SteamID_of (MsgGSApprove_steamId m)"

definition MsgGSApprove_SetsteamId :: "SteamID \<Rightarrow> MsgGSApprove \<Rightarrow> MsgGSApprove" where
  "MsgGSApprove_SetsteamId val m = m\<lparr>MsgGSApprove_steamId := SteamID_ConvertToUInt64 val\<rparr>"

definition MsgGSApprove_Serialize :: "MsgGSApprove \<Rightarrow> unit sm" where
  "MsgGSApprove_Serialize m =
     Write_word (MsgGSApprove_steamId m)"

definition MsgGSApprove_Deserialize :: "MsgGSApprove sm" where
  "MsgGSApprove_Deserialize =
     bindS Read_word (\<lambda>steamId.
     returnS \<lparr>MsgGSApprove_steamId = steamId\<rparr>)"

lemma MsgGSApprove_codec: "codec (\<lambda>_. True) MsgGSApprove_Serialize MsgGSApprove_Deserialize 8"
  unfolding MsgGSApprove_Serialize_def MsgGSApprove_Deserialize_def
  by (rule codecI, (rule reads_intros)+, simp, (rule writes_intros)+, simp_all)

interpretation MsgGSApprove: struct_codec "\<lambda>_. True" MsgGSApprove_Serialize MsgGSApprove_Deserialize 8
  by unfold_locales (rule MsgGSApprove_codec)

record MsgGSKick =
  MsgGSKick_steamId :: u64
  MsgGSKick_denyReason :: u32
  MsgGSKick_waitTilMapChange :: u32

definition MsgGSKick_new :: MsgGSKick where
  "MsgGSKick_new =
     \<lparr>MsgGSKick_steamId = 0,
      MsgGSKick_denyReason = EDenyReason_Unknown,
      MsgGSKick_waitTilMapChange = 0\<rparr>"

definition MsgGSKick_GetEMsg :: u32 where
  "MsgGSKick_GetEMsg = EMsg_GSKick"

definition MsgGSKick_GetsteamId :: "MsgGSKick \<Rightarrow> SteamID" where
  "MsgGSKick_GetsteamId m = SteamID_of (MsgGSKick_steamId m)"

definition MsgGSKick_SetsteamId :: "SteamID \<Rightarrow> MsgGSKick \<Rightarrow> MsgGSKick" where
  "MsgGSKick_SetsteamId val m = m\<lparr>MsgGSKick_steamId := SteamID_ConvertToUInt64 val\<rparr>"

definition MsgGSKick_Serialize :: "MsgGSKick \<Rightarrow> unit sm" where
  "MsgGSKick_Serialize m =
     thenS (Write_word (MsgGSKick_steamId m)) (
     thenS (Write_word (MsgGSKick_denyReason m)) (
     Write_word (MsgGSKick_waitTilMapChange m)))"

definition MsgGSKick_Deserialize :: "MsgGSKick sm" where
  "MsgGSKick_Deserialize =
     bindS Read_word (\<lambda>steamId.
     bindS Read_word (\<lambda>denyReason.
     bindS Read_word (\<lambda>waitTilMapChange.
     returnS \<lparr>MsgGSKick_steamId = steamId,
        MsgGSKick_denyReason = denyReason,
        MsgGSKick_waitTilMapChange = waitTilMapChange\<rparr>)))"

lemma MsgGSKick_codec: "codec (\<lambda>_. True) MsgGSKick_Serialize MsgGSKick_Deserialize 16"
  unfolding MsgGSKick_Serialize_def MsgGSKick_Deserialize_def
  by (rule codecI, (rule reads_intros)+, simp, (rule writes_intros)+, simp_all)

interpretation MsgGSKick: struct_codec "\<lambda>_. True" MsgGSKick_Serialize MsgGSKick_Deserialize 16
  by unfold_locales (rule MsgGSKick_codec)

record MsgGSGetUserGroupStatus =
  MsgGSGetUserGroupStatus_steamIdUser :: u64
  MsgGSGetUserGroupStatus_steamIdGroup :: u64

definition MsgGSGetUserGroupStatus_new :: MsgGSGetUserGroupStatus where
  "MsgGSGetUserGroupStatus_new =
     \<lparr>MsgGSGetUserGroupStatus_steamIdUser = 0,
      MsgGSGetUserGroupStatus_steamIdGroup = 0\<rparr>"

definition MsgGSGetUserGroupStatus_GetEMsg :: u32 where
  "MsgGSGetUserGroupStatus_GetEMsg = EMsg_GSGetUserGroupStatus"

definition MsgGSGetUserGroupStatus_GetsteamIdUser :: "MsgGSGetUserGroupStatus \<Rightarrow> SteamID" where
  "MsgGSGetUserGroupStatus_GetsteamIdUser m = SteamID_of (MsgGSGetUserGroupStatus_steamIdUser m)"

definition MsgGSGetUserGroupStatus_SetsteamIdUser :: "SteamID \<Rightarrow> MsgGSGetUserGroupStatus \<Rightarrow> MsgGSGetUserGroupStatus" where
  "MsgGSGetUserGroupStatus_SetsteamIdUser val m = m\<lparr>MsgGSGetUserGroupStatus_steamIdUser := SteamID_ConvertToUInt64 val\<rparr>"

definition MsgGSGetUserGroupStatus_GetsteamIdGroup :: "MsgGSGetUserGroupStatus \<Rightarrow> SteamID" where
  "MsgGSGetUserGroupStatus_GetsteamIdGroup m = SteamID_of (MsgGSGetUserGroupStatus_steamIdGroup m)"

definition MsgGSGetUserGroupStatus_SetsteamIdGroup :: "SteamID \<Rightarrow> MsgGSGetUserGroupStatus \<Rightarrow> MsgGSGetUserGroupStatus" where
  "MsgGSGetUserGroupStatus_SetsteamIdGroup val m = m\<lparr>MsgGSGetUserGroupStatus_steamIdGroup := SteamID_ConvertToUInt64 val\<rparr>"

definition MsgGSGetUserGroupStatus_Serialize :: "MsgGSGetUserGroupStatus \<Rightarrow> unit sm" where
  "MsgGSGetUserGroupStatus_Serialize m =
     thenS (Write_word (MsgGSGetUserGroupStatus_steamIdUser m)) (
     Write_word (MsgGSGetUserGroupStatus_steamIdGroup m))"

definition MsgGSGetUserGroupStatus_Deserialize :: "MsgGSGetUserGroupStatus sm" where
  "MsgGSGetUserGroupStatus_Deserialize =
     bindS Read_word (\<lambda>steamIdUser.
     bindS Read_word (\<lambda>steamIdGroup.
     returnS \<lparr>MsgGSGetUserGroupStatus_steamIdUser = steamIdUser,
        MsgGSGetUserGroupStatus_steamIdGroup = steamIdGroup\<rparr>))"

lemma MsgGSGetUserGroupStatus_codec: "codec (\<lambda>_. True) MsgGSGetUserGroupStatus_Serialize MsgGSGetUserGroupStatus_Deserialize 16"
  unfolding MsgGSGetUserGroupStatus_Serialize_def MsgGSGetUserGroupStatus_Deserialize_def
  by (rule codecI, (rule reads_intros)+, simp, (rule writes_intros)+, simp_all)

interpretation MsgGSGetUserGroupStatus: struct_codec "\<lambda>_. True" MsgGSGetUserGroupStatus_Serialize MsgGSGetUserGroupStatus_Deserialize 16
  by unfold_locales (rule MsgGSGetUserGroupStatus_codec)

record MsgGSGetUserGroupStatusResponse =
  MsgGSGetUserGroupStatusResponse_steamIdUser :: u64
  MsgGSGetUserGroupStatusResponse_steamIdGroup :: u64
  MsgGSGetUserGroupStatusResponse_clanRelationship :: u32
  MsgGSGetUserGroupStatusResponse_clanRank :: u32

definition MsgGSGetUserGroupStatusResponse_new :: MsgGSGetUserGroupStatusResponse where
  "MsgGSGetUserGroupStatusResponse_new =
     \<lparr>MsgGSGetUserGroupStatusResponse_steamIdUser = 0,
      MsgGSGetUserGroupStatusResponse_steamIdGroup = 0,
      MsgGSGetUserGroupStatusResponse_clanRelationship = EClanRelationship_None,
      MsgGSGetUserGroupStatusResponse_clanRank = EClanRank_None\<rparr>"

definition MsgGSGetUserGroupStatusResponse_GetEMsg :: u32 where
  "MsgGSGetUserGroupStatusResponse_GetEMsg = EMsg_GSGetUserGroupStatusResponse"

definition MsgGSGetUserGroupStatusResponse_GetsteamIdUser :: "MsgGSGetUserGroupStatusResponse \<Rightarrow> SteamID" where
  "MsgGSGetUserGroupStatusResponse_GetsteamIdUser m = SteamID_of (MsgGSGetUserGroupStatusResponse_steamIdUser m)"

definition MsgGSGetUserGroupStatusResponse_SetsteamIdUser :: "SteamID \<Rightarrow> MsgGSGetUserGroupStatusResponse \<Rightarrow> MsgGSGetUserGroupStatusResponse" where
  "MsgGSGetUserGroupStatusResponse_SetsteamIdUser val m = m\<lparr>MsgGSGetUserGroupStatusResponse_steamIdUser := SteamID_ConvertToUInt64 val\<rparr>"

definition MsgGSGetUserGroupStatusResponse_GetsteamIdGroup :: "MsgGSGetUserGroupStatusResponse \<Rightarrow> SteamID" where
  "MsgGSGetUserGroupStatusResponse_GetsteamIdGroup m = SteamID_of (MsgGSGetUserGroupStatusResponse_steamIdGroup m)"

definition MsgGSGetUserGroupStatusResponse_SetsteamIdGroup :: "SteamID \<Rightarrow> MsgGSGetUserGroupStatusResponse \<Rightarrow> MsgGSGetUserGroupStatusResponse" where
  "MsgGSGetUserGroupStatusResponse_SetsteamIdGroup val m = m\<lparr>MsgGSGetUserGroupStatusResponse_steamIdGroup := SteamID_ConvertToUInt64 val\<rparr>"

definition MsgGSGetUserGroupStatusResponse_Serialize :: "MsgGSGetUserGroupStatusResponse \<Rightarrow> unit sm" where
  "MsgGSGetUserGroupStatusResponse_Serialize m =
     thenS (Write_word (MsgGSGetUserGroupStatusResponse_steamIdUser m)) (
     thenS (Write_word (MsgGSGetUserGroupStatusResponse_steamIdGroup m)) (
     thenS (Write_word (MsgGSGetUserGroupStatusResponse_clanRelationship m)) (
     Write_word (MsgGSGetUserGroupStatusResponse_clanRank m))))"

definition MsgGSGetUserGroupStatusResponse_Deserialize :: "MsgGSGetUserGroupStatusResponse sm" where
  "MsgGSGetUserGroupStatusResponse_Deserialize =
     bindS Read_word (\<lambda>steamIdUser.
     bindS Read_word (\<lambda>steamIdGroup.
     bindS Read_word (\<lambda>clanRelationship.
     bindS Read_word (\<lambda>clanRank.
     returnS \<lparr>MsgGSGetUserGroupStatusResponse_steamIdUser = steamIdUser,
        MsgGSGetUserGroupStatusResponse_steamIdGroup = steamIdGroup,
        MsgGSGetUserGroupStatusResponse_clanRelationship = clanRelationship,
        MsgGSGetUserGroupStatusResponse_clanRank = clanRank\<rparr>))))"

lemma MsgGSGetUserGroupStatusResponse_codec: "codec (\<lambda>_. True) MsgGSGetUserGroupStatusResponse_Serialize MsgGSGetUserGroupStatusResponse_Deserialize 24"
  unfolding MsgGSGetUserGroupStatusResponse_Serialize_def MsgGSGetUserGroupStatusResponse_Deserialize_def
  by (rule codecI, (rule reads_intros)+, simp, (rule writes_intros)+, simp_all)

interpretation MsgGSGetUserGroupStatusResponse: struct_codec "\<lambda>_. True" MsgGSGetUserGroupStatusResponse_Serialize MsgGSGetUserGroupStatusResponse_Deserialize 24
  by unfold_locales (rule MsgGSGetUserGroupStatusResponse_codec)

record MsgClientJoinChat =
  MsgClientJoinChat_steamIdChat :: u64
  MsgClientJoinChat_isVoiceSpeaker :: byte

definition MsgClientJoinChat_new :: MsgClientJoinChat where
  "MsgClientJoinChat_new =
     \<lparr>MsgClientJoinChat_steamIdChat = 0,
      MsgClientJoinChat_isVoiceSpeaker = 0\<rparr>"

definition MsgClientJoinChat_GetEMsg :: u32 where
  "MsgClientJoinChat_GetEMsg = EMsg_ClientJoinChat"

definition MsgClientJoinChat_GetsteamIdChat :: "MsgClientJoinChat \<Rightarrow> SteamID" where
  "MsgClientJoinChat_GetsteamIdChat m = SteamID_of (MsgClientJoinChat_steamIdChat m)"

definition MsgClientJoinChat_SetsteamIdChat :: "SteamID \<Rightarrow> MsgClientJoinChat \<Rightarrow> MsgClientJoinChat" where
  "MsgClientJoinChat_SetsteamIdChat val m = m\<lparr>MsgClientJoinChat_steamIdChat := SteamID_ConvertToUInt64 val\<rparr>"

definition MsgClientJoinChat_Serialize :: "MsgClientJoinChat \<Rightarrow> unit sm" where
  "MsgClientJoinChat_Serialize m =
     thenS (Write_word (MsgClientJoinChat_steamIdChat m)) (
     Write_word (MsgClientJoinChat_isVoiceSpeaker m))"

definition MsgClientJoinChat_Deserialize :: "MsgClientJoinChat sm" where
  "MsgClientJoinChat_Deserialize =
     bindS Read_word (\<lambda>steamIdChat.
     bindS Read_word (\<lambda>isVoiceSpeaker.
     returnS \<lparr>MsgClientJoinChat_steamIdChat = steamIdChat,
        MsgClientJoinChat_isVoiceSpeaker = isVoiceSpeaker\<rparr>))"

lemma MsgClientJoinChat_codec: "codec (\<lambda>_. True) MsgClientJoinChat_Serialize MsgClientJoinChat_Deserialize 9"
  unfolding MsgClientJoinChat_Serialize_def MsgClientJoinChat_Deserialize_def
  by (rule codecI, (rule reads_intros)+, simp, (rule writes_intros)+, simp_all)

interpretation MsgClientJoinChat: struct_codec "\<lambda>_. True" MsgClientJoinChat_Serialize MsgClientJoinChat_Deserialize 9
  by unfold_locales (rule MsgClientJoinChat_codec)

record MsgClientChatEnter =
  MsgClientChatEnter_steamIdChat :: u64
  MsgClientChatEnter_steamIdFriend :: u64
  MsgClientChatEnter_chatRoomType :: u32
  MsgClientChatEnter_steamIdOwner :: u64
  MsgClientChatEnter_steamIdClan :: u64
  MsgClientChatEnter_chatFlags :: byte
  MsgClientChatEnter_enterResponse :: u32
  MsgClientChatEnter_numMembers :: u32

definition MsgClientChatEnter_new :: MsgClientChatEnter where
  "MsgClientChatEnter_new =
     \<lparr>MsgClientChatEnter_steamIdChat = 0,
      MsgClientChatEnter_steamIdFriend = 0,
      MsgClientChatEnter_chatRoomType = EChatRoomType_Unknown,
      MsgClientChatEnter_steamIdOwner = 0,
      MsgClientChatEnter_steamIdClan = 0,
      MsgClientChatEnter_chatFlags = 0,
      MsgClientChatEnter_enterResponse = EChatRoomEnterResponse_Unknown,
      MsgClientChatEnter_numMembers = 0\<rparr>"

definition MsgClientChatEnter_GetEMsg :: u32 where
  "MsgClientChatEnter_GetEMsg = EMsg_ClientChatEnter"

definition MsgClientChatEnter_GetsteamIdChat :: "MsgClientChatEnter \<Rightarrow> SteamID" where
  "MsgClientChatEnter_GetsteamIdChat m = SteamID_of (MsgClientChatEnter_steamIdChat m)"

definition MsgClientChatEnter_SetsteamIdChat :: "SteamID \<Rightarrow> MsgClientChatEnter \<Rightarrow> MsgClientChatEnter" where
  "MsgClientChatEnter_SetsteamIdChat val m = m\<lparr>MsgClientChatEnter_steamIdChat := SteamID_ConvertToUInt64 val\<rparr>"

definition MsgClientChatEnter_GetsteamIdFriend :: "MsgClientChatEnter \<Rightarrow> SteamID" where
  "MsgClientChatEnter_GetsteamIdFriend m = SteamID_of (MsgClientChatEnter_steamIdFriend m)"

definition MsgClientChatEnter_SetsteamIdFriend :: "SteamID \<Rightarrow> MsgClientChatEnter \<Rightarrow> MsgClientChatEnter" where
  "MsgClientChatEnter_SetsteamIdFriend val m = m\<lparr>MsgClientChatEnter_steamIdFriend := SteamID_ConvertToUInt64 val\<rparr>"

definition MsgClientChatEnter_GetsteamIdOwner :: "MsgClientChatEnter \<Rightarrow> SteamID" where
  "MsgClientChatEnter_GetsteamIdOwner m = SteamID_of (MsgClientChatEnter_steamIdOwner m)"

definition MsgClientChatEnter_SetsteamIdOwner :: "SteamID \<Rightarrow> MsgClientChatEnter \<Rightarrow> MsgClientChatEnter" where
  "MsgClientChatEnter_SetsteamIdOwner val m = m\<lparr>MsgClientChatEnter_steamIdOwner := SteamID_ConvertToUInt64 val\<rparr>"

definition MsgClientChatEnter_GetsteamIdClan :: "MsgClientChatEnter \<Rightarrow> SteamID" where
  "MsgClientChatEnter_GetsteamIdClan m = SteamID_of (MsgClientChatEnter_steamIdClan m)"

definition MsgClientChatEnter_SetsteamIdClan :: "SteamID \<Rightarrow> MsgClientChatEnter \<Rightarrow> MsgClientChatEnter" where
  "MsgClientChatEnter_SetsteamIdClan val m = m\<lparr>MsgClientChatEnter_steamIdClan := SteamID_ConvertToUInt64 val\<rparr>"

definition MsgClientChatEnter_Serialize :: "MsgClientChatEnter \<Rightarrow> unit sm" where
  "MsgClientChatEnter_Serialize m =
     thenS (Write_word (MsgClientChatEnter_steamIdChat m)) (
     thenS (Write_word (MsgClientChatEnter_steamIdFriend m)) (
     thenS (Write_word (MsgClientChatEnter_chatRoomType m)) (
     thenS (Write_word (MsgClientChatEnter_steamIdOwner m)) (
     thenS (Write_word (MsgClientChatEnter_steamIdClan m)) (
     thenS (Write_word (MsgClientChatEnter_chatFlags m)) (
     thenS (Write_word (MsgClientChatEnter_enterResponse m)) (
     Write_word (MsgClientChatEnter_numMembers m))))))))"

definition MsgClientChatEnter_Deserialize :: "MsgClientChatEnter sm" where
  "MsgClientChatEnter_Deserialize =
     bindS Read_word (\<lambda>steamIdChat.
     bindS Read_word (\<lambda>steamIdFriend.
     bindS Read_word (\<lambda>chatRoomType.
     bindS Read_word (\<lambda>steamIdOwner.
     bindS Read_word (\<lambda>steamIdClan.
     bindS Read_word (\<lambda>chatFlags.
     bindS Read_word (\<lambda>enterResponse.
     bindS Read_word (\<lambda>numMembers.
     returnS \<lparr>MsgClientChatEnter_steamIdChat = steamIdChat,
        MsgClientChatEnter_steamIdFriend = steamIdFriend,
        MsgClientChatEnter_chatRoomType = chatRoomType,
        MsgClientChatEnter_steamIdOwner = steamIdOwner,
        MsgClientChatEnter_steamIdClan = steamIdClan,
        MsgClientChatEnter_chatFlags = chatFlags,
        MsgClientChatEnter_enterResponse = enterResponse,
        MsgClientChatEnter_numMembers = numMembers\<rparr>))))))))"

lemma MsgClientChatEnter_codec: "codec (\<lambda>_. True) MsgClientChatEnter_Serialize MsgClientChatEnter_Deserialize 45"
  unfolding MsgClientChatEnter_Serialize_def MsgClientChatEnter_Deserialize_def
  by (rule codecI, (rule reads_intros)+, simp, (rule writes_intros)+, simp_all)

interpretation MsgClientChatEnter: struct_codec "\<lambda>_. True" MsgClientChatEnter_Serialize MsgClientChatEnter_Deserialize 45
  by unfold_locales (rule MsgClientChatEnter_codec)

record MsgClientChatMsg =
  MsgClientChatMsg_steamIdChatter :: u64
  MsgClientChatMsg_steamIdChatRoom :: u64
  MsgClientChatMsg_chatMsgType :: u32

definition MsgClientChatMsg_new :: MsgClientChatMsg where
  "MsgClientChatMsg_new =
     \<lparr>MsgClientChatMsg_steamIdChatter = 0,
      MsgClientChatMsg_steamIdChatRoom = 0,
      MsgClientChatMsg_chatMsgType = EChatEntryType_Invalid\<rparr>"

definition MsgClientChatMsg_GetEMsg :: u32 where
  "MsgClientChatMsg_GetEMsg = EMsg_ClientChatMsg"

definition MsgClientChatMsg_GetsteamIdChatter :: "MsgClientChatMsg \<Rightarrow> SteamID" where
  "MsgClientChatMsg_GetsteamIdChatter m = SteamID_of (MsgClientChatMsg_steamIdChatter m)"

definition MsgClientChatMsg_SetsteamIdChatter :: "SteamID \<Rightarrow> MsgClientChatMsg \<Rightarrow> MsgClientChatMsg" where
  "MsgClientChatMsg_SetsteamIdChatter val m = m\<lparr>MsgClientChatMsg_steamIdChatter := SteamID_ConvertToUInt64 val\<rparr>"

definition MsgClientChatMsg_GetsteamIdChatRoom :: "MsgClientChatMsg \<Rightarrow> SteamID" where
  "MsgClientChatMsg_GetsteamIdChatRoom m = SteamID_of (MsgClientChatMsg_steamIdChatRoom m)"

definition MsgClientChatMsg_SetsteamIdChatRoom :: "SteamID \<Rightarrow> MsgClientChatMsg \<Rightarrow> MsgClientChatMsg" where
  "MsgClientChatMsg_SetsteamIdChatRoom val m = m\<lparr>MsgClientChatMsg_steamIdChatRoom := SteamID_ConvertToUInt64 val\<rparr>"

definition MsgClientChatMsg_Serialize :: "MsgClientChatMsg \<Rightarrow> unit sm" where
  "MsgClientChatMsg_Serialize m =
     thenS (Write_word (MsgClientChatMsg_steamIdChatter m)) (
     thenS (Write_word (MsgClientChatMsg_steamIdChatRoom m)) (
     Write_word (MsgClientChatMsg_chatMsgType m)))"

definition MsgClientChatMsg_Deserialize :: "MsgClientChatMsg sm" where
  "MsgClientChatMsg_Deserialize =
     bindS Read_word (\<lambda>steamIdChatter.
     bindS Read_word (\<lambda>steamIdChatRoom.
     bindS Read_word (\<lambda>chatMsgType.
     returnS \<lparr>MsgClientChatMsg_steamIdChatter = steamIdChatter,
        MsgClientChatMsg_steamIdChatRoom = steamIdChatRoom,
        MsgClientChatMsg_chatMsgType = chatMsgType\<rparr>)))"

lemma MsgClientChatMsg_codec: "codec (\<lambda>_. True) MsgClientChatMsg_Serialize MsgClientChatMsg_Deserialize 20"
  unfolding MsgClientChatMsg_Serialize_def MsgClientChatMsg_Deserialize_def
  by (rule codecI, (rule reads_intros)+, simp, (rule writes_intros)+, simp_all)

interpretation MsgClientChatMsg: struct_codec "\<lambda>_. True" MsgClientChatMsg_Serialize MsgClientChatMsg_Deserialize 20
  by unfold_locales (rule MsgClientChatMsg_codec)

record MsgClientChatMemberInfo =
  MsgClientChatMemberInfo_steamIdChat :: u64
  MsgClientChatMemberInfo_type :: u32

definition MsgClientChatMemberInfo_new :: MsgClientChatMemberInfo where
  "MsgClientChatMemberInfo_new =
     \<lparr>MsgClientChatMemberInfo_steamIdChat = 0,
      MsgClientChatMemberInfo_type = EChatInfoType_Unknown\<rparr>"

definition MsgClientChatMemberInfo_GetEMsg :: u32 where
  "MsgClientChatMemberInfo_GetEMsg = EMsg_ClientChatMemberInfo"

definition MsgClientChatMemberInfo_GetsteamIdChat :: "MsgClientChatMemberInfo \<Rightarrow> SteamID" where
  "MsgClientChatMemberInfo_GetsteamIdChat m = SteamID_of (MsgClientChatMemberInfo_steamIdChat m)"

definition MsgClientChatMemberInfo_SetsteamIdChat :: "SteamID \<Rightarrow> MsgClientChatMemberInfo \<Rightarrow> MsgClientChatMemberInfo" where
  "MsgClientChatMemberInfo_SetsteamIdChat val m = m\<lparr>MsgClientChatMemberInfo_steamIdChat := SteamID_ConvertToUInt64 val\<rparr>"

definition MsgClientChatMemberInfo_Serialize :: "MsgClientChatMemberInfo \<Rightarrow> unit sm" where
  "MsgClientChatMemberInfo_Serialize m =
     thenS (Write_word (MsgClientChatMemberInfo_steamIdChat m)) (
     Write_word (MsgClientChatMemberInfo_type m))"

definition MsgClientChatMemberInfo_Deserialize :: "MsgClientChatMemberInfo sm" where
  "MsgClientChatMemberInfo_Deserialize =
     bindS Read_word (\<lambda>steamIdChat.
     bindS Read_word (\<lambda>type.
     returnS \<lparr>MsgClientChatMemberInfo_steamIdChat = steamIdChat,
        MsgClientChatMemberInfo_type = type\<rparr>))"

lemma MsgClientChatMemberInfo_codec: "codec (\<lambda>_. True) MsgClientChatMemberInfo_Serialize MsgClientChatMemberInfo_Deserialize 12"
  unfolding MsgClientChatMemberInfo_Serialize_def MsgClientChatMemberInfo_Deserialize_def
  by (rule codecI, (rule reads_intros)+, simp, (rule writes_intros)+, simp_all)

interpretation MsgClientChatMemberInfo: struct_codec "\<lambda>_. True" MsgClientChatMemberInfo_Serialize MsgClientChatMemberInfo_Deserialize 12
  by unfold_locales (rule MsgClientChatMemberInfo_codec)

record MsgClientChatAction =
  MsgClientChatAction_steamIdChat :: u64
  MsgClientChatAction_steamIdUserToActOn :: u64
  MsgClientChatAction_chatAction :: u32

definition MsgClientChatAction_new :: MsgClientChatAction where
  "MsgClientChatAction_new =
     \<lparr>MsgClientChatAction_steamIdChat = 0,
      MsgClientChatAction_steamIdUserToActOn = 0,
      MsgClientChatAction_chatAction = EChatAction_Unknown\<rparr>"

definition MsgClientChatAction_GetEMsg :: u32 where
  "MsgClientChatAction_GetEMsg = EMsg_ClientChatAction"

definition MsgClientChatAction_GetsteamIdChat :: "MsgClientChatAction \<Rightarrow> SteamID" where
  "MsgClientChatAction_GetsteamIdChat m = SteamID_of (MsgClientChatAction_steamIdChat m)"

definition MsgClientChatAction_SetsteamIdChat :: "SteamID \<Rightarrow> MsgClientChatAction \<Rightarrow> MsgClientChatAction" where
  "MsgClientChatAction_SetsteamIdChat val m = m\<lparr>MsgClientChatAction_steamIdChat := SteamID_ConvertToUInt64 val\<rparr>"

definition MsgClientChatAction_GetsteamIdUserToActOn :: "MsgClientChatAction \<Rightarrow> SteamID" where
  "MsgClientChatAction_GetsteamIdUserToActOn m = SteamID_of (MsgClientChatAction_steamIdUserToActOn m)"

definition MsgClientChatAction_SetsteamIdUserToActOn :: "SteamID \<Rightarrow> MsgClientChatAction \<Rightarrow> MsgClientChatAction" where
  "MsgClientChatAction_SetsteamIdUserToActOn val m = m\<lparr>MsgClientChatAction_steamIdUserToActOn := SteamID_ConvertToUInt64 val\<rparr>"

definition MsgClientChatAction_Serialize :: "MsgClientChatAction \<Rightarrow> unit sm" where
  "MsgClientChatAction_Serialize m =
     thenS (Write_word (MsgClientChatAction_steamIdChat m)) (
     thenS (Write_word (MsgClientChatAction_steamIdUserToActOn m)) (
     Write_word (MsgClientChatAction_chatAction m)))"

definition MsgClientChatAction_Deserialize :: "MsgClientChatAction sm" where
  "MsgClientChatAction_Deserialize =
     bindS Read_word (\<lambda>steamIdChat.
     bindS Read_word (\<lambda>steamIdUserToActOn.
     bindS Read_word (\<lambda>chatAction.
     returnS \<lparr>MsgClientChatAction_steamIdChat = steamIdChat,
        MsgClientChatAction_steamIdUserToActOn = steamIdUserToActOn,
        MsgClientChatAction_chatAction = chatAction\<rparr>)))"

lemma MsgClientChatAction_codec: "codec (\<lambda>_. True) MsgClientChatAction_Serialize MsgClientChatAction_Deserialize 20"
  unfolding MsgClientChatAction_Serialize_def MsgClientChatAction_Deserialize_def
  by (rule codecI, (rule reads_intros)+, simp, (rule writes_intros)+, simp_all)

interpretation MsgClientChatAction: struct_codec "\<lambda>_. True" MsgClientChatAction_Serialize MsgClientChatAction_Deserialize 20
  by unfold_locales (rule MsgClientChatAction_codec)

record MsgClientChatActionResult =
  MsgClientChatActionResult_steamIdChat :: u64
  MsgClientChatActionResult_steamIdUserActedOn :: u64
  MsgClientChatActionResult_chatAction :: u32
  MsgClientChatActionResult_actionResult :: u32

definition MsgClientChatActionResult_new :: MsgClientChatActionResult where
  "MsgClientChatActionResult_new =
     \<lparr>MsgClientChatActionResult_steamIdChat = 0,
      MsgClientChatActionResult_steamIdUserActedOn = 0,
      MsgClientChatActionResult_chatAction = EChatAction_Unknown,
      MsgClientChatActionResult_actionResult = EChatActionResult_Unknown\<rparr>"

definition MsgClientChatActionResult_GetEMsg :: u32 where
  "MsgClientChatActionResult_GetEMsg = EMsg_ClientChatActionResult"

definition MsgClientChatActionResult_GetsteamIdChat :: "MsgClientChatActionResult \<Rightarrow> SteamID" where
  "MsgClientChatActionResult_GetsteamIdChat m = SteamID_of (MsgClientChatActionResult_steamIdChat m)"

definition MsgClientChatActionResult_SetsteamIdChat :: "SteamID \<Rightarrow> MsgClientChatActionResult \<Rightarrow> MsgClientChatActionResult" where
  "MsgClientChatActionResult_SetsteamIdChat val m = m\<lparr>MsgClientChatActionResult_steamIdChat := SteamID_ConvertToUInt64 val\<rparr>"

definition MsgClientChatActionResult_GetsteamIdUserActedOn :: "MsgClientChatActionResult \<Rightarrow> SteamID" where
  "MsgClientChatActionResult_GetsteamIdUserActedOn m = SteamID_of (MsgClientChatActionResult_steamIdUserActedOn m)"

definition MsgClientChatActionResult_SetsteamIdUserActedOn :: "SteamID \<Rightarrow> MsgClientChatActionResult \<Rightarrow> MsgClientChatActionResult" where
  "MsgClientChatActionResult_SetsteamIdUserActedOn val m = m\<lparr>MsgClientChatActionResult_steamIdUserActedOn := SteamID_ConvertToUInt64 val\<rparr>"

definition MsgClientChatActionResult_Serialize :: "MsgClientChatActionResult \<Rightarrow> unit sm" where
  "MsgClientChatActionResult_Serialize m =
     thenS (Write_word (MsgClientChatActionResult_steamIdChat m)) (
     thenS (Write_word (MsgClientChatActionResult_steamIdUserActedOn m)) (
     thenS (Write_word (MsgClientChatActionResult_chatAction m)) (
     Write_word (MsgClientChatActionResult_actionResult m))))"

definition MsgClientChatActionResult_Deserialize :: "MsgClientChatActionResult sm" where
  "MsgClientChatActionResult_Deserialize =
     bindS Read_word (\<lambda>steamIdChat.
     bindS Read_word (\<lambda>steamIdUserActedOn.
     bindS Read_word (\<lambda>chatAction.
     bindS Read_word (\<lambda>actionResult.
     returnS \<lparr>MsgClientChatActionResult_steamIdChat = steamIdChat,
        MsgClientChatActionResult_steamIdUserActedOn = steamIdUserActedOn,
        MsgClientChatActionResult_chatAction = chatAction,
        MsgClientChatActionResult_actionResult = actionResult\<rparr>))))"

lemma MsgClientChatActionResult_codec: "codec (\<lambda>_. True) MsgClientChatActionResult_Serialize MsgClientChatActionResult_Deserialize 24"
  unfolding MsgClientChatActionResult_Serialize_def MsgClientChatActionResult_Deserialize_def
  by (rule codecI, (rule reads_intros)+, simp, (rule writes_intros)+, simp_all)

interpretation MsgClientChatActionResult: struct_codec "\<lambda>_. True" MsgClientChatActionResult_Serialize MsgClientChatActionResult_Deserialize 24
  by unfold_locales (rule MsgClientChatActionResult_codec)

record MsgClientChatRoomInfo =
  MsgClientChatRoomInfo_steamIdChat :: u64
  MsgClientChatRoomInfo_type :: u32

definition MsgClientChatRoomInfo_new :: MsgClientChatRoomInfo where
  "MsgClientChatRoomInfo_new =
     \<lparr>MsgClientChatRoomInfo_steamIdChat = 0,
      MsgClientChatRoomInfo_type = EChatInfoType_Unknown\<rparr>"

definition MsgClientChatRoomInfo_GetEMsg :: u32 where
  "MsgClientChatRoomInfo_GetEMsg = EMsg_ClientChatRoomInfo"

definition MsgClientChatRoomInfo_GetsteamIdChat :: "MsgClientChatRoomInfo \<Rightarrow> SteamID" where
  "MsgClientChatRoomInfo_GetsteamIdChat m = SteamID_of (MsgClientChatRoomInfo_steamIdChat m)"

definition MsgClientChatRoomInfo_SetsteamIdChat :: "SteamID \<Rightarrow> MsgClientChatRoomInfo \<Rightarrow> MsgClientChatRoomInfo" where
  "MsgClientChatRoomInfo_SetsteamIdChat val m = m\<lparr>MsgClientChatRoomInfo_steamIdChat := SteamID_ConvertToUInt64 val\<rparr>"

definition MsgClientChatRoomInfo_Serialize :: "MsgClientChatRoomInfo \<Rightarrow> unit sm" where
  "MsgClientChatRoomInfo_Serialize m =
     thenS (Write_word (MsgClientChatRoomInfo_steamIdChat m)) (
     Write_word (MsgClientChatRoomInfo_type m))"

definition MsgClientChatRoomInfo_Deserialize :: "MsgClientChatRoomInfo sm" where
  "MsgClientChatRoomInfo_Deserialize =
     bindS Read_word (\<lambda>steamIdChat.
     bindS Read_word (\<lambda>type.
     returnS \<lparr>MsgClientChatRoomInfo_steamIdChat = steamIdChat,
        MsgClientChatRoomInfo_type = type\<rparr>))"

lemma MsgClientChatRoomInfo_codec: "codec (\<lambda>_. True) MsgClientChatRoomInfo_Serialize MsgClientChatRoomInfo_Deserialize 12"
  unfolding MsgClientChatRoomInfo_Serialize_def MsgClientChatRoomInfo_Deserialize_def
  by (rule codecI, (rule reads_intros)+, simp, (rule writes_intros)+, simp_all)

interpretation MsgClientChatRoomInfo: struct_codec "\<lambda>_. True" MsgClientChatRoomInfo_Serialize MsgClientChatRoomInfo_Deserialize 12
  by unfold_locales (rule MsgClientChatRoomInfo_codec)

record MsgClientSetIgnoreFriend =
  MsgClientSetIgnoreFriend_mySteamId :: u64
  MsgClientSetIgnoreFriend_steamIdFriend :: u64
  MsgClientSetIgnoreFriend_ignore :: byte

definition MsgClientSetIgnoreFriend_new :: MsgClientSetIgnoreFriend where
  "MsgClientSetIgnoreFriend_new =
     \<lparr>MsgClientSetIgnoreFriend_mySteamId = 0,
      MsgClientSetIgnoreFriend_steamIdFriend = 0,
      MsgClientSetIgnoreFriend_ignore = 0\<rparr>"

definition MsgClientSetIgnoreFriend_GetEMsg :: u32 where
  "MsgClientSetIgnoreFriend_GetEMsg = EMsg_ClientSetIgnoreFriend"

definition MsgClientSetIgnoreFriend_GetmySteamId :: "MsgClientSetIgnoreFriend \<Rightarrow> SteamID" where
  "MsgClientSetIgnoreFriend_GetmySteamId m = SteamID_of (MsgClientSetIgnoreFriend_mySteamId m)"

definition MsgClientSetIgnoreFriend_SetmySteamId :: "SteamID \<Rightarrow> MsgClientSetIgnoreFriend \<Rightarrow> MsgClientSetIgnoreFriend" where
  "MsgClientSetIgnoreFriend_SetmySteamId val m = m\<lparr>MsgClientSetIgnoreFriend_mySteamId := SteamID_ConvertToUInt64 val\<rparr>"

definition MsgClientSetIgnoreFriend_GetsteamIdFriend :: "MsgClientSetIgnoreFriend \<Rightarrow> SteamID" where
  "MsgClientSetIgnoreFriend_GetsteamIdFriend m = SteamID_of (MsgClientSetIgnoreFriend_steamIdFriend m)"

definition MsgClientSetIgnoreFriend_SetsteamIdFriend :: "SteamID \<Rightarrow> MsgClientSetIgnoreFriend \<Rightarrow> MsgClientSetIgnoreFriend" where
  "MsgClientSetIgnoreFriend_SetsteamIdFriend val m = m\<lparr>MsgClientSetIgnoreFriend_steamIdFriend := SteamID_ConvertToUInt64 val\<rparr>"

definition MsgClientSetIgnoreFriend_Serialize :: "MsgClientSetIgnoreFriend \<Rightarrow> unit sm" where
  "MsgClientSetIgnoreFriend_Serialize m =
     thenS (Write_word (MsgClientSetIgnoreFriend_mySteamId m)) (
     thenS (Write_word (MsgClientSetIgnoreFriend_steamIdFriend m)) (
     Write_word (MsgClientSetIgnoreFriend_ignore m)))"

definition MsgClientSetIgnoreFriend_Deserialize :: "MsgClientSetIgnoreFriend sm" where
  "MsgClientSetIgnoreFriend_Deserialize =
     bindS Read_word (\<lambda>mySteamId.
     bindS Read_word (\<lambda>steamIdFriend.
     bindS Read_word (\<lambda>ignore.
     returnS \<lparr>MsgClientSetIgnoreFriend_mySteamId = mySteamId,
        MsgClientSetIgnoreFriend_steamIdFriend = steamIdFriend,
        MsgClientSetIgnoreFriend_ignore = ignore\<rparr>)))"

lemma MsgClientSetIgnoreFriend_codec: "codec (\<lambda>_. True) MsgClientSetIgnoreFriend_Serialize MsgClientSetIgnoreFriend_Deserialize 17"
  unfolding MsgClientSetIgnoreFriend_Serialize_def MsgClientSetIgnoreFriend_Deserialize_def
  by (rule codecI, (rule reads_intros)+, simp, (rule writes_intros)+, simp_all)

interpretation MsgClientSetIgnoreFriend: struct_codec "\<lambda>_. True" MsgClientSetIgnoreFriend_Serialize MsgClientSetIgnoreFriend_Deserialize 17
  by unfold_locales (rule MsgClientSetIgnoreFriend_codec)

record MsgClientSetIgnoreFriendResponse =
  MsgClientSetIgnoreFriendResponse_friendId :: u64
  MsgClientSetIgnoreFriendResponse_result :: u32

definition MsgClientSetIgnoreFriendResponse_new :: MsgClientSetIgnoreFriendResponse where
  "MsgClientSetIgnoreFriendResponse_new =
     \<lparr>MsgClientSetIgnoreFriendResponse_friendId = 0,
      MsgClientSetIgnoreFriendResponse_result = EResult_Invalid\<rparr>"

definition MsgClientSetIgnoreFriendResponse_GetEMsg :: u32 where
  "MsgClientSetIgnoreFriendResponse_GetEMsg = EMsg_ClientSetIgnoreFriendResponse"

definition MsgClientSetIgnoreFriendResponse_GetfriendId :: "MsgClientSetIgnoreFriendResponse \<Rightarrow> SteamID" where
  "MsgClientSetIgnoreFriendResponse_GetfriendId m = SteamID_of (MsgClientSetIgnoreFriendResponse_friendId m)"

definition MsgClientSetIgnoreFriendResponse_SetfriendId :: "SteamID \<Rightarrow> MsgClientSetIgnoreFriendResponse \<Rightarrow> MsgClientSetIgnoreFriendResponse" where
  "MsgClientSetIgnoreFriendResponse_SetfriendId val m = m\<lparr>MsgClientSetIgnoreFriendResponse_friendId := SteamID_ConvertToUInt64 val\<rparr>"

definition MsgClientSetIgnoreFriendResponse_Serialize :: "MsgClientSetIgnoreFriendResponse \<Rightarrow> unit sm" where
  "MsgClientSetIgnoreFriendResponse_Serialize m =
     thenS (Write_word (MsgClientSetIgnoreFriendResponse_friendId m)) (
     Write_word (MsgClientSetIgnoreFriendResponse_result m))"

definition MsgClientSetIgnoreFriendResponse_Deserialize :: "MsgClientSetIgnoreFriendResponse sm" where
  "MsgClientSetIgnoreFriendResponse_Deserialize =
     bindS Read_word (\<lambda>friendId.
     bindS Read_word (\<lambda>result.
     returnS \<lparr>MsgClientSetIgnoreFriendResponse_friendId = friendId,
        MsgClientSetIgnoreFriendResponse_result = result\<rparr>))"

lemma MsgClientSetIgnoreFriendResponse_codec: "codec (\<lambda>_. True) MsgClientSetIgnoreFriendResponse_Serialize MsgClientSetIgnoreFriendResponse_Deserialize 12"
  unfolding MsgClientSetIgnoreFriendResponse_Serialize_def MsgClientSetIgnoreFriendResponse_Deserialize_def
  by (rule codecI, (rule reads_intros)+, simp, (rule writes_intros)+, simp_all)

interpretation MsgClientSetIgnoreFriendResponse: struct_codec "\<lambda>_. True" MsgClientSetIgnoreFriendResponse_Serialize MsgClientSetIgnoreFriendResponse_Deserialize 12
  by unfold_locales (rule MsgClientSetIgnoreFriendResponse_codec)

record MsgClientLoggedOff =
  MsgClientLoggedOff_result :: u32
  MsgClientLoggedOff_secMinReconnectHint :: u32
  MsgClientLoggedOff_secMaxReconnectHint :: u32

definition MsgClientLoggedOff_new :: MsgClientLoggedOff where
  "MsgClientLoggedOff_new =
     \<lparr>MsgClientLoggedOff_result = EResult_Invalid,
      MsgClientLoggedOff_secMinReconnectHint = 0,
      MsgClientLoggedOff_secMaxReconnectHint = 0\<rparr>"

definition MsgClientLoggedOff_GetEMsg :: u32 where
  "MsgClientLoggedOff_GetEMsg = EMsg_ClientLoggedOff"

definition MsgClientLoggedOff_Serialize :: "MsgClientLoggedOff \<Rightarrow> unit sm" where
  "MsgClientLoggedOff_Serialize m =
     thenS (Write_word (MsgClientLoggedOff_result m)) (
     thenS (Write_word (MsgClientLoggedOff_secMinReconnectHint m)) (
     Write_word (MsgClientLoggedOff_secMaxReconnectHint m)))"

definition MsgClientLoggedOff_Deserialize :: "MsgClientLoggedOff sm" where
  "MsgClientLoggedOff_Deserialize =
     bindS Read_word (\<lambda>result.
     bindS Read_word (\<lambda>secMinReconnectHint.
     bindS Read_word (\<lambda>secMaxReconnectHint.
     returnS \<lparr>MsgClientLoggedOff_result = result,
        MsgClientLoggedOff_secMinReconnectHint = secMinReconnectHint,
        MsgClientLoggedOff_secMaxReconnectHint = secMaxReconnectHint\<rparr>)))"

lemma MsgClientLoggedOff_codec: "codec (\<lambda>_. True) MsgClientLoggedOff_Serialize MsgClientLoggedOff_Deserialize 12"
  unfolding MsgClientLoggedOff_Serialize_def MsgClientLoggedOff_Deserialize_def
  by (rule codecI, (rule reads_intros)+, simp, (rule writes_intros)+, simp_all)

interpretation MsgClientLoggedOff: struct_codec "\<lambda>_. True" MsgClientLoggedOff_Serialize MsgClientLoggedOff_Deserialize 12
  by unfold_locales (rule MsgClientLoggedOff_codec)

record MsgClientLogOnResponse =
  MsgClientLogOnResponse_result :: u32
  MsgClientLogOnResponse_outOfGameHeartbeatRateSec :: u32
  MsgClientLogOnResponse_inGameHeartbeatRateSec :: u32
  MsgClientLogOnResponse_clientSuppliedSteamId :: u64
  MsgClientLogOnResponse_ipPublic :: u32
  MsgClientLogOnResponse_serverRealTime :: u32

definition MsgClientLogOnResponse_new :: MsgClientLogOnResponse where
  "MsgClientLogOnResponse_new =
     \<lparr>MsgClientLogOnResponse_result = EResult_Invalid,
      MsgClientLogOnResponse_outOfGameHeartbeatRateSec = 0,
      MsgClientLogOnResponse_inGameHeartbeatRateSec = 0,
      MsgClientLogOnResponse_clientSuppliedSteamId = 0,
      MsgClientLogOnResponse_ipPublic = 0,
      MsgClientLogOnResponse_serverRealTime = 0\<rparr>"

definition MsgClientLogOnResponse_GetEMsg :: u32 where
  "MsgClientLogOnResponse_GetEMsg = EMsg_ClientLogOnResponse"

definition MsgClientLogOnResponse_GetclientSuppliedSteamId :: "MsgClientLogOnResponse \<Rightarrow> SteamID" where
  "MsgClientLogOnResponse_GetclientSuppliedSteamId m = SteamID_of (MsgClientLogOnResponse_clientSuppliedSteamId m)"

definition MsgClientLogOnResponse_SetclientSuppliedSteamId :: "SteamID \<Rightarrow> MsgClientLogOnResponse \<Rightarrow> MsgClientLogOnResponse" where
  "MsgClientLogOnResponse_SetclientSuppliedSteamId val m = m\<lparr>MsgClientLogOnResponse_clientSuppliedSteamId := SteamID_ConvertToUInt64 val\<rparr>"

definition MsgClientLogOnResponse_Serialize :: "MsgClientLogOnResponse \<Rightarrow> unit sm" where
  "MsgClientLogOnResponse_Serialize m =
     thenS (Write_word (MsgClientLogOnResponse_result m)) (
     thenS (Write_word (MsgClientLogOnResponse_outOfGameHeartbeatRateSec m)) (
     thenS (Write_word (MsgClientLogOnResponse_inGameHeartbeatRateSec m)) (
     thenS (Write_word (MsgClientLogOnResponse_clientSuppliedSteamId m)) (
     thenS (Write_word (MsgClientLogOnResponse_ipPublic m)) (
     Write_word (MsgClientLogOnResponse_serverRealTime m))))))"

definition MsgClientLogOnResponse_Deserialize :: "MsgClientLogOnResponse sm" where
  "MsgClientLogOnResponse_Deserialize =
     bindS Read_word (\<lambda>result.
     bindS Read_word (\<lambda>outOfGameHeartbeatRateSec.
     bindS Read_word (\<lambda>inGameHeartbeatRateSec.
     bindS Read_word (\<lambda>clientSuppliedSteamId.
     bindS Read_word (\<lambda>ipPublic.
     bindS Read_word (\<lambda>serverRealTime.
     returnS \<lparr>MsgClientLogOnResponse_result = result,
        MsgClientLogOnResponse_outOfGameHeartbeatRateSec = outOfGameHeartbeatRateSec,
        MsgClientLogOnResponse_inGameHeartbeatRateSec = inGameHeartbeatRateSec,
        MsgClientLogOnResponse_clientSuppliedSteamId = clientSuppliedSteamId,
        MsgClientLogOnResponse_ipPublic = ipPublic,
        MsgClientLogOnResponse_serverRealTime = serverRealTime\<rparr>))))))"

lemma MsgClientLogOnResponse_codec: "codec (\<lambda>_. True) MsgClientLogOnResponse_Serialize MsgClientLogOnResponse_Deserialize 28"
  unfolding MsgClientLogOnResponse_Serialize_def MsgClientLogOnResponse_Deserialize_def
  by (rule codecI, (rule reads_intros)+, simp, (rule writes_intros)+, simp_all)

interpretation MsgClientLogOnResponse: struct_codec "\<lambda>_. True" MsgClientLogOnResponse_Serialize MsgClientLogOnResponse_Deserialize 28
  by unfold_locales (rule MsgClientLogOnResponse_codec)

record MsgClientServerUnavailable =
  MsgClientServerUnavailable_jobidSent :: u64
  MsgClientServerUnavailable_eMsgSent :: u32
  MsgClientServerUnavailable_eServerTypeUnavailable :: u32

definition MsgClientServerUnavailable_new :: MsgClientServerUnavailable where
  "MsgClientServerUnavailable_new =
     \<lparr>MsgClientServerUnavailable_jobidSent = 0,
      MsgClientServerUnavailable_eMsgSent = 0,
      MsgClientServerUnavailable_eServerTypeUnavailable = EServerType_First\<rparr>"

definition MsgClientServerUnavailable_GetEMsg :: u32 where
  "MsgClientServerUnavailable_GetEMsg = EMsg_ClientServerUnavailable"

definition MsgClientServerUnavailable_Serialize :: "MsgClientServerUnavailable \<Rightarrow> unit sm" where
  "MsgClientServerUnavailable_Serialize m =
     thenS (Write_word (MsgClientServerUnavailable_jobidSent m)) (
     thenS (Write_word (MsgClientServerUnavailable_eMsgSent m)) (
     Write_word (MsgClientServerUnavailable_eServerTypeUnavailable m)))"

definition MsgClientServerUnavailable_Deserialize :: "MsgClientServerUnavailable sm" where
  "MsgClientServerUnavailable_Deserialize =
     bindS Read_word (\<lambda>jobidSent.
     bindS Read_word (\<lambda>eMsgSent.
     bindS Read_word (\<lambda>eServerTypeUnavailable.
     returnS \<lparr>MsgClientServerUnavailable_jobidSent = jobidSent,
        MsgClientServerUnavailable_eMsgSent = eMsgSent,
        MsgClientServerUnavailable_eServerTypeUnavailable = eServerTypeUnavailable\<rparr>)))"

lemma MsgClientServerUnavailable_codec: "codec (\<lambda>_. True) MsgClientServerUnavailable_Serialize MsgClientServerUnavailable_Deserialize 16"
  unfolding MsgClientServerUnavailable_Serialize_def MsgClientServerUnavailable_Deserialize_def
  by (rule codecI, (rule reads_intros)+, simp, (rule writes_intros)+, simp_all)

interpretation MsgClientServerUnavailable: struct_codec "\<lambda>_. True" MsgClientServerUnavailable_Serialize MsgClientServerUnavailable_Deserialize 16
  by unfold_locales (rule MsgClientServerUnavailable_codec)

record MsgClientCreateChat =
  MsgClientCreateChat_chatRoomType :: u32
  MsgClientCreateChat_gameId :: u64
  MsgClientCreateChat_steamIdClan :: u64
  MsgClientCreateChat_permissionOfficer :: u32
  MsgClientCreateChat_permissionMember :: u32
  MsgClientCreateChat_permissionAll :: u32
  MsgClientCreateChat_membersMax :: u32
  MsgClientCreateChat_chatFlags :: byte
  MsgClientCreateChat_steamIdFriendChat :: u64
  MsgClientCreateChat_steamIdInvited :: u64

definition MsgClientCreateChat_new :: MsgClientCreateChat where
  "MsgClientCreateChat_new =
     \<lparr>MsgClientCreateChat_chatRoomType = EChatRoomType_Unknown,
      MsgClientCreateChat_gameId = 0,
      MsgClientCreateChat_steamIdClan = 0,
      MsgClientCreateChat_permissionOfficer = EChatPermission_OfficerDefault,
      MsgClientCreateChat_permissionMember = EChatPermission_MemberDefault,
      MsgClientCreateChat_permissionAll = EChatPermission_OwnerDefault,
      MsgClientCreateChat_membersMax = 0,
      MsgClientCreateChat_chatFlags = 0,
      MsgClientCreateChat_steamIdFriendChat = 0,
      MsgClientCreateChat_steamIdInvited = 0\<rparr>"

definition MsgClientCreateChat_GetEMsg :: u32 where
  "MsgClientCreateChat_GetEMsg = EMsg_ClientCreateChat"

definition MsgClientCreateChat_GetgameId :: "MsgClientCreateChat \<Rightarrow> GameID" where
  "MsgClientCreateChat_GetgameId m = GameID_of (MsgClientCreateChat_gameId m)"

definition MsgClientCreateChat_SetgameId :: "GameID \<Rightarrow> MsgClientCreateChat \<Rightarrow> MsgClientCreateChat" where
  "MsgClientCreateChat_SetgameId val m = m\<lparr>MsgClientCreateChat_gameId := GameID_ConvertToUInt64 val\<rparr>"

definition MsgClientCreateChat_GetsteamIdClan :: "MsgClientCreateChat \<Rightarrow> SteamID" where
  "MsgClientCreateChat_GetsteamIdClan m = SteamID_of (MsgClientCreateChat_steamIdClan m)"

definition MsgClientCreateChat_SetsteamIdClan :: "SteamID \<Rightarrow> MsgClientCreateChat \<Rightarrow> MsgClientCreateChat" where
  "MsgClientCreateChat_SetsteamIdClan val m = m\<lparr>MsgClientCreateChat_steamIdClan := SteamID_ConvertToUInt64 val\<rparr>"

definition MsgClientCreateChat_GetsteamIdFriendChat :: "MsgClientCreateChat \<Rightarrow> SteamID" where
  "MsgClientCreateChat_GetsteamIdFriendChat m = SteamID_of (MsgClientCreateChat_steamIdFriendChat m)"

definition MsgClientCreateChat_SetsteamIdFriendChat :: "SteamID \<Rightarrow> MsgClientCreateChat \<Rightarrow> MsgClientCreateChat" where
  "MsgClientCreateChat_SetsteamIdFriendChat val m = m\<lparr>MsgClientCreateChat_steamIdFriendChat := SteamID_ConvertToUInt64 val\<rparr>"

definition MsgClientCreateChat_GetsteamIdInvited :: "MsgClientCreateChat \<Rightarrow> SteamID" where
  "MsgClientCreateChat_GetsteamIdInvited m = SteamID_of (MsgClientCreateChat_steamIdInvited m)"

definition MsgClientCreateChat_SetsteamIdInvited :: "SteamID \<Rightarrow> MsgClientCreateChat \<Rightarrow> MsgClientCreateChat" where
  "MsgClientCreateChat_SetsteamIdInvited val m = m\<lparr>MsgClientCreateChat_steamIdInvited := SteamID_ConvertToUInt64 val\<rparr>"

definition MsgClientCreateChat_Serialize :: "MsgClientCreateChat \<Rightarrow> unit sm" where
  "MsgClientCreateChat_Serialize m =
     thenS (Write_word (MsgClientCreateChat_chatRoomType m)) (
     thenS (Write_word (MsgClientCreateChat_gameId m)) (
     thenS (Write_word (MsgClientCreateChat_steamIdClan m)) (
     thenS (Write_word (MsgClientCreateChat_permissionOfficer m)) (
     thenS (Write_word (MsgClientCreateChat_permissionMember m)) (
     thenS (Write_word (MsgClientCreateChat_permissionAll m)) (
     thenS (Write_word (MsgClientCreateChat_membersMax m)) (
     thenS (Write_word (MsgClientCreateChat_chatFlags m)) (
     thenS (Write_word (MsgClientCreateChat_steamIdFriendChat m)) (
     Write_word (MsgClientCreateChat_steamIdInvited m))))))))))"

definition MsgClientCreateChat_Deserialize :: "MsgClientCreateChat sm" where
  "MsgClientCreateChat_Deserialize =
     bindS Read_word (\<lambda>chatRoomType.
     bindS Read_word (\<lambda>gameId.
     bindS Read_word (\<lambda>steamIdClan.
     bindS Read_word (\<lambda>permissionOfficer.
     bindS Read_word (\<lambda>permissionMember.
     bindS Read_word (\<lambda>permissionAll.
     bindS Read_word (\<lambda>membersMax.
     bindS Read_word (\<lambda>chatFlags.
     bindS Read_word (\<lambda>steamIdFriendChat.
     bindS Read_word (\<lambda>steamIdInvited.
     returnS \<lparr>MsgClientCreateChat_chatRoomType = chatRoomType,
        MsgClientCreateChat_gameId = gameId,
        MsgClientCreateChat_steamIdClan = steamIdClan,
        MsgClientCreateChat_permissionOfficer = permissionOfficer,
        MsgClientCreateChat_permissionMember = permissionMember,
        MsgClientCreateChat_permissionAll = permissionAll,
        MsgClientCreateChat_membersMax = membersMax,
        MsgClientCreateChat_chatFlags = chatFlags,
        MsgClientCreateChat_steamIdFriendChat = steamIdFriendChat,
        MsgClientCreateChat_steamIdInvited = steamIdInvited\<rparr>))))))))))"

lemma MsgClientCreateChat_codec: "codec (\<lambda>_. True) MsgClientCreateChat_Serialize MsgClientCreateChat_Deserialize 53"
  unfolding MsgClientCreateChat_Serialize_def MsgClientCreateChat_Deserialize_def
  by (rule codecI, (rule reads_intros)+, simp, (rule writes_intros)+, simp_all)

interpretation MsgClientCreateChat: struct_codec "\<lambda>_. True" MsgClientCreateChat_Serialize MsgClientCreateChat_Deserialize 53
  by unfold_locales (rule MsgClientCreateChat_codec)

record MsgClientCreateChatResponse =
  MsgClientCreateChatResponse_result :: u32
  MsgClientCreateChatResponse_steamIdChat :: u64
  MsgClientCreateChatResponse_chatRoomType :: u32
  MsgClientCreateChatResponse_steamIdFriendChat :: u64

definition MsgClientCreateChatResponse_new :: MsgClientCreateChatResponse where
  "MsgClientCreateChatResponse_new =
     \<lparr>MsgClientCreateChatResponse_result = EResult_Invalid,
      MsgClientCreateChatResponse_steamIdChat = 0,
      MsgClientCreateChatResponse_chatRoomType = EChatRoomType_Unknown,
      MsgClientCreateChatResponse_steamIdFriendChat = 0\<rparr>"

definition MsgClientCreateChatResponse_GetEMsg :: u32 where
  "MsgClientCreateChatResponse_GetEMsg = EMsg_ClientCreateChatResponse"

definition MsgClientCreateChatResponse_GetsteamIdChat :: "MsgClientCreateChatResponse \<Rightarrow> SteamID" where
  "MsgClientCreateChatResponse_GetsteamIdChat m = SteamID_of (MsgClientCreateChatResponse_steamIdChat m)"

definition MsgClientCreateChatResponse_SetsteamIdChat :: "SteamID \<Rightarrow> MsgClientCreateChatResponse \<Rightarrow> MsgClientCreateChatResponse" where
  "MsgClientCreateChatResponse_SetsteamIdChat val m = m\<lparr>MsgClientCreateChatResponse_steamIdChat := SteamID_ConvertToUInt64 val\<rparr>"

definition MsgClientCreateChatResponse_GetsteamIdFriendChat :: "MsgClientCreateChatResponse \<Rightarrow> SteamID" where
  "MsgClientCreateChatResponse_GetsteamIdFriendChat m = SteamID_of (MsgClientCreateChatResponse_steamIdFriendChat m)"

definition MsgClientCreateChatResponse_SetsteamIdFriendChat :: "SteamID \<Rightarrow> MsgClientCreateChatResponse \<Rightarrow> MsgClientCreateChatResponse" where
  "MsgClientCreateChatResponse_SetsteamIdFriendChat val m = m\<lparr>MsgClientCreateChatResponse_steamIdFriendChat := SteamID_ConvertToUInt64 val\<rparr>"

definition MsgClientCreateChatResponse_Serialize :: "MsgClientCreateChatResponse \<Rightarrow> unit sm" where
  "MsgClientCreateChatResponse_Serialize m =
     thenS (Write_word (MsgClientCreateChatResponse_result m)) (
     thenS (Write_word (MsgClientCreateChatResponse_steamIdChat m)) (
     thenS (Write_word (MsgClientCreateChatResponse_chatRoomType m)) (
     Write_word (MsgClientCreateChatResponse_steamIdFriendChat m))))"

definition MsgClientCreateChatResponse_Deserialize :: "MsgClientCreateChatResponse sm" where
  "MsgClientCreateChatResponse_Deserialize =
     bindS Read_word (\<lambda>result.
     bindS Read_word (\<lambda>steamIdChat.
     bindS Read_word (\<lambda>chatRoomType.
     bindS Read_word (\<lambda>steamIdFriendChat.
     returnS \<lparr>MsgClientCreateChatResponse_result = result,
        MsgClientCreateChatResponse_steamIdChat = steamIdChat,
        MsgClientCreateChatResponse_chatRoomType = chatRoomType,
        MsgClientCreateChatResponse_steamIdFriendChat = steamIdFriendChat\<rparr>))))"

lemma MsgClientCreateChatResponse_codec: "codec (\<lambda>_. True) MsgClientCreateChatResponse_Serialize MsgClientCreateChatResponse_Deserialize 24"
  unfolding MsgClientCreateChatResponse_Serialize_def MsgClientCreateChatResponse_Deserialize_def
  by (rule codecI, (rule reads_intros)+, simp, (rule writes_intros)+, simp_all)

interpretation MsgClientCreateChatResponse: struct_codec "\<lambda>_. True" MsgClientCreateChatResponse_Serialize MsgClientCreateChatResponse_Deserialize 24
  by unfold_locales (rule MsgClientCreateChatResponse_codec)

record MsgClientMarketingMessageUpdate2 =
  MsgClientMarketingMessageUpdate2_marketingMessageUpdateTime :: u32
  MsgClientMarketingMessageUpdate2_count :: u32

definition MsgClientMarketingMessageUpdate2_new :: MsgClientMarketingMessageUpdate2 where
  "MsgClientMarketingMessageUpdate2_new =
     \<lparr>MsgClientMarketingMessageUpdate2_marketingMessageUpdateTime = 0,
      MsgClientMarketingMessageUpdate2_count = 0\<rparr>"

definition MsgClientMarketingMessageUpdate2_GetEMsg :: u32 where
  "MsgClientMarketingMessageUpdate2_GetEMsg = EMsg_ClientMarketingMessageUpdate2"

definition MsgClientMarketingMessageUpdate2_Serialize :: "MsgClientMarketingMessageUpdate2 \<Rightarrow> unit sm" where
  "MsgClientMarketingMessageUpdate2_Serialize m =
     thenS (Write_word (MsgClientMarketingMessageUpdate2_marketingMessageUpdateTime m)) (
     Write_word (MsgClientMarketingMessageUpdate2_count m))"

definition MsgClientMarketingMessageUpdate2_Deserialize :: "MsgClientMarketingMessageUpdate2 sm" where
  "MsgClientMarketingMessageUpdate2_Deserialize =
     bindS Read_word (\<lambda>marketingMessageUpdateTime.
     bindS Read_word (\<lambda>count.
     returnS \<lparr>MsgClientMarketingMessageUpdate2_marketingMessageUpdateTime = marketingMessageUpdateTime,
        MsgClientMarketingMessageUpdate2_count = count\<rparr>))"

lemma MsgClientMarketingMessageUpdate2_codec: "codec (\<lambda>_. True) MsgClientMarketingMessageUpdate2_Serialize MsgClientMarketingMessageUpdate2_Deserialize 8"
  unfolding MsgClientMarketingMessageUpdate2_Serialize_def MsgClientMarketingMessageUpdate2_Deserialize_def
  by (rule codecI, (rule reads_intros)+, simp, (rule writes_intros)+, simp_all)

interpretation MsgClientMarketingMessageUpdate2: struct_codec "\<lambda>_. True" MsgClientMarketingMessageUpdate2_Serialize MsgClientMarketingMessageUpdate2_Deserialize 8
  by unfold_locales (rule MsgClientMarketingMessageUpdate2_codec)

record MsgClientGetLegacyGameKey =
  MsgClientGetLegacyGameKey_appId :: u32

definition MsgClientGetLegacyGameKey_new :: MsgClientGetLegacyGameKey where
  "MsgClientGetLegacyGameKey_new =
     \<lparr>MsgClientGetLegacyGameKey_appId = 0\<rparr>"

definition MsgClientGetLegacyGameKey_GetEMsg :: u32 where
  "MsgClientGetLegacyGameKey_GetEMsg = EMsg_ClientGetLegacyGameKey"

definition MsgClientGetLegacyGameKey_Serialize :: "MsgClientGetLegacyGameKey \<Rightarrow> unit sm" where
  "MsgClientGetLegacyGameKey_Serialize m =
     Write_word (MsgClientGetLegacyGameKey_appId m)"

definition MsgClientGetLegacyGameKey_Deserialize :: "MsgClientGetLegacyGameKey sm" where
  "MsgClientGetLegacyGameKey_Deserialize =
     bindS Read_word (\<lambda>appId.
     returnS \<lparr>MsgClientGetLegacyGameKey_appId = appId\<rparr>)"

lemma MsgClientGetLegacyGameKey_codec: "codec (\<lambda>_. True) MsgClientGetLegacyGameKey_Serialize MsgClientGetLegacyGameKey_Deserialize 4"
  unfolding MsgClientGetLegacyGameKey_Serialize_def MsgClientGetLegacyGameKey_Deserialize_def
  by (rule codecI, (rule reads_intros)+, simp, (rule writes_intros)+, simp_all)

interpretation MsgClientGetLegacyGameKey: struct_codec "\<lambda>_. True" MsgClientGetLegacyGameKey_Serialize MsgClientGetLegacyGameKey_Deserialize 4
  by unfold_locales (rule MsgClientGetLegacyGameKey_codec)

record MsgClientGetLegacyGameKeyResponse =
  MsgClientGetLegacyGameKeyResponse_appId :: u32
  MsgClientGetLegacyGameKeyResponse_result :: u32
  MsgClientGetLegacyGameKeyResponse_length :: u32

definition MsgClientGetLegacyGameKeyResponse_new :: MsgClientGetLegacyGameKeyResponse where
  "MsgClientGetLegacyGameKeyResponse_new =
     \<lparr>MsgClientGetLegacyGameKeyResponse_appId = 0,
      MsgClientGetLegacyGameKeyResponse_result = EResult_Invalid,
      MsgClientGetLegacyGameKeyResponse_length = 0\<rparr>"

definition MsgClientGetLegacyGameKeyResponse_GetEMsg :: u32 where
  "MsgClientGetLegacyGameKeyResponse_GetEMsg = EMsg_ClientGetLegacyGameKeyResponse"

definition MsgClientGetLegacyGameKeyResponse_Serialize :: "MsgClientGetLegacyGameKeyResponse \<Rightarrow> unit sm" where
  "MsgClientGetLegacyGameKeyResponse_Serialize m =
     thenS (Write_word (MsgClientGetLegacyGameKeyResponse_appId m)) (
     thenS (Write_word (MsgClientGetLegacyGameKeyResponse_result m)) (
     Write_word (MsgClientGetLegacyGameKeyResponse_length m)))"

definition MsgClientGetLegacyGameKeyResponse_Deserialize :: "MsgClientGetLegacyGameKeyResponse sm" where
  "MsgClientGetLegacyGameKeyResponse_Deserialize =
     bindS Read_word (\<lambda>appId.
     bindS Read_word (\<lambda>result.
     bindS Read_word (\<lambda>length.
     returnS \<lparr>MsgClientGetLegacyGameKeyResponse_appId = appId,
        MsgClientGetLegacyGameKeyResponse_result = result,
        MsgClientGetLegacyGameKeyResponse_length = length\<rparr>)))"

lemma MsgClientGetLegacyGameKeyResponse_codec: "codec (\<lambda>_. True) MsgClientGetLegacyGameKeyResponse_Serialize MsgClientGetLegacyGameKeyResponse_Deserialize 12"
  unfolding MsgClientGetLegacyGameKeyResponse_Serialize_def MsgClientGetLegacyGameKeyResponse_Deserialize_def
  by (rule codecI, (rule reads_intros)+, simp, (rule writes_intros)+, simp_all)

interpretation MsgClientGetLegacyGameKeyResponse: struct_codec "\<lambda>_. True" MsgClientGetLegacyGameKeyResponse_Serialize MsgClientGetLegacyGameKeyResponse_Deserialize 12
  by unfold_locales (rule MsgClientGetLegacyGameKeyResponse_codec)

end
