(* ===== verification/Steam_Messages.thy ===== *)
theory Steam_Messages
  imports Steam_Bodies
begin

text \<open>
  The message classes: the payload helpers of \<open>MsgBase\<close> and the header wrapper \<open>MsgBaseHdr\<close>
  (include/steamclient/types/msgbase.hpp), the received packets (packetbase.hpp), and the typed
  messages \<open>Msg<TBody>\<close> and \<open>MsgProto<TBody>\<close> (clientmsg.hpp). The class hierarchy is a chain of
  record extensions; a template parameter is a record of the operations the template uses.
\<close>

section \<open>Characters and bytes\<close>

definition byte_of_char :: "char \<Rightarrow> byte" where
  "byte_of_char c = word_of_nat (of_char c)"

definition char_of_byte :: "byte \<Rightarrow> char" where
  "char_of_byte b = char_of (unat b)"

lemma byte_of_char_of_byte [simp]: "byte_of_char (char_of_byte b) = b"
proof -
  have "unat b < 256" using unsigned_less [of b, where 'a = nat] by simp
  then show ?thesis by (simp add: byte_of_char_def char_of_byte_def)
qed

lemma char_of_byte_of_char [simp]: "char_of_byte (byte_of_char c) = c"
proof -
  have "(of_char c :: nat) < 256" by (rule nat_of_char_less_256)
  then show ?thesis
    by (simp add: byte_of_char_def char_of_byte_def unsigned_of_nat take_bit_nat_eq_self)
qed

lemma byte_of_char_inject [simp]: "byte_of_char c = byte_of_char d \<longleftrightarrow> c = d"
  by (metis char_of_byte_of_char)

section \<open>Payloads\<close>

record MsgBase =
  Payload :: "byte list"
  readPos :: nat

definition WriteByte :: "byte \<Rightarrow> 'z MsgBase_scheme \<Rightarrow> 'z MsgBase_scheme" where
  "WriteByte b m = m\<lparr>Payload := Payload m @ [b]\<rparr>"

definition WriteBytes :: "byte list \<Rightarrow> 'z MsgBase_scheme \<Rightarrow> 'z MsgBase_scheme" where
  "WriteBytes data m = m\<lparr>Payload := Payload m @ data\<rparr>"

text \<open>\<open>WriteValue\<close> and \<open>ReadValue\<close> copy the object representation of an integer: on the
  little-endian targets of the program, its bytes from the lowest.\<close>

definition WriteValue :: "'a::len word \<Rightarrow> 'z MsgBase_scheme \<Rightarrow> 'z MsgBase_scheme" where
  "WriteValue value m = m\<lparr>Payload := Payload m @ le_bytes value\<rparr>"

definition WriteString :: "string \<Rightarrow> 'z MsgBase_scheme \<Rightarrow> 'z MsgBase_scheme" where
  "WriteString str m = m\<lparr>Payload := Payload m @ map byte_of_char str\<rparr>"

definition WriteNullTermString :: "string \<Rightarrow> 'z MsgBase_scheme \<Rightarrow> 'z MsgBase_scheme" where
  "WriteNullTermString str m =
     (let m' = WriteString str m in m'\<lparr>Payload := Payload m' @ [0]\<rparr>)"

definition read_past_end :: error where
  "read_past_end = Exn (OutOfRange ''Read past end'')"

definition ReadByte :: "'z MsgBase_scheme \<Rightarrow> error + byte \<times> 'z MsgBase_scheme" where
  "ReadByte m =
     (if length (Payload m) \<le> readPos m then Inl read_past_end
      else Inr (Payload m ! readPos m, m\<lparr>readPos := Suc (readPos m)\<rparr>))"

definition ReadValue :: "'z MsgBase_scheme \<Rightarrow> error + 'a::len word \<times> 'z MsgBase_scheme" where
  "ReadValue m =
     (let n = LENGTH('a) div 8 in
      if length (Payload m) < sz_add (readPos m) n then Inl read_past_end
      else if length (Payload m) < readPos m + n then Inl (Undefined OutOfBounds)
      else Inr (le_word (take n (drop (readPos m) (Payload m))), m\<lparr>readPos := readPos m + n\<rparr>))"

text \<open>
  The scan stops at the first zero or at the end, and a terminator is skipped. After a
  \<open>Seek\<close> beyond the end the range \<open>begin() + start\<close> lies outside the vector.
\<close>

definition ReadNullTermString :: "'z MsgBase_scheme \<Rightarrow> error + string \<times> 'z MsgBase_scheme" where
  "ReadNullTermString m =
     (let start = readPos m in
      if length (Payload m) < start then Inl (Undefined OutOfBounds)
      else
        (let result = takeWhile (\<lambda>b. b \<noteq> 0) (drop start (Payload m));
             stop = start + length result
         in Inr (map char_of_byte result,
              m\<lparr>readPos := if stop < length (Payload m) then Suc stop else stop\<rparr>)))"

definition Seek :: "nat \<Rightarrow> 'z MsgBase_scheme \<Rightarrow> 'z MsgBase_scheme" where
  "Seek pos m = m\<lparr>readPos := pos\<rparr>"

definition Tell :: "'z MsgBase_scheme \<Rightarrow> nat" where
  "Tell m = readPos m"

record 'hd MsgBaseHdr = MsgBase +
  Header :: 'hd
  steam_id :: "SteamID option"
  SessionID :: u32
  targetJobID :: u64
  sourceJobID :: u64

text \<open>\<open>MsgBaseHdr::Serialize\<close>, which both message classes override.\<close>

definition MsgBaseHdr_Serialize ::
    "('hd \<Rightarrow> unit sm) \<Rightarrow> ('hd, 'z) MsgBaseHdr_scheme \<Rightarrow> error + byte list" where
  "MsgBaseHdr_Serialize ser m = serialized (thenS (ser (Header m)) (Write_vector (Payload m)))"

section \<open>Received packets\<close>

text \<open>The accessors of the generated class \<open>CMsgProtoBufHeader\<close> that the program calls.\<close>

record 'h header_api = "'h proto_api" +
  jobid_source :: "'h \<Rightarrow> u64"
  jobid_target :: "'h \<Rightarrow> u64"
  client_sessionid :: "'h \<Rightarrow> u32"
  set_jobid_source :: "u64 \<Rightarrow> 'h \<Rightarrow> 'h"
  set_jobid_target :: "u64 \<Rightarrow> 'h \<Rightarrow> 'h"
  set_steamid :: "u64 \<Rightarrow> 'h \<Rightarrow> 'h"
  set_client_sessionid :: "u32 \<Rightarrow> 'h \<Rightarrow> 'h"

record 'h PacketClientMsgProtobuf =
  proto_msgType :: u32
  proto_header :: "'h MsgHdrProtoBuf"
  proto_payload :: "byte list"
  proto_bodyOffset :: nat

definition PacketClientMsgProtobuf_make ::
    "('h, 'z) proto_api_scheme \<Rightarrow> u32 \<Rightarrow> byte list \<Rightarrow> error + 'h PacketClientMsgProtobuf" where
  "PacketClientMsgProtobuf_make api eMsg data =
     (case MsgHdrProtoBuf_Deserialize api (Stream_read data) of
        Inl e \<Rightarrow> Inl e
      | Inr (hdr, s) \<Rightarrow>
          Inr \<lparr>proto_msgType = eMsg, proto_header = hdr, proto_payload = data,
            proto_bodyOffset = Position s\<rparr>)"

record PacketClientMsg =
  client_msgType :: u32
  client_header :: ExtendedClientMsgHdr
  client_payload :: "byte list"
  client_bodyOffset :: nat

definition PacketClientMsg_make :: "u32 \<Rightarrow> byte list \<Rightarrow> error + PacketClientMsg" where
  "PacketClientMsg_make eMsg data =
     (case ExtendedClientMsgHdr_Deserialize (Stream_read data) of
        Inl e \<Rightarrow> Inl e
      | Inr (hdr, s) \<Rightarrow>
          Inr \<lparr>client_msgType = eMsg, client_header = hdr, client_payload = data,
            client_bodyOffset = Position s\<rparr>)"

record PacketMsg =
  msg_msgType :: u32
  msg_header :: MsgHdr
  msg_payload :: "byte list"
  msg_bodyOffset :: nat

definition PacketMsg_make :: "u32 \<Rightarrow> byte list \<Rightarrow> error + PacketMsg" where
  "PacketMsg_make eMsg data =
     (case MsgHdr_Deserialize (Stream_read data) of
        Inl e \<Rightarrow> Inl e
      | Inr (hdr, s) \<Rightarrow>
          Inr \<lparr>msg_msgType = eMsg, msg_header = hdr, msg_payload = data,
            msg_bodyOffset = Position s\<rparr>)"

datatype 'h IPacketMsg =
    ProtoPacket "'h PacketClientMsgProtobuf"
  | ClientPacket PacketClientMsg
  | MsgPacket PacketMsg

fun IsProto :: "'h IPacketMsg \<Rightarrow> bool" where
  "IsProto (ProtoPacket p) = True"
| "IsProto (ClientPacket p) = False"
| "IsProto (MsgPacket p) = False"

fun MsgType :: "'h IPacketMsg \<Rightarrow> u32" where
  "MsgType (ProtoPacket p) = proto_msgType p"
| "MsgType (ClientPacket p) = client_msgType p"
| "MsgType (MsgPacket p) = msg_msgType p"

fun TargetJobID :: "('h, 'z) header_api_scheme \<Rightarrow> 'h IPacketMsg \<Rightarrow> u64" where
  "TargetJobID api (ProtoPacket p) = jobid_target api (MsgHdrProtoBuf_proto (proto_header p))"
| "TargetJobID api (ClientPacket p) = ExtendedClientMsgHdr_targetJobID (client_header p)"
| "TargetJobID api (MsgPacket p) = MsgHdr_targetJobID (msg_header p)"

fun SourceJobID :: "('h, 'z) header_api_scheme \<Rightarrow> 'h IPacketMsg \<Rightarrow> u64" where
  "SourceJobID api (ProtoPacket p) = jobid_source api (MsgHdrProtoBuf_proto (proto_header p))"
| "SourceJobID api (ClientPacket p) = ExtendedClientMsgHdr_sourceJobID (client_header p)"
| "SourceJobID api (MsgPacket p) = MsgHdr_sourceJobID (msg_header p)"

fun GetData :: "'h IPacketMsg \<Rightarrow> byte list" where
  "GetData (ProtoPacket p) = proto_payload p"
| "GetData (ClientPacket p) = client_payload p"
| "GetData (MsgPacket p) = msg_payload p"

section \<open>Messages with a structure as body\<close>

record 'b body_ops =
  body_new :: 'b
  body_GetEMsg :: u32
  body_Serialize :: "'b \<Rightarrow> unit sm"
  body_Deserialize :: "'b sm"

record 'b Msg = "MsgHdr MsgBaseHdr" +
  Body :: 'b

definition Msg_new :: "'b body_ops \<Rightarrow> 'b Msg" where
  "Msg_new ops =
     \<lparr>Payload = [], readPos = 0,
      Header = MsgHdr_SetEMsg (body_GetEMsg ops) MsgHdr_new,
      steam_id = None, SessionID = 0, targetJobID = 0, sourceJobID = 0,
      Body = body_new ops\<rparr>"

text \<open>
  \<open>Msg(const Msg<TBody>& other, int payloadReserve = 0)\<close> answers a message; as its second
  parameter has a default it is also the copy constructor of the class.
\<close>

definition Msg_reply :: "'b body_ops \<Rightarrow> 'b Msg \<Rightarrow> 'b Msg" where
  "Msg_reply ops other =
     (let m = Msg_new ops in
      m\<lparr>Header := (Header m)\<lparr>MsgHdr_targetJobID := MsgHdr_sourceJobID (Header other)\<rparr>\<rparr>)"

definition Msg_of_packet :: "'b body_ops \<Rightarrow> 'h IPacketMsg \<Rightarrow> error + 'b Msg" where
  "Msg_of_packet ops packet =
     (case packet of
        MsgPacket p \<Rightarrow>
          (let data = msg_payload p; offset = msg_bodyOffset p in
           case body_Deserialize ops (Stream_read_at data offset) of
             Inl e \<Rightarrow> Inl e
           | Inr (body, _) \<Rightarrow>
               Inr \<lparr>Payload = (if offset < length data then drop offset data else []), readPos = 0,
                 Header = msg_header p,
                 steam_id = None, SessionID = 0, targetJobID = 0, sourceJobID = 0,
                 Body = body\<rparr>)
      | _ \<Rightarrow> Inl (Exn (RuntimeError ''Msg<TBody> used for wrong packet type'')))"

definition Msg_Serialize :: "'b body_ops \<Rightarrow> 'b Msg \<Rightarrow> error + byte list" where
  "Msg_Serialize ops m =
     serialized (
       thenS (MsgHdr_Serialize (Header m)) (
       thenS (body_Serialize ops (Body m)) (
       Write_bytes (Payload m))))"

definition MsgChannelEncryptRequest_ops :: "MsgChannelEncryptRequest body_ops" where
  "MsgChannelEncryptRequest_ops =
     \<lparr>body_new = MsgChannelEncryptRequest_new,
      body_GetEMsg = MsgChannelEncryptRequest_GetEMsg,
      body_Serialize = MsgChannelEncryptRequest_Serialize,
      body_Deserialize = MsgChannelEncryptRequest_Deserialize\<rparr>"

definition MsgChannelEncryptResponse_ops :: "MsgChannelEncryptResponse body_ops" where
  "MsgChannelEncryptResponse_ops =
     \<lparr>body_new = MsgChannelEncryptResponse_new,
      body_GetEMsg = MsgChannelEncryptResponse_GetEMsg,
      body_Serialize = MsgChannelEncryptResponse_Serialize,
      body_Deserialize = MsgChannelEncryptResponse_Deserialize\<rparr>"

definition MsgChannelEncryptResult_ops :: "MsgChannelEncryptResult body_ops" where
  "MsgChannelEncryptResult_ops =
     \<lparr>body_new = MsgChannelEncryptResult_new,
      body_GetEMsg = MsgChannelEncryptResult_GetEMsg,
      body_Serialize = MsgChannelEncryptResult_Serialize,
      body_Deserialize = MsgChannelEncryptResult_Deserialize\<rparr>"

section \<open>Messages with a protobuf body\<close>

record ('h, 'b) MsgProto = "'h MsgHdrProtoBuf MsgBaseHdr" +
  proto_Body :: 'b

definition MsgProto_new ::
    "('h, 'y) proto_api_scheme \<Rightarrow> ('b, 'z) proto_api_scheme \<Rightarrow> u32 \<Rightarrow> ('h, 'b) MsgProto" where
  "MsgProto_new hapi bapi eMsg =
     \<lparr>Payload = [], readPos = 0,
      Header = MsgHdrProtoBuf_SetEMsg eMsg (MsgHdrProtoBuf_new hapi),
      steam_id = None, SessionID = 0, targetJobID = 0, sourceJobID = 0,
      proto_Body = proto_new bapi\<rparr>"

definition MsgProto_map_header ::
    "('h \<Rightarrow> 'h) \<Rightarrow> ('h, 'b) MsgProto \<Rightarrow> ('h, 'b) MsgProto" where
  "MsgProto_map_header f m =
     m\<lparr>Header := (Header m)\<lparr>MsgHdrProtoBuf_proto := f (MsgHdrProtoBuf_proto (Header m))\<rparr>\<rparr>"

definition MsgProto_reply ::
    "('h, 'y) header_api_scheme \<Rightarrow> ('b, 'z) proto_api_scheme \<Rightarrow> u32 \<Rightarrow>
       ('h MsgHdrProtoBuf, 'x) MsgBaseHdr_scheme \<Rightarrow> ('h, 'b) MsgProto" where
  "MsgProto_reply hapi bapi eMsg msg =
     MsgProto_map_header
       (set_jobid_target hapi (jobid_source hapi (MsgHdrProtoBuf_proto (Header msg))))
       (MsgProto_new hapi bapi eMsg)"

text \<open>The result of \<open>Body.ParseFromArray\<close> is not looked at.\<close>

definition MsgProto_of_packet ::
    "('b, 'z) proto_api_scheme \<Rightarrow> 'h IPacketMsg \<Rightarrow> error + ('h, 'b) MsgProto" where
  "MsgProto_of_packet bapi packet =
     (case packet of
        ProtoPacket p \<Rightarrow>
          (let data = proto_payload p; offset = proto_bodyOffset p in
           Inr \<lparr>Payload = (if offset < length data then drop offset data else []), readPos = 0,
             Header = proto_header p,
             steam_id = None, SessionID = 0, targetJobID = 0, sourceJobID = 0,
             proto_Body = snd (ParseFromArray bapi (drop offset data))\<rparr>)
      | _ \<Rightarrow> Inl (Exn (RuntimeError ''MsgProto<TBody> used for non-protobuf packet'')))"

definition MsgProto_Serialize ::
    "('h, 'y) proto_api_scheme \<Rightarrow> ('b, 'z) proto_api_scheme \<Rightarrow> ('h, 'b) MsgProto \<Rightarrow>
       error + byte list" where
  "MsgProto_Serialize hapi bapi m =
     (case MsgHdrProtoBuf_Serialize hapi (Header m) Stream_new of
        Inl e \<Rightarrow> Inl e
      | Inr (_, stream) \<Rightarrow>
          (case SerializeToString bapi (proto_Body m) of
             None \<Rightarrow> Inl (Exn (RuntimeError ''Failed to serialize protobuf body''))
           | Some data \<Rightarrow>
               (case thenS (Write_raw data) (Write_bytes (Payload m)) stream of
                  Inl e \<Rightarrow> Inl e
                | Inr (_, stream') \<Rightarrow> Inr (fst (MoveBuffer stream')))))"

definition SetSourceJobID ::
    "('h, 'y) header_api_scheme \<Rightarrow> u64 \<Rightarrow> ('h, 'b) MsgProto \<Rightarrow> ('h, 'b) MsgProto" where
  "SetSourceJobID hapi jobid = MsgProto_map_header (set_jobid_source hapi jobid)"

definition SetTargetJobID ::
    "('h, 'y) header_api_scheme \<Rightarrow> u64 \<Rightarrow> ('h, 'b) MsgProto \<Rightarrow> ('h, 'b) MsgProto" where
  "SetTargetJobID hapi jobid = MsgProto_map_header (set_jobid_target hapi jobid)"

text \<open>A header-only protobuf message is read-only.\<close>

definition MsgProtoHdr_of_packet ::
    "'h IPacketMsg \<Rightarrow> error + 'h MsgHdrProtoBuf MsgBaseHdr" where
  "MsgProtoHdr_of_packet packet =
     (case packet of
        ProtoPacket p \<Rightarrow>
          Inr \<lparr>Payload = [], readPos = 0, Header = proto_header p,
            steam_id = None, SessionID = 0, targetJobID = 0, sourceJobID = 0\<rparr>
      | _ \<Rightarrow> Inl (Exn (RuntimeError ''MsgProto used for non-protobuf packet'')))"

definition MsgProtoHdr_Serialize :: "'h MsgHdrProtoBuf MsgBaseHdr \<Rightarrow> error + byte list" where
  "MsgProtoHdr_Serialize m =
     Inl (Exn (RuntimeError ''MsgProtoHdr is read-only. Use MsgProto<TBody> to serialize.''))"

section \<open>Messages on the wire\<close>

text \<open>
  A message is its header, its body and its payload, in this order. Reading it back gives the
  header and the body; the payload of the result starts at the body, not behind it.
\<close>

lemma Msg_wire:
  assumes c: "codec (\<lambda>_. True) (body_Serialize ops) (body_Deserialize ops) n"
    and small: "20 + n + length (Payload m) < vec_limit"
  obtains hb bb where "length hb = 20" and "length bb = n"
    and "Msg_Serialize ops m = Inr (hb @ bb @ Payload m)"
    and "\<And>e. PacketMsg_make e (hb @ bb @ Payload m) =
      Inr \<lparr>msg_msgType = e, msg_header = Header m, msg_payload = hb @ bb @ Payload m,
        msg_bodyOffset = 20\<rparr>"
    and "\<And>e h. Msg_of_packet ops (MsgPacket \<lparr>msg_msgType = e, msg_header = h,
        msg_payload = hb @ bb @ Payload m, msg_bodyOffset = 20\<rparr>) =
      Inr \<lparr>Payload = bb @ Payload m, readPos = 0, Header = h, steam_id = None, SessionID = 0,
        targetJobID = 0, sourceJobID = 0, Body = Body m\<rparr>"
proof -
  obtain hb where hb: "writes (MsgHdr_Serialize (Header m)) hb" "length hb = 20"
    and hr: "\<And>b pre rest p q. b = pre @ hb @ rest \<Longrightarrow> length b < vec_limit \<Longrightarrow> p = length pre \<Longrightarrow>
      q = length pre + 20 \<Longrightarrow> MsgHdr_Deserialize (Stream_read_at b p) = Inr (Header m, Stream_read_at b q)"
    by (rule MsgHdr.encoded [of "Header m"]) auto
  obtain bb where bb: "writes (body_Serialize ops (Body m)) bb" "length bb = n"
    and br: "\<And>b pre rest p q. b = pre @ bb @ rest \<Longrightarrow> length b < vec_limit \<Longrightarrow> p = length pre \<Longrightarrow>
      q = length pre + n \<Longrightarrow> body_Deserialize ops (Stream_read_at b p) = Inr (Body m, Stream_read_at b q)"
    using struct_codec.encoded [OF struct_codec.intro [OF c], of "Body m"] by auto
  let ?w = "hb @ bb @ Payload m"
  have "writes (thenS (MsgHdr_Serialize (Header m)) (thenS (body_Serialize ops (Body m))
      (Write_bytes (Payload m)))) ?w"
    by (intro writes_then writes_bytes hb bb)
  then have "Msg_Serialize ops m = Inr ?w"
    by (simp add: Msg_Serialize_def serialized_writes)
  moreover have "MsgHdr_Deserialize (Stream_read_at ?w 0) = Inr (Header m, Stream_read_at ?w 20)"
    by (rule hr [of _ "[]"]) (use small hb(2) bb(2) in simp_all)
  then have "PacketMsg_make e ?w = Inr \<lparr>msg_msgType = e, msg_header = Header m,
      msg_payload = ?w, msg_bodyOffset = 20\<rparr>" for e
    by (simp add: PacketMsg_make_def Stream_read_0 Position_def) (simp add: Stream_read_at_def)
  moreover have "body_Deserialize ops (Stream_read_at ?w 20) = Inr (Body m, Stream_read_at ?w (20 + n))"
    by (rule br [of _ hb "Payload m"]) (use small hb(2) bb(2) in simp_all)
  then have "Msg_of_packet ops (MsgPacket \<lparr>msg_msgType = e, msg_header = h, msg_payload = ?w,
      msg_bodyOffset = 20\<rparr>) = Inr \<lparr>Payload = bb @ Payload m, readPos = 0, Header = h,
        steam_id = None, SessionID = 0, targetJobID = 0, sourceJobID = 0, Body = Body m\<rparr>" for e h
    using hb(2) by (auto simp: Msg_of_packet_def Let_def)
  ultimately show ?thesis using hb(2) bb(2) that by blast
qed

lemma MsgProto_Serialize_bytes:
  assumes "SerializeToString hapi (MsgHdrProtoBuf_proto (Header m)) = Some hs"
    and "SerializeToString bapi (proto_Body m) = Some bd"
  shows "MsgProto_Serialize hapi bapi m =
    Inr (proto_hdr_bytes (MsgHdrProtoBuf_Msg (Header m)) hs @ bd @ Payload m)"
  using assms MsgHdrProtoBuf_Serialize_bytes [OF assms(1), of Stream_new]
  by (simp add: MsgProto_Serialize_def Stream_new_def thenS_def Write_raw_def Write_bytes_def
      MoveBuffer_def)

lemma PacketClientMsgProtobuf_make_bytes:
  assumes "ParseFromArray hapi hs = (True, p)" and "length hs < 2 ^ 31"
    and "8 + length hs + length rest < vec_limit"
  shows "PacketClientMsgProtobuf_make hapi e (proto_hdr_bytes msg hs @ rest) =
    Inr \<lparr>proto_msgType = e,
      proto_header = \<lparr>MsgHdrProtoBuf_Msg = get_msg (make_msg msg True),
        MsgHdrProtoBuf_headerLength = word_of_nat (length hs), MsgHdrProtoBuf_proto = p\<rparr>,
      proto_payload = proto_hdr_bytes msg hs @ rest, proto_bodyOffset = 8 + length hs\<rparr>"
  using MsgHdrProtoBuf_Deserialize_bytes [of hapi hs p _ "[]" msg rest] assms
  by (simp add: PacketClientMsgProtobuf_make_def Stream_read_0 Position_def)
    (simp add: Stream_read_at_def)

lemma MsgProto_of_packet_bytes:
  assumes "ParseFromArray bapi bd = (True, body)"
  shows "MsgProto_of_packet bapi (ProtoPacket \<lparr>proto_msgType = e, proto_header = h,
      proto_payload = pre @ bd, proto_bodyOffset = length pre\<rparr>) =
    Inr \<lparr>Payload = bd, readPos = 0, Header = h, steam_id = None, SessionID = 0,
      targetJobID = 0, sourceJobID = 0, proto_Body = body\<rparr>"
  using assms by (auto simp: MsgProto_of_packet_def)

end
