(* ===== verification/Runtime_Err.thy ===== *)
theory Runtime_Err
  imports Steam_Prelude
begin

text \<open>
  Decimal text (what \<open>std::to_string\<close> prints for the integer types and \<open>printf\<close> for \<open>%d\<close>),
  and the assertion helpers of include/steamclient/utilities/err.h.
\<close>

section \<open>Decimal text\<close>

definition digit_char :: "nat \<Rightarrow> char" where
  "digit_char d = char_of (48 + d)"

fun dec_string :: "nat \<Rightarrow> string" where
  "dec_string n =
     (if n < 10 then [digit_char n] else dec_string (n div 10) @ [digit_char (n mod 10)])"

declare dec_string.simps [simp del]

definition int_string :: "int \<Rightarrow> string" where
  "int_string i = (if i < 0 then CHR ''-'' # dec_string (nat (- i)) else dec_string (nat i))"

definition is_digit :: "char \<Rightarrow> bool" where
  "is_digit c \<longleftrightarrow> 48 \<le> (of_char c :: nat) \<and> (of_char c :: nat) \<le> 57"

definition digit_value :: "char \<Rightarrow> nat" where
  "digit_value c = of_char c - 48"

definition dec_value :: "string \<Rightarrow> nat" where
  "dec_value s = foldl (\<lambda>n c. 10 * n + digit_value c) 0 s"

lemma of_digit_char: "d < 10 \<Longrightarrow> of_char (digit_char d) = 48 + d"
  by (simp add: digit_char_def)

lemma digit_char_simps [simp]:
  "d < 10 \<Longrightarrow> is_digit (digit_char d)"
  "d < 10 \<Longrightarrow> digit_value (digit_char d) = d"
  by (simp_all add: is_digit_def digit_value_def of_digit_char)

lemma dec_string_not_Nil [simp]: "dec_string n \<noteq> []"
  by (subst dec_string.simps) simp

lemma dec_string_digits: "\<forall>c \<in> set (dec_string n). is_digit c"
proof (induction n rule: dec_string.induct)
  case (1 n)
  then show ?case by (auto simp: dec_string.simps [of n])
qed

lemma dec_value_append: "dec_value (s @ [c]) = 10 * dec_value s + digit_value c"
  by (simp add: dec_value_def)

lemma dec_value_dec_string [simp]: "dec_value (dec_string n) = n"
proof (induction n rule: dec_string.induct)
  case (1 n)
  show ?case
  proof (cases "n < 10")
    case True
    then show ?thesis by (simp add: dec_string.simps [of n] dec_value_def)
  next
    case False
    with 1 show ?thesis by (simp add: dec_string.simps [of n] dec_value_append)
  qed
qed

lemma dec_string_inject [simp]: "dec_string m = dec_string n \<longleftrightarrow> m = n"
  by (metis dec_value_dec_string)

lemma dash_not_digit [simp]: "\<not> is_digit (CHR ''-'')"
  by (simp add: is_digit_def)

lemma int_string_inject [simp]: "int_string i = int_string j \<longleftrightarrow> i = j"
proof -
  have "CHR ''-'' # s \<noteq> dec_string n" for s n
    using dec_string_digits [of n] by (metis dash_not_digit list.set_intros(1))
  then have "CHR ''-'' # s \<noteq> dec_string n \<and> dec_string n \<noteq> CHR ''-'' # s" for s n
    by metis
  then show ?thesis by (auto simp: int_string_def)
qed

section \<open>Assertions\<close>

text \<open>
  \<open>throw_error\<close> composes the text of the exception. \<open>site\<close> is its
  \<open> | at <file>:<line>\<close> part, which the build determines.
\<close>

definition throw_error_text :: "string option \<Rightarrow> string option \<Rightarrow> string \<Rightarrow> string \<Rightarrow> string" where
  "throw_error_text expr msg site func =
     ''Runtime error'' @
     (case expr of Some e \<Rightarrow> '' | expr: ('' @ e @ '')'' | None \<Rightarrow> []) @
     (case msg of Some m \<Rightarrow> if m \<noteq> [] then '' | msg: '' @ m else [] | None \<Rightarrow> []) @
     site @ '' | in '' @ func"

definition throw_error :: "string option \<Rightarrow> string option \<Rightarrow> string \<Rightarrow> string \<Rightarrow> error + 'a" where
  "throw_error expr msg site func = Inl (Exn (RuntimeError (throw_error_text expr msg site func)))"

text \<open>\<open>format_string\<close> for a format with one \<open>%d\<close>: \<open>vsnprintf\<close> keeps at most 1023 characters.\<close>

definition format_string :: "string \<Rightarrow> int \<Rightarrow> string \<Rightarrow> string" where
  "format_string before d after = take 1023 (before @ int_string d @ after)"

definition RUNTIME_FAIL :: "string \<Rightarrow> string \<Rightarrow> string \<Rightarrow> error + 'a" where
  "RUNTIME_FAIL msg site func = throw_error None (Some msg) site func"

definition RUNTIME_ASSERT :: "bool \<Rightarrow> string \<Rightarrow> string \<Rightarrow> string \<Rightarrow> string \<Rightarrow> error + unit" where
  "RUNTIME_ASSERT cond expr msg site func =
     (if \<not> cond then throw_error (Some expr) (Some msg) site func else Inr ())"

definition RUNTIME_CHECK :: "bool \<Rightarrow> string \<Rightarrow> string \<Rightarrow> string \<Rightarrow> error + unit" where
  "RUNTIME_CHECK cond expr site func = RUNTIME_ASSERT cond expr [] site func"

definition RUNTIME_ASSERT_NOT_NULL :: "bool \<Rightarrow> string \<Rightarrow> string \<Rightarrow> string \<Rightarrow> error + unit" where
  "RUNTIME_ASSERT_NOT_NULL non_null expr site func =
     RUNTIME_ASSERT non_null expr ''null pointer'' site func"

definition RUNTIME_ASSERT_RANGE :: "int \<Rightarrow> int \<Rightarrow> int \<Rightarrow> string \<Rightarrow> string \<Rightarrow> string \<Rightarrow> error + unit" where
  "RUNTIME_ASSERT_RANGE val lo hi expr site func =
     RUNTIME_ASSERT (lo \<le> val \<and> val \<le> hi) expr ''value out of range'' site func"

lemma RUNTIME_ASSERT_simps [simp]:
  "RUNTIME_ASSERT True e m s f = Inr ()"
  "RUNTIME_ASSERT False e m s f = throw_error (Some e) (Some m) s f"
  by (simp_all add: RUNTIME_ASSERT_def)

end
