(* ===== verification/Steam_Crypto.thy ===== *)
theory Steam_Crypto
  imports Steam_Messages Runtime_Err
begin

text \<open>
  \<open>Steam::Crypto::Helpers\<close> (include/steamclient/crypto/helpers.hpp, src/crypto/helpers.cpp) and
  \<open>EncryptionManager\<close> (include/steamclient/crypto/crypto.hpp, src/crypto/crypto.cpp): the
  symmetric encryption of a frame, whose IV carries a truncated HMAC of the plaintext, and the
  answer to the channel encryption request. Crypto++ is a parameter: a record of its
  primitives, with the state of its random number generator passed along.
\<close>

section \<open>The primitives of Crypto++\<close>

record 'r crypto_api =
  aes_ecb_encrypt :: "byte list \<Rightarrow> byte list \<Rightarrow> byte list"
  aes_ecb_decrypt :: "byte list \<Rightarrow> byte list \<Rightarrow> byte list"
  aes_cbc_encrypt :: "byte list \<Rightarrow> byte list \<Rightarrow> byte list \<Rightarrow> byte list"
  aes_cbc_decrypt :: "byte list \<Rightarrow> byte list \<Rightarrow> byte list \<Rightarrow> byte list option"
  hmac_sha1 :: "byte list \<Rightarrow> byte list \<Rightarrow> byte list"
  rsa_oaep_sha1 :: "byte list \<Rightarrow> byte list \<Rightarrow> 'r \<Rightarrow> byte list option \<times> 'r"
  crc32_digest :: "byte list \<Rightarrow> byte list"
  GenerateBlock :: "'r \<Rightarrow> nat \<Rightarrow> byte list \<times> 'r"
  assert_site :: "nat \<Rightarrow> string"

section \<open>Helpers\<close>

definition IV_LENGTH :: nat where "IV_LENGTH = 16"
definition IV_RAND_LENGTH :: nat where "IV_RAND_LENGTH = 3"
definition BLOCK_SIZE :: nat where "BLOCK_SIZE = 16"
definition HASH_LENGTH :: nat where "HASH_LENGTH = IV_LENGTH - IV_RAND_LENGTH"

lemmas crypto_sizes = IV_LENGTH_def IV_RAND_LENGTH_def BLOCK_SIZE_def HASH_LENGTH_def

definition crc_to_vector :: "u32 \<Rightarrow> byte list" where
  "crc_to_vector crc = le_bytes crc"

definition crc32_hash :: "'r crypto_api \<Rightarrow> byte list \<Rightarrow> u32" where
  "crc32_hash api data = le_word (crc32_digest api data)"

definition generate_random_bytes :: "'r crypto_api \<Rightarrow> nat \<Rightarrow> 'r \<Rightarrow> byte list \<times> 'r" where
  "generate_random_bytes api len rng = GenerateBlock api rng len"

definition rsa_encrypt_oaep_sha1 ::
    "'r crypto_api \<Rightarrow> byte list \<Rightarrow> byte list \<Rightarrow> 'r \<Rightarrow> (error + byte list) \<times> 'r" where
  "rsa_encrypt_oaep_sha1 api pubKeyDer plaintext rng =
     (case rsa_oaep_sha1 api pubKeyDer plaintext rng of
        (None, rng') \<Rightarrow> (Inl (Exn CryptoError), rng')
      | (Some c, rng') \<Rightarrow> (Inr c, rng'))"

definition calculate_max_encrypted_length :: "nat \<Rightarrow> nat" where
  "calculate_max_encrypted_length plaintext_len =
     sz_add IV_LENGTH (sz_mul (sz_add plaintext_len BLOCK_SIZE div BLOCK_SIZE) BLOCK_SIZE)"

text \<open>\<open>memcpy(dst + off, src, n)\<close> into a vector.\<close>

definition overwrite :: "nat \<Rightarrow> byte list \<Rightarrow> byte list \<Rightarrow> byte list" where
  "overwrite off src dst = take off dst @ src @ drop (off + length src) dst"

definition hmac_buffer :: "byte list \<Rightarrow> byte list \<Rightarrow> byte list" where
  "hmac_buffer plaintext iv = take IV_RAND_LENGTH (drop HASH_LENGTH iv) @ plaintext"

definition generate_iv ::
    "'r crypto_api \<Rightarrow> byte list \<Rightarrow> byte list \<Rightarrow> byte list \<Rightarrow> 'r \<Rightarrow> byte list \<times> 'r" where
  "generate_iv api plaintext iv hmac_secret rng =
     (let hash_len = HASH_LENGTH;
          (rand, rng') = GenerateBlock api rng IV_RAND_LENGTH;
          iv' = overwrite hash_len rand iv;
          digest = hmac_sha1 api hmac_secret (hmac_buffer plaintext iv')
      in (overwrite 0 (take hash_len digest) iv', rng'))"

definition validate_iv ::
    "'r crypto_api \<Rightarrow> byte list \<Rightarrow> byte list \<Rightarrow> byte list \<Rightarrow> bool" where
  "validate_iv api plaintext iv hmac_secret =
     (let hash_len = HASH_LENGTH;
          digest = hmac_sha1 api hmac_secret (hmac_buffer plaintext iv)
      in take hash_len digest = take hash_len iv)"

text \<open>\<open>SetKey\<close> and \<open>SetKeyWithIV\<close> of AES throw for a key that is not 16, 24 or 32 bytes long.\<close>

definition aes_key_ok :: "byte list \<Rightarrow> bool" where
  "aes_key_ok key \<longleftrightarrow> length key \<in> {16, 24, 32}"

text \<open>
  The copy of the ciphertext behind the encrypted IV must stay inside the vector of
  \<open>calculate_max_encrypted_length\<close> bytes.
\<close>

definition symmetric_encrypt_hmac_iv ::
    "'r crypto_api \<Rightarrow> byte list \<Rightarrow> byte list \<Rightarrow> byte list \<Rightarrow> 'r \<Rightarrow> (error + byte list) \<times> 'r" where
  "symmetric_encrypt_hmac_iv api plaintext session_key hmac_secret rng =
     (let (iv, rng') = generate_iv api plaintext (replicate IV_LENGTH 0) hmac_secret rng;
          output = replicate (calculate_max_encrypted_length (length plaintext)) 0
      in if \<not> aes_key_ok session_key then (Inl (Exn CryptoError), rng')
         else
           (let output = overwrite 0 (take IV_LENGTH (aes_ecb_encrypt api session_key iv)) output;
                offset = IV_LENGTH;
                cipher = aes_cbc_encrypt api session_key iv plaintext
            in if length output < offset + length cipher then (Inl (Undefined OutOfBounds), rng')
               else (Inr (take (offset + length cipher) (overwrite offset cipher output)), rng')))"

definition symmetric_decrypt_hmac_iv ::
    "'r crypto_api \<Rightarrow> byte list \<Rightarrow> byte list \<Rightarrow> byte list \<Rightarrow> error + byte list" where
  "symmetric_decrypt_hmac_iv api input session_key hmac_secret =
     (if length input < IV_LENGTH then Inl (Exn (RuntimeError ''Invalid encrypted data''))
      else if \<not> aes_key_ok session_key then Inl (Exn CryptoError)
      else
        (let iv = overwrite 0 (take IV_LENGTH (aes_ecb_decrypt api session_key (take IV_LENGTH input)))
                    (replicate IV_LENGTH 0)
         in case aes_cbc_decrypt api session_key iv (drop IV_LENGTH input) of
              None \<Rightarrow> Inl (Exn CryptoError)
            | Some plaintext \<Rightarrow>
                if \<not> validate_iv api plaintext iv hmac_secret
                then Inl (Exn (RuntimeError ''HMAC from server did not match computed HMAC.''))
                else Inr plaintext))"

text \<open>
  What Crypto++ documents of the primitives, for AES keys: a decryption undoes its encryption,
  ECB keeps the length, CBC with PKCS padding rounds up to the next whole block, SHA-1 has 20
  bytes, CRC-32 has four, and the generator fills the block it is given.
\<close>

definition crypto_lawful :: "'r crypto_api \<Rightarrow> bool" where
  "crypto_lawful api \<longleftrightarrow>
     (\<forall>key d. aes_key_ok key \<longrightarrow> length d = BLOCK_SIZE \<longrightarrow>
        length (aes_ecb_encrypt api key d) = BLOCK_SIZE \<and>
        aes_ecb_decrypt api key (aes_ecb_encrypt api key d) = d) \<and>
     (\<forall>key iv p. aes_key_ok key \<longrightarrow> length iv = BLOCK_SIZE \<longrightarrow>
        length (aes_cbc_encrypt api key iv p) = (length p div BLOCK_SIZE + 1) * BLOCK_SIZE \<and>
        aes_cbc_decrypt api key iv (aes_cbc_encrypt api key iv p) = Some p) \<and>
     (\<forall>key m. length (hmac_sha1 api key m) = 20) \<and>
     (\<forall>d. length (crc32_digest api d) = 4) \<and>
     (\<forall>rng n. length (fst (GenerateBlock api rng n)) = n)"

section \<open>The encryption manager\<close>

text \<open>The DER encoding of the server's public key.\<close>

definition STEAM_PUBLIC_KEY_DER :: "byte list" where
  "STEAM_PUBLIC_KEY_DER =
    [0x30, 0x81, 0x9D, 0x30, 0x0D, 0x06, 0x09, 0x2A, 0x86, 0x48, 0x86, 0xF7,
     0x0D, 0x01, 0x01, 0x01, 0x05, 0x00, 0x03, 0x81, 0x8B, 0x00, 0x30, 0x81,
     0x87, 0x02, 0x81, 0x81, 0x00, 0xDF, 0xEC, 0x1A, 0xD6, 0x2C, 0x10, 0x66,
     0x2C, 0x17, 0x35, 0x3A, 0x14, 0xB0, 0x7C, 0x59, 0x11, 0x7F, 0x9D, 0xD3,
     0xD8, 0x2B, 0x7A, 0xE3, 0xE0, 0x15, 0xCD, 0x19, 0x1E, 0x46, 0xE8, 0x7B,
     0x87, 0x74, 0xA2, 0x18, 0x46, 0x31, 0xA9, 0x03, 0x14, 0x79, 0x82, 0x8E,
     0xE9, 0x45, 0xA2, 0x49, 0x12, 0xA9, 0x23, 0x68, 0x73, 0x89, 0xCF, 0x69,
     0xA1, 0xB1, 0x61, 0x46, 0xBD, 0xC1, 0xBE, 0xBF, 0xD6, 0x01, 0x1B, 0xD8,
     0x81, 0xD4, 0xDC, 0x90, 0xFB, 0xFE, 0x4F, 0x52, 0x73, 0x66, 0xCB, 0x95,
     0x70, 0xD7, 0xC5, 0x8E, 0xBA, 0x1C, 0x7A, 0x33, 0x75, 0xA1, 0x62, 0x34,
     0x46, 0xBB, 0x60, 0xB7, 0x80, 0x68, 0xFA, 0x13, 0xA7, 0x7A, 0x8A, 0x37,
     0x4B, 0x9E, 0xC6, 0xF4, 0x5D, 0x5F, 0x3A, 0x99, 0xF9, 0x9E, 0xC4, 0x3A,
     0xE9, 0x63, 0xA2, 0xBB, 0x88, 0x19, 0x28, 0xE0, 0xE7, 0x14, 0xC0, 0x42,
     0x89, 0x02, 0x01, 0x11]"

record 'r EncryptionManager =
  rng_state :: 'r
  session_key :: "byte list"
  hmac_secret :: "byte list"

definition EncryptionManager_new :: "'r crypto_api \<Rightarrow> 'r \<Rightarrow> 'r EncryptionManager" where
  "EncryptionManager_new api rng =
     (let (key, rng') = generate_random_bytes api 32 rng
      in \<lparr>rng_state = rng', session_key = key, hmac_secret = take 16 key\<rparr>)"

definition getSteamPublicKey :: "byte list" where
  "getSteamPublicKey = STEAM_PUBLIC_KEY_DER"

definition process_incoming_encrypted_message ::
    "'r crypto_api \<Rightarrow> 'r EncryptionManager \<Rightarrow> byte list \<Rightarrow> error + byte list" where
  "process_incoming_encrypted_message api em frame =
     symmetric_decrypt_hmac_iv api frame (session_key em) (hmac_secret em)"

definition process_outgoing_encrypted_message ::
    "'r crypto_api \<Rightarrow> byte list \<Rightarrow> 'r EncryptionManager \<Rightarrow>
       (error + byte list) \<times> 'r EncryptionManager" where
  "process_outgoing_encrypted_message api frame em =
     (let (r, rng') = symmetric_encrypt_hmac_iv api frame (session_key em) (hmac_secret em)
                        (rng_state em)
      in (r, em\<lparr>rng_state := rng'\<rparr>))"

text \<open>
  The challenge is the payload behind the 8 bytes of the body (the payload of a received
  message starts at its body). \<open>payload.begin() + 8\<close> needs 8 bytes to be there.
\<close>

definition check_encryption_request ::
    "'r crypto_api \<Rightarrow> MsgChannelEncryptRequest \<Rightarrow> byte list \<Rightarrow> error + unit" where
  "check_encryption_request api body challenge =
     bindE (RUNTIME_ASSERT (MsgChannelEncryptRequest_protocolVersion body = 1)
         ''request.Body.protocolVersion == 1''
         ''Encryption handshake protocol version mismatch!''
         (assert_site api 0) ''generate_encryption_response'') (\<lambda>_.
     bindE (RUNTIME_ASSERT (MsgChannelEncryptRequest_universe body = EUniverse_Public)
         ''request.Body.universe == Steam::Internal::Enums::EUniverse::Public''
         (format_string ''Expected public universe, but got ''
            (sint (MsgChannelEncryptRequest_universe body)) [])
         (assert_site api 1) ''generate_encryption_response'') (\<lambda>_.
     RUNTIME_ASSERT (length challenge = 16)
         ''challenge.size() == 16''
         (format_string ''Expected 16 byte handshake, but got '' (int (length challenge)) '' bytes'')
         (assert_site api 2) ''generate_encryption_response''))"

definition generate_encryption_response ::
    "'r crypto_api \<Rightarrow> 'h IPacketMsg \<Rightarrow> 'r EncryptionManager \<Rightarrow>
       (error + MsgChannelEncryptResponse Msg) \<times> 'r EncryptionManager" where
  "generate_encryption_response api packet em =
     (case Msg_of_packet MsgChannelEncryptRequest_ops packet of
        Inl e \<Rightarrow> (Inl e, em)
      | Inr request \<Rightarrow>
          (let payload = Payload request in
           if length payload < 8 then (Inl (Undefined OutOfBounds), em)
           else
             (let challenge = drop 8 payload in
              case check_encryption_request api (Body request) challenge of
                Inl e \<Rightarrow> (Inl e, em)
              | Inr _ \<Rightarrow>
                  (let handshake = session_key em @ challenge in
                   case rsa_encrypt_oaep_sha1 api getSteamPublicKey handshake (rng_state em) of
                     (Inl e, rng') \<Rightarrow> (Inl e, em\<lparr>rng_state := rng'\<rparr>)
                   | (Inr encrypted_key_vector, rng') \<Rightarrow>
                       (let hash_bytes = crc32_hash api encrypted_key_vector;
                            response = Msg_new MsgChannelEncryptResponse_ops;
                            response = WriteBytes encrypted_key_vector response;
                            response = WriteBytes (crc_to_vector hash_bytes) response;
                            response = WriteBytes [0, 0, 0, 0] response
                        in (Inr response, em\<lparr>rng_state := rng'\<rparr>))))))"

section \<open>Encryption and decryption\<close>

lemma length_overwrite [simp]:
  "off + length src \<le> length dst \<Longrightarrow> length (overwrite off src dst) = length dst"
  by (simp add: overwrite_def)

lemma crypto_lawfulD:
  assumes "crypto_lawful api"
  shows "aes_key_ok key \<Longrightarrow> length d = 16 \<Longrightarrow> length (aes_ecb_encrypt api key d) = 16"
    and "aes_key_ok key \<Longrightarrow> length d = 16 \<Longrightarrow> aes_ecb_decrypt api key (aes_ecb_encrypt api key d) = d"
    and "aes_key_ok key \<Longrightarrow> length d = 16 \<Longrightarrow>
      length (aes_cbc_encrypt api key d p) = (length p div 16 + 1) * 16"
    and "aes_key_ok key \<Longrightarrow> length d = 16 \<Longrightarrow>
      aes_cbc_decrypt api key d (aes_cbc_encrypt api key d p) = Some p"
    and "length (hmac_sha1 api key p) = 20"
    and "length (crc32_digest api p) = 4"
    and "length (fst (GenerateBlock api rng n)) = n"
  using assms by (simp_all add: crypto_lawful_def crypto_sizes)

text \<open>The IV is the first 13 bytes of the HMAC, then the three random bytes it was computed with.\<close>

lemma generate_iv_eq:
  assumes "crypto_lawful api" and "length iv = 16" and "GenerateBlock api rng 3 = (rand, rng')"
  shows "generate_iv api p iv secret rng =
    (take 13 (hmac_sha1 api secret (rand @ p)) @ rand, rng')"
proof -
  have r: "length rand = 3" using crypto_lawfulD(7) [OF assms(1), of rng 3] assms(3) by simp
  then have "hmac_buffer p (overwrite 13 rand iv) = rand @ p"
    using assms(2) by (simp add: hmac_buffer_def overwrite_def crypto_sizes)
  with r assms(2,3) crypto_lawfulD(5) [OF assms(1)] show ?thesis
    by (simp add: generate_iv_def crypto_sizes overwrite_def)
qed

lemma max_encrypted_length:
  assumes "n < vec_limit"
  shows "calculate_max_encrypted_length n = 16 + (n div 16 + 1) * 16"
proof -
  have "n + 16 < 2 ^ 64" and "(n + 16) div 16 = n div 16 + 1"
    using assms by (simp_all add: vec_limit_def)
  moreover have "16 + (n div 16 + 1) * 16 < 2 ^ 64"
    using assms by (simp add: vec_limit_def)
  ultimately show ?thesis
    by (simp add: calculate_max_encrypted_length_def crypto_sizes sz_add_def sz_mul_def)
qed

lemma symmetric_encrypt_eq:
  assumes api: "crypto_lawful api" and key: "aes_key_ok key" and p: "length p < vec_limit"
    and r: "GenerateBlock api rng 3 = (rand, rng')"
    and iv: "iv = take 13 (hmac_sha1 api secret (rand @ p)) @ rand"
  shows "symmetric_encrypt_hmac_iv api p key secret rng =
    (Inr (aes_ecb_encrypt api key iv @ aes_cbc_encrypt api key iv p), rng')" and "length iv = 16"
proof -
  have g: "generate_iv api p (replicate 16 0) secret rng = (iv, rng')"
    using generate_iv_eq [OF api _ r] iv by simp
  have "length rand = 3" using crypto_lawfulD(7) [OF api, of rng 3] r by simp
  then show l: "length iv = 16" using iv crypto_lawfulD(5) [OF api] by simp
  have e: "length (aes_ecb_encrypt api key iv) = 16" by (rule crypto_lawfulD(1) [OF api key l])
  have c: "length (aes_cbc_encrypt api key iv p) = (length p div 16 + 1) * 16"
    by (rule crypto_lawfulD(3) [OF api key l])
  show "symmetric_encrypt_hmac_iv api p key secret rng =
    (Inr (aes_ecb_encrypt api key iv @ aes_cbc_encrypt api key iv p), rng')"
    using g key e c max_encrypted_length [OF p]
    by (simp add: symmetric_encrypt_hmac_iv_def crypto_sizes overwrite_def Let_def)
qed

lemma symmetric_decrypt_encrypt:
  assumes api: "crypto_lawful api" and key: "aes_key_ok key" and p: "length p < vec_limit"
  obtains c where "fst (symmetric_encrypt_hmac_iv api p key secret rng) = Inr c"
    and "symmetric_decrypt_hmac_iv api c key secret = Inr p"
    and "length c = 16 + (length p div 16 + 1) * 16"
proof -
  obtain rand rng' where r: "GenerateBlock api rng 3 = (rand, rng')" by fastforce
  define iv where "iv = take 13 (hmac_sha1 api secret (rand @ p)) @ rand"
  note enc = symmetric_encrypt_eq [OF api key p r iv_def]
  have e: "length (aes_ecb_encrypt api key iv) = 16"
    and d: "aes_ecb_decrypt api key (aes_ecb_encrypt api key iv) = iv"
    by (rule crypto_lawfulD(1,2) [OF api key enc(2)])+
  have "length rand = 3" using crypto_lawfulD(7) [OF api, of rng 3] r by simp
  then have "validate_iv api p iv secret"
    using crypto_lawfulD(5) [OF api] by (simp add: validate_iv_def hmac_buffer_def crypto_sizes iv_def)
  then have "symmetric_decrypt_hmac_iv api (aes_ecb_encrypt api key iv @ aes_cbc_encrypt api key iv p)
      key secret = Inr p"
    using e d key enc(2) crypto_lawfulD(4) [OF api key enc(2)]
    by (simp add: symmetric_decrypt_hmac_iv_def crypto_sizes overwrite_def)
  with enc(1) e crypto_lawfulD(3) [OF api key enc(2), of p] that show ?thesis by simp
qed

section \<open>The manager's invariant\<close>

definition manager_ok :: "'r EncryptionManager \<Rightarrow> bool" where
  "manager_ok em \<longleftrightarrow> length (session_key em) = 32 \<and> hmac_secret em = take 16 (session_key em)"

lemma manager_ok_key: "manager_ok em \<Longrightarrow> aes_key_ok (session_key em)"
  by (simp add: manager_ok_def aes_key_ok_def)

lemma manager_ok_new: "crypto_lawful api \<Longrightarrow> manager_ok (EncryptionManager_new api rng)"
  using crypto_lawfulD(7) [of api rng 32]
  by (auto simp: manager_ok_def EncryptionManager_new_def generate_random_bytes_def
      split: prod.splits)

lemma manager_ok_outgoing:
  "manager_ok em \<Longrightarrow> manager_ok (snd (process_outgoing_encrypted_message api frame em))"
  by (simp add: manager_ok_def process_outgoing_encrypted_message_def split: prod.splits)

lemma manager_ok_response:
  "manager_ok em \<Longrightarrow> manager_ok (snd (generate_encryption_response api packet em))"
  by (simp add: manager_ok_def generate_encryption_response_def Let_def
      split: prod.splits sum.splits)

lemma keys_unchanged:
  "session_key (snd (process_outgoing_encrypted_message api frame em)) = session_key em"
  "session_key (snd (generate_encryption_response api packet em)) = session_key em"
  by (simp_all add: process_outgoing_encrypted_message_def generate_encryption_response_def Let_def
      split: prod.splits sum.splits)

section \<open>The answer to the encryption request\<close>

lemma MsgChannelEncryptResponse_codec_ops:
  "codec (\<lambda>_. True) (body_Serialize MsgChannelEncryptResponse_ops)
     (body_Deserialize MsgChannelEncryptResponse_ops) 8"
  by (simp add: MsgChannelEncryptResponse_ops_def MsgChannelEncryptResponse_codec)

lemma MsgChannelEncryptRequest_codec_ops:
  "codec (\<lambda>_. True) (body_Serialize MsgChannelEncryptRequest_ops)
     (body_Deserialize MsgChannelEncryptRequest_ops) 8"
  by (simp add: MsgChannelEncryptRequest_ops_def MsgChannelEncryptRequest_codec)

text \<open>A request that reads as a message has the 8 bytes that the challenge is cut behind.\<close>

lemma request_payload_length:
  assumes "Msg_of_packet MsgChannelEncryptRequest_ops (MsgPacket p) = Inr request"
    and "length (msg_payload p) < vec_limit" and "msg_bodyOffset p \<le> length (msg_payload p)"
  shows "8 \<le> length (Payload request)"
proof -
  let ?d = "msg_payload p" and ?o = "msg_bodyOffset p"
  have "?o + 8 \<le> length ?d"
  proof (rule ccontr)
    assume "\<not> ?o + 8 \<le> length ?d"
    then have "MsgChannelEncryptRequest_Deserialize (Stream_read_at ?d ?o) = Inl underflow_error"
      using assms by (intro MsgChannelEncryptRequest.truncated) auto
    with assms(1) show False
      by (simp add: Msg_of_packet_def MsgChannelEncryptRequest_ops_def)
  qed
  with assms(1) show ?thesis
    by (auto simp: Msg_of_packet_def Let_def split: sum.splits prod.splits)
qed

lemma encryption_response_defined:
  assumes "length (msg_payload p) < vec_limit" and "msg_bodyOffset p \<le> length (msg_payload p)"
  shows "fst (generate_encryption_response api (MsgPacket p :: 'h IPacketMsg) em) \<noteq> Inl (Undefined u)"
proof -
  have a: "check_encryption_request api b c \<noteq> Inl (Undefined u)" for b c
    by (auto simp: check_encryption_request_def RUNTIME_ASSERT_def throw_error_def)
  have d: "MsgChannelEncryptRequest_Deserialize (Stream_read_at (msg_payload p) (msg_bodyOffset p))
      \<noteq> Inl (Undefined u)"
    using MsgChannelEncryptRequest.truncated [OF assms]
      MsgChannelEncryptRequest.total [OF assms(1), of "msg_bodyOffset p"]
    by (cases "length (msg_payload p) < msg_bodyOffset p + 8")
      (auto simp: underflow_error_def not_less)
  show ?thesis
  proof (cases "Msg_of_packet MsgChannelEncryptRequest_ops (MsgPacket p :: 'h IPacketMsg)")
    case (Inl e)
    with d show ?thesis
      by (auto simp: generate_encryption_response_def Msg_of_packet_def Let_def
          MsgChannelEncryptRequest_ops_def split: sum.splits prod.splits)
  next
    case (Inr request)
    with request_payload_length [OF Inr assms] a show ?thesis
      by (auto simp: generate_encryption_response_def Let_def rsa_encrypt_oaep_sha1_def not_less
          split: sum.splits prod.splits option.splits)
  qed
qed

text \<open>
  A well-formed request is answered with the RSA encryption of the session key followed by the
  challenge, its CRC and four zero bytes, all in the payload of a \<open>ChannelEncryptResponse\<close>.
\<close>

lemma encryption_response_payload:
  assumes "Msg_of_packet MsgChannelEncryptRequest_ops packet = Inr request"
    and "MsgChannelEncryptRequest_protocolVersion (Body request) = 1"
    and "MsgChannelEncryptRequest_universe (Body request) = EUniverse_Public"
    and "Payload request = pre @ challenge" and "length pre = 8" and "length challenge = 16"
    and "rsa_oaep_sha1 api STEAM_PUBLIC_KEY_DER (session_key em @ challenge) (rng_state em) =
      (Some k, rng')"
  shows "generate_encryption_response api packet em =
    (Inr ((Msg_new MsgChannelEncryptResponse_ops)
       \<lparr>Payload := k @ crc_to_vector (crc32_hash api k) @ [0, 0, 0, 0]\<rparr>),
     em\<lparr>rng_state := rng'\<rparr>)"
  using assms
  by (simp add: generate_encryption_response_def check_encryption_request_def Let_def
      rsa_encrypt_oaep_sha1_def getSteamPublicKey_def WriteBytes_def Msg_new_def)

lemma crc_to_vector_crc32: "crypto_lawful api \<Longrightarrow> crc_to_vector (crc32_hash api d) = crc32_digest api d"
  by (simp add: crc_to_vector_def crc32_hash_def crypto_lawfulD(6) le_bytes_le_word)

end
