(* ===== verification/Steam_Vdf.thy ===== *)
theory Steam_Vdf
  imports Steam_Messages Runtime_Err "HOL-Library.AList"
begin

text \<open>
  The VDF tree of include/steamclient/utilities/vdf.hpp and its queries. A node is a structure
  with one variant field, so a node is its value. The hash map of an object is an association
  list with distinct keys: an assignment through \<open>operator[]\<close> replaces the value of a present
  key and otherwise adds the key, and the order of the list is the (unspecified) order in which
  the map is traversed.
\<close>

section \<open>Nodes\<close>

datatype Value =
    VString string
  | VInt32 u32
  | VUInt64 u64
  | VFloat u32
  | VObject "(string \<times> Value) list"

type_synonym Object = "(string \<times> Value) list"
type_synonym VDFNode = Value

text \<open>A default-constructed variant holds its first alternative.\<close>

definition VDFNode_default :: VDFNode where
  "VDFNode_default = VString []"

definition obj_find :: "Object \<Rightarrow> string \<Rightarrow> VDFNode option" where
  "obj_find obj key = map_of obj key"

definition obj_assign :: "string \<Rightarrow> VDFNode \<Rightarrow> Object \<Rightarrow> Object" where
  "obj_assign key v obj = AList.update key v obj"

text \<open>\<open>operator[]\<close> used for reading inserts a default node where the key is missing.\<close>

definition obj_index :: "string \<Rightarrow> Object \<Rightarrow> VDFNode \<times> Object" where
  "obj_index key obj =
     (case obj_find obj key of
        Some v \<Rightarrow> (v, obj)
      | None \<Rightarrow> (VDFNode_default, obj_assign key VDFNode_default obj))"

interpretation object: registry obj_assign obj_find "\<lambda>_ _. True"
  by unfold_locales (simp_all add: obj_assign_def obj_find_def update_conv')

definition get :: "string \<Rightarrow> VDFNode \<Rightarrow> VDFNode option" where
  "get key node = (case node of VObject obj \<Rightarrow> obj_find obj key | _ \<Rightarrow> None)"

definition get_string_or :: "string \<Rightarrow> string \<Rightarrow> VDFNode \<Rightarrow> string" where
  "get_string_or key dflt node = (case get key node of Some (VString s) \<Rightarrow> s | _ \<Rightarrow> dflt)"

definition get_int_or :: "string \<Rightarrow> u32 \<Rightarrow> VDFNode \<Rightarrow> u32" where
  "get_int_or key dflt node = (case get key node of Some (VInt32 i) \<Rightarrow> i | _ \<Rightarrow> dflt)"

definition get_uint64_or :: "string \<Rightarrow> u64 \<Rightarrow> VDFNode \<Rightarrow> u64" where
  "get_uint64_or key dflt node = (case get key node of Some (VUInt64 i) \<Rightarrow> i | _ \<Rightarrow> dflt)"

definition get_float_or :: "string \<Rightarrow> u32 \<Rightarrow> VDFNode \<Rightarrow> u32" where
  "get_float_or key dflt node = (case get key node of Some (VFloat f) \<Rightarrow> f | _ \<Rightarrow> dflt)"

fun get_path :: "string list \<Rightarrow> VDFNode \<Rightarrow> VDFNode option" where
  "get_path [] current = Some current"
| "get_path (key # keys) (VObject obj) =
     (case obj_find obj key of None \<Rightarrow> None | Some node \<Rightarrow> get_path keys node)"
| "get_path (key # keys) current = None"

definition as_object :: "VDFNode \<Rightarrow> error + Object" where
  "as_object node = (case node of VObject obj \<Rightarrow> Inr obj | _ \<Rightarrow> Inl (Exn BadVariantAccess))"

definition as_string :: "VDFNode \<Rightarrow> error + string" where
  "as_string node = (case node of VString s \<Rightarrow> Inr s | _ \<Rightarrow> Inl (Exn BadVariantAccess))"

definition as_int :: "VDFNode \<Rightarrow> error + u32" where
  "as_int node = (case node of VInt32 i \<Rightarrow> Inr i | _ \<Rightarrow> Inl (Exn BadVariantAccess))"

definition as_uint64 :: "VDFNode \<Rightarrow> error + u64" where
  "as_uint64 node = (case node of VUInt64 i \<Rightarrow> Inr i | _ \<Rightarrow> Inl (Exn BadVariantAccess))"

definition as_float :: "VDFNode \<Rightarrow> error + u32" where
  "as_float node = (case node of VFloat f \<Rightarrow> Inr f | _ \<Rightarrow> Inl (Exn BadVariantAccess))"

section \<open>Queries\<close>

lemma get_path_Cons: "get_path (key # keys) node = Option.bind (get key node) (get_path keys)"
  by (cases node) (auto simp: get_def split: option.splits)

lemma get_path_append:
  "get_path (ks @ ls) node = Option.bind (get_path ks node) (get_path ls)"
proof (induction ks arbitrary: node)
  case (Cons k ks)
  then show ?case by (simp only: append_Cons get_path_Cons) (cases "get k node"; simp)
qed simp

lemma obj_assign_distinct: "distinct (map fst obj) \<Longrightarrow> distinct (map fst (obj_assign k v obj))"
  by (simp add: obj_assign_def distinct_update)

lemma obj_assign_new: "k \<notin> fst ` set obj \<Longrightarrow> obj_assign k v obj = obj @ [(k, v)]"
  unfolding obj_assign_def by (induction obj) auto

text \<open>Every key of every object of the tree is there once.\<close>

fun wf_value :: "Value \<Rightarrow> bool" where
  "wf_value (VObject obj) \<longleftrightarrow> distinct (map fst obj) \<and> (\<forall>e \<in> set obj. wf_value (snd e))"
| "wf_value _ \<longleftrightarrow> True"

lemma wf_value_assign:
  assumes "wf_value (VObject obj)" and "wf_value v"
  shows "wf_value (VObject (obj_assign k v obj))"
proof -
  have "set (obj_assign k v obj) \<subseteq> insert (k, v) (set obj)"
    unfolding obj_assign_def by (induction obj) auto
  with assms show ?thesis by (auto intro: obj_assign_distinct)
qed

lemma get_wf: "wf_value node \<Longrightarrow> get key node = Some v \<Longrightarrow> wf_value v"
  by (cases node) (force simp: get_def obj_find_def dest: map_of_SomeD)+

lemma get_path_wf: "wf_value node \<Longrightarrow> get_path keys node = Some v \<Longrightarrow> wf_value v"
proof (induction keys arbitrary: node)
  case (Cons key keys)
  then show ?case by (auto simp: get_path_Cons bind_eq_Some_conv dest: get_wf)
qed simp

end
