(* ===== verification/Vdf_Text.thy ===== *)
theory Vdf_Text
  imports Steam_Vdf
begin

unbundle bit_operations_syntax

text \<open>
  The text VDF parser and printer (src/utils/vdf/vdf_text.cpp). The parser's \<open>(input, pos)\<close> is
  represented by the unread characters: \<open>pos\<close> only grows and every access is at \<open>pos\<close> or one
  behind. \<open>peek\<close> and \<open>consume\<close> index a \<open>string_view\<close> without a check, so at the end of the input
  they are undefined.
\<close>

section \<open>The parser\<close>

text \<open>\<open>std::isspace\<close> in the C locale: space, tab, newline, vertical tab, form feed, return.\<close>

definition is_space :: "char \<Rightarrow> bool" where
  "is_space c \<longleftrightarrow> (let n = of_char c :: nat in n = 32 \<or> (9 \<le> n \<and> n \<le> 13))"

definition NL :: char where "NL = CHR 0x0A"
definition TAB :: char where "TAB = CHR 0x09"
definition QUOTE :: char where "QUOTE = CHR 0x22"
definition BACKSLASH :: char where "BACKSLASH = CHR 0x5C"

lemmas text_chars = NL_def TAB_def QUOTE_def BACKSLASH_def

definition peek :: "string \<Rightarrow> error + char" where
  "peek s = (case s of [] \<Rightarrow> Inl (Undefined OutOfBounds) | c # _ \<Rightarrow> Inr c)"

definition consume :: "string \<Rightarrow> error + char \<times> string" where
  "consume s = (case s of [] \<Rightarrow> Inl (Undefined OutOfBounds) | c # r \<Rightarrow> Inr (c, r))"

definition at_comment :: "string \<Rightarrow> bool" where
  "at_comment s \<longleftrightarrow> take 2 s = ''//''"

function skip_ws :: "string \<Rightarrow> string" where
  "skip_ws s =
     (let r = dropWhile is_space s in
      if at_comment r then skip_ws (dropWhile (\<lambda>c. c \<noteq> NL) r) else r)"
  by pat_completeness auto
termination
proof (relation "measure length")
  fix s r
  assume r: "r = dropWhile is_space s" and c: "at_comment r"
  from c obtain t where t: "r = CHR ''/'' # t" by (cases r) (auto simp: at_comment_def)
  then have "dropWhile (\<lambda>c. c \<noteq> NL) r = dropWhile (\<lambda>c. c \<noteq> NL) t"
    by (simp add: NL_def)
  then have "length (dropWhile (\<lambda>c. c \<noteq> NL) r) < length r"
    using t by (simp add: le_imp_less_Suc length_dropWhile_le)
  also have "\<dots> \<le> length s" using r by (simp add: length_dropWhile_le)
  finally show "(dropWhile (\<lambda>c. c \<noteq> NL) r, s) \<in> measure length" by simp
qed simp

declare skip_ws.simps [simp del]

definition escape_char :: "char \<Rightarrow> char" where
  "escape_char n =
     (if n = CHR ''n'' then NL
      else if n = CHR ''t'' then TAB
      else if n = BACKSLASH then BACKSLASH
      else if n = QUOTE then QUOTE
      else n)"

text \<open>The loop behind the opening quote: it also ends, without an error, at the end of the input.\<close>

fun string_body :: "string \<Rightarrow> error + string \<times> string" where
  "string_body [] = Inr ([], [])"
| "string_body (c # cs) =
     (if c = QUOTE then Inr ([], cs)
      else if c = BACKSLASH then
        (case cs of
           [] \<Rightarrow> Inl (Undefined OutOfBounds)
         | n # cs' \<Rightarrow>
             (case string_body cs' of
                Inl e \<Rightarrow> Inl e
              | Inr (out, r) \<Rightarrow> Inr (escape_char n # out, r)))
      else
        (case string_body cs of
           Inl e \<Rightarrow> Inl e
         | Inr (out, r) \<Rightarrow> Inr (c # out, r)))"

definition parse_string :: "string \<Rightarrow> error + string \<times> string" where
  "parse_string s =
     (case consume (skip_ws s) of
        Inl e \<Rightarrow> Inl e
      | Inr (c, r) \<Rightarrow>
          if c \<noteq> QUOTE then Inl (Exn (RuntimeError ''Expected quote'')) else string_body r)"

lemma skip_ws_no_longer: "length (skip_ws s) \<le> length s"
proof (induction s rule: skip_ws.induct)
  case (1 s)
  show ?case
  proof (cases "at_comment (dropWhile is_space s)")
    case True
    with 1 have "length (skip_ws s) \<le> length (dropWhile (\<lambda>c. c \<noteq> NL) (dropWhile is_space s))"
      by (subst skip_ws.simps) (simp add: Let_def)
    also have "\<dots> \<le> length s" by (meson length_dropWhile_le order_trans)
    finally show ?thesis .
  next
    case False
    then show ?thesis by (subst skip_ws.simps) (simp add: Let_def length_dropWhile_le)
  qed
qed

lemma string_body_no_longer: "string_body s = Inr (out, r) \<Longrightarrow> length r \<le> length s"
proof (induction s arbitrary: out r rule: string_body.induct)
  case (2 c cs)
  then show ?case by (auto split: if_splits list.splits sum.splits) fastforce+
qed simp

lemma parse_string_shorter: "parse_string s = Inr (out, r) \<Longrightarrow> length r < length s"
  using skip_ws_no_longer [of s]
  by (auto simp: parse_string_def consume_def dest!: string_body_no_longer
      split: if_splits list.splits sum.splits)

text \<open>One entry: key, white space, and what follows decides between object and string.\<close>

function text_parse_object :: "Object \<Rightarrow> string \<Rightarrow> error + Object \<times> string" where
  "text_parse_object obj s =
     (case consume (skip_ws s) of
        Inl e \<Rightarrow> Inl e
      | Inr (c, cs) \<Rightarrow>
          if c = CHR ''}'' then Inr (obj, cs)
          else
            (case parse_string (skip_ws s) of
               Inl e \<Rightarrow> Inl e
             | Inr (key, r) \<Rightarrow>
                 (case consume (skip_ws r) of
                    Inl e \<Rightarrow> Inl e
                  | Inr (d, ds) \<Rightarrow>
                      if d = CHR ''{'' then
                        (case text_parse_object [] ds of
                           Inl e \<Rightarrow> Inl e
                         | Inr (inner, r') \<Rightarrow>
                             text_parse_object (obj_assign key (VObject inner) obj) r')
                      else
                        (case parse_string (skip_ws r) of
                           Inl e \<Rightarrow> Inl e
                         | Inr (val, r') \<Rightarrow>
                             text_parse_object (obj_assign key (VString val) obj) r'))))"
  by pat_completeness auto

lemma consume_skip_ws: "consume (skip_ws s) = Inr (c, cs) \<Longrightarrow> length cs < length s"
  using skip_ws_no_longer [of s] by (auto simp: consume_def split: list.splits)

lemma parse_string_skip_ws: "parse_string (skip_ws s) = Inr (x, r) \<Longrightarrow> length r < length s"
  using skip_ws_no_longer [of s] by (auto dest: parse_string_shorter)

lemma text_parse_object_shorter:
  "text_parse_object_dom (obj, s) \<Longrightarrow> text_parse_object obj s = Inr (obj', r) \<Longrightarrow>
     length r < length s"
proof (induction obj s arbitrary: obj' r rule: text_parse_object.pinduct)
  case (1 obj s)
  note eq = text_parse_object.psimps [OF "1.hyps"]
  from "1.prems" obtain c cs where c: "consume (skip_ws s) = Inr (c, cs)"
    unfolding eq by (auto split: sum.splits)
  show ?case
  proof (cases "c = CHR ''}''")
    case True
    with "1.prems" c show ?thesis unfolding eq by (auto dest: consume_skip_ws)
  next
    case False
    with "1.prems" c obtain key t d ds where k: "parse_string (skip_ws s) = Inr (key, t)"
      and d: "consume (skip_ws t) = Inr (d, ds)"
      unfolding eq by (auto split: sum.splits)
    have t: "length t < length s" using k by (rule parse_string_skip_ws)
    show ?thesis
    proof (cases "d = CHR ''{''")
      case True
      with "1.prems" c False k d obtain inner t' where i: "text_parse_object [] ds = Inr (inner, t')"
        unfolding eq by (auto split: sum.splits)
      have "length t' < length ds" using "1.IH"(1) c False k d True i by simp
      moreover have "length ds < length t" using d by (rule consume_skip_ws)
      moreover have "length r < length t'"
        using "1.IH"(2) "1.prems" c False k d True i unfolding eq by simp
      ultimately show ?thesis using t by simp
    next
      case scalar: False
      with "1.prems" c False k d obtain val t' where v: "parse_string (skip_ws t) = Inr (val, t')"
        unfolding eq by (auto split: sum.splits)
      then have "length t' < length t" by (rule parse_string_skip_ws)
      moreover have "length r < length t'"
        using "1.IH"(3) "1.prems" c False k d scalar v unfolding eq by simp
      ultimately show ?thesis using t by simp
    qed
  qed
qed

lemma text_parse_object_total: "All text_parse_object_dom"
proof (relation "measure (\<lambda>(_, s). length s)")
qed (auto dest!: consume_skip_ws parse_string_skip_ws text_parse_object_shorter)

termination text_parse_object
  by (rule text_parse_object_total)

declare text_parse_object.simps [simp del]

text \<open>The top level reads entries up to the end of the input.\<close>

function text_parse :: "Object \<Rightarrow> string \<Rightarrow> error + Object" where
  "text_parse root s =
     (if skip_ws s = [] then Inr root
      else
        (case parse_string (skip_ws s) of
           Inl e \<Rightarrow> Inl e
         | Inr (key, r) \<Rightarrow>
             (case consume (skip_ws r) of
                Inl e \<Rightarrow> Inl e
              | Inr (d, ds) \<Rightarrow>
                  if d = CHR ''{'' then
                    (case text_parse_object [] ds of
                       Inl e \<Rightarrow> Inl e
                     | Inr (inner, r') \<Rightarrow> text_parse (obj_assign key (VObject inner) root) r')
                  else
                    (case parse_string (skip_ws r) of
                       Inl e \<Rightarrow> Inl e
                     | Inr (val, r') \<Rightarrow> text_parse (obj_assign key (VString val) root) r'))))"
  by pat_completeness auto

lemma text_parse_object_less: "text_parse_object obj s = Inr (obj', r) \<Longrightarrow> length r < length s"
  by (rule text_parse_object_shorter) (simp_all add: text_parse_object_total)

termination text_parse
proof (relation "measure (\<lambda>(_, s). length s)")
qed (auto dest!: consume_skip_ws parse_string_skip_ws text_parse_object_less)

declare text_parse.simps [simp del]

definition parse_text :: "string \<Rightarrow> error + Object" where
  "parse_text text = text_parse [] text"

section \<open>The printer\<close>

text \<open>
  \<open>std::to_string(float)\<close> prints with \<open>%f\<close>: six decimals of the exact value of the IEEE 754
  single, rounded half to even.
\<close>

definition round_half_even :: "nat \<Rightarrow> nat \<Rightarrow> nat" where
  "round_half_even a b =
     (let q = a div b; r = a mod b in
      if 2 * r < b then q else if b < 2 * r then Suc q else if even q then q else Suc q)"

definition pad6 :: "nat \<Rightarrow> string" where
  "pad6 n = (let s = dec_string n in replicate (6 - length s) (CHR ''0'') @ s)"

definition fixed6 :: "nat \<Rightarrow> string" where
  "fixed6 scaled = dec_string (scaled div 10 ^ 6) @ ''.'' @ pad6 (scaled mod 10 ^ 6)"

definition float_string :: "u32 \<Rightarrow> string" where
  "float_string w =
     (let sign = (if bit w 31 then ''-'' else []);
          ex = unat (drop_bit 23 w AND 0xFF);
          frac = unat (w AND 0x7FFFFF)
      in sign @
         (if ex = 255 then (if frac = 0 then ''inf'' else ''nan'')
          else
            (let m = (if ex = 0 then frac else frac + 2 ^ 23);
                 scaled = (if 150 \<le> ex then m * 10 ^ 6 * 2 ^ (ex - 150)
                           else round_half_even (m * 10 ^ 6) (2 ^ (150 - max 1 ex)))
             in fixed6 scaled)))"

definition quoted :: "string \<Rightarrow> string" where
  "quoted s = QUOTE # s @ [QUOTE]"

text \<open>The text of a scalar between its quotes: strings are copied as they are, without escapes.\<close>

fun scalar_string :: "Value \<Rightarrow> string" where
  "scalar_string (VString s) = s"
| "scalar_string (VInt32 i) = int_string (sint i)"
| "scalar_string (VUInt64 i) = dec_string (unat i)"
| "scalar_string (VFloat f) = float_string f"
| "scalar_string (VObject obj) = []"

fun stringify_object :: "Object \<Rightarrow> nat \<Rightarrow> string" where
  "stringify_object [] indent = []"
| "stringify_object ((key, VObject obj) # es) indent =
     (let pad = replicate indent TAB in
      pad @ quoted key @ [NL] @ pad @ ''{'' @ [NL] @
      stringify_object obj (indent + 1) @ pad @ ''}'' @ [NL] @ stringify_object es indent)"
| "stringify_object ((key, val) # es) indent =
     replicate indent TAB @ quoted key @ '' '' @ quoted (scalar_string val) @ [NL] @
     stringify_object es indent"

definition stringify :: "Object \<Rightarrow> string" where
  "stringify obj = stringify_object obj 0"

section \<open>What the parser makes of the printer's text\<close>

text \<open>
  Numbers come back as strings. Strings come back as they were if they hold no quote and no
  backslash, which the printer does not escape.
\<close>

fun as_text :: "Value \<Rightarrow> Value" where
  "as_text (VObject obj) = VObject (map (\<lambda>e. (fst e, as_text (snd e))) obj)"
| "as_text v = VString (scalar_string v)"

definition clean :: "string \<Rightarrow> bool" where
  "clean s \<longleftrightarrow> QUOTE \<notin> set s \<and> BACKSLASH \<notin> set s"

fun clean_value :: "Value \<Rightarrow> bool" where
  "clean_value (VObject obj) \<longleftrightarrow> (\<forall>e \<in> set obj. clean (fst e) \<and> clean_value (snd e))"
| "clean_value (VString s) \<longleftrightarrow> clean s"
| "clean_value _ \<longleftrightarrow> True"

lemma clean_digits: "\<forall>c \<in> set s. is_digit c \<Longrightarrow> clean s"
  by (auto simp: clean_def is_digit_def text_chars)

lemma clean_append [simp]: "clean (s @ t) \<longleftrightarrow> clean s \<and> clean t"
  by (auto simp: clean_def)

lemma clean_Nil [simp]: "clean []"
  by (simp add: clean_def)

lemma clean_Cons: "clean (c # s) \<longleftrightarrow> c \<noteq> QUOTE \<and> c \<noteq> BACKSLASH \<and> clean s"
  by (auto simp: clean_def)

lemma clean_dec_string [simp]: "clean (dec_string n)"
  by (rule clean_digits) (rule dec_string_digits)

lemma clean_int_string [simp]: "clean (int_string i)"
  by (simp add: int_string_def clean_Cons text_chars)

lemma clean_fixed6: "clean (fixed6 n)"
proof -
  have "clean (replicate k (CHR ''0''))" for k by (simp add: clean_def text_chars)
  then have "clean (pad6 n)" for n by (simp add: pad6_def Let_def)
  then show ?thesis by (simp add: fixed6_def clean_Cons text_chars)
qed

lemma clean_float_string [simp]: "clean (float_string f)"
proof -
  have "clean ''-''" "clean ''inf''" "clean ''nan''" by (simp_all add: clean_Cons text_chars)
  then show ?thesis
    unfolding float_string_def Let_def clean_append
    by (simp only: if_distrib [of clean] clean_fixed6 clean_Nil if_cancel simp_thms)
qed

lemma clean_scalar: "clean_value v \<Longrightarrow> clean (scalar_string v)"
  by (cases v) simp_all

lemma string_body_clean: "clean s \<Longrightarrow> string_body (s @ QUOTE # r) = Inr (s, r)"
  by (induction s) (auto simp: clean_def)

lemma skip_ws_spaces:
  assumes "\<forall>c \<in> set ws. is_space c" and "\<not> is_space d" and "d \<noteq> CHR ''/''"
  shows "skip_ws (ws @ d # r) = d # r"
proof -
  have "dropWhile is_space (ws @ d # r) = d # r" using assms(1,2) by (induction ws) auto
  then show ?thesis using assms(3) by (subst skip_ws.simps) (simp add: at_comment_def)
qed

lemma skip_ws_all: "\<forall>c \<in> set ws. is_space c \<Longrightarrow> skip_ws ws = []"
proof -
  assume "\<forall>c \<in> set ws. is_space c"
  then have "dropWhile is_space ws = []" by simp
  then show ?thesis by (subst skip_ws.simps) (simp add: at_comment_def del: dropWhile_eq_Nil_conv)
qed

lemma space_chars [simp]:
  "is_space NL" "is_space TAB" "is_space (CHR '' '')" "\<not> is_space QUOTE"
  "\<not> is_space (CHR ''{'')" "\<not> is_space (CHR ''}'')"
  "QUOTE \<noteq> CHR ''/''" "QUOTE \<noteq> CHR ''{''" "QUOTE \<noteq> CHR ''}''"
  by (simp_all add: is_space_def text_chars)

lemma skip_ws_quoted:
  "\<forall>c \<in> set ws. is_space c \<Longrightarrow> skip_ws (ws @ quoted s @ r) = quoted s @ r"
  by (simp add: quoted_def skip_ws_spaces)

lemma skip_ws_quoted_0 [simp]: "skip_ws (quoted s @ r) = quoted s @ r"
  using skip_ws_quoted [of "[]"] by simp

lemma parse_string_quoted [simp]: "clean s \<Longrightarrow> parse_string (quoted s @ r) = Inr (s, r)"
  using string_body_clean [of s r]
  by (simp add: parse_string_def) (simp add: quoted_def consume_def)

lemma consume_quoted [simp]: "consume (quoted s @ r) = Inr (QUOTE, s @ QUOTE # r)"
  by (simp add: quoted_def consume_def)

lemma quoted_not_Nil [simp]: "quoted s @ r \<noteq> []"
  by (simp add: quoted_def)

text \<open>One entry of an object, whatever white space is in front of it.\<close>

lemma text_parse_object_scalar:
  assumes "\<forall>c \<in> set ws. is_space c" and "clean key" and "clean val"
  shows "text_parse_object obj (ws @ quoted key @ CHR '' '' # quoted val @ r) =
    text_parse_object (obj_assign key (VString val) obj) r"
proof -
  have "skip_ws (CHR '' '' # quoted val @ r) = quoted val @ r"
    using skip_ws_quoted [of "'' ''" val r] by simp
  with assms skip_ws_quoted [OF assms(1)] show ?thesis
    by (subst text_parse_object.simps) simp
qed

lemma text_parse_object_nested:
  assumes "\<forall>c \<in> set ws. is_space c" and "\<forall>c \<in> set ws'. is_space c" and "clean key"
    and "text_parse_object [] r = Inr (inner, r')"
  shows "text_parse_object obj (ws @ quoted key @ ws' @ CHR ''{'' # r) =
    text_parse_object (obj_assign key (VObject inner) obj) r'"
proof -
  have "skip_ws (ws' @ CHR ''{'' # r) = CHR ''{'' # r"
    using assms(2) by (simp add: skip_ws_spaces)
  with assms skip_ws_quoted [OF assms(1)] show ?thesis
    by (subst text_parse_object.simps) (simp add: consume_def [of "CHR ''{'' # r"])
qed

lemma text_parse_object_end:
  assumes "\<forall>c \<in> set ws. is_space c"
  shows "text_parse_object obj (ws @ CHR ''}'' # r) = Inr (obj, r)"
  using assms by (subst text_parse_object.simps) (simp add: skip_ws_spaces consume_def)

lemma text_parse_scalar:
  assumes "\<forall>c \<in> set ws. is_space c" and "clean key" and "clean val"
  shows "text_parse obj (ws @ quoted key @ CHR '' '' # quoted val @ r) =
    text_parse (obj_assign key (VString val) obj) r"
proof -
  have "skip_ws (CHR '' '' # quoted val @ r) = quoted val @ r"
    using skip_ws_quoted [of "'' ''" val r] by simp
  with assms skip_ws_quoted [OF assms(1)] show ?thesis
    by (subst text_parse.simps) simp
qed

lemma text_parse_nested:
  assumes "\<forall>c \<in> set ws. is_space c" and "\<forall>c \<in> set ws'. is_space c" and "clean key"
    and "text_parse_object [] r = Inr (inner, r')"
  shows "text_parse obj (ws @ quoted key @ ws' @ CHR ''{'' # r) =
    text_parse (obj_assign key (VObject inner) obj) r'"
proof -
  have "skip_ws (ws' @ CHR ''{'' # r) = CHR ''{'' # r"
    using assms(2) by (simp add: skip_ws_spaces)
  with assms skip_ws_quoted [OF assms(1)] show ?thesis
    by (subst text_parse.simps)
      (simp add: consume_def [of "CHR ''{'' # r"])
qed

lemma text_parse_end: "\<forall>c \<in> set ws. is_space c \<Longrightarrow> text_parse obj ws = Inr obj"
  by (subst text_parse.simps) (simp add: skip_ws_all)

text \<open>Whole objects: inside braces at some depth, and at the top level.\<close>

definition is_scalar :: "Value \<Rightarrow> bool" where
  "is_scalar v \<longleftrightarrow> (case v of VObject _ \<Rightarrow> False | _ \<Rightarrow> True)"

text \<open>A scalar entry, whatever its alternative, is printed on one line.\<close>

lemma stringify_scalar:
  "is_scalar v \<Longrightarrow> stringify_object ((k, v) # es) n =
     replicate n TAB @ quoted k @ CHR '' '' # quoted (scalar_string v) @ NL # stringify_object es n"
  by (cases v) (simp_all add: is_scalar_def)

lemma as_text_scalar: "is_scalar v \<Longrightarrow> as_text v = VString (scalar_string v)"
  by (cases v) (simp_all add: is_scalar_def)

text \<open>
  The loop inside braces and the loop at the top level read an entry in the same way. Both take
  the text of a list of entries for the entries themselves, provided that the text of each
  inner object, up to its closing brace, is read as that object.
\<close>

definition text_entries :: "Object \<Rightarrow> Object" where
  "text_entries es = map (\<lambda>e. (fst e, as_text (snd e))) es"

definition inner_ok :: "nat \<Rightarrow> Value \<Rightarrow> bool" where
  "inner_ok n v \<longleftrightarrow>
     (\<forall>inner t. v = VObject inner \<longrightarrow>
        text_parse_object [] (NL # stringify_object inner (Suc n) @ replicate n TAB @ CHR ''}'' # t) =
          Inr (text_entries inner, t))"

locale entry_parser =
  fixes F :: "Object \<Rightarrow> string \<Rightarrow> error + 'r"
  assumes scalar: "\<forall>c \<in> set ws. is_space c \<Longrightarrow> clean key \<Longrightarrow> clean val \<Longrightarrow>
      F obj (ws @ quoted key @ CHR '' '' # quoted val @ r) = F (obj_assign key (VString val) obj) r"
    and nested: "\<forall>c \<in> set ws. is_space c \<Longrightarrow> \<forall>c \<in> set ws'. is_space c \<Longrightarrow> clean key \<Longrightarrow>
      text_parse_object [] r = Inr (inner, r') \<Longrightarrow>
      F obj (ws @ quoted key @ ws' @ CHR ''{'' # r) = F (obj_assign key (VObject inner) obj) r'"
begin

lemma entries:
  assumes "\<forall>e \<in> set es. inner_ok n (snd e) \<and> clean (fst e) \<and> clean_value (snd e)"
    and "distinct (map fst es)" and "fst ` set es \<inter> fst ` set obj = {}"
    and "\<forall>c \<in> set ws. is_space c"
  shows "F obj (ws @ stringify_object es n @ t) =
    F (obj @ text_entries es) ((if es = [] then ws else [NL]) @ t)"
  using assms
proof (induction es arbitrary: obj ws)
  case Nil
  then show ?case by (simp add: text_entries_def)
next
  case (Cons e es)
  obtain k v where e: "e = (k, v)" by (cases e)
  let ?obj = "obj @ [(k, as_text v)]"
  have assign: "obj_assign k (as_text v) obj = ?obj"
    using Cons.prems(3) e by (intro obj_assign_new) auto
  have pad: "\<forall>c \<in> set (ws @ replicate n TAB). is_space c" using Cons.prems(4) by auto
  have IH: "F ?obj (NL # stringify_object es n @ t) =
      F (?obj @ text_entries es) (NL # t)"
    using Cons.IH [of ?obj "[NL]"] Cons.prems e by auto
  have "F obj (ws @ stringify_object (e # es) n @ t) = F ?obj (NL # stringify_object es n @ t)"
  proof (cases v)
    case (VObject inner)
    have "text_parse_object [] (NL # stringify_object inner (Suc n) @ replicate n TAB @ CHR ''}'' #
        NL # stringify_object es n @ t) = Inr (text_entries inner, NL # stringify_object es n @ t)"
      using Cons.prems(1) e VObject by (simp add: inner_ok_def)
    from nested [OF pad _ _ this, of "NL # replicate n TAB" k] Cons.prems(1) assign e VObject
    show ?thesis by (simp add: text_entries_def Let_def)
  qed (use scalar [OF pad, of k "scalar_string v"] Cons.prems(1) assign e in
      \<open>simp_all add: stringify_scalar as_text_scalar is_scalar_def\<close>)
  with IH e show ?case by (simp add: text_entries_def)
qed

end

interpretation inner: entry_parser text_parse_object
  by unfold_locales (auto intro: text_parse_object_scalar text_parse_object_nested)

interpretation outer: entry_parser text_parse
  by unfold_locales (auto intro: text_parse_scalar text_parse_nested)

lemma inner_ok_all: "wf_value v \<Longrightarrow> clean_value v \<Longrightarrow> inner_ok n v"
proof (induction v arbitrary: n)
  case (VObject es)
  have "\<forall>e \<in> set es. inner_ok (Suc n) (snd e) \<and> clean (fst e) \<and> clean_value (snd e)"
    using VObject by (auto simp: prod_set_defs)
  then have "text_parse_object [] ([NL] @ stringify_object es (Suc n) @ replicate n TAB @ CHR ''}'' # t) =
      text_parse_object ([] @ text_entries es)
        ((if es = [] then [NL] else [NL]) @ replicate n TAB @ CHR ''}'' # t)" for t
    using VObject.prems by (intro inner.entries) auto
  then show ?case
    using text_parse_object_end [of "NL # replicate n TAB"] by (simp add: inner_ok_def)
qed (simp_all add: inner_ok_def)

lemma parse_text_stringify:
  assumes "wf_value (VObject obj)" and "clean_value (VObject obj)"
  shows "parse_text (stringify obj) = Inr (text_entries obj)"
proof -
  have "text_parse [] ([] @ stringify_object obj 0 @ []) =
      text_parse ([] @ text_entries obj) ((if obj = [] then [] else [NL]) @ [])"
    using assms inner_ok_all by (intro outer.entries) auto
  then show ?thesis
    by (simp add: parse_text_def stringify_def text_parse_end del: outer.entries)
qed

section \<open>Reads past the end\<close>

text \<open>A key at the end of the input, and an object without its closing brace.\<close>

lemma parse_text_key_only:
  assumes "clean key"
  shows "parse_text (quoted key) = Inl (Undefined OutOfBounds)"
proof -
  have "skip_ws [] = []" by (simp add: skip_ws_all)
  then show ?thesis
    using assms parse_string_quoted [of key "[]"] skip_ws_quoted_0 [of key "[]"]
      quoted_not_Nil [of key "[]"]
    unfolding parse_text_def by (subst text_parse.simps) (simp add: consume_def)
qed

lemma text_parse_object_eof: "\<forall>c \<in> set ws. is_space c \<Longrightarrow>
    text_parse_object obj ws = Inl (Undefined OutOfBounds)"
  by (subst text_parse_object.simps) (simp add: skip_ws_all consume_def)

lemma parse_text_unclosed:
  assumes "clean key"
  shows "parse_text (quoted key @ ''{'') = Inl (Undefined OutOfBounds)"
proof -
  have "skip_ws ''{'' = ''{''" using skip_ws_spaces [of "[]" "CHR ''{''" "[]"] by simp
  then show ?thesis
    using assms text_parse_object_eof [of "[]"] unfolding parse_text_def
    by (subst text_parse.simps) (simp add: consume_def [of "''{''"])
qed

end
