(* ===== verification/Vdf_Binary.thy ===== *)
theory Vdf_Binary
  imports Steam_Vdf
begin

text \<open>
  The binary VDF parser (src/utils/vdf/vdf_bin.cpp). The state \<open>(data, size, pos)\<close> of the code
  is represented by the unread bytes: \<open>pos\<close> only grows, never beyond \<open>size\<close>, and every access is
  at or behind it. The parser recurses on what an inner object left unread, so its
  termination rests on the fact that no parse gives back more than it was given.
\<close>

section \<open>Reading\<close>

fun bin_read_cstring :: "byte list \<Rightarrow> error + string \<times> byte list" where
  "bin_read_cstring [] =
     Inl (Exn (RuntimeError ''Unexpected end of buffer while reading cstring''))"
| "bin_read_cstring (b # bs) =
     (if b = 0 then Inr ([], bs)
      else case bin_read_cstring bs of
             Inl e \<Rightarrow> Inl e
           | Inr (s, r) \<Rightarrow> Inr (char_of_byte b # s, r))"

definition bin_read_int32 :: "byte list \<Rightarrow> error + u32 \<times> byte list" where
  "bin_read_int32 bs =
     (if length bs < 4 then Inl (Exn (RuntimeError ''Binary VDF overflow (int32)''))
      else Inr (le_word (take 4 bs), drop 4 bs))"

definition bin_read_uint64 :: "byte list \<Rightarrow> error + u64 \<times> byte list" where
  "bin_read_uint64 bs =
     (if length bs < 8 then Inl (Exn (RuntimeError ''Binary VDF overflow (uint64)''))
      else Inr (le_word (take 8 bs), drop 8 bs))"

definition bin_read_float :: "byte list \<Rightarrow> error + u32 \<times> byte list" where
  "bin_read_float bs =
     (if length bs < 4 then Inl (Exn (RuntimeError ''Binary VDF overflow (float)''))
      else Inr (le_word (take 4 bs), drop 4 bs))"

definition map_fst :: "('a \<Rightarrow> 'b) \<Rightarrow> error + 'a \<times> 'c \<Rightarrow> error + 'b \<times> 'c" where
  "map_fst f m = (case m of Inl e \<Rightarrow> Inl e | Inr (x, r) \<Rightarrow> Inr (f x, r))"

text \<open>The cases of the switch that do not recurse.\<close>

definition bin_scalar :: "byte \<Rightarrow> byte list \<Rightarrow> error + Value \<times> byte list" where
  "bin_scalar type bs =
     (if type = 0x01 then map_fst VString (bin_read_cstring bs)
      else if type = 0x02 then map_fst VInt32 (bin_read_int32 bs)
      else if type = 0x03 then map_fst VFloat (bin_read_float bs)
      else if type = 0x07 then map_fst VUInt64 (bin_read_uint64 bs)
      else Inl (Exn (RuntimeError ''Unknown binary VDF type'')))"

lemma bin_read_cstring_shorter: "bin_read_cstring bs = Inr (s, r) \<Longrightarrow> length r < length bs"
  by (induction bs arbitrary: s) (fastforce split: if_splits sum.splits prod.splits)+

lemma bin_scalar_shorter: "bin_scalar type bs = Inr (v, r) \<Longrightarrow> length r < length bs"
  by (auto simp: bin_scalar_def map_fst_def bin_read_int32_def bin_read_uint64_def
      bin_read_float_def dest: bin_read_cstring_shorter split: if_splits sum.splits)

section \<open>Objects\<close>

function bin_parse_object :: "Object \<Rightarrow> byte list \<Rightarrow> error + Object \<times> byte list" where
  "bin_parse_object obj [] = Inr (obj, [])"
| "bin_parse_object obj (type # bs) =
     (if type = 0x08 then Inr (obj, bs)
      else case bin_read_cstring bs of
        Inl e \<Rightarrow> Inl e
      | Inr (key, r) \<Rightarrow>
          if type = 0x00 then
            (case bin_parse_object [] r of
               Inl e \<Rightarrow> Inl e
             | Inr (inner, r') \<Rightarrow> bin_parse_object (obj_assign key (VObject inner) obj) r')
          else
            (case bin_scalar type r of
               Inl e \<Rightarrow> Inl e
             | Inr (v, r') \<Rightarrow> bin_parse_object (obj_assign key v obj) r'))"
  by pat_completeness auto

lemma bin_parse_object_no_longer:
  "bin_parse_object_dom (obj, bs) \<Longrightarrow> bin_parse_object obj bs = Inr (obj', r) \<Longrightarrow>
     length r \<le> length bs"
proof (induction obj bs arbitrary: obj' r rule: bin_parse_object.pinduct)
  case (1 obj)
  then show ?case by (simp add: bin_parse_object.psimps)
next
  case (2 obj type bs)
  show ?case
  proof (cases "type = 8")
    case True
    with 2 show ?thesis by (auto simp: bin_parse_object.psimps)
  next
    case False
    with 2 obtain key t where k: "bin_read_cstring bs = Inr (key, t)"
      by (auto simp: bin_parse_object.psimps split: sum.splits)
    then have t: "length t < length bs" by (rule bin_read_cstring_shorter)
    show ?thesis
    proof (cases "type = 0")
      case True
      with 2 k False obtain inner t' where i: "bin_parse_object [] t = Inr (inner, t')"
        by (auto simp: bin_parse_object.psimps split: sum.splits)
      have "length t' \<le> length t" using 2 k True i by auto
      moreover have "length r \<le> length t'"
        using 2 k True False i by (auto simp: bin_parse_object.psimps)
      ultimately show ?thesis using t by simp
    next
      case nested: False
      with 2 k False obtain v t' where v: "bin_scalar type t = Inr (v, t')"
        by (auto simp: bin_parse_object.psimps split: sum.splits)
      then have "length t' < length t" by (rule bin_scalar_shorter)
      moreover have "length r \<le> length t'"
        using 2 k nested False v by (auto simp: bin_parse_object.psimps)
      ultimately show ?thesis using t by simp
    qed
  qed
qed

termination bin_parse_object
proof (relation "measure (\<lambda>(_, bs). length bs)")
qed (auto dest!: bin_read_cstring_shorter bin_scalar_shorter bin_parse_object_no_longer)

text \<open>\<open>parse_binary(data, size)\<close> over a buffer of \<open>size\<close> bytes.\<close>

definition parse_binary :: "byte list \<Rightarrow> error + Object" where
  "parse_binary data = (case bin_parse_object [] data of Inl e \<Rightarrow> Inl e | Inr (obj, _) \<Rightarrow> Inr obj)"

section \<open>What the parser accepts\<close>

text \<open>
  The binary form of a tree. The parser has no printer in the program; this one is the
  specification it is checked against: a type byte, the key, the value, and \<open>0x08\<close> at the end
  of an inner object.
\<close>

definition bin_cstring :: "string \<Rightarrow> byte list" where
  "bin_cstring s = map byte_of_char s @ [0]"

fun bin_print :: "Object \<Rightarrow> byte list" where
  "bin_print [] = []"
| "bin_print ((k, VObject obj) # es) =
     0x00 # bin_cstring k @ bin_print obj @ 0x08 # bin_print es"
| "bin_print ((k, VString s) # es) = 0x01 # bin_cstring k @ bin_cstring s @ bin_print es"
| "bin_print ((k, VInt32 i) # es) = 0x02 # bin_cstring k @ le_bytes i @ bin_print es"
| "bin_print ((k, VFloat f) # es) = 0x03 # bin_cstring k @ le_bytes f @ bin_print es"
| "bin_print ((k, VUInt64 i) # es) = 0x07 # bin_cstring k @ le_bytes i @ bin_print es"

definition no_nul :: "string \<Rightarrow> bool" where
  "no_nul s \<longleftrightarrow> (\<forall>c \<in> set s. byte_of_char c \<noteq> 0)"

fun bin_ok :: "Value \<Rightarrow> bool" where
  "bin_ok (VObject obj) \<longleftrightarrow> (\<forall>e \<in> set obj. no_nul (fst e) \<and> bin_ok (snd e))"
| "bin_ok (VString s) \<longleftrightarrow> no_nul s"
| "bin_ok _ \<longleftrightarrow> True"

lemma bin_read_cstring_print [simp]:
  "no_nul s \<Longrightarrow> bin_read_cstring (bin_cstring s @ r) = Inr (s, r)"
  by (induction s) (auto simp: bin_cstring_def no_nul_def)

lemma bin_scalar_print [simp]:
  "no_nul s \<Longrightarrow> bin_scalar 0x01 (bin_cstring s @ r) = Inr (VString s, r)"
  "bin_scalar 0x02 (le_bytes i @ r) = Inr (VInt32 i, r)"
  "bin_scalar 0x03 (le_bytes f @ r) = Inr (VFloat f, r)"
  "bin_scalar 0x07 (le_bytes j @ r) = Inr (VUInt64 j, r)"
  by (simp_all add: bin_scalar_def map_fst_def bin_read_int32_def bin_read_float_def
      bin_read_uint64_def)

text \<open>A tail that ends the object: nothing, or the end byte.\<close>

lemma bin_parse_print:
  assumes "wf_value (VObject es)" and "bin_ok (VObject es)"
    and "fst ` set es \<inter> fst ` set obj = {}"
  shows "bin_parse_object obj (bin_print es @ 0x08 # r) = Inr (obj @ es, r)"
    and "bin_parse_object obj (bin_print es) = Inr (obj @ es, [])"
proof -
  have "bin_parse_object obj (bin_print es @ 0x08 # r) = Inr (obj @ es, r) \<and>
      bin_parse_object obj (bin_print es) = Inr (obj @ es, [])"
    using assms
  proof (induction es arbitrary: obj r rule: bin_print.induct)
    case (2 k inner es)
    from "2.prems" have "bin_parse_object [] (bin_print inner @ 0x08 # t) = Inr (inner, t)" for t
      using "2.IH"(1) [of "[]" t] by simp
    with 2 show ?case by (auto simp: obj_assign_new)
  qed (auto simp: obj_assign_new)
  then show "bin_parse_object obj (bin_print es @ 0x08 # r) = Inr (obj @ es, r)"
    and "bin_parse_object obj (bin_print es) = Inr (obj @ es, [])" by simp_all
qed

text \<open>Whatever the parser builds has distinct keys, and no run ends undefined.\<close>

lemma bin_scalar_wf: "bin_scalar type bs = Inr (v, r) \<Longrightarrow> wf_value v"
  by (auto simp: bin_scalar_def map_fst_def split: if_splits sum.splits)

lemma bin_parse_object_wf:
  "bin_parse_object obj bs = Inr (obj', r) \<Longrightarrow> wf_value (VObject obj) \<Longrightarrow> wf_value (VObject obj')"
proof (induction obj bs arbitrary: obj' r rule: bin_parse_object.induct)
  case (1 obj)
  then show ?case by simp
next
  case (2 obj type bs)
  consider "type = 8" | key t where "type \<noteq> 8" "bin_read_cstring bs = Inr (key, t)"
    using "2.prems"(1) by (auto split: if_splits sum.splits)
  then show ?case
  proof cases
    case 1
    with 2 show ?thesis by auto
  next
    case k: 2
    show ?thesis
    proof (cases "type = 0")
      case True
      with "2.prems"(1) k obtain inner t' where i: "bin_parse_object [] t = Inr (inner, t')"
        by (auto split: sum.splits)
      then have "wf_value (VObject inner)" using "2.IH"(1) k True by simp
      then have "wf_value (VObject (obj_assign key (VObject inner) obj))"
        using "2.prems"(2) by (intro wf_value_assign)
      then show ?thesis using "2.IH"(2) "2.prems"(1) k True i by simp
    next
      case False
      with "2.prems"(1) k obtain v t' where v: "bin_scalar type t = Inr (v, t')"
        by (auto split: sum.splits)
      then have "wf_value (VObject (obj_assign key v obj))"
        using "2.prems"(2) bin_scalar_wf [OF v] by (intro wf_value_assign)
      then show ?thesis using "2.IH"(3) "2.prems"(1) k False v by simp
    qed
  qed
qed

lemma bin_read_cstring_defined: "bin_read_cstring bs \<noteq> Inl (Undefined u)"
  by (induction bs) (auto split: sum.splits)

lemma bin_scalar_defined: "bin_scalar type bs \<noteq> Inl (Undefined u)"
  using bin_read_cstring_defined [of bs u]
  by (auto simp: bin_scalar_def map_fst_def bin_read_int32_def bin_read_uint64_def
      bin_read_float_def split: sum.splits)

lemma bin_parse_object_defined: "bin_parse_object obj bs \<noteq> Inl (Undefined u)"
proof (induction obj bs rule: bin_parse_object.induct)
  case (1 obj)
  then show ?case by simp
next
  case (2 obj type bs)
  then show ?case
    using bin_read_cstring_defined [of bs u] bin_scalar_defined [of type _ u]
    by (auto split: sum.splits prod.splits)
qed

end
