(* ===== verification/Steam_Events.thy ===== *)
theory Steam_Events
  imports Vdf_Text Vdf_Binary
begin

text \<open>
  The events and commands of include/steamclient/events.hpp, the emitter of
  include/steamclient/external/event_emitter.h, and the translation of a product information
  response into an event (src/routing/events/handlers/product_info_handler.cpp).
\<close>

section \<open>Events and commands\<close>

record EventResult =
  success :: bool
  result_message :: string

definition EventResult_ok :: EventResult where
  "EventResult_ok = \<lparr>success = True, result_message = []\<rparr>"

definition EventResult_fail :: "string \<Rightarrow> EventResult" where
  "EventResult_fail msg = \<lparr>success = False, result_message = msg\<rparr>"

record ProductAppInfo =
  app_id :: u32
  app_sha :: string
  app_appinfo :: VDFNode

record ProductPackageInfo =
  pkg_packageid :: u32
  pkg_sha :: string
  pkg_pkginfo :: VDFNode

text \<open>
  The two numbers of a \<open>ClientLogonEvent\<close> are \<open>None\<close> where the inherited constructor
  \<open>ResultEvent(EventResult)\<close> leaves them uninitialized.
\<close>

datatype 'h Event =
    ChannelSecuredEvent EventResult
  | ClientLogonEvent EventResult "u64 option" "u32 option"
  | MsgNotImplementedEvent u32 "'h IPacketMsg"
  | ProductInfoResult "ProductAppInfo list" "ProductPackageInfo list"

definition ClientLogonEvent_of_result :: "EventResult \<Rightarrow> 'h Event" where
  "ClientLogonEvent_of_result r = ClientLogonEvent r None None"

datatype EventType =
    ChannelSecured_type | ClientLogon_type | MsgNotImplemented_type | ProductInfoResult_type

fun event_type :: "'h Event \<Rightarrow> EventType" where
  "event_type (ChannelSecuredEvent _) = ChannelSecured_type"
| "event_type (ClientLogonEvent _ _ _) = ClientLogon_type"
| "event_type (MsgNotImplementedEvent _ _) = MsgNotImplemented_type"
| "event_type (ProductInfoResult _ _) = ProductInfoResult_type"

record GetProductInfo =
  req_id :: u32
  req_steamid :: u64
  req_client_sessionid :: u32
  req_app_token :: u64

definition GetProductInfo_make :: "u32 \<Rightarrow> u64 \<Rightarrow> u32 \<Rightarrow> GetProductInfo" where
  "GetProductInfo_make i s_id c_sid =
     \<lparr>req_id = i, req_steamid = s_id, req_client_sessionid = c_sid, req_app_token = 0\<rparr>"

datatype Command = AnonymousLogin | ClientLogoff | ProductInfoCommand GetProductInfo

section \<open>The emitter\<close>

text \<open>
  A listener is a token \<open>'k\<close>; \<open>call\<close> says what its callback does to the world \<open>'w\<close> (a callback
  may use the client itself). An exception of the callback is swallowed.
\<close>

type_synonym 'k listeners = "EventType \<Rightarrow> 'k option"

definition no_listeners :: "'k listeners" where
  "no_listeners = (\<lambda>_. None)"

definition EventEmitter_on :: "EventType \<Rightarrow> 'k \<Rightarrow> 'k listeners \<Rightarrow> 'k listeners" where
  "EventEmitter_on type callback ls = ls(type \<mapsto> callback)"

definition EventEmitter_find :: "'k listeners \<Rightarrow> EventType \<Rightarrow> 'k option" where
  "EventEmitter_find ls type = ls type"

definition Listener_emit :: "('w \<Rightarrow> (error + unit) \<times> 'w) \<Rightarrow> 'w \<Rightarrow> (error + unit) \<times> 'w" where
  "Listener_emit callback w =
     (case callback w of
        (Inl (Exn _), w') \<Rightarrow> (Inr (), w')
      | (r, w') \<Rightarrow> (r, w'))"

definition EventEmitter_emit ::
    "('k \<Rightarrow> 'h Event \<Rightarrow> 'w \<Rightarrow> (error + unit) \<times> 'w) \<Rightarrow> 'k listeners \<Rightarrow> 'h Event \<Rightarrow> 'w \<Rightarrow>
       (error + unit) \<times> 'w" where
  "EventEmitter_emit call ls ev w =
     (case EventEmitter_find ls (event_type ev) of
        None \<Rightarrow> (Inr (), w)
      | Some k \<Rightarrow> Listener_emit (call k ev) w)"

interpretation emitter: registry EventEmitter_on EventEmitter_find "\<lambda>_ _. True"
  by unfold_locales (simp_all add: EventEmitter_on_def EventEmitter_find_def)

lemma emit_no_exception: "fst (EventEmitter_emit call ls ev w) \<noteq> Inl (Exn x)"
  by (auto simp: EventEmitter_emit_def Listener_emit_def
      split: option.splits prod.splits sum.splits error.splits)

lemma emit_unheard:
  "EventEmitter_find ls (event_type ev) = None \<Longrightarrow> EventEmitter_emit call ls ev w = (Inr (), w)"
  by (simp add: EventEmitter_emit_def)

text \<open>A registration is heard at once, replaces the one before, and leaves other types alone.\<close>

lemma emit_on:
  "EventEmitter_emit call (EventEmitter_on t k ls) ev w =
     (if event_type ev = t then Listener_emit (call k ev) w else EventEmitter_emit call ls ev w)"
  by (simp add: EventEmitter_emit_def emitter.look_put)

section \<open>Product information\<close>

definition hex_digits :: string where
  "hex_digits = ''0123456789abcdef''"

definition hexlify :: "byte list \<Rightarrow> string" where
  "hexlify bs =
     concat (map (\<lambda>b. [hex_digits ! unat (drop_bit 4 b), hex_digits ! unat (b AND 0xF)]) bs)"

text \<open>The fields of the response messages that are read.\<close>

record PICS_AppInfo =
  ai_appid :: u32
  ai_sha :: "byte list"
  ai_buffer :: "byte list"

record PICS_PackageInfo =
  pi_packageid :: u32
  pi_sha :: "byte list"
  pi_buffer :: "byte list"

record CMsgClientPICSProductInfoResponse =
  resp_apps :: "PICS_AppInfo list"
  resp_packages :: "PICS_PackageInfo list"

definition parse_app :: "PICS_AppInfo \<Rightarrow> error + ProductAppInfo" where
  "parse_app app =
     (let buf = ai_buffer app;
          buf = (if buf \<noteq> [] then butlast buf else buf)
      in bindE (parse_text (map char_of_byte buf)) (\<lambda>vdf.
         bindE (as_object (fst (obj_index ''appinfo'' vdf))) (\<lambda>obj.
         Inr \<lparr>app_id = ai_appid app, app_sha = hexlify (ai_sha app), app_appinfo = VObject obj\<rparr>)))"

text \<open>
  The first four bytes are skipped without a look at the size: a shorter buffer makes
  \<open>buffer.size() - 4\<close> wrap to almost \<open>2 ^ 64\<close> and \<open>buffer.data() + 4\<close> point outside.
\<close>

definition parse_pkg :: "PICS_PackageInfo \<Rightarrow> error + ProductPackageInfo" where
  "parse_pkg pkg =
     (let buf = pi_buffer pkg in
      if length buf < 4 then Inl (Undefined OutOfBounds)
      else
        bindE (parse_binary (drop 4 buf)) (\<lambda>vdf.
        bindE (as_object (fst (obj_index (dec_string (unat (pi_packageid pkg))) vdf))) (\<lambda>obj.
        Inr \<lparr>pkg_packageid = pi_packageid pkg, pkg_sha = hexlify (pi_sha pkg),
          pkg_pkginfo = VObject obj\<rparr>)))"

definition product_info_event :: "CMsgClientPICSProductInfoResponse \<Rightarrow> error + 'h Event" where
  "product_info_event body =
     bindE (mapE parse_app (resp_apps body)) (\<lambda>apps.
     bindE (mapE parse_pkg (resp_packages body)) (\<lambda>packages.
     Inr (ProductInfoResult apps packages)))"

lemma length_hexlify [simp]: "length (hexlify bs) = 2 * length bs"
  by (induction bs) (simp_all add: hexlify_def)

lemma hex_digits_inject: "i < 16 \<Longrightarrow> j < 16 \<Longrightarrow> hex_digits ! i = hex_digits ! j \<longleftrightarrow> i = j"
  using nth_eq_iff_index_eq [of hex_digits i j] by (simp add: hex_digits_def)

lemma nibbles: "b = push_bit 4 (drop_bit 4 b) OR (b AND 0xF)" for b :: byte
proof (rule bit_word_eqI)
  have m: "(0xF :: byte) = mask 4" by (simp add: mask_eq_exp_minus_1)
  show "bit b n = bit (push_bit 4 (drop_bit 4 b) OR (b AND 0xF)) n" if "n < LENGTH(8)" for n
    unfolding m using that by (auto simp: bit_simps)
qed

lemma nibble_less: "unat (drop_bit 4 b) < 16" "unat (b AND 0xF) < 16" for b :: byte
proof -
  have "unat b < 256" using unsigned_less [of b, where 'a = nat] by simp
  moreover have "unat (drop_bit 4 b) = drop_bit 4 (unat b)" by (rule unat_drop_bit_eq)
  ultimately show "unat (drop_bit 4 b) < 16" by (simp only: drop_bit_eq_div) simp
  have "b AND 0xF \<le> 0xF" by (rule word_and_le1)
  then show "unat (b AND 0xF) < 16" by (simp add: word_le_nat_alt)
qed

lemma hexlify_inject: "hexlify xs = hexlify ys \<longleftrightarrow> xs = ys"
proof
  show "hexlify xs = hexlify ys \<Longrightarrow> xs = ys"
  proof (induction xs arbitrary: ys)
    case Nil
    then show ?case by (cases ys) (simp_all add: hexlify_def)
  next
    case (Cons x xs)
    then obtain y zs where ys: "ys = y # zs" by (cases ys) (simp_all add: hexlify_def)
    with Cons.prems have "hexlify xs = hexlify zs" "unat (drop_bit 4 x) = unat (drop_bit 4 y)"
        "unat (x AND 0xF) = unat (y AND 0xF)"
      by (simp_all add: hexlify_def hex_digits_inject nibble_less)
    then have "hexlify xs = hexlify zs" "drop_bit 4 x = drop_bit 4 y" "x AND 0xF = y AND 0xF"
      by (simp_all only: word_eq_iff_unsigned [where 'a = nat, symmetric])
    with Cons.IH nibbles [of x] nibbles [of y] show ?case by (simp add: ys)
  qed
qed simp

text \<open>An app whose buffer is the text of an object \<open>appinfo\<close>, with the server's final zero.\<close>

lemma parse_app_text:
  assumes "wf_value (VObject obj)" and "clean_value (VObject obj)"
    and "ai_buffer app = map byte_of_char (stringify [(''appinfo'', VObject obj)]) @ [0]"
  shows "parse_app app = Inr \<lparr>app_id = ai_appid app, app_sha = hexlify (ai_sha app),
    app_appinfo = VObject (text_entries obj)\<rparr>"
proof -
  have "clean ''appinfo''" by (simp add: clean_def text_chars)
  then have "parse_text (stringify [(''appinfo'', VObject obj)]) =
      Inr [(''appinfo'', VObject (text_entries obj))]"
    using parse_text_stringify [of "[(''appinfo'', VObject obj)]"] assms(1,2)
    by (simp add: text_entries_def)
  then show ?thesis
    using assms(3) by (simp add: parse_app_def o_def obj_index_def obj_find_def as_object_def)
qed

lemma no_nul_digits: "no_nul (dec_string n)"
proof -
  have "byte_of_char c \<noteq> 0" if "is_digit c" for c
  proof
    assume "byte_of_char c = 0"
    then have "c = char_of_byte 0" by (metis char_of_byte_of_char)
    with that show False by (simp add: is_digit_def char_of_byte_def)
  qed
  with dec_string_digits [of n] show ?thesis by (auto simp: no_nul_def)
qed

lemma parse_pkg_binary:
  assumes "wf_value (VObject obj)" and "bin_ok (VObject obj)" and "length pre = 4"
    and "pi_buffer pkg = pre @ bin_print [(dec_string (unat (pi_packageid pkg)), VObject obj)]"
  shows "parse_pkg pkg = Inr \<lparr>pkg_packageid = pi_packageid pkg, pkg_sha = hexlify (pi_sha pkg),
    pkg_pkginfo = VObject obj\<rparr>"
proof -
  let ?es = "[(dec_string (unat (pi_packageid pkg)), VObject obj)]"
  have "bin_parse_object [] (bin_print ?es) = Inr (?es, [])"
    using bin_parse_print(2) [of ?es "[]"] assms(1,2) no_nul_digits by simp
  then show ?thesis
    using assms(3,4)
    by (simp add: parse_pkg_def parse_binary_def obj_index_def obj_find_def as_object_def
        del: bin_print.simps)
qed

text \<open>A response with one part that cannot be parsed gives no event at all.\<close>

lemma product_info_event_error:
  assumes "\<forall>a \<in> set as. \<exists>i. parse_app a = Inr i" and "parse_app bad = Inl e"
    and "resp_apps body = as @ bad # bs"
  shows "product_info_event body = Inl e"
proof -
  have "mapE parse_app (as @ bad # bs) = Inl e"
    using assms(1,2) by (intro mapE_first_error [where g = "\<lambda>a. projr (parse_app a)"]) force+
  then show ?thesis using assms(3) by (simp add: product_info_event_def)
qed

end
