(* ===== verification/Steam_Dispatch.thy ===== *)
theory Steam_Dispatch
  imports Msg_Utils
begin

text \<open>
  The routing tables: \<open>DispatchTable\<close> with its registrations
  (include/steamclient/routing/events/table.hpp, register.hpp, the lookups of
  src/routing/events/dispatcher.cpp) and \<open>RequestRouter\<close> with the numbering of request types
  (include/steamclient/routing/commands/router.hpp, register.hpp). A function pointer is a name
  \<open>'f\<close>, the null pointer is \<open>None\<close>. \<open>operator[]\<close> of \<open>std::array\<close> is not checked.
\<close>

definition array_get :: "'a list \<Rightarrow> nat \<Rightarrow> error + 'a" where
  "array_get a i = (if i < length a then Inr (a ! i) else Inl (Undefined OutOfBounds))"

lemma array_get_Inr: "i < length a \<Longrightarrow> array_get a i = Inr (a ! i)"
  by (simp add: array_get_def)

section \<open>Messages\<close>

definition MAX_EMSG :: nat where
  "MAX_EMSG = 12301"

record ('p, 'm) DispatchTable =
  proto_table :: "'p option list"
  msg_table :: "'m option list"

definition DispatchTable_new :: "('p, 'm) DispatchTable" where
  "DispatchTable_new =
     \<lparr>proto_table = replicate MAX_EMSG None, msg_table = replicate MAX_EMSG None\<rparr>"

definition ProtoRegister :: "u32 \<Rightarrow> 'p \<Rightarrow> ('p, 'm) DispatchTable \<Rightarrow> ('p, 'm) DispatchTable" where
  "ProtoRegister m fn t = t\<lparr>proto_table := (proto_table t)[unat m := Some fn]\<rparr>"

definition MsgRegister :: "u32 \<Rightarrow> 'm \<Rightarrow> ('p, 'm) DispatchTable \<Rightarrow> ('p, 'm) DispatchTable" where
  "MsgRegister m fn t = t\<lparr>msg_table := (msg_table t)[unat m := Some fn]\<rparr>"

text \<open>What the dispatchers do for an id: nothing, call a handler, or report the message.\<close>

datatype 'f route = Ignored | Call 'f | NotImplemented

definition route_id :: "'f option list \<Rightarrow> u32 \<Rightarrow> error + 'f route" where
  "route_id table m =
     (if unat m \<le> MAX_EMSG then
        (case array_get table (unat m) of
           Inl e \<Rightarrow> Inl e
         | Inr fn \<Rightarrow> Inr (case fn of Some f \<Rightarrow> Call f | None \<Rightarrow> NotImplemented))
      else Inr Ignored)"

definition route_proto :: "('p, 'm) DispatchTable \<Rightarrow> u32 \<Rightarrow> error + 'p route" where
  "route_proto t m = route_id (proto_table t) (get_msg m)"

definition route_msg :: "('p, 'm) DispatchTable \<Rightarrow> u32 \<Rightarrow> error + 'm route" where
  "route_msg t m = route_id (msg_table t) m"

text \<open>The two arrays as registries.\<close>

definition slot :: "'f option list \<Rightarrow> u32 \<Rightarrow> 'f option" where
  "slot table m = (if unat m < length table then table ! unat m else None)"

lemma slot_update:
  "unat m < length table \<Longrightarrow> slot (table[unat m := Some f]) m' = (if m' = m then Some f else slot table m')"
  by (auto simp: slot_def nth_list_update word_unat_eq_iff)

interpretation proto_registry: registry ProtoRegister "\<lambda>t. slot (proto_table t)"
    "\<lambda>t m. unat m < length (proto_table t)"
  by unfold_locales (auto simp: ProtoRegister_def slot_update)

interpretation msg_registry: registry MsgRegister "\<lambda>t. slot (msg_table t)"
    "\<lambda>t m. unat m < length (msg_table t)"
  by unfold_locales (auto simp: MsgRegister_def slot_update)

definition table_ok :: "('p, 'm) DispatchTable \<Rightarrow> bool" where
  "table_ok t \<longleftrightarrow> length (proto_table t) = MAX_EMSG \<and> length (msg_table t) = MAX_EMSG"

lemma table_ok_new: "table_ok DispatchTable_new"
  by (simp add: table_ok_def DispatchTable_new_def)

lemma put_all_keeps: "(\<And>k v t. f (put k v t) = f t) \<Longrightarrow> f (put_all put kvs t) = f t"
proof (induction kvs arbitrary: t)
  case (Cons kv kvs)
  then show ?case by (cases kv) simp
qed simp

lemma table_ok_put:
  "table_ok (put_all ProtoRegister ps t) = table_ok t"
  "table_ok (put_all MsgRegister ms t) = table_ok t"
  by (rule put_all_keeps, simp add: table_ok_def ProtoRegister_def MsgRegister_def)+

lemma separate_tables:
  "proto_table (put_all MsgRegister ms t) = proto_table t"
  "msg_table (put_all ProtoRegister ps t) = msg_table t"
  by (rule put_all_keeps, simp add: ProtoRegister_def MsgRegister_def)+

lemma route_id_inside:
  "length table = MAX_EMSG \<Longrightarrow> unat m < MAX_EMSG \<Longrightarrow>
     route_id table m = Inr (case slot table m of Some f \<Rightarrow> Call f | None \<Rightarrow> NotImplemented)"
  by (simp add: route_id_def array_get_def slot_def)

lemma route_id_above: "MAX_EMSG < unat m \<Longrightarrow> route_id table m = Inr Ignored"
  by (simp add: route_id_def)

text \<open>The guard lets the first number behind the array through.\<close>

lemma route_id_edge:
  "length table = MAX_EMSG \<Longrightarrow> unat m = MAX_EMSG \<Longrightarrow> route_id table m = Inl (Undefined OutOfBounds)"
  by (simp add: route_id_def array_get_def)

lemma route_id_undefined_iff:
  "length table = MAX_EMSG \<Longrightarrow> route_id table m = Inl e \<longleftrightarrow>
     unat m = MAX_EMSG \<and> e = Undefined OutOfBounds"
  by (auto simp: route_id_def array_get_def split: if_splits)

section \<open>Requests\<close>

definition MAX_REQUESTS :: nat where
  "MAX_REQUESTS = 512"

text \<open>
  \<open>request_id<T>\<close> numbers the types in the order of their first use, whether by a registration
  or by \<open>execute\<close>.
\<close>

record ('q, 'f) RequestRouter =
  assigned :: "('q \<times> nat) list"
  next_id :: nat
  request_table :: "'f option list"

definition RequestRouter_new :: "('q, 'f) RequestRouter" where
  "RequestRouter_new =
     \<lparr>assigned = [], next_id = 0, request_table = replicate MAX_REQUESTS None\<rparr>"

definition next_request_id :: "('q, 'f) RequestRouter \<Rightarrow> nat \<times> ('q, 'f) RequestRouter" where
  "next_request_id r = (next_id r, r\<lparr>next_id := sz_add (next_id r) 1\<rparr>)"

definition request_id :: "'q \<Rightarrow> ('q, 'f) RequestRouter \<Rightarrow> nat \<times> ('q, 'f) RequestRouter" where
  "request_id q r =
     (case map_of (assigned r) q of
        Some i \<Rightarrow> (i, r)
      | None \<Rightarrow> (let (i, r) = next_request_id r in (i, r\<lparr>assigned := (q, i) # assigned r\<rparr>)))"

definition RequestRegister :: "'q \<Rightarrow> 'f \<Rightarrow> ('q, 'f) RequestRouter \<Rightarrow> ('q, 'f) RequestRouter" where
  "RequestRegister q fn r =
     (let (i, r) = request_id q r in r\<lparr>request_table := (request_table r)[i := Some fn]\<rparr>)"

definition route_request :: "'q \<Rightarrow> ('q, 'f) RequestRouter \<Rightarrow> (error + 'f option) \<times> ('q, 'f) RequestRouter" where
  "route_request q r = (let (i, r) = request_id q r in (array_get (request_table r) i, r))"

definition router_ok :: "('q, 'f) RequestRouter \<Rightarrow> bool" where
  "router_ok r \<longleftrightarrow>
     distinct (map fst (assigned r)) \<and> distinct (map snd (assigned r)) \<and>
     (\<forall>(q, i) \<in> set (assigned r). i < next_id r) \<and> next_id r \<le> MAX_REQUESTS \<and>
     length (request_table r) = MAX_REQUESTS \<and>
     (\<forall>i < MAX_REQUESTS. next_id r \<le> i \<longrightarrow> request_table r ! i = None)"

lemma router_ok_new: "router_ok RequestRouter_new"
  by (simp add: router_ok_def RequestRouter_new_def)

lemma request_id_ok:
  assumes "router_ok r" and "next_id r < MAX_REQUESTS" and "request_id q r = (i, r')"
  shows "router_ok r' \<and> map_of (assigned r') q = Some i \<and> i < MAX_REQUESTS \<and>
    request_table r' = request_table r \<and>
    (\<forall>q'. q' \<noteq> q \<longrightarrow> map_of (assigned r') q' = map_of (assigned r) q')"
proof (cases "map_of (assigned r) q")
  case (Some j)
  then have "i = j" "r' = r" using assms(3) by (simp_all add: request_id_def)
  moreover have "(q, j) \<in> set (assigned r)" using Some by (rule map_of_SomeD)
  ultimately show ?thesis using assms(1) Some by (auto simp: router_ok_def)
next
  case None
  then have i: "i = next_id r"
    and r': "r' = r\<lparr>next_id := Suc (next_id r), assigned := (q, next_id r) # assigned r\<rparr>"
    using assms(2,3) by (auto simp: request_id_def next_request_id_def sz_add_def MAX_REQUESTS_def)
  have "q \<notin> fst ` set (assigned r)" using None by (simp add: map_of_eq_None_iff)
  moreover have "next_id r \<notin> snd ` set (assigned r)" using assms(1) by (auto simp: router_ok_def)
  ultimately show ?thesis using assms(1,2) i r' by (auto simp: router_ok_def)
qed

text \<open>A registered request is routed to its function; registrations of other types do not matter.\<close>

lemma register_route:
  assumes "router_ok r" and "next_id r < MAX_REQUESTS"
  shows "router_ok (RequestRegister q fn r) \<and> fst (route_request q (RequestRegister q fn r)) = Inr (Some fn)"
proof -
  obtain i r' where r': "request_id q r = (i, r')" by fastforce
  note ok = request_id_ok [OF assms this]
  let ?r = "r'\<lparr>request_table := (request_table r')[i := Some fn]\<rparr>"
  have reg: "RequestRegister q fn r = ?r" by (simp add: RequestRegister_def r')
  have "i < next_id r'" using ok by (auto simp: router_ok_def dest!: map_of_SomeD)
  then have "router_ok ?r" using ok by (auto simp: router_ok_def nth_list_update)
  moreover have "route_request q ?r = (array_get (request_table ?r) i, ?r)"
    using ok by (simp add: route_request_def request_id_def)
  ultimately show ?thesis using ok by (simp add: reg array_get_def router_ok_def)
qed

lemma register_other:
  assumes "router_ok r" and "next_id r < MAX_REQUESTS" and "q' \<noteq> q"
    and "map_of (assigned r) q' = Some j"
  shows "fst (route_request q' (RequestRegister q fn r)) = fst (route_request q' r)"
proof -
  obtain i r' where r': "request_id q r = (i, r')" by fastforce
  note ok = request_id_ok [OF assms(1,2) this]
  have a: "map_of (assigned r') q = Some i" "map_of (assigned r') q' = Some j"
    using ok assms(3,4) by auto
  have "distinct (map snd (assigned r'))" using ok by (simp add: router_ok_def)
  then have "i \<noteq> j" using a assms(3) by (metis distinct_map inj_on_def map_of_SomeD prod.inject snd_conv)
  let ?r = "r'\<lparr>request_table := (request_table r')[i := Some fn]\<rparr>"
  have "RequestRegister q fn r = ?r" by (simp add: RequestRegister_def r')
  moreover have "request_id q' ?r = (j, ?r)" and "request_id q' r = (j, r)"
    using a assms(4) by (simp_all add: request_id_def)
  ultimately show ?thesis
    using \<open>i \<noteq> j\<close> ok by (simp add: route_request_def array_get_def)
qed

text \<open>A request type that nobody registered is dropped.\<close>

lemma route_unregistered:
  assumes "router_ok r" and "next_id r < MAX_REQUESTS" and "map_of (assigned r) q = None"
  shows "fst (route_request q r) = Inr None"
  using assms
  by (auto simp: route_request_def request_id_def next_request_id_def router_ok_def array_get_def)

end
