(* ===== verification/Ctl_Json.thy ===== *)
theory Ctl_Json
  imports Runtime_Err "HOL-Library.AList"
begin

text \<open>
  The JSON parser behind the server list: \<open>ctl::json\<close>, which is \<open>jsonnode<char, utf8tag>\<close> of
  include/steamclient/external/ctljson.hpp. The parser's \<open>(begin, end)\<close> is represented by the
  unread characters: \<open>begin\<close> only grows. The one place where it passes \<open>end\<close> is the escape
  \<open>\u\<close> with fewer than four characters behind it, and what follows there is undefined. The map of
  an object and the list of its keys in the order of insertion are one association list, which
  Json_Object implements; the \<open>double\<close> that is kept beside the text of a number, which none of these
  operations reads, is added in Json_Stored.
\<close>

section \<open>Nodes\<close>

datatype json =
    JArray "json list"
  | JObject "(string \<times> json) list"
  | JNumber string
  | JString string
  | JBool bool
  | JNull
  | JUnassigned
  | JFallback

text \<open>The codes of \<open>json_error\<close>, and an error: its code and the position.\<close>

definition ec_no_error :: nat where "ec_no_error = 0"
definition ec_array :: nat where "ec_array = 2"
definition ec_object :: nat where "ec_object = 3"
definition ec_object_name :: nat where "ec_object_name = 4"
definition ec_no_colon :: nat where "ec_no_colon = 5"
definition ec_string :: nat where "ec_string = 7"
definition ec_literal :: nat where "ec_literal = 8"
definition ec_number :: nat where "ec_number = 9"

lemmas json_codes = ec_no_error_def ec_array_def ec_object_def ec_object_name_def ec_no_colon_def
  ec_string_def ec_literal_def ec_number_def

record json_error =
  code_ :: nat
  pos_ :: nat

section \<open>Strings\<close>

definition json_space :: "char \<Rightarrow> bool" where
  "json_space c \<longleftrightarrow> (let n = of_char c :: nat in n = 0x20 \<or> n = 0x09 \<or> n = 0x0A \<or> n = 0x0D)"

definition skip_spaces :: "string \<Rightarrow> string" where
  "skip_spaces s = dropWhile json_space s"

definition DQUOTE :: char where "DQUOTE = CHR 0x22"
definition BSLASH :: char where "BSLASH = CHR 0x5C"

lemmas json_chars = DQUOTE_def BSLASH_def

text \<open>The escapes of one letter.\<close>

definition json_escape :: "char \<Rightarrow> char option" where
  "json_escape n =
     (if n = DQUOTE \<or> n = BSLASH \<or> n = CHR ''/'' then Some n
      else if n = CHR ''b'' then Some (CHR 0x08)
      else if n = CHR ''f'' then Some (CHR 0x0C)
      else if n = CHR ''n'' then Some (CHR 0x0A)
      else if n = CHR ''r'' then Some (CHR 0x0D)
      else if n = CHR ''t'' then Some (CHR 0x09)
      else None)"

definition hex_value :: "char \<Rightarrow> nat option" where
  "hex_value c =
     (let b = of_char c :: nat in
      if 0x30 \<le> b \<and> b \<le> 0x39 then Some (b - 0x30)
      else if (0x61 \<le> b \<and> b \<le> 0x66) then Some (b - 0x61 + 10)
      else if (0x41 \<le> b \<and> b \<le> 0x46) then Some (b - 0x41 + 10)
      else None)"

text \<open>
  \<open>parse_4hexdigits_\<close> stops at a character that is no digit, in front of which \<open>begin\<close> stays, or
  when the input ends; in that case too it gives the value of the digits it has seen, and the
  caller steps over the end.
\<close>

datatype hex4 = HexDigits nat | HexStop nat | HexEnd

fun parse_hexdigits :: "nat \<Rightarrow> nat \<Rightarrow> nat \<Rightarrow> string \<Rightarrow> hex4" where
  "parse_hexdigits 0 seen ucp s = HexDigits ucp"
| "parse_hexdigits (Suc n) seen ucp [] = HexEnd"
| "parse_hexdigits (Suc n) seen ucp (c # cs) =
     (case hex_value c of
        Some d \<Rightarrow> parse_hexdigits n (Suc seen) (16 * ucp + d) cs
      | None \<Rightarrow> HexStop seen)"

definition parse_4hexdigits :: "string \<Rightarrow> hex4" where
  "parse_4hexdigits s = parse_hexdigits 4 0 0 s"

definition chr :: "nat \<Rightarrow> char" where
  "chr n = char_of (n mod 256)"

text \<open>The bytes that a number below \<open>0x10000\<close> is appended as.\<close>

definition utf8_bytes :: "nat \<Rightarrow> string" where
  "utf8_bytes ucp =
     (if ucp < 0x80 then [chr ucp]
      else if ucp < 0x800 then [chr ((ucp div 64) mod 32 + 0xC0), chr (ucp mod 64 + 0x80)]
      else [chr ((ucp div 4096) mod 16 + 0xE0), chr ((ucp div 64) mod 64 + 0x80), chr (ucp mod 64 + 0x80)])"

definition high_surrogate :: "nat \<Rightarrow> bool" where
  "high_surrogate ucp \<longleftrightarrow> 0xD800 \<le> ucp \<and> ucp < 0xDC00"

definition low_surrogate :: "nat \<Rightarrow> bool" where
  "low_surrogate ucp \<longleftrightarrow> 0xDC00 \<le> ucp \<and> ucp \<le> 0xDFFF"

text \<open>
  The second half of a surrogate pair rewrites the last three bytes of what was appended so far
  and adds a fourth.
\<close>

definition join_surrogates :: "nat \<Rightarrow> nat \<Rightarrow> string \<Rightarrow> string" where
  "join_surrogates prev ucp str =
     (let u = prev mod 1024 * 1024 + ucp mod 1024 + 0x10000 in
      take (length str - 3) str @
        [chr ((u div 2 ^ 18) mod 8 + 0xF0), chr ((u div 2 ^ 12) mod 64 + 0x80),
         chr ((u div 2 ^ 6) mod 64 + 0x80), chr (u mod 64 + 0x80)])"

text \<open>
  \<open>parse_string_\<close>: \<open>str\<close> is what was appended, \<open>raw\<close> the text between \<open>prevbegin\<close> and \<open>begin\<close> that
  is still to be appended, \<open>prev\<close> the first half of a surrogate pair or 0. The result is the string
  (\<open>None\<close> where the closing quote is missing) and the unread rest.
\<close>

function parse_string_loop :: "string \<Rightarrow> string \<Rightarrow> nat \<Rightarrow> string \<Rightarrow> error + string option \<times> string" where
  "parse_string_loop str raw prev [] = Inr (None, [])"
| "parse_string_loop str raw prev (c # cs) =
     (if c = DQUOTE then Inr (Some (str @ raw), skip_spaces cs)
      else if c = BSLASH then
        (case cs of
           [] \<Rightarrow> Inr (None, [])
         | n # rest \<Rightarrow>
             (case json_escape n of
                Some e \<Rightarrow> parse_string_loop (str @ raw @ [e]) [] 0 rest
              | None \<Rightarrow>
                  if n = CHR ''u'' then
                    (case parse_4hexdigits rest of
                       HexEnd \<Rightarrow> Inl (Undefined OutOfBounds)
                     | HexStop k \<Rightarrow> parse_string_loop str (raw @ [c, n] @ take k rest) 0 (drop k rest)
                     | HexDigits ucp \<Rightarrow>
                         if prev \<noteq> 0 \<and> low_surrogate ucp
                         then parse_string_loop (join_surrogates prev ucp str) [] 0 (drop 4 rest)
                         else parse_string_loop (str @ raw @ utf8_bytes ucp) []
                           (if high_surrogate ucp then ucp else 0) (drop 4 rest))
                  else parse_string_loop str (raw @ [c, n]) 0 rest))
      else parse_string_loop str (raw @ [c]) prev cs)"
  by pat_completeness auto
termination parse_string_loop
  by (relation "measure (\<lambda>(_, _, _, s). length s)") auto

declare parse_string_loop.simps [simp del]

definition json_string :: "string \<Rightarrow> error + string option \<times> string" where
  "json_string s = parse_string_loop [] [] 0 s"

section \<open>Numbers and literals\<close>

text \<open>Match the letters behind the first one; the rest starts where they differ.\<close>

fun match_letters :: "string \<Rightarrow> string \<Rightarrow> bool \<times> string" where
  "match_letters [] s = (True, s)"
| "match_letters (w # ws) [] = (False, [])"
| "match_letters (w # ws) (c # cs) = (if c = w then match_letters ws cs else (False, c # cs))"

definition json_literal :: "string \<Rightarrow> json \<Rightarrow> string \<Rightarrow> nat \<times> json \<times> string" where
  "json_literal letters v s =
     (case match_letters letters s of
        (True, r) \<Rightarrow> (0, v, r)
      | (False, r) \<Rightarrow> (ec_literal, JUnassigned, r))"

text \<open>A run of digits that must not be empty.\<close>

definition some_digits :: "string \<Rightarrow> bool \<times> string" where
  "some_digits s =
     (case s of
        [] \<Rightarrow> (False, [])
      | c # _ \<Rightarrow> if is_digit c then (True, dropWhile is_digit s) else (False, s))"

definition json_fraction :: "string \<Rightarrow> bool \<times> string" where
  "json_fraction s =
     (case s of [] \<Rightarrow> (True, []) | c # cs \<Rightarrow> if c = CHR ''.'' then some_digits cs else (True, s))"

definition json_exponent :: "string \<Rightarrow> bool \<times> string" where
  "json_exponent s =
     (case s of
        [] \<Rightarrow> (True, [])
      | c # cs \<Rightarrow>
          if c = CHR ''e'' \<or> c = CHR ''E'' then
            (case cs of
               [] \<Rightarrow> (False, [])
             | d # ds \<Rightarrow> if d = CHR ''+'' \<or> d = CHR ''-'' then some_digits ds else some_digits cs)
          else (True, s))"

text \<open>
  A number. Behind a minus sign that ends the input no code is set: the parse succeeds and
  leaves the node unassigned.
\<close>

definition json_number :: "string \<Rightarrow> nat \<times> json \<times> string" where
  "json_number s =
     (let neg = (take 1 s = ''-''); s1 = (if neg then tl s else s) in
      case s1 of
        [] \<Rightarrow> (0, JUnassigned, [])
      | c # cs \<Rightarrow>
          if \<not> is_digit c then (if neg then ec_number else ec_literal, JUnassigned, s1)
          else
            (let s2 = (if c = CHR ''0'' then cs else dropWhile is_digit s1) in
             case json_fraction s2 of
               (False, r) \<Rightarrow> (ec_number, JUnassigned, r)
             | (True, s3) \<Rightarrow>
                 (case json_exponent s3 of
                    (False, r) \<Rightarrow> (ec_number, JUnassigned, r)
                  | (True, s4) \<Rightarrow> (0, JNumber (take (length s - length s4) s), skip_spaces s4))))"

text \<open>The branches of \<open>parse_value_\<close> that do not recurse, for input that is not empty.\<close>

definition json_scalar :: "string \<Rightarrow> error + nat \<times> json \<times> string" where
  "json_scalar s =
     (if hd s = DQUOTE then
        (case json_string (tl s) of
           Inl e \<Rightarrow> Inl e
         | Inr (Some str, r) \<Rightarrow> Inr (0, JString str, r)
         | Inr (None, r) \<Rightarrow> Inr (ec_string, JUnassigned, r))
      else if hd s = CHR ''t'' then Inr (json_literal ''rue'' (JBool True) (tl s))
      else if hd s = CHR ''f'' then Inr (json_literal ''alse'' (JBool False) (tl s))
      else if hd s = CHR ''n'' then Inr (json_literal ''ull'' JNull (tl s))
      else Inr (json_number s))"

section \<open>Values\<close>

text \<open>
  \<open>parse_value_\<close> and its two loops: a mode says whether a value starts or which array or object is
  being filled. A result is the code, the node as it is left, and the unread rest. A comma
  between elements is skipped where there is one.
\<close>

datatype json_mode = Value | Elements "json list" | Members "(string \<times> json) list"

definition skip_comma :: "string \<Rightarrow> string" where
  "skip_comma s = (case s of [] \<Rightarrow> [] | c # cs \<Rightarrow> if c = CHR '','' then skip_spaces cs else s)"

definition json_put :: "string \<Rightarrow> 'v \<Rightarrow> (string \<times> 'v) list \<Rightarrow> (string \<times> 'v) list" where
  "json_put key v ms = AList.update key v ms"

function parse_value :: "json_mode \<Rightarrow> string \<Rightarrow> error + nat \<times> json \<times> string" where
  "parse_value Value s =
     (if s = [] then Inr (0, JUnassigned, [])
      else if hd s = CHR ''['' then parse_value (Elements []) (skip_spaces (tl s))
      else if hd s = CHR ''{'' then parse_value (Members []) (skip_spaces (tl s))
      else json_scalar s)"
| "parse_value (Elements vs) s =
     (if s = [] then Inr (ec_array, JArray vs, [])
      else if hd s = CHR '']'' then Inr (0, JArray vs, skip_spaces (tl s))
      else
        (case parse_value Value s of
           Inl e \<Rightarrow> Inl e
         | Inr (code, v, r) \<Rightarrow>
             if code \<noteq> 0 then Inr (code, JArray (vs @ [v]), r)
             else parse_value (Elements (vs @ [v])) (skip_comma r)))"
| "parse_value (Members ms) s =
     (if s = [] then Inr (ec_object, JObject ms, [])
      else if hd s = CHR ''}'' then Inr (0, JObject ms, skip_spaces (tl s))
      else if hd s \<noteq> DQUOTE then Inr (ec_object, JObject ms, s)
      else
        (case json_string (tl s) of
           Inl e \<Rightarrow> Inl e
         | Inr (found, r) \<Rightarrow>
             (let key = (case found of None \<Rightarrow> [] | Some k \<Rightarrow> k) in
              if key = [] then Inr (ec_object_name, JObject ms, r)
              else if r = [] \<or> hd r \<noteq> CHR '':''
              then Inr (ec_no_colon, JObject (json_put key JUnassigned ms), r)
              else
                (case parse_value Value (skip_spaces (tl r)) of
                   Inl e \<Rightarrow> Inl e
                 | Inr (code, v, r') \<Rightarrow>
                     if code \<noteq> 0 then Inr (code, JObject (json_put key v ms), r')
                     else parse_value (Members (json_put key v ms)) (skip_comma r')))))"
  by pat_completeness auto

lemma skip_spaces_length: "length (skip_spaces s) \<le> length s"
  by (simp add: skip_spaces_def length_dropWhile_le)

lemma skip_comma_length: "length (skip_comma s) \<le> length s"
  using skip_spaces_length by (auto simp: skip_comma_def le_SucI split: list.splits)

lemma parse_string_loop_length:
  "parse_string_loop str raw prev s = Inr (x, r) \<Longrightarrow> length r \<le> length s"
proof (induction str raw prev s rule: parse_string_loop.induct)
  case (1 str raw prev)
  then show ?case by (simp add: parse_string_loop.simps)
next
  case (2 str raw prev c cs)
  consider "c = DQUOTE" | "c \<noteq> DQUOTE" "c \<noteq> BSLASH" | "c = BSLASH" "cs = []"
    | n rest where "c = BSLASH" "cs = n # rest" by (cases cs) auto
  then show ?case
  proof cases
    case 1
    with "2.prems" show ?thesis
      by (auto simp: parse_string_loop.simps intro: le_SucI skip_spaces_length)
  next
    case 2
    with "2.prems" "2.IH" show ?thesis by (fastforce simp: parse_string_loop.simps)
  next
    case 3
    with "2.prems" show ?thesis by (simp add: parse_string_loop.simps json_chars)
  next
    case 4
    have q: "c \<noteq> DQUOTE" using 4 by (simp add: json_chars)
    note eq = parse_string_loop.simps(2) [of str raw prev c cs]
    have "length r \<le> length rest" if "parse_string_loop a b p (drop k rest) = Inr (x, r) \<Longrightarrow>
        length r \<le> length (drop k rest)" "parse_string_loop a b p (drop k rest) = Inr (x, r)" for a b p k
      using that by auto
    with 4 q "2.prems" "2.IH" show ?thesis
      unfolding eq by (force split: option.splits if_splits hex4.splits)
  qed
qed

lemma json_string_length: "json_string s = Inr (x, r) \<Longrightarrow> length r \<le> length s"
  unfolding json_string_def by (rule parse_string_loop_length)

lemma some_digits_length: "some_digits s = (b, r) \<Longrightarrow> length r \<le> length s"
  by (auto simp: some_digits_def intro: le_SucI length_dropWhile_le split: list.splits if_splits)

lemma json_fraction_length: "json_fraction s = (b, r) \<Longrightarrow> length r \<le> length s"
  by (auto simp: json_fraction_def intro: le_SucI dest!: some_digits_length split: list.splits if_splits)

lemma json_exponent_length: "json_exponent s = (b, r) \<Longrightarrow> length r \<le> length s"
  by (auto simp: json_exponent_def dest!: some_digits_length split: list.splits if_splits)

lemma match_letters_length: "match_letters ws s = (b, r) \<Longrightarrow> length r \<le> length s"
  by (induction ws s rule: match_letters.induct) (auto split: if_splits)

lemma json_number_length:
  assumes "s \<noteq> []" and "json_number s = (0, v, r)"
  shows "length r < length s"
proof -
  define neg where "neg = (take 1 s = ''-'')"
  define s1 where "s1 = (if neg then tl s else s)"
  note eq = json_number_def [of s, unfolded Let_def, folded neg_def, folded s1_def]
  have l: "length s1 \<le> length s" by (simp add: s1_def)
  show ?thesis
  proof (cases s1)
    case Nil
    with assms show ?thesis unfolding eq by auto
  next
    case (Cons c cs)
    define s2 where "s2 = (if c = CHR ''0'' then cs else dropWhile is_digit s1)"
    have d: "is_digit c" using assms(2) Cons unfolding eq
      by (auto simp: ec_number_def ec_literal_def split: if_splits)
    have 2: "length s2 < length s1"
      using Cons d by (auto simp: s2_def le_imp_less_Suc length_dropWhile_le)
    from assms(2) Cons d obtain s3 s4 where s: "json_fraction s2 = (True, s3)" "json_exponent s3 = (True, s4)"
        "r = skip_spaces s4"
      unfolding eq s2_def by (auto simp: ec_number_def split: prod.splits bool.splits)
    from json_fraction_length [OF s(1)] json_exponent_length [OF s(2)] skip_spaces_length [of s4] s(3) 2 l
    show ?thesis by simp
  qed
qed

lemma json_scalar_length:
  assumes "s \<noteq> []" and "json_scalar s = Inr (0, v, r)"
  shows "length r < length s"
proof -
  obtain c cs where s: "s = c # cs" using assms(1) by (cases s) auto
  have l: "length r < length s" if "json_literal ls w cs = (0, v, r)" for ls w
    using that s by (auto simp: json_literal_def ec_literal_def le_imp_less_Suc
        dest: match_letters_length split: prod.splits bool.splits)
  have t: "length r < length s" if "json_string cs = Inr (Some str, r)" for str
    using json_string_length [OF that] s by simp
  show ?thesis
    using assms s l t json_number_length [of s v r]
    by (auto simp: json_scalar_def ec_string_def split: if_splits sum.splits option.splits)
qed

lemma parse_value_length:
  "parse_value_dom (m, s) \<Longrightarrow> parse_value m s = Inr (0, v, r) \<Longrightarrow>
     (s \<noteq> [] \<longrightarrow> length r < length s) \<and> length r \<le> length s"
proof (induction m s arbitrary: v r rule: parse_value.pinduct)
  case (1 s)
  note eq = parse_value.psimps(1) [OF "1.hyps"]
  have "length (skip_spaces (tl s)) < length s" if "s \<noteq> []"
    using that skip_spaces_length [of "tl s"] by (cases s) auto
  with 1 json_scalar_length [of s v r] show ?case
    unfolding eq by (cases "s = []") (fastforce split: if_splits)+
next
  case (2 vs s)
  note eq = parse_value.psimps(2) [OF "2.hyps"]
  show ?case
  proof (cases "s = [] \<or> hd s = CHR '']''")
    case True
    with "2.prems" skip_spaces_length [of "tl s"] show ?thesis
      unfolding eq by (cases s) (auto simp: json_codes)
  next
    case False
    with "2.prems" obtain v' r' where v: "parse_value Value s = Inr (0, v', r')"
      and w: "parse_value (Elements (vs @ [v'])) (skip_comma r') = Inr (0, v, r)"
      unfolding eq by (auto split: sum.splits if_splits)
    have "length r' < length s" using "2.IH"(1) False v by auto
    moreover have "length r \<le> length (skip_comma r')" using "2.IH"(2) False v w by auto
    ultimately show ?thesis using skip_comma_length [of r'] by simp
  qed
next
  case (3 ms s)
  note eq = parse_value.psimps(3) [OF "3.hyps"]
  show ?case
  proof (cases "s = [] \<or> hd s = CHR ''}'' \<or> hd s \<noteq> DQUOTE")
    case True
    with "3.prems" skip_spaces_length [of "tl s"] show ?thesis
      unfolding eq by (cases s) (auto simp: json_codes split: if_splits)
  next
    case False
    with "3.prems" obtain found q where k: "json_string (tl s) = Inr (found, q)"
      unfolding eq by (auto split: sum.splits)
    define key where "key = (case found of None \<Rightarrow> [] | Some k \<Rightarrow> k)"
    from "3.prems" False k have n: "key \<noteq> []" "q \<noteq> []" "hd q = CHR '':''"
      unfolding eq by (auto simp: key_def json_codes Let_def split: if_splits)
    with "3.prems" False k obtain v' r' where v: "parse_value Value (skip_spaces (tl q)) = Inr (0, v', r')"
      and w: "parse_value (Members (json_put key v' ms)) (skip_comma r') = Inr (0, v, r)"
      unfolding eq by (auto simp: key_def Let_def split: sum.splits if_splits)
    have "length r' \<le> length (skip_spaces (tl q))"
      using "3.IH"(1) False k n v by (auto simp: key_def)
    moreover have "length r \<le> length (skip_comma r')"
      using "3.IH"(2) False k n v w by (auto simp: key_def)
    moreover have "length q \<le> length (tl s)" using k by (rule json_string_length)
    ultimately show ?thesis
      using skip_comma_length [of r'] skip_spaces_length [of "tl q"] n False by (cases s; cases q) auto
  qed
qed

lemma parse_value_less: "parse_value_dom (m, s) \<Longrightarrow> parse_value m s = Inr (0, v, r) \<Longrightarrow> s \<noteq> [] \<Longrightarrow>
    length (skip_comma r) < length s"
  using parse_value_length [of m s v r] skip_comma_length [of r] by auto

lemma tl_spaces_less: "s \<noteq> [] \<Longrightarrow> length (skip_spaces (tl s)) < length s"
  using skip_spaces_length [of "tl s"] by (cases s) auto

lemma member_value_less:
  assumes "json_string (tl s) = Inr (found, q)" and "s \<noteq> []" and "q \<noteq> []"
  shows "length (skip_spaces (tl q)) < length s"
  using json_string_length [OF assms(1)] tl_spaces_less [OF assms(3)] assms(2) by (cases s) auto

lemma member_rest_less:
  assumes "json_string (tl s) = Inr (found, q)" and "s \<noteq> []" and "q \<noteq> []"
    and "parse_value_dom (Value, skip_spaces (tl q))"
    and "parse_value Value (skip_spaces (tl q)) = Inr (0, v, r)"
  shows "length (skip_comma r) < length s"
  using parse_value_length [OF assms(4,5)] member_value_less [OF assms(1-3)] skip_comma_length [of r] by simp

lemma twice_less: "m < n \<Longrightarrow> Suc (2 * m) < 2 * (n :: nat)" and
  twice_less_Suc: "m < n \<Longrightarrow> 2 * m < Suc (2 * (n :: nat))"
  by simp_all

termination parse_value
proof (relation "measure (\<lambda>(m, s). 2 * length s + (case m of Value \<Rightarrow> 0 | _ \<Rightarrow> 1))")
qed (auto dest: twice_less_Suc [OF member_value_less] member_rest_less parse_value_less
    intro: twice_less [OF tl_spaces_less])

declare parse_value.simps [simp del]

text \<open>
  \<open>parse(s, e)\<close> of a node: the outcome, the node, and the error. The fallback node, which stands for
  what is not there, is never changed.
\<close>

definition json_parse :: "string \<Rightarrow> json \<Rightarrow> error + bool \<times> json \<times> json_error" where
  "json_parse s node =
     (if node = JFallback then Inr (False, JFallback, \<lparr>code_ = 0, pos_ = 0\<rparr>)
      else
        (case parse_value Value (skip_spaces s) of
           Inl e \<Rightarrow> Inl e
         | Inr (code, v, r) \<Rightarrow>
             Inr (code = 0, v,
               \<lparr>code_ = code, pos_ = (if code \<noteq> 0 then length s - length r else 0)\<rparr>)))"

section \<open>Access\<close>

definition json_at :: "json \<Rightarrow> nat \<Rightarrow> json" where
  "json_at node no =
     (case node of JArray vs \<Rightarrow> if no < length vs then vs ! no else JFallback | _ \<Rightarrow> JFallback)"

definition json_key :: "json \<Rightarrow> string \<Rightarrow> json" where
  "json_key node key =
     (case node of
        JObject ms \<Rightarrow> (case map_of ms key of Some v \<Rightarrow> v | None \<Rightarrow> JFallback)
      | _ \<Rightarrow> JFallback)"

definition json_exists_at :: "json \<Rightarrow> nat \<Rightarrow> bool" where
  "json_exists_at node no \<longleftrightarrow> (case node of JArray vs \<Rightarrow> no < length vs | _ \<Rightarrow> False)"

definition json_exists_key :: "json \<Rightarrow> string \<Rightarrow> bool" where
  "json_exists_key node key \<longleftrightarrow> (case node of JObject ms \<Rightarrow> map_of ms key \<noteq> None | _ \<Rightarrow> False)"

definition json_size :: "json \<Rightarrow> nat" where
  "json_size node = (case node of JArray vs \<Rightarrow> length vs | JObject ms \<Rightarrow> length ms | _ \<Rightarrow> 0)"

definition json_str :: "json \<Rightarrow> string" where
  "json_str node = (case node of JString s \<Rightarrow> s | _ \<Rightarrow> [])"

definition json_numstr :: "json \<Rightarrow> string" where
  "json_numstr node =
     (case node of
        JNumber t \<Rightarrow> t
      | JBool b \<Rightarrow> if b then ''true'' else ''false''
      | JNull \<Rightarrow> ''null''
      | _ \<Rightarrow> [])"

section \<open>Change\<close>

definition json_clear :: "json \<Rightarrow> json" where
  "json_clear node = (if node = JFallback then node else JUnassigned)"

definition json_set_str :: "string \<Rightarrow> json \<Rightarrow> json" where
  "json_set_str s node = (if node = JFallback then node else JString s)"

definition json_set_bool :: "bool \<Rightarrow> json \<Rightarrow> json" where
  "json_set_bool b node = (if node = JFallback then node else JBool b)"

definition json_set_null :: "json \<Rightarrow> json" where
  "json_set_null node = (if node = JFallback then node else JNull)"

definition json_empty_array :: "json \<Rightarrow> json" where
  "json_empty_array node = (if node = JFallback then node else JArray [])"

definition json_empty_object :: "json \<Rightarrow> json" where
  "json_empty_object node = (if node = JFallback then node else JObject [])"

text \<open>\<open>node(no)\<close> and \<open>node(key)\<close> make the element where it is missing; \<open>f\<close> is what is assigned to it.\<close>

definition json_with_at :: "nat \<Rightarrow> (json \<Rightarrow> json) \<Rightarrow> json \<Rightarrow> json" where
  "json_with_at no f node =
     (if node = JFallback then node
      else
        (let vs = (case node of JArray vs \<Rightarrow> vs | _ \<Rightarrow> []);
             vs = vs @ replicate (no + 1 - length vs) JUnassigned
         in JArray (vs[no := f (vs ! no)])))"

definition json_with_key :: "string \<Rightarrow> (json \<Rightarrow> json) \<Rightarrow> json \<Rightarrow> json" where
  "json_with_key key f node =
     (if node = JFallback then node
      else
        (let ms = (case node of JObject ms \<Rightarrow> ms | _ \<Rightarrow> []) in
         JObject (json_put key (f (case map_of ms key of Some v \<Rightarrow> v | None \<Rightarrow> JUnassigned)) ms)))"

text \<open>
  Assignment leaves the fallback node alone and is not made from it; so the new element of an
  array to which the fallback node is added stays unassigned.
\<close>

definition json_assign :: "json \<Rightarrow> json \<Rightarrow> json" where
  "json_assign right node = (if node = JFallback \<or> right = JFallback then node else right)"

definition json_copy :: "json \<Rightarrow> json" where
  "json_copy right = json_assign right JUnassigned"

definition json_erase_at :: "nat \<Rightarrow> json \<Rightarrow> bool \<times> json" where
  "json_erase_at no node =
     (case node of
        JArray vs \<Rightarrow>
          if no < length vs then (True, JArray (take no vs @ drop (Suc no) vs)) else (False, node)
      | _ \<Rightarrow> (False, node))"

definition json_insert_at :: "nat \<Rightarrow> json \<Rightarrow> json \<Rightarrow> bool \<times> json" where
  "json_insert_at no right node =
     (case node of
        JArray vs \<Rightarrow>
          if no \<le> length vs then (True, JArray (take no vs @ json_copy right # drop no vs))
          else (False, node)
      | _ \<Rightarrow> (False, node))"

definition json_push_back :: "json \<Rightarrow> json \<Rightarrow> json" where
  "json_push_back right node =
     (case node of JArray vs \<Rightarrow> JArray (vs @ [json_copy right]) | _ \<Rightarrow> node)"

text \<open>
  All keys in order. As in the printer below, the loop does not see an empty key that is the
  last, whose place in the array stays unassigned.
\<close>

definition json_allkeys :: "json \<Rightarrow> json" where
  "json_allkeys node =
     (case node of
        JObject ms \<Rightarrow>
          JArray (map (\<lambda>i. let key = fst (ms ! i) in
                        if key = [] \<and> Suc i = length ms then JUnassigned else JString key)
                    [0..<length ms])
      | _ \<Rightarrow> JUnassigned)"

section \<open>Printing\<close>

definition json_escape_char :: "char \<Rightarrow> string" where
  "json_escape_char c =
     (let ch = of_char c :: nat in
      if ch < 0x20 then
        BSLASH # ''u00'' @ [chr (ch div 16 + 0x30), chr (ch mod 16 + (if ch mod 16 < 10 then 0x30 else 0x41 - 10))]
      else if c = DQUOTE \<or> c = BSLASH then [BSLASH, c]
      else [c])"

definition json_quoted :: "string \<Rightarrow> string" where
  "json_quoted s = DQUOTE # concat (map json_escape_char s) @ [DQUOTE]"

text \<open>Every element is followed by a comma; the last one becomes the closing bracket.\<close>

definition close_with :: "char \<Rightarrow> string \<Rightarrow> string" where
  "close_with c out = (if out = [] then [c] else butlast out @ [c])"

text \<open>
  The loop over the keys ends where no more than the four bytes of a length are left: an empty
  key is not printed if it is the last.
\<close>

fun json_stringify :: "json \<Rightarrow> string" and json_members :: "(string \<times> json) list \<Rightarrow> string" where
  "json_stringify (JNumber t) = t"
| "json_stringify (JString s) = json_quoted s"
| "json_stringify (JBool b) = (if b then ''true'' else ''false'')"
| "json_stringify (JArray vs) =
     CHR ''['' # close_with (CHR '']'') (concat (map (\<lambda>v. json_stringify v @ '','') vs))"
| "json_stringify (JObject ms) = CHR ''{'' # close_with (CHR ''}'') (json_members ms)"
| "json_stringify JNull = ''null''"
| "json_stringify JUnassigned = ''null''"
| "json_stringify JFallback = ''null''"
| "json_members [] = []"
| "json_members ((key, v) # ms) =
     (if key = [] \<and> ms = [] then []
      else json_quoted key @ '':'' @ json_stringify v @ '','' @ json_members ms)"

end
