(* ===== verification/Json_Facts.thy ===== *)
theory Json_Facts
  imports Ctl_Json "HOL-Library.Sublist"
begin

text \<open>
  What the JSON parser does with printed text: it reads back what the printer prints.
\<close>

section \<open>Strings\<close>

lemma json_escape_Some: "json_escape DQUOTE = Some DQUOTE" "json_escape BSLASH = Some BSLASH"
  "json_escape (CHR ''u'') = None"
  by (simp_all add: json_escape_def json_chars)

lemma parse_plain:
  "DQUOTE \<notin> set t \<Longrightarrow> BSLASH \<notin> set t \<Longrightarrow>
     parse_string_loop str raw prev (t @ s) = parse_string_loop str (raw @ t) prev s"
  by (induction t arbitrary: raw) (auto simp: parse_string_loop.simps(2))

lemma hex_value_chr: "d < 10 \<Longrightarrow> hex_value (chr (d + 0x30)) = Some d"
  "d < 16 \<Longrightarrow> 10 \<le> d \<Longrightarrow> hex_value (chr (d + 0x37)) = Some d"
  by (auto simp: hex_value_def chr_def)

lemma parse_4hexdigits_Some:
  "hex_value a = Some i \<Longrightarrow> hex_value b = Some j \<Longrightarrow> hex_value c = Some k \<Longrightarrow> hex_value d = Some l \<Longrightarrow>
     parse_4hexdigits (a # b # c # d # s) = HexDigits (16 * (16 * (16 * i + j) + k) + l)"
  by (simp add: parse_4hexdigits_def numeral_eq_Suc)

lemma parse_control_char:
  assumes "(of_char c :: nat) < 0x20"
  shows "parse_string_loop str raw prev (json_escape_char c @ s) = parse_string_loop (str @ raw @ [c]) [] 0 s"
proof -
  define n :: nat where "n = of_char c"
  have n: "n < 0x20" "c = char_of n" using assms by (simp_all add: n_def)
  have h: "hex_value (CHR ''0'') = Some 0" by (simp add: hex_value_def)
  have d: "hex_value (chr (n div 16 + 0x30)) = Some (n div 16)"
    using n(1) by (intro hex_value_chr) simp
  have l: "hex_value (chr (n mod 16 + (if n mod 16 < 10 then 0x30 else 0x41 - 10))) = Some (n mod 16)"
    using hex_value_chr [of "n mod 16"] by simp
  have "parse_4hexdigits (CHR ''0'' # CHR ''0'' # chr (n div 16 + 0x30) #
      chr (n mod 16 + (if n mod 16 < 10 then 0x30 else 0x41 - 10)) # s) = HexDigits n"
    using parse_4hexdigits_Some [OF h h d l] by simp
  then show ?thesis
    using n unfolding json_escape_char_def n_def [symmetric] Let_def
    by (simp add: parse_string_loop.simps(2) json_escape_Some json_chars json_escape_def low_surrogate_def
        high_surrogate_def utf8_bytes_def chr_def)
qed

lemma parse_escaped:
  "parse_string_loop str raw 0 (concat (map json_escape_char t) @ DQUOTE # s) =
     Inr (Some (str @ raw @ t), skip_spaces s)"
proof (induction t arbitrary: str raw)
  case Nil
  then show ?case by (simp add: parse_string_loop.simps(2))
next
  case (Cons c t)
  consider "(of_char c :: nat) < 0x20" | "\<not> (of_char c :: nat) < 0x20" "c = DQUOTE \<or> c = BSLASH"
    | "\<not> (of_char c :: nat) < 0x20" "c \<noteq> DQUOTE" "c \<noteq> BSLASH" by blast
  then show ?case
  proof cases
    case 1
    then show ?thesis by (simp add: parse_control_char Cons.IH)
  next
    case 2
    then have "json_escape c = Some c" and "json_escape_char c = [BSLASH, c]"
      by (auto simp: json_escape_def json_escape_char_def)
    then show ?thesis
      by (simp add: parse_string_loop.simps(2) Cons.IH) (simp add: json_chars)
  next
    case 3
    then have "json_escape_char c = [c]" by (simp add: json_escape_char_def)
    with 3 show ?thesis by (simp add: parse_string_loop.simps(2) Cons.IH)
  qed
qed

lemma json_string_quoted: "json_string (concat (map json_escape_char t) @ DQUOTE # s) = Inr (Some t, skip_spaces s)"
  using parse_escaped [of "[]" "[]"] by (simp add: json_string_def)

section \<open>Numbers\<close>

text \<open>What may stand behind a value in printed text.\<close>

definition delim :: "string \<Rightarrow> bool" where
  "delim r \<longleftrightarrow> (case r of [] \<Rightarrow> True | c # _ \<Rightarrow> c = CHR '','' \<or> c = CHR '']'' \<or> c = CHR ''}'')"

lemma delim_spaces [simp]: "delim r \<Longrightarrow> skip_spaces r = r"
  by (cases r) (auto simp: delim_def skip_spaces_def json_space_def)

lemma delim_no_digit: "delim (c # r) \<Longrightarrow> \<not> is_digit c \<and> c \<noteq> CHR ''.'' \<and> c \<noteq> CHR ''e'' \<and> c \<noteq> CHR ''E''"
  by (auto simp: delim_def is_digit_def)

lemma digits_append:
  assumes "delim r"
  shows "dropWhile is_digit (s @ r) = dropWhile is_digit s @ r"
proof (induction s)
  case Nil
  with assms show ?case by (cases r) (simp_all add: delim_no_digit)
next
  case (Cons c s)
  then show ?case by simp
qed

lemma some_digits_append: "delim r \<Longrightarrow> some_digits s = (True, q) \<Longrightarrow> some_digits (s @ r) = (True, q @ r)"
  using digits_append [of r s] by (auto simp: some_digits_def split: list.splits if_splits)

lemma json_fraction_append:
  assumes "delim r" and "json_fraction s = (True, q)"
  shows "json_fraction (s @ r) = (True, q @ r)"
proof (cases s)
  case Nil
  with assms show ?thesis by (cases r) (auto simp: json_fraction_def delim_no_digit)
next
  case (Cons c cs)
  with assms some_digits_append [OF assms(1), of cs q] show ?thesis
    by (auto simp: json_fraction_def split: if_splits)
qed

lemma json_exponent_append:
  assumes "delim r" and "json_exponent s = (True, q)"
  shows "json_exponent (s @ r) = (True, q @ r)"
proof (cases s)
  case Nil
  with assms show ?thesis by (cases r) (auto simp: json_exponent_def delim_no_digit)
next
  case (Cons c cs)
  show ?thesis
  proof (cases cs)
    case Nil
    with assms Cons show ?thesis by (auto simp: json_exponent_def split: if_splits)
  next
    case (Cons d ds)
    have "some_digits (ds @ r) = (True, q @ r)" if "some_digits ds = (True, q)"
      using some_digits_append [OF assms(1) that] .
    moreover have "some_digits (d # ds @ r) = (True, q @ r)" if "some_digits (d # ds) = (True, q)"
      using some_digits_append [OF assms(1) that] by simp
    ultimately show ?thesis
      using assms \<open>s = c # cs\<close> Cons by (auto simp: json_exponent_def split: if_splits)
  qed
qed

definition number_text :: "string \<Rightarrow> bool" where
  "number_text t \<longleftrightarrow> json_number t = (0, JNumber t, [])"

lemma json_number_append:
  assumes "number_text t" and "delim r"
  shows "json_number (t @ r) = (0, JNumber t, r)"
proof -
  define neg where "neg = (take 1 t = ''-'')"
  define s1 where "s1 = (if neg then tl t else t)"
  note eq = json_number_def [of t, unfolded Let_def, folded neg_def, folded s1_def]
  have t: "json_number t = (0, JNumber t, [])" using assms(1) by (simp add: number_text_def)
  then obtain c cs where s1: "s1 = c # cs" unfolding eq by (cases s1) auto
  then have ne: "t \<noteq> []" by (auto simp: s1_def split: if_splits)
  from t s1 have d: "is_digit c" unfolding eq by (auto split: if_splits)
  define s2 where "s2 = (if c = CHR ''0'' then cs else dropWhile is_digit s1)"
  from t s1 d obtain s3 s4 where 3: "json_fraction s2 = (True, s3)" and 4: "json_exponent s3 = (True, s4)"
    and l: "take (length t - length s4) t = t"
    unfolding eq s2_def by (auto split: prod.splits bool.splits)
  have "length (take (length t - length s4) t) = length t" using l by simp
  then have s4: "s4 = []" using ne by (cases t; cases s4) auto
  have n: "(take 1 (t @ r) = ''-'') = neg" and a: "(if neg then tl (t @ r) else t @ r) = c # cs @ r"
    using ne s1 by (cases t; simp add: neg_def s1_def split: if_splits)+
  have 2: "(if c = CHR ''0'' then cs @ r else dropWhile is_digit (c # cs @ r)) = s2 @ r"
    using digits_append [OF assms(2), of "c # cs"] by (simp add: s2_def s1)
  have f: "json_fraction (s2 @ r) = (True, s3 @ r)" by (rule json_fraction_append [OF assms(2) 3])
  have e: "json_exponent (s3 @ r) = (True, s4 @ r)" by (rule json_exponent_append [OF assms(2) 4])
  show ?thesis
    unfolding json_number_def Let_def n a list.case 2 f using d assms(2) by (simp add: e s4)
qed

lemma number_text_start:
  assumes "number_text t"
  shows "\<exists>c cs. t = c # cs \<and> (c = CHR ''-'' \<or> is_digit c)"
proof (cases t)
  case Nil
  with assms show ?thesis by (simp add: number_text_def json_number_def)
next
  case (Cons c cs)
  with assms have "c = CHR ''-'' \<or> is_digit c"
    by (cases "c = CHR ''-''"; cases "is_digit c") (simp_all add: number_text_def json_number_def)
  with Cons show ?thesis by simp
qed

section \<open>Reading back what was printed\<close>

text \<open>
  The nodes that can be printed and read back: the numbers are numbers, no key is empty or comes
  twice, and no node is unassigned.
\<close>

fun json_ok :: "json \<Rightarrow> bool" where
  "json_ok (JArray vs) \<longleftrightarrow> (\<forall>v\<in>set vs. json_ok v)"
| "json_ok (JObject ms) \<longleftrightarrow>
     distinct (map fst ms) \<and> (\<forall>(k, v)\<in>set ms. k \<noteq> [] \<and> json_ok v)"
| "json_ok (JNumber t) \<longleftrightarrow> number_text t"
| "json_ok (JString s) \<longleftrightarrow> True"
| "json_ok (JBool b) \<longleftrightarrow> True"
| "json_ok JNull \<longleftrightarrow> True"
| "json_ok JUnassigned \<longleftrightarrow> False"
| "json_ok JFallback \<longleftrightarrow> False"

fun comma_list :: "char \<Rightarrow> string list \<Rightarrow> string" where
  "comma_list c [] = [c]"
| "comma_list c [p] = p @ [c]"
| "comma_list c (p # q # ps) = p @ CHR '','' # comma_list c (q # ps)"

lemma close_with_append: "out \<noteq> [] \<Longrightarrow> close_with c (p @ out) = p @ close_with c out"
  by (simp add: close_with_def butlast_append)

lemma close_with_commas: "close_with c (concat (map (\<lambda>x. f x @ '','') xs)) = comma_list c (map f xs)"
proof (induction "map f xs" arbitrary: xs rule: comma_list.induct [where ?a0.0 = c])
  case 1
  then show ?case by (simp add: close_with_def)
next
  case (2 c p)
  then show ?case by (auto simp: close_with_def butlast_append)
next
  case (3 c p q ps)
  then obtain x y ys where xs: "xs = x # y # ys" "map f (y # ys) = q # ps" "p = f x" by auto
  with 3(1) [of "y # ys"] show ?case
    using close_with_append [of "concat (map (\<lambda>x. f x @ '','') (y # ys))" c "p @ '',''"] by simp
qed

text \<open>The start of printed text is where a value starts, and nothing that is skipped.\<close>

definition value_start :: "string \<Rightarrow> bool" where
  "value_start s \<longleftrightarrow>
     (case s of [] \<Rightarrow> False
      | c # _ \<Rightarrow> \<not> json_space c \<and> c \<noteq> CHR '','' \<and> c \<noteq> CHR '']'' \<and> c \<noteq> CHR ''}'')"

lemma value_start_append [simp]: "value_start s \<Longrightarrow> value_start (s @ r)"
  by (cases s) (simp_all add: value_start_def)

lemma value_start_spaces [simp]: "value_start s \<Longrightarrow> skip_spaces s = s"
  by (cases s) (simp_all add: value_start_def skip_spaces_def)

lemma quoted_start [simp]: "value_start (json_quoted s)"
  by (simp add: json_quoted_def value_start_def json_space_def json_chars)

lemma json_stringify_start: "json_ok v \<Longrightarrow> value_start (json_stringify v)"
proof (cases v)
  case (JNumber t)
  assume "json_ok v"
  with JNumber number_text_start [of t] show ?thesis
    by (auto simp: value_start_def json_space_def is_digit_def)
next
  case (JString s)
  then show ?thesis by simp
qed (simp_all add: value_start_def json_space_def)

lemma value_start_cases: "value_start s \<Longrightarrow> (\<And>c cs. s = c # cs \<Longrightarrow> c \<noteq> CHR '']'' \<Longrightarrow> c \<noteq> CHR ''}'' \<Longrightarrow> P) \<Longrightarrow> P"
  by (cases s) (simp_all add: value_start_def)

lemma comma_list_start [simp]: "value_start p \<Longrightarrow> value_start (comma_list c (p # ps))"
  by (cases ps) simp_all

lemma comma_list_spaces:
  "\<forall>p\<in>set ps. value_start p \<Longrightarrow> \<not> json_space c \<Longrightarrow> skip_spaces (comma_list c ps @ r) = comma_list c ps @ r"
  by (cases ps) (simp_all add: skip_spaces_def [of "c # r"])

lemma closing_no_space [simp]: "\<not> json_space (CHR '']'')" "\<not> json_space (CHR ''}'')"
  by (simp_all add: json_space_def)

lemma delim_simps [simp]: "delim []" "delim (CHR '','' # r)" "delim (CHR '']'' # r)" "delim (CHR ''}'' # r)"
  by (simp_all add: delim_def)

lemma skip_comma_simps [simp]: "skip_comma (CHR '','' # r) = skip_spaces r"
  "skip_comma (CHR '']'' # r) = CHR '']'' # r" "skip_comma (CHR ''}'' # r) = CHR ''}'' # r"
  by (simp_all add: skip_comma_def)

text \<open>The two loops, over elements that are read back one by one.\<close>

lemma elements_read_back:
  assumes "\<forall>v\<in>set vs. json_ok v \<and> (\<forall>r. delim r \<longrightarrow> parse_value Value (json_stringify v @ r) = Inr (0, v, r))"
    and "delim r"
  shows "parse_value (Elements acc) (comma_list (CHR '']'') (map json_stringify vs) @ r) =
           Inr (0, JArray (acc @ vs), r)"
  using assms
proof (induction vs arbitrary: acc)
  case Nil
  then show ?case by (simp add: parse_value.simps(2))
next
  case (Cons v vs)
  define s where "s = json_stringify v"
  have st: "value_start s" using Cons.prems(1) json_stringify_start by (simp add: s_def)
  have v: "parse_value Value (s @ q) = Inr (0, v, q)" if "delim q" for q
    using Cons.prems(1) that by (simp add: s_def)
  have one: "parse_value (Elements acc) (s @ q) = parse_value (Elements (acc @ [v])) (skip_comma q)" if "delim q" for q
    using st v [OF that] by (auto elim: value_start_cases simp: parse_value.simps(2))
  show ?case
  proof (cases vs)
    case Nil
    then show ?thesis
      using one [of "CHR '']'' # r"] Cons.prems(2) by (simp add: s_def [symmetric] parse_value.simps(2))
  next
    case (Cons w ws)
    have "value_start (comma_list (CHR '']'') (map json_stringify vs))"
      using Cons.prems(1) Cons json_stringify_start by simp
    then show ?thesis
      using one [of "CHR '','' # comma_list (CHR '']'') (map json_stringify vs) @ r"]
        Cons.IH [of "acc @ [v]"] Cons.prems Cons
      by (simp add: s_def [symmetric])
  qed
qed

definition json_member_text :: "string \<times> json \<Rightarrow> string" where
  "json_member_text m = json_quoted (fst m) @ '':'' @ json_stringify (snd m)"

lemma json_members_text:
  "\<forall>(k, v)\<in>set ms. k \<noteq> [] \<Longrightarrow> json_members ms = concat (map (\<lambda>m. json_member_text m @ '','') ms)"
  by (induction ms) (auto simp: json_member_text_def)

lemma json_stringify_object:
  "\<forall>(k, v)\<in>set ms. k \<noteq> [] \<Longrightarrow>
     json_stringify (JObject ms) = CHR ''{'' # comma_list (CHR ''}'') (map json_member_text ms)"
  by (simp add: json_members_text close_with_commas)

lemma json_stringify_array: "json_stringify (JArray vs) = CHR ''['' # comma_list (CHR '']'') (map json_stringify vs)"
  by (simp add: close_with_commas)

lemma json_member_text_start [simp]: "value_start (json_member_text m)"
  by (simp add: json_member_text_def)

lemma brace_no_quote: "DQUOTE \<noteq> CHR ''}''"
  by (simp add: json_chars)

lemma json_put_new: "k \<notin> fst ` set ms \<Longrightarrow> json_put k v ms = ms @ [(k, v)]"
  by (induction ms) (auto simp: json_put_def)

lemma members_read_back:
  assumes "\<forall>(k, v)\<in>set ms. k \<noteq> [] \<and> json_ok v \<and>
             (\<forall>r. delim r \<longrightarrow> parse_value Value (json_stringify v @ r) = Inr (0, v, r))"
    and "distinct (map fst (acc @ ms))" and "delim r"
  shows "parse_value (Members acc) (comma_list (CHR ''}'') (map json_member_text ms) @ r) =
           Inr (0, JObject (acc @ ms), r)"
  using assms
proof (induction ms arbitrary: acc)
  case Nil
  then show ?case by (simp add: parse_value.simps(3))
next
  case (Cons m ms)
  obtain k v where m: "m = (k, v)" by (cases m)
  have k: "k \<noteq> []" "json_ok v" using Cons.prems(1) m by auto
  then have st: "value_start (json_stringify v)" by (rule_tac json_stringify_start)
  have v: "parse_value Value (json_stringify v @ q) = Inr (0, v, q)" if "delim q" for q
    using Cons.prems(1) m that by auto
  have put: "json_put k v acc = acc @ [m]"
    using Cons.prems(2) m json_put_new [of k acc v] by auto
  have one: "parse_value (Members acc) (json_member_text m @ q) = parse_value (Members (acc @ [m])) (skip_comma q)"
    if "delim q" for q
  proof -
    have "json_string (tl (json_member_text m @ q)) = Inr (Some k, '':'' @ json_stringify v @ q)"
      using json_string_quoted [of k "'':'' @ json_stringify v @ q"]
      by (simp add: m json_member_text_def json_quoted_def skip_spaces_def json_space_def)
    moreover have "hd (json_member_text m @ q) = DQUOTE" "json_member_text m \<noteq> []"
      by (simp_all add: json_member_text_def json_quoted_def)
    ultimately show ?thesis
      using k v [OF that] st put
      by (simp add: parse_value.simps(3) [of acc "json_member_text m @ q"] brace_no_quote)
  qed
  show ?case
  proof (cases ms)
    case Nil
    then show ?thesis
      using one [of "CHR ''}'' # r"] Cons.prems(3) by (simp add: parse_value.simps(3))
  next
    case (Cons n ns)
    have "value_start (comma_list (CHR ''}'') (map json_member_text ms))" using Cons by simp
    then show ?thesis
      using one [of "CHR '','' # comma_list (CHR ''}'') (map json_member_text ms) @ r"]
        Cons.IH [of "acc @ [m]"] Cons.prems Cons
      by simp
  qed
qed

lemma number_read_back:
  assumes "number_text t" and "delim r"
  shows "parse_value Value (t @ r) = Inr (0, JNumber t, r)"
proof -
  obtain c cs where t: "t = c # cs" "c = CHR ''-'' \<or> is_digit c"
    using number_text_start [OF assms(1)] by blast
  have "c \<noteq> CHR ''['' \<and> c \<noteq> CHR ''{'' \<and> c \<noteq> DQUOTE \<and> c \<noteq> CHR ''t'' \<and> c \<noteq> CHR ''f'' \<and> c \<noteq> CHR ''n''"
    using t(2) by (auto simp: is_digit_def json_chars)
  with json_number_append [OF assms] t(1) show ?thesis
    by (simp add: parse_value.simps(1) json_scalar_def)
qed

lemma value_read_back:
  "json_ok v \<Longrightarrow> delim r \<Longrightarrow> parse_value Value (json_stringify v @ r) = Inr (0, v, r)"
proof (induction v arbitrary: r)
  case (JArray vs)
  then have "\<forall>v\<in>set vs. json_ok v \<and> (\<forall>r. delim r \<longrightarrow> parse_value Value (json_stringify v @ r) = Inr (0, v, r))"
    by simp
  from elements_read_back [OF this JArray.prems(2), of "[]"] show ?case
    unfolding json_stringify_array
    using comma_list_spaces [of "map json_stringify vs" "CHR '']''" r] JArray.prems(1) json_stringify_start
    by (simp add: parse_value.simps(1))
next
  case (JObject ms)
  then have "\<forall>(k, v)\<in>set ms. k \<noteq> [] \<and> json_ok v \<and>
             (\<forall>r. delim r \<longrightarrow> parse_value Value (json_stringify v @ r) = Inr (0, v, r))"
    by fastforce
  from members_read_back [OF this, of "[]" r] JObject.prems json_stringify_object [of ms]
    comma_list_spaces [of "map json_member_text ms" "CHR ''}''" r]
  show ?case
    by (simp del: json_stringify.simps add: parse_value.simps(1) case_prod_beta)
next
  case (JNumber t)
  then show ?case by (simp add: number_read_back)
next
  case (JString s)
  then show ?case
    using json_string_quoted [of s r]
    by (simp add: parse_value.simps(1) json_scalar_def json_quoted_def json_chars)
qed (simp_all add: parse_value.simps(1) json_scalar_def json_literal_def json_chars)

lemma json_read_back:
  "json_ok v \<Longrightarrow> node \<noteq> JFallback \<Longrightarrow>
     json_parse (json_stringify v) node = Inr (True, v, \<lparr>code_ = 0, pos_ = 0\<rparr>)"
  using value_read_back [of v "[]"] json_stringify_start [of v] by (simp add: json_parse_def)

end
