(* ===== verification/Json_Bounds.thy ===== *)
theory Json_Bounds
  imports Json_Facts
begin

text \<open>
  Where the JSON parser stops: what is left unread is a suffix of the text, and the texts it is
  undefined on are those that end inside an escape \<open>\u\<close>.
\<close>

section \<open>Where the parser stops\<close>

text \<open>What is left unread is the end of the text.\<close>

lemma skip_spaces_suffix: "suffix (skip_spaces s) s"
  by (simp add: skip_spaces_def suffix_dropWhile)

lemma skip_spaces_suffixI: "suffix s t \<Longrightarrow> suffix (skip_spaces s) t"
  by (rule suffix_order.trans [OF skip_spaces_suffix])

lemma skip_comma_suffix: "suffix s t \<Longrightarrow> suffix (skip_comma s) t"
proof (rule suffix_order.trans)
  show "suffix (skip_comma s) s"
    by (auto simp: skip_comma_def intro: suffix_ConsI skip_spaces_suffix split: list.splits)
qed

lemma tl_suffixI: "suffix s t \<Longrightarrow> suffix (tl s) t"
  using suffix_order.trans [OF suffix_tl] by blast

lemma match_letters_suffix: "match_letters ws s = (b, r) \<Longrightarrow> suffix r s"
  by (induction ws s rule: match_letters.induct) (auto intro: suffix_ConsI split: if_splits)

lemma some_digits_suffix: "some_digits s = (b, r) \<Longrightarrow> suffix r s"
  by (auto simp: some_digits_def intro: suffix_ConsI suffix_dropWhile split: list.splits if_splits)

lemma json_fraction_suffix: "json_fraction s = (b, r) \<Longrightarrow> suffix r s"
  by (auto simp: json_fraction_def intro: suffix_ConsI dest!: some_digits_suffix split: list.splits if_splits)

lemma json_exponent_suffix: "json_exponent s = (b, r) \<Longrightarrow> suffix r s"
  by (auto simp: json_exponent_def intro: suffix_ConsI dest!: some_digits_suffix split: list.splits if_splits)

lemma json_number_suffix:
  assumes "json_number s = (code, v, r)"
  shows "suffix r s"
proof -
  define neg where "neg = (take 1 s = ''-'')"
  define s1 where "s1 = (if neg then tl s else s)"
  note eq = json_number_def [of s, unfolded Let_def, folded neg_def, folded s1_def]
  have l: "suffix s1 s" by (simp add: s1_def suffix_tl)
  show ?thesis
  proof (cases s1)
    case Nil
    with assms show ?thesis unfolding eq by simp
  next
    case (Cons c cs)
    define s2 where "s2 = (if c = CHR ''0'' then cs else dropWhile is_digit s1)"
    show ?thesis
    proof (cases "is_digit c")
      case False
      with assms Cons l show ?thesis unfolding eq by simp
    next
      case True
      have "suffix s2 s1" using Cons by (auto simp: s2_def suffix_dropWhile intro: suffix_ConsI)
      then have 2: "suffix s2 s" using l by (rule suffix_order.trans)
      obtain b s3 where 3: "json_fraction s2 = (b, s3)" by (cases "json_fraction s2")
      have three: "suffix s3 s" using json_fraction_suffix [OF 3] 2 by (rule suffix_order.trans)
      obtain b' s4 where 4: "json_exponent s3 = (b', s4)" by (cases "json_exponent s3")
      have four: "suffix s4 s" using json_exponent_suffix [OF 4] three by (rule suffix_order.trans)
      from assms Cons True 3 4 show ?thesis
        unfolding eq s2_def [symmetric]
        using three four skip_spaces_suffixI [OF four] by (auto simp: s2_def split: bool.splits)
    qed
  qed
qed

lemma parse_string_loop_suffix: "parse_string_loop str raw prev s = Inr (x, r) \<Longrightarrow> suffix r s"
proof (induction str raw prev s rule: parse_string_loop.induct)
  case (1 str raw prev)
  then show ?case by (simp add: parse_string_loop.simps)
next
  case (2 str raw prev c cs)
  consider "c = DQUOTE" | "c \<noteq> DQUOTE" "c \<noteq> BSLASH" | "c = BSLASH" "cs = []"
    | n rest where "c = BSLASH" "cs = n # rest" by (cases cs) auto
  then show ?case
  proof cases
    case 1
    with "2.prems" show ?thesis
      by (auto simp: parse_string_loop.simps intro: suffix_ConsI skip_spaces_suffix)
  next
    case 2
    with "2.prems" "2.IH" show ?thesis by (fastforce simp: parse_string_loop.simps intro: suffix_ConsI)
  next
    case 3
    with "2.prems" show ?thesis by (simp add: parse_string_loop.simps json_chars)
  next
    case 4
    have q: "c \<noteq> DQUOTE" using 4 by (simp add: json_chars)
    note eq = parse_string_loop.simps(2) [of str raw prev c cs]
    have d: "suffix r rest" if "suffix r (drop k rest)" for k
      using that suffix_drop by (rule suffix_order.trans)
    have "suffix r rest"
      using 4 q "2.prems" "2.IH"
      unfolding eq by (force intro: d split: option.splits if_splits hex4.splits)
    then show ?thesis using 4 by (auto intro: suffix_ConsI)
  qed
qed

lemma json_string_suffix: "json_string s = Inr (x, r) \<Longrightarrow> suffix r s"
  unfolding json_string_def by (rule parse_string_loop_suffix)

lemma json_scalar_suffix:
  assumes "json_scalar s = Inr (code, v, r)"
  shows "suffix r s"
proof -
  have l: "suffix r s" if "json_literal ls w (tl s) = (code, v, r)" for ls w
    using that by (auto simp: json_literal_def intro: suffix_order.trans [OF _ suffix_tl]
        dest!: match_letters_suffix split: prod.splits bool.splits)
  have t: "suffix r s" if "json_string (tl s) = Inr (x, r)" for x
    using json_string_suffix [OF that] suffix_tl by (rule suffix_order.trans)
  show ?thesis
    using assms l t json_number_suffix [of s code v r]
    by (auto simp: json_scalar_def split: if_splits sum.splits option.splits)
qed

lemma parse_value_suffix: "parse_value m s = Inr (code, v, r) \<Longrightarrow> suffix r s"
proof (induction m s arbitrary: code v r rule: parse_value.induct)
  case (1 s)
  have "suffix r s" if "suffix r (skip_spaces (tl s))"
    using that skip_spaces_suffixI [OF suffix_tl] by (rule suffix_order.trans)
  with 1 json_scalar_suffix [of s code v r] show ?case
    by (cases "s = []") (simp_all add: parse_value.simps(1) split: if_splits)
next
  case (2 vs s)
  show ?case
  proof (cases "s = [] \<or> hd s = CHR '']''")
    case True
    with "2.prems" show ?thesis
      by (cases "s = []") (auto simp: parse_value.simps(2) intro: skip_spaces_suffixI suffix_tl)
  next
    case False
    with "2.prems" obtain c' v' r' where v: "parse_value Value s = Inr (c', v', r')"
      by (auto simp: parse_value.simps(2) split: sum.splits)
    have r': "suffix r' s" using "2.IH"(1) False v by auto
    show ?thesis
    proof (cases "c' = 0")
      case True
      with "2.prems" False v have w: "parse_value (Elements (vs @ [v'])) (skip_comma r') = Inr (code, v, r)"
        by (simp add: parse_value.simps(2) [of vs s])
      have "suffix r (skip_comma r')" using "2.IH"(2) False v w True by auto
      then show ?thesis using skip_comma_suffix [OF r'] by (rule suffix_order.trans)
    next
      case c: False
      with "2.prems" False v r' show ?thesis by (simp add: parse_value.simps(2))
    qed
  qed
next
  case (3 ms s)
  show ?case
  proof (cases "s = [] \<or> hd s = CHR ''}'' \<or> hd s \<noteq> DQUOTE")
    case True
    with "3.prems" show ?thesis
      by (auto simp: parse_value.simps(3) intro: skip_spaces_suffixI suffix_tl split: if_splits)
  next
    case False
    with "3.prems" obtain found q where k: "json_string (tl s) = Inr (found, q)"
      by (auto simp: parse_value.simps(3) split: sum.splits)
    have q: "suffix q s" using json_string_suffix [OF k] suffix_tl by (rule suffix_order.trans)
    define key where "key = (case found of None \<Rightarrow> [] | Some k \<Rightarrow> k)"
    show ?thesis
    proof (cases "key = [] \<or> q = [] \<or> hd q \<noteq> CHR '':''")
      case True
      with "3.prems" False k q show ?thesis
        by (simp add: parse_value.simps(3) key_def [symmetric] Let_def split: if_splits)
    next
      case n: False
      with "3.prems" False k obtain c' v' r' where v: "parse_value Value (skip_spaces (tl q)) = Inr (c', v', r')"
        by (auto simp: parse_value.simps(3) key_def Let_def split: sum.splits)
      have "suffix r' (skip_spaces (tl q))"
        using "3.IH"(1) False k n v by (auto simp: key_def)
      then have r': "suffix r' s"
        using skip_spaces_suffixI [OF tl_suffixI [OF q]] by (rule suffix_order.trans)
      show ?thesis
      proof (cases "c' = 0")
        case True
        with "3.prems" False k n v
        have w: "parse_value (Members (json_put key v' ms)) (skip_comma r') = Inr (code, v, r)"
          by (simp add: parse_value.simps(3) [of ms s] key_def Let_def brace_no_quote)
        have "suffix r (skip_comma r')" using "3.IH"(2) False k n v w True by (auto simp: key_def)
        then show ?thesis using skip_comma_suffix [OF r'] by (rule suffix_order.trans)
      next
        case c: False
        with "3.prems" False k n v r' show ?thesis
          by (simp add: parse_value.simps(3) key_def Let_def brace_no_quote)
      qed
    qed
  qed
qed

section \<open>Escapes cut by the end of the text\<close>

definition ends_in_escape :: "string \<Rightarrow> bool" where
  "ends_in_escape s \<longleftrightarrow>
     (\<exists>hex\<in>set (suffixes s). length hex < 4 \<and> (\<forall>c\<in>set hex. hex_value c \<noteq> None) \<and>
        suffix (BSLASH # CHR ''u'' # hex) s)"

lemma ends_in_escape_suffix: "ends_in_escape r \<Longrightarrow> suffix r s \<Longrightarrow> ends_in_escape s"
  unfolding ends_in_escape_def by (auto intro: suffix_order.trans)

lemma parse_hexdigits_end:
  "parse_hexdigits n seen ucp s = HexEnd \<Longrightarrow> length s < n \<and> (\<forall>c\<in>set s. hex_value c \<noteq> None)"
  by (induction n seen ucp s rule: parse_hexdigits.induct) (auto split: option.splits)

lemma parse_hexdigits_cut:
  "length s < n \<Longrightarrow> \<forall>c\<in>set s. hex_value c \<noteq> None \<Longrightarrow> parse_hexdigits n seen ucp s = HexEnd"
  by (induction n seen ucp s rule: parse_hexdigits.induct) auto

lemma parse_string_loop_undefined:
  "parse_string_loop str raw prev s = Inl e \<Longrightarrow> e = Undefined OutOfBounds \<and> ends_in_escape s"
proof (induction str raw prev s rule: parse_string_loop.induct)
  case (1 str raw prev)
  then show ?case by (simp add: parse_string_loop.simps)
next
  case (2 str raw prev c cs)
  consider "c = DQUOTE" | "c \<noteq> DQUOTE" "c \<noteq> BSLASH" | "c = BSLASH" "cs = []"
    | n rest where "c = BSLASH" "cs = n # rest" by (cases cs) auto
  then show ?case
  proof cases
    case 1
    with "2.prems" show ?thesis by (simp add: parse_string_loop.simps)
  next
    case 2
    with "2.prems" "2.IH" have "e = Undefined OutOfBounds \<and> ends_in_escape cs"
      by (simp add: parse_string_loop.simps(2))
    then show ?thesis by (auto intro: ends_in_escape_suffix suffix_ConsI)
  next
    case 3
    with "2.prems" show ?thesis by (simp add: parse_string_loop.simps json_chars)
  next
    case 4
    have q: "c \<noteq> DQUOTE" using 4 by (simp add: json_chars)
    show ?thesis
    proof (cases "json_escape n = None \<and> n = CHR ''u'' \<and> parse_4hexdigits rest = HexEnd")
      case True
      then have "length rest < 4" "\<forall>c\<in>set rest. hex_value c \<noteq> None"
        using parse_hexdigits_end [of 4 0 0 rest] by (simp_all add: parse_4hexdigits_def)
      moreover have "rest \<in> set (suffixes (c # cs))" using 4 by (simp add: suffix_ConsI)
      ultimately have "ends_in_escape (c # cs)"
        using 4 True unfolding ends_in_escape_def by blast
      with "2.prems" q 4 True show ?thesis by (simp add: parse_string_loop.simps(2) json_escape_Some)
    next
      case False
      note eq = parse_string_loop.simps(2) [of str raw prev c cs]
      have d: "e = Undefined OutOfBounds \<and> ends_in_escape rest"
        if "e = Undefined OutOfBounds \<and> ends_in_escape (drop k rest)" for k
        using that by (auto intro: ends_in_escape_suffix suffix_drop)
      consider (esc) x where "json_escape n = Some x"
        | (stop) k where "json_escape n = None" "n = CHR ''u''" "parse_4hexdigits rest = HexStop k"
        | (hex) ucp where "json_escape n = None" "n = CHR ''u''" "parse_4hexdigits rest = HexDigits ucp"
        | (other) "json_escape n = None" "n \<noteq> CHR ''u''"
        using False by (cases "json_escape n"; cases "parse_4hexdigits rest") auto
      then have "e = Undefined OutOfBounds \<and> ends_in_escape rest"
      proof cases
        case esc
        with "2.IH"(5) "2.prems" q 4 show ?thesis unfolding eq by simp
      next
        case stop
        with "2.IH"(3) "2.prems" q 4 have "e = Undefined OutOfBounds \<and> ends_in_escape (drop k rest)"
          unfolding eq by (simp add: json_escape_Some)
        then show ?thesis by (rule d)
      next
        case hex
        with "2.IH"(1,2) "2.prems" q 4 have "e = Undefined OutOfBounds \<and> ends_in_escape (drop 4 rest)"
          unfolding eq by (simp add: json_escape_Some split: if_splits)
        then show ?thesis by (rule d)
      next
        case other
        with "2.IH"(4) "2.prems" q 4 show ?thesis unfolding eq by simp
      qed
      then show ?thesis using 4 by (auto intro: ends_in_escape_suffix suffix_ConsI)
    qed
  qed
qed

lemma json_string_undefined: "json_string s = Inl e \<Longrightarrow> e = Undefined OutOfBounds \<and> ends_in_escape s"
  unfolding json_string_def by (rule parse_string_loop_undefined)

lemma parse_value_undefined:
  "parse_value m s = Inl e \<Longrightarrow> e = Undefined OutOfBounds \<and> ends_in_escape s"
proof (induction m s rule: parse_value.induct)
  case (1 s)
  have "e = Undefined OutOfBounds \<and> ends_in_escape s"
    if "e = Undefined OutOfBounds \<and> ends_in_escape (skip_spaces (tl s))"
    using that ends_in_escape_suffix skip_spaces_suffixI [OF suffix_tl] by blast
  moreover have "e = Undefined OutOfBounds \<and> ends_in_escape s" if "json_scalar s = Inl e"
    using that json_string_undefined [of "tl s" e] ends_in_escape_suffix [OF _ suffix_tl]
    by (auto simp: json_scalar_def split: if_splits sum.splits option.splits)
  ultimately show ?case
    using 1 by (auto simp: parse_value.simps(1) split: if_splits)
next
  case (2 vs s)
  then have n: "s \<noteq> []" "hd s \<noteq> CHR '']''" by (auto simp: parse_value.simps(2) split: if_splits)
  show ?case
  proof (cases "parse_value Value s")
    case (Inl e')
    with 2 n show ?thesis by (simp add: parse_value.simps(2))
  next
    case (Inr x)
    then obtain c' v' r' where v: "parse_value Value s = Inr (c', v', r')" by (cases x) auto
    with "2.prems" n have c: "c' = 0" and w: "parse_value (Elements (vs @ [v'])) (skip_comma r') = Inl e"
      by (simp_all add: parse_value.simps(2) [of vs s] split: if_splits)
    have "e = Undefined OutOfBounds \<and> ends_in_escape (skip_comma r')"
      using "2.IH"(2) n v c w by auto
    then show ?thesis using ends_in_escape_suffix skip_comma_suffix [OF parse_value_suffix [OF v]] by blast
  qed
next
  case (3 ms s)
  then have n: "s \<noteq> []" "hd s \<noteq> CHR ''}''" "hd s = DQUOTE"
    by (auto simp: parse_value.simps(3) split: if_splits)
  show ?case
  proof (cases "json_string (tl s)")
    case (Inl e')
    with "3.prems" n show ?thesis
      using json_string_undefined [OF Inl] ends_in_escape_suffix [OF _ suffix_tl]
      by (simp add: parse_value.simps(3))
  next
    case (Inr x)
    then obtain found q where k: "json_string (tl s) = Inr (found, q)" by (cases x) auto
    have q: "suffix q s" using json_string_suffix [OF k] suffix_tl by (rule suffix_order.trans)
    define key where "key = (case found of None \<Rightarrow> [] | Some k \<Rightarrow> k)"
    from "3.prems" n k have m: "key \<noteq> []" "q \<noteq> []" "hd q = CHR '':''"
      by (auto simp: parse_value.simps(3) key_def Let_def split: if_splits)
    have s: "suffix (skip_spaces (tl q)) s" by (rule skip_spaces_suffixI [OF tl_suffixI [OF q]])
    show ?thesis
    proof (cases "parse_value Value (skip_spaces (tl q))")
      case (Inl e')
      with "3.prems" n k m have "e = e'" by (simp add: parse_value.simps(3) key_def Let_def)
      then have "e = Undefined OutOfBounds \<and> ends_in_escape (skip_spaces (tl q))"
        using "3.IH"(1) n k m Inl by (auto simp: key_def)
      then show ?thesis using ends_in_escape_suffix [OF _ s] by blast
    next
      case (Inr y)
      then obtain c' v' r' where v: "parse_value Value (skip_spaces (tl q)) = Inr (c', v', r')" by (cases y) auto
      have r': "suffix r' s" using parse_value_suffix [OF v] s by (rule suffix_order.trans)
      from "3.prems" n k m v have c: "c' = 0"
        and w: "parse_value (Members (json_put key v' ms)) (skip_comma r') = Inl e"
        by (simp_all add: parse_value.simps(3) [of ms s] key_def Let_def split: if_splits)
      have "e = Undefined OutOfBounds \<and> ends_in_escape (skip_comma r')"
        using "3.IH"(2) n k m v c w by (auto simp: key_def)
      then show ?thesis using ends_in_escape_suffix skip_comma_suffix [OF r'] by blast
    qed
  qed
qed

lemma json_parse_undefined:
  assumes "json_parse s node = Inl e"
  shows "e = Undefined OutOfBounds \<and> ends_in_escape s"
proof -
  from assms have "parse_value Value (skip_spaces s) = Inl e"
    by (auto simp: json_parse_def split: if_splits sum.splits)
  then show ?thesis using parse_value_undefined ends_in_escape_suffix [OF _ skip_spaces_suffix] by blast
qed

text \<open>The other way round: a string that is cut inside its escape.\<close>

lemma json_string_cut:
  assumes "DQUOTE \<notin> set t" and "BSLASH \<notin> set t" and "length hex < 4"
    and "\<forall>c\<in>set hex. hex_value c \<noteq> None"
  shows "parse_value Value (DQUOTE # t @ BSLASH # CHR ''u'' # hex) = Inl (Undefined OutOfBounds)"
proof -
  have h: "parse_4hexdigits hex = HexEnd"
    unfolding parse_4hexdigits_def by (rule parse_hexdigits_cut [OF assms(3,4)])
  have "json_string (t @ BSLASH # CHR ''u'' # hex) = Inl (Undefined OutOfBounds)"
    unfolding json_string_def parse_plain [OF assms(1,2)]
    by (simp add: parse_string_loop.simps(2) h json_escape_Some) (simp add: json_chars)
  then show ?thesis
    by (simp add: parse_value.simps(1) json_scalar_def) (simp add: json_chars)
qed

text \<open>
  Between the two halves of a surrogate pair the text that needs no escape is neither appended nor
  kept: the second half writes over the first, and the text is gone.
\<close>

lemma surrogates_lose_text:
  assumes "DQUOTE \<notin> set t" and "BSLASH \<notin> set t"
    and "parse_4hexdigits (a @ BSLASH # CHR ''u'' # b @ s) = HexDigits hi" and "length a = 4" and "high_surrogate hi"
    and "parse_4hexdigits (a @ t @ BSLASH # CHR ''u'' # b @ s) = HexDigits hi"
    and "parse_4hexdigits (b @ s) = HexDigits lo" and "length b = 4" and "low_surrogate lo"
  shows "json_string (BSLASH # CHR ''u'' # a @ t @ BSLASH # CHR ''u'' # b @ s) =
         json_string (BSLASH # CHR ''u'' # a @ BSLASH # CHR ''u'' # b @ s)"
proof -
  have q: "BSLASH \<noteq> DQUOTE" by (simp add: json_chars)
  have hi: "\<not> low_surrogate hi \<and> hi \<noteq> 0" using assms(5) by (simp add: high_surrogate_def low_surrogate_def)
  have "parse_string_loop str raw hi (BSLASH # CHR ''u'' # b @ s) =
        parse_string_loop (join_surrogates hi lo str) [] 0 s" for str raw
    using assms(7-9) hi q by (simp add: parse_string_loop.simps(2) json_escape_Some)
  then show ?thesis
    using assms(3-6) hi q parse_plain [OF assms(1,2)]
    by (simp add: json_string_def parse_string_loop.simps(2) [of _ _ 0] json_escape_Some)
qed

end
