(* ===== verification/Cm_Fetcher.thy ===== *)
theory Cm_Fetcher
  imports Json_Bounds
begin

text \<open>
  \<open>Web::CMFetcher\<close> (src/web/cmfetcher.hpp, src/web/cmfetcher.cpp): the list of CM servers and
  the request that refreshes it, whose response the JSON parser of Ctl_Json reads. libcurl is a
  parameter. The mutex guards the list between threads; the program uses the fetcher from one,
  so it is left out.
\<close>

section \<open>\<open>std::stoi\<close>\<close>

text \<open>
  Skips white space, takes an optional sign and the longest run of digits; no digit is
  \<open>invalid_argument\<close>, a value that is no \<open>int\<close> is \<open>out_of_range\<close>.
\<close>

definition c_space :: "char \<Rightarrow> bool" where
  "c_space c \<longleftrightarrow> (let n = of_char c :: nat in n = 32 \<or> (9 \<le> n \<and> n \<le> 13))"

definition split_sign :: "string \<Rightarrow> bool \<times> string" where
  "split_sign s =
     (case s of
        [] \<Rightarrow> (False, [])
      | c # cs \<Rightarrow>
          if c = CHR ''-'' then (True, cs) else if c = CHR ''+'' then (False, cs) else (False, s))"

definition stoi :: "string \<Rightarrow> error + int" where
  "stoi s =
     (let (neg, body) = split_sign (dropWhile c_space s);
          digits = takeWhile is_digit body;
          v = (if neg then - int (dec_value digits) else int (dec_value digits))
      in if digits = [] then Inl (Exn (InvalidArgument ''stoi''))
         else if v < - (2 ^ 31) \<or> 2 ^ 31 \<le> v then Inl (Exn (OutOfRange ''stoi''))
         else Inr v)"

section \<open>The fetcher\<close>

type_synonym server = "string \<times> int"

record CMFetcher =
  servers :: "server list"

definition CMFetcher_new :: CMFetcher where
  "CMFetcher_new = \<lparr>servers = []\<rparr>"

text \<open>
  \<open>curl_easy_init\<close> gives a handle or not; \<open>curl_easy_perform\<close> hands the body of the response
  to the write callback piece by piece and returns a code, 0 being \<open>CURLE_OK\<close>.
\<close>

record curl_api =
  curl_easy_init :: bool
  curl_easy_perform :: "string \<Rightarrow> string list \<times> nat"

definition curl_write_callback :: "string \<Rightarrow> string \<Rightarrow> string" where
  "curl_write_callback contents str = str @ contents"

definition CM_LIST_URL :: string where
  "CM_LIST_URL =
     ''https://api.steampowered.com/ISteamDirectory/GetCMListForConnect/v1/'' @
     ''?cellid=0&cmtype=netfilter''"

text \<open>
  One round of the loop: \<open>None\<close> is the \<open>continue\<close> of an endpoint without a colon. The port is
  converted before the server is appended.
\<close>

definition parse_endpoint :: "string \<Rightarrow> error + server option" where
  "parse_endpoint endpoint =
     (let ip = takeWhile (\<lambda>c. c \<noteq> CHR '':'') endpoint in
      case drop (length ip) endpoint of
        [] \<Rightarrow> Inr None
      | _ # port \<Rightarrow> bindE (stoi port) (\<lambda>p. Inr (Some (ip, p))))"

fun add_endpoints :: "string list \<Rightarrow> server list \<Rightarrow> (error + unit) \<times> server list" where
  "add_endpoints [] found = (Inr (), found)"
| "add_endpoints (e # es) found =
     (case parse_endpoint e of
        Inl err \<Rightarrow> (Inl err, found)
      | Inr None \<Rightarrow> add_endpoints es found
      | Inr (Some s) \<Rightarrow> add_endpoints es (found @ [s]))"

definition endpoints :: "json \<Rightarrow> string list" where
  "endpoints root =
     (let list_node = json_key (json_key root ''response'') ''serverlist'' in
      map (\<lambda>i. json_str (json_key (json_at list_node i) ''endpoint'')) [0..<json_size list_node])"

text \<open>The early returns leave the list as it is.\<close>

definition fetch_cm_servers :: "curl_api \<Rightarrow> CMFetcher \<Rightarrow> (error + bool) \<times> CMFetcher" where
  "fetch_cm_servers curl f =
     (if \<not> curl_easy_init curl then (Inr False, f)
      else
        (let (chunks, res) = curl_easy_perform curl CM_LIST_URL;
             response = fold curl_write_callback chunks []
         in if res \<noteq> 0 then (Inr False, f)
            else case json_parse response JUnassigned of
                   Inl e \<Rightarrow> (Inl e, f)
                 | Inr (False, _, _) \<Rightarrow> (Inr False, f)
                 | Inr (True, root, _) \<Rightarrow>
                     (case add_endpoints (endpoints root) [] of
                        (Inl e, found) \<Rightarrow> (Inl e, f\<lparr>servers := found\<rparr>)
                      | (Inr _, found) \<Rightarrow> (Inr (found \<noteq> []), f\<lparr>servers := found\<rparr>))))"

definition get_servers :: "CMFetcher \<Rightarrow> server list" where
  "get_servers f = servers f"

section \<open>What is fetched\<close>

lemma response_concat: "fold curl_write_callback chunks acc = acc @ concat chunks"
  by (induction chunks arbitrary: acc) (simp_all add: curl_write_callback_def)

lemma digit_not_special: "is_digit c \<Longrightarrow> \<not> c_space c \<and> c \<noteq> CHR ''-'' \<and> c \<noteq> CHR ''+'' \<and> c \<noteq> CHR '':''"
  by (auto simp: is_digit_def c_space_def)

text \<open>What \<open>std::to_string\<close> prints of a port is read back, whatever non-digit follows.\<close>

lemma stoi_dec_string:
  assumes "n < 2 ^ 31" and "rest = [] \<or> \<not> is_digit (hd rest)"
  shows "stoi (dec_string n @ rest) = Inr (int n)"
proof -
  obtain c cs where c: "dec_string n = c # cs" by (metis dec_string_not_Nil list.exhaust)
  then have d: "is_digit c" using dec_string_digits [of n] by simp
  have "takeWhile is_digit (dec_string n @ rest) = dec_string n"
    using dec_string_digits [of n] assms(2) by (cases rest) (auto simp: takeWhile_append)
  moreover have "dropWhile c_space (dec_string n @ rest) = dec_string n @ rest"
    and "split_sign (dec_string n @ rest) = (False, dec_string n @ rest)"
    using c digit_not_special [OF d] by (simp_all add: split_sign_def)
  ultimately show ?thesis using assms(1) by (simp add: stoi_def)
qed

lemma parse_endpoint_host_port:
  assumes "CHR '':'' \<notin> set host"
  shows "parse_endpoint (host @ CHR '':'' # port) = bindE (stoi port) (\<lambda>p. Inr (Some (host, p)))"
proof -
  have "takeWhile (\<lambda>c. c \<noteq> CHR '':'') (host @ CHR '':'' # port) = host"
    using assms by (auto simp: takeWhile_append)
  then show ?thesis by (simp add: parse_endpoint_def)
qed

lemma parse_endpoint_no_colon:
  assumes "CHR '':'' \<notin> set e"
  shows "parse_endpoint e = Inr None"
proof -
  have "takeWhile (\<lambda>c. c \<noteq> CHR '':'') e = e" using assms by (auto simp: takeWhile_eq_all_conv)
  then show ?thesis by (simp add: parse_endpoint_def del: takeWhile_eq_all_conv)
qed

definition endpoint_of :: "string \<times> nat \<Rightarrow> string" where
  "endpoint_of hp = fst hp @ CHR '':'' # dec_string (snd hp)"

lemma parse_endpoint_of:
  "CHR '':'' \<notin> set (fst hp) \<Longrightarrow> snd hp < 2 ^ 31 \<Longrightarrow>
    parse_endpoint (endpoint_of hp) = Inr (Some (fst hp, int (snd hp)))"
  using stoi_dec_string [of "snd hp" "[]"] by (simp add: endpoint_of_def parse_endpoint_host_port)

text \<open>A list of well-formed endpoints becomes the list of servers, in its order.\<close>

lemma add_endpoints_wf:
  "\<forall>hp \<in> set hps. CHR '':'' \<notin> set (fst hp) \<and> snd hp < 2 ^ 31 \<Longrightarrow>
    add_endpoints (map endpoint_of hps) found =
      (Inr (), found @ map (\<lambda>hp. (fst hp, int (snd hp))) hps)"
  by (induction hps arbitrary: found) (simp_all add: parse_endpoint_of)

text \<open>A refresh that does not get a list reports \<open>false\<close> and keeps the old servers.\<close>

lemma fetch_failed_keeps:
  assumes "\<not> curl_easy_init curl \<or> snd (curl_easy_perform curl CM_LIST_URL) \<noteq> 0 \<or>
    json_parse (concat (fst (curl_easy_perform curl CM_LIST_URL))) JUnassigned = Inr (False, root, err)"
  shows "fetch_cm_servers curl f = (Inr False, f)"
  using assms by (auto simp: fetch_cm_servers_def response_concat split: prod.splits)

text \<open>A refresh is undefined only where the response ends inside an escape.\<close>

lemma add_endpoints_defined: "fst (add_endpoints es found) \<noteq> Inl (Undefined u)"
  by (induction es found rule: add_endpoints.induct)
    (auto simp: parse_endpoint_def stoi_def Let_def bindE_Inl_iff
      split: list.splits sum.splits option.splits prod.splits if_splits)

lemma fetch_undefined:
  assumes "fst (fetch_cm_servers curl f) = Inl (Undefined u)"
  shows "u = OutOfBounds \<and> ends_in_escape (concat (fst (curl_easy_perform curl CM_LIST_URL)))"
proof -
  obtain chunks res where c: "curl_easy_perform curl CM_LIST_URL = (chunks, res)" by fastforce
  show ?thesis
  proof (cases "json_parse (concat chunks) JUnassigned")
    case (Inl e)
    with assms c have "e = Undefined u"
      by (simp add: fetch_cm_servers_def response_concat split: if_splits)
    with json_parse_undefined [OF Inl] c show ?thesis by simp
  next
    case (Inr x)
    then obtain ok root err where x: "json_parse (concat chunks) JUnassigned = Inr (ok, root, err)"
      by (cases x) auto
    obtain r found where a: "add_endpoints (endpoints root) [] = (r, found)" by fastforce
    with add_endpoints_defined [of "endpoints root" "[]" u] have "r \<noteq> Inl (Undefined u)" by simp
    with assms c x a have False
      by (cases r; cases ok) (simp_all add: fetch_cm_servers_def response_concat split: if_splits)
    then show ?thesis ..
  qed
qed

text \<open>The response of the directory for a list of servers, and what a refresh makes of it.\<close>

definition server_reply :: "(string \<times> nat) list \<Rightarrow> json" where
  "server_reply hps =
     JObject [(''response'', JObject [(''serverlist'',
       JArray (map (\<lambda>hp. JObject [(''endpoint'', JString (endpoint_of hp))]) hps))])]"

lemma server_reply_ok: "json_ok (server_reply hps)"
  by (auto simp: server_reply_def)

lemma endpoints_server_reply: "endpoints (server_reply hps) = map endpoint_of hps"
  by (rule nth_equalityI)
    (simp_all add: endpoints_def server_reply_def json_key_def json_at_def json_size_def json_str_def)

lemma fetch_printed:
  assumes "curl_easy_perform curl CM_LIST_URL = (chunks, 0)" and "curl_easy_init curl"
    and "concat chunks = json_stringify root" and "json_ok root"
    and "endpoints root = map endpoint_of hps"
    and "\<forall>hp \<in> set hps. CHR '':'' \<notin> set (fst hp) \<and> snd hp < 2 ^ 31"
  shows "fetch_cm_servers curl f =
    (Inr (hps \<noteq> []), f\<lparr>servers := map (\<lambda>hp. (fst hp, int (snd hp))) hps\<rparr>)"
  using assms(1-3,5) json_read_back [OF assms(4), of JUnassigned] add_endpoints_wf [OF assms(6), of "[]"]
  by (simp add: fetch_cm_servers_def response_concat)

text \<open>A response of spaces, or an empty one, parses: the list is dropped.\<close>

lemma fetch_blank:
  assumes "curl_easy_perform curl CM_LIST_URL = (chunks, 0)" and "curl_easy_init curl"
    and "\<forall>c\<in>set (concat chunks). json_space c"
  shows "fetch_cm_servers curl f = (Inr False, f\<lparr>servers := []\<rparr>)"
proof -
  have "skip_spaces (concat chunks) = []" using assms(3) by (auto simp: skip_spaces_def)
  then have "json_parse (concat chunks) JUnassigned = Inr (True, JUnassigned, \<lparr>code_ = 0, pos_ = 0\<rparr>)"
    by (simp add: json_parse_def parse_value.simps(1))
  with assms(1,2) show ?thesis
    by (simp add: fetch_cm_servers_def response_concat endpoints_def json_key_def json_size_def)
qed

end
