(* ===== verification/Tcp_Connection.thy ===== *)
theory Tcp_Connection
  imports Cm_Fetcher Steam_Messages
begin

text \<open>
  \<open>IConnection\<close> (include/steamclient/connections/connection.hpp) and \<open>TCPConnection\<close>
  (include/steamclient/connections/tcp.hpp, src/network/connection/tcp.cpp): the framing of the
  byte stream, the write queue, the read loop and the connection state. Boost.Asio is modelled
  by what its documentation promises of a socket: an operation that was started completes once,
  an operation that is outstanding when the socket is closed (or that is started on a closed
  socket) completes with an error, and the handler of a completion runs after the function that
  started the operation has returned. Which operation completes next, and how, is left open.
\<close>

section \<open>Framing\<close>

definition MAGIC :: "byte list" where
  "MAGIC = map byte_of_char ''VT01''"

text \<open>The test of the buffer's size is on an array type and never fails.\<close>

definition parse_message_length :: "byte list \<Rightarrow> error + u32" where
  "parse_message_length buf =
     (if length buf < 4 then Inl (Exn (RuntimeError ''Buffer too small to parse length''))
      else Inr (le_word (take 4 buf)))"

definition validate_magic :: "byte list \<Rightarrow> byte list \<Rightarrow> bool" where
  "validate_magic buf magic \<longleftrightarrow> take (length magic) (drop 4 buf) = magic"

text \<open>The buffer that \<open>async_send\<close> builds: the length as 32 bits, the magic, the data.\<close>

definition send_buffer :: "byte list \<Rightarrow> byte list" where
  "send_buffer data = le_bytes (word_of_nat (length data) :: u32) @ MAGIC @ data"

lemma length_MAGIC [simp]: "length MAGIC = 4"
  by (simp add: MAGIC_def)

lemma length_send_buffer [simp]: "length (send_buffer data) = 8 + length data"
  by (simp add: send_buffer_def)

section \<open>The connection\<close>

datatype ConnectionState = DISCONNECTED | CONNECTING | CONNECTED

text \<open>The states in the order of the enumeration, which is how far a connection has come.\<close>

primrec state_rank :: "ConnectionState \<Rightarrow> nat" where
  "state_rank DISCONNECTED = 0"
| "state_rank CONNECTING = 1"
| "state_rank CONNECTED = 2"

lemma state_rank_inject: "state_rank a = state_rank b \<longleftrightarrow> a = b"
  by (cases a; cases b) simp_all

instantiation ConnectionState :: linorder
begin

definition less_eq_ConnectionState :: "ConnectionState \<Rightarrow> ConnectionState \<Rightarrow> bool" where
  "a \<le> b \<longleftrightarrow> state_rank a \<le> state_rank b"

definition less_ConnectionState :: "ConnectionState \<Rightarrow> ConnectionState \<Rightarrow> bool" where
  "a < b \<longleftrightarrow> state_rank a < state_rank b"

instance
  by standard
    (auto simp: less_eq_ConnectionState_def less_ConnectionState_def state_rank_inject)

end

text \<open>
  A started operation: \<open>async_connect\<close> to a range of endpoints, the two \<open>async_read\<close>s, and
  \<open>async_write\<close> of a buffer. \<open>inbox\<close> holds the bytes that have arrived and were not read;
  \<open>wire\<close> records the bytes of the writes that have completed.
\<close>

datatype async_op =
    AsyncConnect "string list"
  | AsyncReadHeader
  | AsyncReadBody nat
  | AsyncWrite "byte list"

record socket =
  is_open :: bool
  outstanding :: "async_op list"
  cancelled :: "async_op list"
  inbox :: "byte list"
  wire :: "byte list"

definition socket_new :: socket where
  "socket_new = \<lparr>is_open = False, outstanding = [], cancelled = [], inbox = [], wire = []\<rparr>"

definition socket_start :: "async_op \<Rightarrow> socket \<Rightarrow> socket" where
  "socket_start p s =
     (if is_open s then s\<lparr>outstanding := outstanding s @ [p]\<rparr>
      else s\<lparr>cancelled := cancelled s @ [p]\<rparr>)"

definition socket_close :: "socket \<Rightarrow> socket" where
  "socket_close s =
     s\<lparr>is_open := False, outstanding := [], cancelled := cancelled s @ outstanding s, inbox := []\<rparr>"

text \<open>\<open>async_connect\<close> closes the socket before it opens it for an endpoint.\<close>

definition socket_connect :: "string list \<Rightarrow> socket \<Rightarrow> socket" where
  "socket_connect eps s = (socket_close s)\<lparr>is_open := True, outstanding := [AsyncConnect eps]\<rparr>"

record 'f TCPConnection =
  fetcher :: CMFetcher
  header_buffer :: "byte list"
  body_buffer :: "byte list"
  write_queue :: "byte list list"
  conn_state :: ConnectionState
  sock :: socket
  on_frame :: "'f option"

definition TCPConnection_new :: "'f TCPConnection" where
  "TCPConnection_new =
     \<lparr>fetcher = CMFetcher_new, header_buffer = replicate 8 0, body_buffer = [], write_queue = [],
      conn_state = DISCONNECTED, sock = socket_new, on_frame = None\<rparr>"

definition is_connected :: "'f TCPConnection \<Rightarrow> bool" where
  "is_connected c \<longleftrightarrow> conn_state c = CONNECTED"

definition set_on_frame :: "'f option \<Rightarrow> 'f TCPConnection \<Rightarrow> 'f TCPConnection" where
  "set_on_frame handler c = c\<lparr>on_frame := handler\<rparr>"

definition network_close :: "'f TCPConnection \<Rightarrow> 'f TCPConnection" where
  "network_close c =
     (if conn_state c = DISCONNECTED then c
      else c\<lparr>sock := socket_close (sock c), conn_state := DISCONNECTED\<rparr>)"

definition TCPConnection_destroy :: "'f TCPConnection \<Rightarrow> 'f TCPConnection" where
  "TCPConnection_destroy c = (if is_connected c then network_close c else c)"

text \<open>
  \<open>resolver.resolve\<close> throws or gives the endpoints of a host and a service. The fetch is an
  argument of the first definition, so that the steps below hold for every response.
\<close>

definition connect_with ::
    "(CMFetcher \<Rightarrow> (error + bool) \<times> CMFetcher) \<Rightarrow> (string \<Rightarrow> string \<Rightarrow> error + string list) \<Rightarrow>
       'f TCPConnection \<Rightarrow> (error + unit) \<times> 'f TCPConnection" where
  "connect_with fetch resolve c =
     (if conn_state c \<noteq> DISCONNECTED then (Inr (), c)
      else
        (let c = c\<lparr>conn_state := CONNECTING\<rparr>;
             (r, f) = fetch (fetcher c);
             c = c\<lparr>fetcher := f\<rparr>
         in case r of
              Inl e \<Rightarrow> (Inl e, c)
            | Inr _ \<Rightarrow>
                (case get_servers f of
                   [] \<Rightarrow> (Inl (Exn (RuntimeError ''No CM servers'')), c)
                 | (host, port) # _ \<Rightarrow>
                     (case resolve host (int_string port) of
                        Inl e \<Rightarrow> (Inl e, c)
                      | Inr eps \<Rightarrow> (Inr (), c\<lparr>sock := socket_connect eps (sock c)\<rparr>)))))"

definition network_connect ::
    "curl_api \<Rightarrow> (string \<Rightarrow> string \<Rightarrow> error + string list) \<Rightarrow>
       'f TCPConnection \<Rightarrow> (error + unit) \<times> 'f TCPConnection" where
  "network_connect curl resolve = connect_with (fetch_cm_servers curl) resolve"

definition handle_disconnect :: "'f TCPConnection \<Rightarrow> 'f TCPConnection" where
  "handle_disconnect c = network_close c"

definition start_read_header :: "'f TCPConnection \<Rightarrow> 'f TCPConnection" where
  "start_read_header c = c\<lparr>sock := socket_start AsyncReadHeader (sock c)\<rparr>"

definition resize :: "nat \<Rightarrow> byte list \<Rightarrow> byte list" where
  "resize n bs = take n bs @ replicate (n - length bs) 0"

definition start_read_body :: "u32 \<Rightarrow> 'f TCPConnection \<Rightarrow> 'f TCPConnection" where
  "start_read_body len c =
     c\<lparr>body_buffer := resize (unat len) (body_buffer c),
       sock := socket_start (AsyncReadBody (unat len)) (sock c)\<rparr>"

text \<open>\<open>front()\<close> and \<open>pop_front()\<close> of an empty deque are undefined.\<close>

definition do_write :: "'f TCPConnection \<Rightarrow> error + 'f TCPConnection" where
  "do_write c =
     (case write_queue c of
        [] \<Rightarrow> Inl (Undefined OutOfBounds)
      | front # _ \<Rightarrow> Inr (c\<lparr>sock := socket_start (AsyncWrite front) (sock c)\<rparr>))"

definition async_send :: "byte list \<Rightarrow> 'f TCPConnection \<Rightarrow> error + 'f TCPConnection" where
  "async_send data c =
     (let write_in_progress = (write_queue c \<noteq> []);
          c = c\<lparr>write_queue := write_queue c @ [send_buffer data]\<rparr>
      in if \<not> write_in_progress then do_write c else Inr c)"

section \<open>The completion handlers\<close>

definition connect_done :: "bool \<Rightarrow> 'f TCPConnection \<Rightarrow> 'f TCPConnection" where
  "connect_done ok c =
     (if ok then start_read_header (c\<lparr>conn_state := CONNECTED\<rparr>)
      else c\<lparr>conn_state := DISCONNECTED\<rparr>)"

text \<open>The header was read into the buffer.\<close>

definition header_done :: "byte list \<Rightarrow> 'f TCPConnection \<Rightarrow> error + 'f TCPConnection" where
  "header_done bs c =
     (let c = c\<lparr>header_buffer := bs\<rparr> in
      case parse_message_length (header_buffer c) of
        Inl e \<Rightarrow> Inl e
      | Inr len \<Rightarrow>
          if \<not> validate_magic (header_buffer c) MAGIC then Inr (handle_disconnect c)
          else Inr (start_read_body len c))"

text \<open>
  The body was read. The frame goes to the callback, if there is one; after it has returned the
  handler starts the next read. An exception of the callback leaves the handler before that.
\<close>

definition body_done :: "byte list \<Rightarrow> 'f TCPConnection \<Rightarrow> ('f \<times> byte list) option \<times> 'f TCPConnection" where
  "body_done bs c =
     (let c = c\<lparr>body_buffer := bs\<rparr> in
      (map_option (\<lambda>f. (f, body_buffer c)) (on_frame c), c))"

definition body_handled :: "error + 'f TCPConnection \<Rightarrow> error + 'f TCPConnection" where
  "body_handled r = (case r of Inl e \<Rightarrow> Inl e | Inr c \<Rightarrow> Inr (start_read_header c))"

definition write_done :: "'f TCPConnection \<Rightarrow> error + 'f TCPConnection" where
  "write_done c =
     (case write_queue c of
        [] \<Rightarrow> Inl (Undefined OutOfBounds)
      | _ # rest \<Rightarrow>
          (let c = c\<lparr>write_queue := rest\<rparr> in
           if write_queue c \<noteq> [] then do_write c else Inr c))"

text \<open>The handlers when the completion carries an error.\<close>

definition op_failed :: "async_op \<Rightarrow> 'f TCPConnection \<Rightarrow> 'f TCPConnection" where
  "op_failed p c = (case p of AsyncConnect _ \<Rightarrow> connect_done False c | _ \<Rightarrow> handle_disconnect c)"

section \<open>The connection in its environment\<close>

definition take_outstanding :: "async_op \<Rightarrow> 'f TCPConnection \<Rightarrow> 'f TCPConnection" where
  "take_outstanding p c = c\<lparr>sock := (sock c)\<lparr>outstanding := remove1 p (outstanding (sock c))\<rparr>\<rparr>"

definition take_cancelled :: "async_op \<Rightarrow> 'f TCPConnection \<Rightarrow> 'f TCPConnection" where
  "take_cancelled p c = c\<lparr>sock := (sock c)\<lparr>cancelled := remove1 p (cancelled (sock c))\<rparr>\<rparr>"

definition take_inbox :: "nat \<Rightarrow> 'f TCPConnection \<Rightarrow> byte list \<times> 'f TCPConnection" where
  "take_inbox n c =
     (take n (inbox (sock c)), c\<lparr>sock := (sock c)\<lparr>inbox := drop n (inbox (sock c))\<rparr>\<rparr>)"

definition put_wire :: "byte list \<Rightarrow> 'f TCPConnection \<Rightarrow> 'f TCPConnection" where
  "put_wire bs c = c\<lparr>sock := (sock c)\<lparr>wire := wire (sock c) @ bs\<rparr>\<rparr>"

text \<open>
  What a client does with the connection; the second component is the list of the data it has
  sent. A step of the whole adds the network: bytes arrive and operations complete. The callback
  of a frame is any sequence of client steps, and may end with an exception.
\<close>

inductive client_step ::
    "'f TCPConnection \<times> byte list list \<Rightarrow> 'f TCPConnection \<times> byte list list \<Rightarrow> bool" where
  client_connect:
    "connect_with fetch resolve c = (r, c') \<Longrightarrow> client_step (c, sent) (c', sent)"
| client_close: "client_step (c, sent) (network_close c, sent)"
| client_send: "async_send data c = Inr c' \<Longrightarrow> client_step (c, sent) (c', sent @ [data])"
| client_on_frame: "client_step (c, sent) (set_on_frame f c, sent)"

inductive tcp_step ::
    "'f TCPConnection \<times> byte list list \<Rightarrow> 'f TCPConnection \<times> byte list list \<Rightarrow> bool" where
  tcp_client: "client_step s t \<Longrightarrow> tcp_step s t"
| tcp_arrive: "is_open (sock c) \<Longrightarrow>
    tcp_step (c, sent) (c\<lparr>sock := (sock c)\<lparr>inbox := inbox (sock c) @ bs\<rparr>\<rparr>, sent)"
| tcp_connected: "AsyncConnect eps \<in> set (outstanding (sock c)) \<Longrightarrow>
    tcp_step (c, sent) (connect_done True (take_outstanding (AsyncConnect eps) c), sent)"
| tcp_header: "AsyncReadHeader \<in> set (outstanding (sock c)) \<Longrightarrow> 8 \<le> length (inbox (sock c)) \<Longrightarrow>
    take_inbox 8 (take_outstanding AsyncReadHeader c) = (bs, c') \<Longrightarrow> header_done bs c' = Inr c'' \<Longrightarrow>
    tcp_step (c, sent) (c'', sent)"
| tcp_body: "AsyncReadBody n \<in> set (outstanding (sock c)) \<Longrightarrow> n \<le> length (inbox (sock c)) \<Longrightarrow>
    take_inbox n (take_outstanding (AsyncReadBody n) c) = (bs, c') \<Longrightarrow> body_done bs c' = (call, d) \<Longrightarrow>
    client_step\<^sup>*\<^sup>* (d, sent) (d', sent') \<Longrightarrow> (call = None \<Longrightarrow> d' = d) \<Longrightarrow>
    tcp_step (c, sent) (start_read_header d', sent')"
| tcp_body_throw: "AsyncReadBody n \<in> set (outstanding (sock c)) \<Longrightarrow> n \<le> length (inbox (sock c)) \<Longrightarrow>
    take_inbox n (take_outstanding (AsyncReadBody n) c) = (bs, c') \<Longrightarrow> body_done bs c' = (Some call, d) \<Longrightarrow>
    client_step\<^sup>*\<^sup>* (d, sent) (d', sent') \<Longrightarrow>
    tcp_step (c, sent) (d', sent')"
| tcp_written: "AsyncWrite bs \<in> set (outstanding (sock c)) \<Longrightarrow>
    write_done (put_wire bs (take_outstanding (AsyncWrite bs) c)) = Inr c' \<Longrightarrow>
    tcp_step (c, sent) (c', sent)"
| tcp_failed: "p \<in> set (outstanding (sock c)) \<Longrightarrow>
    tcp_step (c, sent) (op_failed p (take_outstanding p c), sent)"
| tcp_aborted: "p \<in> set (cancelled (sock c)) \<Longrightarrow>
    tcp_step (c, sent) (op_failed p (take_cancelled p c), sent)"

inductive_cases client_stepE: "client_step s t"
inductive_cases tcp_stepE: "tcp_step s t"

definition tcp_start :: "'f TCPConnection \<times> byte list list \<Rightarrow> bool" where
  "tcp_start s \<longleftrightarrow> s = (TCPConnection_new, [])"

section \<open>The framing contract\<close>

text \<open>
  What the two read handlers cut out of the bytes that have arrived: one frame, if its header
  is complete and carries the magic and its body is complete.
\<close>

definition tcp_unframe :: "byte list \<Rightarrow> (byte list \<times> byte list) option" where
  "tcp_unframe bs =
     (if length bs < 8 \<or> \<not> validate_magic (take 8 bs) MAGIC then None
      else case parse_message_length (take 8 bs) of
             Inl _ \<Rightarrow> None
           | Inr len \<Rightarrow>
               if length bs < 8 + unat len then None
               else Some (take (unat len) (drop 8 bs), drop (8 + unat len) bs))"

definition sendable :: "byte list \<Rightarrow> bool" where
  "sendable data \<longleftrightarrow> length data < 2 ^ 32"

lemma header_of_frame:
  assumes "8 \<le> k"
  shows "take 8 (take k (send_buffer data) @ r) = le_bytes (word_of_nat (length data) :: u32) @ MAGIC"
proof -
  have "take 8 (send_buffer data) = le_bytes (word_of_nat (length data) :: u32) @ MAGIC"
    by (simp add: send_buffer_def)
  with assms show ?thesis by simp
qed

lemma header_fields:
  "validate_magic (le_bytes (len :: u32) @ MAGIC) MAGIC"
  "parse_message_length (le_bytes (len :: u32) @ MAGIC) = Inr len"
  by (simp_all add: validate_magic_def parse_message_length_def le_word_le_bytes)

lemma unat_sendable: "sendable data \<Longrightarrow> unat (word_of_nat (length data) :: u32) = length data"
  by (simp add: sendable_def unsigned_of_nat take_bit_nat_eq_self)

interpretation tcp: framing send_buffer tcp_unframe sendable
proof unfold_locales
  fix m r assume "sendable m"
  moreover have "take 8 (send_buffer m @ r) = le_bytes (word_of_nat (length m) :: u32) @ MAGIC"
    using header_of_frame [of 8 m "drop 8 (send_buffer m) @ r"] by (metis append.assoc append_take_drop_id order_refl)
  moreover have "drop 8 (send_buffer m @ r) = m @ r"
    by (simp add: send_buffer_def)
  ultimately show "tcp_unframe (send_buffer m @ r) = Some (m, r)"
    by (simp add: tcp_unframe_def header_fields unat_sendable flip: drop_drop)
next
  fix bs m r assume "tcp_unframe bs = Some (m, r)"
  then show "length r < length bs"
    by (auto simp: tcp_unframe_def split: if_splits sum.splits)
next
  fix m n assume m: "sendable m" and n: "n < length (send_buffer m)"
  show "tcp_unframe (take n (send_buffer m)) = None"
  proof (cases "8 \<le> n")
    case True
    with header_of_frame [OF this, of m "[]"] m n show ?thesis
      by (simp add: tcp_unframe_def header_fields unat_sendable)
  qed (simp add: tcp_unframe_def)
qed

section \<open>The write queue\<close>

definition is_write :: "async_op \<Rightarrow> bool" where
  "is_write p = (case p of AsyncWrite _ \<Rightarrow> True | _ \<Rightarrow> False)"

lemma is_write_simps [simp]:
  "is_write (AsyncWrite bs)" "\<not> is_write (AsyncConnect eps)"
  "\<not> is_write AsyncReadHeader" "\<not> is_write (AsyncReadBody n)"
  by (simp_all add: is_write_def)

definition pending_writes :: "'f TCPConnection \<Rightarrow> async_op list" where
  "pending_writes c = filter is_write (outstanding (sock c))"

text \<open>
  At most one write is outstanding, and it writes the front of the queue. What was written and
  what is queued are the frames of everything that was sent, in the order of sending.
\<close>

definition tcp_inv :: "'f TCPConnection \<times> byte list list \<Rightarrow> bool" where
  "tcp_inv s \<longleftrightarrow>
     (pending_writes (fst s) = [] \<or>
        pending_writes (fst s) = map AsyncWrite (take 1 (write_queue (fst s)))) \<and>
     wire (sock (fst s)) @ concat (write_queue (fst s)) = concat (map send_buffer (snd s)) \<and>
     length (header_buffer (fst s)) = 8 \<and>
     (is_open (sock (fst s)) \<or> outstanding (sock (fst s)) = []) \<and>
     (conn_state (fst s) = CONNECTED \<longrightarrow> is_open (sock (fst s)))"

lemmas tcp_defs = socket_start_def socket_close_def socket_connect_def network_close_def
  set_on_frame_def handle_disconnect_def start_read_header_def start_read_body_def
  connect_done_def take_outstanding_def take_cancelled_def take_inbox_def put_wire_def
  body_done_def body_handled_def

lemma async_send_total: "\<exists>c'. async_send data c = Inr c'"
  by (cases "write_queue c") (simp_all add: async_send_def do_write_def)

lemma tcp_inv_send: "tcp_inv (c, sent) \<Longrightarrow> async_send data c = Inr c' \<Longrightarrow> tcp_inv (c', sent @ [data])"
  by (cases "write_queue c")
    (auto simp: tcp_inv_def async_send_def do_write_def pending_writes_def socket_start_def
      split: if_splits)

lemma tcp_inv_close: "tcp_inv (c, sent) \<Longrightarrow> tcp_inv (network_close c, sent)"
  by (auto simp: tcp_inv_def tcp_defs pending_writes_def)

lemma connect_with_cases:
  assumes "connect_with fetch resolve c = (r, c')"
  obtains "c' = c" and "conn_state c \<noteq> DISCONNECTED" and "r = Inr ()"
  | e f where "c' = c\<lparr>conn_state := CONNECTING, fetcher := f\<rparr>" and "conn_state c = DISCONNECTED"
      and "r = Inl e"
  | eps f where "c' = c\<lparr>conn_state := CONNECTING, fetcher := f, sock := socket_connect eps (sock c)\<rparr>"
      and "conn_state c = DISCONNECTED" and "r = Inr ()"
  using assms
  by (auto simp: connect_with_def Let_def split: if_splits prod.splits sum.splits list.splits)

lemma tcp_inv_connect:
  "tcp_inv (c, sent) \<Longrightarrow> connect_with fetch resolve c = (r, c') \<Longrightarrow> tcp_inv (c', sent)"
  by (erule connect_with_cases) (auto simp: tcp_inv_def tcp_defs pending_writes_def)

lemma tcp_inv_client: "client_step s t \<Longrightarrow> tcp_inv s \<Longrightarrow> tcp_inv t"
  by (induction rule: client_step.induct)
    (auto intro: tcp_inv_connect tcp_inv_close tcp_inv_send,
      auto simp: tcp_inv_def tcp_defs pending_writes_def)

lemma tcp_inv_clients: "client_step\<^sup>*\<^sup>* s t \<Longrightarrow> tcp_inv s \<Longrightarrow> tcp_inv t"
  by (induction rule: rtranclp_induct) (auto intro: tcp_inv_client)

lemma tcp_inv_take:
  "tcp_inv (c, sent) \<Longrightarrow> \<not> is_write p \<Longrightarrow> tcp_inv (take_outstanding p c, sent)"
  "tcp_inv (c, sent) \<Longrightarrow> tcp_inv (take_cancelled p c, sent)"
  "tcp_inv (c, sent) \<Longrightarrow> take_inbox n c = (bs, c') \<Longrightarrow> tcp_inv (c', sent)"
  by (auto simp: tcp_inv_def tcp_defs pending_writes_def filter_remove1 remove1_idem)

text \<open>The one outstanding write is the front of the queue.\<close>

lemma tcp_inv_write:
  assumes "tcp_inv (c, sent)" and "AsyncWrite bs \<in> set (outstanding (sock c))"
  obtains rest where "write_queue c = bs # rest" and "pending_writes c = [AsyncWrite bs]"
    and "pending_writes (take_outstanding (AsyncWrite bs) c) = []" and "is_open (sock c)"
proof -
  have "AsyncWrite bs \<in> set (pending_writes c)" using assms(2) by (simp add: pending_writes_def)
  moreover have "pending_writes c = [] \<or> pending_writes c = map AsyncWrite (take 1 (write_queue c))"
    and "is_open (sock c) \<or> outstanding (sock c) = []"
    using assms(1) by (simp_all add: tcp_inv_def)
  ultimately obtain rest where "write_queue c = bs # rest" and p: "pending_writes c = [AsyncWrite bs]"
    and o: "is_open (sock c)"
    using assms(2) by (cases "write_queue c") auto
  moreover have "pending_writes (take_outstanding (AsyncWrite bs) c) = []"
    using p by (simp add: pending_writes_def take_outstanding_def filter_remove1)
  ultimately show ?thesis by (blast intro: that)
qed

lemma tcp_inv_take_write:
  assumes "tcp_inv (c, sent)" and "AsyncWrite bs \<in> set (outstanding (sock c))"
  shows "tcp_inv (take_outstanding (AsyncWrite bs) c, sent)"
proof (rule tcp_inv_write [OF assms])
  assume "pending_writes (take_outstanding (AsyncWrite bs) c) = []"
  with assms(1) show ?thesis by (auto simp: tcp_inv_def take_outstanding_def)
qed

lemma tcp_inv_take_any:
  "tcp_inv (c, sent) \<Longrightarrow> p \<in> set (outstanding (sock c)) \<Longrightarrow> tcp_inv (take_outstanding p c, sent)"
  by (cases p) (simp_all add: tcp_inv_take tcp_inv_take_write)

text \<open>A completed write finds its buffer in the queue; the queue moves on to the wire.\<close>

lemma write_done_eq:
  assumes "tcp_inv (c, sent)" and "AsyncWrite bs \<in> set (outstanding (sock c))"
  obtains c' where "write_done (put_wire bs (take_outstanding (AsyncWrite bs) c)) = Inr c'"
    and "tcp_inv (c', sent)" and "wire (sock c') = wire (sock c) @ bs"
    and "write_queue c = bs # write_queue c'"
    and "pending_writes c' = map AsyncWrite (take 1 (write_queue c'))"
    and "conn_state c' = conn_state c"
proof (rule tcp_inv_write [OF assms])
  fix rest
  assume q: "write_queue c = bs # rest" and p: "pending_writes c = [AsyncWrite bs]"
    and r: "pending_writes (take_outstanding (AsyncWrite bs) c) = []" and o: "is_open (sock c)"
  let ?d = "put_wire bs (take_outstanding (AsyncWrite bs) c)"
  let ?c = "?d\<lparr>write_queue := rest,
    sock := (case rest of [] \<Rightarrow> sock ?d | b # _ \<Rightarrow> socket_start (AsyncWrite b) (sock ?d))\<rparr>"
  have "write_done ?d = Inr ?c"
    using q by (cases rest) (simp_all add: write_done_def do_write_def tcp_defs)
  moreover have "pending_writes ?c = map AsyncWrite (take 1 rest)"
    using r o by (cases rest) (auto simp: pending_writes_def tcp_defs)
  moreover from this have "tcp_inv (?c, sent)"
    using assms(1) q o by (cases rest) (auto simp: tcp_inv_def tcp_defs)
  moreover have "wire (sock ?c) = wire (sock c) @ bs"
    using o by (cases rest) (auto simp: tcp_defs)
  ultimately show ?thesis using q that [of ?c] by (simp add: tcp_defs)
qed

lemma tcp_inv_failed: "tcp_inv (c, sent) \<Longrightarrow> tcp_inv (op_failed p c, sent)"
  using tcp_inv_close [of c sent]
  by (cases p) (auto simp: op_failed_def tcp_defs tcp_inv_def pending_writes_def)

lemma tcp_inv_read:
  "tcp_inv (c, sent) \<Longrightarrow> tcp_inv (start_read_header c, sent)"
  "tcp_inv (c, sent) \<Longrightarrow> tcp_inv (start_read_body len c, sent)"
  "tcp_inv (c, sent) \<Longrightarrow> body_done bs c = (call, d) \<Longrightarrow> tcp_inv (d, sent)"
  by (auto simp: tcp_inv_def tcp_defs pending_writes_def)

lemma tcp_inv_connected:
  "tcp_inv (c, sent) \<Longrightarrow> is_open (sock c) \<Longrightarrow> tcp_inv (connect_done True c, sent)"
  by (auto simp: tcp_inv_def tcp_defs pending_writes_def)

lemma tcp_inv_header:
  assumes "tcp_inv (c, sent)" and "length bs = 8" and "header_done bs c = Inr c'"
  shows "tcp_inv (c', sent)"
proof -
  have "tcp_inv (c\<lparr>header_buffer := bs\<rparr>, sent)"
    using assms(1,2) by (auto simp: tcp_inv_def pending_writes_def)
  with assms show ?thesis
    by (auto simp: header_done_def handle_disconnect_def Let_def split: sum.splits if_splits
        intro: tcp_inv_close tcp_inv_read)
qed

lemma tcp_inv_body:
  assumes "tcp_inv (c, sent)" and "take_inbox n (take_outstanding (AsyncReadBody n) c) = (bs, c')"
    and "body_done bs c' = (call, d)"
  shows "tcp_inv (d, sent)"
  using tcp_inv_take(1) [OF assms(1), of "AsyncReadBody n"] assms(2,3)
  by (auto dest: tcp_inv_take(3) intro: tcp_inv_read(3))

lemma outstanding_open: "tcp_inv (c, sent) \<Longrightarrow> p \<in> set (outstanding (sock c)) \<Longrightarrow> is_open (sock c)"
  by (auto simp: tcp_inv_def)

lemma tcp_inv_step: "tcp_step s t \<Longrightarrow> tcp_inv s \<Longrightarrow> tcp_inv t"
proof (induction rule: tcp_step.induct)
  case (tcp_arrive c sent bs)
  then show ?case by (auto simp: tcp_inv_def pending_writes_def)
next
  case (tcp_connected eps c sent)
  have "is_open (sock c)" using tcp_connected(2,1) by (rule outstanding_open)
  then have "is_open (sock (take_outstanding (AsyncConnect eps) c))"
    by (simp add: take_outstanding_def)
  moreover have "tcp_inv (take_outstanding (AsyncConnect eps) c, sent)"
    using tcp_connected(2) by (rule tcp_inv_take(1)) simp
  ultimately show ?case by (intro tcp_inv_connected)
next
  case (tcp_header c bs c' c'' sent)
  have "tcp_inv (take_outstanding AsyncReadHeader c, sent)"
    using tcp_header(5) by (rule tcp_inv_take(1)) simp
  then have "tcp_inv (c', sent)" using tcp_header(3) by (rule tcp_inv_take(3))
  moreover have "length bs = 8" using tcp_header by (auto simp: tcp_defs)
  ultimately show ?case using tcp_header(4) by (rule tcp_inv_header)
next
  case (tcp_body n c bs c' call d sent d' sent')
  have "tcp_inv (d, sent)" by (rule tcp_inv_body) fact+
  with tcp_body show ?case by (blast intro: tcp_inv_read tcp_inv_clients)
next
  case (tcp_body_throw n c bs c' call d sent d' sent')
  have "tcp_inv (d, sent)" by (rule tcp_inv_body) fact+
  with tcp_body_throw show ?case by (blast intro: tcp_inv_clients)
next
  case (tcp_written bs c c' sent)
  with write_done_eq [OF tcp_written(3,1)] show ?case by auto
next
  case (tcp_failed p c sent)
  then show ?case by (intro tcp_inv_failed tcp_inv_take_any)
qed (auto intro: tcp_inv_client tcp_inv_failed tcp_inv_take)

lemma tcp_inv_new: "tcp_inv (TCPConnection_new, [])"
  by (simp add: tcp_inv_def TCPConnection_new_def socket_new_def pending_writes_def)

interpretation tcp_system: invariant_system tcp_start tcp_step tcp_inv
  by unfold_locales (auto simp: tcp_start_def tcp_inv_new intro: tcp_inv_step)

text \<open>Completions of the outstanding writes, one after the other, without errors.\<close>

fun writes_complete :: "nat \<Rightarrow> 'f TCPConnection \<Rightarrow> error + 'f TCPConnection" where
  "writes_complete 0 c = Inr c"
| "writes_complete (Suc n) c =
     (case pending_writes c of
        AsyncWrite bs # _ \<Rightarrow>
          bindE (write_done (put_wire bs (take_outstanding (AsyncWrite bs) c))) (writes_complete n)
      | _ \<Rightarrow> Inr c)"

definition stuck :: "'f TCPConnection \<Rightarrow> bool" where
  "stuck c \<longleftrightarrow> write_queue c \<noteq> [] \<and> pending_writes c = []"

lemma writes_complete_queue:
  assumes "tcp_inv (c, sent)" and "\<not> stuck c"
  shows "\<exists>c'. writes_complete (length (write_queue c)) c = Inr c' \<and> write_queue c' = [] \<and>
    wire (sock c') = concat (map send_buffer sent) \<and> tcp_inv (c', sent)"
  using assms
proof (induction "length (write_queue c)" arbitrary: c)
  case 0
  then show ?case by (auto simp: tcp_inv_def)
next
  case (Suc n)
  then obtain bs rest where q: "write_queue c = bs # rest" by (cases "write_queue c") auto
  with Suc.prems have p: "pending_writes c = [AsyncWrite bs]"
    by (auto simp: stuck_def tcp_inv_def)
  then have "AsyncWrite bs \<in> set (outstanding (sock c))"
    using filter_set [of is_write "outstanding (sock c)"] by (auto simp: pending_writes_def)
  from write_done_eq [OF Suc.prems(1) this] obtain c' where
    w: "write_done (put_wire bs (take_outstanding (AsyncWrite bs) c)) = Inr c'" "tcp_inv (c', sent)"
      "write_queue c = bs # write_queue c'"
      "pending_writes c' = map AsyncWrite (take 1 (write_queue c'))" .
  then have "\<not> stuck c'" by (cases "write_queue c'") (auto simp: stuck_def)
  with Suc.hyps(1) [of c'] Suc.hyps(2) w have "\<exists>c''. writes_complete n c' = Inr c'' \<and>
      write_queue c'' = [] \<and> wire (sock c'') = concat (map send_buffer sent) \<and> tcp_inv (c'', sent)"
    by auto
  moreover have "length (write_queue c) = Suc n" using Suc.hyps(2) by simp
  ultimately show ?case using p w(1) by simp
qed

text \<open>
  A queue whose front is not being written stays: the next \<open>async_send\<close> takes the non-empty
  queue for a write in progress. Nothing is ever written again, whatever happens.
\<close>

definition stuck_at :: "byte list \<Rightarrow> 'f TCPConnection \<times> byte list list \<Rightarrow> bool" where
  "stuck_at w s \<longleftrightarrow> stuck (fst s) \<and> wire (sock (fst s)) = w"

lemma stuck_client: "client_step s t \<Longrightarrow> stuck_at w s \<Longrightarrow> stuck_at w t"
  by (induction rule: client_step.induct)
    (auto simp: stuck_at_def stuck_def pending_writes_def tcp_defs async_send_def
      elim!: connect_with_cases)

lemma stuck_clients: "client_step\<^sup>*\<^sup>* s t \<Longrightarrow> stuck_at w s \<Longrightarrow> stuck_at w t"
  by (induction rule: rtranclp_induct) (auto intro: stuck_client)

lemma stuck_parts:
  "stuck_at w (c, sent) \<Longrightarrow> stuck_at w (take_outstanding p c, sent)"
  "stuck_at w (c, sent) \<Longrightarrow> stuck_at w (op_failed q c, sent)"
  "stuck_at w (c, sent) \<Longrightarrow> stuck_at w (take_cancelled p c, sent)"
  "stuck_at w (c, sent) \<Longrightarrow> stuck_at w (connect_done ok c, sent)"
  "stuck_at w (c, sent) \<Longrightarrow> stuck_at w (start_read_header c, sent)"
  "stuck_at w (c, sent) \<Longrightarrow> take_inbox n c = (bs, c') \<Longrightarrow> stuck_at w (c', sent)"
  "stuck_at w (c, sent) \<Longrightarrow> body_done bs c = (call, d) \<Longrightarrow> stuck_at w (d, sent)"
  by (auto simp: stuck_at_def stuck_def pending_writes_def tcp_defs op_failed_def filter_remove1
      split: async_op.splits)

lemma stuck_header: "stuck_at w (c, sent) \<Longrightarrow> header_done bs c = Inr c' \<Longrightarrow> stuck_at w (c', sent)"
  by (auto simp: stuck_at_def stuck_def pending_writes_def tcp_defs header_done_def Let_def
      split: sum.splits if_splits)

lemma stuck_read:
  assumes "stuck_at w (c, sent)" and "take_inbox n (take_outstanding p c) = (bs, c')"
  shows "stuck_at w (c', sent)"
  using stuck_parts(1) [OF assms(1)] assms(2) by (rule stuck_parts(6))

lemma stuck_step: "tcp_step s t \<Longrightarrow> stuck_at w s \<Longrightarrow> stuck_at w t"
proof (induction rule: tcp_step.induct)
  case (tcp_arrive c sent bs)
  then show ?case by (auto simp: stuck_at_def stuck_def pending_writes_def)
next
  case (tcp_header c bs c' c'' sent)
  have "stuck_at w (c', sent)" using tcp_header(5,3) by (rule stuck_read)
  then show ?case using tcp_header(4) by (rule stuck_header)
next
  case (tcp_written bs c c' sent)
  then have "AsyncWrite bs \<in> set (pending_writes c)" by (simp add: pending_writes_def)
  with tcp_written show ?case by (auto simp: stuck_at_def stuck_def)
next
  case (tcp_body n c bs c' call d sent d' sent')
  have "stuck_at w (c', sent)" by (rule stuck_read) fact+
  then have "stuck_at w (d, sent)" by (rule stuck_parts(7)) fact
  with tcp_body show ?case by (blast intro: stuck_parts(5) stuck_clients)
next
  case (tcp_body_throw n c bs c' call d sent d' sent')
  have "stuck_at w (c', sent)" by (rule stuck_read) fact+
  then have "stuck_at w (d, sent)" by (rule stuck_parts(7)) fact
  with tcp_body_throw show ?case by (blast intro: stuck_clients)
qed (auto intro: stuck_client stuck_parts)

interpretation stuck_system: invariant_system "stuck_at w" tcp_step "stuck_at w"
  for w :: "byte list"
  by unfold_locales (auto intro: stuck_step)

end
