(* ===== verification/Tcp_Receive.thy ===== *)
theory Tcp_Receive
  imports Tcp_Connection
begin

text \<open>
  The read loop of \<open>TCPConnection\<close> (src/network/connection/tcp.cpp) run over the bytes that
  have arrived, what becomes of the connection when connecting fails, and the interface
  \<open>IConnection\<close> as a contract that \<open>TCPConnection\<close> keeps.
\<close>

section \<open>The read loop\<close>

text \<open>
  Read completions in turn, as long as the bytes are there, for a callback that leaves the
  connection alone; the result lists the calls of the callback.
\<close>

definition pending_reads :: "'f TCPConnection \<Rightarrow> async_op list" where
  "pending_reads c =
     filter (\<lambda>p. case p of AsyncReadHeader \<Rightarrow> True | AsyncReadBody _ \<Rightarrow> True | _ \<Rightarrow> False)
       (outstanding (sock c))"

fun receive :: "nat \<Rightarrow> 'f TCPConnection \<Rightarrow> ('f \<times> byte list) list \<times> 'f TCPConnection" where
  "receive 0 c = ([], c)"
| "receive (Suc n) c =
     (case pending_reads c of
        AsyncReadHeader # _ \<Rightarrow>
          if length (inbox (sock c)) < 8 then ([], c)
          else
            (let (bs, c) = take_inbox 8 (take_outstanding AsyncReadHeader c)
             in case header_done bs c of Inl _ \<Rightarrow> ([], c) | Inr c \<Rightarrow> receive n c)
      | AsyncReadBody k # _ \<Rightarrow>
          if length (inbox (sock c)) < k then ([], c)
          else
            (let (bs, c) = take_inbox k (take_outstanding (AsyncReadBody k) c);
                 (call, c) = body_done bs c;
                 (calls, c) = receive n (start_read_header c)
             in ((case call of None \<Rightarrow> [] | Some x \<Rightarrow> [x]) @ calls, c))
      | _ \<Rightarrow> ([], c))"

definition reading :: "'f TCPConnection \<Rightarrow> bool" where
  "reading c \<longleftrightarrow> is_open (sock c) \<and> pending_reads c = [AsyncReadHeader]"

text \<open>A connection that was just established reads.\<close>

lemma reading_connected:
  "is_open (sock c) \<Longrightarrow> pending_reads c = [] \<Longrightarrow> reading (connect_done True c)"
  by (simp add: reading_def pending_reads_def tcp_defs)

lemma pending_reads_take:
  "pending_reads c = [p] \<Longrightarrow> pending_reads (take_outstanding p c) = []"
  by (auto simp: pending_reads_def take_outstanding_def filter_remove1)

lemma receive_frame:
  assumes r: "reading c" and i: "inbox (sock c) = send_buffer m @ rest" and m: "sendable m"
  obtains c' where "receive (Suc (Suc n)) c =
      ((case on_frame c of None \<Rightarrow> [] | Some f \<Rightarrow> [(f, m)]) @ fst (receive n c'), snd (receive n c'))"
    and "reading c'" and "inbox (sock c') = rest" and "on_frame c' = on_frame c"
    and "conn_state c' = conn_state c" and "body_buffer c' = m"
proof -
  let ?h = "le_bytes (word_of_nat (length m) :: u32) @ MAGIC"
  have p: "pending_reads c = [AsyncReadHeader]" and o: "is_open (sock c)"
    using r by (simp_all add: reading_def)
  have i': "inbox (sock c) = ?h @ m @ rest" using i by (simp add: send_buffer_def)
  define d0 where "d0 = snd (take_inbox 8 (take_outstanding AsyncReadHeader c))"
  define d where "d = start_read_body (word_of_nat (length m)) (d0\<lparr>header_buffer := ?h\<rparr>)"
  have h: "take_inbox 8 (take_outstanding AsyncReadHeader c) = (?h, d0)"
    using i' by (simp add: d0_def take_inbox_def take_outstanding_def)
  have "header_done ?h d0 = Inr d"
    by (simp add: header_done_def header_fields d_def)
  then have 1: "receive (Suc (Suc n)) c = receive (Suc n) d"
    using p h i' by (subst receive.simps(2)) simp
  have o': "is_open (sock d)" and i2: "inbox (sock d) = m @ rest" and p': "pending_reads d = [AsyncReadBody (length m)]"
    and f: "on_frame d = on_frame c" "conn_state d = conn_state c"
    using o i' pending_reads_take [OF p] unat_sendable [OF m]
    by (simp_all add: d_def d0_def tcp_defs pending_reads_def)
  define e where "e = start_read_header ((snd (take_inbox (length m)
    (take_outstanding (AsyncReadBody (length m)) d)))\<lparr>body_buffer := m\<rparr>)"
  have "receive (Suc n) d =
      ((case on_frame c of None \<Rightarrow> [] | Some f \<Rightarrow> [(f, m)]) @ fst (receive n e), snd (receive n e))"
    using p' i2 f by (simp add: e_def body_done_def take_inbox_def take_outstanding_def split_def Let_def
        split: option.splits)
  moreover have "reading e" and "inbox (sock e) = rest" and "on_frame e = on_frame c"
      and "conn_state e = conn_state c" and "body_buffer e = m"
    using o' i2 f pending_reads_take [OF p'] by (simp_all add: e_def reading_def tcp_defs pending_reads_def)
  ultimately show ?thesis using 1 that by simp
qed

lemma receive_incomplete:
  assumes "reading c" and "length (inbox (sock c)) < 8"
  shows "receive n c = ([], c)"
  using assms by (cases n) (simp_all add: reading_def)

text \<open>
  The frames that the peer's \<open>async_send\<close> framed arrive whole and in order, however the last
  one is cut off inside its header.
\<close>

lemma receive_frames:
  assumes "reading c" and "inbox (sock c) = concat (map send_buffer ms) @ r" and "length r < 8"
    and "\<forall>m \<in> set ms. sendable m" and "on_frame c = Some f"
  shows "fst (receive (2 * length ms) c) = map (Pair f) ms \<and>
    reading (snd (receive (2 * length ms) c)) \<and>
    inbox (sock (snd (receive (2 * length ms) c))) = r \<and>
    conn_state (snd (receive (2 * length ms) c)) = conn_state c"
  using assms
proof (induction ms arbitrary: c)
  case (Cons m ms)
  have "inbox (sock c) = send_buffer m @ (concat (map send_buffer ms) @ r)"
    using Cons.prems(2) by simp
  from receive_frame [OF Cons.prems(1) this, of "2 * length ms"] Cons.prems(4)
  obtain c' where "receive (Suc (Suc (2 * length ms))) c =
      ((case on_frame c of None \<Rightarrow> [] | Some f \<Rightarrow> [(f, m)]) @ fst (receive (2 * length ms) c'),
       snd (receive (2 * length ms) c'))"
    and "reading c'" "inbox (sock c') = concat (map send_buffer ms) @ r"
      "on_frame c' = on_frame c" "conn_state c' = conn_state c"
    by auto
  with Cons.IH [of c'] Cons.prems show ?case by simp
qed simp

text \<open>A header without the magic ends the connection; nothing behind it is delivered.\<close>

lemma receive_bad_magic:
  assumes "reading c" and "8 \<le> length (inbox (sock c))" and "conn_state c = CONNECTED"
    and "\<not> validate_magic (take 8 (inbox (sock c))) MAGIC"
  shows "fst (receive (Suc n) c) = [] \<and> conn_state (snd (receive (Suc n) c)) = DISCONNECTED \<and>
    \<not> is_open (sock (snd (receive (Suc n) c)))"
proof -
  let ?b = "take 8 (inbox (sock c))"
  let ?c = "(snd (take_inbox 8 (take_outstanding AsyncReadHeader c)))\<lparr>header_buffer := ?b\<rparr>"
  have "parse_message_length ?b = Inr (le_word (take 4 ?b))"
    using assms(2) by (simp add: parse_message_length_def)
  then have "header_done ?b (snd (take_inbox 8 (take_outstanding AsyncReadHeader c))) =
      Inr (network_close ?c)"
    using assms(4) by (simp add: header_done_def handle_disconnect_def)
  then have "receive (Suc n) c = receive n (network_close ?c)"
    using assms(1,2) by (simp add: reading_def take_inbox_def take_outstanding_def)
  moreover have "pending_reads (network_close ?c) = []" "conn_state (network_close ?c) = DISCONNECTED"
      "\<not> is_open (sock (network_close ?c))"
    using assms(3) by (simp_all add: tcp_defs pending_reads_def)
  moreover from this(1) have "receive n (network_close ?c) = ([], network_close ?c)"
    by (cases n) simp_all
  ultimately show ?thesis by simp
qed

section \<open>Connecting\<close>

lemma connect_throws:
  assumes "connect_with fetch resolve c = (Inl e, c')"
  shows "conn_state c' = CONNECTING \<and> sock c' = sock c \<and> write_queue c' = write_queue c"
  using assms by (elim connect_with_cases) auto

lemma connect_ignored: "conn_state c \<noteq> DISCONNECTED \<Longrightarrow> connect_with fetch resolve c = (Inr (), c)"
  by (simp add: connect_with_def)

lemma connect_started:
  assumes "connect_with fetch resolve c = (Inr (), c')" and "conn_state c = DISCONNECTED"
  obtains eps where "conn_state c' = CONNECTING" and "outstanding (sock c') = [AsyncConnect eps]"
    and "is_open (sock c')" and "cancelled (sock c') = cancelled (sock c) @ outstanding (sock c)"
  using assms by (elim connect_with_cases) (auto simp: socket_connect_def socket_close_def)

text \<open>
  The read that a close has cancelled completes after the next connect was started, and its
  handler takes the new connection down.
\<close>

lemma stale_read_closes:
  assumes p: "p \<in> set (outstanding (sock c))" "\<forall>eps. p \<noteq> AsyncConnect eps"
    and c: "conn_state c = CONNECTED"
    and r: "connect_with fetch resolve (network_close c) = (Inr (), c')"
  shows "p \<in> set (cancelled (sock c')) \<and> conn_state c' = CONNECTING \<and>
    conn_state (op_failed p (take_cancelled p c')) = DISCONNECTED \<and>
    \<not> is_open (sock (op_failed p (take_cancelled p c')))"
proof -
  have d: "conn_state (network_close c) = DISCONNECTED"
    and m: "p \<in> set (cancelled (sock (network_close c)))"
    using p c by (simp_all add: tcp_defs)
  have s: "conn_state c' = CONNECTING \<and> p \<in> set (cancelled (sock c'))"
    by (rule connect_started [OF r d]) (use m in simp)
  moreover from p(2) have "op_failed p (take_cancelled p c') = network_close (take_cancelled p c')"
    by (cases p) (simp_all add: op_failed_def handle_disconnect_def)
  ultimately show ?thesis by (simp add: tcp_defs)
qed

text \<open>
  Nothing that a client calls makes the connection connected: that is the completion of an
  outstanding connect.
\<close>

lemma state_order:
  "DISCONNECTED \<le> s" "s \<le> CONNECTED" "\<not> CONNECTED \<le> CONNECTING" "CONNECTED \<le> s \<longleftrightarrow> s = CONNECTED"
  by (cases s; simp add: less_eq_ConnectionState_def)+

lemma network_close_le: "conn_state (network_close c) \<le> conn_state c"
  by (simp add: network_close_def state_order)

lemma async_send_state: "async_send data c = Inr c' \<Longrightarrow> conn_state c' = conn_state c"
  by (auto simp: async_send_def do_write_def Let_def split: if_splits list.splits)

lemma async_send_queue: "async_send data c = Inr c' \<Longrightarrow> write_queue c' = write_queue c @ [send_buffer data]"
  by (auto simp: async_send_def do_write_def Let_def split: if_splits list.splits)

lemma client_step_le: "client_step s t \<Longrightarrow> conn_state (fst t) \<le> max (conn_state (fst s)) CONNECTING"
proof (erule client_stepE)
  fix fetch resolve c r c' sent
  assume "s = (c, sent)" "t = (c', sent)" "connect_with fetch resolve c = (r, c')"
  then show ?thesis by (auto simp: le_max_iff_disj elim!: connect_with_cases)
qed (auto simp: le_max_iff_disj network_close_le async_send_state set_on_frame_def)

lemma clients_le: "client_step\<^sup>*\<^sup>* s t \<Longrightarrow> conn_state (fst t) \<le> max (conn_state (fst s)) CONNECTING"
proof (induction rule: rtranclp_induct)
  case (step t u)
  from client_step_le [OF step.hyps(2)] step.IH show ?case
    by (meson max.bounded_iff max.cobounded2 order_trans)
qed (simp add: le_max_iff_disj)

lemma clients_not_connect:
  "client_step\<^sup>*\<^sup>* s t \<Longrightarrow> conn_state (fst s) \<noteq> CONNECTED \<Longrightarrow> conn_state (fst t) \<noteq> CONNECTED"
  using clients_le [of s t] by (cases "conn_state (fst s)") (auto simp: less_eq_ConnectionState_def max_def split: if_splits)

lemma tcp_step_connects:
  assumes "tcp_step s t" and "conn_state (fst s) \<noteq> CONNECTED" and "conn_state (fst t) = CONNECTED"
  shows "\<exists>eps. AsyncConnect eps \<in> set (outstanding (sock (fst s)))"
  using assms(1)
proof (rule tcp_stepE)
  assume "client_step s t"
  with clients_not_connect [of s t] assms(2,3) show ?thesis by auto
next
  fix n c bs c' call d sent d' sent'
  assume *: "s = (c, sent)" "t = (start_read_header d', sent')"
    "take_inbox n (take_outstanding (AsyncReadBody n) c) = (bs, c')" "body_done bs c' = (call, d)"
    "client_step\<^sup>*\<^sup>* (d, sent) (d', sent')"
  then have "conn_state d = conn_state c" by (auto simp: tcp_defs)
  with * clients_not_connect [of "(d, sent)" "(d', sent')"] assms(2,3) show ?thesis
    by (auto simp: start_read_header_def)
next
  fix n c bs c' call d sent d' sent'
  assume *: "s = (c, sent)" "t = (d', sent')"
    "take_inbox n (take_outstanding (AsyncReadBody n) c) = (bs, c')" "body_done bs c' = (Some call, d)"
    "client_step\<^sup>*\<^sup>* (d, sent) (d', sent')"
  then have "conn_state d = conn_state c" by (auto simp: tcp_defs)
  with * clients_not_connect [of "(d, sent)" "(d', sent')"] assms(2,3) show ?thesis by auto
next
  fix bs c c' sent
  assume "s = (c, sent)" "t = (c', sent)"
    "write_done (put_wire bs (take_outstanding (AsyncWrite bs) c)) = Inr c'"
  then have "conn_state c' = conn_state c"
    by (auto simp: write_done_def do_write_def tcp_defs Let_def split: list.splits if_splits)
  with assms(2,3) show ?thesis using \<open>s = (c, sent)\<close> \<open>t = (c', sent)\<close> by simp
next
  fix c bs c' c'' sent
  assume "s = (c, sent)" "t = (c'', sent)"
    "take_inbox 8 (take_outstanding AsyncReadHeader c) = (bs, c')" "header_done bs c' = Inr c''"
  with assms(2,3) show ?thesis
    by (auto simp: header_done_def tcp_defs Let_def split: sum.splits if_splits)
qed (use assms(2,3) in \<open>auto simp: op_failed_def tcp_defs split: async_op.splits if_splits\<close>)

section \<open>The transport interface\<close>

text \<open>
  The virtual functions of \<open>IConnection\<close>, as a record over the state of an implementation. The
  client registers one handler, a lambda over \<open>this\<close>, so \<open>set_on_frame\<close> takes no argument here.
\<close>

record 't IConnection =
  i_state :: "'t \<Rightarrow> ConnectionState"
  i_network_connect :: "'t \<Rightarrow> (error + unit) \<times> 't"
  i_network_close :: "'t \<Rightarrow> 't"
  i_async_send :: "byte list \<Rightarrow> 't \<Rightarrow> error + 't"
  i_set_on_frame :: "'t \<Rightarrow> 't"

definition i_is_connected :: "('t, 'z) IConnection_scheme \<Rightarrow> 't \<Rightarrow> bool" where
  "i_is_connected ops t \<longleftrightarrow> i_state ops t = CONNECTED"

text \<open>
  What the client relies on: a close leaves the transport disconnected, a connection is not
  established before \<open>network_connect\<close> returns, and a send neither fails nor changes the state.
\<close>

locale transport =
  fixes ops :: "'t IConnection"
  assumes close_state: "i_state ops (i_network_close ops t) = DISCONNECTED"
    and connect_state: "i_is_connected ops (snd (i_network_connect ops t)) = i_is_connected ops t"
    and send_total: "\<exists>t'. i_async_send ops data t = Inr t' \<and> i_state ops t' = i_state ops t"
    and on_frame_state: "i_state ops (i_set_on_frame ops t) = i_state ops t"
begin

lemma closed_not_connected: "\<not> i_is_connected ops (i_network_close ops t)"
  by (simp add: i_is_connected_def close_state)

lemma sent_obtains:
  obtains t' where "i_async_send ops data t = Inr t'" and "i_is_connected ops t' = i_is_connected ops t"
  using send_total [of data t] by (auto simp: i_is_connected_def)

end

definition TCP_IConnection ::
    "curl_api \<Rightarrow> (string \<Rightarrow> string \<Rightarrow> error + string list) \<Rightarrow>
       unit TCPConnection IConnection" where
  "TCP_IConnection curl resolve =
     \<lparr>i_state = conn_state,
      i_network_connect = network_connect curl resolve,
      i_network_close = network_close,
      i_async_send = async_send,
      i_set_on_frame = set_on_frame (Some ())\<rparr>"

interpretation tcp_transport: transport "TCP_IConnection curl resolve"
  for curl :: curl_api and resolve :: "string \<Rightarrow> string \<Rightarrow> error + string list"
proof unfold_locales
  fix t :: "unit TCPConnection" and data :: "byte list"
  show "i_state (TCP_IConnection curl resolve)
      (i_network_close (TCP_IConnection curl resolve) t) = DISCONNECTED"
    by (simp add: TCP_IConnection_def network_close_def)
  obtain r c' where r: "connect_with (fetch_cm_servers curl) resolve t = (r, c')" by fastforce
  then have "conn_state c' = CONNECTED \<longleftrightarrow> conn_state t = CONNECTED"
    by (elim connect_with_cases) simp_all
  with r show "i_is_connected (TCP_IConnection curl resolve)
      (snd (i_network_connect (TCP_IConnection curl resolve) t)) =
      i_is_connected (TCP_IConnection curl resolve) t"
    by (simp add: TCP_IConnection_def i_is_connected_def network_connect_def)
  show "\<exists>t'. i_async_send (TCP_IConnection curl resolve) data t = Inr t' \<and>
      i_state (TCP_IConnection curl resolve) t' = i_state (TCP_IConnection curl resolve) t"
    using async_send_total [of data t] async_send_state [of data t] by (auto simp: TCP_IConnection_def)
  show "i_state (TCP_IConnection curl resolve) (i_set_on_frame (TCP_IConnection curl resolve) t) =
      i_state (TCP_IConnection curl resolve) t"
    by (simp add: TCP_IConnection_def set_on_frame_def)
qed

end
