(* ===== verification/Cm_Client.thy ===== *)
theory Cm_Client
  imports Steam_Crypto Steam_Events Steam_Dispatch Tcp_Receive
begin

text \<open>
  \<open>CMClient\<close> (include/steamclient/network/cmclient.hpp, src/network/cmclient.cpp), the message
  handlers (src/routing/events/dispatcher.cpp and src/routing/events/handlers/), the commands
  (src/routing/commands/handlers/) and the facade \<open>SteamClient\<close>
  (include/steamclient/client.hpp, src/client.cpp). An operation takes the client and gives its
  outcome, normal or an error, with the client it leaves behind: what was done before an
  exception stays done.
\<close>

section \<open>Messages of the protobuf files\<close>

text \<open>The fields the program uses, of the messages it sends and receives.\<close>

record CMsgMulti =
  size_unzipped :: u32
  message_body :: "byte list"

record CMsgClientLogon =
  client_package_version :: u32
  protocol_version :: u32

record CMsgClientLogonResponse =
  eresult :: u32
  client_supplied_steamid :: u64

record PICS_RequestApp =
  ra_appid :: u32
  ra_access_token :: u64

record CMsgClientPICSProductInfoRequest =
  req_apps :: "PICS_RequestApp list"

section \<open>The client and what it is built on\<close>

datatype ProtoHandler = multi_fn | logon_response_fn | prod_info_response_fn

datatype MsgHandler = encrypt_request_fn | encrypt_result_fn

datatype RequestType = AnonymousLogin_type | ClientLogoff_type | GetProductInfo_type

datatype CommandHandler = anon_logon_fn | logoff_fn | get_product_info_fn

text \<open>
  \<open>next_jobid\<close> is the static member of \<open>JobIDs\<close>, \<open>router\<close> the global \<open>g_request_router\<close> with
  the numbering of request types; \<open>user\<close> is the state of the application's callbacks.
\<close>

record ('t, 'r, 'k, 'u) CMClient =
  channel_secured :: bool
  connection :: 't
  crypto :: "'r EncryptionManager"
  listeners :: "'k listeners"
  next_jobid :: u64
  router :: "(RequestType, CommandHandler) RequestRouter"
  user :: 'u

text \<open>
  The environment: Crypto++, the generated protobuf classes, the gunzip filter (an error is the
  text of its exception), the transport, the callbacks, the texts \<open>what()\<close> of the exceptions
  of the standard library and of Crypto++, and the dispatch table as it is after the static
  registrations.
\<close>

record ('h, 'r, 't, 'k, 'u) env =
  e_crypto :: "'r crypto_api"
  e_header :: "'h header_api"
  e_multi :: "CMsgMulti proto_api"
  e_logon :: "CMsgClientLogon proto_api"
  e_logon_response :: "CMsgClientLogonResponse proto_api"
  e_pics_request :: "CMsgClientPICSProductInfoRequest proto_api"
  e_pics_response :: "CMsgClientPICSProductInfoResponse proto_api"
  e_gunzip :: "byte list \<Rightarrow> string + byte list"
  e_transport :: "'t IConnection"
  e_call :: "'k \<Rightarrow> 'h Event \<Rightarrow> ('t, 'r, 'k, 'u) CMClient \<Rightarrow> (error + unit) \<times> ('t, 'r, 'k, 'u) CMClient"
  e_what :: "exn \<Rightarrow> string"
  e_dispatch :: "(ProtoHandler, MsgHandler) DispatchTable"

type_synonym ('t, 'r, 'k, 'u) action =
  "('t, 'r, 'k, 'u) CMClient \<Rightarrow> (error + unit) \<times> ('t, 'r, 'k, 'u) CMClient"

definition CMClient_new ::
    "'r crypto_api \<Rightarrow> 'r \<Rightarrow> 't \<Rightarrow> u64 \<Rightarrow> (RequestType, CommandHandler) RequestRouter \<Rightarrow> 'u \<Rightarrow>
       ('t, 'r, 'k, 'u) CMClient" where
  "CMClient_new api rng t jobs rt u =
     \<lparr>channel_secured = False, connection = t, crypto = EncryptionManager_new api rng,
      listeners = no_listeners, next_jobid = jobs, router = rt, user = u\<rparr>"

section \<open>Control\<close>

definition skipW :: "('t, 'r, 'k, 'u) action" where
  "skipW w = (Inr (), w)"

definition throwW :: "error \<Rightarrow> ('t, 'r, 'k, 'u) action" where
  "throwW e w = (Inl e, w)"

definition seqW ::
    "('t, 'r, 'k, 'u) action \<Rightarrow> ('t, 'r, 'k, 'u) action \<Rightarrow> ('t, 'r, 'k, 'u) action" where
  "seqW m k w = (case m w of (Inl e, w') \<Rightarrow> (Inl e, w') | (Inr _, w') \<Rightarrow> k w')"

text \<open>\<open>catch (const std::exception&)\<close>: every exception of the program is one.\<close>

definition catchW ::
    "('t, 'r, 'k, 'u) action \<Rightarrow> (exn \<Rightarrow> ('t, 'r, 'k, 'u) action) \<Rightarrow> ('t, 'r, 'k, 'u) action" where
  "catchW m h w = (case m w of (Inl (Exn x), w') \<Rightarrow> h x w' | r \<Rightarrow> r)"

text \<open>A step that may throw but leaves the client alone, and what follows it.\<close>

definition withE :: "error + 'a \<Rightarrow> ('a \<Rightarrow> ('t, 'r, 'k, 'u) action) \<Rightarrow> ('t, 'r, 'k, 'u) action" where
  "withE r k = (case r of Inl e \<Rightarrow> throwW e | Inr x \<Rightarrow> k x)"

primrec forW :: "('a \<Rightarrow> ('t, 'r, 'k, 'u) action) \<Rightarrow> 'a list \<Rightarrow> ('t, 'r, 'k, 'u) action" where
  "forW f [] = skipW"
| "forW f (x # xs) = seqW (f x) (forW f xs)"

section \<open>Sending and emitting\<close>

definition emitW :: "('h, 'r, 't, 'k, 'u) env \<Rightarrow> 'h Event \<Rightarrow> ('t, 'r, 'k, 'u) action" where
  "emitW env ev w = EventEmitter_emit (e_call env) (listeners w) ev w"

definition onW :: "EventType \<Rightarrow> 'k \<Rightarrow> ('t, 'r, 'k, 'u) CMClient \<Rightarrow> ('t, 'r, 'k, 'u) CMClient" where
  "onW type k w = w\<lparr>listeners := EventEmitter_on type k (listeners w)\<rparr>"

definition conn_send :: "('h, 'r, 't, 'k, 'u) env \<Rightarrow> byte list \<Rightarrow> ('t, 'r, 'k, 'u) action" where
  "conn_send env data w =
     (case i_async_send (e_transport env) data (connection w) of
        Inl e \<Rightarrow> (Inl e, w)
      | Inr t \<Rightarrow> (Inr (), w\<lparr>connection := t\<rparr>))"

definition send_msg_impl :: "('h, 'r, 't, 'k, 'u) env \<Rightarrow> byte list \<Rightarrow> ('t, 'r, 'k, 'u) action" where
  "send_msg_impl env data w =
     (if channel_secured w then
        (case process_outgoing_encrypted_message (e_crypto env) data (crypto w) of
           (Inl e, em) \<Rightarrow> (Inl e, w\<lparr>crypto := em\<rparr>)
         | (Inr data', em) \<Rightarrow> conn_send env data' (w\<lparr>crypto := em\<rparr>))
      else conn_send env data w)"

text \<open>\<open>send_msg\<close> serializes first; \<open>ser\<close> is the result of \<open>msg.Serialize()\<close>.\<close>

definition send_msg :: "('h, 'r, 't, 'k, 'u) env \<Rightarrow> error + byte list \<Rightarrow> ('t, 'r, 'k, 'u) action" where
  "send_msg env ser = withE ser (send_msg_impl env)"

definition set_channel_secured ::
    "bool \<Rightarrow> ('t, 'r, 'k, 'u) CMClient \<Rightarrow> ('t, 'r, 'k, 'u) CMClient" where
  "set_channel_secured val w = w\<lparr>channel_secured := val\<rparr>"

definition exn_what :: "('h, 'r, 't, 'k, 'u) env \<Rightarrow> exn \<Rightarrow> string" where
  "exn_what env x = (case x of RuntimeError s \<Rightarrow> s | _ \<Rightarrow> e_what env x)"

section \<open>Handlers of struct messages\<close>

definition handle_encrypt_request ::
    "('h, 'r, 't, 'k, 'u) env \<Rightarrow> PacketMsg \<Rightarrow> ('t, 'r, 'k, 'u) action" where
  "handle_encrypt_request env packet =
     catchW
       (\<lambda>w. case generate_encryption_response (e_crypto env) (MsgPacket packet :: 'h IPacketMsg) (crypto w) of
              (Inl e, em) \<Rightarrow> (Inl e, w\<lparr>crypto := em\<rparr>)
            | (Inr response, em) \<Rightarrow>
                send_msg env (Msg_Serialize MsgChannelEncryptResponse_ops response) (w\<lparr>crypto := em\<rparr>))
       (\<lambda>x. emitW env (ChannelSecuredEvent (EventResult_fail (exn_what env x))))"

definition handle_encrypt_result ::
    "('h, 'r, 't, 'k, 'u) env \<Rightarrow> PacketMsg \<Rightarrow> ('t, 'r, 'k, 'u) action" where
  "handle_encrypt_result env packet =
     withE (Msg_of_packet MsgChannelEncryptResult_ops (MsgPacket packet :: 'h IPacketMsg)) (\<lambda>res w.
       let success = (MsgChannelEncryptResult_result (Body res) = EResult_OK);
           w = set_channel_secured success w;
           evt = ChannelSecuredEvent
             (if success then EventResult_ok
              else EventResult_fail ''Failed to encrypt channel; bad server?'')
       in emitW env evt w)"

definition run_msg_handler ::
    "('h, 'r, 't, 'k, 'u) env \<Rightarrow> MsgHandler \<Rightarrow> PacketMsg \<Rightarrow> ('t, 'r, 'k, 'u) action" where
  "run_msg_handler env f packet =
     (case f of
        encrypt_request_fn \<Rightarrow> handle_encrypt_request env packet
      | encrypt_result_fn \<Rightarrow> handle_encrypt_result env packet)"

definition dispatch_msg ::
    "('h, 'r, 't, 'k, 'u) env \<Rightarrow> PacketMsg \<Rightarrow> ('t, 'r, 'k, 'u) action" where
  "dispatch_msg env packet =
     withE (route_msg (e_dispatch env) (msg_msgType packet)) (\<lambda>r.
       case r of
         Ignored \<Rightarrow> skipW
       | Call f \<Rightarrow> run_msg_handler env f packet
       | NotImplemented \<Rightarrow> emitW env (MsgNotImplementedEvent (msg_msgType packet) (MsgPacket packet)))"

section \<open>Handlers of protobuf messages\<close>

definition handle_logon_response ::
    "('h, 'r, 't, 'k, 'u) env \<Rightarrow> 'h PacketClientMsgProtobuf \<Rightarrow> ('t, 'r, 'k, 'u) action" where
  "handle_logon_response env packet =
     withE (MsgProto_of_packet (e_logon_response env) (ProtoPacket packet)) (\<lambda>msg.
       let success = (eresult (proto_Body msg) = EResult_OK);
           evt = ClientLogonEvent
             (if success then EventResult_ok
              else EventResult_fail ''Client login failed; incorrect information?'')
             (Some (client_supplied_steamid (proto_Body msg)))
             (Some (client_sessionid (e_header env) (MsgHdrProtoBuf_proto (Header msg))))
       in emitW env evt)"

definition handle_prod_info_response ::
    "('h, 'r, 't, 'k, 'u) env \<Rightarrow> 'h PacketClientMsgProtobuf \<Rightarrow> ('t, 'r, 'k, 'u) action" where
  "handle_prod_info_response env packet =
     withE (MsgProto_of_packet (e_pics_response env) (ProtoPacket packet)) (\<lambda>msg.
     withE (product_info_event (proto_Body msg)) (emitW env))"

text \<open>
  \<open>offset\<close> stays within the payload, whose size is below \<open>2 ^ 63\<close>, so the sums do not wrap. Where
  the second test fails the offset has already been advanced.
\<close>

definition read_frame :: "byte list \<Rightarrow> nat \<Rightarrow> byte list option \<times> nat" where
  "read_frame payload offset =
     (if length payload < offset + 4 then (None, offset)
      else
        (let subSize = unat (le_word (take 4 (drop offset payload)) :: u32);
             offset = offset + 4
         in if length payload < offset + subSize then (None, offset)
            else (Some (take subSize (drop offset payload)), offset + subSize)))"

function multi_frames :: "byte list \<Rightarrow> nat \<Rightarrow> byte list list" where
  "multi_frames payload offset =
     (case read_frame payload offset of
        (None, _) \<Rightarrow> []
      | (Some frame, offset') \<Rightarrow> frame # multi_frames payload offset')"
  by pat_completeness auto
termination
  by (relation "measure (\<lambda>(payload, offset). length payload - offset)")
    (auto simp: read_frame_def Let_def split: if_splits)

declare multi_frames.simps [simp del]

definition gzip_decompress ::
    "('h, 'r, 't, 'k, 'u) env \<Rightarrow> byte list \<Rightarrow> u32 \<Rightarrow> error + byte list" where
  "gzip_decompress env input expected_size =
     (case e_gunzip env input of
        Inl what \<Rightarrow> Inl (Exn (RuntimeError what))
      | Inr out \<Rightarrow> Inr out)"

definition multi_payload :: "('h, 'r, 't, 'k, 'u) env \<Rightarrow> CMsgMulti \<Rightarrow> error + byte list" where
  "multi_payload env body =
     (if size_unzipped body > 0 then gzip_decompress env (message_body body) (size_unzipped body)
      else Inr (message_body body))"

text \<open>\<open>again\<close> is \<open>client.consume_frame(_, false)\<close>; the frames are consumed as they are cut out.\<close>

definition handle_multi ::
    "('h, 'r, 't, 'k, 'u) env \<Rightarrow> (byte list \<Rightarrow> ('t, 'r, 'k, 'u) action) \<Rightarrow>
       'h PacketClientMsgProtobuf \<Rightarrow> ('t, 'r, 'k, 'u) action" where
  "handle_multi env again packet =
     withE (MsgProto_of_packet (e_multi env) (ProtoPacket packet)) (\<lambda>multi.
     withE (multi_payload env (proto_Body multi)) (\<lambda>payload.
     forW again (multi_frames payload 0)))"

definition run_proto_handler ::
    "('h, 'r, 't, 'k, 'u) env \<Rightarrow> (byte list \<Rightarrow> ('t, 'r, 'k, 'u) action) \<Rightarrow>
       ProtoHandler \<Rightarrow> 'h PacketClientMsgProtobuf \<Rightarrow> ('t, 'r, 'k, 'u) action" where
  "run_proto_handler env again f packet =
     (case f of
        multi_fn \<Rightarrow> handle_multi env again packet
      | logon_response_fn \<Rightarrow> handle_logon_response env packet
      | prod_info_response_fn \<Rightarrow> handle_prod_info_response env packet)"

definition dispatch_proto ::
    "('h, 'r, 't, 'k, 'u) env \<Rightarrow> (byte list \<Rightarrow> ('t, 'r, 'k, 'u) action) \<Rightarrow>
       'h PacketClientMsgProtobuf \<Rightarrow> ('t, 'r, 'k, 'u) action" where
  "dispatch_proto env again packet =
     withE (route_proto (e_dispatch env) (proto_msgType packet)) (\<lambda>r.
       case r of
         Ignored \<Rightarrow> skipW
       | Call f \<Rightarrow> run_proto_handler env again f packet
       | NotImplemented \<Rightarrow>
           emitW env (MsgNotImplementedEvent (get_msg (proto_msgType packet)) (ProtoPacket packet)))"

section \<open>Registrations\<close>

definition proto_registrations :: "(u32 \<times> ProtoHandler) list" where
  "proto_registrations =
     [(EMsg_ClientLogOnResponse, logon_response_fn),
      (EMsg_Multi, multi_fn),
      (EMsg_ClientPICSProductInfoResponse, prod_info_response_fn)]"

definition msg_registrations :: "(u32 \<times> MsgHandler) list" where
  "msg_registrations =
     [(EMsg_ChannelEncryptRequest, encrypt_request_fn),
      (EMsg_ChannelEncryptResult, encrypt_result_fn)]"

definition g_dispatch :: "(ProtoHandler, MsgHandler) DispatchTable" where
  "g_dispatch =
     put_all MsgRegister msg_registrations
       (put_all ProtoRegister proto_registrations DispatchTable_new)"

definition g_request_router :: "(RequestType, CommandHandler) RequestRouter" where
  "g_request_router =
     put_all RequestRegister
       [(AnonymousLogin_type, anon_logon_fn), (ClientLogoff_type, logoff_fn),
        (GetProductInfo_type, get_product_info_fn)]
       RequestRouter_new"

section \<open>Receiving\<close>

definition is_encryption_msg :: "u32 \<Rightarrow> bool" where
  "is_encryption_msg emsg_code \<longleftrightarrow>
     emsg_code = EMsg_ChannelEncryptRequest \<or>
     emsg_code = EMsg_ChannelEncryptResponse \<or>
     emsg_code = EMsg_ChannelEncryptResult"

definition frame_emsg :: "byte list \<Rightarrow> u32" where
  "frame_emsg data =
     ucast (data ! 0) OR push_bit 8 (ucast (data ! 1)) OR push_bit 16 (ucast (data ! 2)) OR
     push_bit 24 (ucast (data ! 3))"

text \<open>The \<open>try\<close> block; a struct message that is not an encryption message is dropped.\<close>

definition parse_and_dispatch ::
    "('h, 'r, 't, 'k, 'u) env \<Rightarrow> (byte list \<Rightarrow> ('t, 'r, 'k, 'u) action) \<Rightarrow> u32 \<Rightarrow> byte list \<Rightarrow>
       ('t, 'r, 'k, 'u) action" where
  "parse_and_dispatch env again emsg data =
     (if is_encryption_msg emsg then withE (PacketMsg_make emsg data) (dispatch_msg env)
      else if is_protobuf_msg emsg then
        withE (PacketClientMsgProtobuf_make (e_header env) emsg data) (dispatch_proto env again)
      else skipW)"

definition incoming ::
    "('h, 'r, 't, 'k, 'u) env \<Rightarrow> byte list \<Rightarrow> bool \<Rightarrow> ('t, 'r, 'k, 'u) CMClient \<Rightarrow> error + byte list" where
  "incoming env frame encrypt w =
     (if encrypt \<and> channel_secured w
      then process_incoming_encrypted_message (e_crypto env) (crypto w) frame
      else Inr frame)"

text \<open>
  The frames of a \<open>Multi\<close> message may be \<open>Multi\<close> messages again, and a gzip payload may be longer
  than its message: the first argument bounds the depth of the recursion.
\<close>

fun consume_frame ::
    "('h, 'r, 't, 'k, 'u) env \<Rightarrow> nat \<Rightarrow> byte list \<Rightarrow> bool \<Rightarrow> ('t, 'r, 'k, 'u) action" where
  "consume_frame env 0 frame encrypt w = (Inl (Undefined StackExhausted), w)"
| "consume_frame env (Suc n) frame encrypt w =
     (if length frame < 4 then (Inr (), w)
      else
        (case incoming env frame encrypt w of
           Inl e \<Rightarrow> (Inl e, w)
         | Inr data \<Rightarrow>
             if length data < 4 then (Inl (Undefined OutOfBounds), w)
             else catchW
               (parse_and_dispatch env (\<lambda>f. consume_frame env n f False) (frame_emsg data) data)
               (\<lambda>_. skipW) w))"

section \<open>Sessions\<close>

definition start_session :: "('h, 'r, 't, 'k, 'u) env \<Rightarrow> ('t, 'r, 'k, 'u) action" where
  "start_session env w =
     (let t = i_set_on_frame (e_transport env) (connection w);
          (r, t) = i_network_connect (e_transport env) t
      in (r, w\<lparr>connection := t\<rparr>))"

definition client_is_connected :: "('h, 'r, 't, 'k, 'u) env \<Rightarrow> ('t, 'r, 'k, 'u) CMClient \<Rightarrow> bool" where
  "client_is_connected env w \<longleftrightarrow> i_is_connected (e_transport env) (connection w)"

definition shutdown ::
    "('h, 'r, 't, 'k, 'u) env \<Rightarrow> ('t, 'r, 'k, 'u) CMClient \<Rightarrow> ('t, 'r, 'k, 'u) CMClient" where
  "shutdown env w =
     (if client_is_connected env w
      then w\<lparr>connection := i_network_close (e_transport env) (connection w)\<rparr> else w)"

section \<open>Commands\<close>

definition generate_jobid :: "('t, 'r, 'k, 'u) CMClient \<Rightarrow> u64 \<times> ('t, 'r, 'k, 'u) CMClient" where
  "generate_jobid w = (next_jobid w, w\<lparr>next_jobid := next_jobid w + 1\<rparr>)"

definition anon_logon_msg :: "('h, 'r, 't, 'k, 'u) env \<Rightarrow> ('h, CMsgClientLogon) MsgProto" where
  "anon_logon_msg env =
     (let msg = MsgProto_new (e_header env) (e_logon env) EMsg_ClientLogon;
          steamID = SteamID_make 0 0 EUniverse_Public EAccountType_AnonUser;
          msg = MsgProto_map_header (set_steamid (e_header env) (SteamID_ConvertToUInt64 steamID)) msg
      in msg\<lparr>proto_Body := (proto_Body msg)\<lparr>client_package_version := 1561159470,
           protocol_version := 65580\<rparr>\<rparr>)"

definition exec_anon_logon :: "('h, 'r, 't, 'k, 'u) env \<Rightarrow> ('t, 'r, 'k, 'u) action" where
  "exec_anon_logon env w =
     (if \<not> channel_secured w then
        emitW env (ClientLogonEvent_of_result (EventResult_fail ''Channel not secured'')) w
      else send_msg env (MsgProto_Serialize (e_header env) (e_logon env) (anon_logon_msg env)) w)"

definition exec_logoff :: "('h, 'r, 't, 'k, 'u) env \<Rightarrow> ('t, 'r, 'k, 'u) action" where
  "exec_logoff env w =
     (if \<not> channel_secured w then skipW w
      else
        (let msg = MsgProto_new (e_header env) (e_logon env) EMsg_ClientLogOff
         in send_msg env (MsgProto_Serialize (e_header env) (e_logon env) msg) w))"

definition product_info_msg ::
    "('h, 'r, 't, 'k, 'u) env \<Rightarrow> GetProductInfo \<Rightarrow> u64 \<Rightarrow>
       ('h, CMsgClientPICSProductInfoRequest) MsgProto" where
  "product_info_msg env req jobid =
     (let msg = MsgProto_new (e_header env) (e_pics_request env) EMsg_ClientPICSProductInfoRequest;
          app = \<lparr>ra_appid = req_id req, ra_access_token = req_app_token req\<rparr>;
          msg = msg\<lparr>proto_Body := (proto_Body msg)\<lparr>req_apps := req_apps (proto_Body msg) @ [app]\<rparr>\<rparr>;
          msg = SetSourceJobID (e_header env) jobid msg;
          msg = MsgProto_map_header (set_client_sessionid (e_header env) (req_client_sessionid req)) msg
      in MsgProto_map_header (set_steamid (e_header env) (req_steamid req)) msg)"

definition exec_get_product_info ::
    "('h, 'r, 't, 'k, 'u) env \<Rightarrow> GetProductInfo \<Rightarrow> ('t, 'r, 'k, 'u) action" where
  "exec_get_product_info env req w =
     (let (jobid, w) = generate_jobid w;
          msg = product_info_msg env req jobid
      in send_msg env (MsgProto_Serialize (e_header env) (e_pics_request env) msg) w)"

fun request_type :: "Command \<Rightarrow> RequestType" where
  "request_type AnonymousLogin = AnonymousLogin_type"
| "request_type ClientLogoff = ClientLogoff_type"
| "request_type (ProductInfoCommand _) = GetProductInfo_type"

text \<open>
  The registered function casts the \<open>const void*\<close> to the type it was registered for; a request
  of another type would be read as what it is not.
\<close>

fun run_command ::
    "('h, 'r, 't, 'k, 'u) env \<Rightarrow> CommandHandler \<Rightarrow> Command \<Rightarrow> ('t, 'r, 'k, 'u) action" where
  "run_command env anon_logon_fn AnonymousLogin = exec_anon_logon env"
| "run_command env logoff_fn ClientLogoff = exec_logoff env"
| "run_command env get_product_info_fn (ProductInfoCommand req) = exec_get_product_info env req"
| "run_command env _ _ = throwW (Undefined OutOfBounds)"

definition execute :: "('h, 'r, 't, 'k, 'u) env \<Rightarrow> Command \<Rightarrow> ('t, 'r, 'k, 'u) action" where
  "execute env req w =
     (let (fn, rt) = route_request (request_type req) (router w);
          w = w\<lparr>router := rt\<rparr>
      in case fn of
           Inl e \<Rightarrow> (Inl e, w)
         | Inr None \<Rightarrow> (Inr (), w)
         | Inr (Some f) \<Rightarrow> run_command env f req w)"

section \<open>The facade\<close>

text \<open>\<open>SteamClient\<close> owns one \<open>CMClient\<close> and forwards to it; its destructor disconnects.\<close>

definition SteamClient_connect :: "('h, 'r, 't, 'k, 'u) env \<Rightarrow> ('t, 'r, 'k, 'u) action" where
  "SteamClient_connect env = start_session env"

definition SteamClient_disconnect ::
    "('h, 'r, 't, 'k, 'u) env \<Rightarrow> ('t, 'r, 'k, 'u) CMClient \<Rightarrow> ('t, 'r, 'k, 'u) CMClient" where
  "SteamClient_disconnect env = shutdown env"

text \<open>
  The destructor of \<open>SteamClient\<close> disconnects and then destroys its \<open>CMClient\<close>, which closes the
  connection if that is still up.
\<close>

definition CMClient_destroy ::
    "('h, 'r, 't, 'k, 'u) env \<Rightarrow> ('t, 'r, 'k, 'u) CMClient \<Rightarrow> ('t, 'r, 'k, 'u) CMClient" where
  "CMClient_destroy env w =
     (if client_is_connected env w
      then w\<lparr>connection := i_network_close (e_transport env) (connection w)\<rparr> else w)"

definition SteamClient_destroy ::
    "('h, 'r, 't, 'k, 'u) env \<Rightarrow> ('t, 'r, 'k, 'u) CMClient \<Rightarrow> ('t, 'r, 'k, 'u) CMClient" where
  "SteamClient_destroy env w = CMClient_destroy env (SteamClient_disconnect env w)"

definition SteamClient_is_connected :: "('h, 'r, 't, 'k, 'u) env \<Rightarrow> ('t, 'r, 'k, 'u) CMClient \<Rightarrow> bool" where
  "SteamClient_is_connected env = client_is_connected env"

definition SteamClient_on ::
    "EventType \<Rightarrow> 'k \<Rightarrow> ('t, 'r, 'k, 'u) CMClient \<Rightarrow> ('t, 'r, 'k, 'u) CMClient" where
  "SteamClient_on = onW"

definition SteamClient_execute ::
    "('h, 'r, 't, 'k, 'u) env \<Rightarrow> Command \<Rightarrow> ('t, 'r, 'k, 'u) action" where
  "SteamClient_execute env = execute env"

end
