(* ===== verification/Client_Facts.thy ===== *)
theory Client_Facts
  imports Cm_Client
begin

text \<open>
  Facts about the client that the properties rest on: the routing of the registered tables, the
  framing of \<open>Multi\<close> payloads, how the depth bound of \<open>consume_frame\<close> matters, which exceptions
  get out, and what the operations keep of the client's state.
\<close>

section \<open>Routing\<close>

lemmas emsg_defs = EMsg_ChannelEncryptRequest_def EMsg_ChannelEncryptResponse_def
  EMsg_ChannelEncryptResult_def EMsg_ClientLogOnResponse_def EMsg_Multi_def
  EMsg_ClientPICSProductInfoResponse_def

lemma table_ok_g_dispatch: "table_ok g_dispatch"
  by (simp add: g_dispatch_def table_ok_put table_ok_new)

lemma slot_new: "slot (replicate n None) m = None"
  by (simp add: slot_def)

lemma slot_proto: "slot (proto_table g_dispatch) m = map_of proto_registrations m"
proof -
  have "slot (proto_table (put_all ProtoRegister proto_registrations
      (DispatchTable_new :: (ProtoHandler, MsgHandler) DispatchTable))) m =
    (case map_of proto_registrations m of Some v \<Rightarrow> Some v
     | None \<Rightarrow> slot (proto_table (DispatchTable_new :: (ProtoHandler, MsgHandler) DispatchTable)) m)"
    by (rule proto_registry.look_put_all)
      (simp_all add: proto_registrations_def emsg_defs DispatchTable_new_def MAX_EMSG_def)
  then show ?thesis
    by (simp add: g_dispatch_def separate_tables DispatchTable_new_def slot_new split: option.splits)
qed

lemma slot_msg: "slot (msg_table g_dispatch) m = map_of msg_registrations m"
proof -
  let ?t = "put_all ProtoRegister proto_registrations
    (DispatchTable_new :: (ProtoHandler, MsgHandler) DispatchTable)"
  have t: "msg_table ?t = replicate MAX_EMSG None"
    by (simp add: separate_tables DispatchTable_new_def)
  have "slot (msg_table (put_all MsgRegister msg_registrations ?t)) m =
    (case map_of msg_registrations m of Some v \<Rightarrow> Some v | None \<Rightarrow> slot (msg_table ?t) m)"
    by (rule msg_registry.look_put_all) (simp_all add: t msg_registrations_def emsg_defs MAX_EMSG_def)
  then show ?thesis by (simp add: g_dispatch_def t slot_new split: option.splits)
qed

lemma route_proto_g:
  "unat (get_msg m) < MAX_EMSG \<Longrightarrow> route_proto g_dispatch m =
     Inr (case map_of proto_registrations (get_msg m) of Some f \<Rightarrow> Call f | None \<Rightarrow> NotImplemented)"
  using table_ok_g_dispatch by (simp add: route_proto_def route_id_inside table_ok_def slot_proto)

lemma route_msg_g:
  "unat m < MAX_EMSG \<Longrightarrow> route_msg g_dispatch m =
     Inr (case map_of msg_registrations m of Some f \<Rightarrow> Call f | None \<Rightarrow> NotImplemented)"
  using table_ok_g_dispatch by (simp add: route_msg_def route_id_inside table_ok_def slot_msg)

section \<open>The parts of a \<open>Multi\<close> payload\<close>

definition part_buffer :: "byte list \<Rightarrow> byte list" where
  "part_buffer m = le_bytes (word_of_nat (length m) :: u32) @ m"

definition part_cut :: "byte list \<Rightarrow> (byte list \<times> byte list) option" where
  "part_cut bs =
     (case read_frame bs 0 of (None, _) \<Rightarrow> None | (Some m, off) \<Rightarrow> Some (m, drop off bs))"

lemma part_cut_eq:
  "part_cut bs =
     (if length bs < 4 then None
      else let n = unat (le_word (take 4 bs) :: u32) in
        if length bs < 4 + n then None else Some (take n (drop 4 bs), drop (4 + n) bs))"
  by (simp add: part_cut_def read_frame_def Let_def)

interpretation multi: framing part_buffer part_cut sendable
proof unfold_locales
  fix m r assume "sendable m"
  then show "part_cut (part_buffer m @ r) = Some (m, r)"
    by (simp add: part_cut_eq part_buffer_def unat_sendable)
next
  fix bs m r assume "part_cut bs = Some (m, r)"
  then show "length r < length bs"
    by (auto simp: part_cut_eq Let_def split: if_splits)
next
  fix m n assume m: "sendable m" and n: "n < length (part_buffer m)"
  show "part_cut (take n (part_buffer m)) = None"
  proof (cases "4 \<le> n")
    case True
    then have "take 4 (take n (part_buffer m)) = le_bytes (word_of_nat (length m) :: u32)"
      by (simp add: part_buffer_def)
    with m n show ?thesis by (simp add: part_cut_eq unat_sendable part_buffer_def)
  next
    case False
    then have "length (take n (part_buffer m)) < 4" by simp
    then show ?thesis by (simp only: part_cut_eq if_True)
  qed
qed

lemma read_frame_part:
  "part_cut (drop offset payload) =
     (case read_frame payload offset of (None, _) \<Rightarrow> None | (Some m, off) \<Rightarrow> Some (m, drop off payload))"
proof -
  have "length payload - offset < n \<longleftrightarrow> length payload < offset + n" if "0 < n" for n
    using that by linarith
  then show ?thesis by (simp add: part_cut_eq read_frame_def Let_def ac_simps)
qed

lemma read_frame_advances: "read_frame payload offset = (Some m, off) \<Longrightarrow> offset < off \<and> off \<le> length payload"
  by (auto simp: read_frame_def Let_def split: if_splits)

lemma multi_frames_drain:
  "length payload - offset < n \<Longrightarrow> multi_frames payload offset = fst (drain n part_cut (drop offset payload))"
proof (induction payload offset arbitrary: n rule: multi_frames.induct)
  case (1 payload offset)
  obtain k where n: "n = Suc k" using "1.prems" by (cases n) auto
  obtain x off where r: "read_frame payload offset = (x, off)" by fastforce
  show ?case
  proof (cases x)
    case None
    with n r show ?thesis by (simp add: multi_frames.simps [of payload offset] read_frame_part)
  next
    case (Some m)
    with r read_frame_advances [of payload offset m off] have "offset < off" "off \<le> length payload"
      by simp_all
    with "1.prems" n have "length payload - off < k" by linarith
    with "1.IH" [OF r [symmetric] Some] have "multi_frames payload off = fst (drain k part_cut (drop off payload))"
      by simp
    with Some n r show ?thesis
      by (simp add: multi_frames.simps [of payload offset] read_frame_part split: prod.splits)
  qed
qed

lemma multi_frames_parts:
  assumes "\<forall>m \<in> set ms. sendable m" and "part_cut r = None"
  shows "multi_frames (concat (map part_buffer ms) @ r) 0 = ms"
proof -
  let ?p = "concat (map part_buffer ms) @ r"
  have "length ms \<le> length (concat (map part_buffer ms))"
    by (induction ms) (auto simp: part_buffer_def)
  then have "length ms < Suc (length ?p)" by simp
  then have "drain (Suc (length ?p)) part_cut ?p = (ms, r)"
    using assms by (intro multi.drain_frames)
  then show ?thesis by (simp add: multi_frames_drain [of _ _ "Suc (length ?p)"] del: drain.simps)
qed

text \<open>The frames that are cut out are shorter than the payload.\<close>

lemma multi_frames_shorter:
  "f \<in> set (multi_frames payload offset) \<Longrightarrow> length f + 4 \<le> length payload"
proof (induction payload offset rule: multi_frames.induct)
  case (1 payload offset)
  then show ?case
    by (auto simp: multi_frames.simps [of payload offset] read_frame_def Let_def split: if_splits option.splits prod.splits)
qed

section \<open>The depth bound\<close>

text \<open>\<open>agrees m m'\<close>: the second does what the first does, wherever the first does not exhaust the stack.\<close>

definition agrees :: "('t, 'r, 'k, 'u) action \<Rightarrow> ('t, 'r, 'k, 'u) action \<Rightarrow> bool" where
  "agrees m m' \<longleftrightarrow> (\<forall>w. fst (m w) \<noteq> Inl (Undefined StackExhausted) \<longrightarrow> m' w = m w)"

lemma agrees_refl: "agrees m m"
  by (simp add: agrees_def)

lemma agrees_seq: "agrees m m' \<Longrightarrow> agrees k k' \<Longrightarrow> agrees (seqW m k) (seqW m' k')"
  unfolding agrees_def
proof (intro allI impI)
  fix w
  assume m: "\<forall>w. fst (m w) \<noteq> Inl (Undefined StackExhausted) \<longrightarrow> m' w = m w"
    and k: "\<forall>w. fst (k w) \<noteq> Inl (Undefined StackExhausted) \<longrightarrow> k' w = k w"
    and e: "fst (seqW m k w) \<noteq> Inl (Undefined StackExhausted)"
  obtain r v where r: "m w = (r, v)" by fastforce
  with m e have "m' w = (r, v)" by (cases r) (auto simp: seqW_def)
  with r k e show "seqW m' k' w = seqW m k w" by (cases r) (auto simp: seqW_def)
qed

lemma agrees_catch: "agrees m m' \<Longrightarrow> agrees (catchW m h) (catchW m' h)"
  unfolding agrees_def catchW_def
proof (intro allI impI)
  fix w
  assume a: "\<forall>w. fst (m w) \<noteq> Inl (Undefined StackExhausted) \<longrightarrow> m' w = m w"
    and b: "fst (case m w of (Inl (Exn x), w') \<Rightarrow> h x w' | r \<Rightarrow> r) \<noteq> Inl (Undefined StackExhausted)"
  then have "fst (m w) \<noteq> Inl (Undefined StackExhausted)" by (cases "m w") auto
  with a show "(case m' w of (Inl (Exn x), w') \<Rightarrow> h x w' | r \<Rightarrow> r) =
      (case m w of (Inl (Exn x), w') \<Rightarrow> h x w' | r \<Rightarrow> r)" by simp
qed

lemma agrees_withE: "(\<And>x. agrees (k x) (k' x)) \<Longrightarrow> agrees (withE r k) (withE r k')"
  by (cases r) (auto simp: withE_def agrees_refl)

lemma agrees_for: "(\<And>x. agrees (f x) (g x)) \<Longrightarrow> agrees (forW f xs) (forW g xs)"
  by (induction xs) (auto intro: agrees_refl agrees_seq)

lemma agrees_dispatch:
  "(\<And>f. agrees (c f) (d f)) \<Longrightarrow> agrees (parse_and_dispatch env c emsg data) (parse_and_dispatch env d emsg data)"
  unfolding parse_and_dispatch_def dispatch_proto_def run_proto_handler_def handle_multi_def
  by (auto intro!: agrees_refl agrees_withE agrees_for split: route.splits ProtoHandler.splits)

lemma consume_frame_more:
  "fst (consume_frame env n frame encrypt w) \<noteq> Inl (Undefined StackExhausted) \<Longrightarrow>
     consume_frame env (Suc n) frame encrypt w = consume_frame env n frame encrypt w"
proof -
  have "agrees (consume_frame env n frame encrypt) (consume_frame env (Suc n) frame encrypt)"
  proof (induction n arbitrary: frame encrypt)
    case 0
    then show ?case by (simp add: agrees_def)
  next
    case (Suc n)
    have "agrees (catchW (parse_and_dispatch env (\<lambda>f. consume_frame env n f False) e d) h)
        (catchW (parse_and_dispatch env (\<lambda>f. consume_frame env (Suc n) f False) e d) h)" for e d h
      by (intro agrees_catch agrees_dispatch Suc.IH)
    then show ?case
      unfolding agrees_def consume_frame.simps(2)
      by (auto split: sum.splits simp del: consume_frame.simps(2))
  qed
  then show "fst (consume_frame env n frame encrypt w) \<noteq> Inl (Undefined StackExhausted) \<Longrightarrow>
     consume_frame env (Suc n) frame encrypt w = consume_frame env n frame encrypt w"
    by (simp add: agrees_def)
qed

lemma consume_frame_depth:
  assumes "fst (consume_frame env n frame encrypt w) \<noteq> Inl (Undefined StackExhausted)" and "n \<le> n'"
  shows "consume_frame env n' frame encrypt w = consume_frame env n frame encrypt w"
  using assms(2)
proof (induction rule: dec_induct)
  case (step m)
  with assms(1) consume_frame_more [of env m frame encrypt w] show ?case
    by (simp del: consume_frame.simps)
qed simp

end
