(* ===== verification/Client_Safety.thy ===== *)
theory Client_Safety
  imports Client_Facts
begin

text \<open>
  How \<open>consume_frame\<close> can end, and what the operations of the client keep of its state: which
  exceptions get out, that a depth of the length of the frame is enough when payloads do not
  grow, that the keys never change, and when the channel counts as secured.
\<close>

section \<open>Exceptions\<close>

lemma catch_skip_no_exception: "fst (catchW m (\<lambda>_. skipW) w) \<noteq> Inl (Exn x)"
  by (auto simp: catchW_def skipW_def split: prod.splits sum.splits error.splits)

lemma consume_plain_no_exception: "fst (consume_frame env n frame False w) \<noteq> Inl (Exn x)"
  by (cases n) (auto simp: incoming_def catch_skip_no_exception)

lemma consume_exception:
  assumes "fst (consume_frame env n frame encrypt w) = Inl (Exn x)"
  shows "consume_frame env n frame encrypt w = (Inl (Exn x), w) \<and> incoming env frame encrypt w = Inl (Exn x)"
  using assms by (cases n) (auto simp: catch_skip_no_exception split: if_splits sum.splits)

lemma for_no_exception:
  "(\<And>x w y. x \<in> set xs \<Longrightarrow> fst (f x w) \<noteq> Inl (Exn y)) \<Longrightarrow> fst (forW f xs w) \<noteq> Inl (Exn y)"
proof (induction xs arbitrary: w)
  case (Cons x xs)
  then show ?case by (auto simp: seqW_def split: prod.splits sum.splits) (metis fst_conv)+
qed (simp add: skipW_def)

lemma catch_idle: "(\<And>y. fst (m w) \<noteq> Inl (Exn y)) \<Longrightarrow> catchW m h w = m w"
  by (fastforce simp: catchW_def split: prod.splits sum.splits error.splits)

section \<open>Enough depth\<close>

definition deep :: "error + 'a \<Rightarrow> bool" where
  "deep r \<longleftrightarrow> r = Inl (Undefined StackExhausted)"

lemma deep_simps [simp]:
  "\<not> deep (Inr x)" "\<not> deep (Inl (Exn e))" "\<not> deep (Inl (Undefined OutOfBounds))"
  "deep (Inl (Undefined StackExhausted))"
  by (simp_all add: deep_def)

definition shallow :: "'a sm \<Rightarrow> bool" where
  "shallow m \<longleftrightarrow> (\<forall>s. \<not> deep (m s))"

lemma shallow_slice: "shallow (read_slice n)"
  by (auto simp: shallow_def read_slice_def write_mode_error_def underflow_error_def split: option.splits)

lemma shallow_bind: "shallow m \<Longrightarrow> (\<And>x. shallow (k x)) \<Longrightarrow> shallow (bindS m k)"
  by (auto simp: shallow_def bindS_def deep_def split: sum.splits prod.splits)

lemma shallow_word: "shallow Read_word"
  using shallow_slice by (auto simp: shallow_def Read_word_def deep_def split: sum.splits)

lemma shallow_simps: "shallow (returnS x)" "shallow (throwS (Exn e))" "shallow (Read_into n)"
  using shallow_slice by (auto simp: shallow_def returnS_def throwS_def Read_into_def)

lemmas shallow_intros = shallow_bind shallow_word shallow_simps

lemma shallow_headers:
  "shallow MsgHdr_Deserialize" "shallow MsgChannelEncryptRequest_Deserialize"
  "shallow MsgChannelEncryptResult_Deserialize" "shallow (MsgHdrProtoBuf_Deserialize api)"
  unfolding MsgHdr_Deserialize_def MsgChannelEncryptRequest_Deserialize_def
    MsgChannelEncryptResult_Deserialize_def MsgHdrProtoBuf_Deserialize_def
  by (auto intro!: shallow_intros split: prod.splits bool.splits)

lemma not_deep_packets:
  "\<not> deep (PacketMsg_make e d)" "\<not> deep (PacketClientMsgProtobuf_make api e d)"
  using shallow_headers(1) shallow_headers(4) [of api]
  by (auto simp: PacketMsg_make_def PacketClientMsgProtobuf_make_def shallow_def deep_def
      split: sum.splits prod.splits)

lemma not_deep_Msg: "shallow (body_Deserialize ops) \<Longrightarrow> \<not> deep (Msg_of_packet ops p)"
  by (auto simp: Msg_of_packet_def shallow_def deep_def Let_def split: IPacketMsg.splits sum.splits prod.splits)

lemma not_deep_MsgProto: "\<not> deep (MsgProto_of_packet api p)"
  by (auto simp: MsgProto_of_packet_def Let_def split: IPacketMsg.splits)

lemma not_deep_response: "\<not> deep (fst (generate_encryption_response api p em))"
proof -
  have "\<not> deep (Msg_of_packet MsgChannelEncryptRequest_ops p)"
    using shallow_headers(2) by (intro not_deep_Msg) (simp add: MsgChannelEncryptRequest_ops_def)
  moreover have "\<not> deep (check_encryption_request api b c)" for b c
    by (auto simp: check_encryption_request_def RUNTIME_ASSERT_def throw_error_def)
  ultimately show ?thesis
    by (auto simp: generate_encryption_response_def Let_def rsa_encrypt_oaep_sha1_def deep_def
        split: sum.splits prod.splits option.splits)
qed

lemma not_deep_encrypt: "\<not> deep (fst (symmetric_encrypt_hmac_iv api p k s r))"
  by (auto simp: symmetric_encrypt_hmac_iv_def Let_def split: prod.splits)

lemma not_deep_outgoing: "\<not> deep (fst (process_outgoing_encrypted_message api d em))"
  using not_deep_encrypt [of api d "session_key em" "hmac_secret em" "rng_state em"]
  by (auto simp: process_outgoing_encrypted_message_def split: prod.splits)

lemma not_deep_string_body: "\<not> deep (string_body s)"
proof (induction s rule: string_body.induct)
  case (2 c cs)
  have m: "deep (case r of Inl e \<Rightarrow> Inl e | Inr (out, t) \<Rightarrow> Inr (g out, t)) \<longleftrightarrow> deep r"
    for r :: "error + string \<times> string" and g :: "string \<Rightarrow> string"
    by (cases r) (auto simp: deep_def)
  show ?case
  proof (cases "c = QUOTE")
    case False
    then show ?thesis
    proof (cases "c = BACKSLASH")
      case True
      with False 2(1) show ?thesis by (cases cs) (simp_all add: m)
    next
      case plain: False
      with False 2(2) show ?thesis by (simp add: m)
    qed
  qed simp
qed simp

lemma not_deep_parse_string: "\<not> deep (parse_string s)" "\<not> deep (Vdf_Text.consume s)"
  using not_deep_string_body by (auto simp: parse_string_def consume_def split: list.splits)

lemma not_deep_text_object: "\<not> deep (text_parse_object obj s)"
proof (induction obj s rule: text_parse_object.induct)
  case (1 obj s)
  note a = not_deep_parse_string(1) [of "skip_ws s"] not_deep_parse_string(2) [of "skip_ws s"]
  show ?case
    by (subst text_parse_object.simps)
      (insert 1 a not_deep_parse_string(1) [of "skip_ws r" for r]
        not_deep_parse_string(2) [of "skip_ws r" for r], auto simp: deep_def split: sum.splits prod.splits)
qed

lemma not_deep_parse_text: "\<not> deep (text_parse obj s)"
proof (induction obj s rule: text_parse.induct)
  case (1 obj s)
  note a = not_deep_parse_string(1) [of "skip_ws s"]
  show ?case
    by (subst text_parse.simps)
      (insert 1 a not_deep_parse_string(1) [of "skip_ws r" for r]
        not_deep_parse_string(2) [of "skip_ws r" for r] not_deep_text_object [of "[]" r for r],
        auto simp: deep_def split: sum.splits prod.splits)
qed

lemma not_deep_bindE: "\<not> deep m \<Longrightarrow> (\<And>x. \<not> deep (k x)) \<Longrightarrow> \<not> deep (bindE m k)"
  by (cases m) (auto simp: deep_def)

lemma not_deep_mapE: "(\<And>x. \<not> deep (f x)) \<Longrightarrow> \<not> deep (mapE f xs)"
  by (induction xs) (simp_all add: not_deep_bindE)

lemma not_deep_product_info: "\<not> deep (product_info_event body)"
proof -
  have o: "\<not> deep (as_object v)" for v by (auto simp: as_object_def split: Value.splits)
  have "\<not> deep (parse_text s)" for s using not_deep_parse_text by (simp add: parse_text_def)
  then have "\<not> deep (parse_app a)" for a by (simp add: parse_app_def Let_def not_deep_bindE o)
  moreover have "\<not> deep (parse_binary d)" for d
    using bin_parse_object_defined [of "[]" d] by (auto simp: parse_binary_def deep_def split: sum.splits)
  then have "\<not> deep (parse_pkg p)" for p by (simp add: parse_pkg_def Let_def not_deep_bindE o)
  ultimately show ?thesis by (simp add: product_info_event_def not_deep_bindE not_deep_mapE)
qed

text \<open>
  What an action needs of its surroundings: callbacks and the transport do not exhaust the stack
  themselves, and no \<open>Multi\<close> message carries a payload longer than its own bytes (true without
  compression, as a bytes field is part of the message it is parsed from).
\<close>

definition calm :: "('h, 'r, 't, 'k, 'u) env \<Rightarrow> bool" where
  "calm env \<longleftrightarrow>
     (\<forall>k ev w. \<not> deep (fst (e_call env k ev w))) \<and>
     (\<forall>d t. \<not> deep (i_async_send (e_transport env) d t))"

definition modest :: "('h, 'r, 't, 'k, 'u) env \<Rightarrow> bool" where
  "modest env \<longleftrightarrow>
     (\<forall>bs p. multi_payload env (snd (ParseFromArray (e_multi env) bs)) = Inr p \<longrightarrow> length p \<le> length bs)"

definition level :: "('t, 'r, 'k, 'u) action \<Rightarrow> bool" where
  "level m \<longleftrightarrow> (\<forall>w. \<not> deep (fst (m w)))"

lemma level_skip: "level skipW"
  by (simp add: level_def skipW_def)

lemma level_withE: "\<not> deep r \<Longrightarrow> (\<And>x. r = Inr x \<Longrightarrow> level (k x)) \<Longrightarrow> level (withE r k)"
  by (cases r) (auto simp: level_def withE_def throwW_def deep_def)

lemma level_seq:
  assumes "level m" and "level k"
  shows "level (seqW m k)"
proof -
  have "\<not> deep (fst (seqW m k w))" for w
  proof (cases "m w")
    case (Pair r v)
    with assms(1) have "\<not> deep r" by (metis fst_conv level_def)
    with Pair assms(2) show ?thesis by (cases r) (auto simp: seqW_def deep_def level_def)
  qed
  then show ?thesis by (simp add: level_def)
qed

lemma level_for: "(\<And>x. x \<in> set xs \<Longrightarrow> level (f x)) \<Longrightarrow> level (forW f xs)"
  by (induction xs) (auto intro: level_skip level_seq)

lemma level_catch:
  assumes "level m" and "\<And>x. level (h x)"
  shows "level (catchW m h)"
proof -
  have "\<not> deep (fst (catchW m h w))" for w
  proof (cases "m w")
    case (Pair r v)
    with assms(1) have "\<not> deep r" by (metis fst_conv level_def)
    with Pair assms(2) show ?thesis
      by (auto simp: catchW_def deep_def level_def split: sum.splits error.splits)
  qed
  then show ?thesis by (simp add: level_def)
qed

lemma level_emit:
  assumes "calm env"
  shows "level (emitW env ev)"
proof -
  have "\<not> deep (fst (Listener_emit (e_call env k ev) w))" for k w
  proof (cases "e_call env k ev w")
    case (Pair r v)
    with assms have "\<not> deep r" by (metis fst_conv calm_def)
    with Pair show ?thesis by (auto simp: Listener_emit_def deep_def split: sum.splits error.splits)
  qed
  then show ?thesis by (auto simp: level_def emitW_def EventEmitter_emit_def split: option.splits)
qed

lemma level_send: "calm env \<Longrightarrow> level (conn_send env d)"
  by (fastforce simp: level_def conn_send_def calm_def deep_def split: sum.splits)

lemma level_send_impl:
  assumes "calm env"
  shows "level (send_msg_impl env d)"
proof -
  have "\<not> deep (fst (send_msg_impl env d w))" for w
  proof (cases "process_outgoing_encrypted_message (e_crypto env) d (crypto w)")
    case (Pair r em)
    with not_deep_outgoing [of "e_crypto env" d "crypto w"] level_send [OF assms]
    show ?thesis by (cases r) (auto simp: send_msg_impl_def level_def deep_def)
  qed
  then show ?thesis by (simp add: level_def)
qed

lemma level_handle_request:
  assumes "calm env"
  shows "level (handle_encrypt_request env p)"
  unfolding handle_encrypt_request_def
proof (rule level_catch)
  note r = not_deep_response [of "e_crypto env" "MsgPacket p :: 'a IPacketMsg"]
  have s: "level (send_msg env (Msg_Serialize MsgChannelEncryptResponse_ops resp))" for resp
  proof -
    have "\<not> deep (Msg_Serialize MsgChannelEncryptResponse_ops resp)"
      by (auto simp: Msg_Serialize_def serialized_def thenS_def bindS_def Stream_new_def
          MsgHdr_Serialize_def MsgChannelEncryptResponse_Serialize_def Write_word_def
          Write_bytes_def MsgChannelEncryptResponse_ops_def split: sum.splits)
    then show ?thesis unfolding send_msg_def
      by (rule level_withE) (rule level_send_impl [OF assms])
  qed
  show "level (\<lambda>w. case generate_encryption_response (e_crypto env) (MsgPacket p :: 'a IPacketMsg) (crypto w) of
      (Inl e, em) \<Rightarrow> (Inl e, w\<lparr>crypto := em\<rparr>)
    | (Inr response, em) \<Rightarrow>
        send_msg env (Msg_Serialize MsgChannelEncryptResponse_ops response) (w\<lparr>crypto := em\<rparr>))"
    (is "level ?f")
  proof -
    have "\<not> deep (fst (?f w))" for w
    proof (cases "generate_encryption_response (e_crypto env) (MsgPacket p :: 'a IPacketMsg) (crypto w)")
      case (Pair x em)
      with r [of "crypto w"] s show ?thesis by (cases x) (auto simp: level_def deep_def)
    qed
    then show ?thesis by (simp add: level_def)
  qed
  show "level (emitW env (ChannelSecuredEvent (EventResult_fail (exn_what env x))))" for x
    by (rule level_emit [OF assms])
qed

lemma level_dispatch_msg:
  assumes "calm env"
  shows "level (dispatch_msg env p)"
proof -
  have "\<not> deep (Msg_of_packet MsgChannelEncryptResult_ops (MsgPacket p :: 'a IPacketMsg))"
    using shallow_headers(3) by (intro not_deep_Msg) (simp add: MsgChannelEncryptResult_ops_def)
  then have "level (handle_encrypt_result env p)"
    unfolding handle_encrypt_result_def
    by (rule level_withE) (use level_emit [OF assms] in \<open>simp add: level_def Let_def\<close>)
  moreover have "\<not> deep (route_msg (e_dispatch env) m)" for m
    by (auto simp: route_msg_def route_id_def array_get_def)
  ultimately show ?thesis
    unfolding dispatch_msg_def run_msg_handler_def
    by (intro level_withE)
      (auto intro: level_skip level_emit [OF assms] level_handle_request [OF assms]
        split: route.splits MsgHandler.splits)
qed

lemma level_parse_and_dispatch:
  assumes "calm env" and "modest env" and c: "\<And>f. length f < length data \<Longrightarrow> level (again f)"
  shows "level (parse_and_dispatch env again emsg data)"
proof -
  have m: "level (handle_multi env again p)" if p: "proto_payload p = data" for p
    unfolding handle_multi_def
  proof (intro level_withE not_deep_MsgProto)
    fix multi :: "('a, CMsgMulti) MsgProto"
    assume "MsgProto_of_packet (e_multi env) (ProtoPacket p) = Inr multi"
    then have b: "proto_Body multi = snd (ParseFromArray (e_multi env) (drop (proto_bodyOffset p) data))"
      using p by (auto simp: MsgProto_of_packet_def Let_def)
    show "\<not> deep (multi_payload env (proto_Body multi))"
      by (auto simp: multi_payload_def gzip_decompress_def split: sum.splits)
    fix payload assume "multi_payload env (proto_Body multi) = Inr payload"
    with assms(2) b have "length payload \<le> length (drop (proto_bodyOffset p) data)"
      by (simp only: modest_def)
    then have "length f < length data" if "f \<in> set (multi_frames payload 0)" for f
      using multi_frames_shorter [OF that] by simp
    with c show "level (forW again (multi_frames payload 0))" by (intro level_for) blast
  qed
  have l: "level (handle_logon_response env p)" "level (handle_prod_info_response env p)" for p
    unfolding handle_logon_response_def handle_prod_info_response_def Let_def
    by (intro level_withE not_deep_MsgProto not_deep_product_info level_emit assms)+
  have "\<not> deep (route_proto (e_dispatch env) m)" for m
    by (auto simp: route_proto_def route_id_def array_get_def)
  then have "level (dispatch_proto env again p)" if "proto_payload p = data" for p
    unfolding dispatch_proto_def run_proto_handler_def
    by (intro level_withE)
      (auto intro: level_skip level_emit [OF assms(1)] m that l split: route.splits ProtoHandler.splits)
  then have d: "level (withE (PacketClientMsgProtobuf_make (e_header env) emsg data) (dispatch_proto env again))"
    by (intro level_withE not_deep_packets)
      (auto simp: PacketClientMsgProtobuf_make_def split: sum.splits prod.splits)
  have "level (withE (PacketMsg_make emsg data) (dispatch_msg env))"
    by (intro level_withE not_deep_packets level_dispatch_msg assms)
  with d show ?thesis by (simp add: parse_and_dispatch_def level_skip)
qed

lemma not_deep_incoming: "\<not> deep (incoming env frame encrypt w)"
  by (auto simp: incoming_def process_incoming_encrypted_message_def symmetric_decrypt_hmac_iv_def
      Let_def split: option.splits)

lemma consume_depth_enough:
  assumes "calm env" and "modest env"
  shows "length frame < n \<Longrightarrow> level (consume_frame env n frame False)"
proof (induction n arbitrary: frame)
  case (Suc n)
  have "level (catchW (parse_and_dispatch env (\<lambda>f. consume_frame env n f False) e frame) (\<lambda>_. skipW))" for e
    using Suc by (intro level_catch level_parse_and_dispatch assms level_skip) simp
  then show ?case by (auto simp: level_def incoming_def)
qed simp

end
