(* ===== verification/Client_State.thy ===== *)
theory Client_State
  imports Client_Safety
begin

text \<open>
  What the operations keep of the client's state: the keys, whatever the callbacks do with the
  client's own interface; the secured flag, but for the result of the handshake; and the
  connection, through the contract of the transport.
\<close>

section \<open>Preserved predicates\<close>

definition keeps ::
    "(('t, 'r, 'k, 'u) CMClient \<Rightarrow> bool) \<Rightarrow> ('t, 'r, 'k, 'u) action \<Rightarrow> bool" where
  "keeps P m \<longleftrightarrow> (\<forall>w. P w \<longrightarrow> P (snd (m w)))"

lemma keeps_seq: "keeps P m \<Longrightarrow> keeps P k \<Longrightarrow> keeps P (seqW m k)"
  by (auto simp: keeps_def seqW_def split: prod.splits sum.splits)

lemma keeps_catch: "keeps P m \<Longrightarrow> (\<And>x. keeps P (h x)) \<Longrightarrow> keeps P (catchW m h)"
  by (auto simp: keeps_def catchW_def split: prod.splits sum.splits error.splits)

lemma keeps_skip: "keeps P skipW" "keeps P (throwW e)"
  by (simp_all add: keeps_def skipW_def throwW_def)

lemma keeps_withE: "(\<And>x. r = Inr x \<Longrightarrow> keeps P (k x)) \<Longrightarrow> keeps P (withE r k)"
  by (cases r) (simp_all add: withE_def keeps_skip)

lemma keeps_for: "(\<And>x. x \<in> set xs \<Longrightarrow> keeps P (f x)) \<Longrightarrow> keeps P (forW f xs)"
  by (induction xs) (auto intro: keeps_skip keeps_seq)

text \<open>
  A predicate that the callbacks and sending keep and that does not look at the generator of random
  numbers, the job counter or the router; and one that does not look at the connection.
\<close>

definition neutral ::
    "('h, 'r, 't, 'k, 'u) env \<Rightarrow> (('t, 'r, 'k, 'u) CMClient \<Rightarrow> bool) \<Rightarrow> bool" where
  "neutral env P \<longleftrightarrow>
     (\<forall>k ev. keeps P (e_call env k ev)) \<and>
     (\<forall>d. keeps P (send_msg_impl env d)) \<and>
     (\<forall>w g. P w \<longrightarrow> P (w\<lparr>crypto := (crypto w)\<lparr>rng_state := g\<rparr>\<rparr>)) \<and>
     (\<forall>w j. P w \<longrightarrow> P (w\<lparr>next_jobid := j\<rparr>)) \<and>
     (\<forall>w rt. P w \<longrightarrow> P (w\<lparr>router := rt\<rparr>))"

definition blind :: "(('t, 'r, 'k, 'u) CMClient \<Rightarrow> bool) \<Rightarrow> bool" where
  "blind P \<longleftrightarrow> (\<forall>w t. P w \<longrightarrow> P (w\<lparr>connection := t\<rparr>))"

lemma keeps_emit: "neutral env P \<Longrightarrow> keeps P (emitW env ev)"
  unfolding keeps_def neutral_def emitW_def EventEmitter_emit_def Listener_emit_def
  by (auto split: option.splits prod.splits sum.splits error.splits) (metis snd_conv)+

lemma keeps_conn_send: "blind P \<Longrightarrow> keeps P (conn_send env d)"
  by (auto simp: keeps_def blind_def conn_send_def split: sum.splits)

text \<open>Of the encryption manager only the state of the generator changes.\<close>

lemma rng_only:
  "session_key a = session_key b \<Longrightarrow> hmac_secret a = hmac_secret b \<Longrightarrow> a = b\<lparr>rng_state := rng_state a\<rparr>"
  for a b :: "'r EncryptionManager"
  by (cases a; cases b) simp

lemma outgoing_rng:
  "\<exists>g. snd (process_outgoing_encrypted_message api d em) = em\<lparr>rng_state := g\<rparr>"
  by (auto simp: process_outgoing_encrypted_message_def split: prod.splits)

lemma response_rng:
  "\<exists>g. snd (generate_encryption_response api p em) = em\<lparr>rng_state := g\<rparr>"
proof -
  have "hmac_secret (snd (generate_encryption_response api p em)) = hmac_secret em"
    by (simp add: generate_encryption_response_def Let_def split: sum.splits prod.splits)
  with keys_unchanged(2) show ?thesis by (blast intro: rng_only)
qed

lemma keeps_send_impl:
  assumes "blind P" and "\<And>w g. P w \<Longrightarrow> P (w\<lparr>crypto := (crypto w)\<lparr>rng_state := g\<rparr>\<rparr>)"
  shows "keeps P (send_msg_impl env d)"
  unfolding keeps_def
proof (intro allI impI)
  fix w assume w: "P w"
  obtain r em where p: "process_outgoing_encrypted_message (e_crypto env) d (crypto w) = (r, em)"
    by fastforce
  then obtain g where "em = (crypto w)\<lparr>rng_state := g\<rparr>"
    using outgoing_rng [of "e_crypto env" d "crypto w"] by auto
  with w assms(2) have "P (w\<lparr>crypto := em\<rparr>)" by simp
  with w p keeps_conn_send [OF assms(1)] show "P (snd (send_msg_impl env d w))"
    by (auto simp: send_msg_impl_def keeps_def split: sum.splits)
qed

lemma neutral_blind:
  assumes "\<And>k ev. keeps P (e_call env k ev)" and "blind P"
    and "\<And>w g. P w \<Longrightarrow> P (w\<lparr>crypto := (crypto w)\<lparr>rng_state := g\<rparr>\<rparr>)"
    and "\<And>w j. P w \<Longrightarrow> P (w\<lparr>next_jobid := j\<rparr>)" and "\<And>w rt. P w \<Longrightarrow> P (w\<lparr>router := rt\<rparr>)"
  shows "neutral env P"
  using assms keeps_send_impl [OF assms(2,3), of env] by (simp add: neutral_def)

lemma keeps_send: "neutral env P \<Longrightarrow> keeps P (send_msg env ser)"
  unfolding send_msg_def by (intro keeps_withE) (simp add: neutral_def)

lemma keeps_encrypt_request:
  assumes "neutral env P"
  shows "keeps P (handle_encrypt_request env p)"
  unfolding handle_encrypt_request_def
proof (intro keeps_catch keeps_emit assms)
  show "keeps P (\<lambda>w. case generate_encryption_response (e_crypto env) (MsgPacket p :: 'a IPacketMsg) (crypto w) of
      (Inl e, em) \<Rightarrow> (Inl e, w\<lparr>crypto := em\<rparr>)
    | (Inr response, em) \<Rightarrow>
        send_msg env (Msg_Serialize MsgChannelEncryptResponse_ops response) (w\<lparr>crypto := em\<rparr>))"
    unfolding keeps_def
  proof (intro allI impI)
    fix w assume w: "P w"
    obtain r em where g: "generate_encryption_response (e_crypto env) (MsgPacket p :: 'a IPacketMsg) (crypto w) = (r, em)"
      by fastforce
    then obtain s where "em = (crypto w)\<lparr>rng_state := s\<rparr>"
      using response_rng [of "e_crypto env" "MsgPacket p :: 'a IPacketMsg" "crypto w"] by auto
    with w assms have "P (w\<lparr>crypto := em\<rparr>)" by (simp add: neutral_def)
    with g keeps_send [OF assms] show "P (snd (case generate_encryption_response (e_crypto env) (MsgPacket p :: 'a IPacketMsg) (crypto w) of
      (Inl e, em) \<Rightarrow> (Inl e, w\<lparr>crypto := em\<rparr>)
    | (Inr response, em) \<Rightarrow>
        send_msg env (Msg_Serialize MsgChannelEncryptResponse_ops response) (w\<lparr>crypto := em\<rparr>)))"
      by (auto simp: keeps_def split: sum.splits)
  qed
qed

lemma keeps_encrypt_result:
  assumes "neutral env P" and "\<And>w b. P w \<Longrightarrow> P (set_channel_secured b w)"
  shows "keeps P (handle_encrypt_result env p)"
  unfolding handle_encrypt_result_def
  by (intro keeps_withE) (use keeps_emit [OF assms(1)] assms(2) in \<open>simp add: keeps_def Let_def\<close>)

lemma keeps_dispatch_msg:
  assumes "neutral env P" and "msg_msgType p = EMsg_ChannelEncryptResult \<Longrightarrow> keeps P (handle_encrypt_result env p)"
    and "e_dispatch env = g_dispatch"
  shows "keeps P (dispatch_msg env p)"
  unfolding dispatch_msg_def
proof (intro keeps_withE)
  fix x assume x: "route_msg (e_dispatch env) (msg_msgType p) = Inr x"
  have "keeps P (run_msg_handler env f p)" if f: "x = Call f" for f
  proof (cases f)
    case encrypt_request_fn
    then show ?thesis using keeps_encrypt_request [OF assms(1)] by (simp add: run_msg_handler_def)
  next
    case encrypt_result_fn
    have "unat (msg_msgType p) < MAX_EMSG"
    proof (rule ccontr)
      assume n: "\<not> ?thesis"
      have l: "length (msg_table g_dispatch) = MAX_EMSG"
        using table_ok_g_dispatch by (simp add: table_ok_def)
      consider "unat (msg_msgType p) = MAX_EMSG" | "MAX_EMSG < unat (msg_msgType p)"
        using n by linarith
      then show False
        using x assms(3) f l by cases (simp_all add: route_msg_def route_id_edge route_id_above)
    qed
    with x assms(3) f encrypt_result_fn have "map_of msg_registrations (msg_msgType p) = Some encrypt_result_fn"
      by (auto simp: route_msg_g split: option.splits)
    then have "msg_msgType p = EMsg_ChannelEncryptResult"
      by (auto simp: msg_registrations_def split: if_splits)
    with assms(2) encrypt_result_fn show ?thesis by (simp add: run_msg_handler_def)
  qed
  then show "keeps P (case x of Ignored \<Rightarrow> skipW | Call f \<Rightarrow> run_msg_handler env f p
      | NotImplemented \<Rightarrow> emitW env (MsgNotImplementedEvent (msg_msgType p) (MsgPacket p)))"
    using keeps_emit [OF assms(1)] keeps_skip by (auto split: route.splits)
qed

text \<open>The frames inside a \<open>Multi\<close> packet are the ones that are consumed again.\<close>

definition packet_frames :: "('h, 'r, 't, 'k, 'u) env \<Rightarrow> 'h PacketClientMsgProtobuf \<Rightarrow> byte list list" where
  "packet_frames env packet =
     (case MsgProto_of_packet (e_multi env) (ProtoPacket packet) of
        Inl _ \<Rightarrow> []
      | Inr multi \<Rightarrow>
          (case multi_payload env (proto_Body multi) of Inl _ \<Rightarrow> [] | Inr payload \<Rightarrow> multi_frames payload 0))"

lemma keeps_dispatch_proto:
  assumes "neutral env P" and "\<And>f. f \<in> set (packet_frames env p) \<Longrightarrow> keeps P (again f)"
  shows "keeps P (dispatch_proto env again p)"
proof -
  have "keeps P (handle_multi env again p)"
    unfolding handle_multi_def by (intro keeps_withE keeps_for assms(2)) (simp add: packet_frames_def)
  moreover have "keeps P (handle_logon_response env p)" "keeps P (handle_prod_info_response env p)"
    unfolding handle_logon_response_def handle_prod_info_response_def Let_def
    by (intro keeps_withE keeps_emit assms(1))+
  ultimately have "keeps P (run_proto_handler env again f p)" for f
    by (cases f) (simp_all add: run_proto_handler_def)
  then show ?thesis
    unfolding dispatch_proto_def
    by (intro keeps_withE) (auto intro: keeps_skip keeps_emit assms(1) split: route.splits)
qed

lemma keeps_parse_and_dispatch:
  assumes "neutral env P"
    and "\<And>p f. PacketClientMsgProtobuf_make (e_header env) emsg data = Inr p \<Longrightarrow>
      f \<in> set (packet_frames env p) \<Longrightarrow> keeps P (again f)"
    and "e_dispatch env = g_dispatch"
    and "\<And>p. emsg = EMsg_ChannelEncryptResult \<Longrightarrow> keeps P (handle_encrypt_result env p)"
  shows "keeps P (parse_and_dispatch env again emsg data)"
proof -
  have "keeps P (dispatch_msg env p)" if "PacketMsg_make emsg data = Inr p" for p
    using that assms(4)
    by (intro keeps_dispatch_msg assms) (auto simp: PacketMsg_make_def split: sum.splits prod.splits)
  then show ?thesis
    unfolding parse_and_dispatch_def
    by (auto intro!: keeps_withE keeps_dispatch_proto keeps_skip assms(1,2))
qed

text \<open>A predicate that does not look at the flag either is kept by whatever is received.\<close>

lemma keeps_consume:
  assumes "neutral env P" and "\<And>w b. P w \<Longrightarrow> P (set_channel_secured b w)"
    and "e_dispatch env = g_dispatch"
  shows "keeps P (consume_frame env n frame encrypt)"
proof (induction n arbitrary: frame encrypt)
  case (Suc n)
  have "keeps P (catchW (parse_and_dispatch env (\<lambda>f. consume_frame env n f False) e d) (\<lambda>_. skipW))" for e d
    by (intro keeps_catch keeps_parse_and_dispatch keeps_skip keeps_encrypt_result assms Suc.IH)
  then show ?case by (auto simp: keeps_def split: sum.splits)
qed (simp add: keeps_def)

lemma keeps_commands:
  assumes "neutral env P"
  shows "keeps P (execute env req)"
proof -
  have "keeps P (run_command env f req)" for f
  proof (cases "(env, f, req)" rule: run_command.cases)
    case (3 env' r)
    have "P (snd (generate_jobid w))" if "P w" for w
      using assms that by (simp add: neutral_def generate_jobid_def)
    with 3 keeps_send [OF assms] show ?thesis
      by (auto simp: exec_get_product_info_def keeps_def split: prod.splits) (metis snd_conv)+
  qed (use keeps_send [OF assms] keeps_emit [OF assms] in
    \<open>auto simp: exec_anon_logon_def exec_logoff_def keeps_def skipW_def throwW_def\<close>)
  moreover have "P (w\<lparr>router := rt\<rparr>)" if "P w" for w rt
    using assms that by (simp add: neutral_def)
  ultimately show ?thesis
    by (auto simp: keeps_def execute_def Let_def split: prod.splits sum.splits option.splits)
qed

lemma keeps_session:
  assumes "blind P"
  shows "keeps P (start_session env)" and "P w \<Longrightarrow> P (shutdown env w)"
  using assms by (auto simp: keeps_def blind_def start_session_def shutdown_def split: prod.splits)

section \<open>Keys and the secured flag\<close>

definition has_keys :: "byte list \<Rightarrow> byte list \<Rightarrow> ('t, 'r, 'k, 'u) CMClient \<Rightarrow> bool" where
  "has_keys key secret w \<longleftrightarrow> session_key (crypto w) = key \<and> hmac_secret (crypto w) = secret"

definition secured_is :: "bool \<Rightarrow> ('t, 'r, 'k, 'u) CMClient \<Rightarrow> bool" where
  "secured_is b w \<longleftrightarrow> channel_secured w = b"

text \<open>The callbacks use the client through its interface, which reaches neither keys nor flag.\<close>

definition callbacks_keep ::
    "('h, 'r, 't, 'k, 'u) env \<Rightarrow> (('t, 'r, 'k, 'u) CMClient \<Rightarrow> bool) \<Rightarrow> bool" where
  "callbacks_keep env P \<longleftrightarrow> (\<forall>k ev. keeps P (e_call env k ev))"

lemma blind_keys: "blind (has_keys key secret)" "blind (secured_is b)"
  by (simp_all add: blind_def has_keys_def secured_is_def)

lemma neutral_keys: "callbacks_keep env (has_keys key secret) \<Longrightarrow> neutral env (has_keys key secret)"
  by (intro neutral_blind blind_keys) (simp_all add: callbacks_keep_def has_keys_def)

lemma neutral_secured: "callbacks_keep env (secured_is b) \<Longrightarrow> neutral env (secured_is b)"
  by (intro neutral_blind blind_keys) (simp_all add: callbacks_keep_def secured_is_def)

lemma dispatch_not_multi:
  assumes "e_dispatch env = g_dispatch" and "get_msg emsg \<noteq> EMsg_Multi"
  shows "parse_and_dispatch env c emsg data = parse_and_dispatch env d emsg data"
proof -
  have m: "run_proto_handler env c f p = run_proto_handler env d f p" if "f \<noteq> multi_fn" for f p
    using that by (cases f) (simp_all add: run_proto_handler_def)
  have r: "f \<noteq> multi_fn" if "route_proto g_dispatch emsg = Inr (Call f)" for f
  proof
    assume f: "f = multi_fn"
    have "unat (get_msg emsg) < MAX_EMSG"
    proof (rule ccontr)
      assume n: "\<not> ?thesis"
      have l: "length (proto_table g_dispatch) = MAX_EMSG"
        using table_ok_g_dispatch by (simp add: table_ok_def)
      consider "unat (get_msg emsg) = MAX_EMSG" | "MAX_EMSG < unat (get_msg emsg)" using n by linarith
      then show False using that l by cases (simp_all add: route_proto_def route_id_edge route_id_above)
    qed
    with that f have "map_of proto_registrations (get_msg emsg) = Some multi_fn"
      by (auto simp: route_proto_g split: option.splits)
    with assms(2) show False by (auto simp: proto_registrations_def split: if_splits)
  qed
  have "dispatch_proto env c p = dispatch_proto env d p" if "proto_msgType p = emsg" for p
    using assms(1) that r m by (cases "route_proto g_dispatch emsg")
      (auto simp: dispatch_proto_def withE_def split: route.splits)
  then have "withE (PacketClientMsgProtobuf_make (e_header env) emsg data) (dispatch_proto env c) =
      withE (PacketClientMsgProtobuf_make (e_header env) emsg data) (dispatch_proto env d)"
    by (auto simp: withE_def PacketClientMsgProtobuf_make_def split: sum.splits prod.splits)
  then show ?thesis by (simp add: parse_and_dispatch_def)
qed

text \<open>
  A message that does not carry the result of the handshake, neither itself nor in a \<open>Multi\<close>
  message, at any depth.
\<close>

definition inner_frames :: "('h, 'r, 't, 'k, 'u) env \<Rightarrow> byte list \<Rightarrow> byte list list" where
  "inner_frames env data =
     (if get_msg (frame_emsg data) = EMsg_Multi
      then (case PacketClientMsgProtobuf_make (e_header env) (frame_emsg data) data of
              Inl _ \<Rightarrow> [] | Inr packet \<Rightarrow> packet_frames env packet)
      else [])"

fun quiet :: "('h, 'r, 't, 'k, 'u) env \<Rightarrow> nat \<Rightarrow> byte list \<Rightarrow> bool" where
  "quiet env 0 data \<longleftrightarrow> True"
| "quiet env (Suc n) data \<longleftrightarrow>
     length data < 4 \<or>
     frame_emsg data \<noteq> EMsg_ChannelEncryptResult \<and> (\<forall>f\<in>set (inner_frames env data). quiet env n f)"

lemma keeps_consume_quiet:
  assumes "neutral env P" and "e_dispatch env = g_dispatch"
  shows "P w \<Longrightarrow> (\<And>data. incoming env frame encrypt w = Inr data \<Longrightarrow> quiet env n data) \<Longrightarrow>
    P (snd (consume_frame env n frame encrypt w))"
proof (induction n arbitrary: w frame encrypt)
  case (Suc n)
  have inner: "keeps P (consume_frame env n f False)" if "quiet env n f" for f
    unfolding keeps_def using Suc.IH [of _ f False] that by (auto simp: incoming_def)
  have "P (snd (catchW (parse_and_dispatch env (\<lambda>f. consume_frame env n f False) (frame_emsg data) data) (\<lambda>_. skipW) w))"
    if d: "incoming env frame encrypt w = Inr data" "\<not> length data < 4" for data
  proof -
    have q: "frame_emsg data \<noteq> EMsg_ChannelEncryptResult" "\<forall>f\<in>set (inner_frames env data). quiet env n f"
      using Suc.prems(2) [OF d(1)] d(2) by auto
    have "keeps P (parse_and_dispatch env (\<lambda>f. consume_frame env n f False) (frame_emsg data) data)"
    proof (cases "get_msg (frame_emsg data) = EMsg_Multi")
      case True
      have "quiet env n f" if "PacketClientMsgProtobuf_make (e_header env) (frame_emsg data) data = Inr p"
        "f \<in> set (packet_frames env p)" for p f
        using that q(2) True by (simp add: inner_frames_def)
      then show ?thesis using q(1) by (intro keeps_parse_and_dispatch [OF assms(1) inner assms(2)]) simp_all
    next
      case False
      have "keeps P (parse_and_dispatch env (\<lambda>_. skipW) (frame_emsg data) data)"
        using q(1) by (intro keeps_parse_and_dispatch keeps_skip assms) simp_all
      then show ?thesis using dispatch_not_multi [OF assms(2) False] by metis
    qed
    then have "keeps P (catchW (parse_and_dispatch env (\<lambda>f. consume_frame env n f False) (frame_emsg data) data) (\<lambda>_. skipW))"
      by (intro keeps_catch keeps_skip)
    with Suc.prems(1) show ?thesis by (simp add: keeps_def)
  qed
  with Suc.prems(1) show ?case by (auto split: sum.split)
qed simp

lemma quiet_other: "frame_emsg frame \<noteq> EMsg_ChannelEncryptResult \<Longrightarrow> get_msg (frame_emsg frame) \<noteq> EMsg_Multi \<Longrightarrow> quiet env n frame"
  by (cases n) (simp_all add: inner_frames_def)

section \<open>The connection\<close>

context transport
begin

lemma shutdown_disconnects: "e_transport env = ops \<Longrightarrow> \<not> client_is_connected env (shutdown env w)"
  using closed_not_connected by (auto simp: shutdown_def client_is_connected_def)

text \<open>What \<open>SteamClient\<close> leaves to the destructor of \<open>CMClient\<close> is disconnected already.\<close>

lemma destroy_disconnects:
  "e_transport env = ops \<Longrightarrow>
     SteamClient_destroy env w = SteamClient_disconnect env w \<and> \<not> client_is_connected env (SteamClient_destroy env w)"
  using shutdown_disconnects [of env w]
  by (simp add: SteamClient_destroy_def CMClient_destroy_def SteamClient_disconnect_def)

lemma start_session_later:
  "e_transport env = ops \<Longrightarrow>
     client_is_connected env (snd (start_session env w)) = client_is_connected env w"
  using connect_state on_frame_state
  by (auto simp: start_session_def client_is_connected_def i_is_connected_def Let_def split: prod.splits)
    (metis snd_conv)+

lemma conn_send_ok:
  "e_transport env = ops \<Longrightarrow> fst (conn_send env d w) = Inr () \<and>
     client_is_connected env (snd (conn_send env d w)) = client_is_connected env w"
  using send_total [of d "connection w"]
  by (auto simp: conn_send_def client_is_connected_def i_is_connected_def)

lemma send_plain_ok:
  "e_transport env = ops \<Longrightarrow> \<not> channel_secured w \<Longrightarrow> fst (send_msg_impl env d w) = Inr ()"
  by (simp add: send_msg_impl_def conn_send_ok)

end

lemma session_keeps_secured:
  "channel_secured (snd (start_session env w)) = channel_secured w"
  "channel_secured (shutdown env w) = channel_secured w"
  by (simp_all add: start_session_def shutdown_def split: prod.splits)

end
