(* ===== verification/Client_Wire.thy ===== *)
theory Client_Wire
  imports Client_State
begin

text \<open>
  The client on the wire: which handler runs for which bytes, the encryption handshake, the
  encrypted transport of a frame, the \<open>Multi\<close> message, and the bytes of the commands.
\<close>

section \<open>From bytes to handlers\<close>

lemma frame_emsg_bytes: "frame_emsg (le_bytes (m :: u32) @ rest) = m"
proof -
  have "\<exists>a b c d. xs = [a, b, c, d]" if "length xs = 4" for xs :: "byte list"
    using that by (auto simp: length_Suc_conv numeral_eq_Suc)
  from this [of "le_bytes m"] obtain a b c d where l: "le_bytes m = [a, b, c, d]" by auto
  have "m = le_word (le_bytes m)" by simp
  also have "\<dots> = le_word [a, b, c, d]" by (simp only: l)
  also have "\<dots> = frame_emsg ([a, b, c, d] @ rest)"
    by (simp add: le_word_def frame_emsg_def or.assoc)
  finally show ?thesis unfolding l by (rule sym)
qed

lemma consume_plain:
  assumes "4 \<le> length frame" and "encrypt = False \<or> \<not> channel_secured w"
  shows "consume_frame env (Suc n) frame encrypt w =
    catchW (parse_and_dispatch env (\<lambda>f. consume_frame env n f False) (frame_emsg frame) frame)
      (\<lambda>_. skipW) w"
  using assms by (auto simp: incoming_def)

lemma catch_normal: "fst (m w) = Inr () \<Longrightarrow> catchW m h w = m w"
  by (cases "m w") (auto simp: catchW_def)

lemma withE_Inr [simp]: "withE (Inr x) k = k x"
  by (simp add: withE_def)

definition struct_bytes :: "MsgHdr \<Rightarrow> byte list \<Rightarrow> byte list" where
  "struct_bytes h rest =
     le_bytes (MsgHdr_Msg h) @ le_bytes (MsgHdr_targetJobID h) @ le_bytes (MsgHdr_sourceJobID h) @ rest"

lemma length_struct_bytes [simp]: "length (struct_bytes h rest) = 20 + length rest"
  by (simp add: struct_bytes_def)

lemma Msg_Serialize_bytes:
  assumes "writes (body_Serialize ops (Body m)) bb"
  shows "Msg_Serialize ops m = Inr (struct_bytes (Header m) (bb @ Payload m))"
proof -
  have "writes (MsgHdr_Serialize (Header m)) (le_bytes (MsgHdr_Msg (Header m)) @
      le_bytes (MsgHdr_targetJobID (Header m)) @ le_bytes (MsgHdr_sourceJobID (Header m)))"
    unfolding MsgHdr_Serialize_def by (intro writes_then writes_word)
  then have "writes (thenS (MsgHdr_Serialize (Header m)) (thenS (body_Serialize ops (Body m))
      (Write_bytes (Payload m)))) ((le_bytes (MsgHdr_Msg (Header m)) @
      le_bytes (MsgHdr_targetJobID (Header m)) @ le_bytes (MsgHdr_sourceJobID (Header m))) @ bb @ Payload m)"
    by (intro writes_then writes_bytes assms)
  then show ?thesis by (simp add: Msg_Serialize_def serialized_writes struct_bytes_def)
qed

text \<open>A struct message as it is read back by the receiving client.\<close>

lemma struct_frame:
  assumes "codec (\<lambda>_. True) (body_Serialize ops) (body_Deserialize ops) n"
    and "20 + n + length (Payload m) < vec_limit" and "Msg_Serialize ops m = Inr bs"
  obtains p where "PacketMsg_make e bs = Inr p" and "msg_msgType p = e"
    and "frame_emsg bs = MsgHdr_Msg (Header m)" and "20 \<le> length bs"
    and "\<exists>pre. length pre = n \<and> Msg_of_packet ops (MsgPacket p :: 'h IPacketMsg) =
      Inr \<lparr>Payload = pre @ Payload m, readPos = 0, Header = Header m, steam_id = None,
        SessionID = 0, targetJobID = 0, sourceJobID = 0, Body = Body m\<rparr>"
proof (rule Msg_wire [OF assms(1,2)])
  fix hb bb :: "byte list"
  assume l: "length hb = 20" "length bb = n" and s: "Msg_Serialize ops m = Inr (hb @ bb @ Payload m)"
    and p: "\<And>e. PacketMsg_make e (hb @ bb @ Payload m) =
      Inr \<lparr>msg_msgType = e, msg_header = Header m, msg_payload = hb @ bb @ Payload m, msg_bodyOffset = 20\<rparr>"
    and q: "\<And>e h. Msg_of_packet ops (MsgPacket \<lparr>msg_msgType = e, msg_header = h,
        msg_payload = hb @ bb @ Payload m, msg_bodyOffset = 20\<rparr> :: 'h IPacketMsg) =
      Inr \<lparr>Payload = bb @ Payload m, readPos = 0, Header = h, steam_id = None, SessionID = 0,
        targetJobID = 0, sourceJobID = 0, Body = Body m\<rparr>"
  obtain enc where "writes (body_Serialize ops (Body m)) enc"
    using assms(1) unfolding codec_def by blast
  from Msg_Serialize_bytes [OF this] assms(3) have "bs = struct_bytes (Header m) (enc @ Payload m)" by simp
  then have "frame_emsg bs = MsgHdr_Msg (Header m)" by (simp add: struct_bytes_def frame_emsg_bytes)
  with s assms(3) l p [of e] q [of e "Header m"] show ?thesis by (intro that) auto
qed

lemma map_of_msg_registrations:
  "map_of msg_registrations EMsg_ChannelEncryptRequest = Some encrypt_request_fn"
  "map_of msg_registrations EMsg_ChannelEncryptResult = Some encrypt_result_fn"
  by (simp_all add: msg_registrations_def emsg_defs)

lemma dispatch_struct:
  assumes "e_dispatch env = g_dispatch" and "PacketMsg_make e bs = Inr p" and "msg_msgType p = e"
    and "map_of msg_registrations e = Some f"
  shows "parse_and_dispatch env again e bs = run_msg_handler env f p"
proof -
  have e: "e = EMsg_ChannelEncryptRequest \<or> e = EMsg_ChannelEncryptResult"
    using assms(4) by (auto simp: msg_registrations_def split: if_splits)
  then have "unat e < MAX_EMSG" and "is_encryption_msg e"
    by (auto simp: MAX_EMSG_def emsg_defs is_encryption_msg_def)
  with assms show ?thesis by (simp add: parse_and_dispatch_def dispatch_msg_def route_msg_g)
qed

section \<open>The handshake\<close>

definition response_msg :: "byte list \<Rightarrow> byte list \<Rightarrow> MsgChannelEncryptResponse Msg" where
  "response_msg k crc = (Msg_new MsgChannelEncryptResponse_ops)\<lparr>Payload := k @ crc @ [0, 0, 0, 0]\<rparr>"

definition response_bytes :: "byte list \<Rightarrow> byte list \<Rightarrow> byte list" where
  "response_bytes k crc =
     struct_bytes \<lparr>MsgHdr_Msg = EMsg_ChannelEncryptResponse, MsgHdr_targetJobID = - 1,
        MsgHdr_sourceJobID = - 1\<rparr>
       (le_bytes (1 :: u32) @ le_bytes (128 :: u32) @ k @ crc @ [0, 0, 0, 0])"

lemma response_serialized:
  "Msg_Serialize MsgChannelEncryptResponse_ops (response_msg k crc) = Inr (response_bytes k crc)"
proof -
  let ?b = "MsgChannelEncryptResponse_new"
  have "writes (MsgChannelEncryptResponse_Serialize ?b)
      (le_bytes (MsgChannelEncryptResponse_protocolVersion ?b) @ le_bytes (MsgChannelEncryptResponse_keySize ?b))"
    unfolding MsgChannelEncryptResponse_Serialize_def by (intro writes_then writes_word)
  then have "writes (body_Serialize MsgChannelEncryptResponse_ops (Body (response_msg k crc)))
      (le_bytes (1 :: u32) @ le_bytes (128 :: u32))"
    by (simp add: response_msg_def Msg_new_def MsgChannelEncryptResponse_ops_def
        MsgChannelEncryptResponse_new_def MsgChannelEncryptRequest_PROTOCOL_VERSION_def)
  from Msg_Serialize_bytes [OF this] show ?thesis
    by (simp add: response_bytes_def response_msg_def Msg_new_def MsgHdr_SetEMsg_def MsgHdr_new_def
        MsgChannelEncryptResponse_ops_def MsgChannelEncryptResponse_GetEMsg_def)
qed

lemma handshake_request:
  assumes "e_dispatch env = g_dispatch" and "\<not> channel_secured w"
    and "Msg_Serialize MsgChannelEncryptRequest_ops m = Inr bs"
    and "MsgHdr_Msg (Header m) = EMsg_ChannelEncryptRequest"
    and "MsgChannelEncryptRequest_protocolVersion (Body m) = 1"
    and "MsgChannelEncryptRequest_universe (Body m) = EUniverse_Public"
    and "length (Payload m) = 16"
    and "rsa_oaep_sha1 (e_crypto env) STEAM_PUBLIC_KEY_DER (session_key (crypto w) @ Payload m)
      (rng_state (crypto w)) = (Some k, g)"
    and "\<And>d w. fst (conn_send env d w) = Inr ()"
  shows "consume_frame env (Suc n) bs True w =
    conn_send env (response_bytes k (crc_to_vector (crc32_hash (e_crypto env) k)))
      (w\<lparr>crypto := (crypto w)\<lparr>rng_state := g\<rparr>\<rparr>)"
proof -
  let ?w = "w\<lparr>crypto := (crypto w)\<lparr>rng_state := g\<rparr>\<rparr>"
  let ?r = "response_bytes k (crc_to_vector (crc32_hash (e_crypto env) k))"
  have "20 + 8 + length (Payload m) < vec_limit" using assms(7) by (simp add: vec_limit_def)
  then obtain p pre where p: "PacketMsg_make EMsg_ChannelEncryptRequest bs = Inr p"
      "msg_msgType p = EMsg_ChannelEncryptRequest" "frame_emsg bs = EMsg_ChannelEncryptRequest"
      "20 \<le> length bs" "length pre = 8"
    and q: "Msg_of_packet MsgChannelEncryptRequest_ops (MsgPacket p :: 'a IPacketMsg) =
      Inr \<lparr>Payload = pre @ Payload m, readPos = 0, Header = Header m, steam_id = None,
        SessionID = 0, targetJobID = 0, sourceJobID = 0, Body = Body m\<rparr>"
    using struct_frame [OF MsgChannelEncryptRequest_codec_ops _ assms(3)] assms(4) by metis
  have g: "generate_encryption_response (e_crypto env) (MsgPacket p :: 'a IPacketMsg) (crypto w) =
      (Inr (response_msg k (crc_to_vector (crc32_hash (e_crypto env) k))), (crypto w)\<lparr>rng_state := g\<rparr>)"
    using encryption_response_payload [OF q, of pre "Payload m"] assms p by (simp add: response_msg_def)
  obtain v where c: "conn_send env ?r ?w = (Inr (), v)"
    using assms(9) [of ?r ?w] by (metis prod.collapse)
  have s: "send_msg env (Msg_Serialize MsgChannelEncryptResponse_ops
      (response_msg k (crc_to_vector (crc32_hash (e_crypto env) k)))) ?w = conn_send env ?r ?w"
    using assms(2) by (simp add: send_msg_def response_serialized send_msg_impl_def)
  have "run_msg_handler env encrypt_request_fn p w = conn_send env ?r ?w"
    using g s c by (simp add: run_msg_handler_def handle_encrypt_request_def catchW_def)
  moreover have "parse_and_dispatch env again EMsg_ChannelEncryptRequest bs = run_msg_handler env encrypt_request_fn p" for again
    using assms(1) p by (intro dispatch_struct map_of_msg_registrations)
  ultimately show ?thesis
    using consume_plain [of bs True w env n] assms(2) p c by (simp add: catch_normal)
qed

lemma handshake_result:
  assumes "e_dispatch env = g_dispatch" and "\<not> channel_secured w"
    and "Msg_Serialize MsgChannelEncryptResult_ops m = Inr bs"
    and "MsgHdr_Msg (Header m) = EMsg_ChannelEncryptResult" and "Payload m = []"
  shows "consume_frame env (Suc n) bs True w =
    catchW (emitW env (ChannelSecuredEvent
        (if MsgChannelEncryptResult_result (Body m) = EResult_OK then EventResult_ok
         else EventResult_fail ''Failed to encrypt channel; bad server?'')))
      (\<lambda>_. skipW) (set_channel_secured (MsgChannelEncryptResult_result (Body m) = EResult_OK) w)"
proof -
  have codec: "codec (\<lambda>_. True) (body_Serialize MsgChannelEncryptResult_ops)
      (body_Deserialize MsgChannelEncryptResult_ops) 4"
    by (simp add: MsgChannelEncryptResult_ops_def MsgChannelEncryptResult_codec)
  have "20 + 4 + length (Payload m) < vec_limit" using assms(5) by (simp add: vec_limit_def)
  then obtain p pre where p: "PacketMsg_make EMsg_ChannelEncryptResult bs = Inr p"
      "msg_msgType p = EMsg_ChannelEncryptResult" "frame_emsg bs = EMsg_ChannelEncryptResult"
      "20 \<le> length bs"
    and q: "Msg_of_packet MsgChannelEncryptResult_ops (MsgPacket p :: 'a IPacketMsg) =
      Inr \<lparr>Payload = pre @ Payload m, readPos = 0, Header = Header m, steam_id = None,
        SessionID = 0, targetJobID = 0, sourceJobID = 0, Body = Body m\<rparr>"
    using struct_frame [OF codec _ assms(3)] assms(4) by metis
  have "parse_and_dispatch env again EMsg_ChannelEncryptResult bs = run_msg_handler env encrypt_result_fn p" for again
    using assms(1) p by (intro dispatch_struct map_of_msg_registrations)
  with consume_plain [of bs True w env n] assms(2) p q show ?thesis
    by (simp add: run_msg_handler_def handle_encrypt_result_def Let_def catchW_def)
qed

section \<open>Protobuf messages\<close>

definition proto_packet ::
    "('h, 'r, 't, 'k, 'u) env \<Rightarrow> u32 \<Rightarrow> byte list \<Rightarrow> byte list \<Rightarrow> 'h PacketClientMsgProtobuf" where
  "proto_packet env msg hs bd =
     \<lparr>proto_msgType = make_msg msg True,
      proto_header = \<lparr>MsgHdrProtoBuf_Msg = get_msg (make_msg msg True),
        MsgHdrProtoBuf_headerLength = word_of_nat (length hs),
        MsgHdrProtoBuf_proto = snd (ParseFromArray (e_header env) hs)\<rparr>,
      proto_payload = proto_hdr_bytes msg hs @ bd, proto_bodyOffset = 8 + length hs\<rparr>"

definition proto_frame_ok :: "('h, 'r, 't, 'k, 'u) env \<Rightarrow> byte list \<Rightarrow> byte list \<Rightarrow> bool" where
  "proto_frame_ok env hs bd \<longleftrightarrow>
     fst (ParseFromArray (e_header env) hs) \<and> length hs < 2 ^ 31 \<and> 8 + length hs + length bd < vec_limit"

lemma not_encryption_make_msg: "\<not> is_encryption_msg (make_msg msg True)"
proof -
  have "bit (make_msg msg True) 31" by (simp add: bit_make_msg)
  moreover have "\<not> bit EMsg_ChannelEncryptRequest 31" "\<not> bit EMsg_ChannelEncryptResponse 31"
      "\<not> bit EMsg_ChannelEncryptResult 31"
    unfolding bit31_iff by (simp_all add: emsg_defs)
  ultimately show ?thesis by (auto simp: is_encryption_msg_def)
qed

lemma small_emsg: "unat msg < MAX_EMSG \<Longrightarrow> get_msg (make_msg msg True) = msg"
  by (rule get_msg_make_msg) (simp add: bit31_iff MAX_EMSG_def)

lemma consume_proto:
  assumes "e_dispatch env = g_dispatch" and "proto_frame_ok env hs bd" and "unat msg < MAX_EMSG"
    and "encrypt = False \<or> \<not> channel_secured w"
  shows "consume_frame env (Suc n) (proto_hdr_bytes msg hs @ bd) encrypt w =
    catchW (case map_of proto_registrations msg of
        Some f \<Rightarrow> run_proto_handler env (\<lambda>f. consume_frame env n f False) f (proto_packet env msg hs bd)
      | None \<Rightarrow> emitW env (MsgNotImplementedEvent msg (ProtoPacket (proto_packet env msg hs bd))))
      (\<lambda>_. skipW) w"
proof -
  let ?f = "proto_hdr_bytes msg hs @ bd"
  have "ParseFromArray (e_header env) hs = (True, snd (ParseFromArray (e_header env) hs))"
    using assms(2) by (cases "ParseFromArray (e_header env) hs") (simp add: proto_frame_ok_def)
  then have "PacketClientMsgProtobuf_make (e_header env) (make_msg msg True) ?f = Inr (proto_packet env msg hs bd)"
    using PacketClientMsgProtobuf_make_bytes [of "e_header env" hs] assms(2)
    by (simp add: proto_packet_def proto_frame_ok_def)
  moreover have "frame_emsg ?f = make_msg msg True"
    by (simp add: proto_hdr_bytes_def frame_emsg_bytes)
  moreover have "route_proto g_dispatch (make_msg msg True) =
      Inr (case map_of proto_registrations msg of Some f \<Rightarrow> Call f | None \<Rightarrow> NotImplemented)"
    using assms(3) by (simp add: route_proto_g small_emsg)
  ultimately have "parse_and_dispatch env again (frame_emsg ?f) ?f =
      (case map_of proto_registrations msg of
        Some f \<Rightarrow> run_proto_handler env again f (proto_packet env msg hs bd)
      | None \<Rightarrow> emitW env (MsgNotImplementedEvent msg (ProtoPacket (proto_packet env msg hs bd))))" for again
    using assms(1,3) small_emsg [of msg]
    by (simp add: parse_and_dispatch_def not_encryption_make_msg is_protobuf_make_msg dispatch_proto_def
        proto_packet_def split: option.splits)
  then show ?thesis using consume_plain [of ?f encrypt w env n] assms(4) by simp
qed

lemma proto_body:
  "\<exists>m. MsgProto_of_packet api (ProtoPacket (proto_packet env msg hs bd)) = Inr m \<and>
     proto_Body m = snd (ParseFromArray api bd) \<and>
     MsgHdrProtoBuf_proto (Header m) = snd (ParseFromArray (e_header env) hs)"
  by (simp add: MsgProto_of_packet_def proto_packet_def Let_def)

lemma emit_catch: "catchW (emitW env ev) h w = emitW env ev w"
  by (rule catch_idle) (simp add: emitW_def emit_no_exception)

lemma catch_withE:
  "catchW (withE r k) (\<lambda>_. skipW) w =
     (case r of Inr x \<Rightarrow> catchW (k x) (\<lambda>_. skipW) w | Inl (Exn _) \<Rightarrow> (Inr (), w)
      | Inl (Undefined u) \<Rightarrow> (Inl (Undefined u), w))"
  by (cases r) (auto simp: withE_def throwW_def catchW_def skipW_def split: error.splits)

lemma map_of_proto_registrations:
  "map_of proto_registrations EMsg_Multi = Some multi_fn"
  "map_of proto_registrations EMsg_ClientLogOnResponse = Some logon_response_fn"
  "map_of proto_registrations EMsg_ClientPICSProductInfoResponse = Some prod_info_response_fn"
  by (simp_all add: proto_registrations_def emsg_defs)

lemma registered_emsgs:
  "unat EMsg_Multi < MAX_EMSG" "unat EMsg_ClientLogOnResponse < MAX_EMSG"
  "unat EMsg_ClientPICSProductInfoResponse < MAX_EMSG"
  by (simp_all add: emsg_defs MAX_EMSG_def)

lemma consume_logon_response:
  assumes "e_dispatch env = g_dispatch" and "proto_frame_ok env hs bd"
    and "encrypt = False \<or> \<not> channel_secured w"
    and "ParseFromArray (e_logon_response env) bd = (True, body)"
    and "ParseFromArray (e_header env) hs = (True, hdr)"
  shows "consume_frame env (Suc n) (proto_hdr_bytes EMsg_ClientLogOnResponse hs @ bd) encrypt w =
    emitW env (ClientLogonEvent
      (if eresult body = EResult_OK then EventResult_ok
       else EventResult_fail ''Client login failed; incorrect information?'')
      (Some (client_supplied_steamid body)) (Some (client_sessionid (e_header env) hdr))) w"
proof -
  obtain m where "MsgProto_of_packet (e_logon_response env)
      (ProtoPacket (proto_packet env EMsg_ClientLogOnResponse hs bd)) = Inr m"
    "proto_Body m = body" "MsgHdrProtoBuf_proto (Header m) = hdr"
    using proto_body [of "e_logon_response env" env EMsg_ClientLogOnResponse hs bd] assms(4,5) by auto
  then show ?thesis
    using assms(3) consume_proto [OF assms(1,2) registered_emsgs(2)]
    by (simp add: map_of_proto_registrations run_proto_handler_def handle_logon_response_def
        emit_catch Let_def)
qed

lemma consume_product_info:
  assumes "e_dispatch env = g_dispatch" and "proto_frame_ok env hs bd"
    and "encrypt = False \<or> \<not> channel_secured w"
    and "ParseFromArray (e_pics_response env) bd = (True, body)"
  shows "consume_frame env (Suc n) (proto_hdr_bytes EMsg_ClientPICSProductInfoResponse hs @ bd) encrypt w =
    (case product_info_event body of
       Inr ev \<Rightarrow> emitW env ev w
     | Inl (Exn _) \<Rightarrow> (Inr (), w)
     | Inl (Undefined u) \<Rightarrow> (Inl (Undefined u), w))"
proof -
  obtain m where "MsgProto_of_packet (e_pics_response env)
      (ProtoPacket (proto_packet env EMsg_ClientPICSProductInfoResponse hs bd)) = Inr m"
    "proto_Body m = body"
    using proto_body [of "e_pics_response env" env EMsg_ClientPICSProductInfoResponse hs bd] assms(4) by auto
  then show ?thesis
    using assms(3) consume_proto [OF assms(1,2) registered_emsgs(3)]
    by (simp add: map_of_proto_registrations run_proto_handler_def handle_prod_info_response_def
        catch_withE emit_catch split: sum.splits error.splits)
qed

text \<open>A \<open>Multi\<close> message without compression does what its frames do one after the other.\<close>

lemma consume_multi:
  assumes "e_dispatch env = g_dispatch" and "proto_frame_ok env hs bd"
    and "encrypt = False \<or> \<not> channel_secured w"
    and "ParseFromArray (e_multi env) bd = (True, multi)"
    and "multi_payload env multi = Inr (concat (map part_buffer fs) @ r)"
    and "\<forall>f \<in> set fs. sendable f" and "part_cut r = None"
  shows "consume_frame env (Suc n) (proto_hdr_bytes EMsg_Multi hs @ bd) encrypt w =
    forW (\<lambda>f. consume_frame env n f False) fs w"
proof -
  obtain m where m: "MsgProto_of_packet (e_multi env) (ProtoPacket (proto_packet env EMsg_Multi hs bd)) = Inr m"
    "proto_Body m = multi"
    using proto_body [of "e_multi env" env EMsg_Multi hs bd] assms(4) by auto
  have "fst (forW (\<lambda>f. consume_frame env n f False) fs w) \<noteq> Inl (Exn y)" for y
    by (rule for_no_exception) (rule consume_plain_no_exception)
  then have "catchW (forW (\<lambda>f. consume_frame env n f False) fs) (\<lambda>_. skipW) w =
      forW (\<lambda>f. consume_frame env n f False) fs w"
    by (rule catch_idle)
  then show ?thesis
    using m assms(3,5) multi_frames_parts [OF assms(6,7)] consume_proto [OF assms(1,2) registered_emsgs(1)]
    by (simp add: map_of_proto_registrations run_proto_handler_def handle_multi_def)
qed

section \<open>The encrypted channel\<close>

text \<open>
  What a secured client sends is decrypted by a secured client with the same keys, and handled
  as the plain frame would be.
\<close>

lemma encrypted_transport:
  assumes "crypto_lawful (e_crypto env)" and "manager_ok (crypto w)"
    and "channel_secured w" and "channel_secured v"
    and "has_keys (session_key (crypto w)) (hmac_secret (crypto w)) v"
    and "4 \<le> length p" and "length p < vec_limit"
  obtains c em where "send_msg_impl env p w = conn_send env c (w\<lparr>crypto := em\<rparr>)"
    and "consume_frame env (Suc n) c True v = consume_frame env (Suc n) p False v"
    and "length c = 16 + (length p div 16 + 1) * 16"
proof (rule symmetric_decrypt_encrypt [OF assms(1) manager_ok_key [OF assms(2)] assms(7),
    of "hmac_secret (crypto w)" "rng_state (crypto w)"])
  fix c
  assume c: "fst (symmetric_encrypt_hmac_iv (e_crypto env) p (session_key (crypto w))
        (hmac_secret (crypto w)) (rng_state (crypto w))) = Inr c"
    and d: "symmetric_decrypt_hmac_iv (e_crypto env) c (session_key (crypto w)) (hmac_secret (crypto w)) = Inr p"
    and l: "length c = 16 + (length p div 16 + 1) * 16"
  obtain em where "process_outgoing_encrypted_message (e_crypto env) p (crypto w) = (Inr c, em)"
    using c by (cases "symmetric_encrypt_hmac_iv (e_crypto env) p (session_key (crypto w))
        (hmac_secret (crypto w)) (rng_state (crypto w))") (simp add: process_outgoing_encrypted_message_def)
  with assms(3) have "send_msg_impl env p w = conn_send env c (w\<lparr>crypto := em\<rparr>)"
    by (simp add: send_msg_impl_def)
  moreover have "incoming env c True v = Inr p"
    using assms(4,5) d by (simp add: incoming_def process_incoming_encrypted_message_def has_keys_def)
  with l assms(6) have "consume_frame env (Suc n) c True v = consume_frame env (Suc n) p False v"
    by (simp add: incoming_def)
  ultimately show ?thesis using l that by blast
qed

section \<open>The commands\<close>

lemma route_g_request_router:
  "route_request AnonymousLogin_type g_request_router = (Inr (Some anon_logon_fn), g_request_router)"
  "route_request ClientLogoff_type g_request_router = (Inr (Some logoff_fn), g_request_router)"
  "route_request GetProductInfo_type g_request_router = (Inr (Some get_product_info_fn), g_request_router)"
  by (simp_all add: g_request_router_def RequestRouter_new_def RequestRegister_def route_request_def
      request_id_def next_request_id_def array_get_def sz_add_def MAX_REQUESTS_def nth_list_update)

lemma execute_routed:
  assumes "router w = g_request_router"
  shows "execute env AnonymousLogin w = exec_anon_logon env w"
    and "execute env ClientLogoff w = exec_logoff env w"
    and "execute env (ProductInfoCommand req) w = exec_get_product_info env req w"
  using assms by (cases w; simp add: execute_def route_g_request_router)+

text \<open>The anonymous SteamID: universe 1, account type 10, everything else zero.\<close>

lemma anon_steamid:
  "SteamID_ConvertToUInt64 (SteamID_make 0 0 EUniverse_Public EAccountType_AnonUser) = 0x01A0000000000000"
  by (simp add: SteamID_make_def SteamID_ConvertToUInt64_def EUniverse_Public_def
      EAccountType_AnonUser_def UNIVERSE_SHIFT_def ACCOUNT_TYPE_SHIFT_def push_bit_eq_mult)

lemma anon_logon_bytes:
  assumes "SerializeToString (e_header env) (set_steamid (e_header env) 0x01A0000000000000
      (proto_new (e_header env))) = Some hs"
    and "SerializeToString (e_logon env) ((proto_new (e_logon env))\<lparr>client_package_version := 1561159470,
      protocol_version := 65580\<rparr>) = Some bd"
    and "channel_secured w"
  shows "exec_anon_logon env w = send_msg_impl env (proto_hdr_bytes EMsg_ClientLogon hs @ bd) w"
proof -
  have "MsgProto_Serialize (e_header env) (e_logon env) (anon_logon_msg env) =
      Inr (proto_hdr_bytes EMsg_ClientLogon hs @ bd)"
    using MsgProto_Serialize_bytes [of "e_header env" "anon_logon_msg env" hs "e_logon env" bd] assms(1,2)
    by (simp add: anon_logon_msg_def MsgProto_new_def MsgProto_map_header_def anon_steamid
        MsgHdrProtoBuf_new_def MsgHdrProtoBuf_SetEMsg_def)
  with assms(3) show ?thesis by (simp add: exec_anon_logon_def send_msg_def)
qed

lemma product_info_bytes:
  assumes "SerializeToString (e_header env) (set_steamid (e_header env) (req_steamid req)
      (set_client_sessionid (e_header env) (req_client_sessionid req)
        (set_jobid_source (e_header env) (next_jobid w) (proto_new (e_header env))))) = Some hs"
    and "SerializeToString (e_pics_request env) \<lparr>req_apps = req_apps (proto_new (e_pics_request env)) @
      [\<lparr>ra_appid = req_id req, ra_access_token = req_app_token req\<rparr>]\<rparr> = Some bd"
  shows "exec_get_product_info env req w =
    send_msg_impl env (proto_hdr_bytes EMsg_ClientPICSProductInfoRequest hs @ bd)
      (w\<lparr>next_jobid := next_jobid w + 1\<rparr>)"
proof -
  have "MsgProto_Serialize (e_header env) (e_pics_request env)
      (product_info_msg env req (next_jobid w)) =
      Inr (proto_hdr_bytes EMsg_ClientPICSProductInfoRequest hs @ bd)"
    using MsgProto_Serialize_bytes [of "e_header env" "product_info_msg env req (next_jobid w)" hs
        "e_pics_request env" bd] assms
    by (cases "proto_new (e_pics_request env)")
      (simp add: product_info_msg_def MsgProto_new_def MsgProto_map_header_def SetSourceJobID_def
        MsgHdrProtoBuf_new_def MsgHdrProtoBuf_SetEMsg_def Let_def)
  then show ?thesis by (simp add: exec_get_product_info_def generate_jobid_def send_msg_def)
qed

lemma jobids_consecutive:
  "fst (generate_jobid (((\<lambda>w. snd (generate_jobid w)) ^^ n) w)) = next_jobid w + word_of_nat n"
proof -
  have "next_jobid (((\<lambda>w. snd (generate_jobid w)) ^^ n) w) = next_jobid w + word_of_nat n"
    by (induction n) (simp_all add: generate_jobid_def)
  then show ?thesis by (simp add: generate_jobid_def)
qed

section \<open>On the TCP connection\<close>

text \<open>
  The body handler of \<open>TCPConnection\<close> with the callback that \<open>start_session\<close> registers: the next
  read is started when \<open>consume_frame\<close> has returned, and not when it has thrown.
\<close>

definition tcp_body_handler ::
    "('h, 'r, unit TCPConnection, 'k, 'u) env \<Rightarrow> nat \<Rightarrow> byte list \<Rightarrow>
       (unit TCPConnection, 'r, 'k, 'u) action" where
  "tcp_body_handler env n bs w =
     (let (call, t) = body_done bs (connection w);
          w = w\<lparr>connection := t\<rparr>;
          (r, w) = (case call of
                      None \<Rightarrow> (Inr (), w)
                    | Some (_, frame) \<Rightarrow> consume_frame env n frame True w)
      in case r of
           Inl e \<Rightarrow> (Inl e, w)
         | Inr _ \<Rightarrow> (Inr (), w\<lparr>connection := start_read_header (connection w)\<rparr>))"

lemma tcp_body_undecryptable:
  assumes "on_frame (connection w) = Some ()" and "4 \<le> length bs"
    and "incoming env bs True w = Inl (Exn x)"
  shows "tcp_body_handler env (Suc n) bs w =
    (Inl (Exn x), w\<lparr>connection := (connection w)\<lparr>body_buffer := bs\<rparr>\<rparr>)"
proof -
  have "incoming env bs True (w\<lparr>connection := t\<rparr>) = Inl (Exn x)" for t
    using assms(3) by (simp add: incoming_def split: if_splits)
  with assms(1,2) show ?thesis by (simp add: tcp_body_handler_def body_done_def)
qed

lemma closed_send_sticks:
  assumes "\<not> is_open (sock c)" and "outstanding (sock c) = []" and "write_queue c = []"
  obtains c' where "async_send data c = Inr c'" and "stuck c'" and "wire (sock c') = wire (sock c)"
    and "conn_state c' = conn_state c"
  using assms that by (simp add: async_send_def do_write_def socket_start_def stuck_def pending_writes_def)

end
