(* ===== verification/Sample_World.thy ===== *)
theory Sample_World
  imports Client_Wire
begin

text \<open>
  A concrete world for the parameters of the model, on which the hypotheses of the properties
  can be checked: primitives with the sizes and inverses that \<open>crypto_lawful\<close> asks for (PKCS
  padding, exclusive or), protobuf classes with a fixed-size encoding, a directory with one
  server, and callbacks that record their events.
\<close>

section \<open>Primitives\<close>

definition mask_bytes :: "byte list \<Rightarrow> byte list" where
  "mask_bytes bs = map (\<lambda>b. b XOR 0x5A) bs"

lemma mask_bytes_simps [simp]: "length (mask_bytes bs) = length bs" "mask_bytes (mask_bytes bs) = bs"
  by (simp_all add: mask_bytes_def o_def xor.assoc)

definition pkcs_pad :: "byte list \<Rightarrow> byte list" where
  "pkcs_pad p = (let k = 16 - length p mod 16 in p @ replicate k (word_of_nat k))"

definition pkcs_unpad :: "byte list \<Rightarrow> byte list option" where
  "pkcs_unpad c =
     (if c = [] then None
      else let k = unat (last c) in
        if k = 0 \<or> 16 < k \<or> length c < k then None else Some (take (length c - k) c))"

lemma length_pkcs_pad: "length (pkcs_pad p) = (length p div 16 + 1) * 16"
proof -
  have "n + (16 - n mod 16) = (n div 16 + 1) * 16" for n :: nat by presburger
  then show ?thesis unfolding pkcs_pad_def Let_def length_append length_replicate .
qed

lemma pkcs_unpad_pad: "pkcs_unpad (pkcs_pad p) = Some p"
proof -
  obtain k where k: "k = 16 - length p mod 16" "0 < k" "k \<le> 16" by simp
  then have p: "pkcs_pad p = p @ replicate k (word_of_nat k)" by (simp add: pkcs_pad_def)
  have "unat (word_of_nat k :: byte) = k" using k(3) by (simp add: unsigned_of_nat take_bit_nat_eq_self)
  moreover have "last (pkcs_pad p) = word_of_nat k" using k(2) by (simp add: p)
  ultimately show ?thesis using k(2,3) by (simp add: pkcs_unpad_def Let_def p)
qed

definition sample_crypto :: "nat crypto_api" where
  "sample_crypto =
     \<lparr>aes_ecb_encrypt = \<lambda>key d. mask_bytes d,
      aes_ecb_decrypt = \<lambda>key d. mask_bytes d,
      aes_cbc_encrypt = \<lambda>key iv p. mask_bytes (pkcs_pad p),
      aes_cbc_decrypt = \<lambda>key iv c. pkcs_unpad (mask_bytes c),
      hmac_sha1 = \<lambda>key m. take 20 (m @ key @ replicate 20 0),
      rsa_oaep_sha1 = \<lambda>key p g. (Some (rev p), Suc g),
      crc32_digest = \<lambda>d. replicate 4 (foldr (XOR) d 0),
      GenerateBlock = \<lambda>g n. (replicate n (word_of_nat g), Suc g),
      assert_site = \<lambda>_. []\<rparr>"

lemma sample_crypto_lawful: "crypto_lawful sample_crypto"
  by (simp add: crypto_lawful_def sample_crypto_def BLOCK_SIZE_def length_pkcs_pad pkcs_unpad_pad min_def)

section \<open>Protobuf classes\<close>

record SampleHeader =
  sh_steamid :: u64
  sh_session :: u32
  sh_source :: u64
  sh_target :: u64

definition sample_header :: "SampleHeader header_api" where
  "sample_header =
     \<lparr>SerializeToString = \<lambda>h. Some (le_bytes (sh_steamid h) @ le_bytes (sh_session h) @
         le_bytes (sh_source h) @ le_bytes (sh_target h)),
      ParseFromArray = \<lambda>bs. (length bs = 28,
        \<lparr>sh_steamid = le_word (take 8 bs), sh_session = le_word (take 4 (drop 8 bs)),
         sh_source = le_word (take 8 (drop 12 bs)), sh_target = le_word (take 8 (drop 20 bs))\<rparr>),
      proto_new = \<lparr>sh_steamid = 0, sh_session = 0, sh_source = - 1, sh_target = - 1\<rparr>,
      jobid_source = sh_source, jobid_target = sh_target, client_sessionid = sh_session,
      set_jobid_source = \<lambda>v h. h\<lparr>sh_source := v\<rparr>,
      set_jobid_target = \<lambda>v h. h\<lparr>sh_target := v\<rparr>,
      set_steamid = \<lambda>v h. h\<lparr>sh_steamid := v\<rparr>,
      set_client_sessionid = \<lambda>v h. h\<lparr>sh_session := v\<rparr>\<rparr>"

lemma sample_header_simps [simp]:
  "SerializeToString sample_header h = Some (le_bytes (sh_steamid h) @ le_bytes (sh_session h) @
    le_bytes (sh_source h) @ le_bytes (sh_target h))"
  "proto_new sample_header = \<lparr>sh_steamid = 0, sh_session = 0, sh_source = - 1, sh_target = - 1\<rparr>"
  "set_jobid_source sample_header v h = h\<lparr>sh_source := v\<rparr>"
  "set_steamid sample_header v h = h\<lparr>sh_steamid := v\<rparr>"
  "set_client_sessionid sample_header u h = h\<lparr>sh_session := u\<rparr>"
  "client_sessionid sample_header h = sh_session h"
  by (simp_all add: sample_header_def)

lemma sample_header_lawful: "proto_lawful sample_header"
  by (simp add: proto_lawful_def sample_header_def)

definition sample_logon :: "CMsgClientLogon proto_api" where
  "sample_logon =
     \<lparr>SerializeToString = \<lambda>m. Some (le_bytes (client_package_version m) @ le_bytes (protocol_version m)),
      ParseFromArray = \<lambda>bs. (length bs = 8,
        \<lparr>client_package_version = le_word (take 4 bs), protocol_version = le_word (drop 4 bs)\<rparr>),
      proto_new = \<lparr>client_package_version = 0, protocol_version = 0\<rparr>\<rparr>"

lemma sample_logon_simps [simp]:
  "SerializeToString sample_logon m =
    Some (le_bytes (client_package_version m) @ le_bytes (protocol_version m))"
  "proto_new sample_logon = \<lparr>client_package_version = 0, protocol_version = 0\<rparr>"
  by (simp_all add: sample_logon_def)

lemma sample_logon_lawful: "proto_lawful sample_logon"
  by (simp add: proto_lawful_def sample_logon_def)

definition sample_multi :: "CMsgMulti proto_api" where
  "sample_multi =
     \<lparr>SerializeToString = \<lambda>m. if length (message_body m) < 1000
        then Some (le_bytes (size_unzipped m) @ message_body m) else None,
      ParseFromArray = \<lambda>bs. (4 \<le> length bs,
        \<lparr>size_unzipped = le_word (take 4 bs), message_body = drop 4 bs\<rparr>),
      proto_new = \<lparr>size_unzipped = 0, message_body = []\<rparr>\<rparr>"

definition sample_logon_response :: "CMsgClientLogonResponse proto_api" where
  "sample_logon_response =
     \<lparr>SerializeToString = \<lambda>m. Some (le_bytes (eresult m) @ le_bytes (client_supplied_steamid m)),
      ParseFromArray = \<lambda>bs. (length bs = 12,
        \<lparr>eresult = le_word (take 4 bs), client_supplied_steamid = le_word (drop 4 bs)\<rparr>),
      proto_new = \<lparr>eresult = 2, client_supplied_steamid = 0\<rparr>\<rparr>"

definition sample_request :: "CMsgClientPICSProductInfoRequest proto_api" where
  "sample_request =
     \<lparr>SerializeToString = \<lambda>m. if length (req_apps m) < 1000
        then Some (concat (map (\<lambda>a. le_bytes (ra_appid a) @ le_bytes (ra_access_token a)) (req_apps m)))
        else None,
      ParseFromArray = \<lambda>bs. (bs = [], \<lparr>req_apps = []\<rparr>),
      proto_new = \<lparr>req_apps = []\<rparr>\<rparr>"

definition sample_response :: "CMsgClientPICSProductInfoResponse proto_api" where
  "sample_response =
     \<lparr>SerializeToString = \<lambda>m. None,
      ParseFromArray = \<lambda>bs. (True, \<lparr>resp_apps = [], resp_packages =
        [\<lparr>pi_packageid = 7, pi_sha = [0xAB], pi_buffer = bs\<rparr>]\<rparr>),
      proto_new = \<lparr>resp_apps = [], resp_packages = []\<rparr>\<rparr>"

section \<open>The network and the client\<close>

text \<open>The response comes in two pieces.\<close>

definition sample_reply :: string where
  "sample_reply = json_stringify (server_reply [(''10.0.0.1'', 27017)])"

definition sample_curl :: curl_api where
  "sample_curl = \<lparr>curl_easy_init = True,
     curl_easy_perform = \<lambda>_. ([take 10 sample_reply, drop 10 sample_reply], 0)\<rparr>"

definition sample_resolve :: "string \<Rightarrow> string \<Rightarrow> error + string list" where
  "sample_resolve host service = Inr [host @ '':'' @ service]"

type_synonym sample_client =
  "(unit TCPConnection, nat, unit, SampleHeader Event list) CMClient"

definition sample_env :: "(SampleHeader, nat, unit TCPConnection, unit, SampleHeader Event list) env" where
  "sample_env =
     \<lparr>e_crypto = sample_crypto, e_header = sample_header, e_multi = sample_multi,
      e_logon = sample_logon, e_logon_response = sample_logon_response,
      e_pics_request = sample_request, e_pics_response = sample_response,
      e_gunzip = \<lambda>_. Inl ''no gzip'',
      e_transport = TCP_IConnection sample_curl sample_resolve,
      e_call = \<lambda>k ev w. (Inr (), w\<lparr>user := user w @ [ev]\<rparr>),
      e_what = \<lambda>_. ''exception'',
      e_dispatch = g_dispatch\<rparr>"

definition sample_start :: sample_client where
  "sample_start = CMClient_new sample_crypto 1 TCPConnection_new 0 g_request_router []"

definition sample_listening :: sample_client where
  "sample_listening = foldr (\<lambda>t. onW t ()) [ChannelSecured_type, ClientLogon_type,
     MsgNotImplemented_type, ProductInfoResult_type] sample_start"

lemma sample_env_simps [simp]:
  "e_crypto sample_env = sample_crypto" "e_header sample_env = sample_header"
  "e_multi sample_env = sample_multi" "e_logon sample_env = sample_logon"
  "e_logon_response sample_env = sample_logon_response"
  "e_pics_request sample_env = sample_request" "e_pics_response sample_env = sample_response"
  "e_gunzip sample_env = (\<lambda>_. Inl ''no gzip'')" "e_dispatch sample_env = g_dispatch"
  "e_transport sample_env = TCP_IConnection sample_curl sample_resolve"
  "e_call sample_env = (\<lambda>k ev w. (Inr (), w\<lparr>user := user w @ [ev]\<rparr>))"
  by (simp_all add: sample_env_def)

lemma sample_conn_send: "fst (conn_send sample_env d w) = Inr ()"
  using tcp_transport.conn_send_ok [of sample_env sample_curl sample_resolve d w] by simp

lemma sample_calm: "calm sample_env"
proof -
  have "\<not> deep (async_send d t)" for d and t :: "unit TCPConnection"
    using async_send_total [of d t] by (auto simp: deep_def)
  then show ?thesis by (simp add: calm_def TCP_IConnection_def)
qed

lemma sample_modest: "modest sample_env"
  by (auto simp: modest_def multi_payload_def gzip_decompress_def sample_multi_def split: if_splits)

lemma sample_callbacks: "callbacks_keep sample_env (has_keys key secret)" "callbacks_keep sample_env (secured_is b)"
  by (simp_all add: callbacks_keep_def keeps_def has_keys_def secured_is_def)

lemma sample_start_simps [simp]:
  "channel_secured sample_start = False" "connection sample_start = TCPConnection_new"
  "session_key (crypto sample_start) = replicate 32 1" "hmac_secret (crypto sample_start) = replicate 16 1"
  "rng_state (crypto sample_start) = 2" "router sample_start = g_request_router"
  "next_jobid sample_start = 0" "user sample_start = []"
  by (simp_all add: sample_start_def CMClient_new_def EncryptionManager_new_def generate_random_bytes_def
      sample_crypto_def take_replicate)

lemma sample_manager_ok: "manager_ok (crypto sample_start)"
  by (simp add: manager_ok_def)

end
