(* ===== verification/Format_Properties.thy ===== *)
theory Format_Properties
  imports Sample_World
begin

text \<open>
  The properties of the data formats: streams, message numbers, identifiers, struct and protobuf
  messages, the two VDF formats, and the encryption of frames.
\<close>

section \<open>Streams and numbers\<close>

text \<open>
  A read of \<open>n\<close> bytes at a position inside the buffer: it gives exactly those bytes
  and advances, or it throws, as long as \<open>position + n\<close> does not wrap. Where the sum wraps to a
  value within the buffer the check passes and the read leaves the buffer.
\<close>

theorem stream_read_bounds:
  assumes "p \<le> length b" and "length b < vec_limit" and "n < 2 ^ 64"
  shows "ReadBytes n (Stream_read_at b p) =
    (if p + n \<le> length b then Inr (take n (drop p b), Stream_read_at b (p + n))
     else if p + n < 2 ^ 64 \<or> length b < p + n - 2 ^ 64 then Inl underflow_error
     else Inl (Undefined OutOfBounds))"
proof (cases "p + n < 2 ^ 64")
  case True
  then show ?thesis by (simp add: ReadBytes_def read_slice_def Stream_read_at_def sz_add_def)
next
  case False
  have "p + n - 2 ^ 64 < 2 ^ 64" using assms by (simp add: vec_limit_def)
  then have "sz_add p n = p + n - 2 ^ 64" using False by (simp add: sz_add_def mod_if)
  with False assms(2) show ?thesis
    by (simp add: ReadBytes_def read_slice_def Stream_read_at_def vec_limit_def)
qed

theorem stream_read_bounds_witness:
  "ReadBytes (2 ^ 64 - 1) (Stream_read_at [1, 2, 3] 2) = Inl (Undefined OutOfBounds)"
  by (subst stream_read_bounds) (simp_all add: vec_limit_def)

text \<open>
  Every message number of the generated enumeration keeps its value through the protobuf
  flag: it is no flagged number itself, \<open>make_msg\<close> flags it, and \<open>get_msg\<close> gives it back.
\<close>

theorem message_numbers:
  "list_all (\<lambda>e. let m = word_of_int (snd e) in
     \<not> is_protobuf_msg m \<and> is_protobuf_msg (make_msg m True) \<and> get_msg (make_msg m True) = m) EMsg_table"
proof -
  have small: "\<not> bit (word_of_int v :: u32) 31" if "0 \<le> v" "v \<le> 12301" for v
  proof -
    have "uint (word_of_int v :: u32) = v"
      using that by (simp add: uint_word_of_int take_bit_int_eq_self)
    then have "unat (word_of_int v :: u32) = nat v" by (metis unat_eq_nat_uint)
    with that show ?thesis by (simp add: bit31_iff)
  qed
  have "list_all (\<lambda>e. 0 \<le> snd e \<and> snd e \<le> 12301) EMsg_table"
    using EMsg_part_ranges unfolding list_all_EMsg_table
    by (intro conjI; elim list.pred_mono_strong; simp)
  then show ?thesis
    by (elim list.pred_mono_strong)
      (simp add: Let_def is_protobuf_msg_iff bit_make_msg get_msg_make_msg small)
qed

text \<open>
  The fields of a SteamID come back from its number through the shifts and masks of the
  class, provided that the instance number fits its 20 bits and the enumerations theirs.
\<close>

theorem steamid_fields:
  assumes "unat inst < 2 ^ 20" and "unat universe < 2 ^ 8" and "unat accountType < 2 ^ 4"
  shows "let v = SteamID_ConvertToUInt64 (SteamID_make accountID inst universe accountType) in
    drop_bit ACCOUNT_ID_SHIFT v AND ACCOUNT_ID_MASK = ucast accountID \<and>
    drop_bit INSTANCE_SHIFT v AND INSTANCE_MASK = ucast inst \<and>
    drop_bit ACCOUNT_TYPE_SHIFT v AND ACCOUNT_TYPE_MASK = ucast accountType \<and>
    drop_bit UNIVERSE_SHIFT v AND UNIVERSE_MASK = ucast universe"
proof -
  define v where "v = SteamID_ConvertToUInt64 (SteamID_make accountID inst universe accountType)"
  have b: "\<not> bit w k" if "unat w < 2 ^ n" "n \<le> k" for w :: u32 and n k
  proof -
    have "unat w < 2 ^ k" using that by (meson less_le_trans one_le_numeral power_increasing)
    then have "\<not> bit (unat w) k" by (simp add: bit_iff_odd)
    then show ?thesis by (simp add: bit_unsigned_iff)
  qed
  have bi: "bit inst n \<Longrightarrow> n < 20" and bu: "bit universe n \<Longrightarrow> n < 8"
    and bt: "bit accountType n \<Longrightarrow> n < 4" for n
    using b [OF assms(1), of n] b [OF assms(2), of n] b [OF assms(3), of n] by fastforce+
  have l: "bit w n \<Longrightarrow> n < 32" for w :: u32 and n using bit_imp_le_length by fastforce
  have hi: "\<not> bit w n" if "\<not> bit w 31" "31 \<le> n" for w :: u32 and n
    using that l [of w n] by (cases "n = 31") auto
  have s: "scast w = (ucast w :: u64)" if "\<not> bit w 31" for w :: u32
    using that hi [OF that]
    by (intro bit_word_eqI) (auto simp: bit_simps not_less min_def split: if_splits dest: bit_imp_le_length)
  have m: "ACCOUNT_ID_MASK = mask 32" "INSTANCE_MASK = mask 20" "ACCOUNT_TYPE_MASK = mask 4"
      "UNIVERSE_MASK = mask 8"
    by (simp_all add: ACCOUNT_ID_MASK_def INSTANCE_MASK_def ACCOUNT_TYPE_MASK_def UNIVERSE_MASK_def
        mask_eq_exp_minus_1)
  have v: "bit v n \<longleftrightarrow> n < 64 \<and> (bit accountID n \<or> 32 \<le> n \<and> bit inst (n - 32) \<or>
      52 \<le> n \<and> bit accountType (n - 52) \<or> 56 \<le> n \<and> bit universe (n - 56))" for n
    using bu [of 31] bt [of 31] by (auto simp: v_def SteamID_make_def SteamID_ConvertToUInt64_def s
        ACCOUNT_ID_SHIFT_def INSTANCE_SHIFT_def ACCOUNT_TYPE_SHIFT_def UNIVERSE_SHIFT_def bit_simps dest: l)
  show ?thesis
    unfolding v_def [symmetric] Let_def m ACCOUNT_ID_SHIFT_def INSTANCE_SHIFT_def ACCOUNT_TYPE_SHIFT_def UNIVERSE_SHIFT_def
    by (intro conjI bit_word_eqI; auto simp: bit_simps v dest: l bi bu bt)
qed

theorem steamid_fields_witness:
  "let v = SteamID_ConvertToUInt64 (SteamID_make 42 1 EUniverse_Public EAccountType_AnonUser) in
    drop_bit ACCOUNT_ID_SHIFT v AND ACCOUNT_ID_MASK = ucast (42 :: u32) \<and>
    drop_bit INSTANCE_SHIFT v AND INSTANCE_MASK = ucast (1 :: u32) \<and>
    drop_bit ACCOUNT_TYPE_SHIFT v AND ACCOUNT_TYPE_MASK = ucast EAccountType_AnonUser \<and>
    drop_bit UNIVERSE_SHIFT v AND UNIVERSE_MASK = ucast EUniverse_Public"
  by (rule steamid_fields) (simp_all add: EUniverse_Public_def EAccountType_AnonUser_def)

section \<open>Messages\<close>

text \<open>
  C10. A struct message that is serialized and received again has its header and its body
  back; its payload starts with the bytes of the body.
\<close>

theorem struct_message_roundtrip:
  fixes m :: "'b Msg" and e :: u32
  assumes "codec (\<lambda>_. True) (body_Serialize ops) (body_Deserialize ops) n"
    and "20 + n + length (Payload m) < vec_limit"
  shows "\<exists>bs p pre. Msg_Serialize ops m = Inr bs \<and> PacketMsg_make e bs = Inr p \<and>
    msg_header p = Header m \<and> length pre = n \<and>
    Msg_of_packet ops (MsgPacket p :: 'h IPacketMsg) =
      Inr \<lparr>Payload = pre @ Payload m, readPos = 0, Header = Header m, steam_id = None,
        SessionID = 0, targetJobID = 0, sourceJobID = 0, Body = Body m\<rparr>"
proof (rule Msg_wire [OF assms])
  fix hb bb :: "byte list"
  assume "length bb = n" and "Msg_Serialize ops m = Inr (hb @ bb @ Payload m)"
    and "\<And>e. PacketMsg_make e (hb @ bb @ Payload m) =
      Inr \<lparr>msg_msgType = e, msg_header = Header m, msg_payload = hb @ bb @ Payload m, msg_bodyOffset = 20\<rparr>"
    and "\<And>e h. Msg_of_packet ops (MsgPacket \<lparr>msg_msgType = e, msg_header = h,
        msg_payload = hb @ bb @ Payload m, msg_bodyOffset = 20\<rparr> :: 'h IPacketMsg) =
      Inr \<lparr>Payload = bb @ Payload m, readPos = 0, Header = h, steam_id = None, SessionID = 0,
        targetJobID = 0, sourceJobID = 0, Body = Body m\<rparr>"
  then show ?thesis by force
qed

theorem struct_message_roundtrip_witness:
  "\<exists>bs p pre. Msg_Serialize MsgChannelEncryptRequest_ops (Msg_new MsgChannelEncryptRequest_ops) = Inr bs \<and>
    PacketMsg_make 1303 bs = Inr p \<and>
    msg_header p = Header (Msg_new MsgChannelEncryptRequest_ops) \<and> length pre = 8 \<and>
    Msg_of_packet MsgChannelEncryptRequest_ops (MsgPacket p :: unit IPacketMsg) =
      Inr \<lparr>Payload = pre @ Payload (Msg_new MsgChannelEncryptRequest_ops), readPos = 0,
        Header = Header (Msg_new MsgChannelEncryptRequest_ops), steam_id = None,
        SessionID = 0, targetJobID = 0, sourceJobID = 0, Body = Body (Msg_new MsgChannelEncryptRequest_ops)\<rparr>"
  by (rule struct_message_roundtrip [OF MsgChannelEncryptRequest_codec_ops])
    (simp add: Msg_new_def vec_limit_def)

text \<open>
  C9. A protobuf message that is serialized and received again has its number, the
  protobuf part of its header and its body back, for any lawful protobuf classes.
\<close>

theorem proto_message_roundtrip:
  fixes m :: "('h, 'b) MsgProto" and hapi :: "'h header_api" and bapi :: "'b proto_api" and e :: u32
  assumes "proto_lawful hapi" and "proto_lawful bapi"
    and "SerializeToString hapi (MsgHdrProtoBuf_proto (Header m)) = Some hs"
    and "SerializeToString bapi (proto_Body m) = Some bd"
    and "\<not> is_protobuf_msg (MsgHdrProtoBuf_Msg (Header m))" and "Payload m = []"
  shows "\<exists>bs p m'. MsgProto_Serialize hapi bapi m = Inr bs \<and>
    PacketClientMsgProtobuf_make hapi e bs = Inr p \<and>
    MsgProto_of_packet bapi (ProtoPacket p) = Inr m' \<and>
    MsgHdrProtoBuf_Msg (Header m') = MsgHdrProtoBuf_Msg (Header m) \<and>
    MsgHdrProtoBuf_proto (Header m') = MsgHdrProtoBuf_proto (Header m) \<and>
    proto_Body m' = proto_Body m"
proof -
  have h: "ParseFromArray hapi hs = (True, MsgHdrProtoBuf_proto (Header m))" "length hs < 2 ^ 31"
    and b: "ParseFromArray bapi bd = (True, proto_Body m)" "length bd < 2 ^ 31"
    using assms(1-4) by (simp_all add: proto_lawful_def)
  then have l: "8 + length hs + length bd < vec_limit" by (simp add: vec_limit_def)
  have g: "get_msg (make_msg (MsgHdrProtoBuf_Msg (Header m)) True) = MsgHdrProtoBuf_Msg (Header m)"
    using assms(5) by (simp add: is_protobuf_msg_iff get_msg_make_msg)
  let ?n = "MsgHdrProtoBuf_Msg (Header m)" and ?p = "MsgHdrProtoBuf_proto (Header m)"
  let ?h = "\<lparr>MsgHdrProtoBuf_Msg = ?n, MsgHdrProtoBuf_headerLength = word_of_nat (length hs), MsgHdrProtoBuf_proto = ?p\<rparr>"
  define p where "p = \<lparr>proto_msgType = e, proto_header = ?h,
    proto_payload = proto_hdr_bytes ?n hs @ bd, proto_bodyOffset = 8 + length hs\<rparr>"
  have s: "MsgProto_Serialize hapi bapi m = Inr (proto_hdr_bytes ?n hs @ bd)"
    using MsgProto_Serialize_bytes [OF assms(3,4)] assms(6) by simp
  have r: "PacketClientMsgProtobuf_make hapi e (proto_hdr_bytes ?n hs @ bd) = Inr p"
    using PacketClientMsgProtobuf_make_bytes [OF h l, of e ?n] g by (simp add: p_def)
  have "MsgProto_of_packet bapi (ProtoPacket p) = Inr \<lparr>Payload = bd, readPos = 0, Header = ?h,
      steam_id = None, SessionID = 0, targetJobID = 0, sourceJobID = 0, proto_Body = proto_Body m\<rparr>"
    using MsgProto_of_packet_bytes [OF b(1), of e ?h "proto_hdr_bytes ?n hs"] by (simp add: p_def)
  with s r show ?thesis by (intro exI conjI) (assumption | simp)+
qed

theorem proto_message_roundtrip_witness:
  "\<exists>bs p m'. MsgProto_Serialize sample_header sample_logon (anon_logon_msg sample_env) = Inr bs \<and>
    PacketClientMsgProtobuf_make sample_header 5514 bs = Inr p \<and>
    MsgProto_of_packet sample_logon (ProtoPacket p) = Inr m' \<and>
    MsgHdrProtoBuf_Msg (Header m') = MsgHdrProtoBuf_Msg (Header (anon_logon_msg sample_env)) \<and>
    MsgHdrProtoBuf_proto (Header m') = MsgHdrProtoBuf_proto (Header (anon_logon_msg sample_env)) \<and>
    proto_Body m' = proto_Body (anon_logon_msg sample_env)"
proof (rule proto_message_roundtrip [OF sample_header_lawful sample_logon_lawful])
  show "SerializeToString sample_header (MsgHdrProtoBuf_proto (Header (anon_logon_msg sample_env))) =
      Some (le_bytes (0x01A0000000000000 :: u64) @ le_bytes (0 :: u32) @ le_bytes (- 1 :: u64) @ le_bytes (- 1 :: u64))"
    by (simp add: anon_logon_msg_def MsgProto_new_def MsgProto_map_header_def anon_steamid
        MsgHdrProtoBuf_new_def MsgHdrProtoBuf_SetEMsg_def)
  show "SerializeToString sample_logon (proto_Body (anon_logon_msg sample_env)) =
      Some (le_bytes (1561159470 :: u32) @ le_bytes (65580 :: u32))"
    by (simp add: anon_logon_msg_def Let_def)
  show "\<not> is_protobuf_msg (MsgHdrProtoBuf_Msg (Header (anon_logon_msg sample_env)))"
    by (simp add: anon_logon_msg_def MsgProto_new_def MsgProto_map_header_def MsgHdrProtoBuf_SetEMsg_def
        MsgHdrProtoBuf_new_def is_protobuf_msg_iff bit31_iff EMsg_ClientLogon_def)
  show "Payload (anon_logon_msg sample_env) = []"
    by (simp add: anon_logon_msg_def MsgProto_new_def MsgProto_map_header_def)
qed

text \<open>
  A received protobuf message keeps the bytes of its body as payload, and serializing it
  writes body and payload: the body goes out twice.
\<close>

theorem received_proto_resent:
  fixes hapi :: "'h header_api" and bapi :: "'b proto_api" and e :: u32
  assumes "proto_lawful hapi" and "proto_lawful bapi"
    and "SerializeToString hapi h = Some hs" and "SerializeToString bapi b = Some bd"
    and "\<not> is_protobuf_msg n"
  shows "\<exists>p m'. PacketClientMsgProtobuf_make hapi e (proto_hdr_bytes n hs @ bd) = Inr p \<and>
    MsgProto_of_packet bapi (ProtoPacket p) = Inr m' \<and>
    MsgProto_Serialize hapi bapi m' = Inr (proto_hdr_bytes n hs @ bd @ bd)"
proof -
  have h: "ParseFromArray hapi hs = (True, h)" "length hs < 2 ^ 31"
    and b: "ParseFromArray bapi bd = (True, b)" "length bd < 2 ^ 31"
    using assms(1-4) by (simp_all add: proto_lawful_def)
  then have l: "8 + length hs + length bd < vec_limit" by (simp add: vec_limit_def)
  have g: "get_msg (make_msg n True) = n"
    using assms(5) by (simp add: is_protobuf_msg_iff get_msg_make_msg)
  let ?h = "\<lparr>MsgHdrProtoBuf_Msg = n, MsgHdrProtoBuf_headerLength = word_of_nat (length hs), MsgHdrProtoBuf_proto = h\<rparr>"
  let ?m = "\<lparr>Payload = bd, readPos = 0, Header = ?h, steam_id = None, SessionID = 0,
      targetJobID = 0, sourceJobID = 0, proto_Body = b\<rparr>"
  define p where "p = \<lparr>proto_msgType = e, proto_header = ?h,
    proto_payload = proto_hdr_bytes n hs @ bd, proto_bodyOffset = 8 + length hs\<rparr>"
  have "MsgProto_Serialize hapi bapi ?m = Inr (proto_hdr_bytes n hs @ bd @ bd)"
    using MsgProto_Serialize_bytes [of hapi ?m hs bapi bd] assms(3,4) by simp
  moreover have "PacketClientMsgProtobuf_make hapi e (proto_hdr_bytes n hs @ bd) = Inr p"
    using PacketClientMsgProtobuf_make_bytes [OF h l, of e n] g by (simp add: p_def)
  moreover have "MsgProto_of_packet bapi (ProtoPacket p) = Inr ?m"
    using MsgProto_of_packet_bytes [OF b(1), of e ?h "proto_hdr_bytes n hs"] by (simp add: p_def)
  ultimately show ?thesis by blast
qed

theorem received_proto_resent_witness:
  "\<exists>p m'. PacketClientMsgProtobuf_make sample_header 706
      (proto_hdr_bytes 706 (le_bytes (1 :: u64) @ le_bytes (2 :: u32) @ le_bytes (3 :: u64) @ le_bytes (4 :: u64)) @
        (le_bytes (5 :: u32) @ le_bytes (6 :: u32))) = Inr p \<and>
    MsgProto_of_packet sample_logon (ProtoPacket p) = Inr m' \<and>
    MsgProto_Serialize sample_header sample_logon m' =
      Inr (proto_hdr_bytes 706 (le_bytes (1 :: u64) @ le_bytes (2 :: u32) @ le_bytes (3 :: u64) @ le_bytes (4 :: u64)) @
        (le_bytes (5 :: u32) @ le_bytes (6 :: u32)) @ (le_bytes (5 :: u32) @ le_bytes (6 :: u32)))"
  by (rule received_proto_resent [OF sample_header_lawful sample_logon_lawful,
        where h = "\<lparr>sh_steamid = 1, sh_session = 2, sh_source = 3, sh_target = 4\<rparr>"
          and b = "\<lparr>client_package_version = 5, protocol_version = 6\<rparr>"])
    (simp_all add: is_protobuf_msg_iff bit31_iff)

text \<open>
  A struct client message is accepted exactly if its 36 header bytes are there; what
  is shorter ends in the underflow exception, never in a read past the end.
\<close>

lemma extended_header_cut:
  assumes "length data < vec_limit"
  shows "if 36 \<le> length data
    then \<exists>p. PacketClientMsg_make e data = Inr p \<and> client_bodyOffset p = 36 \<and> client_payload p = data
    else PacketClientMsg_make e data = Inl underflow_error"
proof (cases "36 \<le> length data")
  case True
  with ExtendedClientMsgHdr.total [OF assms, of 0] obtain h where
    "ExtendedClientMsgHdr_Deserialize (Stream_read_at data 0) = Inr (h, Stream_read_at data 36)" by auto
  with True show ?thesis
    by (simp add: PacketClientMsg_make_def Stream_read_0 Position_def) (simp add: Stream_read_at_def)
next
  case False
  then have "ExtendedClientMsgHdr_Deserialize (Stream_read_at data 0) = Inl underflow_error"
    using ExtendedClientMsgHdr.truncated [OF assms, of 0] by simp
  with False show ?thesis by (simp add: PacketClientMsg_make_def Stream_read_0)
qed

text \<open>
  The game coordinator header announces the length of its protobuf part and does not
  write it: what \<open>Serialize\<close> writes, \<open>Deserialize\<close> rejects.
\<close>

theorem gc_header_unreadable:
  assumes "proto_lawful api" and "SerializeToString api (MsgGCHdrProtoBuf_proto m) = Some d" and "d \<noteq> []"
  shows "\<exists>s. MsgGCHdrProtoBuf_Serialize api m Stream_new =
      Inr (m\<lparr>MsgGCHdrProtoBuf_headerLength := word_of_nat (length d)\<rparr>, s) \<and>
    MsgGCHdrProtoBuf_Deserialize api (Stream_read (buffer s)) = Inl underflow_error"
proof -
  have "length d < 2 ^ 31" using assms(1,2) by (simp add: proto_lawful_def)
  from MsgGCHdrProtoBuf_Deserialize_short [OF this assms(3)] show ?thesis
    using MsgGCHdrProtoBuf_Serialize_bytes [OF assms(2), of Stream_new] by (simp add: Stream_new_def)
qed

theorem gc_header_unreadable_witness:
  "\<exists>s. MsgGCHdrProtoBuf_Serialize sample_header (MsgGCHdrProtoBuf_new sample_header) Stream_new =
      Inr ((MsgGCHdrProtoBuf_new sample_header)\<lparr>MsgGCHdrProtoBuf_headerLength := word_of_nat (length
        (le_bytes (0 :: u64) @ le_bytes (0 :: u32) @ le_bytes (- 1 :: u64) @ le_bytes (- 1 :: u64)))\<rparr>, s) \<and>
    MsgGCHdrProtoBuf_Deserialize sample_header (Stream_read (buffer s)) = Inl underflow_error"
proof (rule gc_header_unreadable [OF sample_header_lawful])
  show "SerializeToString sample_header (MsgGCHdrProtoBuf_proto (MsgGCHdrProtoBuf_new sample_header)) =
      Some (le_bytes (0 :: u64) @ le_bytes (0 :: u32) @ le_bytes (- 1 :: u64) @ le_bytes (- 1 :: u64))"
    by (simp add: MsgGCHdrProtoBuf_new_def)
  show "le_bytes (0 :: u64) @ le_bytes (0 :: u32) @ le_bytes (- 1 :: u64) @ le_bytes (- 1 :: u64) \<noteq> []"
    by (simp add: le_bytes_def)
qed

section \<open>VDF\<close>

text \<open>
  C21. The binary parser reads back every tree whose keys are distinct and whose strings
  hold no zero byte, at any depth of nesting.
\<close>

theorem binary_vdf_roundtrip:
  assumes "wf_value (VObject obj)" and "bin_ok (VObject obj)"
  shows "parse_binary (bin_print obj) = Inr obj"
  using bin_parse_print(2) [OF assms, of "[]"] by (simp add: parse_binary_def)

theorem binary_vdf_roundtrip_witness:
  "parse_binary (bin_print [(''a'', VObject [(''b'', VInt32 7), (''c'', VString ''x'')]), (''d'', VUInt64 9)]) =
    Inr [(''a'', VObject [(''b'', VInt32 7), (''c'', VString ''x'')]), (''d'', VUInt64 9)]"
  by (rule binary_vdf_roundtrip) (simp_all add: no_nul_def byte_of_char_def)


text \<open>
  C23. The text parser reads what \<open>stringify\<close> prints, with every number turned into its
  decimal text, if no string holds a quote or a backslash (which the printer does not escape).
\<close>

theorem text_vdf_roundtrip:
  assumes "wf_value (VObject obj)" and "clean_value (VObject obj)"
  shows "parse_text (stringify obj) = Inr (text_entries obj)"
  by (rule parse_text_stringify [OF assms])

theorem text_vdf_roundtrip_witness:
  "parse_text (stringify [(''a'', VObject [(''b'', VString ''x y'')]), (''c'', VInt32 5)]) =
    Inr (text_entries [(''a'', VObject [(''b'', VString ''x y'')]), (''c'', VInt32 5)])"
  by (rule text_vdf_roundtrip) (simp_all add: clean_def text_chars)

text \<open>
  A text that ends behind a key, or inside an object, makes the parser look at the
  character behind the end of its input instead of throwing.
\<close>

theorem text_vdf_runs_past_end:
  assumes "clean key"
  shows "parse_text (quoted key) = Inl (Undefined OutOfBounds) \<and>
    parse_text (quoted key @ ''{'') = Inl (Undefined OutOfBounds)"
  using parse_text_key_only [OF assms] parse_text_unclosed [OF assms] by simp

theorem text_vdf_runs_past_end_witness:
  "parse_text (quoted ''appinfo'') = Inl (Undefined OutOfBounds) \<and>
    parse_text (quoted ''appinfo'' @ ''{'') = Inl (Undefined OutOfBounds)"
  by (rule text_vdf_runs_past_end) (simp add: clean_def text_chars)

text \<open>Entries of a response whose buffers are printed trees.\<close>

definition printed_app :: "u32 \<times> byte list \<times> Object \<Rightarrow> PICS_AppInfo" where
  "printed_app a = (case a of (i, sha, obj) \<Rightarrow>
     \<lparr>ai_appid = i, ai_sha = sha,
      ai_buffer = map byte_of_char (stringify [(''appinfo'', VObject obj)]) @ [0]\<rparr>)"

definition printed_pkg :: "u32 \<times> byte list \<times> Object \<Rightarrow> PICS_PackageInfo" where
  "printed_pkg p = (case p of (i, sha, obj) \<Rightarrow>
     \<lparr>pi_packageid = i, pi_sha = sha,
      pi_buffer = [1, 2, 3, 4] @ bin_print [(dec_string (unat i), VObject obj)]\<rparr>)"

text \<open>
  C33. A response whose buffers hold printed trees becomes one event with those trees, in
  the order of the response, under the hexadecimal text of their hashes.
\<close>

theorem product_info_printed:
  assumes "\<forall>(i, sha, obj) \<in> set as. wf_value (VObject obj) \<and> clean_value (VObject obj)"
    and "\<forall>(i, sha, obj) \<in> set ps. wf_value (VObject obj) \<and> bin_ok (VObject obj)"
  shows "product_info_event \<lparr>resp_apps = map printed_app as, resp_packages = map printed_pkg ps\<rparr> =
    Inr (ProductInfoResult
      (map (\<lambda>(i, sha, obj). \<lparr>app_id = i, app_sha = hexlify sha, app_appinfo = VObject (text_entries obj)\<rparr>) as)
      (map (\<lambda>(i, sha, obj). \<lparr>pkg_packageid = i, pkg_sha = hexlify sha, pkg_pkginfo = VObject obj\<rparr>) ps))"
proof -
  have "mapE parse_app (map printed_app as) = Inr
      (map (\<lambda>(i, sha, obj). \<lparr>app_id = i, app_sha = hexlify sha, app_appinfo = VObject (text_entries obj)\<rparr>) as)"
    using assms(1)
  proof (induction as)
    case (Cons a as)
    obtain i sha obj where a: "a = (i, sha, obj)" by (cases a)
    with Cons parse_app_text [of obj "printed_app a"] show ?case by (simp add: printed_app_def)
  qed simp
  moreover have "mapE parse_pkg (map printed_pkg ps) = Inr
      (map (\<lambda>(i, sha, obj). \<lparr>pkg_packageid = i, pkg_sha = hexlify sha, pkg_pkginfo = VObject obj\<rparr>) ps)"
    using assms(2)
  proof (induction ps)
    case (Cons p ps)
    obtain i sha obj where p: "p = (i, sha, obj)" by (cases p)
    with Cons parse_pkg_binary [of obj "[1, 2, 3, 4]" "printed_pkg p"] show ?case by (simp add: printed_pkg_def)
  qed simp
  ultimately show ?thesis by (simp add: product_info_event_def)
qed

theorem product_info_printed_witness:
  "product_info_event \<lparr>resp_apps = map printed_app [(440, [0xAB], [(''name'', VString ''TF2'')])],
      resp_packages = map printed_pkg [(7, [0xCD], [(''id'', VInt32 7)])]\<rparr> =
    Inr (ProductInfoResult
      (map (\<lambda>(i, sha, obj). \<lparr>app_id = i, app_sha = hexlify sha, app_appinfo = VObject (text_entries obj)\<rparr>)
        [(440, [0xAB], [(''name'', VString ''TF2'')])])
      (map (\<lambda>(i, sha, obj). \<lparr>pkg_packageid = i, pkg_sha = hexlify sha, pkg_pkginfo = VObject obj\<rparr>)
        [(7, [0xCD], [(''id'', VInt32 7)])]))"
  by (rule product_info_printed) (simp_all add: clean_def text_chars no_nul_def byte_of_char_def)

text \<open>
  A package entry with fewer than four bytes of buffer, which a server is free to
  send, makes the handler compute a size of almost \<open>2 ^ 64\<close> and read outside: no exception, no event.
\<close>

theorem short_package_undefined:
  assumes "length (pi_buffer pkg) < 4" and "\<forall>p \<in> set ps. \<exists>i. parse_pkg p = Inr i"
  shows "product_info_event \<lparr>resp_apps = [], resp_packages = ps @ pkg # qs\<rparr> = Inl (Undefined OutOfBounds)"
proof -
  have "parse_pkg pkg = Inl (Undefined OutOfBounds)" using assms(1) by (simp add: parse_pkg_def)
  then have "mapE parse_pkg (ps @ pkg # qs) = Inl (Undefined OutOfBounds)"
    using assms(2) by (intro mapE_first_error [where g = "\<lambda>p. projr (parse_pkg p)"]) force+
  then show ?thesis by (simp add: product_info_event_def)
qed

theorem short_package_undefined_witness:
  "product_info_event \<lparr>resp_apps = [], resp_packages = [] @
      \<lparr>pi_packageid = 7, pi_sha = [], pi_buffer = [1, 2, 3]\<rparr> # []\<rparr> = Inl (Undefined OutOfBounds)"
  by (rule short_package_undefined) simp_all

section \<open>Encryption\<close>

text \<open>
  C13. Whatever one manager encrypts, a manager with the same keys decrypts to the same
  bytes; the ciphertext is the encrypted IV and the padded blocks.
\<close>

theorem encryption_roundtrip:
  assumes "crypto_lawful api" and "manager_ok em" and "length p < vec_limit"
    and "session_key em' = session_key em" and "hmac_secret em' = hmac_secret em"
  shows "\<exists>c. fst (process_outgoing_encrypted_message api p em) = Inr c \<and>
    process_incoming_encrypted_message api em' c = Inr p \<and> length c = 16 + (length p div 16 + 1) * 16 \<and>
    manager_ok (snd (process_outgoing_encrypted_message api p em))"
proof (rule symmetric_decrypt_encrypt [OF assms(1) manager_ok_key [OF assms(2)] assms(3),
    of "hmac_secret em" "rng_state em"])
  fix c
  assume "fst (symmetric_encrypt_hmac_iv api p (session_key em) (hmac_secret em) (rng_state em)) = Inr c"
    and "symmetric_decrypt_hmac_iv api c (session_key em) (hmac_secret em) = Inr p"
    and "length c = 16 + (length p div 16 + 1) * 16"
  then show ?thesis
    using assms(4,5) manager_ok_outgoing [OF assms(2), of api p]
    by (auto simp: process_outgoing_encrypted_message_def process_incoming_encrypted_message_def
        split: prod.splits)
qed

theorem encryption_roundtrip_witness:
  "\<exists>c. fst (process_outgoing_encrypted_message sample_crypto [1, 2, 3] (crypto sample_start)) = Inr c \<and>
    process_incoming_encrypted_message sample_crypto (crypto sample_start) c = Inr [1, 2, 3] \<and>
    length c = 16 + (length [1, 2, 3 :: byte] div 16 + 1) * 16 \<and>
    manager_ok (snd (process_outgoing_encrypted_message sample_crypto [1, 2, 3] (crypto sample_start)))"
  by (rule encryption_roundtrip [OF sample_crypto_lawful sample_manager_ok]) (simp_all add: vec_limit_def)

text \<open>
  C14. A frame is accepted only if it carries an IV whose first 13 bytes are the HMAC, under
  the manager's secret, of the last three and the plaintext that is handed on.
\<close>

theorem decryption_authentic:
  assumes "process_incoming_encrypted_message api em c = Inr p"
  shows "\<exists>iv. 16 \<le> length c \<and> iv = take 16 (aes_ecb_decrypt api (session_key em) (take 16 c)) @
      drop (length (take 16 (aes_ecb_decrypt api (session_key em) (take 16 c)))) (replicate 16 0) \<and>
    aes_cbc_decrypt api (session_key em) iv (drop 16 c) = Some p \<and>
    take 13 (hmac_sha1 api (hmac_secret em) (take 3 (drop 13 iv) @ p)) = take 13 iv"
  using assms
  by (auto simp: process_incoming_encrypted_message_def symmetric_decrypt_hmac_iv_def validate_iv_def
      hmac_buffer_def overwrite_def crypto_sizes Let_def split: if_splits option.splits)

theorem decryption_authentic_witness:
  "\<exists>c iv. 16 \<le> length c \<and> iv = take 16 (aes_ecb_decrypt sample_crypto (session_key (crypto sample_start)) (take 16 c)) @
      drop (length (take 16 (aes_ecb_decrypt sample_crypto (session_key (crypto sample_start)) (take 16 c)))) (replicate 16 0) \<and>
    aes_cbc_decrypt sample_crypto (session_key (crypto sample_start)) iv (drop 16 c) = Some [5] \<and>
    take 13 (hmac_sha1 sample_crypto (hmac_secret (crypto sample_start)) (take 3 (drop 13 iv) @ [5])) = take 13 iv"
proof -
  have "length [5 :: byte] < vec_limit" by (simp add: vec_limit_def)
  from symmetric_decrypt_encrypt [OF sample_crypto_lawful manager_ok_key [OF sample_manager_ok] this]
  obtain c where "process_incoming_encrypted_message sample_crypto (crypto sample_start) c = Inr [5]"
    unfolding process_incoming_encrypted_message_def by metis
  from decryption_authentic [OF this] show ?thesis by blast
qed

end
