(* ===== verification/Json_Valid.thy ===== *)
theory Json_Valid
  imports Json_Facts
begin

text \<open>
  What the JSON parser accepts: its nodes are such as can be printed and read back, with one
  exception, the unassigned node that it leaves where the text ends before a value.
\<close>

section \<open>Numbers\<close>

text \<open>A part of a number that was read reads alike on its own.\<close>

lemma dropWhile_split: "\<exists>d. s = d @ dropWhile p s \<and> (\<forall>c\<in>set d. p c)"
  by (metis set_takeWhileD takeWhile_dropWhile_id)

lemma dropWhile_digits: "\<forall>c\<in>set d. is_digit c \<Longrightarrow> dropWhile is_digit d = []"
  by auto

lemma some_digits_split:
  assumes "some_digits s = (True, r)"
  shows "\<exists>d. s = d @ r \<and> d \<noteq> [] \<and> (\<forall>c\<in>set d. is_digit c)"
proof (cases s)
  case Nil
  with assms show ?thesis by (simp add: some_digits_def)
next
  case (Cons c cs)
  with assms have "is_digit c" "r = dropWhile is_digit s"
    by (auto simp: some_digits_def split: if_splits)
  with Cons show ?thesis by (intro exI [of _ "takeWhile is_digit s"]) (auto dest: set_takeWhileD)
qed

lemma some_digits_all:
  "d \<noteq> [] \<Longrightarrow> \<forall>c\<in>set d. is_digit c \<Longrightarrow> x = [] \<or> \<not> is_digit (hd x) \<Longrightarrow> some_digits (d @ x) = (True, x)"
  by (cases d; cases x) (auto simp: some_digits_def dropWhile_append)

definition exponent_text :: "string \<Rightarrow> bool" where
  "exponent_text t \<longleftrightarrow> (t = [] \<or> hd t = CHR ''e'' \<or> hd t = CHR ''E'') \<and> json_exponent t = (True, [])"

definition fraction_text :: "string \<Rightarrow> bool" where
  "fraction_text t \<longleftrightarrow> t = [] \<or> hd t = CHR ''.'' \<and> tl t \<noteq> [] \<and> (\<forall>c\<in>set (tl t). is_digit c)"

lemma exponent_text_start: "exponent_text x \<Longrightarrow> x = [] \<or> \<not> is_digit (hd x) \<and> hd x \<noteq> CHR ''.''"
  by (auto simp: exponent_text_def is_digit_def)

lemma json_exponent_split:
  assumes "json_exponent s = (True, r)"
  shows "\<exists>t. s = t @ r \<and> exponent_text t"
proof (cases s)
  case Nil
  with assms show ?thesis by (simp add: json_exponent_def exponent_text_def)
next
  case (Cons c cs)
  show ?thesis
  proof (cases "c = CHR ''e'' \<or> c = CHR ''E''")
    case False
    with assms Cons have "r = s" by (simp add: json_exponent_def)
    then show ?thesis by (simp add: exponent_text_def json_exponent_def)
  next
    case True
    with assms Cons obtain d ds where cs: "cs = d # ds" by (cases cs) (auto simp: json_exponent_def)
    show ?thesis
    proof (cases "d = CHR ''+'' \<or> d = CHR ''-''")
      case sign: True
      with assms Cons True cs have "some_digits ds = (True, r)" by (auto simp: json_exponent_def)
      then obtain e where e: "ds = e @ r" "e \<noteq> []" "\<forall>c\<in>set e. is_digit c" using some_digits_split by blast
      with sign True have "exponent_text (c # d # e)"
        using some_digits_all [of e "[]"] by (auto simp: exponent_text_def json_exponent_def)
      with Cons cs e(1) show ?thesis by (intro exI [of _ "c # d # e"]) simp
    next
      case no_sign: False
      with assms Cons True cs have "some_digits cs = (True, r)" by (auto simp: json_exponent_def)
      then obtain e where e: "cs = e @ r" "e \<noteq> []" "\<forall>c\<in>set e. is_digit c" using some_digits_split by blast
      then obtain e' where "e = d # e'" using cs by (cases e) auto
      with e no_sign True have "exponent_text (c # e)"
        using some_digits_all [of e "[]"] by (auto simp: exponent_text_def json_exponent_def)
      with Cons e(1) show ?thesis by (intro exI [of _ "c # e"]) simp
    qed
  qed
qed

lemma json_fraction_split:
  assumes "json_fraction s = (True, r)"
  shows "\<exists>t. s = t @ r \<and> fraction_text t"
proof (cases s)
  case Nil
  with assms show ?thesis by (simp add: json_fraction_def fraction_text_def)
next
  case (Cons c cs)
  show ?thesis
  proof (cases "c = CHR ''.''")
    case True
    with assms Cons have "some_digits cs = (True, r)" by (simp add: json_fraction_def)
    then obtain d where "cs = d @ r" "d \<noteq> []" "\<forall>c\<in>set d. is_digit c" using some_digits_split by blast
    with Cons True show ?thesis by (intro exI [of _ "c # d"]) (simp add: fraction_text_def)
  next
    case False
    with assms Cons have "r = s" by (simp add: json_fraction_def)
    then show ?thesis by (simp add: fraction_text_def)
  qed
qed

lemma json_fraction_of:
  assumes "fraction_text f" and "exponent_text x"
  shows "json_fraction (f @ x) = (True, x)"
proof (cases f)
  case Nil
  with exponent_text_start [OF assms(2)] show ?thesis by (cases x) (auto simp: json_fraction_def)
next
  case (Cons c cs)
  with assms(1) have "c = CHR ''.''" "cs \<noteq> []" "\<forall>c\<in>set cs. is_digit c" by (auto simp: fraction_text_def)
  then show ?thesis
    using some_digits_all [of cs x] exponent_text_start [OF assms(2)] Cons by (auto simp: json_fraction_def)
qed

lemma fraction_exponent_start:
  "fraction_text f \<Longrightarrow> exponent_text x \<Longrightarrow> f @ x = [] \<or> \<not> is_digit (hd (f @ x))"
  using exponent_text_start by (cases f) (auto simp: fraction_text_def is_digit_def)

text \<open>The shape of a number: sign, digits, fraction, exponent.\<close>

lemma number_text_parts:
  assumes "sign = [] \<or> sign = ''-''" and "is_digit c" and "\<forall>d\<in>set ds. is_digit d"
    and "c = CHR ''0'' \<longrightarrow> ds = []" and "fraction_text f" and "exponent_text x"
  shows "number_text (sign @ c # ds @ f @ x)"
proof -
  have m: "c \<noteq> CHR ''-''" using assms(2) by (auto simp: is_digit_def)
  have dw: "dropWhile is_digit (ds @ f @ x) = f @ x"
    using fraction_exponent_start [OF assms(5,6)] assms(3) by (cases "f @ x") (auto simp: dropWhile_append)
  have s2: "(if c = CHR ''0'' then ds @ f @ x else dropWhile is_digit (c # ds @ f @ x)) = f @ x"
    using assms(2,4) dw by auto
  have x: "json_exponent x = (True, [])" using assms(6) by (simp add: exponent_text_def)
  have n: "(if take 1 (sign @ c # ds @ f @ x) = ''-'' then tl (sign @ c # ds @ f @ x) else sign @ c # ds @ f @ x) =
      c # ds @ f @ x"
    using assms(1) m by auto
  show ?thesis
    unfolding number_text_def json_number_def Let_def n list.case s2 json_fraction_of [OF assms(5,6)]
    using assms(2) by (simp add: x skip_spaces_def)
qed

lemma json_number_valid:
  assumes "json_number s = (0, v, r)"
  shows "v = JUnassigned \<and> r = [] \<or> (\<exists>t. v = JNumber t \<and> number_text t)"
proof -
  define neg where "neg = (take 1 s = ''-'')"
  define s1 where "s1 = (if neg then tl s else s)"
  note eq = json_number_def [of s, unfolded Let_def, folded neg_def, folded s1_def]
  define sign where "sign = (if neg then ''-'' else [])"
  have s: "s = sign @ s1" by (cases s) (auto simp: sign_def s1_def neg_def)
  show ?thesis
  proof (cases s1)
    case Nil
    with assms show ?thesis unfolding eq by simp
  next
    case (Cons c cs)
    with assms have d: "is_digit c" unfolding eq by (auto simp: json_codes split: if_splits)
    define s2 where "s2 = (if c = CHR ''0'' then cs else dropWhile is_digit s1)"
    from assms Cons d obtain s3 s4 where 3: "json_fraction s2 = (True, s3)" and 4: "json_exponent s3 = (True, s4)"
      and v: "v = JNumber (take (length s - length s4) s)"
      unfolding eq s2_def by (auto simp: json_codes split: prod.splits bool.splits)
    obtain f where f: "s2 = f @ s3" "fraction_text f" using json_fraction_split [OF 3] by blast
    obtain x where x: "s3 = x @ s4" "exponent_text x" using json_exponent_split [OF 4] by blast
    obtain ds where ds: "cs = ds @ s2" "\<forall>c\<in>set ds. is_digit c" "c = CHR ''0'' \<longrightarrow> ds = []"
    proof (cases "c = CHR ''0''")
      case True
      then show ?thesis using that [of "[]"] by (simp add: s2_def)
    next
      case False
      then have "s2 = dropWhile is_digit cs" using Cons d by (simp add: s2_def)
      then show ?thesis using that dropWhile_split [of cs is_digit] False by blast
    qed
    have "s = (sign @ c # ds @ f @ x) @ s4" using s Cons ds(1) f(1) x(1) by simp
    then have "take (length s - length s4) s = sign @ c # ds @ f @ x" by simp
    moreover have "number_text (sign @ c # ds @ f @ x)"
      using number_text_parts [OF _ d ds(2,3) f(2) x(2), of sign] by (simp add: sign_def)
    ultimately show ?thesis using v by simp
  qed
qed

section \<open>Values\<close>

text \<open>The members of an object are a registry: what is assigned to a key is found under it.\<close>

interpretation members: registry json_put map_of "\<lambda>_ _. True"
  by unfold_locales (simp_all add: json_put_def update_conv')

lemma json_key_assigned:
  "node \<noteq> JFallback \<Longrightarrow> json_key (json_with_key key (\<lambda>_. v) node) key = v"
  by (simp add: json_with_key_def json_key_def members.look_put_same)

lemma json_key_kept:
  "key' \<noteq> key \<Longrightarrow> json_key (json_with_key key f (JObject ms)) key' = json_key (JObject ms) key'"
  by (simp add: json_with_key_def json_key_def members.look_put_other)

definition members_ok :: "(string \<times> json) list \<Rightarrow> bool" where
  "members_ok ms \<longleftrightarrow> json_ok (JObject ms)"

lemma json_put_ok:
  assumes "members_ok ms" and "json_ok v" and "key \<noteq> []"
  shows "members_ok (json_put key v ms)"
proof -
  have "distinct (map fst (json_put key v ms))"
    using assms(1) by (simp add: members_ok_def json_put_def distinct_update)
  moreover have "set (json_put key v ms) \<subseteq> insert (key, v) (set ms)"
    unfolding json_put_def by (induction ms) auto
  ultimately show ?thesis using assms by (fastforce simp: members_ok_def)
qed

definition mode_ok :: "json_mode \<Rightarrow> bool" where
  "mode_ok m = (case m of Value \<Rightarrow> True | Elements vs \<Rightarrow> \<forall>v\<in>set vs. json_ok v | Members ms \<Rightarrow> members_ok ms)"

lemma json_scalar_valid:
  assumes "json_scalar s = Inr (0, v, r)"
  shows "v = JUnassigned \<and> r = [] \<or> json_ok v"
proof -
  have l: "json_ok w \<Longrightarrow> json_literal ls w t = (0, v, r) \<Longrightarrow> json_ok v" for ls w t
    by (auto simp: json_literal_def json_codes split: prod.splits bool.splits)
  show ?thesis
    using assms json_number_valid [of s v r]
    by (auto simp: json_scalar_def json_codes dest: l [rotated] split: if_splits sum.splits option.splits)
qed

lemma parse_value_empty: "parse_value m [] = Inr (0, v, r) \<Longrightarrow> m = Value \<and> v = JUnassigned \<and> r = []"
  by (cases m) (auto simp: parse_value.simps json_codes)

lemma parse_value_valid:
  "parse_value m s = Inr (0, v, r) \<Longrightarrow> mode_ok m \<or> s = [] \<Longrightarrow> v = JUnassigned \<and> r = [] \<or> json_ok v"
proof (induction m s arbitrary: v r rule: parse_value.induct)
  case (1 s)
  have "mode_ok (Elements [])" "mode_ok (Members [])" by (simp_all add: mode_ok_def members_ok_def)
  with 1 json_scalar_valid [of s v r] show ?case
    by (cases "s = []") (simp_all add: parse_value.simps(1) split: if_splits)
next
  case (2 vs s)
  then have s: "s \<noteq> []" and m: "\<forall>v\<in>set vs. json_ok v"
    by (auto simp: mode_ok_def parse_value.simps(2) json_codes)
  show ?case
  proof (cases "hd s = CHR '']''")
    case True
    with "2.prems" s m show ?thesis by (auto simp: parse_value.simps(2))
  next
    case False
    with "2.prems"(1) s obtain v' r' where v: "parse_value Value s = Inr (0, v', r')"
      and w: "parse_value (Elements (vs @ [v'])) (skip_comma r') = Inr (0, v, r)"
      by (auto simp: parse_value.simps(2) [of vs s] split: sum.splits if_splits)
    have "v' = JUnassigned \<and> r' = [] \<or> json_ok v'" using "2.IH"(1) False s v by (simp add: mode_ok_def)
    then have "mode_ok (Elements (vs @ [v'])) \<or> skip_comma r' = []"
      using m by (auto simp: mode_ok_def skip_comma_def)
    with "2.IH"(2) False s v w show ?thesis by auto
  qed
next
  case (3 ms s)
  then have s: "s \<noteq> []" and m: "members_ok ms"
    by (auto simp: mode_ok_def parse_value.simps(3) json_codes)
  show ?case
  proof (cases "hd s = CHR ''}''")
    case True
    with "3.prems" s m show ?thesis by (auto simp: parse_value.simps(3) members_ok_def)
  next
    case False
    with "3.prems"(1) s have q: "hd s = DQUOTE" by (auto simp: parse_value.simps(3) [of ms s] json_codes split: if_splits)
    with "3.prems"(1) s False obtain found q where k: "json_string (tl s) = Inr (found, q)"
      by (auto simp: parse_value.simps(3) [of ms s] split: sum.splits)
    define key where "key = (case found of None \<Rightarrow> [] | Some k \<Rightarrow> k)"
    from "3.prems"(1) s False q k have n: "key \<noteq> []" "q \<noteq> []" "hd q = CHR '':''"
      by (auto simp: parse_value.simps(3) [of ms s] key_def Let_def json_codes split: if_splits)
    with "3.prems"(1) s False \<open>hd s = DQUOTE\<close> k obtain v' r' where
      v: "parse_value Value (skip_spaces (tl q)) = Inr (0, v', r')"
      and w: "parse_value (Members (json_put key v' ms)) (skip_comma r') = Inr (0, v, r)"
      by (auto simp: parse_value.simps(3) [of ms s] key_def Let_def split: sum.splits if_splits)
    have "v' = JUnassigned \<and> r' = [] \<or> json_ok v'"
      using "3.IH"(1) s False \<open>hd s = DQUOTE\<close> k n v by (simp add: mode_ok_def key_def)
    then have "mode_ok (Members (json_put key v' ms)) \<or> skip_comma r' = []"
      using json_put_ok [OF m _ n(1), of v'] by (auto simp: mode_ok_def skip_comma_def)
    with "3.IH"(2) s False \<open>hd s = DQUOTE\<close> k n v w show ?thesis by (auto simp: key_def)
  qed
qed

lemma json_parse_valid:
  assumes "json_parse s node = Inr (True, v, err)"
  shows "v = JUnassigned \<or> json_ok v"
  using assms parse_value_valid [of Value "skip_spaces s" v]
  by (auto simp: json_parse_def mode_ok_def split: if_splits sum.splits)

end
