(* ===== verification/Json_Properties.thy ===== *)
theory Json_Properties
  imports Json_Valid Cm_Fetcher
begin






text \<open>
  C25. Whatever text the parser accepts, the node it gives has distinct keys, none of them empty,
  and numbers that are numbers, at every depth, so that it is the parse of its own print. The one
  exception is the unassigned node, which stands for a text without a value.
\<close>

theorem json_parse_print:
  assumes "json_parse s node = Inr (True, v, err)" and "v \<noteq> JUnassigned"
  shows "json_ok v \<and> json_parse (json_stringify v) JUnassigned = Inr (True, v, err)"
proof -
  have v: "json_ok v" using json_parse_valid [OF assms(1)] assms(2) by simp
  moreover have "err = \<lparr>code_ = 0, pos_ = 0\<rparr>"
    using assms(1) by (auto simp: json_parse_def split: if_splits sum.splits)
  ultimately show ?thesis using json_read_back [OF v, of JUnassigned] by simp
qed

theorem json_parse_print_witness:
  "json_ok (JArray [JNumber ''1'', JNumber ''2'']) \<and>
   json_parse (json_stringify (JArray [JNumber ''1'', JNumber ''2''])) JUnassigned =
     Inr (True, JArray [JNumber ''1'', JNumber ''2''], \<lparr>code_ = 0, pos_ = 0\<rparr>)"
proof (rule json_parse_print)
  show "json_parse ''[ 1  2,]'' JNull = Inr (True, JArray [JNumber ''1'', JNumber ''2''], \<lparr>code_ = 0, pos_ = 0\<rparr>)"
    by (simp add: json_parse_def parse_value.simps json_scalar_def json_number_def json_fraction_def
        json_exponent_def is_digit_def skip_spaces_def json_space_def skip_comma_def json_chars)
qed simp




text \<open>
  A response of the directory that is a string cut inside an escape makes the refresh of
  the server list read behind the response.
\<close>

theorem response_cut_in_escape:
  assumes "curl_easy_init curl" and "curl_easy_perform curl CM_LIST_URL = (chunks, 0)"
    and "concat chunks = DQUOTE # t @ BSLASH # CHR ''u'' # hex"
    and "DQUOTE \<notin> set t" and "BSLASH \<notin> set t"
    and "length hex < 4" and "\<forall>c\<in>set hex. hex_value c \<noteq> None"
  shows "fetch_cm_servers curl f = (Inl (Undefined OutOfBounds), f)"
proof -
  have "skip_spaces (concat chunks) = concat chunks"
    by (simp add: assms(3) skip_spaces_def json_space_def json_chars)
  then have "json_parse (concat chunks) JUnassigned = Inl (Undefined OutOfBounds)"
    using json_string_cut [OF assms(4-7)] by (simp add: json_parse_def assms(3))
  with assms(1,2) show ?thesis by (simp add: fetch_cm_servers_def response_concat)
qed

theorem response_cut_in_escape_witness:
  "fetch_cm_servers \<lparr>curl_easy_init = True,
     curl_easy_perform = \<lambda>_. ([[DQUOTE, CHR ''a''], [BSLASH, CHR ''u'', CHR ''0'']], 0)\<rparr> CMFetcher_new =
   (Inl (Undefined OutOfBounds), CMFetcher_new)"
proof (rule response_cut_in_escape [where t = "''a''" and hex = "''0''"])
  show "concat [[DQUOTE, CHR ''a''], [BSLASH, CHR ''u'', CHR ''0'']] = DQUOTE # ''a'' @ BSLASH # CHR ''u'' # ''0''"
    by simp
qed (simp_all add: json_chars hex_value_def)

text \<open>
  White space behind \<open>true\<close>, \<open>false\<close> or \<open>null\<close> is not skipped: an array that has it there,
  which is valid JSON, is rejected.
\<close>

theorem json_literal_space:
  assumes "v = JNull \<or> v = JBool b" and "json_space c" and "node \<noteq> JFallback"
  shows "\<exists>pos. json_parse (CHR ''['' # json_stringify v @ c # s) node =
    Inr (False, JArray [v, JUnassigned], \<lparr>code_ = ec_literal, pos_ = pos\<rparr>)"
proof -
  have c: "c \<noteq> CHR ''['' \<and> c \<noteq> CHR '']'' \<and> c \<noteq> CHR ''{'' \<and> c \<noteq> CHR '','' \<and> c \<noteq> DQUOTE \<and> c \<noteq> CHR ''t'' \<and>
      c \<noteq> CHR ''f'' \<and> c \<noteq> CHR ''n'' \<and> c \<noteq> CHR ''-'' \<and> \<not> is_digit c"
    using assms(2) by (auto simp: json_space_def is_digit_def json_chars Let_def)
  have v: "parse_value Value (json_stringify v @ c # s) = Inr (0, v, c # s)"
    using assms(1) by (cases b) (auto simp: parse_value.simps(1) json_scalar_def json_literal_def json_chars)
  have w: "parse_value Value (c # s) = Inr (ec_literal, JUnassigned, c # s)"
    using c by (simp add: parse_value.simps(1) json_scalar_def json_number_def)
  have "value_start (json_stringify v @ c # s)"
    using assms(1) by (auto simp: value_start_def json_space_def)
  then have "parse_value (Elements []) (json_stringify v @ c # s) = Inr (ec_literal, JArray [v, JUnassigned], c # s)"
    using v w c by (auto elim: value_start_cases simp: parse_value.simps(2) skip_comma_def ec_literal_def)
  moreover have "skip_spaces (json_stringify v @ c # s) = json_stringify v @ c # s"
    using assms(1) by (auto simp: skip_spaces_def json_space_def)
  moreover have "parse_value Value (CHR ''['' # x) = parse_value (Elements []) (skip_spaces x)" for x
    by (simp add: parse_value.simps(1))
  ultimately show ?thesis
    using assms(3) by (simp add: json_parse_def skip_spaces_def [of "CHR ''['' # _"] json_space_def ec_literal_def)
qed

theorem json_literal_space_witness:
  "\<exists>pos. json_parse (CHR ''['' # json_stringify (JBool True) @ CHR '' '' # '']'') JUnassigned =
    Inr (False, JArray [JBool True, JUnassigned], \<lparr>code_ = ec_literal, pos_ = pos\<rparr>)"
  by (rule json_literal_space [of _ True]) (simp_all add: json_space_def)

lemma bracket_no_quote: "DQUOTE \<noteq> CHR ''[''" "DQUOTE \<noteq> CHR ''{''"
  by (simp_all add: json_chars)

lemma sample_digits: "hex_value (CHR ''d'') = Some 13" "hex_value (CHR ''8'') = Some 8"
  "hex_value (CHR ''3'') = Some 3" "hex_value (CHR ''d'') = Some 13" "hex_value (CHR ''e'') = Some 14"
  "hex_value (CHR ''0'') = Some 0"
  by (simp_all add: hex_value_def)

lemma sample_hex: "parse_4hexdigits ''d83d'' = HexDigits 0xD83D" "parse_4hexdigits ''de00'' = HexDigits 0xDE00"
  by (simp_all add: parse_4hexdigits_Some [OF sample_digits(1-4)] parse_4hexdigits_Some [OF sample_digits(1,5,6,6)])

lemma hexdigits_append: "parse_4hexdigits a = HexDigits n \<Longrightarrow> parse_4hexdigits (a @ s) = HexDigits n"
proof -
  have "parse_hexdigits k seen u a = HexDigits n \<Longrightarrow> parse_hexdigits k seen u (a @ s) = HexDigits n" for k seen u
    by (induction k seen u a rule: parse_hexdigits.induct) (auto split: option.splits)
  then show "parse_4hexdigits a = HexDigits n \<Longrightarrow> parse_4hexdigits (a @ s) = HexDigits n"
    by (simp add: parse_4hexdigits_def)
qed

text \<open>
  Text between the two halves of a surrogate pair is dropped: the string is the one
  without it, and so is what follows.
\<close>

theorem json_surrogate_text_lost:
  assumes "DQUOTE \<notin> set t" and "BSLASH \<notin> set t"
    and "length a = 4" and "parse_4hexdigits a = HexDigits hi" and "high_surrogate hi"
    and "length b = 4" and "parse_4hexdigits b = HexDigits lo" and "low_surrogate lo"
  shows "parse_value Value (DQUOTE # BSLASH # CHR ''u'' # a @ t @ BSLASH # CHR ''u'' # b @ s) =
    parse_value Value (DQUOTE # BSLASH # CHR ''u'' # a @ BSLASH # CHR ''u'' # b @ s)"
  using bracket_no_quote
  by (simp add: parse_value.simps(1) json_scalar_def
    surrogates_lose_text [OF assms(1,2) hexdigits_append [OF assms(4)] assms(3,5) hexdigits_append [OF assms(4)]
      hexdigits_append [OF assms(7)] assms(6,8)])

theorem json_surrogate_text_lost_witness:
  "parse_value Value (DQUOTE # BSLASH # CHR ''u'' # ''d83d'' @ ''lost'' @ BSLASH # CHR ''u'' # ''de00'' @ [DQUOTE]) =
    parse_value Value (DQUOTE # BSLASH # CHR ''u'' # ''d83d'' @ BSLASH # CHR ''u'' # ''de00'' @ [DQUOTE])"
  by (rule json_surrogate_text_lost [where hi = "0xD83D" and lo = "0xDE00"])
    (simp_all add: json_chars sample_hex high_surrogate_def low_surrogate_def)

end
