(* ===== verification/Nemap.thy ===== *)
theory Nemap
  imports Steam_Prelude "HOL-Library.List_Lexorder" "HOL-Library.Char_ord"
begin

text \<open>
  The map under a JSON object: \<open>nemap\<close> of include/steamclient/external/ctljson.hpp, a red-black
  tree whose nodes point to their parent. A place in the tree is a zipper: the subtree there and
  the path up to the root, whose frames hold what hangs off on the other side. \<open>NULL\<close> is \<open>RNull\<close>,
  a step to the parent takes a frame off, and reading a member of \<open>NULL\<close> is undefined. The header
  keeps the ends of the tree and the number of nodes. Allocation does not fail. The shortcut of
  \<open>compare\<close> for two views of one buffer is left out; a key that is looked up has a buffer of its own.
\<close>

section \<open>Comparing keys\<close>

fun memcmp :: "string \<Rightarrow> string \<Rightarrow> nat \<Rightarrow> int" where
  "memcmp (a # as) (b # bs) (Suc n) =
     (if a = b then memcmp as bs n else if (of_char a :: nat) < of_char b then -1 else 1)"
| "memcmp _ _ _ = 0"

definition view_compare :: "string \<Rightarrow> string \<Rightarrow> int" where
  "view_compare left right =
     (let count = (if length left \<le> length right then length left else length right);
          cmp = memcmp left right count
      in if cmp \<noteq> 0 then cmp
         else if length left = length right then 0 else if length left < length right then -1 else 1)"

section \<open>Trees and places\<close>

datatype rbtree_colour = rb_red | rb_black

datatype 'v rbtree =
    RNull
  | RNode rbtree_colour (rb_left: "'v rbtree") string 'v (rb_right: "'v rbtree")

datatype 'v frame =
    LeftOf rbtree_colour string 'v "'v rbtree"
  | RightOf rbtree_colour string 'v "'v rbtree"

fun link :: "'v frame \<Rightarrow> 'v rbtree \<Rightarrow> 'v rbtree" where
  "link (LeftOf c k v r) t = RNode c t k v r"
| "link (RightOf c k v l) t = RNode c l k v t"

fun plug :: "'v frame list \<Rightarrow> 'v rbtree \<Rightarrow> 'v rbtree" where
  "plug [] t = t"
| "plug (f # path) t = plug path (link f t)"

fun colour_of :: "'v rbtree \<Rightarrow> rbtree_colour" where
  "colour_of RNull = rb_black"
| "colour_of (RNode c l k v r) = c"

fun paint :: "rbtree_colour \<Rightarrow> 'v rbtree \<Rightarrow> 'v rbtree" where
  "paint c RNull = RNull"
| "paint c (RNode c' l k v r) = RNode c l k v r"

fun frame_colour :: "'v frame \<Rightarrow> rbtree_colour" where
  "frame_colour (LeftOf c k v r) = c"
| "frame_colour (RightOf c k v l) = c"

fun frame_key :: "'v frame \<Rightarrow> string" where
  "frame_key (LeftOf c k v r) = k"
| "frame_key (RightOf c k v l) = k"

fun is_left :: "'v frame \<Rightarrow> bool" where
  "is_left (LeftOf c k v r) = True"
| "is_left (RightOf c k v l) = False"

record 'v nemap =
  rb_root :: "'v rbtree"
  rb_leftmost :: "string option"
  rb_rightmost :: "string option"
  node_count :: nat

definition nemap_new :: "'v nemap" where
  "nemap_new = \<lparr>rb_root = RNull, rb_leftmost = None, rb_rightmost = None, node_count = 0\<rparr>"

section \<open>Finding\<close>

text \<open>The loop that goes down from the root; \<open>parentnode\<close> is the last frame.\<close>

fun descend :: "string \<Rightarrow> 'v rbtree \<Rightarrow> 'v frame list \<Rightarrow> 'v frame list \<times> 'v rbtree" where
  "descend key RNull path = (path, RNull)"
| "descend key (RNode c l k v r) path =
     (let comp = view_compare key k in
      if comp < 0 then descend key l (LeftOf c k v r # path)
      else if comp > 0 then descend key r (RightOf c k v l # path)
      else (path, RNode c l k v r))"

definition nemap_find :: "string \<Rightarrow> 'v nemap \<Rightarrow> 'v option" where
  "nemap_find key m =
     (case descend key (rb_root m) [] of (_, RNull) \<Rightarrow> None | (_, RNode c l k v r) \<Rightarrow> Some v)"

section \<open>Rotations\<close>

definition null_access :: "error + 'a" where
  "null_access = Inl (Undefined OutOfBounds)"

fun rotate_left :: "'v rbtree \<Rightarrow> error + 'v rbtree" where
  "rotate_left (RNode c a k v (RNode c' b k' v' d)) = Inr (RNode c' (RNode c a k v b) k' v' d)"
| "rotate_left _ = null_access"

fun rotate_right :: "'v rbtree \<Rightarrow> error + 'v rbtree" where
  "rotate_right (RNode c (RNode c' a k' v' b) k v d) = Inr (RNode c' a k' v' (RNode c b k v d))"
| "rotate_right _ = null_access"

section \<open>Inserting\<close>

text \<open>
  The loop of \<open>find_\<close> behind the insertion: \<open>t\<close> is at \<open>nn2\<close>, whose colour is red. After a rotation
  the parent of \<open>nn2\<close> is black, which ends the loop.
\<close>

fun insert_fix :: "'v frame list \<Rightarrow> 'v rbtree \<Rightarrow> error + 'v rbtree" where
  "insert_fix [] t = Inr t"
| "insert_fix [p] t = (if frame_colour p = rb_red then null_access else Inr (link p t))"
| "insert_fix (p # LeftOf gc gk gv oo # path) t =
     (if frame_colour p \<noteq> rb_red then Inr (plug (p # LeftOf gc gk gv oo # path) t)
      else if colour_of oo = rb_red
      then insert_fix path (RNode rb_red (paint rb_black (link p t)) gk gv (paint rb_black oo))
      else bindE (if is_left p then Inr (link p t) else rotate_left (link p t)) (\<lambda>x.
           bindE (rotate_right (RNode rb_red (paint rb_black x) gk gv oo)) (\<lambda>y. Inr (plug path y))))"
| "insert_fix (p # RightOf gc gk gv oo # path) t =
     (if frame_colour p \<noteq> rb_red then Inr (plug (p # RightOf gc gk gv oo # path) t)
      else if colour_of oo = rb_red
      then insert_fix path (RNode rb_red (paint rb_black oo) gk gv (paint rb_black (link p t)))
      else bindE (if is_left p then rotate_right (link p t) else Inr (link p t)) (\<lambda>x.
           bindE (rotate_left (RNode rb_red oo gk gv (paint rb_black x))) (\<lambda>y. Inr (plug path y))))"

text \<open>\<open>operator[]\<close>, which is \<open>find_\<close>: a key that is not there gets a node with the value \<open>d\<close>.\<close>

definition nemap_index :: "'v \<Rightarrow> string \<Rightarrow> 'v nemap \<Rightarrow> error + 'v nemap" where
  "nemap_index d key m =
     (case descend key (rb_root m) [] of
        (path, RNode c l k v r) \<Rightarrow> Inr m
      | ([], RNull) \<Rightarrow>
          Inr \<lparr>rb_root = RNode rb_black RNull key d RNull, rb_leftmost = Some key,
            rb_rightmost = Some key, node_count = node_count m + 1\<rparr>
      | (parent # path, RNull) \<Rightarrow>
          bindE (insert_fix (parent # path) (RNode rb_red RNull key d RNull)) (\<lambda>t.
            Inr \<lparr>rb_root = paint rb_black t,
              rb_leftmost = (if is_left parent \<and> rb_leftmost m = Some (frame_key parent)
                             then Some key else rb_leftmost m),
              rb_rightmost = (if \<not> is_left parent \<and> rb_rightmost m = Some (frame_key parent)
                              then Some key else rb_rightmost m),
              node_count = node_count m + 1\<rparr>))"

text \<open>An assignment to what \<open>operator[]\<close> gives.\<close>

definition nemap_store :: "string \<Rightarrow> 'v \<Rightarrow> 'v nemap \<Rightarrow> 'v nemap" where
  "nemap_store key v m =
     (case descend key (rb_root m) [] of
        (path, RNode c l k w r) \<Rightarrow> m\<lparr>rb_root := plug path (RNode c l k v r)\<rparr>
      | (path, RNull) \<Rightarrow> m)"

section \<open>Erasing\<close>

text \<open>\<open>while (s->left) s = s->left\<close>: the leftmost place of a subtree.\<close>

fun min_place :: "'v rbtree \<Rightarrow> 'v frame list \<Rightarrow> 'v frame list \<times> 'v rbtree" where
  "min_place RNull path = (path, RNull)"
| "min_place (RNode c l k v r) path =
     (if l = RNull then (path, RNode c l k v r) else min_place l (LeftOf c k v r # path))"

fun min_key :: "'v rbtree \<Rightarrow> string option" where
  "min_key RNull = None"
| "min_key (RNode c l k v r) = (if l = RNull then Some k else min_key l)"

fun max_key :: "'v rbtree \<Rightarrow> string option" where
  "max_key RNull = None"
| "max_key (RNode c l k v r) = (if r = RNull then Some k else max_key r)"

text \<open>
  The part of an iteration behind the test of a red sibling, for a place \<open>sc\<close> on the left of its
  parent and on the right of it. The result is a new place where the loop goes on, or the whole
  subtree at the parent where it ends.
\<close>

definition both_black :: "'v rbtree \<Rightarrow> bool" where
  "both_black sib \<longleftrightarrow> colour_of (rb_left sib) = rb_black \<and> colour_of (rb_right sib) = rb_black"

definition fix_left :: "rbtree_colour \<Rightarrow> 'v rbtree \<Rightarrow> string \<Rightarrow> 'v \<Rightarrow> 'v rbtree \<Rightarrow> error + 'v rbtree" where
  "fix_left scpc sc k v sib =
     bindE (if colour_of (rb_right sib) = rb_black
            then (case sib of RNull \<Rightarrow> null_access
                  | RNode c sl sk sv sr \<Rightarrow> rotate_right (RNode rb_red (paint rb_black sl) sk sv sr))
            else Inr sib) (\<lambda>sib.
     (case sib of RNull \<Rightarrow> null_access
      | RNode c sl sk sv sr \<Rightarrow> rotate_left (RNode rb_black sc k v (RNode scpc sl sk sv (paint rb_black sr)))))"

definition fix_right :: "rbtree_colour \<Rightarrow> 'v rbtree \<Rightarrow> string \<Rightarrow> 'v \<Rightarrow> 'v rbtree \<Rightarrow> error + 'v rbtree" where
  "fix_right scpc sib k v sc =
     bindE (if colour_of (rb_left sib) = rb_black
            then (case sib of RNull \<Rightarrow> null_access
                  | RNode c sl sk sv sr \<Rightarrow> rotate_left (RNode rb_red sl sk sv (paint rb_black sr)))
            else Inr sib) (\<lambda>sib.
     (case sib of RNull \<Rightarrow> null_access
      | RNode c sl sk sv sr \<Rightarrow> rotate_right (RNode rb_black (RNode scpc (paint rb_black sl) sk sv sr) k v sc)))"

text \<open>
  The loop of \<open>erase_\<close>: \<open>t\<close> is at \<open>sc\<close>. A red sibling is rotated up first, which puts the parent one
  level down, under the sibling; the new sibling is its inner child.
\<close>

function erase_fix :: "'v frame list \<Rightarrow> 'v rbtree \<Rightarrow> error + 'v rbtree" where
  "erase_fix [] t = Inr (paint rb_black t)"
| "erase_fix (LeftOf c k v sib # path) t =
     (if colour_of t \<noteq> rb_black then Inr (plug (LeftOf c k v sib # path) (paint rb_black t))
      else
        (case sib of
           RNull \<Rightarrow> null_access
         | RNode sibc sl sk sv sr \<Rightarrow>
             (case (if sibc = rb_red then (rb_red, sl, LeftOf rb_black sk sv sr # path) else (c, sib, path)) of
                (c, sib, path) \<Rightarrow>
                  if sib = RNull then null_access
                  else if both_black sib
                  then erase_fix path (RNode c t k v (paint rb_red sib))
                  else bindE (fix_left c t k v sib) (\<lambda>x. Inr (plug path x)))))"
| "erase_fix (RightOf c k v sib # path) t =
     (if colour_of t \<noteq> rb_black then Inr (plug (RightOf c k v sib # path) (paint rb_black t))
      else
        (case sib of
           RNull \<Rightarrow> null_access
         | RNode sibc sl sk sv sr \<Rightarrow>
             (case (if sibc = rb_red then (rb_red, sr, RightOf rb_black sk sv sl # path) else (c, sib, path)) of
                (c, sib, path) \<Rightarrow>
                  if sib = RNull then null_access
                  else if both_black sib
                  then erase_fix path (RNode c (paint rb_red sib) k v t)
                  else bindE (fix_right c sib k v t) (\<lambda>x. Inr (plug path x)))))"
  by pat_completeness auto
termination erase_fix
  by (relation "measure (\<lambda>(path, t). 2 * length path + (if colour_of t = rb_black then 1 else 0))")
    (auto split: if_splits)

declare erase_fix.simps [simp del]

text \<open>The key of the parent, where there is one.\<close>

definition parent_key :: "'v frame list \<Rightarrow> string option" where
  "parent_key path = (case path of [] \<Rightarrow> None | f # _ \<Rightarrow> Some (frame_key f))"

text \<open>\<open>erase_\<close> at a place that is not \<open>NULL\<close>: the node is taken out, or its successor put there.\<close>

definition erase_at :: "'v frame list \<Rightarrow> 'v rbtree \<Rightarrow> 'v nemap \<Rightarrow> error + 'v nemap" where
  "erase_at path node m =
     (case node of
        RNull \<Rightarrow> Inr m
      | RNode c l k v r \<Rightarrow>
          (let single = (l = RNull \<or> r = RNull);
               (scp, sc, s_orgclr) =
                 (if l = RNull then (path, r, c)
                  else if r = RNull then (path, l, c)
                  else (case min_place r [] of
                          (inner, RNode sc sl sk sv sr) \<Rightarrow> (inner @ RightOf c sk sv l # path, sr, sc)
                        | (inner, RNull) \<Rightarrow> (path, RNull, c)))
           in bindE (if s_orgclr = rb_black then erase_fix scp sc else Inr (plug scp sc)) (\<lambda>t.
              Inr \<lparr>rb_root = t,
                rb_leftmost = (if single \<and> rb_leftmost m = Some k
                               then (if r = RNull then parent_key path else min_key sc) else rb_leftmost m),
                rb_rightmost = (if single \<and> rb_rightmost m = Some k
                                then (if l = RNull then parent_key path else max_key sc) else rb_rightmost m),
                node_count = node_count m - 1\<rparr>)))"

definition nemap_erase :: "string \<Rightarrow> 'v nemap \<Rightarrow> error + 'v nemap" where
  "nemap_erase key m = (case descend key (rb_root m) [] of (path, node) \<Rightarrow> erase_at path node m)"

section \<open>Copying\<close>

text \<open>
  \<open>copy_nodes_\<close> counts the nodes and sets the ends where it passes those of the source. The
  assignment clears the target before it asks whether source and target are the same (\<open>self\<close>).
\<close>

fun copy_nodes :: "'v nemap \<Rightarrow> 'v rbtree \<Rightarrow> 'v nemap \<Rightarrow> 'v rbtree \<times> 'v nemap" where
  "copy_nodes src RNull m = (RNull, m)"
| "copy_nodes src (RNode c l k v r) m =
     (let m = m\<lparr>node_count := node_count m + 1\<rparr>;
          (l', m) = copy_nodes src l m;
          (r', m) = copy_nodes src r m;
          m = (if rb_leftmost src = Some k then m\<lparr>rb_leftmost := Some k\<rparr> else m);
          m = (if rb_rightmost src = Some k then m\<lparr>rb_rightmost := Some k\<rparr> else m)
      in (RNode c l' k v r', m))"

definition nemap_assign :: "bool \<Rightarrow> 'v nemap \<Rightarrow> 'v nemap" where
  "nemap_assign self src =
     (if self \<or> rb_root src = RNull then nemap_new
      else (case copy_nodes src (rb_root src) nemap_new of (t, m) \<Rightarrow> m\<lparr>rb_root := t\<rparr>))"

section \<open>Iterators\<close>

text \<open>An iterator is a place, or \<open>None\<close> for \<open>end()\<close>.\<close>

fun climb :: "'v frame list \<Rightarrow> 'v rbtree \<Rightarrow> ('v frame list \<times> 'v rbtree) option" where
  "climb [] t = None"
| "climb (LeftOf c k v r # path) t = Some (path, RNode c t k v r)"
| "climb (RightOf c k v l # path) t = climb path (RNode c l k v t)"

definition iter_next :: "'v frame list \<times> 'v rbtree \<Rightarrow> ('v frame list \<times> 'v rbtree) option" where
  "iter_next it =
     (case it of
        (path, RNode c l k v r) \<Rightarrow>
          if r \<noteq> RNull then Some (min_place r (RightOf c k v l # path)) else climb path (RNode c l k v r)
      | (path, RNull) \<Rightarrow> None)"

text \<open>\<open>begin()\<close> is the leftmost node, which its key names.\<close>

definition nemap_begin :: "'v nemap \<Rightarrow> ('v frame list \<times> 'v rbtree) option" where
  "nemap_begin m =
     (case rb_leftmost m of None \<Rightarrow> None | Some k \<Rightarrow> Some (descend k (rb_root m) []))"

text \<open>What a loop of \<open>n\<close> rounds sees.\<close>

fun iterate :: "nat \<Rightarrow> ('v frame list \<times> 'v rbtree) option \<Rightarrow> (string \<times> 'v) list" where
  "iterate (Suc n) (Some (path, RNode c l k v r)) = (k, v) # iterate n (iter_next (path, RNode c l k v r))"
| "iterate _ _ = []"

end
