(* ===== verification/Nemap_Facts.thy ===== *)
theory Nemap_Facts
  imports Nemap
begin

text \<open>
  The red-black tree keeps its invariants and is a finite map: what \<open>nemap\<close> promises to a JSON
  object.
\<close>

section \<open>The order of keys\<close>

lemma memcmp_trichotomy:
  "length a \<le> n \<and> length b \<le> n \<Longrightarrow> length a = length b \<Longrightarrow>
     (memcmp a b n < 0 \<longleftrightarrow> a < b) \<and> (memcmp a b n = 0 \<longleftrightarrow> a = b)"
  by (induction a b n rule: memcmp.induct) (auto simp: Cons_less_Cons less_char_def)

lemma memcmp_take: "memcmp a b n = memcmp (take n a) (take n b) n"
  by (induction a b n rule: memcmp.induct) auto

lemma view_compare_Nil: "view_compare [] [] = 0" "view_compare [] (b # bs) = -1" "view_compare (a # as) [] = 1"
  by (simp_all add: view_compare_def)

lemma view_compare_Cons:
  "view_compare (a # as) (b # bs) =
     (if a = b then view_compare as bs else if (of_char a :: nat) < of_char b then -1 else 1)"
  by (auto simp: view_compare_def Let_def)

lemma view_compare_order:
  "(view_compare a b < 0 \<longleftrightarrow> a < b) \<and> (view_compare a b = 0 \<longleftrightarrow> a = b)"
proof (induction a arbitrary: b)
  case Nil
  then show ?case by (cases b) (simp_all add: view_compare_Nil)
next
  case (Cons x a)
  show ?case
  proof (cases b)
    case Nil
    then show ?thesis by (simp add: view_compare_Nil)
  next
    case (Cons y ys)
    with Cons.IH show ?thesis by (auto simp: view_compare_Cons less_char_def)
  qed
qed

lemma view_compare_less [simp]: "view_compare a b < 0 \<longleftrightarrow> a < b"
  and view_compare_greater [simp]: "view_compare a b > 0 \<longleftrightarrow> b < a"
  using view_compare_order [of a b] by auto

section \<open>Contents and balance\<close>

fun entries :: "'v rbtree \<Rightarrow> (string \<times> 'v) list" where
  "entries RNull = []"
| "entries (RNode c l k v r) = entries l @ (k, v) # entries r"

fun before :: "'v frame list \<Rightarrow> (string \<times> 'v) list" where
  "before [] = []"
| "before (LeftOf c k v r # path) = before path"
| "before (RightOf c k v l # path) = before path @ entries l @ [(k, v)]"

fun after :: "'v frame list \<Rightarrow> (string \<times> 'v) list" where
  "after [] = []"
| "after (LeftOf c k v r # path) = (k, v) # entries r @ after path"
| "after (RightOf c k v l # path) = after path"

text \<open>The number of black nodes on a way down, the same on all of them, and no two red ones in a row.\<close>

fun bheight :: "'v rbtree \<Rightarrow> nat" where
  "bheight RNull = 0"
| "bheight (RNode c l k v r) = bheight l + (if c = rb_black then 1 else 0)"

fun balanced :: "'v rbtree \<Rightarrow> bool" where
  "balanced RNull \<longleftrightarrow> True"
| "balanced (RNode c l k v r) \<longleftrightarrow> bheight l = bheight r \<and> balanced l \<and> balanced r"

fun col_ok :: "'v rbtree \<Rightarrow> bool" where
  "col_ok RNull \<longleftrightarrow> True"
| "col_ok (RNode c l k v r) \<longleftrightarrow>
     (c = rb_red \<longrightarrow> colour_of l = rb_black \<and> colour_of r = rb_black) \<and> col_ok l \<and> col_ok r"

text \<open>What a path asks of the subtree at its end: a black height, or a colour.\<close>

fun sibling :: "'v frame \<Rightarrow> 'v rbtree" where
  "sibling (LeftOf c k v r) = r"
| "sibling (RightOf c k v l) = l"

fun path_bal :: "'v frame list \<Rightarrow> nat \<Rightarrow> bool" where
  "path_bal [] n \<longleftrightarrow> True"
| "path_bal (f # path) n \<longleftrightarrow> balanced (sibling f) \<and> bheight (sibling f) = n \<and>
     path_bal path (n + (if frame_colour f = rb_black then 1 else 0))"

fun path_col :: "'v frame list \<Rightarrow> rbtree_colour \<Rightarrow> bool" where
  "path_col [] c \<longleftrightarrow> True"
| "path_col (f # path) c \<longleftrightarrow> col_ok (sibling f) \<and>
     (frame_colour f = rb_red \<longrightarrow> c = rb_black \<and> colour_of (sibling f) = rb_black) \<and>
     path_col path (frame_colour f)"

definition top_black :: "'v frame list \<Rightarrow> bool" where
  "top_black path \<longleftrightarrow> path \<noteq> [] \<longrightarrow> frame_colour (last path) = rb_black"

lemma not_black [simp]: "c \<noteq> rb_black \<longleftrightarrow> c = rb_red" "c \<noteq> rb_red \<longleftrightarrow> c = rb_black"
  by (cases c; simp)+

lemma entries_plug: "entries (plug path t) = before path @ entries t @ after path"
proof (induction path arbitrary: t)
  case (Cons f path)
  then show ?case by (cases f) simp_all
qed simp

lemma balanced_plug: "balanced (plug path t) \<longleftrightarrow> balanced t \<and> path_bal path (bheight t)"
proof (induction path arbitrary: t)
  case (Cons f path)
  show ?case by (cases f) (simp_all add: Cons.IH, metis+)
qed simp

lemma col_ok_plug: "col_ok (plug path t) \<longleftrightarrow> col_ok t \<and> path_col path (colour_of t)"
proof (induction path arbitrary: t)
  case (Cons f path)
  then show ?case by (cases f) auto
qed simp

lemma colour_plug: "colour_of (plug path t) = (if path = [] then colour_of t else frame_colour (last path))"
proof (induction path arbitrary: t)
  case (Cons f path)
  then show ?case by (cases f) auto
qed simp

lemma path_col_black: "path_col path c \<Longrightarrow> path_col path rb_black"
  by (cases path) auto

lemma top_black_step [simp]: "top_black (f # path) \<Longrightarrow> top_black path"
  by (cases path) (auto simp: top_black_def)

lemma top_black_single [simp]: "top_black [f] \<longleftrightarrow> frame_colour f = rb_black"
  by (simp add: top_black_def)

lemma paint_simps [simp]: "entries (paint c t) = entries t" "balanced (paint c t) = balanced t"
  "colour_of (paint rb_black t) = rb_black" "paint c t = RNull \<longleftrightarrow> t = RNull"
  by (cases t; simp)+

lemma paint_black [simp]: "colour_of t = rb_black \<Longrightarrow> paint rb_black t = t"
  by (cases t) auto

lemma col_ok_paint [simp]: "col_ok t \<Longrightarrow> col_ok (paint rb_black t)"
  by (cases t) auto

lemma bheight_paint [simp]: "colour_of t = rb_red \<Longrightarrow> bheight (paint rb_black t) = Suc (bheight t)"
  by (cases t) auto

lemma bheight_pos: "bheight t = Suc n \<Longrightarrow> t \<noteq> RNull"
  by (cases t) auto

section \<open>Inserting\<close>

text \<open>The loop behind the insertion mends a red node under a red parent.\<close>

lemma insert_fix_ok:
  assumes "colour_of t = rb_red" and "balanced t" and "col_ok t"
    and "path_bal path (bheight t)" and "path_col path rb_black" and "top_black path"
  shows "\<exists>x. insert_fix path t = Inr x \<and> entries x = before path @ entries t @ after path \<and>
    balanced x \<and> col_ok (paint rb_black x)"
  using assms
proof (induction path t rule: insert_fix.induct)
  case (1 t)
  then show ?case by simp
next
  case (2 p t)
  then show ?case by (cases p) simp_all
next
  case (3 p gc gk gv oo path t)
  show ?case
  proof (cases "frame_colour p = rb_black")
    case True
    let ?path = "p # LeftOf gc gk gv oo # path"
    have "path_col ?path (colour_of t)" using "3.prems"(5) True by simp
    with True "3.prems" show ?thesis
      using entries_plug [of ?path t] balanced_plug [of ?path t] col_ok_plug [of ?path t] by simp
  next
    case red: False
    with "3.prems" have g: "gc = rb_black" "path_col path rb_black" by auto
    have top: "top_black path" by (rule top_black_step [OF top_black_step [OF "3.prems"(6)]])
    show ?thesis
    proof (cases "colour_of oo = rb_red")
      case True
      let ?t = "RNode rb_red (paint rb_black (link p t)) gk gv (paint rb_black oo)"
      have "\<exists>x. insert_fix path ?t = Inr x \<and> entries x = before path @ entries ?t @ after path \<and>
          balanced x \<and> col_ok (paint rb_black x)"
        using "3.IH" red True "3.prems" g top by (cases p) auto
      with red True g show ?thesis by (cases p) auto
    next
      case False
      with "3.prems" red g show ?thesis
        using balanced_plug [of path] col_ok_plug [of path] entries_plug [of path]
        by (cases p; cases t) (auto simp: null_access_def)
    qed
  qed
next
  case (4 p gc gk gv oo path t)
  show ?case
  proof (cases "frame_colour p = rb_black")
    case True
    let ?path = "p # RightOf gc gk gv oo # path"
    have "path_col ?path (colour_of t)" using "4.prems"(5) True by simp
    with True "4.prems" show ?thesis
      using entries_plug [of ?path t] balanced_plug [of ?path t] col_ok_plug [of ?path t] by simp
  next
    case red: False
    with "4.prems" have g: "gc = rb_black" "path_col path rb_black" by auto
    have top: "top_black path" by (rule top_black_step [OF top_black_step [OF "4.prems"(6)]])
    show ?thesis
    proof (cases "colour_of oo = rb_red")
      case True
      let ?t = "RNode rb_red (paint rb_black oo) gk gv (paint rb_black (link p t))"
      have "\<exists>x. insert_fix path ?t = Inr x \<and> entries x = before path @ entries ?t @ after path \<and>
          balanced x \<and> col_ok (paint rb_black x)"
        using "4.IH" red True "4.prems" g top by (cases p) auto
      with red True g show ?thesis by (cases p) auto
    next
      case False
      with "4.prems" red g show ?thesis
        using balanced_plug [of path] col_ok_plug [of path] entries_plug [of path]
        by (cases p; cases t) (auto simp: null_access_def)
    qed
  qed
qed

section \<open>Finding\<close>

definition sorted_entries :: "(string \<times> 'v) list \<Rightarrow> bool" where
  "sorted_entries xs \<longleftrightarrow> sorted_wrt (<) (map fst xs)"

lemma sorted_entries_append:
  "sorted_entries (xs @ ys) \<longleftrightarrow> sorted_entries xs \<and> sorted_entries ys \<and>
     (\<forall>x\<in>fst ` set xs. \<forall>y\<in>fst ` set ys. x < y)"
  by (auto simp: sorted_entries_def sorted_wrt_append)

lemma sorted_entries_Cons:
  "sorted_entries ((k, v) # ys) \<longleftrightarrow> sorted_entries ys \<and> (\<forall>y\<in>fst ` set ys. k < y)"
  by (auto simp: sorted_entries_def)

lemma sorted_entries_Nil [simp]: "sorted_entries []"
  by (simp add: sorted_entries_def)

lemmas sorted_entries_simps = sorted_entries_append sorted_entries_Cons

definition between :: "string \<Rightarrow> 'v frame list \<Rightarrow> bool" where
  "between key path \<longleftrightarrow> (\<forall>x\<in>fst ` set (before path). x < key) \<and> (\<forall>x\<in>fst ` set (after path). key < x)"

lemma descend_ok:
  assumes "descend key t path = (path', t')" and "sorted_entries (entries t)" and "between key path"
  shows "plug path' t' = plug path t \<and> between key path' \<and>
    (t' = RNull \<or> (\<exists>c l v r. t' = RNode c l key v r))"
  using assms
proof (induction key t path rule: descend.induct)
  case (1 key path)
  then show ?case by simp
next
  case (2 key c l k v r path)
  consider "key < k" | "k < key" | "key = k" by fastforce
  then show ?case
  proof cases
    case 1
    with "2.prems" have "between key (LeftOf c k v r # path)"
      by (fastforce simp: between_def sorted_entries_simps)
    with "2.IH"(1) "2.prems" 1 show ?thesis by (simp add: sorted_entries_simps)
  next
    case 2
    with "2.prems" have "between key (RightOf c k v l # path)"
      by (fastforce simp: between_def sorted_entries_simps)
    moreover from 2 have "\<not> key < k" by simp
    ultimately show ?thesis using "2.IH"(2) "2.prems" 2 by (simp add: sorted_entries_simps)
  next
    case 3
    with "2.prems" show ?thesis by auto
  qed
qed

lemma between_Nil [simp]: "between key []"
  by (simp add: between_def)

lemma between_map_of:
  assumes "between key path"
  shows "map_of (before path) key = None" and "map_of (after path) key = None"
  using assms by (fastforce simp: between_def map_of_eq_None_iff)+

section \<open>The invariant\<close>

definition nemap_inv :: "'v nemap \<Rightarrow> bool" where
  "nemap_inv m \<longleftrightarrow>
     (let es = entries (rb_root m) in
      sorted_entries es \<and> balanced (rb_root m) \<and> col_ok (rb_root m) \<and> colour_of (rb_root m) = rb_black \<and>
      node_count m = length es \<and>
      rb_leftmost m = (if es = [] then None else Some (fst (hd es))) \<and>
      rb_rightmost m = (if es = [] then None else Some (fst (last es))))"

definition nemap_map :: "'v nemap \<Rightarrow> string \<rightharpoonup> 'v" where
  "nemap_map m = map_of (entries (rb_root m))"

lemma nemap_new_ok: "nemap_inv nemap_new" "nemap_map nemap_new = Map.empty"
  by (simp_all add: nemap_inv_def nemap_map_def nemap_new_def)

text \<open>The place of a key: the frames around it and what lies before and after it.\<close>

lemma place_of:
  assumes "nemap_inv m" and "descend key (rb_root m) [] = (path, t)"
  shows "plug path t = rb_root m" and "between key path"
    and "entries (rb_root m) = before path @ entries t @ after path"
    and "balanced t" and "path_bal path (bheight t)" and "col_ok t" and "path_col path (colour_of t)"
    and "top_black path" and "path = [] \<Longrightarrow> colour_of t = rb_black"
    and "t = RNull \<or> (\<exists>c l v r. t = RNode c l key v r)"
proof -
  have i: "sorted_entries (entries (rb_root m))" "balanced (rb_root m)" "col_ok (rb_root m)"
      "colour_of (rb_root m) = rb_black"
    using assms(1) by (simp_all add: nemap_inv_def Let_def)
  show p: "plug path t = rb_root m" and "between key path" and "t = RNull \<or> (\<exists>c l v r. t = RNode c l key v r)"
    using descend_ok [OF assms(2) i(1)] by simp_all
  show "entries (rb_root m) = before path @ entries t @ after path"
    unfolding p [symmetric] by (rule entries_plug)
  show "balanced t" "path_bal path (bheight t)" using i(2) unfolding p [symmetric] by (simp_all add: balanced_plug)
  show "col_ok t" "path_col path (colour_of t)" using i(3) unfolding p [symmetric] by (simp_all add: col_ok_plug)
  show "top_black path" "path = [] \<Longrightarrow> colour_of t = rb_black"
    using i(4) unfolding p [symmetric] by (simp_all add: colour_plug top_black_def split: if_splits)
qed

lemma nemap_find_map:
  assumes "nemap_inv m"
  shows "nemap_find key m = nemap_map m key"
proof -
  obtain path t where d: "descend key (rb_root m) [] = (path, t)" by fastforce
  note p = place_of [OF assms d]
  have s: "sorted_entries (entries (rb_root m))" using assms by (simp add: nemap_inv_def Let_def)
  show ?thesis
  proof (cases t)
    case RNull
    with d p(3) between_map_of [OF p(2)] show ?thesis
      by (simp add: nemap_find_def nemap_map_def map_add_def)
  next
    case (RNode c l k v r)
    with p(10) have k: "k = key" by auto
    have "map_of (entries l) key = None"
      using s unfolding p(3) RNode k by (fastforce simp: sorted_entries_simps map_of_eq_None_iff)
    with RNode k d p(3) between_map_of [OF p(2)] show ?thesis
      by (simp add: nemap_find_def nemap_map_def map_add_def)
  qed
qed

section \<open>\<open>operator[]\<close>\<close>

lemma ends_left: "before path = [] \<Longrightarrow> path \<noteq> [] \<Longrightarrow> is_left (hd path) \<and> fst (hd (after path)) = frame_key (hd path)"
  by (cases path; cases "hd path") auto

lemma ends_right: "after path = [] \<Longrightarrow> path \<noteq> [] \<Longrightarrow> \<not> is_left (hd path) \<and> fst (last (before path)) = frame_key (hd path)"
  by (cases path; cases "hd path") auto

lemma left_parent: "is_left f \<Longrightarrow> fst (hd (after (f # path))) = frame_key f \<and> after (f # path) \<noteq> []"
  by (cases f) auto

lemma right_parent: "\<not> is_left f \<Longrightarrow> fst (last (before (f # path))) = frame_key f \<and> before (f # path) \<noteq> []"
  by (cases f) auto

lemma sorted_first: "sorted_entries (xs @ ys) \<Longrightarrow> xs \<noteq> [] \<Longrightarrow> ys \<noteq> [] \<Longrightarrow> fst (hd xs) \<noteq> fst (hd ys)"
  by (fastforce simp: sorted_entries_append neq_Nil_conv)

lemma sorted_last: "sorted_entries (xs @ ys) \<Longrightarrow> xs \<noteq> [] \<Longrightarrow> ys \<noteq> [] \<Longrightarrow> fst (last xs) \<noteq> fst (last ys)"
  by (metis last_in_set order_less_irrefl sorted_entries_append image_eqI)

lemma map_of_insert:
  assumes "between key path" and "t = RNull \<or> (\<exists>c l v r. t = RNode c l key v r)"
  shows "map_of (before path @ (key, v) # after path) = (map_of (before path @ after path))(key \<mapsto> v)"
proof
  fix x
  show "map_of (before path @ (key, v) # after path) x = ((map_of (before path @ after path))(key \<mapsto> v)) x"
    using between_map_of [OF assms(1)] by (auto simp: map_add_def split: option.splits)
qed

lemma sorted_insert:
  "between key path \<Longrightarrow> sorted_entries (before path @ after path) \<Longrightarrow>
     sorted_entries (before path @ (key, v) # after path)"
  by (fastforce simp: between_def sorted_entries_simps)

lemma nemap_index_present:
  assumes "nemap_inv m" and "key \<in> dom (nemap_map m)"
  shows "nemap_index d key m = Inr m"
proof -
  obtain path t where e: "descend key (rb_root m) [] = (path, t)" by fastforce
  from assms have "nemap_find key m \<noteq> None" by (simp add: nemap_find_map domIff)
  with e show ?thesis by (cases t; cases path) (simp_all add: nemap_find_def nemap_index_def)
qed

lemma nemap_index_absent:
  assumes "nemap_inv m" and "key \<notin> dom (nemap_map m)"
  shows "\<exists>m'. nemap_index d key m = Inr m' \<and> nemap_inv m' \<and> nemap_map m' = (nemap_map m)(key \<mapsto> d)"
proof -
  obtain path t where e: "descend key (rb_root m) [] = (path, t)" by fastforce
  note p = place_of [OF assms(1) e]
  have i: "sorted_entries (entries (rb_root m))" "node_count m = length (entries (rb_root m))"
      "rb_leftmost m = (if entries (rb_root m) = [] then None else Some (fst (hd (entries (rb_root m)))))"
      "rb_rightmost m = (if entries (rb_root m) = [] then None else Some (fst (last (entries (rb_root m)))))"
    using assms(1) by (simp_all add: nemap_inv_def Let_def)
  from assms have "nemap_find key m = None" by (simp add: nemap_find_map domIff)
  with e have t: "t = RNull" by (cases t) (simp_all add: nemap_find_def)
  note es = p(3) [unfolded t, simplified]
  have new: "sorted_entries (before path @ (key, d) # after path)"
    using sorted_insert [OF p(2)] i(1) unfolding es .
  have upd: "map_of (before path @ (key, d) # after path) = (nemap_map m)(key \<mapsto> d)"
    using map_of_insert [OF p(2), of RNull d] by (simp add: nemap_map_def es)
  show ?thesis
  proof (cases path)
    case Nil
    with e t es i(2) upd show ?thesis by (simp add: nemap_index_def nemap_inv_def nemap_map_def sorted_entries_simps)
  next
    case (Cons parent rest)
    let ?nn = "RNode rb_red RNull key d RNull"
    obtain x where x: "insert_fix path ?nn = Inr x"
      "entries x = before path @ entries ?nn @ after path" "balanced x" "col_ok (paint rb_black x)"
      using insert_fix_ok [of ?nn path] p(5,7,8) t by auto
    have left: "(if is_left parent \<and> rb_leftmost m = Some (frame_key parent) then Some key else rb_leftmost m) =
        Some (fst (hd (before path @ (key, d) # after path)))"
    proof (cases "before path = []")
      case True
      with ends_left [OF True] Cons i(3) left_parent [of parent rest] show ?thesis by (auto simp: es)
    next
      case False
      then show ?thesis
        using i(1,3) left_parent [of parent rest] sorted_first [of "before path" "after path"] Cons
        by (auto simp: es hd_append)
    qed
    have right: "(if \<not> is_left parent \<and> rb_rightmost m = Some (frame_key parent) then Some key else rb_rightmost m) =
        Some (fst (last (before path @ (key, d) # after path)))"
    proof (cases "after path = []")
      case True
      with ends_right [OF True] Cons i(4) right_parent [of parent rest] show ?thesis by (auto simp: es)
    next
      case False
      then show ?thesis
        using i(1,4) right_parent [of parent rest] sorted_last [of "before path" "after path"] Cons
        by (auto simp: es last_append)
    qed
    have n: "node_count m + 1 = length (before path @ (key, d) # after path)" using i(2) by (simp add: es)
    from x e t Cons left right n new upd show ?thesis
      by (simp add: nemap_index_def nemap_inv_def nemap_map_def)
  qed
qed

lemma nemap_store_ok:
  assumes "nemap_inv m" and "key \<in> dom (nemap_map m)"
  shows "nemap_inv (nemap_store key v m) \<and> nemap_map (nemap_store key v m) = (nemap_map m)(key \<mapsto> v)"
proof -
  obtain path t where e: "descend key (rb_root m) [] = (path, t)" by fastforce
  note p = place_of [OF assms(1) e]
  from assms have "nemap_find key m \<noteq> None" by (simp add: nemap_find_map domIff)
  with e p(10) obtain c l w r where t: "t = RNode c l key w r" by (cases t) (auto simp: nemap_find_def)
  let ?t = "RNode c l key v r"
  have es: "entries (plug path ?t) = (before path @ entries l) @ (key, v) # entries r @ after path"
    and old: "entries (rb_root m) = (before path @ entries l) @ (key, w) # entries r @ after path"
    using p(3) by (simp_all add: entries_plug t)
  have "map fst (entries (plug path ?t)) = map fst (entries (rb_root m))" unfolding es old by simp
  moreover have "fst (hd (entries (plug path ?t))) = fst (hd (entries (rb_root m)))"
    unfolding es old by (cases "before path @ entries l") simp_all
  moreover have "fst (last (entries (plug path ?t))) = fst (last (entries (rb_root m)))"
    unfolding es old by (simp add: last_append)
  moreover have "length (entries (plug path ?t)) = length (entries (rb_root m))" unfolding es old by simp
  moreover have "entries (plug path ?t) \<noteq> []" "entries (rb_root m) \<noteq> []" unfolding es old by simp_all
  moreover have "balanced (plug path ?t)" "col_ok (plug path ?t)" "colour_of (plug path ?t) = rb_black"
    using p(4-9) t by (simp_all add: balanced_plug col_ok_plug colour_plug top_black_def)
  ultimately have "nemap_inv (nemap_store key v m)"
    using assms(1) e t by (simp add: nemap_store_def nemap_inv_def sorted_entries_def Let_def)
  moreover have "map_of (entries l) key = None"
    using assms(1) unfolding nemap_inv_def Let_def old
    by (fastforce simp: sorted_entries_simps map_of_eq_None_iff)
  then have "nemap_map (nemap_store key v m) = (nemap_map m)(key \<mapsto> v)"
    using e t between_map_of(1) [OF p(2)]
    by (auto simp: nemap_store_def nemap_map_def es old fun_eq_iff map_add_def split: option.splits)
  ultimately show ?thesis ..
qed

section \<open>Erasing\<close>

lemma fix_left_ok:
  assumes "balanced t" and "col_ok t" and "colour_of t = rb_black"
    and "balanced sib" and "col_ok sib" and "colour_of sib = rb_black" and "bheight sib = Suc (bheight t)"
    and "\<not> both_black sib"
  shows "\<exists>x. fix_left c t k v sib = Inr x \<and> entries x = entries t @ (k, v) # entries sib \<and>
    balanced x \<and> col_ok x \<and> colour_of x = c \<and> bheight x = Suc (bheight t) + (if c = rb_black then 1 else 0)"
proof -
  obtain sc sl sk sv sr where s: "sib = RNode sc sl sk sv sr" using assms(7) by (cases sib) auto
  show ?thesis
  proof (cases "colour_of sr = rb_black")
    case True
    with assms(8) s obtain ll lk lv lr where "sl = RNode rb_red ll lk lv lr"
      by (cases sl) (auto simp: both_black_def)
    with assms s True show ?thesis by (auto simp: fix_left_def)
  next
    case False
    then obtain rl rk rv rr where "sr = RNode rb_red rl rk rv rr" by (cases sr) auto
    with assms s show ?thesis by (auto simp: fix_left_def)
  qed
qed

lemma fix_right_ok:
  assumes "balanced t" and "col_ok t" and "colour_of t = rb_black"
    and "balanced sib" and "col_ok sib" and "colour_of sib = rb_black" and "bheight sib = Suc (bheight t)"
    and "\<not> both_black sib"
  shows "\<exists>x. fix_right c sib k v t = Inr x \<and> entries x = entries sib @ (k, v) # entries t \<and>
    balanced x \<and> col_ok x \<and> colour_of x = c \<and> bheight x = Suc (bheight t) + (if c = rb_black then 1 else 0)"
proof -
  obtain sc sl sk sv sr where s: "sib = RNode sc sl sk sv sr" using assms(7) by (cases sib) auto
  show ?thesis
  proof (cases "colour_of sl = rb_black")
    case True
    with assms(8) s obtain rl rk rv rr where "sr = RNode rb_red rl rk rv rr"
      by (cases sr) (auto simp: both_black_def)
    with assms s True show ?thesis by (auto simp: fix_right_def)
  next
    case False
    then obtain ll lk lv lr where "sl = RNode rb_red ll lk lv lr" by (cases sl) auto
    with assms s show ?thesis by (auto simp: fix_right_def)
  qed
qed

text \<open>The loop mends a subtree that is one black node short.\<close>

definition mended :: "'v frame list \<Rightarrow> 'v rbtree \<Rightarrow> error + 'v rbtree \<Rightarrow> bool" where
  "mended path t res \<longleftrightarrow> (\<exists>x. res = Inr x \<and> entries x = before path @ entries t @ after path \<and>
     balanced x \<and> col_ok x \<and> colour_of x = rb_black)"

definition short :: "'v frame list \<Rightarrow> 'v rbtree \<Rightarrow> bool" where
  "short path t \<longleftrightarrow> balanced t \<and> col_ok (paint rb_black t) \<and> path_bal path (Suc (bheight t)) \<and>
     path_col path rb_black \<and> top_black path"

lemma mended_red:
  assumes "short path t" and "colour_of t = rb_red"
  shows "mended path t (Inr (plug path (paint rb_black t)))"
  using assms
  by (simp add: mended_def short_def balanced_plug col_ok_plug colour_plug entries_plug top_black_def)

lemma short_sibling:
  assumes "short (f # path) t"
  shows "\<exists>sc sl sk sv sr. sibling f = RNode sc sl sk sv sr"
  using assms by (cases "sibling f") (auto simp: short_def)

lemma mended_fixed:
  assumes "balanced x" and "col_ok x" and "colour_of x = c"
    and "path_bal path (bheight x)" and "path_col path c" and "top_black (f # path)" and "frame_colour f = c"
  shows "balanced (plug path x) \<and> col_ok (plug path x) \<and> colour_of (plug path x) = rb_black"
  using assms by (cases "path = []") (simp_all add: balanced_plug col_ok_plug colour_plug top_black_def)

lemma bheight_paint_red [simp]: "colour_of t = rb_black \<Longrightarrow> bheight (paint rb_red t) = bheight t - 1"
  by (cases t) auto

lemma col_ok_paint_red: "both_black t \<Longrightarrow> col_ok t \<Longrightarrow> t \<noteq> RNull \<Longrightarrow> col_ok (paint rb_red t)"
  by (cases t) (auto simp: both_black_def)

text \<open>One round at a black sibling, on either side.\<close>

lemma short_up_left:
  assumes "short (LeftOf c k v sib # path) t" and "colour_of t = rb_black" and "colour_of sib = rb_black"
    and "both_black sib"
  shows "short path (RNode c t k v (paint rb_red sib))"
proof -
  have "sib \<noteq> RNull" using assms(1) by (auto simp: short_def)
  with assms show ?thesis
    by (auto simp: short_def col_ok_paint_red dest: path_col_black intro: top_black_step)
qed

lemma short_up_right:
  assumes "short (RightOf c k v sib # path) t" and "colour_of t = rb_black" and "colour_of sib = rb_black"
    and "both_black sib"
  shows "short path (RNode c (paint rb_red sib) k v t)"
proof -
  have "sib \<noteq> RNull" using assms(1) by (auto simp: short_def)
  with assms show ?thesis
    by (auto simp: short_def col_ok_paint_red dest: path_col_black intro: top_black_step)
qed

lemma fixed_left:
  assumes "short (LeftOf c k v sib # path) t" and "colour_of t = rb_black" and "colour_of sib = rb_black"
    and "\<not> both_black sib"
  shows "mended (LeftOf c k v sib # path) t (bindE (fix_left c t k v sib) (\<lambda>x. Inr (plug path x)))"
proof -
  from assms(1,2) have s: "balanced t" "col_ok t" "balanced sib" "col_ok sib" "bheight sib = Suc (bheight t)"
      "path_bal path (Suc (bheight t) + (if c = rb_black then 1 else 0))" "path_col path c"
      "top_black (LeftOf c k v sib # path)"
    by (simp_all add: short_def)
  from fix_left_ok [OF s(1,2) assms(2) s(3,4) assms(3) s(5) assms(4)] obtain x where
    x: "fix_left c t k v sib = Inr x" "entries x = entries t @ (k, v) # entries sib" "balanced x" "col_ok x"
      "colour_of x = c" "bheight x = Suc (bheight t) + (if c = rb_black then 1 else 0)" by blast
  show ?thesis
    using mended_fixed [OF x(3-5) _ s(7,8)] s(6) x(1,2,6) by (simp add: mended_def entries_plug)
qed

lemma fixed_right:
  assumes "short (RightOf c k v sib # path) t" and "colour_of t = rb_black" and "colour_of sib = rb_black"
    and "\<not> both_black sib"
  shows "mended (RightOf c k v sib # path) t (bindE (fix_right c sib k v t) (\<lambda>x. Inr (plug path x)))"
proof -
  from assms(1,2) have s: "balanced t" "col_ok t" "balanced sib" "col_ok sib" "bheight sib = Suc (bheight t)"
      "path_bal path (Suc (bheight t) + (if c = rb_black then 1 else 0))" "path_col path c"
      "top_black (RightOf c k v sib # path)"
    by (simp_all add: short_def)
  from fix_right_ok [OF s(1,2) assms(2) s(3,4) assms(3) s(5) assms(4)] obtain x where
    x: "fix_right c sib k v t = Inr x" "entries x = entries sib @ (k, v) # entries t" "balanced x" "col_ok x"
      "colour_of x = c" "bheight x = Suc (bheight t) + (if c = rb_black then 1 else 0)" by blast
  show ?thesis
    using mended_fixed [OF x(3-5) _ s(7,8)] s(6) x(1,2,6) by (simp add: mended_def entries_plug)
qed

text \<open>A red sibling is rotated up: the place is then under a red parent, with a black sibling.\<close>

lemma short_rotated_left:
  assumes "short (LeftOf c k v (RNode rb_red sl sk sv sr) # path) t"
  shows "short (LeftOf rb_red k v sl # LeftOf rb_black sk sv sr # path) t \<and> colour_of sl = rb_black \<and> sl \<noteq> RNull"
proof -
  have "c = rb_black" using assms by (auto simp: short_def)
  moreover have "bheight sl = Suc (bheight t)" using assms by (simp add: short_def)
  then have "sl \<noteq> RNull" by (rule bheight_pos)
  ultimately show ?thesis using assms by (cases path) (auto simp: short_def top_black_def)
qed

lemma short_rotated_right:
  assumes "short (RightOf c k v (RNode rb_red sl sk sv sr) # path) t"
  shows "short (RightOf rb_red k v sr # RightOf rb_black sk sv sl # path) t \<and> colour_of sr = rb_black \<and> sr \<noteq> RNull"
proof -
  have "c = rb_black" using assms by (auto simp: short_def)
  moreover have "bheight sr = Suc (bheight t)" using assms by (simp add: short_def)
  then have "sr \<noteq> RNull" by (rule bheight_pos)
  ultimately show ?thesis using assms by (cases path) (auto simp: short_def top_black_def)
qed

lemma mended_cong:
  "before path @ entries t @ after path = before path' @ entries t' @ after path' \<Longrightarrow>
     mended path t res = mended path' t' res"
  by (simp add: mended_def)

lemma erase_fix_ok: "short path t \<Longrightarrow> mended path t (erase_fix path t)"
proof (induction path t rule: erase_fix.induct)
  case (1 t)
  then show ?case by (simp add: erase_fix.simps mended_def short_def)
next
  case (2 c k v sib path t)
  note eq = erase_fix.simps(2) [of c k v sib path t]
  show ?case
  proof (cases "colour_of t = rb_black")
    case False
    with mended_red [OF "2.prems"] show ?thesis unfolding eq by simp
  next
    case t: True
    obtain sibc sl sk sv sr where s: "sib = RNode sibc sl sk sv sr" using short_sibling [OF "2.prems"] by auto
    have IH: "mended path' (RNode c' t k v (paint rb_red sib')) (erase_fix path' (RNode c' t k v (paint rb_red sib')))"
      if "(if sibc = rb_red then (rb_red, sl, LeftOf rb_black sk sv sr # path) else (c, sib, path)) = (c', sib', path')"
        and "sib' \<noteq> RNull" and "both_black sib'" and "short path' (RNode c' t k v (paint rb_red sib'))" for c' sib' path'
      by (rule "2.IH" [OF _ s that(1) [symmetric] refl that(2,3,4)]) (simp add: t)
    show ?thesis
    proof (cases "sibc = rb_red")
      case True
      let ?path = "LeftOf rb_black sk sv sr # path"
      have sh: "short (LeftOf rb_red k v sl # ?path) t" and sl: "colour_of sl = rb_black" "sl \<noteq> RNull"
        using short_rotated_left [of c k v sl sk sv sr path t] "2.prems" s True by simp_all
      show ?thesis
      proof (cases "both_black sl")
        case bb: True
        have "mended ?path (RNode rb_red t k v (paint rb_red sl)) (erase_fix ?path (RNode rb_red t k v (paint rb_red sl)))"
          using IH [of rb_red sl] True sl(2) bb short_up_left [OF sh t sl(1) bb] by simp
        then show ?thesis unfolding eq using t s True sl bb by (simp add: mended_def)
      next
        case bb: False
        have "mended (LeftOf rb_red k v sl # ?path) t (bindE (fix_left rb_red t k v sl) (\<lambda>x. Inr (plug ?path x)))"
          by (rule fixed_left [OF sh t sl(1) bb])
        then show ?thesis unfolding eq using t s True sl bb by (simp add: mended_def)
      qed
    next
      case False
      show ?thesis
      proof (cases "both_black sib")
        case bb: True
        have "mended path (RNode c t k v (paint rb_red sib)) (erase_fix path (RNode c t k v (paint rb_red sib)))"
          using IH [of c sib] s False bb short_up_left [OF "2.prems" t _ bb] by simp
        then show ?thesis unfolding eq using t s False bb by (simp add: mended_def)
      next
        case bb: False
        from fixed_left [OF "2.prems" t _ bb] show ?thesis unfolding eq using t s False bb by simp
      qed
    qed
  qed
next
  case (3 c k v sib path t)
  note eq = erase_fix.simps(3) [of c k v sib path t]
  show ?case
  proof (cases "colour_of t = rb_black")
    case False
    with mended_red [OF "3.prems"] show ?thesis unfolding eq by simp
  next
    case t: True
    obtain sibc sl sk sv sr where s: "sib = RNode sibc sl sk sv sr" using short_sibling [OF "3.prems"] by auto
    have IH: "mended path' (RNode c' (paint rb_red sib') k v t) (erase_fix path' (RNode c' (paint rb_red sib') k v t))"
      if "(if sibc = rb_red then (rb_red, sr, RightOf rb_black sk sv sl # path) else (c, sib, path)) = (c', sib', path')"
        and "sib' \<noteq> RNull" and "both_black sib'" and "short path' (RNode c' (paint rb_red sib') k v t)" for c' sib' path'
      by (rule "3.IH" [OF _ s that(1) [symmetric] refl that(2,3,4)]) (simp add: t)
    show ?thesis
    proof (cases "sibc = rb_red")
      case True
      let ?path = "RightOf rb_black sk sv sl # path"
      have sh: "short (RightOf rb_red k v sr # ?path) t" and sr: "colour_of sr = rb_black" "sr \<noteq> RNull"
        using short_rotated_right [of c k v sl sk sv sr path t] "3.prems" s True by simp_all
      show ?thesis
      proof (cases "both_black sr")
        case bb: True
        have "mended ?path (RNode rb_red (paint rb_red sr) k v t) (erase_fix ?path (RNode rb_red (paint rb_red sr) k v t))"
          using IH [of rb_red sr] True sr(2) bb short_up_right [OF sh t sr(1) bb] by simp
        then show ?thesis unfolding eq using t s True sr bb by (simp add: mended_def)
      next
        case bb: False
        have "mended (RightOf rb_red k v sr # ?path) t (bindE (fix_right rb_red sr k v t) (\<lambda>x. Inr (plug ?path x)))"
          by (rule fixed_right [OF sh t sr(1) bb])
        then show ?thesis unfolding eq using t s True sr bb by (simp add: mended_def)
      qed
    next
      case False
      show ?thesis
      proof (cases "both_black sib")
        case bb: True
        have "mended path (RNode c (paint rb_red sib) k v t) (erase_fix path (RNode c (paint rb_red sib) k v t))"
          using IH [of c sib] s False bb short_up_right [OF "3.prems" t _ bb] by simp
        then show ?thesis unfolding eq using t s False bb by (simp add: mended_def)
      next
        case bb: False
        from fixed_right [OF "3.prems" t _ bb] show ?thesis unfolding eq using t s False bb by simp
      qed
    qed
  qed
qed

end
