(* ===== verification/Nemap_Map.thy ===== *)
theory Nemap_Map
  imports Nemap_Facts
begin

text \<open>
  Erasing, copying and iterating, and the contract of a finite map that the operations of \<open>nemap\<close>
  keep.
\<close>

section \<open>Taking a node out\<close>

lemma plug_append: "plug (p @ q) t = plug q (plug p t)"
  by (induction p arbitrary: t) simp_all

lemma before_append: "before (p @ q) = before q @ before p"
  by (induction p rule: before.induct) simp_all

lemma after_append: "after (p @ q) = after p @ after q"
  by (induction p rule: after.induct) simp_all

lemma min_place_ok:
  "t \<noteq> RNull \<Longrightarrow> min_place t path = (path', t') \<Longrightarrow>
     (\<exists>c k v r. t' = RNode c RNull k v r) \<and> plug path' t' = plug path t \<and> before path' = before path"
  by (induction t path arbitrary: path' t' rule: min_place.induct) (auto split: if_splits)

text \<open>A node with at most one child goes, and its child takes its place.\<close>

lemma splice_ok:
  assumes "balanced (plug q (RNode c a k v b))" and "col_ok (plug q (RNode c a k v b))"
    and "colour_of (plug q (RNode c a k v b)) = rb_black"
    and "a = RNull \<and> rest = b \<or> b = RNull \<and> rest = a"
  shows "mended q rest (if c = rb_black then erase_fix q rest else Inr (plug q rest))"
proof (cases "c = rb_black")
  case True
  from assms True have "short q rest"
    by (auto simp: short_def balanced_plug col_ok_plug colour_plug top_black_def)
  with erase_fix_ok True show ?thesis by simp
next
  case False
  from assms False have "q \<noteq> []" by (auto simp: colour_plug)
  with assms False show ?thesis
    by (auto simp: mended_def balanced_plug col_ok_plug colour_plug entries_plug dest: path_col_black)
qed

lemma map_of_remove:
  assumes "sorted_entries (xs @ (key, v) # ys)"
  shows "map_of (xs @ ys) = (map_of (xs @ (key, v) # ys))(key := None)"
proof -
  have "map_of xs key = None" "map_of ys key = None"
    using assms by (fastforce simp: sorted_entries_simps map_of_eq_None_iff)+
  then show ?thesis by (auto simp: fun_eq_iff map_add_def split: option.splits)
qed

lemma entries_Nil [simp]: "entries t = [] \<longleftrightarrow> t = RNull"
  by (cases t) simp_all

lemma min_key_entries: "t \<noteq> RNull \<Longrightarrow> min_key t = Some (fst (hd (entries t)))"
  by (induction t rule: min_key.induct) (auto simp: hd_append)

lemma max_key_entries: "t \<noteq> RNull \<Longrightarrow> max_key t = Some (fst (last (entries t)))"
  by (induction t rule: max_key.induct) (auto simp: last_append)

lemma after_Nil: "before path = [] \<Longrightarrow> after path = [] \<Longrightarrow> path = []"
  by (cases path; cases "hd path") auto

text \<open>The tree that \<open>erase_\<close> makes.\<close>

definition erased_tree :: "'v frame list \<Rightarrow> rbtree_colour \<Rightarrow> 'v rbtree \<Rightarrow> 'v rbtree \<Rightarrow> error + 'v rbtree" where
  "erased_tree path c l r =
     (if l = RNull then (if c = rb_black then erase_fix path r else Inr (plug path r))
      else if r = RNull then (if c = rb_black then erase_fix path l else Inr (plug path l))
      else (case min_place r [] of
              (inner, RNode sc sl sk sv sr) \<Rightarrow>
                let path = inner @ RightOf c sk sv l # path in
                if sc = rb_black then erase_fix path sr else Inr (plug path sr)
            | _ \<Rightarrow> Inr RNull))"

lemma erased_tree_ok:
  assumes "balanced (plug path (RNode c l k v r))" and "col_ok (plug path (RNode c l k v r))"
    and "colour_of (plug path (RNode c l k v r)) = rb_black"
  shows "\<exists>x. erased_tree path c l r = Inr x \<and> balanced x \<and> col_ok x \<and> colour_of x = rb_black \<and>
    entries x = (before path @ entries l) @ entries r @ after path"
proof (cases "l = RNull \<or> r = RNull")
  case True
  with splice_ok [OF assms, of "if l = RNull then r else l"] show ?thesis
    by (auto simp: erased_tree_def mended_def split: if_splits)
next
  case False
  obtain inner sn where m: "min_place r [] = (inner, sn)" by fastforce
  from min_place_ok [OF _ m] False obtain sc sk sv sr where
    s: "sn = RNode sc RNull sk sv sr" "plug inner sn = r" "before inner = []" by auto
  let ?q = "inner @ RightOf c sk sv l # path"
  have q: "plug ?q (RNode sc RNull sk sv sr) = plug path (RNode c l sk sv r)"
    using s by (simp add: plug_append)
  have "mended ?q sr (if sc = rb_black then erase_fix ?q sr else Inr (plug ?q sr))"
    by (rule splice_ok [where a = RNull and b = sr and k = sk and v = sv])
      (use assms in \<open>auto simp: q balanced_plug col_ok_plug colour_plug\<close>)
  moreover have "entries r = (sk, sv) # entries sr @ after inner"
    using entries_plug [of inner sn] s by simp
  ultimately show ?thesis
    using False m s by (auto simp: erased_tree_def mended_def before_append after_append)
qed


lemma erase_at_eq:
  "erase_at path (RNode c l k v r) m =
     bindE (erased_tree path c l r) (\<lambda>t.
       Inr \<lparr>rb_root = t,
         rb_leftmost = (if (l = RNull \<or> r = RNull) \<and> rb_leftmost m = Some k
                        then (if r = RNull then parent_key path else min_key (if l = RNull then r else l))
                        else rb_leftmost m),
         rb_rightmost = (if (l = RNull \<or> r = RNull) \<and> rb_rightmost m = Some k
                         then (if l = RNull then parent_key path else max_key (if l = RNull then r else l))
                         else rb_rightmost m),
         node_count = node_count m - 1\<rparr>)"
proof (cases "l = RNull \<or> r = RNull")
  case True
  then show ?thesis by (auto simp: erase_at_def erased_tree_def Let_def)
next
  case False
  obtain inner sn where m: "min_place r [] = (inner, sn)" by fastforce
  with min_place_ok [of r "[]" inner sn] False show ?thesis
    by (auto simp: erase_at_def erased_tree_def Let_def)
qed

lemma parent_first: "before path = [] \<Longrightarrow> parent_key path = (if after path = [] then None else Some (fst (hd (after path))))"
  using after_Nil [of path] ends_left [of path] by (cases path) (auto simp: parent_key_def)

lemma parent_last: "after path = [] \<Longrightarrow> parent_key path = (if before path = [] then None else Some (fst (last (before path))))"
  using after_Nil [of path] ends_right [of path] by (cases path) (auto simp: parent_key_def)

lemma erased_first:
  assumes "sorted_entries (xs @ (key, v) # ys)" and "xs = before path @ entries l" and "ys = entries r @ after path"
  shows "(if (l = RNull \<or> r = RNull) \<and> Some (fst (hd (xs @ (key, v) # ys))) = Some key
          then (if r = RNull then parent_key path else min_key (if l = RNull then r else l))
          else Some (fst (hd (xs @ (key, v) # ys)))) = (if xs @ ys = [] then None else Some (fst (hd (xs @ ys))))"
proof (cases "xs = []")
  case True
  with assms(2) have "before path = []" "l = RNull" by simp_all
  with True assms(3) parent_first [of path] min_key_entries [of r] show ?thesis
    by (auto simp: hd_append)
next
  case False
  with sorted_first [OF assms(1)] have "fst (hd xs) \<noteq> key" by simp
  with False show ?thesis by (simp add: hd_append)
qed

lemma erased_last:
  assumes "sorted_entries (xs @ (key, v) # ys)" and "xs = before path @ entries l" and "ys = entries r @ after path"
  shows "(if (l = RNull \<or> r = RNull) \<and> Some (fst (last (xs @ (key, v) # ys))) = Some key
          then (if l = RNull then parent_key path else max_key (if l = RNull then r else l))
          else Some (fst (last (xs @ (key, v) # ys)))) = (if xs @ ys = [] then None else Some (fst (last (xs @ ys))))"
proof (cases "ys = []")
  case True
  with assms(3) have "after path = []" "r = RNull" by simp_all
  with True assms(2) parent_last [of path] max_key_entries [of l] show ?thesis
    by (auto simp: last_append)
next
  case False
  with sorted_last [of "xs @ [(key, v)]" ys] assms(1) have "fst (last ys) \<noteq> key" by simp
  with False show ?thesis by (simp add: last_append)
qed

lemma nemap_erase_ok:
  assumes "nemap_inv m"
  shows "\<exists>m'. nemap_erase key m = Inr m' \<and> nemap_inv m' \<and> nemap_map m' = (nemap_map m)(key := None)"
proof -
  obtain path t where e: "descend key (rb_root m) [] = (path, t)" by fastforce
  note p = place_of [OF assms e]
  show ?thesis
  proof (cases t)
    case RNull
    with e have "nemap_find key m = None" by (simp add: nemap_find_def)
    then have "nemap_map m key = None" using nemap_find_map [OF assms] by simp
    then have "nemap_map m = (nemap_map m)(key := None)" by auto
    with assms e RNull show ?thesis by (simp add: nemap_erase_def erase_at_def)
  next
    case (RNode c l k v r)
    with p(10) have k: "k = key" by auto
    let ?xs = "before path @ entries l" and ?ys = "entries r @ after path"
    have old: "entries (rb_root m) = ?xs @ (key, v) # ?ys" using p(3) RNode k by simp
    from assms have i: "sorted_entries (?xs @ (key, v) # ?ys)" "balanced (rb_root m)" "col_ok (rb_root m)"
        "colour_of (rb_root m) = rb_black" "node_count m = length (?xs @ (key, v) # ?ys)"
        "rb_leftmost m = Some (fst (hd (?xs @ (key, v) # ?ys)))"
        "rb_rightmost m = Some (fst (last (?xs @ (key, v) # ?ys)))"
      by (simp_all add: nemap_inv_def Let_def old)
    from erased_tree_ok [of path c l k v r] p(1) i(2-4) RNode obtain x where
      x: "erased_tree path c l r = Inr x" "balanced x" "col_ok x" "colour_of x = rb_black" "entries x = ?xs @ ?ys"
      by auto
    have s: "sorted_entries (?xs @ ?ys)" using i(1) by (auto simp: sorted_entries_simps)
    have n: "node_count m - 1 = length (?xs @ ?ys)" using i(5) by simp
    show ?thesis
      unfolding nemap_erase_def e prod.case RNode erase_at_eq x(1) bindE_simps k i(6,7)
        erased_first [OF i(1) refl refl] erased_last [OF i(1) refl refl] n
      using x(2-5) s map_of_remove [OF i(1)] by (simp add: nemap_inv_def nemap_map_def old del: entries_Nil)
  qed
qed

section \<open>Copying and iterating\<close>

lemma copy_nodes_ok:
  "copy_nodes src t m = (t, m\<lparr>node_count := node_count m + length (entries t),
     rb_leftmost := (if rb_leftmost src \<in> Some ` fst ` set (entries t) then rb_leftmost src else rb_leftmost m),
     rb_rightmost := (if rb_rightmost src \<in> Some ` fst ` set (entries t) then rb_rightmost src else rb_rightmost m)\<rparr>)"
proof (induction t arbitrary: m)
  case RNull
  then show ?case by simp
next
  case (RNode c l k v r)
  show ?case by (auto simp: RNode.IH Let_def)
qed

lemma nemap_copy_ok:
  assumes "nemap_inv m"
  shows "nemap_assign False m = m"
proof (cases "rb_root m = RNull")
  case True
  with assms show ?thesis by (simp add: nemap_assign_def nemap_new_def nemap_inv_def)
next
  case False
  let ?es = "entries (rb_root m)"
  from False have ne: "?es \<noteq> []" by simp
  with assms have "rb_leftmost m = Some (fst (hd ?es))" "rb_rightmost m = Some (fst (last ?es))"
      "node_count m = length ?es"
    by (simp_all add: nemap_inv_def Let_def)
  moreover have "fst (hd ?es) \<in> fst ` set ?es" "fst (last ?es) \<in> fst ` set ?es" using ne by simp_all
  ultimately show ?thesis
    using False by (cases m) (auto simp: nemap_assign_def copy_nodes_ok nemap_new_def)
qed

text \<open>What lies at a place and behind it.\<close>

fun ahead :: "('v frame list \<times> 'v rbtree) option \<Rightarrow> (string \<times> 'v) list" where
  "ahead (Some (path, RNode c l k v r)) = (k, v) # entries r @ after path"
| "ahead _ = []"

lemma ahead_min_place: "t \<noteq> RNull \<Longrightarrow> ahead (Some (min_place t path)) = entries t @ after path"
  by (induction t path rule: min_place.induct) auto

lemma ahead_climb: "ahead (climb path t) = after path"
  by (induction path t rule: climb.induct) simp_all

lemma ahead_next: "ahead (iter_next (path, RNode c l k v r)) = entries r @ after path"
  using ahead_min_place [of r "RightOf c k v l # path"] by (auto simp: iter_next_def ahead_climb)

definition at_node :: "('v frame list \<times> 'v rbtree) option \<Rightarrow> bool" where
  "at_node it \<longleftrightarrow> (\<forall>path. it \<noteq> Some (path, RNull))"

lemma at_node_next: "at_node (iter_next it)"
proof -
  have "at_node (climb path t)" for path and t :: "'a rbtree"
    by (induction path t rule: climb.induct) (simp_all add: at_node_def)
  moreover have "at_node (Some (min_place r p))" if "r \<noteq> RNull" for p and r :: "'a rbtree"
    using that min_place_ok [of r p] by (cases "min_place r p") (auto simp: at_node_def)
  moreover have "at_node (None :: ('a frame list \<times> 'a rbtree) option)" by (simp add: at_node_def)
  ultimately show ?thesis by (auto simp: iter_next_def split: prod.splits rbtree.splits)
qed

lemma iterate_ahead: "at_node it \<Longrightarrow> iterate (length (ahead it)) it = ahead it"
proof (induction "length (ahead it)" arbitrary: it)
  case 0
  then show ?case by simp
next
  case (Suc n)
  then obtain path c l k v r where it: "it = Some (path, RNode c l k v r)"
    by (cases it rule: ahead.cases) auto
  have "iterate n (iter_next (path, RNode c l k v r)) = ahead (iter_next (path, RNode c l k v r))"
    using Suc.hyps(1) [OF _ at_node_next [of "(path, RNode c l k v r)"]] Suc.hyps(2) it
    by (simp add: ahead_next)
  with Suc.hyps(2) it show ?case by (simp add: ahead_next)
qed

lemma nemap_iterate:
  assumes "nemap_inv m"
  shows "iterate (node_count m) (nemap_begin m) = entries (rb_root m)"
proof (cases "entries (rb_root m)")
  case Nil
  with assms show ?thesis by (simp add: nemap_inv_def nemap_begin_def Let_def)
next
  case (Cons e es)
  obtain path t where d: "descend (fst e) (rb_root m) [] = (path, t)" by fastforce
  note p = place_of [OF assms d]
  from assms Cons have i: "rb_leftmost m = Some (fst e)" "node_count m = length (entries (rb_root m))"
      "sorted_entries (entries (rb_root m))"
    by (simp_all add: nemap_inv_def Let_def)
  have "nemap_find (fst e) m \<noteq> None"
    using nemap_find_map [OF assms, of "fst e"] Cons by (cases e) (simp add: nemap_map_def)
  with d p(10) obtain c l v r where t: "t = RNode c l (fst e) v r" by (cases t) (auto simp: nemap_find_def)
  have "(before path @ entries l) @ (fst e, v) # entries r @ after path = e # es" using p(3) Cons t by simp
  then have "before path @ entries l = []"
    using i(3) Cons sorted_first [of "before path @ entries l" "(fst e, v) # entries r @ after path"]
    by (cases "before path @ entries l") auto
  with p(3) t have a: "ahead (Some (path, t)) = entries (rb_root m)" by simp
  have "at_node (Some (path, t))" using t by (simp add: at_node_def)
  from iterate_ahead [OF this] a i(1,2) d show ?thesis by (simp add: nemap_begin_def)
qed

section \<open>The contract of a finite map\<close>

text \<open>
  What a JSON object asks of its map. \<open>keeps\<close> is the invariant and \<open>contents\<close> the map that a state
  stands for; no operation fails.
\<close>

locale finite_map =
  fixes new :: 't
    and look :: "'k \<Rightarrow> 't \<Rightarrow> 'v option"
    and put :: "'k \<Rightarrow> 'v \<Rightarrow> 't \<Rightarrow> error + 't"
    and del :: "'k \<Rightarrow> 't \<Rightarrow> error + 't"
    and count :: "'t \<Rightarrow> nat"
    and keeps :: "'t \<Rightarrow> bool"
    and contents :: "'t \<Rightarrow> 'k \<rightharpoonup> 'v"
  assumes new_contents: "keeps new \<and> contents new = Map.empty"
    and look_contents: "keeps t \<Longrightarrow> look k t = contents t k"
    and put_contents: "keeps t \<Longrightarrow> \<exists>t'. put k v t = Inr t' \<and> keeps t' \<and> contents t' = (contents t)(k \<mapsto> v)"
    and del_contents: "keeps t \<Longrightarrow> \<exists>t'. del k t = Inr t' \<and> keeps t' \<and> contents t' = (contents t)(k := None)"
    and count_contents: "keeps t \<Longrightarrow> finite (dom (contents t)) \<and> count t = card (dom (contents t))"
begin

lemma look_put:
  assumes "keeps t" and "put k v t = Inr t'"
  shows "look k' t' = (if k' = k then Some v else look k' t)"
  using put_contents [OF assms(1), of k v] assms by (auto simp: look_contents)

lemma look_del:
  assumes "keeps t" and "del k t = Inr t'"
  shows "look k' t' = (if k' = k then None else look k' t)"
  using del_contents [OF assms(1), of k] assms by (auto simp: look_contents)

lemma count_put:
  assumes "keeps t" and "put k v t = Inr t'"
  shows "count t' = (if look k t = None then Suc (count t) else count t)"
  using put_contents [OF assms(1), of k v] assms count_contents [of t] count_contents [of t']
  by (auto simp: look_contents card_insert_if domIff)

fun put_list :: "('k \<times> 'v) list \<Rightarrow> 't \<Rightarrow> error + 't" where
  "put_list [] t = Inr t"
| "put_list ((k, v) # kvs) t = bindE (put k v t) (put_list kvs)"

lemma put_list_contents:
  "keeps t \<Longrightarrow> \<exists>t'. put_list kvs t = Inr t' \<and> keeps t' \<and> contents t' = contents t ++ map_of (rev kvs)"
proof (induction kvs arbitrary: t)
  case (Cons kv kvs)
  obtain k v where kv: "kv = (k, v)" by (cases kv)
  from put_contents [OF Cons.prems, of k v] obtain t' where
    t': "put k v t = Inr t'" "keeps t'" "contents t' = (contents t)(k \<mapsto> v)" by blast
  have eq: "contents t ++ map_of (rev (kv # kvs)) = (contents t)(k \<mapsto> v) ++ map_of (rev kvs)"
    by (simp add: kv)
  show ?case
    unfolding eq using Cons.IH [OF t'(2), unfolded t'(3)] t'(1) by (simp only: kv put_list.simps bindE_simps)
qed simp

end

text \<open>An assignment through \<open>operator[]\<close>; \<open>d\<close> is the value of a new node.\<close>

definition nemap_put :: "'v \<Rightarrow> string \<Rightarrow> 'v \<Rightarrow> 'v nemap \<Rightarrow> error + 'v nemap" where
  "nemap_put d key v m = bindE (nemap_index d key m) (\<lambda>m'. Inr (nemap_store key v m'))"

lemma nemap_put_ok:
  assumes "nemap_inv m"
  shows "\<exists>m'. nemap_put d key v m = Inr m' \<and> nemap_inv m' \<and> nemap_map m' = (nemap_map m)(key \<mapsto> v)"
proof (cases "key \<in> dom (nemap_map m)")
  case True
  with nemap_index_present [OF assms True] nemap_store_ok [OF assms True] show ?thesis
    by (simp add: nemap_put_def)
next
  case False
  from nemap_index_absent [OF assms False] obtain m' where
    m': "nemap_index d key m = Inr m'" "nemap_inv m'" "nemap_map m' = (nemap_map m)(key \<mapsto> d)" by blast
  with nemap_store_ok [OF m'(2), of key v] show ?thesis by (simp add: nemap_put_def)
qed

lemma nemap_count:
  assumes "nemap_inv m"
  shows "finite (dom (nemap_map m)) \<and> node_count m = card (dom (nemap_map m))"
proof -
  have "distinct (map fst (entries (rb_root m)))"
    using assms by (simp add: nemap_inv_def Let_def sorted_entries_def strict_sorted_iff)
  then have "card (dom (nemap_map m)) = length (entries (rb_root m))"
    by (simp add: nemap_map_def dom_map_of_conv_image_fst distinct_card flip: set_map)
  then show ?thesis using assms by (simp add: nemap_inv_def Let_def nemap_map_def finite_dom_map_of)
qed

interpretation nemap: finite_map nemap_new nemap_find "nemap_put d" nemap_erase node_count nemap_inv nemap_map
  for d :: 'v
  by unfold_locales (simp_all add: nemap_new_ok nemap_find_map nemap_put_ok nemap_erase_ok nemap_count)

end
