(* ===== verification/Json_Object.thy ===== *)
theory Json_Object
  imports Ctl_Json Nemap_Map
begin

text \<open>
  The object of a JSON node as it is stored: the red-black map of its members and \<open>order\<close>, a string
  in which the keys stand in the order of insertion, each behind the four bytes of its length. It
  implements the list of members of Ctl_Json, as long as no key is empty. Values are of any type.
\<close>

section \<open>The order of the keys\<close>

definition keylen_size :: nat where "keylen_size = 4"

text \<open>\<open>memcpy\<close> of an \<open>unsigned int\<close>, on a little-endian machine.\<close>

definition keylen_bytes :: "nat \<Rightarrow> string" where
  "keylen_bytes n = [chr n, chr (n div 256), chr (n div 256 div 256), chr (n div 256 div 256 div 256)]"

definition get_keylen :: "string \<Rightarrow> nat" where
  "get_keylen s =
     of_char (s ! 0) + 256 * (of_char (s ! 1) + 256 * (of_char (s ! 2) + 256 * of_char (s ! 3)))"

definition append_keyinfo :: "string \<Rightarrow> string \<Rightarrow> string" where
  "append_keyinfo order add = order @ keylen_bytes (length add) @ add"

definition key_matches :: "string \<Rightarrow> string \<Rightarrow> nat \<Rightarrow> bool" where
  "key_matches key order pos \<longleftrightarrow>
     get_keylen (drop pos order) = length key \<and> take (length key) (drop (pos + keylen_size) order) = key"

definition order_erase :: "nat \<Rightarrow> nat \<Rightarrow> string \<Rightarrow> string" where
  "order_erase pos len order = take pos order @ drop (pos + len) order"

definition order_insert :: "nat \<Rightarrow> string \<Rightarrow> string \<Rightarrow> string" where
  "order_insert pos s order = take pos order @ s @ drop pos order"

definition next_pos :: "string \<Rightarrow> nat \<Rightarrow> nat" where
  "next_pos order pos = pos + keylen_size + get_keylen (drop pos order)"

text \<open>
  The loop of \<open>remove_orderkey_\<close> and of \<open>push_back\<close>: the place of a key, where it is found. It stops
  four bytes before the end, so an empty key at the end is not seen.
\<close>

function find_orderkey :: "string \<Rightarrow> string \<Rightarrow> nat \<Rightarrow> nat option" where
  "find_orderkey key order pos =
     (if pos + keylen_size < length order
      then if key_matches key order pos then Some pos else find_orderkey key order (next_pos order pos)
      else None)"
  by pat_completeness auto
termination find_orderkey
  by (relation "measure (\<lambda>(key, order, pos). length order - pos)") (auto simp: next_pos_def keylen_size_def)

declare find_orderkey.simps [simp del]

definition remove_orderkey :: "string \<Rightarrow> string \<Rightarrow> string" where
  "remove_orderkey key order =
     (case find_orderkey key order 0 of
        None \<Rightarrow> order
      | Some pos \<Rightarrow> order_erase pos (keylen_size + length key) order)"

text \<open>The loop of \<open>insert\<close>, which looks for both keys; the length of the string stands for not found.\<close>

function find_both :: "string \<Rightarrow> string \<Rightarrow> string \<Rightarrow> nat \<Rightarrow> nat \<times> nat \<Rightarrow> nat \<times> nat" where
  "find_both newkey inspos order pos (n, i) =
     (if pos < length order \<and> (n = length order \<or> i = length order)
      then find_both newkey inspos order (next_pos order pos)
             (if key_matches newkey order pos then (pos, i)
              else if key_matches inspos order pos then (n, pos) else (n, i))
      else (n, i))"
  by pat_completeness auto
termination find_both
  by (relation "measure (\<lambda>(newkey, inspos, order, pos, x). length order - pos)")
    (auto simp: next_pos_def keylen_size_def)

declare find_both.simps [simp del]

section \<open>Objects\<close>

record 'v object_type =
  objmap :: "'v nemap"
  key_order :: string

definition object_new :: "'v object_type" where
  "object_new = \<lparr>objmap = nemap_new, key_order = []\<rparr>"

definition object_clear :: "'v object_type \<Rightarrow> 'v object_type" where
  "object_clear obj = obj\<lparr>objmap := nemap_new, key_order := []\<rparr>"

definition object_find :: "string \<Rightarrow> 'v object_type \<Rightarrow> 'v option" where
  "object_find key obj = nemap_find key (objmap obj)"

definition object_size :: "'v object_type \<Rightarrow> nat" where
  "object_size obj = node_count (objmap obj)"

text \<open>
  \<open>operator()(key)\<close> with an assignment of \<open>v\<close> to what it gives, which is also what the parser does
  with a member; \<open>d\<close> is an unassigned node.
\<close>

definition object_put :: "'v \<Rightarrow> string \<Rightarrow> 'v \<Rightarrow> 'v object_type \<Rightarrow> error + 'v object_type" where
  "object_put d key v obj =
     (if nemap_find key (objmap obj) \<noteq> None
      then Inr (obj\<lparr>objmap := nemap_store key v (objmap obj)\<rparr>)
      else bindE (nemap_put d key v (objmap obj)) (\<lambda>m.
             Inr (obj\<lparr>objmap := m, key_order := append_keyinfo (key_order obj) key\<rparr>)))"

definition object_erase :: "string \<Rightarrow> 'v object_type \<Rightarrow> error + bool \<times> 'v object_type" where
  "object_erase key obj =
     (if nemap_find key (objmap obj) \<noteq> None
      then bindE (nemap_erase key (objmap obj)) (\<lambda>m.
             Inr (True, obj\<lparr>objmap := m, key_order := remove_orderkey key (key_order obj)\<rparr>))
      else Inr (False, obj))"

text \<open>
  \<open>insert\<close> puts a member in front of another one; a member of that key is taken out first, unless it
  stands there already.
\<close>

definition insert_order :: "string \<Rightarrow> nat \<Rightarrow> nat \<Rightarrow> nat \<Rightarrow> string \<Rightarrow> string" where
  "insert_order newkey remlen n i order =
     (if n < length order \<and> n + remlen = i then order
      else
        (let (s, i) = (if n < length order
                       then (order_erase n remlen order, if n < i then i - remlen else i)
                       else (order, i))
         in order_insert i (append_keyinfo [] newkey) s))"

definition object_insert ::
    "'v \<Rightarrow> string \<Rightarrow> string \<Rightarrow> 'v \<Rightarrow> 'v object_type \<Rightarrow> error + bool \<times> 'v object_type" where
  "object_insert d inspos newkey v obj =
     (if newkey = inspos then Inr (False, obj)
      else
        (let size = length (key_order obj);
             (n, i) = find_both newkey inspos (key_order obj) 0 (size, size)
         in if \<not> i < size then Inr (False, obj)
            else
              (let remlen = keylen_size + length newkey;
                   order' = insert_order newkey remlen n i (key_order obj)
               in bindE (nemap_put d newkey v (objmap obj)) (\<lambda>m.
                    Inr (True, obj\<lparr>objmap := m, key_order := order'\<rparr>)))))"

definition object_push_back :: "'v \<Rightarrow> string \<Rightarrow> 'v \<Rightarrow> 'v object_type \<Rightarrow> error + bool \<times> 'v object_type" where
  "object_push_back d key v obj =
     (let order' =
        (case find_orderkey key (key_order obj) 0 of
           None \<Rightarrow> append_keyinfo (key_order obj) key
         | Some pos \<Rightarrow>
             if pos + keylen_size + length key = length (key_order obj) then key_order obj
             else append_keyinfo (order_erase pos (keylen_size + length key) (key_order obj)) key)
      in bindE (nemap_put d key v (objmap obj)) (\<lambda>m. Inr (True, obj\<lparr>objmap := m, key_order := order'\<rparr>)))"

text \<open>The keys that the loops of \<open>allkeys\<close> and of the printer see.\<close>

function order_keys :: "string \<Rightarrow> nat \<Rightarrow> string list" where
  "order_keys order pos =
     (if pos + keylen_size < length order
      then take (get_keylen (drop pos order)) (drop (pos + keylen_size) order) #
           order_keys order (next_pos order pos)
      else [])"
  by pat_completeness auto
termination order_keys
  by (relation "measure (\<lambda>(order, pos). length order - pos)") (auto simp: next_pos_def keylen_size_def)

declare order_keys.simps [simp del]

section \<open>Packed keys\<close>

definition pack_keys :: "string list \<Rightarrow> string" where
  "pack_keys ks = concat (map (\<lambda>k. keylen_bytes (length k) @ k) ks)"

definition keys_ok :: "string list \<Rightarrow> bool" where
  "keys_ok ks \<longleftrightarrow> distinct ks \<and> (\<forall>k\<in>set ks. k \<noteq> [] \<and> length k < 2 ^ 32)"

lemma pack_keys_simps [simp]: "pack_keys [] = []"
  "pack_keys (k # ks) = keylen_bytes (length k) @ k @ pack_keys ks"
  "pack_keys (ks @ ls) = pack_keys ks @ pack_keys ls"
  by (simp_all add: pack_keys_def)

lemma keylen_bytes_length [simp]: "length (keylen_bytes n) = 4"
  by (simp add: keylen_bytes_def)

lemma of_char_chr [simp]: "(of_char (chr n) :: nat) = n mod 256"
  by (simp add: chr_def)

lemma get_keylen_bytes [simp]: "n < 2 ^ 32 \<Longrightarrow> get_keylen (keylen_bytes n @ s) = n"
proof -
  assume n: "n < 2 ^ 32"
  have "n div 256 div 256 div 256 < 256" using n by (simp add: less_mult_imp_div_less)
  then show ?thesis by (simp add: get_keylen_def keylen_bytes_def)
qed

lemma key_matches_packed:
  assumes "length k < 2 ^ 32" and "pos = length p"
  shows "key_matches key (p @ keylen_bytes (length k) @ k @ s) pos \<longleftrightarrow> key = k"
  using assms by (auto simp: key_matches_def keylen_size_def)

lemma next_pos_packed:
  "length k < 2 ^ 32 \<Longrightarrow> pos = length p \<Longrightarrow>
     next_pos (p @ keylen_bytes (length k) @ k @ s) pos = length (p @ keylen_bytes (length k) @ k)"
  by (simp add: next_pos_def keylen_size_def)

lemma pack_keys_pos: "keys_ok ks \<Longrightarrow> k \<in> set ks \<Longrightarrow> 4 < length (pack_keys ks)"
proof (induction ks)
  case (Cons l ks)
  then show ?case by (cases "k = l") (auto simp: keys_ok_def)
qed simp

lemma keys_ok_append: "keys_ok (ks @ ls) \<Longrightarrow> keys_ok ks \<and> keys_ok ls"
  by (auto simp: keys_ok_def)

lemma keys_ok_Cons: "keys_ok (k # ks) \<Longrightarrow> k \<noteq> [] \<and> length k < 2 ^ 32 \<and> keys_ok ks \<and> k \<notin> set ks"
  by (auto simp: keys_ok_def)

lemma order_keys_packed: "keys_ok ls \<Longrightarrow> order_keys (pack_keys (ks @ ls)) (length (pack_keys ks)) = ls"
proof (induction ls arbitrary: ks)
  case Nil
  then show ?case by (simp add: order_keys.simps)
next
  case (Cons l ls)
  note l = keys_ok_Cons [OF Cons.prems]
  have "order_keys (pack_keys ((ks @ [l]) @ ls)) (length (pack_keys (ks @ [l]))) = ls"
    by (rule Cons.IH) (use l in blast)
  with l show ?case
    using next_pos_packed [of l "length (pack_keys ks)" "pack_keys ks" "pack_keys ls"]
    by (simp add: order_keys.simps [of _ "length (pack_keys ks)"] keylen_size_def)
qed

lemma order_keys_pack [simp]: "keys_ok ks \<Longrightarrow> order_keys (pack_keys ks) 0 = ks"
  using order_keys_packed [of ks "[]"] by simp

definition key_pos :: "string \<Rightarrow> string list \<Rightarrow> nat" where
  "key_pos key ks = length (pack_keys (takeWhile (\<lambda>k. k \<noteq> key) ks))"

lemma find_orderkey_packed:
  "keys_ok ls \<Longrightarrow> key \<notin> set ks \<Longrightarrow>
     find_orderkey key (pack_keys (ks @ ls)) (length (pack_keys ks)) =
       (if key \<in> set ls then Some (key_pos key (ks @ ls)) else None)"
proof (induction ls arbitrary: ks)
  case Nil
  then show ?case by (simp add: find_orderkey.simps)
next
  case (Cons l ls)
  note l = keys_ok_Cons [OF Cons.prems(1)]
  note eq = find_orderkey.simps [of key "pack_keys (ks @ l # ls)" "length (pack_keys ks)"]
  have m: "key_matches key (pack_keys (ks @ l # ls)) (length (pack_keys ks)) \<longleftrightarrow> key = l"
    using key_matches_packed [of l _ "pack_keys ks"] l by simp
  show ?case
  proof (cases "key = l")
    case True
    with Cons.prems(2) have "takeWhile (\<lambda>k. k \<noteq> key) (ks @ l # ls) = ks"
      by (auto simp: takeWhile_append)
    with True m l show ?thesis unfolding eq by (simp add: key_pos_def keylen_size_def)
  next
    case False
    have "find_orderkey key (pack_keys ((ks @ [l]) @ ls)) (length (pack_keys (ks @ [l]))) =
        (if key \<in> set ls then Some (key_pos key ((ks @ [l]) @ ls)) else None)"
      by (rule Cons.IH) (use l False Cons.prems(2) in auto)
    with False m l show ?thesis
      using next_pos_packed [of l "length (pack_keys ks)" "pack_keys ks" "pack_keys ls"]
      unfolding eq by (simp add: keylen_size_def)
  qed
qed

lemma order_erase_packed:
  "order_erase (length (pack_keys a)) (keylen_size + length key) (pack_keys (a @ key # b)) = pack_keys (a @ b)"
  by (simp add: order_erase_def keylen_size_def)

lemma key_split:
  assumes "key \<in> set ks" and "distinct ks"
  obtains a b where "ks = a @ key # b" and "key \<notin> set a" and "key \<notin> set b" and "key_pos key ks = length (pack_keys a)"
proof -
  obtain a b where s: "ks = a @ key # b" "key \<notin> set a" using split_list_first [OF assms(1)] by blast
  moreover have "key \<notin> set b" using assms(2) s by simp
  moreover have "takeWhile (\<lambda>k. k \<noteq> key) ks = a" using s by (auto simp: takeWhile_append)
  then have "key_pos key ks = length (pack_keys a)" by (simp add: key_pos_def)
  ultimately show ?thesis using that by blast
qed

lemma remove_orderkey_packed:
  assumes "keys_ok ks"
  shows "remove_orderkey key (pack_keys ks) = pack_keys (removeAll key ks)"
proof (cases "key \<in> set ks")
  case True
  from assms have "distinct ks" by (simp add: keys_ok_def)
  from key_split [OF True this] obtain a b where
    s: "ks = a @ key # b" "key \<notin> set a" "key \<notin> set b" "key_pos key ks = length (pack_keys a)" .
  have "find_orderkey key (pack_keys ks) 0 = Some (length (pack_keys a))"
    using find_orderkey_packed [OF assms, of key "[]"] True s(4) by simp
  then show ?thesis using s(2,3) order_erase_packed [of a key b] by (simp add: remove_orderkey_def s(1))
next
  case False
  then show ?thesis using find_orderkey_packed [OF assms, of key "[]"] by (simp add: remove_orderkey_def)
qed

lemma append_keyinfo_packed: "append_keyinfo (pack_keys ks) key = pack_keys (ks @ [key])"
  by (simp add: append_keyinfo_def)

lemma key_pos_less: "keys_ok ks \<Longrightarrow> key \<in> set ks \<Longrightarrow> key_pos key ks < length (pack_keys ks)"
  by (elim key_split [of key ks]) (auto simp: keys_ok_def)

text \<open>The place of a key, or the end where it is not.\<close>

definition pos_or_end :: "string \<Rightarrow> string list \<Rightarrow> string list \<Rightarrow> nat" where
  "pos_or_end key seen ks = (if key \<in> set seen then key_pos key ks else length (pack_keys ks))"

lemma find_both_packed:
  assumes "keys_ok (ks @ ls)" and "newkey \<noteq> inspos"
  shows "find_both newkey inspos (pack_keys (ks @ ls)) (length (pack_keys ks))
      (pos_or_end newkey ks (ks @ ls), pos_or_end inspos ks (ks @ ls)) =
    (pos_or_end newkey (ks @ ls) (ks @ ls), pos_or_end inspos (ks @ ls) (ks @ ls))"
  using assms(1)
proof (induction ls arbitrary: ks)
  case Nil
  then show ?case by (simp add: find_both.simps)
next
  case (Cons l ls)
  let ?all = "ks @ l # ls"
  note l = keys_ok_Cons [OF conjunct2 [OF keys_ok_append [OF Cons.prems]]]
  note eq = find_both.simps [of newkey inspos "pack_keys ?all" "length (pack_keys ks)"]
  have m: "key_matches k (pack_keys ?all) (length (pack_keys ks)) \<longleftrightarrow> k = l" for k
    using key_matches_packed [of l _ "pack_keys ks"] l by simp
  have p: "pos_or_end k ks ?all = length (pack_keys ?all) \<longleftrightarrow> k \<notin> set ks" for k
    using key_pos_less [OF Cons.prems, of k] by (auto simp: pos_or_end_def)
  have h: "key_pos l ?all = length (pack_keys ks)"
    using Cons.prems by (auto simp: keys_ok_def key_pos_def takeWhile_append)
  have IH: "find_both newkey inspos (pack_keys ?all) (length (pack_keys (ks @ [l])))
      (pos_or_end newkey (ks @ [l]) ?all, pos_or_end inspos (ks @ [l]) ?all) =
    (pos_or_end newkey ?all ?all, pos_or_end inspos ?all ?all)"
    using Cons.IH [of "ks @ [l]"] Cons.prems by simp
  show ?case
  proof (cases "newkey \<in> set ks \<and> inspos \<in> set ks")
    case True
    then have c: "\<not> (length (pack_keys ks) < length (pack_keys ?all) \<and>
        (pos_or_end newkey ks ?all = length (pack_keys ?all) \<or> pos_or_end inspos ks ?all = length (pack_keys ?all)))"
      using p by simp
    show ?thesis unfolding eq if_not_P [OF c] using True by (simp add: pos_or_end_def)
  next
    case False
    have n: "next_pos (pack_keys ?all) (length (pack_keys ks)) = length (pack_keys (ks @ [l]))"
      using next_pos_packed [of l "length (pack_keys ks)" "pack_keys ks" "pack_keys ls"] l by simp
    have s: "(if newkey = l then (length (pack_keys ks), pos_or_end inspos ks ?all)
        else if inspos = l then (pos_or_end newkey ks ?all, length (pack_keys ks))
        else (pos_or_end newkey ks ?all, pos_or_end inspos ks ?all)) =
      (pos_or_end newkey (ks @ [l]) ?all, pos_or_end inspos (ks @ [l]) ?all)"
      using assms(2) h by (auto simp: pos_or_end_def)
    have c: "length (pack_keys ks) < length (pack_keys ?all) \<and>
        (pos_or_end newkey ks ?all = length (pack_keys ?all) \<or> pos_or_end inspos ks ?all = length (pack_keys ?all))"
      using False p by simp
    show ?thesis unfolding eq m n s IH if_P [OF c] ..
  qed
qed

lemma find_both_pack:
  assumes "keys_ok ks" and "newkey \<noteq> inspos"
  shows "find_both newkey inspos (pack_keys ks) 0 (length (pack_keys ks), length (pack_keys ks)) =
    (pos_or_end newkey ks ks, pos_or_end inspos ks ks)"
  using find_both_packed [of "[]" ks, OF _ assms(2)] assms(1) by (simp add: pos_or_end_def)

section \<open>Objects and lists of members\<close>

definition represents :: "'v object_type \<Rightarrow> string list \<Rightarrow> bool" where
  "represents obj ks \<longleftrightarrow> nemap_inv (objmap obj) \<and> keys_ok ks \<and> key_order obj = pack_keys ks \<and>
     set ks = dom (nemap_map (objmap obj))"

definition object_ok :: "'v object_type \<Rightarrow> bool" where
  "object_ok obj \<longleftrightarrow> represents obj (order_keys (key_order obj) 0)"

definition object_members :: "'v object_type \<Rightarrow> (string \<times> 'v) list" where
  "object_members obj = map (\<lambda>k. (k, the (object_find k obj))) (order_keys (key_order obj) 0)"

lemma represents_ok: "represents obj ks \<Longrightarrow> object_ok obj"
  by (simp add: object_ok_def represents_def)

lemma represents_members:
  "represents obj ks \<Longrightarrow> object_members obj = map (\<lambda>k. (k, the (nemap_map (objmap obj) k))) ks"
  by (simp add: object_members_def represents_def object_find_def nemap_find_map)

lemma represents_find: "represents obj ks \<Longrightarrow> nemap_find k (objmap obj) \<noteq> None \<longleftrightarrow> k \<in> set ks"
  by (auto simp: represents_def nemap_find_map)

lemma update_map_in:
  "key \<in> set ks \<Longrightarrow> distinct ks \<Longrightarrow>
     AList.update key v (map (\<lambda>k. (k, f k)) ks) = map (\<lambda>k. (k, (f(key := v)) k)) ks"
  by (induction ks) (auto intro!: map_cong)

lemma update_map_notin:
  "key \<notin> set ks \<Longrightarrow> AList.update key v (map (\<lambda>k. (k, f k)) ks) = map (\<lambda>k. (k, (f(key := v)) k)) (ks @ [key])"
  by (induction ks) auto

lemma map_keys_cong: "(\<And>k. k \<in> set ks \<Longrightarrow> f k = g k) \<Longrightarrow> map (\<lambda>k. (k, f k)) ks = map (\<lambda>k. (k, g k)) ks"
  by simp

lemma object_new_ok: "represents object_new []"
  by (simp add: represents_def object_new_def keys_ok_def nemap_new_ok)

lemma keys_ok_snoc: "keys_ok ks \<Longrightarrow> key \<notin> set ks \<Longrightarrow> key \<noteq> [] \<Longrightarrow> length key < 2 ^ 32 \<Longrightarrow> keys_ok (ks @ [key])"
  by (simp add: keys_ok_def)

lemma keys_ok_removeAll: "keys_ok ks \<Longrightarrow> keys_ok (removeAll key ks)"
  by (simp add: keys_ok_def distinct_removeAll)

lemma the_update: "(\<lambda>k. the ((m(key \<mapsto> v)) k)) = (\<lambda>k. the (m k))(key := v)"
  by auto

text \<open>An assignment to a member is that of the list, and keeps the place of a key that is there.\<close>

lemma represents_store:
  assumes "represents obj ks" and "key \<in> set ks"
  shows "represents (obj\<lparr>objmap := nemap_store key v (objmap obj)\<rparr>) ks"
    and "object_members (obj\<lparr>objmap := nemap_store key v (objmap obj)\<rparr>) =
      map (\<lambda>k. (k, ((\<lambda>k. the (nemap_map (objmap obj) k))(key := v)) k)) ks"
proof -
  have s: "nemap_inv (nemap_store key v (objmap obj))"
      "nemap_map (nemap_store key v (objmap obj)) = (nemap_map (objmap obj))(key \<mapsto> v)"
    using nemap_store_ok [of "objmap obj" key v] assms by (auto simp: represents_def)
  with assms show r: "represents (obj\<lparr>objmap := nemap_store key v (objmap obj)\<rparr>) ks"
    by (auto simp: represents_def)
  show "object_members (obj\<lparr>objmap := nemap_store key v (objmap obj)\<rparr>) =
      map (\<lambda>k. (k, ((\<lambda>k. the (nemap_map (objmap obj) k))(key := v)) k)) ks"
    unfolding represents_members [OF r] using s(2) by (simp add: the_update)
qed

text \<open>Any change of the order that adds one key fits an assignment to the map.\<close>

lemma represents_put:
  assumes "represents obj ks" and "keys_ok ks'" and "set ks' = insert key (set ks)"
  shows "\<exists>m. nemap_put d key v (objmap obj) = Inr m \<and>
    represents (obj\<lparr>objmap := m, key_order := pack_keys ks'\<rparr>) ks' \<and>
    object_members (obj\<lparr>objmap := m, key_order := pack_keys ks'\<rparr>) =
      map (\<lambda>k. (k, ((\<lambda>k. the (nemap_map (objmap obj) k))(key := v)) k)) ks'"
proof -
  from assms(1) have "nemap_inv (objmap obj)" by (simp add: represents_def)
  from nemap_put_ok [OF this, of d key v] obtain m where
    m: "nemap_put d key v (objmap obj) = Inr m" "nemap_inv m" "nemap_map m = (nemap_map (objmap obj))(key \<mapsto> v)"
    by blast
  have r: "represents (obj\<lparr>objmap := m, key_order := pack_keys ks'\<rparr>) ks'"
    using m assms by (auto simp: represents_def)
  show ?thesis
    using m r represents_members [OF r] by (simp add: the_update)
qed

text \<open>An assignment to a member is that of the list, and keeps the place of a key that is there.\<close>

lemma object_put_ok:
  assumes "object_ok obj" and "key \<noteq> []" and "length key < 2 ^ 32"
  shows "\<exists>obj'. object_put d key v obj = Inr obj' \<and> object_ok obj' \<and>
    object_members obj' = json_put key v (object_members obj)"
proof -
  obtain ks where r: "represents obj ks" using assms(1) by (auto simp: object_ok_def)
  then have d: "distinct ks" "keys_ok ks" "key_order obj = pack_keys ks" by (simp_all add: represents_def keys_ok_def)
  show ?thesis
  proof (cases "key \<in> set ks")
    case True
    with represents_store [OF r True, of v] represents_ok represents_find [OF r, of key] show ?thesis
      unfolding json_put_def represents_members [OF r] update_map_in [OF True d(1)]
      by (auto simp: object_put_def)
  next
    case False
    have k: "keys_ok (ks @ [key])" by (rule keys_ok_snoc [OF d(2) False assms(2,3)])
    from represents_put [OF r k, of key d v] obtain m where
      m: "nemap_put d key v (objmap obj) = Inr m"
        "represents (obj\<lparr>objmap := m, key_order := pack_keys (ks @ [key])\<rparr>) (ks @ [key])"
        "object_members (obj\<lparr>objmap := m, key_order := pack_keys (ks @ [key])\<rparr>) =
          map (\<lambda>k. (k, ((\<lambda>k. the (nemap_map (objmap obj) k))(key := v)) k)) (ks @ [key])"
      by auto
    show ?thesis
      unfolding json_put_def represents_members [OF r] update_map_notin [OF False]
      using m represents_ok [OF m(2)] represents_find [OF r, of key] False
      by (simp add: object_put_def d(3) append_keyinfo_packed)
  qed
qed

lemma filter_members:
  "filter (\<lambda>m. fst m \<noteq> key) (map (\<lambda>k. (k, f k)) ks) = map (\<lambda>k. (k, f k)) (removeAll key ks)"
  by (induction ks) auto

lemma object_erase_ok:
  assumes "object_ok obj"
  shows "\<exists>obj'. object_erase key obj = Inr (key \<in> fst ` set (object_members obj), obj') \<and> object_ok obj' \<and>
    object_members obj' = filter (\<lambda>m. fst m \<noteq> key) (object_members obj)"
proof -
  obtain ks where r: "represents obj ks" using assms by (auto simp: object_ok_def)
  then have i: "nemap_inv (objmap obj)" "keys_ok ks" "key_order obj = pack_keys ks"
      "set ks = dom (nemap_map (objmap obj))"
    by (simp_all add: represents_def)
  have mem: "key \<in> fst ` set (object_members obj) \<longleftrightarrow> key \<in> set ks"
    by (simp add: represents_members [OF r] image_image)
  show ?thesis
  proof (cases "key \<in> set ks")
    case True
    from nemap_erase_ok [OF i(1), of key] obtain m where
      m: "nemap_erase key (objmap obj) = Inr m" "nemap_inv m" "nemap_map m = (nemap_map (objmap obj))(key := None)"
      by blast
    let ?obj = "obj\<lparr>objmap := m, key_order := pack_keys (removeAll key ks)\<rparr>"
    have r': "represents ?obj (removeAll key ks)"
      using m i keys_ok_removeAll [OF i(2)] by (auto simp: represents_def)
    have "object_members ?obj = filter (\<lambda>m. fst m \<noteq> key) (object_members obj)"
      unfolding represents_members [OF r] represents_members [OF r'] filter_members
      using m(3) by (intro map_keys_cong) auto
    with True m represents_ok [OF r'] represents_find [OF r, of key] mem show ?thesis
      by (simp add: object_erase_def i(3) remove_orderkey_packed [OF i(2)])
  next
    case False
    then have "removeAll key ks = ks" by simp
    with False mem represents_find [OF r, of key] assms show ?thesis
      by (simp add: object_erase_def represents_members [OF r] filter_members)
  qed
qed

lemma object_push_back_ok:
  assumes "object_ok obj" and "key \<noteq> []" and "length key < 2 ^ 32"
  shows "\<exists>obj'. object_push_back d key v obj = Inr (True, obj') \<and> object_ok obj' \<and>
    object_members obj' = filter (\<lambda>m. fst m \<noteq> key) (object_members obj) @ [(key, v)]"
proof -
  obtain ks where r: "represents obj ks" using assms(1) by (auto simp: object_ok_def)
  then have i: "keys_ok ks" "distinct ks" "key_order obj = pack_keys ks" by (simp_all add: represents_def keys_ok_def)
  let ?ks = "removeAll key ks @ [key]"
  have k: "keys_ok ?ks"
    by (rule keys_ok_snoc [OF keys_ok_removeAll [OF i(1)] _ assms(2,3)]) simp
  have f: "find_orderkey key (pack_keys ks) 0 = (if key \<in> set ks then Some (key_pos key ks) else None)"
    using find_orderkey_packed [OF i(1), of key "[]"] by simp
  have o: "(case find_orderkey key (key_order obj) 0 of None \<Rightarrow> append_keyinfo (key_order obj) key
      | Some pos \<Rightarrow>
          if pos + keylen_size + length key = length (key_order obj) then key_order obj
          else append_keyinfo (order_erase pos (keylen_size + length key) (key_order obj)) key) = pack_keys ?ks"
  proof (cases "key \<in> set ks")
    case True
    from key_split [OF True i(2)] obtain a b where
      s: "ks = a @ key # b" "key \<notin> set a" "key \<notin> set b" "key_pos key ks = length (pack_keys a)" .
    have "pack_keys b = [] \<longleftrightarrow> b = []" by (cases b) (simp_all add: keylen_bytes_def)
    with s f True show ?thesis
      using order_erase_packed [of a key b] append_keyinfo_packed [of "a @ b" key]
      by (auto simp: i(3) keylen_size_def)
  next
    case False
    with f show ?thesis by (simp add: i(3) append_keyinfo_packed)
  qed
  from represents_put [OF r k, of key d v] obtain m where
    m: "nemap_put d key v (objmap obj) = Inr m" "represents (obj\<lparr>objmap := m, key_order := pack_keys ?ks\<rparr>) ?ks"
      "object_members (obj\<lparr>objmap := m, key_order := pack_keys ?ks\<rparr>) =
        map (\<lambda>k. (k, ((\<lambda>k. the (nemap_map (objmap obj) k))(key := v)) k)) ?ks"
    by auto
  have "object_members (obj\<lparr>objmap := m, key_order := pack_keys ?ks\<rparr>) =
      filter (\<lambda>m. fst m \<noteq> key) (object_members obj) @ [(key, v)]"
    unfolding m(3) represents_members [OF r] filter_members by simp
  with m(1) represents_ok [OF m(2)] show ?thesis unfolding object_push_back_def o by simp
qed

definition insert_before :: "string \<Rightarrow> string \<times> 'v \<Rightarrow> (string \<times> 'v) list \<Rightarrow> (string \<times> 'v) list" where
  "insert_before inspos m ms = takeWhile (\<lambda>m. fst m \<noteq> inspos) ms @ m # dropWhile (\<lambda>m. fst m \<noteq> inspos) ms"

lemma insert_order_packed:
  assumes "keys_ok (a @ inspos # b)" and "newkey \<noteq> inspos"
  shows "insert_order newkey (keylen_size + length newkey) (pos_or_end newkey (a @ inspos # b) (a @ inspos # b))
      (length (pack_keys a)) (pack_keys (a @ inspos # b)) =
    pack_keys (removeAll newkey a @ newkey # inspos # removeAll newkey b)"
proof -
  let ?ks = "a @ inspos # b"
  from assms(1) have d: "distinct ?ks" by (simp add: keys_ok_def)
  have ins: "order_insert (length (pack_keys x)) (append_keyinfo [] newkey) (pack_keys (x @ y)) =
      pack_keys (x @ newkey # y)" for x y
    by (simp add: order_insert_def append_keyinfo_def)
  consider "newkey \<notin> set ?ks" | "newkey \<in> set a" | "newkey \<in> set b" using assms(2) by auto
  then show ?thesis
  proof cases
    case 1
    with ins [of a "inspos # b"] show ?thesis by (simp add: insert_order_def pos_or_end_def)
  next
    case 2
    then obtain a1 a2 where a: "a = a1 @ newkey # a2" "newkey \<notin> set a1" by (meson split_list_first)
    with d have n: "newkey \<notin> set a2" "newkey \<notin> set b" by auto
    have p: "pos_or_end newkey ?ks ?ks = length (pack_keys a1)"
      using a by (auto simp: pos_or_end_def key_pos_def takeWhile_append)
    have e: "order_erase (length (pack_keys a1)) (keylen_size + length newkey) (pack_keys ?ks) =
        pack_keys (a1 @ a2 @ inspos # b)"
      using order_erase_packed [of a1 newkey "a2 @ inspos # b"] by (simp add: a)
    have z: "pack_keys a2 = [] \<longleftrightarrow> a2 = []" by (cases a2) (simp_all add: keylen_bytes_def)
    show ?thesis
    proof (cases "a2 = []")
      case True
      with a n show ?thesis unfolding p insert_order_def by (simp add: keylen_size_def)
    next
      case False
      then have "pack_keys a2 \<noteq> []" using z by simp
      moreover have "length (pack_keys a) - (keylen_size + length newkey) = length (pack_keys (a1 @ a2))"
        by (simp add: a keylen_size_def)
      ultimately show ?thesis
        using ins [of "a1 @ a2" "inspos # b"] e a n False
        unfolding p insert_order_def by (simp add: keylen_size_def)
    qed
  next
    case 3
    then obtain b1 b2 where b: "b = b1 @ newkey # b2" "newkey \<notin> set b1" by (meson split_list_first)
    with d assms(2) have n: "newkey \<notin> set b2" "newkey \<notin> set a" by auto
    have p: "pos_or_end newkey ?ks ?ks = length (pack_keys (a @ inspos # b1))"
      using b n assms(2) by (auto simp: pos_or_end_def key_pos_def takeWhile_append)
    have e: "order_erase (length (pack_keys (a @ inspos # b1))) (keylen_size + length newkey) (pack_keys ?ks) =
        pack_keys (a @ inspos # b1 @ b2)"
      using order_erase_packed [of "a @ inspos # b1" newkey b2] by (simp add: b)
    show ?thesis
      using ins [of a "inspos # b1 @ b2"] e b n
      unfolding p insert_order_def by (simp add: keylen_size_def)
  qed
qed

lemma insert_before_map:
  assumes "ks = a @ inspos # b" and "inspos \<notin> set a"
  shows "insert_before inspos (newkey, v) (map (\<lambda>k. (k, f k)) ks) =
    map (\<lambda>k. (k, f k)) a @ (newkey, v) # map (\<lambda>k. (k, f k)) (inspos # b)"
proof -
  have "takeWhile (\<lambda>k. k \<noteq> inspos) ks = a" "dropWhile (\<lambda>k. k \<noteq> inspos) ks = inspos # b"
    using assms by (auto simp: takeWhile_append dropWhile_append)
  then show ?thesis by (simp add: insert_before_def takeWhile_map dropWhile_map comp_def)
qed

lemma object_insert_ok:
  assumes "object_ok obj" and "newkey \<noteq> []" and "length newkey < 2 ^ 32"
    and "inspos \<in> fst ` set (object_members obj)" and "newkey \<noteq> inspos"
  shows "\<exists>obj'. object_insert d inspos newkey v obj = Inr (True, obj') \<and> object_ok obj' \<and>
    object_members obj' = insert_before inspos (newkey, v) (filter (\<lambda>m. fst m \<noteq> newkey) (object_members obj))"
proof -
  obtain ks where r: "represents obj ks" using assms(1) by (auto simp: object_ok_def)
  then have i: "keys_ok ks" "distinct ks" "key_order obj = pack_keys ks" by (simp_all add: represents_def keys_ok_def)
  have ins: "inspos \<in> set ks" using assms(4) by (simp add: represents_members [OF r] image_image)
  from key_split [OF ins i(2)] obtain a b where
    s: "ks = a @ inspos # b" "inspos \<notin> set a" "inspos \<notin> set b" "key_pos inspos ks = length (pack_keys a)" .
  let ?ks = "removeAll newkey a @ newkey # inspos # removeAll newkey b"
  have rem: "removeAll newkey ks = removeAll newkey a @ inspos # removeAll newkey b" using s(1) assms(5) by simp
  have k: "keys_ok ?ks"
    using keys_ok_removeAll [OF i(1), of newkey] assms(2,3,5) unfolding rem by (auto simp: keys_ok_def)
  have set: "set ?ks = insert newkey (set ks)" using s(1) by auto
  have fb: "find_both newkey inspos (pack_keys ks) 0 (length (pack_keys ks), length (pack_keys ks)) =
      (pos_or_end newkey ks ks, length (pack_keys a))"
    using find_both_pack [OF i(1) assms(5)] ins s(4) by (simp add: pos_or_end_def)
  have lt: "length (pack_keys a) < length (pack_keys ks)" using key_pos_less [OF i(1) ins] s(4) by simp
  from represents_put [OF r k set, of d v] obtain m where
    m: "nemap_put d newkey v (objmap obj) = Inr m" "represents (obj\<lparr>objmap := m, key_order := pack_keys ?ks\<rparr>) ?ks"
      "object_members (obj\<lparr>objmap := m, key_order := pack_keys ?ks\<rparr>) =
        map (\<lambda>k. (k, ((\<lambda>k. the (nemap_map (objmap obj) k))(newkey := v)) k)) ?ks"
    by blast
  have o: "insert_order newkey (keylen_size + length newkey) (pos_or_end newkey ks ks) (length (pack_keys a))
      (pack_keys ks) = pack_keys ?ks"
    using insert_order_packed [OF _ assms(5), of a b] i(1) unfolding s(1) by blast
  have "object_insert d inspos newkey v obj = Inr (True, obj\<lparr>objmap := m, key_order := pack_keys ?ks\<rparr>)"
    unfolding object_insert_def i(3) Let_def fb prod.case o m(1) bindE_simps if_not_P [OF assms(5)]
    using lt by simp
  moreover have "object_members (obj\<lparr>objmap := m, key_order := pack_keys ?ks\<rparr>) =
      insert_before inspos (newkey, v) (filter (\<lambda>m. fst m \<noteq> newkey) (object_members obj))"
  proof -
    have "inspos \<notin> set (removeAll newkey a)" using s(2) by simp
    note eq = insert_before_map [OF rem this]
    show ?thesis
      unfolding m(3) represents_members [OF r] filter_members eq using assms(5) by simp
  qed
  ultimately show ?thesis using represents_ok [OF m(2)] by blast
qed

lemma object_insert_nowhere:
  assumes "object_ok obj" and "inspos \<notin> fst ` set (object_members obj) \<or> newkey = inspos"
  shows "object_insert d inspos newkey v obj = Inr (False, obj)"
proof (cases "newkey = inspos")
  case True
  then show ?thesis by (simp add: object_insert_def)
next
  case False
  obtain ks where r: "represents obj ks" using assms(1) by (auto simp: object_ok_def)
  then have i: "keys_ok ks" "key_order obj = pack_keys ks" by (simp_all add: represents_def)
  have "inspos \<notin> set ks" using False assms(2) by (simp add: represents_members [OF r] image_image)
  with find_both_pack [OF i(1) False] False show ?thesis
    by (simp add: object_insert_def i(2) pos_or_end_def)
qed

text \<open>Both ways to look: the map and the list of members.\<close>

lemma object_find_members:
  assumes "object_ok obj"
  shows "object_find key obj = map_of (object_members obj) key"
proof -
  obtain ks where r: "represents obj ks" using assms by (auto simp: object_ok_def)
  have "map_of (map (\<lambda>k. (k, the (nemap_map (objmap obj) k))) ks) key =
      (if key \<in> set ks then Some (the (nemap_map (objmap obj) key)) else None)"
    by (induction ks) auto
  with r show ?thesis
    unfolding represents_members [OF r] by (auto simp: object_find_def represents_def nemap_find_map)
qed

lemma object_size_members:
  assumes "object_ok obj"
  shows "object_size obj = length (object_members obj)"
proof -
  obtain ks where r: "represents obj ks" using assms by (auto simp: object_ok_def)
  then have i: "nemap_inv (objmap obj)" "set ks = dom (nemap_map (objmap obj))" "distinct ks"
    by (simp_all add: represents_def keys_ok_def)
  show ?thesis
    using nemap_count [OF i(1)] distinct_card [OF i(3)] unfolding i(2) [symmetric]
    by (simp add: object_size_def represents_members [OF r])
qed

end
