(* ===== verification/Nestring.thy ===== *)
theory Nestring
  imports Steam_Prelude
begin

text \<open>
  The string of the JSON library: \<open>nestring<char>\<close> of include/steamclient/external/ctljson.hpp. Up to
  16 characters stand in the object, more on the heap. The block that is in use is a list of
  characters, and \<open>capacity_p1\<close> tells which one it is; \<open>junk\<close> stands for what uninitialised memory
  holds. The allocator gives what it is asked for; arguments do not point into the string itself.
\<close>

record nestring =
  block :: string
  ns_size :: nat
  capacity_p1 :: nat

definition localbuf_size :: nat where "localbuf_size = 16"

definition lbsize_p1 :: nat where "lbsize_p1 = localbuf_size + 1"

definition ns_maxsize :: nat where "ns_maxsize = (2 ^ 64 - 1) div 2"

definition is_localbuf :: "nestring \<Rightarrow> bool" where
  "is_localbuf s \<longleftrightarrow> capacity_p1 s \<le> lbsize_p1"

definition nestring_new :: "char \<Rightarrow> nestring" where
  "nestring_new junk = \<lparr>block = replicate localbuf_size junk, ns_size = 0, capacity_p1 = lbsize_p1\<rparr>"

text \<open>\<open>memcpy\<close> out of a block is undefined behind its end.\<close>

definition copy_out :: "string \<Rightarrow> nat \<Rightarrow> error + string" where
  "copy_out b n = (if n \<le> length b then Inr (take n b) else Inl (Undefined OutOfBounds))"

definition overwrite :: "nat \<Rightarrow> string \<Rightarrow> string \<Rightarrow> error + string" where
  "overwrite pos data b =
     (if pos + length data \<le> length b then Inr (take pos b @ data @ drop (pos + length data) b)
      else Inl (Undefined OutOfBounds))"

definition grown :: "nat \<Rightarrow> nestring \<Rightarrow> nat" where
  "grown newsize s =
     (let capa2 = capacity_p1 s * 2 in
      if newsize < capa2 then (if capa2 > ns_maxsize then ns_maxsize else capa2) else newsize)"

definition reserve :: "char \<Rightarrow> nat \<Rightarrow> nestring \<Rightarrow> error + nestring" where
  "reserve junk newsize s =
     (if newsize > ns_maxsize then Inl (Exn BadAlloc)
      else
        (let newsize = grown newsize s in
         bindE (if is_localbuf s then copy_out (block s) (ns_size s) else Inr (take newsize (block s))) (\<lambda>old.
           Inr (s\<lparr>block := old @ replicate (newsize - length old) junk, capacity_p1 := newsize + 1\<rparr>))))"

definition heap_to_local :: "char \<Rightarrow> nat \<Rightarrow> nestring \<Rightarrow> nestring" where
  "heap_to_local junk n s =
     s\<lparr>block := take n (block s) @ replicate (localbuf_size - n) junk, capacity_p1 := lbsize_p1\<rparr>"

definition ns_resize :: "char \<Rightarrow> nat \<Rightarrow> nestring \<Rightarrow> error + nestring" where
  "ns_resize junk newsize s =
     bindE (if newsize \<ge> capacity_p1 s then reserve junk newsize s
            else if \<not> is_localbuf s \<and> newsize \<le> localbuf_size then Inr (heap_to_local junk newsize s)
            else Inr s) (\<lambda>s. Inr (s\<lparr>ns_size := newsize\<rparr>))"

definition ns_clear :: "nestring \<Rightarrow> nestring" where
  "ns_clear s = s\<lparr>ns_size := 0\<rparr>"

definition ns_write :: "nat \<Rightarrow> string \<Rightarrow> nestring \<Rightarrow> error + nestring" where
  "ns_write pos data s = bindE (overwrite pos data (block s)) (\<lambda>b. Inr (s\<lparr>block := b\<rparr>))"

text \<open>The size is counted up before the block is asked to grow.\<close>

definition ns_push_back :: "char \<Rightarrow> char \<Rightarrow> nestring \<Rightarrow> error + nestring" where
  "ns_push_back junk c s =
     (let oldsize = ns_size s; s = s\<lparr>ns_size := oldsize + 1\<rparr> in
      bindE (if ns_size s \<ge> capacity_p1 s then reserve junk (ns_size s) s else Inr s) (ns_write oldsize [c]))"

definition ns_append :: "char \<Rightarrow> string \<Rightarrow> nestring \<Rightarrow> error + nestring" where
  "ns_append junk data s =
     bindE (ns_resize junk (ns_size s + length data) s) (ns_write (ns_size s) data)"

definition ns_assign :: "char \<Rightarrow> string \<Rightarrow> nestring \<Rightarrow> error + nestring" where
  "ns_assign junk data s = bindE (ns_resize junk (length data) s) (ns_write 0 data)"

definition ns_fill :: "char \<Rightarrow> nat \<Rightarrow> char \<Rightarrow> nestring \<Rightarrow> error + nestring" where
  "ns_fill junk newsize c s =
     bindE (ns_resize junk newsize s) (\<lambda>s'.
       if ns_size s < newsize then ns_write (ns_size s) (replicate (newsize - ns_size s) c) s' else Inr s')"

definition ns_erase :: "char \<Rightarrow> nat \<Rightarrow> nat \<Rightarrow> nestring \<Rightarrow> nestring" where
  "ns_erase junk pos len s =
     (if \<not> pos < ns_size s then s
      else
        (let rmndr = ns_size s - pos;
             s = (if rmndr > len
                  then (let rest = take (rmndr - len) (drop (pos + len) (block s)) in
                        s\<lparr>block := take pos (block s) @ rest @ drop (pos + length rest) (block s),
                          ns_size := ns_size s - len\<rparr>)
                  else s\<lparr>ns_size := pos\<rparr>)
         in if \<not> is_localbuf s \<and> ns_size s \<le> localbuf_size then heap_to_local junk (ns_size s) s else s))"

definition move_forwards :: "char \<Rightarrow> nat \<Rightarrow> nat \<Rightarrow> nestring \<Rightarrow> error + nestring" where
  "move_forwards junk pos count s =
     (let oldsize = ns_size s in
      bindE (ns_resize junk (oldsize + count) s) (\<lambda>s.
        if pos < oldsize then ns_write (pos + count) (take (oldsize - pos) (drop pos (block s))) s else Inr s))"

definition ns_insert :: "char \<Rightarrow> nat \<Rightarrow> string \<Rightarrow> nestring \<Rightarrow> error + nestring" where
  "ns_insert junk pos data s = bindE (move_forwards junk pos (length data) s) (ns_write pos data)"

definition ns_data :: "nestring \<Rightarrow> string" where
  "ns_data s = take (ns_size s) (block s)"

section \<open>A string is the list of its characters\<close>

definition nestring_ok :: "nestring \<Rightarrow> bool" where
  "nestring_ok s \<longleftrightarrow> lbsize_p1 \<le> capacity_p1 s \<and> length (block s) + 1 = capacity_p1 s \<and>
     ns_size s \<le> length (block s) \<and> length (block s) \<le> ns_maxsize"

lemmas ns_sizes = localbuf_size_def lbsize_p1_def ns_maxsize_def

lemma nestring_new_ok: "nestring_ok (nestring_new junk)" "ns_data (nestring_new junk) = []"
  by (simp_all add: nestring_ok_def nestring_new_def ns_data_def ns_sizes)

lemma local_block: "nestring_ok s \<Longrightarrow> is_localbuf s \<longleftrightarrow> length (block s) = localbuf_size"
  by (auto simp: nestring_ok_def is_localbuf_def ns_sizes)

text \<open>Growing keeps what was there.\<close>

lemma ns_resize_ok:
  assumes "nestring_ok s" and "newsize \<le> ns_maxsize"
  shows "\<exists>s'. ns_resize junk newsize s = Inr s' \<and> nestring_ok s' \<and> ns_size s' = newsize \<and>
    take (min newsize (ns_size s)) (block s') = take (min newsize (ns_size s)) (block s)"
proof -
  consider "newsize \<ge> capacity_p1 s" | "newsize < capacity_p1 s" "\<not> is_localbuf s" "newsize \<le> localbuf_size"
    | "newsize < capacity_p1 s" "is_localbuf s \<or> newsize > localbuf_size" by linarith
  then show ?thesis
  proof cases
    case 1
    have g: "newsize \<le> grown newsize s" "grown newsize s \<le> ns_maxsize" "length (block s) \<le> grown newsize s"
      using assms 1 by (auto simp: grown_def Let_def nestring_ok_def)
    with assms 1 show ?thesis
      by (auto simp: ns_resize_def reserve_def copy_out_def nestring_ok_def Let_def min_def)
  next
    case 2
    with assms show ?thesis
      by (auto simp: ns_resize_def heap_to_local_def nestring_ok_def is_localbuf_def ns_sizes min_def)
  next
    case 3
    with assms show ?thesis
      by (auto simp: ns_resize_def nestring_ok_def is_localbuf_def)
  qed
qed

lemma ns_write_ok:
  assumes "nestring_ok s" and "pos + length data \<le> ns_size s"
  shows "\<exists>s'. ns_write pos data s = Inr s' \<and> nestring_ok s' \<and> ns_size s' = ns_size s \<and>
    block s' = take pos (block s) @ data @ drop (pos + length data) (block s)"
  using assms by (auto simp: ns_write_def overwrite_def nestring_ok_def)

lemma ns_append_ok:
  assumes "nestring_ok s" and "ns_size s + length data \<le> ns_maxsize"
  shows "\<exists>s'. ns_append junk data s = Inr s' \<and> nestring_ok s' \<and> ns_data s' = ns_data s @ data"
proof -
  from ns_resize_ok [OF assms, of junk] obtain s1 where
    1: "ns_resize junk (ns_size s + length data) s = Inr s1" "nestring_ok s1" "ns_size s1 = ns_size s + length data"
      "take (ns_size s) (block s1) = take (ns_size s) (block s)" by auto
  from ns_write_ok [OF 1(2), of "ns_size s" data] 1(3) obtain s2 where
    2: "ns_write (ns_size s) data s1 = Inr s2" "nestring_ok s2" "ns_size s2 = ns_size s1"
      "block s2 = take (ns_size s) (block s1) @ data @ drop (ns_size s + length data) (block s1)" by auto
  have "length (take (ns_size s) (block s)) = ns_size s" using assms(1) by (simp add: nestring_ok_def)
  with 1 2 show ?thesis by (simp add: ns_append_def ns_data_def)
qed

lemma ns_assign_ok:
  assumes "nestring_ok s" and "length data \<le> ns_maxsize"
  shows "\<exists>s'. ns_assign junk data s = Inr s' \<and> nestring_ok s' \<and> ns_data s' = data"
proof -
  from ns_resize_ok [OF assms, of junk] obtain s1 where
    1: "ns_resize junk (length data) s = Inr s1" "nestring_ok s1" "ns_size s1 = length data" by auto
  from ns_write_ok [OF 1(2), of 0 data] 1(3) obtain s2 where
    "ns_write 0 data s1 = Inr s2" "nestring_ok s2" "ns_size s2 = ns_size s1" "block s2 = data @ drop (length data) (block s1)"
    by auto
  with 1 show ?thesis by (simp add: ns_assign_def ns_data_def)
qed

lemma ns_fill_ok:
  assumes "nestring_ok s" and "newsize \<le> ns_maxsize"
  shows "\<exists>s'. ns_fill junk newsize c s = Inr s' \<and> nestring_ok s' \<and>
    ns_data s' = take newsize (ns_data s) @ replicate (newsize - ns_size s) c"
proof -
  from ns_resize_ok [OF assms, of junk] obtain s1 where
    1: "ns_resize junk newsize s = Inr s1" "nestring_ok s1" "ns_size s1 = newsize"
      "take (min newsize (ns_size s)) (block s1) = take (min newsize (ns_size s)) (block s)" by auto
  show ?thesis
  proof (cases "ns_size s < newsize")
    case False
    with 1 show ?thesis by (auto simp: ns_fill_def ns_data_def min_def)
  next
    case True
    let ?r = "replicate (newsize - ns_size s) c"
    from ns_write_ok [OF 1(2), of "ns_size s" ?r] 1(3) True obtain s2 where
      2: "ns_write (ns_size s) ?r s1 = Inr s2" "nestring_ok s2" "ns_size s2 = ns_size s1"
        "block s2 = take (ns_size s) (block s1) @ ?r @ drop newsize (block s1)" by auto
    have "length (take (ns_size s) (block s)) = ns_size s" using assms(1) by (simp add: nestring_ok_def)
    with 1 2 True show ?thesis by (simp add: ns_fill_def ns_data_def min_def)
  qed
qed

lemma heap_to_local_ok:
  assumes "nestring_ok s" and "ns_size s \<le> localbuf_size"
  shows "nestring_ok (heap_to_local junk (ns_size s) s)" and "ns_data (heap_to_local junk (ns_size s) s) = ns_data s"
  using assms by (auto simp: heap_to_local_def nestring_ok_def ns_data_def ns_sizes)

lemma ns_erase_ok:
  assumes "nestring_ok s"
  shows "nestring_ok (ns_erase junk pos len s) \<and>
    ns_data (ns_erase junk pos len s) = take pos (ns_data s) @ drop (pos + len) (ns_data s)"
proof (cases "pos < ns_size s")
  case False
  with assms show ?thesis by (simp add: ns_erase_def ns_data_def)
next
  case True
  define rmndr where "rmndr = ns_size s - pos"
  define s1 where "s1 = (if rmndr > len
      then (let rest = take (rmndr - len) (drop (pos + len) (block s)) in
            s\<lparr>block := take pos (block s) @ rest @ drop (pos + length rest) (block s), ns_size := ns_size s - len\<rparr>)
      else s\<lparr>ns_size := pos\<rparr>)"
  have eq: "ns_erase junk pos len s =
      (if \<not> is_localbuf s1 \<and> ns_size s1 \<le> localbuf_size then heap_to_local junk (ns_size s1) s1 else s1)"
    using True by (simp add: ns_erase_def rmndr_def s1_def Let_def)
  have l: "ns_size s \<le> length (block s)" using assms by (simp add: nestring_ok_def)
  have ok: "nestring_ok s1" using assms True by (auto simp: s1_def rmndr_def nestring_ok_def Let_def)
  have "ns_data s1 = take pos (ns_data s) @ drop (pos + len) (ns_data s)"
  proof (cases "rmndr > len")
    case more: True
    let ?rest = "take (rmndr - len) (drop (pos + len) (block s))"
    have n: "length ?rest = ns_size s - len - pos" using more l by (simp add: rmndr_def)
    then have "take (ns_size s - len) (take pos (block s) @ ?rest @ drop (pos + length ?rest) (block s)) =
        take pos (block s) @ ?rest"
      using more l True by (simp add: rmndr_def)
    with more l True show ?thesis
      by (simp add: s1_def ns_data_def Let_def rmndr_def drop_take min_def diff_diff_left add.commute)
  next
    case False
    with True have "ns_size s \<le> pos + len" by (simp add: rmndr_def)
    with True False l show ?thesis by (simp add: s1_def ns_data_def min_def)
  qed
  with ok heap_to_local_ok [of s1] show ?thesis unfolding eq by simp
qed

lemma ns_insert_ok:
  assumes "nestring_ok s" and "pos \<le> ns_size s" and "ns_size s + length data \<le> ns_maxsize"
  shows "\<exists>s'. ns_insert junk pos data s = Inr s' \<and> nestring_ok s' \<and>
    ns_data s' = take pos (ns_data s) @ data @ drop pos (ns_data s)"
proof -
  let ?n = "ns_size s" and ?k = "length data"
  from ns_resize_ok [OF assms(1,3), of junk] obtain s1 where
    1: "ns_resize junk (?n + ?k) s = Inr s1" "nestring_ok s1" "ns_size s1 = ?n + ?k"
      "take ?n (block s1) = take ?n (block s)" by auto
  have l: "?n \<le> length (block s)" "?n + ?k \<le> length (block s1)" using assms(1) 1(2,3) by (simp_all add: nestring_ok_def)
  let ?tail = "take (?n - pos) (drop pos (block s1))"
  have "?tail = drop pos (take ?n (block s1))" by (simp add: drop_take)
  with l 1(4) have tail: "length ?tail = ?n - pos" "?tail = drop pos (ns_data s)"
    by (simp_all add: ns_data_def)
  obtain s2 where 2: "move_forwards junk pos ?k s = Inr s2" "nestring_ok s2" "ns_size s2 = ?n + ?k"
      "take pos (block s2) = take pos (ns_data s)" "take (?n - pos) (drop (pos + ?k) (block s2)) = drop pos (ns_data s)"
  proof (cases "pos < ?n")
    case True
    from ns_write_ok [OF 1(2), of "pos + ?k" ?tail] 1(3) tail(1) assms(2) obtain s2 where
      w: "ns_write (pos + ?k) ?tail s1 = Inr s2" "nestring_ok s2" "ns_size s2 = ns_size s1"
        "block s2 = take (pos + ?k) (block s1) @ ?tail @ drop (pos + ?k + length ?tail) (block s1)" by auto
    have "take pos (block s1) = take pos (ns_data s)"
      using 1(4) assms(2) by (simp add: ns_data_def) (metis min.absorb1 take_take)
    moreover have "length (take (pos + ?k) (block s1)) = pos + ?k" using l(2) assms(2) by simp
    ultimately show ?thesis
      using that [of s2] w 1(1,3) True tail by (simp add: move_forwards_def)
  next
    case False
    with assms(2) have "pos = ?n" by simp
    with that [of s1] 1 tail show ?thesis by (simp add: move_forwards_def ns_data_def)
  qed
  from ns_write_ok [OF 2(2), of pos data] 2(3) assms(2) obtain s3 where
    3: "ns_write pos data s2 = Inr s3" "nestring_ok s3" "ns_size s3 = ns_size s2"
      "block s3 = take pos (block s2) @ data @ drop (pos + ?k) (block s2)" by auto
  have p: "length (take pos (ns_data s)) = pos" using l(1) assms(2) by (simp add: ns_data_def)
  have "ns_data s3 = take pos (ns_data s) @ data @ take (?n - pos) (drop (pos + ?k) (block s2))"
    unfolding ns_data_def [of s3] 3(3,4) 2(3,4) using p assms(2) by simp
  with 1 2 3 show ?thesis by (simp add: ns_insert_def)
qed

text \<open>Appending one character: it fits where the local block is not full.\<close>

lemma ns_push_back_ok:
  assumes "nestring_ok s" and "ns_size s < ns_maxsize" and "\<not> (is_localbuf s \<and> ns_size s = localbuf_size)"
  shows "\<exists>s'. ns_push_back junk c s = Inr s' \<and> nestring_ok s' \<and> ns_data s' = ns_data s @ [c]"
proof -
  let ?s = "s\<lparr>ns_size := ns_size s + 1\<rparr>"
  show ?thesis
  proof (cases "ns_size s + 1 \<ge> capacity_p1 s")
    case True
    with assms(1) have full: "ns_size s = length (block s)" by (auto simp: nestring_ok_def)
    with assms have heap: "\<not> is_localbuf s" using local_block by auto
    have g: "ns_size s + 1 \<le> grown (ns_size s + 1) s" "grown (ns_size s + 1) s \<le> ns_maxsize"
      using assms(1,2) full by (auto simp: grown_def Let_def nestring_ok_def)
    have c: "capacity_p1 s = Suc (length (block s))" using assms(1) by (simp add: nestring_ok_def)
    with heap full assms True show ?thesis
      by (auto simp: ns_push_back_def reserve_def ns_write_def overwrite_def nestring_ok_def ns_data_def
          is_localbuf_def grown_def Let_def)
  next
    case False
    with assms show ?thesis
      by (auto simp: ns_push_back_def Let_def ns_write_def overwrite_def nestring_ok_def ns_data_def)
  qed
qed

lemma ns_push_back_full:
  assumes "nestring_ok s" and "is_localbuf s" and "ns_size s = localbuf_size"
  shows "ns_push_back junk c s = Inl (Undefined OutOfBounds)"
proof -
  have "length (block s) = localbuf_size" "capacity_p1 s = lbsize_p1"
    using assms local_block [OF assms(1)] by (auto simp: nestring_ok_def is_localbuf_def ns_sizes)
  with assms(3) show ?thesis
    by (simp add: ns_push_back_def reserve_def is_localbuf_def copy_out_def ns_sizes)
qed

end
