(* ===== verification/Container_Properties.thy ===== *)
theory Container_Properties
  imports Json_Object Nestring
begin

text \<open>
  The properties of the containers of the JSON library: the red-black map is a finite map and stays
  shallow, the stored object is the list of its members, and the string is the list of its
  characters, up to the append that fills its local block.
\<close>

section \<open>The depth of the map\<close>

lemma bheight_entries: "balanced t \<Longrightarrow> 2 ^ bheight t \<le> length (entries t) + 1"
proof (induction t)
  case (RNode c l k v r)
  then show ?case by (cases c) auto
qed simp

text \<open>A way down has at most as many red nodes as black ones, but for a red one at the top.\<close>

lemma descend_length:
  assumes "balanced t" and "col_ok t" and "descend key t path = (path', t')"
  shows "length path' \<le> length path + 2 * bheight t + (if colour_of t = rb_red then 1 else 0)"
  using assms
proof (induction key t path rule: descend.induct)
  case (1 key path)
  then show ?case by simp
next
  case (2 key c l k v r path)
  consider "key < k" | "k < key" | "\<not> key < k \<and> \<not> k < key" by blast
  then show ?case
  proof cases
    case 1
    with 2 have "length path' \<le> length path + 1 + 2 * bheight l + (if colour_of l = rb_red then 1 else 0)" by auto
    with 2(3,4) show ?thesis by (cases c) (auto split: if_splits)
  next
    case below: 2
    then have "\<not> key < k" by simp
    with below 2 have "length path' \<le> length path + 1 + 2 * bheight r + (if colour_of r = rb_red then 1 else 0)"
      by auto
    with 2(3,4) show ?thesis by (cases c) (auto split: if_splits)
  next
    case 3
    with 2(5) show ?thesis by (auto simp: Let_def)
  qed
qed

section \<open>The map\<close>

definition sample_map :: "nat nemap" where
  "sample_map =
     \<lparr>rb_root = RNode rb_black (RNode rb_black RNull ''a'' 1 RNull) ''b'' 2
                  (RNode rb_black RNull ''c'' 3 (RNode rb_red RNull ''d'' 4 RNull)),
       rb_leftmost = Some ''a'', rb_rightmost = Some ''d'', node_count = 4\<rparr>"

lemma sample_map_ok: "nemap_inv sample_map"
  by (simp add: nemap_inv_def sample_map_def sorted_entries_def less_char_def)

text \<open>
  C28. Storing under a key, by \<open>operator[]\<close> and an assignment, never reads a
  member of \<open>NULL\<close>, keeps the map sorted, coloured and balanced with its ends and its count, and is
  the update of the finite map it stands for. The count grows where the key is new.
\<close>

theorem nemap_insert_refines:
  assumes "nemap_inv m"
  shows "\<exists>m'. nemap_put d key v m = Inr m' \<and> nemap_inv m' \<and> nemap_map m' = (nemap_map m)(key \<mapsto> v) \<and>
    node_count m' = (if nemap_find key m = None then Suc (node_count m) else node_count m)"
  using nemap.put_contents [OF assms, of d key v] nemap.count_put [OF assms, of d key v] by auto

theorem nemap_insert_refines_witness:
  "\<exists>m'. nemap_put 0 ''e'' 5 sample_map = Inr m' \<and> nemap_inv m' \<and> nemap_map m' = (nemap_map sample_map)(''e'' \<mapsto> 5) \<and>
    node_count m' = (if nemap_find ''e'' sample_map = None then Suc (node_count sample_map) else node_count sample_map)"
  by (rule nemap_insert_refines [OF sample_map_ok])

text \<open>
  C29. Erasing a key, in whatever place of the tree its node stands, never reads a
  member of \<open>NULL\<close>, keeps the invariant of the map and takes the key out of the finite map it
  stands for. A key that is not there changes nothing.
\<close>

theorem nemap_erase_refines:
  assumes "nemap_inv m"
  shows "\<exists>m'. nemap_erase key m = Inr m' \<and> nemap_inv m' \<and> nemap_map m' = (nemap_map m)(key := None) \<and>
    (if nemap_find key m = None then m' = m else node_count m = Suc (node_count m'))"
proof -
  obtain m' where m': "nemap_erase key m = Inr m'" "nemap_inv m'" "nemap_map m' = (nemap_map m)(key := None)"
    using nemap.del_contents [OF assms, of key] by blast
  have "m' = m" if none: "nemap_find key m = None"
  proof -
    obtain path t where d: "descend key (rb_root m) [] = (path, t)" by fastforce
    with none have "t = RNull" by (cases t) (simp_all add: nemap_find_def)
    with d m'(1) show ?thesis by (simp add: nemap_erase_def erase_at_def)
  qed
  moreover have "node_count m = Suc (node_count m')" if "nemap_find key m \<noteq> None"
  proof -
    have "key \<in> dom (nemap_map m)" using that by (simp add: nemap.look_contents [OF assms] domIff)
    moreover have "dom (nemap_map m') = dom (nemap_map m) - {key}" using m'(3) by simp
    ultimately have "card (dom (nemap_map m)) = Suc (card (dom (nemap_map m')))"
      using card.remove [of "dom (nemap_map m)" key] nemap.count_contents [OF assms] by metis
    then show ?thesis using nemap.count_contents [OF assms] nemap.count_contents [OF m'(2)] by metis
  qed
  ultimately show ?thesis using m' by simp
qed

theorem nemap_erase_refines_witness:
  "\<exists>m'. nemap_erase ''a'' sample_map = Inr m' \<and> nemap_inv m' \<and> nemap_map m' = (nemap_map sample_map)(''a'' := None) \<and>
    (if nemap_find ''a'' sample_map = None then m' = sample_map else node_count sample_map = Suc (node_count m'))"
  by (rule nemap_erase_refines [OF sample_map_ok])

text \<open>
  A lookup gives what the finite map holds, and goes down at most twice the
  logarithm of the number of members, plus one step.
\<close>

theorem nemap_lookup_depth:
  assumes "nemap_inv m" and "descend key (rb_root m) [] = (path, t)"
  shows "nemap_find key m = nemap_map m key \<and> 2 ^ (length path div 2) \<le> node_count m + 1"
proof -
  from assms(1) have i: "balanced (rb_root m)" "col_ok (rb_root m)" "colour_of (rb_root m) = rb_black"
      "node_count m = length (entries (rb_root m))"
    by (simp_all add: nemap_inv_def Let_def)
  have "length path div 2 \<le> bheight (rb_root m)" using descend_length [OF i(1,2) assms(2)] i(3) by simp
  then have "(2::nat) ^ (length path div 2) \<le> 2 ^ bheight (rb_root m)" by simp
  also have "\<dots> \<le> node_count m + 1" using bheight_entries [OF i(1)] i(4) by simp
  finally show ?thesis by (simp add: nemap.look_contents [OF assms(1)])
qed

theorem nemap_lookup_depth_witness:
  "nemap_find ''d'' sample_map = nemap_map sample_map ''d'' \<and>
    2 ^ (length (fst (descend ''d'' (rb_root sample_map) [])) div 2) \<le> node_count sample_map + 1"
  by (rule nemap_lookup_depth [OF sample_map_ok, of _ _ "snd (descend ''d'' (rb_root sample_map) [])"]) simp

section \<open>The object\<close>

text \<open>
  C30. A stored object implements the list of its members: an assignment is
  \<open>json_put\<close>, which keeps the place of a key; an erased key leaves both the map and the order; an
  appended member moves to the end; an inserted one stands before the named one, if that is another
  member, and else nothing changes. All of them keep map and order in agreement. Keys are not empty.
\<close>

theorem object_refines_members:
  assumes "object_ok obj" and "key \<noteq> []" and "length key < 2 ^ 32"
  shows "(\<exists>obj'. object_put d key v obj = Inr obj' \<and> object_ok obj' \<and>
      object_members obj' = json_put key v (object_members obj)) \<and>
    (\<exists>obj'. object_erase key obj = Inr (object_find key obj \<noteq> None, obj') \<and> object_ok obj' \<and>
      object_members obj' = filter (\<lambda>m. fst m \<noteq> key) (object_members obj)) \<and>
    (\<exists>obj'. object_push_back d key v obj = Inr (True, obj') \<and> object_ok obj' \<and>
      object_members obj' = filter (\<lambda>m. fst m \<noteq> key) (object_members obj) @ [(key, v)]) \<and>
    (\<exists>done obj'. object_insert d inspos key v obj = Inr (done, obj') \<and> object_ok obj' \<and>
      (if object_find inspos obj = None \<or> key = inspos then \<not> done \<and> obj' = obj
       else done \<and> object_members obj' =
         insert_before inspos (key, v) (filter (\<lambda>m. fst m \<noteq> key) (object_members obj))))"
proof -
  have present: "object_find k obj \<noteq> None \<longleftrightarrow> k \<in> fst ` set (object_members obj)" for k
    by (simp add: object_find_members [OF assms(1)] map_of_eq_None_iff)
  have "\<exists>done obj'. object_insert d inspos key v obj = Inr (done, obj') \<and> object_ok obj' \<and>
      (if object_find inspos obj = None \<or> key = inspos then \<not> done \<and> obj' = obj
       else done \<and> object_members obj' =
         insert_before inspos (key, v) (filter (\<lambda>m. fst m \<noteq> key) (object_members obj)))"
  proof (cases "object_find inspos obj = None \<or> key = inspos")
    case True
    then have "object_insert d inspos key v obj = Inr (False, obj)"
      using object_insert_nowhere [OF assms(1), of inspos key d v] present [of inspos] by blast
    with True assms(1) show ?thesis by (intro exI [of _ False] exI [of _ obj]) simp
  next
    case False
    with present [of inspos] have "inspos \<in> fst ` set (object_members obj)" "key \<noteq> inspos" by simp_all
    from object_insert_ok [OF assms this, of d v] obtain obj' where
      "object_insert d inspos key v obj = Inr (True, obj')" "object_ok obj'"
      "object_members obj' = insert_before inspos (key, v) (filter (\<lambda>m. fst m \<noteq> key) (object_members obj))"
      by blast
    then show ?thesis unfolding if_not_P [OF False] by blast
  qed
  with object_put_ok [OF assms, of d v] object_erase_ok [OF assms(1), of key]
    object_push_back_ok [OF assms, of d v] present [of key] show ?thesis
    by simp
qed

definition sample_object :: "nat object_type" where
  "sample_object = \<lparr>objmap = sample_map, key_order = pack_keys [''c'', ''a'', ''d'', ''b'']\<rparr>"

lemma sample_object_ok: "object_ok sample_object"
proof (rule represents_ok)
  show "represents sample_object [''c'', ''a'', ''d'', ''b'']"
    using sample_map_ok
    by (auto simp: represents_def sample_object_def keys_ok_def nemap_map_def sample_map_def)
qed

theorem object_refines_members_witness:
  "\<exists>obj'. object_push_back 0 ''a'' 7 sample_object = Inr (True, obj') \<and> object_ok obj' \<and>
     object_members obj' = filter (\<lambda>m. fst m \<noteq> ''a'') (object_members sample_object) @ [(''a'', 7)]"
  using object_refines_members [OF sample_object_ok, of "''a''" 0 7] by simp

section \<open>The string\<close>

definition sample_text :: nestring where
  "sample_text = \<lparr>block = ''abcdefghijklmnop'', ns_size = 16, capacity_p1 = 17\<rparr>"

lemma sample_text_ok: "nestring_ok sample_text"
  by (simp add: nestring_ok_def sample_text_def ns_sizes)

text \<open>
  C31. A string is the list of its characters: the operations that resize it
  first are those of the list, whether it stands in its local block or on the heap, and when it moves
  from one to the other, and no copy leaves a block. Appending one character does the same, except
  where the local block is full: the size is counted up before the string moves to the heap, so that
  the move copies a 17th character out of a block of 16.
\<close>

theorem nestring_refines_list:
  assumes "nestring_ok s" and "ns_size s + length data < ns_maxsize" and "pos \<le> ns_size s"
  shows "(\<exists>s'. ns_assign junk data s = Inr s' \<and> nestring_ok s' \<and> ns_data s' = data) \<and>
    (\<exists>s'. ns_append junk data s = Inr s' \<and> nestring_ok s' \<and> ns_data s' = ns_data s @ data) \<and>
    (\<exists>s'. ns_insert junk pos data s = Inr s' \<and> nestring_ok s' \<and>
      ns_data s' = take pos (ns_data s) @ data @ drop pos (ns_data s)) \<and>
    nestring_ok (ns_erase junk pos len s) \<and>
    ns_data (ns_erase junk pos len s) = take pos (ns_data s) @ drop (pos + len) (ns_data s) \<and>
    (if is_localbuf s \<and> ns_size s = localbuf_size then ns_push_back junk c s = Inl (Undefined OutOfBounds)
     else \<exists>s'. ns_push_back junk c s = Inr s' \<and> nestring_ok s' \<and> ns_data s' = ns_data s @ [c])"
  using ns_assign_ok [OF assms(1), of data junk] ns_append_ok [OF assms(1), of data junk]
    ns_insert_ok [OF assms(1,3), of data junk] ns_erase_ok [OF assms(1), of junk pos len]
    ns_push_back_ok [OF assms(1), of junk c] ns_push_back_full [OF assms(1), of junk c] assms(2)
  by simp

theorem nestring_refines_list_witness:
  "(\<exists>s'. ns_insert CHR ''?'' 1 ''xyz'' sample_text = Inr s' \<and> nestring_ok s' \<and>
      ns_data s' = take 1 (ns_data sample_text) @ ''xyz'' @ drop 1 (ns_data sample_text)) \<and>
   ns_push_back CHR ''?'' CHR ''q'' sample_text = Inl (Undefined OutOfBounds)"
proof -
  have s: "ns_size sample_text = 16" "is_localbuf sample_text \<and> ns_size sample_text = localbuf_size"
    by (simp_all add: sample_text_def is_localbuf_def ns_sizes)
  have "ns_size sample_text + length ''xyz'' < ns_maxsize" "1 \<le> ns_size sample_text"
    by (simp_all add: s ns_maxsize_def)
  note t = nestring_refines_list [OF sample_text_ok this, of "CHR ''?''" 0 "CHR ''q''"]
  show ?thesis using t unfolding if_P [OF s(2)] by blast
qed

end
