(* ===== verification/Number_Text.thy ===== *)
theory Number_Text
  imports Runtime_Err Complex_Main
begin

text \<open>
  How the JSON library prints numbers: \<open>string_internal_\<close>, \<open>to_string\<close> and \<open>to_string_fp\<close> of
  include/steamclient/external/ctljson.hpp. A number under work is a list of digits with the lowest
  one first; the digits are below a radix of at most 36, so that a \<open>char\<close> holds twice a digit and a
  carry. A \<open>double\<close> is its 64 bits, and what the loops do with it is exact: they double and halve
  powers of two, and subtract such a power from a value that is less than twice as large. So the
  values are rational numbers; halving the least positive \<open>double\<close> gives zero. Texts are lists of
  characters, whatever string type they are built in; an \<open>int\<close> is an integer, so a precision close to
  the limits of \<open>int\<close>, whose sum with the place of the point overflows, is not what is meant.
\<close>

section \<open>Digits\<close>

definition casetable :: "bool \<Rightarrow> string" where
  "casetable uc = (if uc then ''0123456789ABCDEFGHIJKLMNOPQRSTUVWXYZ.+-INF-QNAN-SNAN''
                   else ''0123456789abcdefghijklmnopqrstuvwxyz.+-inf-qnan-snan'')"

fun mul2_loop :: "nat \<Rightarrow> nat \<Rightarrow> nat list \<Rightarrow> nat list \<times> nat" where
  "mul2_loop radix carried [] = ([], carried)"
| "mul2_loop radix carried (d # s) =
     (let ch = d * 2 + carried;
          (ch, carried) = (if ch \<ge> radix then (ch - radix, 1) else (ch, 0));
          (s, carried) = mul2_loop radix carried s
      in (ch # s, carried))"

definition push_carry :: "nat list \<times> nat \<Rightarrow> nat list \<times> nat" where
  "push_carry r = (case r of (s, carried) \<Rightarrow> if carried \<noteq> 0 then (s @ [carried], 1) else (s, 0))"

definition mul2 :: "nat \<Rightarrow> nat list \<Rightarrow> nat list \<times> nat" where
  "mul2 radix s = push_carry (mul2_loop radix 0 s)"

text \<open>From the highest digit down; the result is the remainder that is left.\<close>

fun div2_loop :: "nat \<Rightarrow> nat list \<Rightarrow> nat list \<times> nat" where
  "div2_loop radix [] = ([], 0)"
| "div2_loop radix (d # s) =
     (let (s, borrowed) = div2_loop radix s;
          ch = d + (if borrowed \<noteq> 0 then radix else 0)
      in (ch div 2 # s, ch mod 2))"

text \<open>The two bits of the result: a digit was put below, and the highest digit was dropped.\<close>

definition div2 :: "nat \<Rightarrow> nat list \<Rightarrow> nat list \<times> bool \<times> bool" where
  "div2 radix s =
     (let (s, borrowed) = div2_loop radix s;
          s = (if borrowed \<noteq> 0 then radix div 2 # s else s)
      in if s \<noteq> [] \<and> last s = 0 then (butlast s, borrowed \<noteq> 0, True) else (s, borrowed \<noteq> 0, False))"

fun plus_loop :: "nat \<Rightarrow> nat \<Rightarrow> nat list \<Rightarrow> nat list \<Rightarrow> nat list \<times> nat" where
  "plus_loop radix carried [] s2 = ([], carried)"
| "plus_loop radix carried (d # s1) s2 =
     (let ch = d + ((case s2 of [] \<Rightarrow> 0 | e # _ \<Rightarrow> e) + carried);
          (ch, carried) = (if ch \<ge> radix then (ch - radix, 1) else (ch, 0));
          (s, carried) = plus_loop radix carried s1 (drop 1 s2)
      in (ch # s, carried))"

definition digits_plus :: "nat \<Rightarrow> nat list \<Rightarrow> nat list \<Rightarrow> nat list \<times> nat" where
  "digits_plus radix s1 s2 =
     (let s1 = (if length s1 < length s2 then s1 @ replicate (length s2 - length s1) 0 else s1)
      in push_carry (plus_loop radix 0 s1 s2))"

fun round_loop :: "nat \<Rightarrow> nat \<Rightarrow> nat list \<Rightarrow> nat list \<times> nat" where
  "round_loop radix carried [] = ([], carried)"
| "round_loop radix carried (d # s) =
     (if carried = 0 then (d # s, 0)
      else
        (let ch = d + carried;
             (ch, carried) = (if ch \<ge> radix then (ch - radix, 1) else (ch, 0));
             (s, carried) = round_loop radix carried s
         in (ch # s, carried)))"

text \<open>\<open>pos\<close> counts from the highest digit to the one that decides.\<close>

definition digits_round :: "nat \<Rightarrow> nat list \<Rightarrow> nat \<Rightarrow> error + nat list \<times> nat" where
  "digits_round pos s radix =
     (if pos \<le> length s
      then if pos = 0 then Inl (Undefined OutOfBounds)
           else
             (let pos = length s - pos;
                  carried = (if s ! pos \<ge> radix div 2 then 1 else 0)
              in Inr (push_carry (round_loop radix carried (drop (pos + 1) s))))
      else Inr (s, 0))"

section \<open>Integers\<close>

fun digit_list :: "nat \<Rightarrow> nat \<Rightarrow> nat list" where
  "digit_list base value = (if value = 0 \<or> base < 2 then [] else value mod base # digit_list base (value div base))"

declare digit_list.simps [simp del]

text \<open>
  \<open>to_string\<close> of a signed type of \<open>w\<close> bits. Its least value has no negative.
\<close>

definition to_string :: "nat \<Rightarrow> int \<Rightarrow> int \<Rightarrow> int \<Rightarrow> error + string" where
  "to_string w val base precision =
     (let table = casetable (base < 0); base = \<bar>base\<bar> in
      if base \<ge> 2 \<and> base \<le> 36
      then if val = - (2 ^ (w - 1)) then Inl (Undefined OutOfBounds)
           else
             (let num = map (\<lambda>d. table ! d) (digit_list (nat base) (nat \<bar>val\<bar>));
                  num = (if precision > 0 \<and> length num < nat precision
                         then num @ replicate (nat precision - length num) (table ! 0) else num);
                  num = (if val < 0 then num @ [table ! 38] else num)
              in Inr (rev num))
      else Inr [])"

section \<open>Doubles\<close>

definition pow2 :: "int \<Rightarrow> rat" where
  "pow2 k = (if k \<ge> 0 then 2 ^ nat k else 1 / 2 ^ nat (- k))"

definition fp_exponent :: "u64 \<Rightarrow> nat" where
  "fp_exponent w = unat w div 2 ^ 52 mod 2 ^ 11"

definition fp_fraction :: "u64 \<Rightarrow> nat" where
  "fp_fraction w = unat w mod 2 ^ 52"

definition fp_negative :: "u64 \<Rightarrow> bool" where
  "fp_negative w \<longleftrightarrow> unat w \<ge> 2 ^ 63"

text \<open>The magnitude of a finite \<open>double\<close>.\<close>

definition fp_abs :: "u64 \<Rightarrow> rat" where
  "fp_abs w =
     (if fp_exponent w = 0 then of_nat (fp_fraction w) * pow2 (-1074)
      else of_nat (2 ^ 52 + fp_fraction w) * pow2 (int (fp_exponent w) - 1075))"

definition fp_finite :: "u64 \<Rightarrow> bool" where
  "fp_finite w \<longleftrightarrow> fp_exponent w < 2047"

definition fp_infinity :: u64 where "fp_infinity = 0x7FF0000000000000"
definition fp_quiet_NaN :: u64 where "fp_quiet_NaN = 0x7FF8000000000000"
definition fp_signaling_NaN :: u64 where "fp_signaling_NaN = 0x7FF4000000000000"
definition fp_neg :: "u64 \<Rightarrow> u64" where "fp_neg w = w XOR 0x8000000000000000"

text \<open>\<open>mask\<close> is the power of two with exponent \<open>k\<close>.\<close>

definition fp_mask :: "int \<Rightarrow> rat" where
  "fp_mask k = (if k < - 1074 then 0 else pow2 k)"

lemma pow2_pos [simp]: "pow2 k > 0"
  by (simp add: pow2_def)

lemma pow2_Suc: "pow2 (k + 1) = 2 * pow2 k"
proof -
  consider "k \<ge> 0" | "k = -1" | "k < -1" by linarith
  then show ?thesis
  proof cases
    case 3
    then have "nat (- k) = Suc (nat (- (k + 1)))" by simp
    with 3 show ?thesis by (simp add: pow2_def)
  qed (simp_all add: pow2_def nat_add_distrib)
qed

lemma pow2_double: "2 * pow2 (k - 1) = pow2 k"
  using pow2_Suc [of "k - 1"] by simp

function scale_up :: "nat \<Rightarrow> rat \<Rightarrow> int \<Rightarrow> nat list \<Rightarrow> int \<Rightarrow> int \<times> nat list \<times> int" where
  "scale_up base val k mstr dppos =
     (if val - pow2 k \<ge> pow2 k
      then (case mul2 base mstr of (mstr, carried) \<Rightarrow> scale_up base val (k + 1) mstr (dppos + int carried))
      else (k, mstr, dppos))"
  by pat_completeness auto
termination scale_up
proof (relation "measure (\<lambda>(base, val, k, mstr, dppos). nat \<lfloor>val / pow2 k\<rfloor>)", goal_cases)
  case (2 base val k mstr dppos mstr' carried)
  let ?x = "val / pow2 k"
  from 2 have x: "?x \<ge> 2" by (simp add: le_divide_eq)
  have eq: "val / pow2 (k + 1) = ?x / 2" by (simp add: pow2_Suc)
  have "\<lfloor>?x / 2\<rfloor> \<le> \<lfloor>?x - 1\<rfloor>" using x by (intro floor_mono) simp
  moreover have "\<lfloor>?x\<rfloor> \<ge> 2" using x by (simp add: le_floor_iff)
  ultimately have "nat \<lfloor>?x / 2\<rfloor> < nat \<lfloor>?x\<rfloor>" by linarith
  then show ?case by (simp only: in_measure prod.case eq)
qed simp

function scale_down :: "nat \<Rightarrow> rat \<Rightarrow> int \<Rightarrow> nat list \<Rightarrow> int \<Rightarrow> int \<times> nat list \<times> int" where
  "scale_down base val k mstr dppos =
     (case div2 base mstr of
        (mstr, borrowed, dropped) \<Rightarrow>
          (let dppos = dppos - (if dropped then 1 else 0); k = k - 1 in
           if 0 \<le> val \<and> val < fp_mask k then scale_down base val k mstr dppos else (k, mstr, dppos)))"
  by pat_completeness auto
termination scale_down
  by (relation "measure (\<lambda>(base, val, k, mstr, dppos). nat (k + 1075))") (auto simp: fp_mask_def split: if_splits)

function fp_digits :: "nat \<Rightarrow> rat \<Rightarrow> int \<Rightarrow> nat list \<Rightarrow> bool \<Rightarrow> nat list \<Rightarrow> int \<Rightarrow> nat list \<times> int" where
  "fp_digits base val k mstr borrowed resstr dppos =
     (if val > 0 \<and> fp_mask k > 0
      then
        (let resstr = (if borrowed then 0 # resstr else resstr);
             (val, resstr, dppos) =
               (if val \<ge> fp_mask k
                then (case digits_plus base resstr mstr of (r, carried) \<Rightarrow> (val - fp_mask k, r, dppos + int carried))
                else (val, resstr, dppos))
         in case div2 base mstr of
              (mstr, borrowed, dropped) \<Rightarrow> fp_digits base val (k - 1) mstr borrowed resstr dppos)
      else (resstr, dppos))"
  by pat_completeness auto
termination fp_digits
  by (relation "measure (\<lambda>(base, val, k, x). nat (k + 1075))") (auto simp: fp_mask_def split: if_splits)

declare scale_up.simps [simp del] scale_down.simps [simp del] fp_digits.simps [simp del]

text \<open>Base 16: the highest digit is made 1 and the binary exponent kept.\<close>

fun shift_loop :: "nat \<Rightarrow> nat list \<Rightarrow> nat list \<times> nat" where
  "shift_loop shift [] = ([], 0)"
| "shift_loop shift (d # s) =
     (let (s, borrowed2) = shift_loop shift s; ch = d OR borrowed2
      in (ch div 2 ^ shift mod 16 # s, ch * 16 mod 256))"

definition hex_shift :: "nat list \<Rightarrow> int \<Rightarrow> nat list \<times> int" where
  "hex_shift resstr dppos =
     (let lb = last resstr;
          shift = (if odd (lb div 8) then 3 else if odd (lb div 4) then 2 else if odd (lb div 2) then 1 else 0)
      in if shift = 0 then (resstr, dppos * 4)
         else (case shift_loop shift resstr of
                 (s, borrowed2) \<Rightarrow>
                   (if borrowed2 \<noteq> 0 then borrowed2 div 2 ^ shift mod 16 # s else s, dppos * 4 + int shift)))"

text \<open>
  The digits of a value and the place of the highest one. A NaN that is none of those in the
  library's tests fails every comparison (\<open>None\<close>).
\<close>

definition fp_mantissa :: "nat \<Rightarrow> rat option \<Rightarrow> nat list \<times> int" where
  "fp_mantissa base v =
     (case v of
        None \<Rightarrow> (case div2 base [1] of (mstr, borrowed, dropped) \<Rightarrow> ([], if dropped then -1 else 0))
      | Some val \<Rightarrow>
          if val = 0 then ([], 0)
          else
            (let (k, mstr, dppos) = (if val \<ge> 1 then scale_up base val 0 [1] 0 else scale_down base val 0 [1] 0);
                 (resstr, dppos) = fp_digits base val k mstr False [] dppos
             in if base = 16 \<and> resstr \<noteq> [] then hex_shift resstr dppos else (resstr, dppos)))"

fun strip_zeros :: "int \<Rightarrow> nat list \<Rightarrow> int" where
  "strip_zeros precision [] = precision"
| "strip_zeros precision (d # s) =
     (if precision > 1 \<and> d = 0 then strip_zeros (precision - 1) s else precision)"

definition point_place :: "nat list \<Rightarrow> int \<Rightarrow> nat list \<times> int" where
  "point_place resstr dppos =
     (if dppos < 0 then (resstr @ replicate (nat (- dppos)) 0, 1) else (resstr, dppos + 1))"

definition insert_at :: "nat \<Rightarrow> 'a \<Rightarrow> 'a list \<Rightarrow> 'a list" where
  "insert_at pos x s = take pos s @ x # drop pos s"

definition style_f :: "string \<Rightarrow> bool \<Rightarrow> int \<Rightarrow> nat list \<Rightarrow> int \<Rightarrow> string" where
  "style_f table remove0s precision resstr dppos =
     (let precision = (if remove0s then strip_zeros precision resstr else precision);
          precision = precision + dppos;
          wantedsize = nat (if remove0s then dppos else precision);
          resstr = (if length resstr > nat precision then drop (length resstr - nat precision) resstr
                    else replicate (wantedsize - length resstr) 0 @ resstr);
          text = map (\<lambda>d. table ! d) resstr
      in if length text > nat dppos then insert_at (length text - nat dppos) (table ! 36) text else text)"

function exponent_digits :: "nat \<Rightarrow> nat \<Rightarrow> nat list" where
  "exponent_digits n width =
     (if n = 0 \<and> width = 0 then [] else n mod 10 # exponent_digits (n div 10) (width - 1))"
  by pat_completeness auto
termination exponent_digits
  by (relation "measure (\<lambda>(n, width). n + width)") auto

declare exponent_digits.simps [simp del]

definition style_e :: "string \<Rightarrow> nat \<Rightarrow> bool \<Rightarrow> int \<Rightarrow> nat list \<Rightarrow> int \<Rightarrow> string" where
  "style_e table base remove0s precision resstr dppos =
     (let precision = (if remove0s then strip_zeros precision resstr else precision);
          resstr = (if length resstr > nat precision then drop (length resstr - nat precision) resstr
                    else replicate (nat precision - length resstr) 0 @ resstr);
          text = map (\<lambda>d. table ! d) resstr;
          text = (if length text > 1 then insert_at (length text - 1) (table ! 36) text else text);
          text = table ! (if base = 10 then 14 else 25) # text;
          text = (if dppos \<ge> 0 then table ! 37 else table ! 38) # text;
          text = map (\<lambda>d. table ! d) (exponent_digits (nat \<bar>dppos\<bar>) (if base = 10 then 2 else 1)) @ text
      in if base = 16 then text @ [table ! 33, table ! 0] else text)"

definition fp_special :: "string \<Rightarrow> u64 \<Rightarrow> string option" where
  "fp_special table w =
     (if w = fp_infinity then Some (take 3 (drop 39 table))
      else if w = fp_neg fp_infinity then Some (take 4 (drop 38 table))
      else if w = fp_quiet_NaN then Some (take 4 (drop 43 table))
      else if w = fp_neg fp_quiet_NaN then Some (take 5 (drop 42 table))
      else if w = fp_signaling_NaN then Some (take 4 (drop 48 table))
      else if w = fp_neg fp_signaling_NaN then Some (take 5 (drop 47 table))
      else None)"

text \<open>The part behind the mantissa, which chooses a style; the digits are still reversed.\<close>

definition fp_styled :: "string \<Rightarrow> nat \<Rightarrow> char \<Rightarrow> bool \<Rightarrow> int \<Rightarrow> nat list \<Rightarrow> int \<Rightarrow> error + string" where
  "fp_styled table base fmt remove0s precision resstr dppos =
     (if fmt = CHR ''g'' then
        bindE (digits_round (nat (precision + 1)) resstr base) (\<lambda>(resstr, carried).
          (let dppos = dppos + int carried in
           if dppos \<ge> -4 \<and> dppos < precision
           then (case point_place resstr dppos of
                   (resstr', dppos') \<Rightarrow> Inr (style_f table remove0s (precision - 1 - dppos) resstr' dppos'))
           else Inr (style_e table base remove0s precision resstr dppos)))
      else if fmt = CHR ''e'' then
        (let precision = precision + 1 in
         bindE (digits_round (nat (precision + 1)) resstr base) (\<lambda>(resstr, carried).
           Inr (style_e table base remove0s precision resstr (dppos + int carried))))
      else
        (case point_place resstr dppos of
           (resstr, dppos) \<Rightarrow>
             bindE (digits_round (nat (precision + dppos + 1)) resstr base) (\<lambda>(resstr, carried).
               Inr (style_f table remove0s precision resstr (dppos + int carried)))))"

definition to_string_fp :: "u64 \<Rightarrow> char \<Rightarrow> int \<Rightarrow> error + string" where
  "to_string_fp w fmt precision =
     (let uc = (of_char fmt \<ge> (65 :: nat) \<and> of_char fmt \<le> (90 :: nat));
          fmt = (if uc then char_of (of_char fmt + 32 :: nat) else fmt);
          table = casetable uc
      in case fp_special table w of
           Some s \<Rightarrow> Inr s
         | None \<Rightarrow>
             (let (fmt, base) = (if fmt = CHR ''a'' then (CHR ''e'', 16) else (fmt, 10 :: nat));
                  remove0s = (precision < 0 \<or> fmt = CHR ''g'');
                  precision = \<bar>precision\<bar>;
                  minus = (fp_finite w \<and> fp_negative w);
                  (resstr, dppos) = fp_mantissa base (if fp_finite w then Some (fp_abs w) else None)
              in bindE (fp_styled table base fmt remove0s precision resstr dppos) (\<lambda>text.
                   Inr (rev (if minus then text @ [table ! 38] else text)))))"

end
