(* ===== verification/Number_Facts.thy ===== *)
theory Number_Facts
  imports Number_Text
begin

text \<open>
  The digits that are printed are those of the number: doubling, halving, adding and rounding of
  digit lists, the exact decimal expansion of a \<open>double\<close>, and the text in style \<open>f\<close>.
\<close>

section \<open>The value of digits\<close>

fun digits_val :: "nat \<Rightarrow> nat list \<Rightarrow> nat" where
  "digits_val b [] = 0"
| "digits_val b (d # s) = d + b * digits_val b s"

definition digits_ok :: "nat \<Rightarrow> nat list \<Rightarrow> bool" where
  "digits_ok b s \<longleftrightarrow> (\<forall>d\<in>set s. d < b)"

text \<open>The highest digit is not zero.\<close>

definition normal :: "nat list \<Rightarrow> bool" where
  "normal s \<longleftrightarrow> s \<noteq> [] \<and> last s \<noteq> 0"

lemma digits_ok_simps [simp]: "digits_ok b []" "digits_ok b (d # s) \<longleftrightarrow> d < b \<and> digits_ok b s"
  "digits_ok b (s @ t) \<longleftrightarrow> digits_ok b s \<and> digits_ok b t"
  by (auto simp: digits_ok_def)

lemma digits_ok_sub: "digits_ok b s \<Longrightarrow> digits_ok b (drop n s)" "digits_ok b s \<Longrightarrow> digits_ok b (take n s)"
  "digits_ok b s \<Longrightarrow> digits_ok b (butlast s)" "0 < b \<Longrightarrow> digits_ok b (replicate n 0)"
  by (auto simp: digits_ok_def dest: in_set_dropD in_set_takeD in_set_butlastD)

lemma digits_val_append [simp]: "digits_val b (s @ t) = digits_val b s + b ^ length s * digits_val b t"
  by (induction s) (simp_all add: algebra_simps)

lemma digits_val_zeros [simp]: "digits_val b (replicate n 0) = 0"
  by (induction n) simp_all

lemma digits_val_less: "digits_ok b s \<Longrightarrow> digits_val b s < b ^ length s"
proof (induction s)
  case (Cons d s)
  then have "b * Suc (digits_val b s) \<le> b * b ^ length s" by (intro mult_le_mono2) simp
  with Cons show ?case by simp
qed simp

lemma normal_val:
  assumes "digits_ok b s" and "s \<noteq> []"
  shows "last s \<noteq> 0 \<longleftrightarrow> b ^ (length s - 1) \<le> digits_val b s"
proof -
  obtain t d where s: "s = t @ [d]" using assms(2) by (cases s rule: rev_cases) auto
  with assms(1) have "digits_val b t < b ^ length t" by (simp add: digits_val_less)
  with s show ?thesis by (cases d) simp_all
qed

lemma push_carry_ok:
  assumes "digits_ok b s" and "c \<le> 1" and "1 < b"
  shows "\<exists>s'. push_carry (s, c) = (s', c) \<and> digits_ok b s' \<and> length s' = length s + c \<and>
    digits_val b s' = digits_val b s + b ^ length s * c \<and> (c = 1 \<longrightarrow> normal s')"
proof (cases "c = 0")
  case True
  with assms show ?thesis by (simp add: push_carry_def)
next
  case False
  with assms(2) have "c = 1" by simp
  with assms show ?thesis by (simp add: push_carry_def normal_def)
qed

text \<open>One digit of a loop with a carry.\<close>

lemma digit_carry:
  fixes ch b :: nat
  assumes "ch < 2 * b"
  obtains c where "(if ch \<ge> b then (ch - b, 1) else (ch, 0)) = (ch - b * c, c)" and "c \<le> 1"
    and "ch - b * c < b" and "\<And>x. ch - b * c + b * (x + c) = ch + b * x"
proof (cases "b \<le> ch")
  case True
  with assms show ?thesis by (intro that [of 1]) (simp_all add: algebra_simps)
next
  case False
  with assms show ?thesis by (intro that [of 0]) simp_all
qed

lemma mul2_loop_ok:
  assumes "mul2_loop b c s = (s', c')" and "digits_ok b s" and "c \<le> 1" and "1 < b"
  shows "length s' = length s \<and> digits_ok b s' \<and> c' \<le> 1 \<and>
    digits_val b s' + b ^ length s * c' = 2 * digits_val b s + c"
  using assms
proof (induction s arbitrary: c s' c')
  case (Cons d s)
  then have "d * 2 + c < 2 * b" by simp
  then obtain c1 where c1: "(if d * 2 + c \<ge> b then (d * 2 + c - b, 1) else (d * 2 + c, 0)) = (d * 2 + c - b * c1, c1)"
      "c1 \<le> 1" "d * 2 + c - b * c1 < b" "\<And>x. d * 2 + c - b * c1 + b * (x + c1) = d * 2 + c + b * x"
    using digit_carry by blast
  obtain s1 c2 where r: "mul2_loop b c1 s = (s1, c2)" by fastforce
  have e: "s' = (d * 2 + c - b * c1) # s1" "c' = c2"
    using Cons.prems(1) r by (simp_all only: mul2_loop.simps Let_def c1(1) prod.case prod.inject)
  from Cons.IH [OF r _ c1(2)] Cons.prems
  have IH: "length s1 = length s" "digits_ok b s1" "c2 \<le> 1"
    "digits_val b s1 + b ^ length s * c2 = 2 * digits_val b s + c1" by simp_all
  have "digits_val b s' + b ^ length (d # s) * c' = d * 2 + c - b * c1 + b * (digits_val b s1 + b ^ length s * c2)"
    by (simp add: e distrib_left)
  also have "\<dots> = 2 * digits_val b (d # s) + c" unfolding IH(4) c1(4) by simp
  finally show ?case using IH c1(3) e by simp
qed simp

lemma mul2_ok:
  assumes "digits_ok b s" and "1 < b"
  shows "\<exists>s' c. mul2 b s = (s', c) \<and> digits_ok b s' \<and> length s' = length s + c \<and>
    digits_val b s' = 2 * digits_val b s \<and> (normal s \<longrightarrow> normal s')"
proof -
  obtain s1 c where r: "mul2_loop b 0 s = (s1, c)" by fastforce
  from mul2_loop_ok [OF r assms(1) _ assms(2)]
  have l: "length s1 = length s" "digits_ok b s1" "c \<le> 1" "digits_val b s1 + b ^ length s * c = 2 * digits_val b s"
    by simp_all
  from push_carry_ok [OF l(2,3) assms(2)] obtain s' where
    p: "push_carry (s1, c) = (s', c)" "digits_ok b s'" "length s' = length s1 + c"
      "digits_val b s' = digits_val b s1 + b ^ length s1 * c" "c = 1 \<longrightarrow> normal s'" by blast
  have "normal s'" if n: "normal s"
  proof (cases "c = 1")
    case False
    with l(3) p(3) l(1) have len: "length s' = length s" by simp
    with n have "s' \<noteq> []" by (auto simp: normal_def)
    moreover have "b ^ (length s' - 1) \<le> digits_val b s'"
      using normal_val [OF assms(1)] n l(1,4) p(4) len by (simp add: normal_def)
    ultimately show ?thesis using normal_val [OF p(2)] by (simp add: normal_def)
  qed (use p(5) in simp)
  with p l r show ?thesis by (simp add: mul2_def)
qed

text \<open>A list of digits that is bounded from below is normal.\<close>

lemma normalI: "digits_ok b s \<Longrightarrow> s \<noteq> [] \<Longrightarrow> b ^ (length s - 1) \<le> digits_val b s \<Longrightarrow> normal s"
  using normal_val [of b s] by (simp add: normal_def)

lemma normalD: "digits_ok b s \<Longrightarrow> normal s \<Longrightarrow> s \<noteq> [] \<and> b ^ (length s - 1) \<le> digits_val b s"
  using normal_val [of b s] by (simp add: normal_def)

lemma div2_loop_ok:
  assumes "div2_loop b s = (s', r)" and "digits_ok b s"
  shows "length s' = length s \<and> digits_ok b s' \<and> r \<le> 1 \<and> 2 * digits_val b s' + r = digits_val b s"
  using assms
proof (induction s arbitrary: s' r)
  case (Cons d s)
  obtain s1 r1 where e: "div2_loop b s = (s1, r1)" by fastforce
  from Cons.IH [OF this] Cons.prems(2)
  have IH: "length s1 = length s" "digits_ok b s1" "r1 \<le> 1" "2 * digits_val b s1 + r1 = digits_val b s" by simp_all
  let ?ch = "d + b * r1"
  have "d + (if r1 \<noteq> 0 then b else 0) = ?ch" using IH(3) by (cases r1) simp_all
  with Cons.prems(1) e have s': "s' = ?ch div 2 # s1" "r = ?ch mod 2" by (simp_all add: Let_def)
  have "?ch < 2 * b" using Cons.prems(2) IH(3) by (cases r1) simp_all
  moreover have "2 * digits_val b s' + r = ?ch + 2 * (b * digits_val b s1)"
    unfolding s' using mult_div_mod_eq [of 2 ?ch] by (simp add: algebra_simps)
  moreover have "?ch + 2 * (b * digits_val b s1) = digits_val b (d # s)"
    by (simp flip: IH(4) add: algebra_simps)
  moreover have "?ch mod 2 \<le> 1" by simp
  ultimately show ?case using IH(1,2) s' by (simp add: div_less_iff_less_mult mult.commute)
qed simp

lemma div2_ok:
  assumes "digits_ok b s" and "b = 2 * h" and "0 < h"
  shows "\<exists>s' lower dropped. div2 b s = (s', lower, dropped) \<and> digits_ok b s' \<and>
    length s' + of_bool dropped = length s + of_bool lower \<and>
    2 * digits_val b s' = (if lower then b else 1) * digits_val b s \<and> (normal s \<longrightarrow> normal s')"
proof -
  obtain s1 r where e: "div2_loop b s = (s1, r)" by fastforce
  from div2_loop_ok [OF this assms(1)]
  have l: "length s1 = length s" "digits_ok b s1" "r \<le> 1" "2 * digits_val b s1 + r = digits_val b s" by simp_all
  define s2 where "s2 = (if r \<noteq> 0 then b div 2 # s1 else s1)"
  have s2: "digits_ok b s2" "length s2 = length s + of_bool (r \<noteq> 0)"
      "2 * digits_val b s2 = (if r \<noteq> 0 then b else 1) * digits_val b s"
  proof -
    show "digits_ok b s2" using l(2) assms(2,3) by (simp add: s2_def)
    show "length s2 = length s + of_bool (r \<noteq> 0)" using l(1) by (simp add: s2_def)
    show "2 * digits_val b s2 = (if r \<noteq> 0 then b else 1) * digits_val b s"
    proof (cases "r \<noteq> 0")
      case True
      with l(3,4) have "digits_val b s = 2 * digits_val b s1 + 1" by simp
      then show ?thesis using True assms(2) by (simp add: s2_def algebra_simps)
    qed (use l(4) in \<open>simp add: s2_def\<close>)
  qed
  have low: "b ^ (length s2 - 1) \<le> 2 * digits_val b s2" if "normal s"
  proof -
    note n = normalD [OF assms(1) that]
    show ?thesis
    proof (cases "r \<noteq> 0")
      case True
      have "b * b ^ (length s - 1) \<le> b * digits_val b s" using n by (intro mult_le_mono2) simp
      moreover have "b * b ^ (length s - 1) = b ^ length s" using n by (cases s) simp_all
      ultimately have "b ^ length s \<le> b * digits_val b s" by (simp only:)
      with True s2 show ?thesis by simp
    qed (use n s2 in simp)
  qed
  show ?thesis
  proof (cases "s2 \<noteq> [] \<and> last s2 = 0")
    case True
    then have s: "s2 = butlast s2 @ [0]" by (metis append_butlast_last_id)
    have v: "digits_val b (butlast s2) = digits_val b s2" by (subst (2) s) simp
    have ok: "digits_ok b (butlast s2)" using s2(1) by (rule digits_ok_sub)
    have "normal (butlast s2)" if n: "normal s"
    proof (rule normalI [OF ok])
      have "0 < b ^ (length s2 - 1)" using assms(2,3) by simp
      with low [OF n] have pos: "0 < digits_val b s2" by linarith
      with v show ne: "butlast s2 \<noteq> []" by (metis digits_val.simps(1) less_irrefl)
      have "2 * b ^ (length s2 - 2) \<le> b * b ^ (length s2 - 2)" using assms(2,3) by (intro mult_le_mono1) simp
      also have "\<dots> = b ^ (length s2 - 1)" using ne by (cases s2; cases "tl s2") simp_all
      also have "\<dots> \<le> 2 * digits_val b s2" by (rule low [OF n])
      finally show "b ^ (length (butlast s2) - 1) \<le> digits_val b (butlast s2)" using v by (simp add: numeral_2_eq_2)
    qed
    moreover have "div2 b s = (butlast s2, r \<noteq> 0, True)" using e True by (simp add: div2_def s2_def Let_def)
    moreover have "length (butlast s2) + 1 = length s2" using True by simp
    ultimately show ?thesis
      using ok v s2 by (intro exI [of _ "butlast s2"] exI [of _ "r \<noteq> 0"] exI [of _ True]) simp
  next
    case False
    have "normal s2" if "normal s"
      using False s2(2) that by (auto simp: normal_def)
    moreover have "div2 b s = (s2, r \<noteq> 0, False)" using e False by (simp add: div2_def s2_def Let_def)
    ultimately show ?thesis
      using s2 by (intro exI [of _ s2] exI [of _ "r \<noteq> 0"] exI [of _ False]) simp
  qed
qed

lemma plus_loop_ok:
  assumes "plus_loop b c s1 s2 = (s', c')" and "digits_ok b s1" and "digits_ok b s2"
    and "length s2 \<le> length s1" and "c \<le> 1" and "1 < b"
  shows "length s' = length s1 \<and> digits_ok b s' \<and> c' \<le> 1 \<and>
    digits_val b s' + b ^ length s1 * c' = digits_val b s1 + digits_val b s2 + c"
  using assms
proof (induction s1 arbitrary: c s2 s' c')
  case (Cons d s1)
  let ?e = "case s2 of [] \<Rightarrow> 0 | e # _ \<Rightarrow> e"
  have v2: "digits_val b s2 = ?e + b * digits_val b (drop 1 s2)" "?e < b" "digits_ok b (drop 1 s2)"
    using Cons.prems(3,6) by (cases s2; simp)+
  with Cons.prems have "d + (?e + c) < 2 * b" by simp
  then obtain c1 where c1: "(if d + (?e + c) \<ge> b then (d + (?e + c) - b, 1) else (d + (?e + c), 0)) = (d + (?e + c) - b * c1, c1)"
      "c1 \<le> 1" "d + (?e + c) - b * c1 < b" "\<And>x. d + (?e + c) - b * c1 + b * (x + c1) = d + (?e + c) + b * x"
    using digit_carry by blast
  obtain s3 c2 where r: "plus_loop b c1 s1 (drop 1 s2) = (s3, c2)" by fastforce
  have e: "s' = (d + (?e + c) - b * c1) # s3" "c' = c2"
    using Cons.prems(1) r by (simp_all only: plus_loop.simps Let_def c1(1) prod.case prod.inject)
  from Cons.IH [OF r _ v2(3) _ c1(2)] Cons.prems
  have IH: "length s3 = length s1" "digits_ok b s3" "c2 \<le> 1"
    "digits_val b s3 + b ^ length s1 * c2 = digits_val b s1 + digits_val b (drop 1 s2) + c1" by auto
  have "digits_val b s' + b ^ length (d # s1) * c' =
      d + (?e + c) - b * c1 + b * (digits_val b s3 + b ^ length s1 * c2)"
    by (simp add: e distrib_left)
  also have "\<dots> = digits_val b (d # s1) + digits_val b s2 + c"
    unfolding IH(4) c1(4) v2(1) by (simp add: distrib_left)
  finally show ?case using IH c1(3) e by simp
qed simp

lemma digits_plus_ok:
  assumes "digits_ok b s1" and "digits_ok b s2" and "length s2 \<le> length s1" and "1 < b"
  shows "\<exists>s' c. digits_plus b s1 s2 = (s', c) \<and> digits_ok b s' \<and> length s' = length s1 + c \<and>
    digits_val b s' = digits_val b s1 + digits_val b s2 \<and> (normal s1 \<longrightarrow> normal s')"
proof -
  obtain s c where r: "plus_loop b 0 s1 s2 = (s, c)" by fastforce
  from plus_loop_ok [OF r assms(1-3) _ assms(4)]
  have l: "length s = length s1" "digits_ok b s" "c \<le> 1"
    "digits_val b s + b ^ length s1 * c = digits_val b s1 + digits_val b s2" by simp_all
  from push_carry_ok [OF l(2,3) assms(4)] obtain s' where
    p: "push_carry (s, c) = (s', c)" "digits_ok b s'" "length s' = length s + c"
      "digits_val b s' = digits_val b s + b ^ length s * c" "c = 1 \<longrightarrow> normal s'" by blast
  have "normal s'" if n: "normal s1"
  proof (cases "c = 1")
    case False
    with l(3) p(3) l(1) have len: "length s' = length s1" by simp
    show ?thesis
      using normalD [OF assms(1) n] normalI [OF p(2)] l(1,4) p(4) len by (metis le_add1 le_trans length_0_conv)
  qed (use p(5) in simp)
  with p l r assms(3) show ?thesis by (simp add: digits_plus_def)
qed

lemma digits_plus_Nil: "digits_ok b s \<Longrightarrow> digits_plus b [] s = (s, 0)"
proof -
  assume "digits_ok b s"
  then have "plus_loop b 0 (replicate (length s) 0) s = (s, 0)" by (induction s) simp_all
  then show ?thesis by (simp add: digits_plus_def push_carry_def)
qed

lemma round_loop_ok:
  assumes "round_loop b c s = (s', c')" and "digits_ok b s" and "c \<le> 1" and "1 < b"
  shows "length s' = length s \<and> digits_ok b s' \<and> c' \<le> 1 \<and>
    digits_val b s' + b ^ length s * c' = digits_val b s + c"
  using assms
proof (induction s arbitrary: c s' c')
  case (Cons d s)
  show ?case
  proof (cases "c = 0")
    case True
    with Cons.prems show ?thesis by auto
  next
    case False
    from Cons.prems have "d + c < 2 * b" by simp
    then obtain c1 where c1: "(if d + c \<ge> b then (d + c - b, 1) else (d + c, 0)) = (d + c - b * c1, c1)"
        "c1 \<le> 1" "d + c - b * c1 < b" "\<And>x. d + c - b * c1 + b * (x + c1) = d + c + b * x"
      using digit_carry by blast
    obtain s1 c2 where r: "round_loop b c1 s = (s1, c2)" by fastforce
    have e: "s' = (d + c - b * c1) # s1" "c' = c2"
      using Cons.prems(1) r False by (simp_all only: round_loop.simps Let_def c1(1) prod.case prod.inject if_False)
    from Cons.IH [OF r _ c1(2)] Cons.prems
    have IH: "length s1 = length s" "digits_ok b s1" "c2 \<le> 1"
      "digits_val b s1 + b ^ length s * c2 = digits_val b s + c1" by simp_all
    have "digits_val b s' + b ^ length (d # s) * c' = d + c - b * c1 + b * (digits_val b s1 + b ^ length s * c2)"
      by (simp add: e distrib_left)
    also have "\<dots> = digits_val b (d # s) + c" unfolding IH(4) c1(4) by simp
    finally show ?thesis using IH c1(3) e by simp
  qed
qed simp

text \<open>Rounding to \<open>pos - 1\<close> digits, half of the last one upwards.\<close>

lemma digits_round_ok:
  assumes "digits_ok b s" and "b = 2 * h" and "0 < h" and "0 < pos" and "pos \<le> length s"
  defines "i \<equiv> length s - pos"
  shows "\<exists>s' c. digits_round pos s b = Inr (s', c) \<and> digits_ok b s' \<and> length s' = pos - 1 + c \<and>
    digits_val b s' = (digits_val b s + h * b ^ i) div b ^ Suc i \<and> (1 < pos \<longrightarrow> normal s \<longrightarrow> normal s') \<and>
    c \<le> 1 \<and> (c = 1 \<longrightarrow> normal s')"
proof -
  have i: "i < length s" using assms(4,5) by (simp add: i_def)
  have b: "1 < b" "b div 2 = h" using assms(2,3) by simp_all
  define c0 where "c0 = (if s ! i \<ge> h then 1 else 0 :: nat)"
  let ?lo = "digits_val b (take i s)" and ?hi = "drop (Suc i) s"
  have s: "s = take i s @ s ! i # ?hi" using i by (simp add: id_take_nth_drop)
  have v: "digits_val b s = ?lo + b ^ i * (s ! i) + b ^ Suc i * digits_val b ?hi"
    by (subst s, subst digits_val_append) (use i in \<open>simp add: algebra_simps\<close>)
  have d: "s ! i < b" using assms(1) i by (simp add: digits_ok_def)
  have lo: "?lo < b ^ i" using digits_val_less [OF digits_ok_sub(2) [OF assms(1)], of i] i by simp
  have q: "(?lo + b ^ i * (s ! i) + h * b ^ i) div b ^ Suc i = c0"
  proof (cases "s ! i \<ge> h")
    case True
    then have "b ^ i * b \<le> b ^ i * (s ! i + h)" using assms(2) by (intro mult_le_mono2) simp
    moreover have "b ^ i * (s ! i + h) + b ^ i \<le> b ^ i * (2 * b)"
    proof -
      have "b ^ i * (s ! i + h + 1) \<le> b ^ i * (2 * b)" using d assms(2) by (intro mult_le_mono2) simp
      then show ?thesis by (simp add: algebra_simps)
    qed
    ultimately have "b ^ Suc i \<le> ?lo + b ^ i * (s ! i) + h * b ^ i" "?lo + b ^ i * (s ! i) + h * b ^ i < 2 * b ^ Suc i"
      using lo by (simp_all add: algebra_simps)
    then show ?thesis using True by (simp add: c0_def div_nat_eqI)
  next
    case False
    then have "b ^ i * (s ! i + h + 1) \<le> b ^ i * b" using assms(2) by (intro mult_le_mono2) simp
    with lo have "?lo + b ^ i * (s ! i) + h * b ^ i < b ^ Suc i" by (simp add: algebra_simps)
    then show ?thesis using False by (simp add: c0_def)
  qed
  have rounded: "(digits_val b s + h * b ^ i) div b ^ Suc i = digits_val b ?hi + c0"
  proof -
    have e: "digits_val b s + h * b ^ i = ?lo + b ^ i * (s ! i) + h * b ^ i + digits_val b ?hi * b ^ Suc i"
      unfolding v by (simp add: algebra_simps)
    have nz: "b ^ Suc i \<noteq> 0" using b(1) by simp
    show ?thesis unfolding e div_mult_self1 [OF nz] q by simp
  qed
  obtain s1 c where r: "round_loop b c0 ?hi = (s1, c)" by fastforce
  have ok: "digits_ok b ?hi" using assms(1) by (rule digits_ok_sub)
  have len: "length ?hi = pos - 1" using i assms(4,5) by (simp add: i_def)
  have "c0 \<le> 1" by (simp add: c0_def)
  from round_loop_ok [OF r ok this b(1), unfolded len]
  have l: "length s1 = pos - 1" "digits_ok b s1" "c \<le> 1" "digits_val b s1 + b ^ (pos - 1) * c = digits_val b ?hi + c0"
    by simp_all
  from push_carry_ok [OF l(2,3) b(1)] obtain s' where
    p: "push_carry (s1, c) = (s', c)" "digits_ok b s'" "length s' = length s1 + c"
      "digits_val b s' = digits_val b s1 + b ^ length s1 * c" "c = 1 \<longrightarrow> normal s'" by blast
  have "normal s'" if "1 < pos" and n: "normal s"
  proof (cases "c = 1")
    case False
    with l(1,3) p(3) have len: "length s' = pos - 1" by simp
    have "length s - 1 = Suc i + (pos - 2)" using assms(5) \<open>1 < pos\<close> by (simp add: i_def)
    then have "b ^ (length s - 1) = b ^ (pos - 2) * b ^ Suc i" by (simp add: power_add)
    moreover have "b ^ (length s - 1) \<le> digits_val b s + h * b ^ i" using normalD [OF assms(1) n] by simp
    ultimately have "b ^ (pos - 2) \<le> (digits_val b s + h * b ^ i) div b ^ Suc i"
      using b by (simp add: less_eq_div_iff_mult_less_eq del: power_Suc)
    moreover have "digits_val b s' = (digits_val b s + h * b ^ i) div b ^ Suc i"
      unfolding rounded using l p by simp
    ultimately show ?thesis using normalI [OF p(2)] len \<open>1 < pos\<close> by (simp add: numeral_2_eq_2) force
  qed (use p(5) in simp)
  moreover have "digits_round pos s b = Inr (s', c)"
    using assms(4,5) r p(1) b(2) by (simp add: digits_round_def i_def c0_def Let_def)
  moreover have "digits_val b s' = digits_val b ?hi + c0" using l p by simp
  ultimately show ?thesis using p(2,3,5) l(1,3) rounded by auto
qed

end
