(* ===== verification/Number_Exact.thy ===== *)
theory Number_Exact
  imports Number_Facts
begin

text \<open>
  The mantissa loops of \<open>to_string_fp\<close> are exact: the digits they give, with the place of the highest
  one, are the value of the \<open>double\<close>.
\<close>

section \<open>Digits with an exponent\<close>

definition scaled :: "nat \<Rightarrow> nat list \<Rightarrow> int \<Rightarrow> rat" where
  "scaled b s e = of_nat (digits_val b s) * of_nat b powi e"

lemma scaled_zero: "0 < b \<Longrightarrow> scaled b (0 # s) e = scaled b s (e + 1)"
  by (simp add: scaled_def power_int_add_1)

lemma scaled_shift: "0 < b \<Longrightarrow> scaled b (if low then 0 # s else s) (if low then e - 1 else e) = scaled b s e"
  using scaled_zero [of b s "e - 1"] by simp

lemma scaled_nonneg: "0 \<le> scaled b s e"
  by (simp add: scaled_def zero_le_power_int)

lemma scaled_mul2:
  assumes "digits_ok b s" and "1 < b"
  obtains s' c where "mul2 b s = (s', c)" and "digits_ok b s'" and "length s' = length s + c"
    and "scaled b s' e = 2 * scaled b s e" and "normal s \<Longrightarrow> normal s'"
  using mul2_ok [OF assms] by (auto simp: scaled_def)

lemma scaled_div2:
  assumes "digits_ok b s" and "b = 2 * h" and "0 < h"
  obtains s' lower dropped where "div2 b s = (s', lower, dropped)" and "digits_ok b s'"
    and "length s' + of_bool dropped = length s + of_bool lower" and "normal s \<Longrightarrow> normal s'"
    and "2 * scaled b s' (if lower then e - 1 else e) = scaled b s e"
proof -
  obtain s' lower dropped where d: "div2 b s = (s', lower, dropped)" "digits_ok b s'"
      "length s' + of_bool dropped = length s + of_bool lower" "normal s \<longrightarrow> normal s'"
      "2 * digits_val b s' = (if lower then b else 1) * digits_val b s"
    using div2_ok [OF assms] by blast
  have v: "2 * (of_nat (digits_val b s') :: rat) = of_nat (if lower then b else 1) * of_nat (digits_val b s)"
    using arg_cong [OF d(5), of "of_nat :: nat \<Rightarrow> rat"] by (simp only: of_nat_mult of_nat_numeral)
  have "2 * scaled b s' (if lower then e - 1 else e) =
      2 * of_nat (digits_val b s') * of_nat b powi (if lower then e - 1 else e)"
    by (simp only: scaled_def mult.assoc)
  also have "\<dots> = of_nat (if lower then b else 1) * of_nat (digits_val b s) * of_nat b powi (if lower then e - 1 else e)"
    by (simp only: v)
  also have "\<dots> = scaled b s e"
    using assms(2,3) power_int_add_1 [of "of_nat b :: rat" "e - 1"] by (cases lower) (simp_all add: scaled_def mult_ac)
  finally show ?thesis using that d by blast
qed

lemma scaled_plus:
  assumes "digits_ok b s1" and "digits_ok b s2" and "length s2 \<le> length s1" and "1 < b"
  obtains s' c where "digits_plus b s1 s2 = (s', c)" and "digits_ok b s'" and "length s' = length s1 + c"
    and "scaled b s' e = scaled b s1 e + scaled b s2 e" and "normal s1 \<Longrightarrow> normal s'"
  using digits_plus_ok [OF assms] by (auto simp: scaled_def algebra_simps)

section \<open>Multiples of the least double\<close>

definition dyadic :: "rat \<Rightarrow> bool" where
  "dyadic v \<longleftrightarrow> (\<exists>n. v = of_nat n * pow2 (- 1074))"

lemma pow2_add: "pow2 (k + int n) = 2 ^ n * pow2 k"
proof (induction n)
  case (Suc n)
  have "pow2 (k + int (Suc n)) = pow2 ((k + int n) + 1)" by (simp add: algebra_simps)
  with Suc show ?case by (simp only: pow2_Suc power_Suc mult.assoc)
qed simp

lemma pow2_mono: "j \<le> k \<Longrightarrow> pow2 j \<le> pow2 k"
  using pow2_add [of j "nat (k - j)"] by simp

lemma dyadic_pow2: "- 1074 \<le> k \<Longrightarrow> dyadic (pow2 k)"
  using pow2_add [of "- 1074" "nat (k + 1074)"] by (auto simp: dyadic_def intro!: exI [of _ "2 ^ nat (k + 1074)"])

lemma dyadic_diff:
  assumes "dyadic v" and "dyadic w" and "w \<le> v"
  shows "dyadic (v - w)"
proof -
  obtain m n where "v = of_nat m * pow2 (- 1074)" "w = of_nat n * pow2 (- 1074)"
    using assms(1,2) by (auto simp: dyadic_def)
  moreover with assms(3) have "n \<le> m" by simp
  ultimately show ?thesis by (auto simp: dyadic_def of_nat_diff algebra_simps intro!: exI [of _ "m - n"])
qed

lemma dyadic_small: "dyadic v \<Longrightarrow> v < pow2 (- 1074) \<Longrightarrow> v = 0"
  by (auto simp: dyadic_def)

lemma dyadic_fp: "dyadic (fp_abs w)"
proof (cases "fp_exponent w = 0")
  case True
  then show ?thesis by (auto simp: fp_abs_def dyadic_def)
next
  case False
  then have "pow2 (int (fp_exponent w) - 1075) = 2 ^ (fp_exponent w - 1) * pow2 (- 1074)"
    using pow2_add [of "- 1074" "fp_exponent w - 1"] by (simp add: of_nat_diff algebra_simps)
  with False show ?thesis
    by (auto simp: fp_abs_def dyadic_def intro!: exI [of _ "(2 ^ 52 + fp_fraction w) * 2 ^ (fp_exponent w - 1)"])
qed

lemma fp_abs_nonneg: "0 \<le> fp_abs w"
  using dyadic_fp [of w] less_imp_le [OF pow2_pos] by (auto simp: dyadic_def)

section \<open>The loops\<close>

definition mask_at :: "nat \<Rightarrow> int \<Rightarrow> nat list \<Rightarrow> int \<Rightarrow> bool" where
  "mask_at b k mstr e \<longleftrightarrow> digits_ok b mstr \<and> normal mstr \<and> pow2 k = scaled b mstr e"

lemma scale_up_ok:
  assumes "1 < b" and "mask_at b k mstr 0" and "int (length mstr) = dppos + 1" and "pow2 k \<le> val" and "0 \<le> k"
  shows "\<exists>k' mstr' dppos'. scale_up b val k mstr dppos = (k', mstr', dppos') \<and> mask_at b k' mstr' 0 \<and>
    int (length mstr') = dppos' + 1 \<and> pow2 k' \<le> val \<and> val < 2 * pow2 k' \<and> 0 \<le> k'"
  using assms
proof (induction b val k mstr dppos rule: scale_up.induct)
  case (1 b val k mstr dppos)
  show ?case
  proof (cases "val - pow2 k \<ge> pow2 k")
    case True
    from "1.prems" obtain m c where m: "mul2 b mstr = (m, c)" "digits_ok b m" "length m = length mstr + c"
        "scaled b m 0 = 2 * scaled b mstr 0" "normal m"
      using scaled_mul2 [of b mstr 0] by (auto simp: mask_at_def)
    with "1.prems" have "mask_at b (k + 1) m 0" by (simp add: mask_at_def pow2_Suc)
    moreover have "int (length m) = dppos + int c + 1" using m(3) "1.prems"(3) by simp
    moreover have "pow2 (k + 1) \<le> val" using True by (simp add: pow2_Suc)
    ultimately show ?thesis
      using "1.IH" [OF True m(1) [symmetric] "1.prems"(1)] "1.prems"(5) m(1) True
      by (simp add: scale_up.simps [of b val k])
  next
    case False
    with "1.prems" show ?thesis by (simp add: scale_up.simps [of b val k])
  qed
qed

lemma scale_down_ok:
  assumes "b = 2 * h" and "0 < h" and "mask_at b k mstr e" and "dppos + 1 - int (length mstr) = e" and "e \<le> 0"
    and "0 < val" and "dyadic val" and "val < pow2 k"
  shows "\<exists>k' mstr' dppos' e'. scale_down b val k mstr dppos = (k', mstr', dppos') \<and> mask_at b k' mstr' e' \<and>
    dppos' + 1 - int (length mstr') = e' \<and> e' \<le> 0 \<and> pow2 k' \<le> val \<and> val < 2 * pow2 k' \<and> - 1074 \<le> k'"
  using assms
proof (induction "nat (k + 1075)" arbitrary: k mstr dppos e rule: less_induct)
  case less
  have k: "- 1074 < k"
  proof (rule ccontr)
    assume "\<not> - 1074 < k"
    then have "pow2 k \<le> pow2 (- 1074)" by (intro pow2_mono) simp
    with less.prems dyadic_small show False by fastforce
  qed
  from less.prems obtain m lower dropped where m: "div2 b mstr = (m, lower, dropped)" "digits_ok b m"
      "length m + of_bool dropped = length mstr + of_bool lower" "normal m"
      "2 * scaled b m (if lower then e - 1 else e) = scaled b mstr e"
    using scaled_div2 [of b mstr h e] by (auto simp: mask_at_def)
  let ?d = "dppos - (if dropped then 1 else 0)" and ?e = "if lower then e - 1 else e"
  have at: "mask_at b (k - 1) m ?e" "?d + 1 - int (length m) = ?e" "?e \<le> 0"
    using m less.prems(3-5) pow2_double [of k] by (auto simp: mask_at_def split: if_splits)
  have mask: "fp_mask (k - 1) = pow2 (k - 1)" using k by (simp add: fp_mask_def)
  show ?case
  proof (cases "val < pow2 (k - 1)")
    case True
    have "scale_down b val k mstr dppos = scale_down b val (k - 1) m ?d"
      using True less.prems(6) by (simp add: scale_down.simps [of b val k] m(1) mask Let_def)
    moreover have "nat (k - 1 + 1075) < nat (k + 1075)" using k by simp
    ultimately show ?thesis using less.hyps [OF _ less.prems(1,2) at less.prems(6,7) True] by simp
  next
    case False
    have "scale_down b val k mstr dppos = (k - 1, m, ?d)"
      using False by (simp add: scale_down.simps [of b val k] m(1) mask Let_def)
    then show ?thesis using False at k less.prems(8) pow2_double [of k] by auto
  qed
qed

text \<open>
  What stands between two rounds of the digit loop: \<open>e\<close> is the exponent of the lowest digit of the
  result, and that of the mask once a digit was put below it.
\<close>

definition digits_at :: "nat \<Rightarrow> nat list \<Rightarrow> int \<Rightarrow> int \<Rightarrow> bool" where
  "digits_at b s dppos e \<longleftrightarrow> digits_ok b s \<and> normal s \<and> dppos + 1 - int (length s) = e \<and> e \<le> 0"

lemma digits_at_shift:
  "0 < b \<Longrightarrow> digits_at b s dppos e \<Longrightarrow>
     digits_at b (if low then 0 # s else s) dppos (if low then e - 1 else e)"
  by (auto simp: digits_at_def normal_def)

lemma add_mask:
  assumes "1 < b" and "digits_at b s dppos e" and "mask_at b k mstr e" and "length mstr \<le> length s"
  obtains s' c where "digits_plus b s mstr = (s', c)" and "digits_at b s' (dppos + int c) e"
    and "length mstr \<le> length s'" and "scaled b s' e = scaled b s e + pow2 k"
proof -
  from assms(2,3) have ok: "digits_ok b s" "digits_ok b mstr" "normal s" "pow2 k = scaled b mstr e"
    by (simp_all add: digits_at_def mask_at_def)
  obtain s' c where "digits_plus b s mstr = (s', c)" "digits_ok b s'" "length s' = length s + c"
      "scaled b s' e = scaled b s e + scaled b mstr e" "normal s \<Longrightarrow> normal s'"
    using scaled_plus [OF ok(1,2) assms(4,1)] by blast
  with assms(2,4) ok(3,4) show ?thesis by (intro that [of s' c]) (simp_all add: digits_at_def)
qed

lemma halve_mask:
  assumes "b = 2 * h" and "0 < h" and "mask_at b k mstr e"
  obtains m lower dropped where "div2 b mstr = (m, lower, dropped)"
    and "mask_at b (k - 1) m (if lower then e - 1 else e)" and "length m \<le> length mstr + of_bool lower"
proof -
  obtain m lower dropped where "div2 b mstr = (m, lower, dropped)" "digits_ok b m"
      "length m + of_bool dropped = length mstr + of_bool lower" "normal m"
      "2 * scaled b m (if lower then e - 1 else e) = scaled b mstr e"
    using assms scaled_div2 [of b mstr h e] by (auto simp: mask_at_def)
  with assms(3) pow2_double [of k] show ?thesis by (intro that [of m lower dropped]) (simp_all add: mask_at_def)
qed

lemma fp_digits_exact:
  assumes "b = 2 * h" and "0 < h" and "mask_at b k mstr (if borrowed then e - 1 else e)"
    and "digits_at b resstr dppos e" and "length mstr \<le> length resstr + of_bool borrowed"
    and "0 \<le> val" and "val < 2 * pow2 k" and "dyadic val"
  shows "\<exists>s d e'. fp_digits b val k mstr borrowed resstr dppos = (s, d) \<and> digits_at b s d e' \<and>
    scaled b s e' = val + scaled b resstr e"
  using assms
proof (induction "nat (k + 1075)" arbitrary: val k mstr borrowed resstr dppos e rule: less_induct)
  case less
  have b: "0 < b" "1 < b" using less.prems(1,2) by simp_all
  show ?case
  proof (cases "0 < val \<and> 0 < fp_mask k")
    case False
    have "val = 0"
    proof (rule ccontr)
      assume "val \<noteq> 0"
      with False less.prems(6) have "k < - 1074" by (auto simp: fp_mask_def split: if_splits)
      then have "2 * pow2 k \<le> pow2 (- 1074)" using pow2_mono [of "k + 1" "- 1074"] by (simp add: pow2_Suc)
      with less.prems(7) have "val < pow2 (- 1074)" by linarith
      with \<open>val \<noteq> 0\<close> show False using dyadic_small [OF less.prems(8)] by simp
    qed
    moreover have "fp_digits b val k mstr borrowed resstr dppos = (resstr, dppos)"
      using False by (simp only: fp_digits.simps [of b val k] if_False)
    ultimately show ?thesis using less.prems(4) by auto
  next
    case True
    then have k: "- 1074 \<le> k" and mask: "fp_mask k = pow2 k" by (auto simp: fp_mask_def split: if_splits)
    let ?e = "if borrowed then e - 1 else e"
    define r0 where "r0 = (if borrowed then 0 # resstr else resstr)"
    have r0: "digits_at b r0 dppos ?e" "length mstr \<le> length r0" "scaled b r0 ?e = scaled b resstr e"
      using digits_at_shift [OF b(1) less.prems(4)] scaled_shift [OF b(1)] less.prems(5)
      by (simp_all add: r0_def) (cases borrowed, simp_all)
    obtain val1 r1 d1 where step: "(if val \<ge> fp_mask k
          then (case digits_plus b r0 mstr of (r, carried) \<Rightarrow> (val - fp_mask k, r, dppos + int carried))
          else (val, r0, dppos)) = (val1, r1, d1)"
        and r1: "digits_at b r1 d1 ?e" "length mstr \<le> length r1" "val1 + scaled b r1 ?e = val + scaled b resstr e"
        and v1: "0 \<le> val1" "val1 < pow2 k" "dyadic val1"
    proof (cases "val \<ge> pow2 k")
      case ge: True
      obtain s' c where "digits_plus b r0 mstr = (s', c)" "digits_at b s' (dppos + int c) ?e"
          "length mstr \<le> length s'" "scaled b s' ?e = scaled b r0 ?e + pow2 k"
        using add_mask [OF b(2) r0(1) less.prems(3) r0(2)] by blast
      with ge mask r0(3) less.prems(7) dyadic_diff [OF less.prems(8) dyadic_pow2 [OF k] ge] show ?thesis
        by (intro that [of "val - pow2 k" s' "dppos + int c"]) simp_all
    next
      case False
      with mask r0 less.prems(6,8) show ?thesis by (intro that [of val r0 dppos]) simp_all
    qed
    obtain m lower dropped where m: "div2 b mstr = (m, lower, dropped)"
        "mask_at b (k - 1) m (if lower then ?e - 1 else ?e)" "length m \<le> length mstr + of_bool lower"
      using halve_mask [OF less.prems(1-3)] by blast
    have eq: "fp_digits b val k mstr borrowed resstr dppos = fp_digits b val1 (k - 1) m lower r1 d1"
      unfolding fp_digits.simps [of b val k] if_P [OF True] Let_def r0_def [symmetric] step prod.case m(1) ..
    have "nat (k - 1 + 1075) < nat (k + 1075)" using k by simp
    from less.hyps [OF this less.prems(1,2) m(2) r1(1) _ v1(1) _ v1(3)] show ?thesis
      unfolding eq r1(3) [symmetric] using m(3) r1(2) v1(2) pow2_double [of k] by simp
  qed
qed

text \<open>The digits of a positive value.\<close>

lemma fp_mantissa_exact:
  assumes "0 < val" and "dyadic val"
  obtains s d e where "fp_mantissa 10 (Some val) = (s, d)" and "digits_at 10 s d e" and "scaled 10 s e = val"
proof -
  have one: "mask_at 10 0 [1] 0" by (simp add: mask_at_def normal_def scaled_def pow2_def)
  obtain k m d e where start: "(if val \<ge> 1 then scale_up 10 val 0 [1] 0 else scale_down 10 val 0 [1] 0) = (k, m, d)"
      and m: "mask_at 10 k m e" "d + 1 - int (length m) = e" "e \<le> 0"
      and v: "pow2 k \<le> val" "val < 2 * pow2 k" "- 1074 \<le> k"
  proof (cases "val \<ge> 1")
    case True
    with scale_up_ok [OF _ one, of 0 val] obtain k m d where
      "scale_up 10 val 0 [1] 0 = (k, m, d)" "mask_at 10 k m 0" "int (length m) = d + 1"
      "pow2 k \<le> val" "val < 2 * pow2 k" "0 \<le> k"
      by (auto simp: pow2_def)
    with True show ?thesis by (intro that [of k m d 0]) simp_all
  next
    case False
    with scale_down_ok [of 10 5 0 "[1]" 0 0 val] one assms obtain k m d e where
      "scale_down 10 val 0 [1] 0 = (k, m, d)" "mask_at 10 k m e" "d + 1 - int (length m) = e" "e \<le> 0"
      "pow2 k \<le> val" "val < 2 * pow2 k" "- 1074 \<le> k"
      by (auto simp: pow2_def)
    with False show ?thesis by (intro that [of k m d e]) simp_all
  qed
  have ok: "digits_at 10 m d e" "digits_ok 10 m" "pow2 k = scaled 10 m e"
    using m by (simp_all add: digits_at_def mask_at_def)
  have mask: "fp_mask k = pow2 k" using v(3) by (simp add: fp_mask_def)
  obtain m' lower dropped where h: "div2 10 m = (m', lower, dropped)"
      "mask_at 10 (k - 1) m' (if lower then e - 1 else e)" "length m' \<le> length m + of_bool lower"
    using halve_mask [of 10 5 k m e] m(1) by auto
  have eq: "fp_digits 10 val k m False [] d = fp_digits 10 (val - pow2 k) (k - 1) m' lower m d"
    using v(1) assms(1) mask digits_plus_Nil [OF ok(2)] h(1) by (simp add: fp_digits.simps [of 10 val k])
  obtain s d' e' where f: "fp_digits 10 val k m False [] d = (s, d')" "digits_at 10 s d' e'"
      "scaled 10 s e' = val - pow2 k + scaled 10 m e"
    using fp_digits_exact [of 10 5 "k - 1" m' lower e m d "val - pow2 k"] h(2,3) ok(1) v pow2_double [of k]
      dyadic_diff [OF assms(2) dyadic_pow2 [OF v(3)] v(1)]
    unfolding eq by auto
  have "fp_mantissa 10 (Some val) = (s, d')"
    using assms(1) by (simp add: fp_mantissa_def start f(1))
  then show ?thesis using that f(2,3) ok(3) by simp
qed

end
