(* ===== verification/Json_Number.thy ===== *)
theory Json_Number
  imports Json_Facts Number_Exact
begin

text \<open>
  Numbers put into a JSON node: \<open>set_num\<close> and the assignments of \<open>jsonnode\<close>, which print a \<open>double\<close>
  in style \<open>f\<close>, and what the text in that style says.
\<close>

section \<open>Assignments\<close>

definition json_set_num :: "u64 \<Rightarrow> int \<Rightarrow> json \<Rightarrow> error + json" where
  "json_set_num d precision node =
     (if node = JFallback then Inr JFallback
      else bindE (to_string_fp d CHR ''f'' precision) (\<lambda>s. Inr (JNumber s)))"

definition json_assign_double :: "u64 \<Rightarrow> json \<Rightarrow> error + json" where
  "json_assign_double d node = json_set_num d (-6) node"

datatype value_type =
    vt_array | vt_object | vt_number | vt_string | vt_boolean | vt_null | vt_unassigned | vt_fallback

definition json_type :: "json \<Rightarrow> value_type" where
  "json_type v =
     (case v of
        JArray _ \<Rightarrow> vt_array | JObject _ \<Rightarrow> vt_object | JNumber _ \<Rightarrow> vt_number | JString _ \<Rightarrow> vt_string
      | JBool _ \<Rightarrow> vt_boolean | JNull \<Rightarrow> vt_null | JUnassigned \<Rightarrow> vt_unassigned | JFallback \<Rightarrow> vt_fallback)"

text \<open>The tests on the type, in the order of the enumeration.\<close>

definition json_is_true :: "json \<Rightarrow> bool" where "json_is_true v \<longleftrightarrow> v = JBool True"

definition json_is_false :: "json \<Rightarrow> bool" where "json_is_false v \<longleftrightarrow> v = JBool False"

definition json_is :: "value_type \<Rightarrow> json \<Rightarrow> bool" where "json_is ty v \<longleftrightarrow> json_type v = ty"

definition json_is_assigned :: "json \<Rightarrow> bool" where
  "json_is_assigned v \<longleftrightarrow> json_type v \<notin> {vt_unassigned, vt_fallback}"

definition json_exists :: "json \<Rightarrow> bool" where "json_exists v \<longleftrightarrow> json_type v \<noteq> vt_fallback"

text \<open>Construction from a text, and a move, which leaves \<open>right\<close> unassigned.\<close>

definition json_of_text :: "string \<Rightarrow> error + json" where
  "json_of_text s =
     bindE (json_parse s JUnassigned) (\<lambda>(ok, v, e). Inr (if ok then v else json_clear v))"

definition json_move :: "json \<Rightarrow> json \<Rightarrow> json \<times> json" where
  "json_move right node =
     (if node = JFallback \<or> right = JFallback then (node, right) else (right, JUnassigned))"

definition json_assign_psnum :: "u64 \<times> int \<Rightarrow> json \<Rightarrow> error + json" where
  "json_assign_psnum n node = json_set_num (fst n) (snd n) node"

definition json_assign_type :: "value_type \<Rightarrow> json \<Rightarrow> error + json" where
  "json_assign_type v node =
     (case v of
        vt_array \<Rightarrow> Inr (json_empty_array node)
      | vt_object \<Rightarrow> Inr (json_empty_object node)
      | vt_number \<Rightarrow> json_set_num 0 (-6) node
      | vt_string \<Rightarrow> Inr (json_set_str [] node)
      | vt_boolean \<Rightarrow> Inr (json_set_bool False node)
      | _ \<Rightarrow> Inr (json_set_null node))"

section \<open>Rounding\<close>

text \<open>What a text says, and half of the last place upwards.\<close>

definition decimal_value :: "string \<Rightarrow> rat" where
  "decimal_value s =
     (let m = (take 1 s = ''-''); s = (if m then tl s else s);
          i = takeWhile is_digit s; f = drop 1 (dropWhile is_digit s)
      in (if m then -1 else 1) * (of_nat (dec_value (i @ f)) / 10 ^ length f))"

definition round_half_up :: "nat \<Rightarrow> rat \<Rightarrow> rat" where
  "round_half_up q v = of_int \<lfloor>v * 10 ^ q + 1 / 2\<rfloor> / 10 ^ q"

text \<open>Digits with \<open>d\<close> of them in front of the point, where more than one do not start with zero.\<close>

definition placed :: "nat list \<Rightarrow> nat \<Rightarrow> bool" where
  "placed s d \<longleftrightarrow> digits_ok 10 s \<and> 1 \<le> d \<and> d \<le> length s \<and> (d = 1 \<or> normal s)"

definition placed_value :: "nat list \<Rightarrow> nat \<Rightarrow> rat" where
  "placed_value s d = of_nat (digits_val 10 s) / 10 ^ (length s - d)"

lemma scaled_placed: "d \<le> length s \<Longrightarrow> scaled 10 s (int d - int (length s)) = placed_value s d"
proof -
  assume "d \<le> length s"
  then have "int d - int (length s) = - int (length s - d)" by simp
  then show ?thesis by (simp only: scaled_def placed_value_def power_int_minus power_int_of_nat) (simp add: divide_inverse)
qed

lemma point_place_ok:
  assumes "digits_at 10 s d e"
  obtains s' d' where "point_place s d = (s', int d')" and "placed s' d'" and "placed_value s' d' = scaled 10 s e"
proof (cases "d < 0")
  case True
  let ?s = "s @ replicate (nat (- d)) 0"
  from assms True have p: "placed ?s 1"
    by (auto simp: placed_def digits_at_def digits_ok_sub(4))
  have "int 1 - int (length ?s) = e" using assms True by (simp add: digits_at_def)
  moreover have "scaled 10 ?s e = scaled 10 s e" by (simp add: scaled_def)
  ultimately have "placed_value ?s 1 = scaled 10 s e" using scaled_placed [of 1 ?s] p by (simp add: placed_def)
  with p True show ?thesis by (intro that [of ?s 1]) (simp_all add: point_place_def)
next
  case False
  let ?d = "nat (d + 1)"
  from assms False have p: "placed s ?d" by (auto simp: placed_def digits_at_def)
  have "int ?d - int (length s) = e" using assms False by (simp add: digits_at_def)
  then have "placed_value s ?d = scaled 10 s e" using scaled_placed [of ?d s] p by (simp add: placed_def)
  with p False show ?thesis by (intro that [of s ?d]) (simp_all add: point_place_def)
qed

lemma round_exact: "f \<le> q \<Longrightarrow> round_half_up q (of_nat n / 10 ^ f) = of_nat n / 10 ^ f"
proof -
  assume "f \<le> q"
  then have "(10 :: rat) ^ q = 10 ^ f * 10 ^ (q - f)" by (simp flip: power_add)
  then have e: "(of_nat n / 10 ^ f) * 10 ^ q = (of_nat (n * 10 ^ (q - f)) :: rat)" by simp
  have "\<lfloor>of_nat (n * 10 ^ (q - f)) + 1 / 2 :: rat\<rfloor> = int (n * 10 ^ (q - f))"
    by (rule floor_unique) simp_all
  then show ?thesis
    unfolding round_half_up_def e using \<open>10 ^ q = 10 ^ f * 10 ^ (q - f)\<close> by simp
qed

lemma round_digits:
  assumes "f = q + Suc i"
  shows "round_half_up q (of_nat n / 10 ^ f) = of_nat ((n + 5 * 10 ^ i) div 10 ^ Suc i) / 10 ^ q"
proof -
  have "(of_nat n / 10 ^ f) * 10 ^ q + 1 / 2 = (of_nat (n + 5 * 10 ^ i) :: rat) / of_nat (10 ^ Suc i)"
    by (simp add: assms power_add field_simps)
  moreover have "\<lfloor>(of_nat (n + 5 * 10 ^ i) :: rat) / of_nat (10 ^ Suc i)\<rfloor> = int ((n + 5 * 10 ^ i) div 10 ^ Suc i)"
    by (rule floor_divide_of_nat_eq)
  ultimately show ?thesis by (simp only: round_half_up_def of_int_of_nat_eq)
qed

lemma round_placed:
  assumes "placed s d"
  obtains s' c where "digits_round (nat (int q + int d + 1)) s 10 = Inr (s', c)" and "placed s' (d + c)"
    and "length s' - (d + c) \<le> q" and "placed_value s' (d + c) = round_half_up q (placed_value s d)"
proof (cases "q + d + 1 \<le> length s")
  case False
  then have "digits_round (nat (int q + int d + 1)) s 10 = Inr (s, 0)"
    using assms by (simp add: digits_round_def nat_add_distrib)
  moreover from False have "length s - d \<le> q" by simp
  ultimately show ?thesis using that [of s 0] assms round_exact by (simp add: placed_value_def)
next
  case True
  let ?pos = "q + d + 1" and ?i = "length s - (q + d + 1)"
  from assms have p: "digits_ok 10 s" "1 \<le> d" "d \<le> length s" "d = 1 \<or> normal s" by (simp_all add: placed_def)
  obtain s' c where r: "digits_round ?pos s 10 = Inr (s', c)" "digits_ok 10 s'" "length s' = q + d + c"
      "digits_val 10 s' = (digits_val 10 s + 5 * 10 ^ ?i) div 10 ^ Suc ?i" "normal s \<longrightarrow> normal s'" "c \<le> 1" "c = 1 \<longrightarrow> normal s'"
    using digits_round_ok [OF p(1), of 5 ?pos] True p(2) by auto
  have n: "nat (int q + int d + 1) = ?pos" by simp
  have "length s - d = q + Suc ?i" using True by simp
  then have v: "round_half_up q (placed_value s d) = of_nat (digits_val 10 s') / 10 ^ q"
    unfolding placed_value_def r(4) by (rule round_digits)
  have "placed s' (d + c)" using p r by (auto simp: placed_def)
  then show ?thesis using that [of s' c] r(1,3) v by (simp only: n) (simp add: placed_value_def)
qed

section \<open>The text of style \<open>f\<close>\<close>

lemma strip_zeros_ok:
  "1 \<le> q \<Longrightarrow> \<exists>z. strip_zeros (int q) s = int (q - z) \<and> z < q \<and> z \<le> length s \<and> take z s = replicate z 0"
proof (induction s arbitrary: q)
  case Nil
  then show ?case by (intro exI [of _ 0]) simp
next
  case (Cons d s)
  show ?case
  proof (cases "1 < q \<and> d = 0")
    case True
    then have c: "int q > 1 \<and> d = 0" by simp
    have e: "int q - 1 = int (q - 1)" using True by simp
    have "1 \<le> q - 1" using True by linarith
    from Cons.IH [OF this] obtain z where
      "strip_zeros (int (q - 1)) s = int (q - 1 - z)" "z < q - 1" "z \<le> length s" "take z s = replicate z 0" by blast
    then show ?thesis
      unfolding strip_zeros.simps if_P [OF c] e using True by (intro exI [of _ "Suc z"]) simp
  next
    case False
    then have c: "\<not> (int q > 1 \<and> d = 0)" by simp
    show ?thesis unfolding strip_zeros.simps if_not_P [OF c] using Cons.prems by (intro exI [of _ 0]) simp
  qed
qed

lemma placed_zeros: "placed_value (replicate n 0 @ t) d = placed_value t d" if "d \<le> length t"
proof -
  have "n + length t - d = n + (length t - d)" using that by simp
  then show ?thesis by (simp add: placed_value_def power_add)
qed

lemma placed_drop:
  assumes "placed s d" and "take n s = replicate n 0" and "n \<le> length s - d"
  shows "placed (drop n s) d \<and> placed_value (drop n s) d = placed_value s d"
proof -
  have s: "s = replicate n 0 @ drop n s" using assms(2) by (metis append_take_drop_id)
  have "d \<le> length s" using assms(1) by (simp add: placed_def)
  with assms(3) have l: "d \<le> length (drop n s)" by simp
  have "normal (drop n s)" if "normal s"
    using that l assms(1) by (auto simp: normal_def placed_def last_drop)
  then have "placed (drop n s) d" using assms(1) l by (auto simp: placed_def digits_ok_sub(1))
  moreover have "placed_value (drop n s) d = placed_value s d"
    using placed_zeros [OF l, of n] s by simp
  ultimately show ?thesis ..
qed

definition digits_text :: "nat list \<Rightarrow> nat \<Rightarrow> string" where
  "digits_text s d =
     (let text = map digit_char s
      in if length text > d then insert_at (length text - d) CHR ''.'' text else text)"

lemma table_digits: "digits_ok 10 s \<Longrightarrow> map (\<lambda>d. casetable uc ! d) s = map digit_char s"
proof (rule map_cong [OF refl])
  fix d
  assume "digits_ok 10 s" "d \<in> set s"
  then have "d < 10" by (simp add: digits_ok_def)
  moreover have "list_all (\<lambda>d. casetable True ! d = digit_char d \<and> casetable False ! d = digit_char d) [0..<10]"
    by code_simp
  ultimately show "casetable uc ! d = digit_char d" by (cases uc) (auto simp: list_all_iff)
qed

lemma table_point: "casetable uc ! 36 = CHR ''.''" "casetable uc ! 38 = CHR ''-''"
  by (simp_all add: casetable_def)

lemma style_f_ok:
  assumes "placed s d" and "length s - d \<le> q" and "remove0s \<Longrightarrow> 1 \<le> q"
  obtains t where "style_f (casetable uc) remove0s (int q) s (int d) = digits_text t d"
    and "placed t d" and "placed_value t d = placed_value s d"
proof -
  obtain z where z: "(if remove0s then strip_zeros (int q) s else int q) = int (q - z)"
      "z \<le> q" "take z s = replicate z 0" "\<not> remove0s \<longrightarrow> z = 0"
  proof (cases remove0s)
    case True
    with strip_zeros_ok [OF assms(3), of s] that show ?thesis by (metis less_imp_le)
  qed (use that [of 0] in simp)
  have p: "digits_ok 10 s" "1 \<le> d" "d \<le> length s" using assms(1) by (simp_all add: placed_def)
  define t where "t = (if length s > q - z + d then drop (length s - (q - z + d)) s
      else replicate ((if remove0s then d else q + d) - length s) 0 @ s)"
  have w: "nat (int (q - z) + int d) = q - z + d" "nat (if remove0s then int d else int (q - z) + int d) =
      (if remove0s then d else q + d)"
    using z(4) by auto
  have t: "placed t d \<and> placed_value t d = placed_value s d"
  proof (cases "length s > q - z + d")
    case True
    let ?n = "length s - (q - z + d)"
    have "?n \<le> z" using assms(2) z(2) by simp
    then have "take ?n s = replicate ?n 0" using z(3) by (metis min.absorb1 take_replicate take_take)
    moreover have "?n \<le> length s - d" using p(2) by simp
    ultimately show ?thesis using placed_drop [OF assms(1)] True by (simp add: t_def)
  next
    case False
    then have "t = replicate ((if remove0s then d else q + d) - length s) 0 @ s" by (simp add: t_def)
    moreover have "normal (replicate n 0 @ s) \<longleftrightarrow> normal s" for n
    proof -
      have "s \<noteq> []" using p by auto
      then show ?thesis by (simp add: normal_def)
    qed
    ultimately show ?thesis using assms(1) placed_zeros [OF p(3)] by (auto simp: placed_def digits_ok_sub(4))
  qed
  have "style_f (casetable uc) remove0s (int q) s (int d) = digits_text t d"
  proof -
    have ok: "digits_ok 10 t" using t by (simp add: placed_def)
    show ?thesis
      unfolding style_f_def Let_def z(1) w t_def [symmetric] table_digits [OF ok] table_point digits_text_def nat_int ..
  qed
  with t show ?thesis using that by blast
qed

text \<open>Zero has no digits of its own.\<close>

lemma style_f_zero:
  assumes "remove0s \<Longrightarrow> 1 \<le> q"
  obtains t where "style_f (casetable uc) remove0s (int q) [] 1 = digits_text t 1"
    and "placed t 1" and "placed_value t 1 = 0"
proof -
  define t where "t = replicate (if remove0s then 1 else q + 1) (0 :: nat)"
  have ok: "digits_ok 10 t" "placed t 1" by (simp_all add: t_def placed_def digits_ok_sub(4))
  have w: "nat (if remove0s then 1 else int q + 1) = (if remove0s then 1 else q + 1)"
    by (simp add: nat_add_distrib)
  have pre: "(if remove0s then strip_zeros (int q) [] else int q) = int q" by simp
  have eq: "(if length ([] :: nat list) > nat (int q + 1) then drop (length ([] :: nat list) - nat (int q + 1)) []
      else replicate ((if remove0s then 1 else q + 1) - length ([] :: nat list)) 0 @ []) = t"
    by (simp add: t_def)
  have "style_f (casetable uc) remove0s (int q) [] 1 = digits_text t 1"
    unfolding style_f_def Let_def pre w eq table_digits [OF ok(1)] table_point digits_text_def nat_one_as_int [symmetric] ..
  moreover have "placed_value t 1 = 0" by (simp add: placed_value_def t_def)
  ultimately show ?thesis using that ok(2) by blast
qed

section \<open>Reading it\<close>

lemma dec_value_digits: "digits_ok 10 s \<Longrightarrow> dec_value (map digit_char (rev s)) = digits_val 10 s"
  by (induction s) (simp_all add: dec_value_append dec_value_def [of "[]"])

definition point_and :: "nat list \<Rightarrow> string" where
  "point_and f = (if f = [] then [] else CHR ''.'' # map digit_char f)"

lemma rev_digits_text:
  assumes "d \<le> length s"
  shows "rev (digits_text s d) =
    map digit_char (rev (drop (length s - d) s)) @ point_and (rev (take (length s - d) s))"
proof (cases "length s > d")
  case True
  then have "take (length s - d) s \<noteq> []" by auto
  with True show ?thesis
    by (simp add: digits_text_def point_and_def insert_at_def rev_map drop_map take_map)
next
  case False
  with assms show ?thesis by (simp add: digits_text_def point_and_def rev_map)
qed

lemma digit_run:
  assumes "digits_ok 10 i" and "digits_ok 10 f"
  shows "takeWhile is_digit (map digit_char i @ point_and f) = map digit_char i"
    and "dropWhile is_digit (map digit_char i @ point_and f) = point_and f"
    and "dropWhile is_digit (map digit_char f) = []"
proof -
  have p: "takeWhile is_digit (point_and f) = []" "dropWhile is_digit (point_and f) = point_and f"
    by (simp_all add: point_and_def is_digit_def)
  from assms(1) show "takeWhile is_digit (map digit_char i @ point_and f) = map digit_char i"
    "dropWhile is_digit (map digit_char i @ point_and f) = point_and f"
    by (induction i) (simp_all add: p)
  from assms(2) show "dropWhile is_digit (map digit_char f) = []" by (induction f) simp_all
qed

lemma signed_text_value:
  assumes "placed s d"
  defines "str \<equiv> rev (digits_text s d)"
  shows "decimal_value ((if m then ''-'' else []) @ str) = (if m then -1 else 1) * placed_value s d"
    and "number_text ((if m then ''-'' else []) @ str)"
proof -
  let ?g = "length s - d" and ?t = "(if m then ''-'' else []) @ str"
  let ?i = "rev (drop ?g s)" and ?f = "rev (take ?g s)"
  have p: "digits_ok 10 s" "1 \<le> d" "d \<le> length s" "d = 1 \<or> last s \<noteq> 0"
    using assms(1) by (auto simp: placed_def normal_def)
  have ok: "digits_ok 10 ?i" "digits_ok 10 ?f"
    using p(1) by (auto simp: digits_ok_def dest: in_set_dropD in_set_takeD)
  have str: "str = map digit_char ?i @ point_and ?f" unfolding str_def by (rule rev_digits_text [OF p(3)])
  have len: "length ?i = d" "length ?f = ?g" using p(3) by simp_all
  obtain c i' where i: "?i = c # i'" using p(2) len(1) by (cases ?i) simp_all
  have "c = last s" using i p(2,3) by (metis diff_less hd_rev last_drop len(1) length_greater_0_conv length_rev less_le_trans list.discI list.sel(1) zero_less_one)
  then have c: "c < 10" "c = 0 \<longrightarrow> i' = []"
    using ok(1) i p(4) len(1) by auto
  have start: "str = digit_char c # map digit_char i' @ point_and ?f" unfolding str i by simp
  have digit: "is_digit (digit_char c)" "digit_char c \<noteq> CHR ''-''"
    using c(1) digit_char_simps(1) dash_not_digit by metis+
  have sign: "(take 1 ?t = ''-'') = m" "(if m then tl ?t else ?t) = str"
    using start digit(2) by simp_all
  have "?i @ ?f = rev s" by (metis append_take_drop_id rev_append)
  then have val: "dec_value (map digit_char ?i @ map digit_char ?f) = digits_val 10 s"
    using dec_value_digits [OF p(1)] by (metis map_append)
  have after: "drop 1 (point_and ?f) = map digit_char ?f" by (simp add: point_and_def)
  show "decimal_value ?t = (if m then -1 else 1) * placed_value s d"
  proof -
    have "decimal_value ?t = (if m then -1 else 1) * (of_nat (dec_value (takeWhile is_digit str @ drop 1 (dropWhile is_digit str))) /
        10 ^ length (drop 1 (dropWhile is_digit str)))"
      by (simp only: decimal_value_def Let_def sign)
    also have "\<dots> = (if m then -1 else 1) * placed_value s d"
      by (simp only: str digit_run [OF ok] after val placed_value_def length_map len(2))
    finally show ?thesis .
  qed
  define cs where "cs = map digit_char i' @ point_and ?f"
  have cs: "str = digit_char c # cs" using start by (simp add: cs_def)
  have zero: "cs = point_and ?f" if "digit_char c = CHR ''0''"
  proof -
    have "digit_value (digit_char c) = digit_value CHR ''0''" using that by simp
    with c(1) have "c = 0" by (simp add: digit_value_def of_digit_char)
    with c(2) show ?thesis by (simp add: cs_def)
  qed
  have run: "dropWhile is_digit cs = point_and ?f"
    using digit_run(2) [OF ok] digit(1) unfolding str [symmetric] cs by simp
  have frac: "json_fraction (point_and ?f) = (True, [])"
  proof (cases "?f = []")
    case False
    then obtain x xs where x: "?f = x # xs" by (cases ?f) simp_all
    with ok(2) have "is_digit (digit_char x)" by simp
    with digit_run(3) [OF ok(1,2)] x False show ?thesis
      by (simp add: json_fraction_def point_and_def some_digits_def)
  qed (simp add: json_fraction_def point_and_def)
  have "json_number ?t = (0, JNumber ?t, [])"
    unfolding json_number_def Let_def sign
    using digit(1) zero run frac by (simp add: cs json_exponent_def skip_spaces_def)
  then show "number_text ?t" by (simp add: number_text_def)
qed

section \<open>What is printed\<close>

text \<open>The value of a \<open>double\<close> that is not infinite.\<close>

definition fp_value :: "u64 \<Rightarrow> rat" where
  "fp_value w = (if fp_negative w then -1 else 1) * fp_abs w"

lemma fp_not_special:
  assumes "fp_finite w"
  shows "fp_special table w = None"
proof -
  have "\<not> fp_finite x" if "x \<in> {fp_infinity, fp_neg fp_infinity, fp_quiet_NaN, fp_neg fp_quiet_NaN,
      fp_signaling_NaN, fp_neg fp_signaling_NaN}" for x
    using that by (auto simp: fp_finite_def fp_exponent_def fp_infinity_def fp_neg_def fp_quiet_NaN_def fp_signaling_NaN_def)
  with assms show ?thesis by (auto simp: fp_special_def)
qed

lemma to_string_fp_digits:
  assumes "fp_finite w"
  shows "\<exists>t d. to_string_fp w CHR ''f'' precision = Inr ((if fp_negative w then ''-'' else []) @ rev (digits_text t d)) \<and>
    placed t d \<and> placed_value t d = round_half_up (nat \<bar>precision\<bar>) (fp_abs w)"
proof -
  let ?q = "nat \<bar>precision\<bar>"
  have q: "\<bar>precision\<bar> = int ?q" by simp
  obtain r dp where m: "fp_mantissa 10 (Some (fp_abs w)) = (r, dp)" by fastforce
  have "\<exists>t d. fp_styled (casetable False) 10 CHR ''f'' (precision < 0) (int ?q) r dp = Inr (digits_text t d) \<and>
      placed t d \<and> placed_value t d = round_half_up ?q (fp_abs w)"
  proof (cases "fp_abs w = 0")
    case True
    with m have "r = []" "dp = 0" by (simp_all add: fp_mantissa_def)
    moreover have "precision < 0 \<Longrightarrow> 1 \<le> ?q" by simp
    from style_f_zero [OF this] obtain t where
      "style_f (casetable False) (precision < 0) (int ?q) [] 1 = digits_text t 1" "placed t 1" "placed_value t 1 = 0"
      by blast
    moreover have "round_half_up ?q 0 = 0" using round_exact [of 0 ?q 0] by simp
    ultimately show ?thesis
      using True by (intro exI [of _ t] exI [of _ 1]) (simp add: fp_styled_def point_place_def digits_round_def)
  next
    case False
    with fp_abs_nonneg [of w] have "0 < fp_abs w" by simp
    from fp_mantissa_exact [OF this dyadic_fp] m obtain e where
      e: "digits_at 10 r dp e" "scaled 10 r e = fp_abs w" by auto
    from point_place_ok [OF e(1)] obtain r' d' where
      r': "point_place r dp = (r', int d')" "placed r' d'" "placed_value r' d' = fp_abs w" using e(2) by auto
    from round_placed [OF r'(2), of ?q] obtain r'' c where
      r'': "digits_round (nat (int ?q + int d' + 1)) r' 10 = Inr (r'', c)" "placed r'' (d' + c)"
        "length r'' - (d' + c) \<le> ?q" "placed_value r'' (d' + c) = round_half_up ?q (fp_abs w)"
      using r'(3) by auto
    have "precision < 0 \<Longrightarrow> 1 \<le> ?q" by simp
    from style_f_ok [OF r''(2,3) this] obtain t where
      t: "style_f (casetable False) (precision < 0) (int ?q) r'' (int (d' + c)) = digits_text t (d' + c)"
        "placed t (d' + c)" "placed_value t (d' + c) = round_half_up ?q (fp_abs w)"
      using r''(4) by auto
    then show ?thesis using r'(1) r''(1) by (intro exI [of _ t] exI [of _ "d' + c"]) (simp add: fp_styled_def)
  qed
  then obtain t d where t: "fp_styled (casetable False) 10 CHR ''f'' (precision < 0) (int ?q) r dp = Inr (digits_text t d)"
      "placed t d" "placed_value t d = round_half_up ?q (fp_abs w)" by blast
  have "to_string_fp w CHR ''f'' precision = Inr ((if fp_negative w then ''-'' else []) @ rev (digits_text t d))"
    using assms m t(1) fp_not_special [OF assms] q
    by (simp add: to_string_fp_def Let_def table_point)
  with t(2,3) show ?thesis by blast
qed

lemma to_string_fp_fixed:
  assumes "fp_finite w"
  shows "\<exists>s. to_string_fp w CHR ''f'' precision = Inr s \<and> number_text s \<and>
    decimal_value s = (if fp_negative w then -1 else 1) * round_half_up (nat \<bar>precision\<bar>) (fp_abs w)"
  using to_string_fp_digits [OF assms, of precision] signed_text_value [where m = "fp_negative w"] by metis

end
