(* ===== verification/Json_Utf16.thy ===== *)
theory Json_Utf16
  imports Json_Facts Json_Object
begin

text \<open>
  The variant of \<open>jsonnode\<close> with 16-bit characters (\<open>u16json\<close>, \<open>utf16tag\<close>): its strings are lists of
  code units below \<open>2 ^ 16\<close>, the text that is parsed and printed is UTF-8. \<open>append\<close> of a range of
  \<open>char\<close> extends the sign of each; the last units are then overwritten by what was decoded, which is
  written here as the decoded units themselves.
\<close>

section \<open>Parsing a string\<close>

definition unit_of :: "char \<Rightarrow> nat" where
  "unit_of c = (if of_char c < (0x80 :: nat) then of_char c else 0xFF00 + of_char c)"

definition continuation :: "char \<Rightarrow> bool" where
  "continuation c \<longleftrightarrow> of_char c div 0x40 = (2 :: nat)"

text \<open>
  The octets of one character, from the first, which is not below \<open>0x80\<close>: the units, or \<open>None\<close> where
  they are not UTF-8, and the unread rest.
\<close>

definition decode_octets :: "char \<Rightarrow> string \<Rightarrow> nat list option \<times> string" where
  "decode_octets c cs =
     (let ch = of_char c :: nat in
      if ch \<ge> 0xC2 then
        if ch div 0x20 mod 2 = 0 then
          (case cs of
             [] \<Rightarrow> (None, [])
           | d # ds \<Rightarrow> if continuation d then (Some [ch mod 0x20 * 0x40 + of_char d mod 0x40], ds) else (None, cs))
        else if ch div 0x10 mod 2 = 0 then
          (case cs of
             [] \<Rightarrow> (None, [])
           | d # ds \<Rightarrow>
               if continuation d \<and> ch * 0x100 + of_char d \<ge> 0xE0A0 then
                 (case ds of
                    [] \<Rightarrow> (None, [])
                  | e # es \<Rightarrow>
                      if continuation e
                      then (Some [ch mod 0x10 * 0x1000 + of_char d mod 0x40 * 0x40 + of_char e mod 0x40], es)
                      else (None, ds))
               else (None, cs))
        else if ch \<le> 0xF4 then
          (case cs of
             [] \<Rightarrow> (None, [])
           | d # ds \<Rightarrow>
               if continuation d \<and> 0xF090 \<le> ch * 0x100 + of_char d \<and> ch * 0x100 + of_char d \<le> 0xF48F then
                 (case ds of
                    [] \<Rightarrow> (None, [])
                  | e # es \<Rightarrow>
                      if continuation e then
                        (case es of
                           [] \<Rightarrow> (None, [])
                         | f # fs \<Rightarrow>
                             if continuation f then
                               (let u = (ch mod 8 * 0x1000 + of_char d mod 0x40 * 0x40 + of_char e mod 0x40) * 0x40 +
                                        of_char f mod 0x40 - 0x10000
                                in (Some [0xD800 + u div 0x400, 0xDC00 + u mod 0x400], fs))
                             else (None, es))
                      else (None, ds))
               else (None, cs))
        else (None, c # cs)
      else (None, c # cs))"

lemma decode_octets_length: "decode_octets c cs = (r, rest) \<Longrightarrow> r \<noteq> None \<Longrightarrow> length rest < length (c # cs)"
  by (auto simp: decode_octets_def Let_def split: if_splits list.splits)

function parse_string16 :: "nat list \<Rightarrow> nat list \<Rightarrow> string \<Rightarrow> error + nat list option \<times> string" where
  "parse_string16 str raw [] = Inr (None, [])"
| "parse_string16 str raw (c # cs) =
     (if c = DQUOTE then Inr (Some (str @ raw), skip_spaces cs)
      else if c = BSLASH then
        (case cs of
           [] \<Rightarrow> Inr (None, [])
         | n # rest \<Rightarrow>
             (case json_escape n of
                Some e \<Rightarrow> parse_string16 (str @ raw @ [of_char e]) [] rest
              | None \<Rightarrow>
                  if n = CHR ''u'' then
                    (case parse_4hexdigits rest of
                       HexEnd \<Rightarrow> Inl (Undefined OutOfBounds)
                     | HexStop k \<Rightarrow> parse_string16 str (raw @ map unit_of (c # n # take k rest)) (drop k rest)
                     | HexDigits ucp \<Rightarrow> parse_string16 (str @ raw @ [ucp]) [] (drop 4 rest))
                  else parse_string16 str (raw @ [unit_of c, unit_of n]) rest))
      else if of_char c \<ge> (0x80 :: nat) then
        (case decode_octets c cs of
           (None, rest) \<Rightarrow> Inr (None, rest)
         | (Some us, rest) \<Rightarrow> parse_string16 (str @ raw @ us) [] rest)
      else parse_string16 str (raw @ [unit_of c]) cs)"
  by pat_completeness auto
termination parse_string16
  by (relation "measure (\<lambda>(_, _, s). length s)") (auto dest: decode_octets_length [OF sym])

declare parse_string16.simps [simp del]

section \<open>Printing a string\<close>

text \<open>
  \<open>escape_\<close>: \<open>d\<close> is what was appended, \<open>prev\<close> the first half of a surrogate pair or 0. The second half
  rewrites the last three bytes and adds a fourth.
\<close>

fun escape16 :: "string \<Rightarrow> nat \<Rightarrow> nat list \<Rightarrow> string" where
  "escape16 d prev [] = d"
| "escape16 d prev (c # s) =
     (let ch = c mod 0x10000 in
      if ch < 0x20 then
        escape16 (d @ BSLASH # ''u00'' @
          [chr (ch div 16 + 0x30), chr (ch mod 16 + (if ch mod 16 < 10 then 0x30 else 0x41 - 10))]) 0 s
      else if ch = 0x22 \<or> ch = 0x5C then escape16 (d @ [BSLASH, chr ch]) 0 s
      else if ch \<ge> 0x80 then
        if ch \<ge> 0x800 then
          if prev \<noteq> 0 \<and> low_surrogate ch then escape16 (join_surrogates prev ch d) 0 s
          else escape16 (d @ utf8_bytes ch) (if high_surrogate ch then ch else 0) s
        else escape16 (d @ utf8_bytes ch) 0 s
      else escape16 (d @ [chr ch]) 0 s)"

declare escape16.simps(2) [simp del]

section \<open>Lengths of keys\<close>

definition keylen_size16 :: nat where "keylen_size16 = 2"

definition append_keyinfo16 :: "nat list \<Rightarrow> nat list \<Rightarrow> nat list" where
  "append_keyinfo16 order add =
     order @ [length add mod 0x10000, length add div 0x100 div 0x100 mod 0x10000] @ add"

definition get_keylen16 :: "nat list \<Rightarrow> nat" where
  "get_keylen16 p = p ! 0 mod 0x10000 + p ! 1 mod 0x10000 * 0x100 * 0x100"

lemma get_keylen16_append:
  "length add < 2 ^ 32 \<Longrightarrow> get_keylen16 (drop (length order) (append_keyinfo16 order add @ s)) = length add"
proof -
  assume "length add < 2 ^ 32"
  then have "length add div 0x10000 < 0x10000" by (simp add: less_mult_imp_div_less)
  moreover have "length add div 0x100 div 0x100 = length add div 0x10000" by (simp flip: div_mult2_eq)
  ultimately show ?thesis by (simp add: get_keylen16_def append_keyinfo16_def)
qed

section \<open>What is printed is read back\<close>

text \<open>What is still to be appended may as well be appended at once.\<close>

lemma parse_string16_raw: "parse_string16 str raw s = parse_string16 (str @ raw) [] s"
proof (induction "length s" arbitrary: str raw s rule: less_induct)
  case less
  show ?case
  proof (cases s)
    case Nil
    then show ?thesis by (simp add: parse_string16.simps(1))
  next
    case (Cons c cs)
    have IH: "parse_string16 str (raw @ x) s' = parse_string16 (str @ raw @ x) [] s'"
      "parse_string16 (str @ raw) (y # x) s' = parse_string16 (str @ raw @ y # x) [] s'"
      if "length s' \<le> length cs" for x y s'
      using less [of s' str "raw @ x"] less [of s' "str @ raw" "y # x"] that Cons by simp_all
    show ?thesis
      unfolding Cons by (simp add: parse_string16.simps(2) IH split: list.split option.split hex4.split prod.split)
  qed
qed

lemma parse16_step:
  "of_char c < (0x80 :: nat) \<Longrightarrow> c \<noteq> DQUOTE \<Longrightarrow> c \<noteq> BSLASH \<Longrightarrow>
     parse_string16 str [] (c # s) = parse_string16 (str @ [of_char c]) [] s"
  by (simp add: parse_string16.simps(2) parse_string16_raw [of str "[_]"] unit_of_def)

lemma parse16_octets:
  "of_char c \<ge> (0x80 :: nat) \<Longrightarrow> decode_octets c cs = (Some us, rest) \<Longrightarrow>
     parse_string16 str [] (c # cs) = parse_string16 (str @ us) [] rest"
  by (auto simp: parse_string16.simps(2) json_chars)

lemma of_chr [simp]: "n < 0x100 \<Longrightarrow> of_char (chr n) = n"
  by (simp add: chr_def)

lemma tail_octet [simp]: "n mod 0x40 + 0x80 < (0x100 :: nat)" "(n mod 0x40 + 0x80) mod 0x40 = n mod (0x40 :: nat)"
  "(n mod 0x40 + 0x80) div 0x40 = (2 :: nat)"
proof -
  have "n mod 0x40 < 0x40" by simp
  then show "n mod 0x40 + 0x80 < 0x100" by linarith
  show "(n mod 0x40 + 0x80) mod 0x40 = n mod (0x40 :: nat)" "(n mod 0x40 + 0x80) div 0x40 = (2 :: nat)"
    using mod_mult_self1 [of "n mod 0x40" 2 "0x40"] div_mult_self1 [of "0x40" "n mod 0x40" 2] by simp_all
qed

lemma chr_of [simp]: "chr (of_char c) = c"
  by (simp add: chr_def)

lemma of_quotes: "of_char DQUOTE = (0x22 :: nat)" "of_char BSLASH = (0x5C :: nat)"
  by (simp_all add: json_chars)

lemma continuation_chr [simp]: "continuation (chr (n mod 0x40 + 0x80))"
  by (simp add: continuation_def)

lemma parse_utf8_bytes:
  assumes "0x80 \<le> ch" and "ch < 0x10000"
  shows "parse_string16 str [] (utf8_bytes ch @ s) = parse_string16 (str @ [ch]) [] s"
proof (cases "ch < 0x800")
  case True
  define h where "h = ch div 64"
  have h: "2 \<le> h" "h < 32" "ch = h * 64 + ch mod 64" using assms True by (simp_all add: h_def)
  have o: "of_char (chr (h + 0xC0)) = h + 0xC0" using h by simp
  have "(h + 0xC0) div 32 mod 2 = 0" using h(2) by (simp add: div_add1_eq)
  moreover have "(h + 0xC0) mod 32 = h" using h(2) by (simp add: mod_add_eq [symmetric])
  ultimately have "decode_octets (chr (h + 0xC0)) (chr (ch mod 64 + 0x80) # s) = (Some [ch], s)"
    using h by (simp add: decode_octets_def Let_def o)
  moreover have "utf8_bytes ch = [chr (h + 0xC0), chr (ch mod 64 + 0x80)]"
    using assms True h by (simp add: utf8_bytes_def h_def)
  ultimately show ?thesis using parse16_octets [of "chr (h + 0xC0)"] o by simp
next
  case False
  define h where "h = ch div 4096"
  define m where "m = ch div 64"
  have h: "h < 16" "ch = h * 4096 + m mod 64 * 64 + ch mod 64" "h = 0 \<Longrightarrow> 32 \<le> m mod 64"
  proof -
    show "h < 16" using assms(2) by (simp add: h_def less_mult_imp_div_less)
    have "ch = m * 64 + ch mod 64" "m = m div 64 * 64 + m mod 64" by (simp_all add: m_def)
    moreover have "m div 64 = h" by (simp add: m_def h_def flip: div_mult2_eq)
    ultimately show "ch = h * 4096 + m mod 64 * 64 + ch mod 64" by linarith
    show "32 \<le> m mod 64" if "h = 0"
    proof -
      have "m < 64" using that \<open>m div 64 = h\<close> by (simp add: div_eq_0_iff)
      moreover have "32 \<le> m" using False div_le_mono [of 2048 ch 64] by (simp add: m_def)
      ultimately show ?thesis by simp
    qed
  qed
  have o: "of_char (chr (h + 0xE0)) = h + 0xE0" using h by simp
  have "(h + 0xE0) div 32 mod 2 = 1" "(h + 0xE0) div 16 mod 2 = 0" "(h + 0xE0) mod 16 = h"
    using h(1) div_mult_self1 [of 32 h 7] div_mult_self1 [of 16 h 14] mod_mult_self1 [of h 14 16] by simp_all
  moreover have "(h + 0xE0) * 0x100 + of_char (chr (m mod 0x40 + 0x80)) \<ge> 0xE0A0"
    using h(1,3) by (cases "h = 0") simp_all
  ultimately have "decode_octets (chr (h + 0xE0)) (chr (m mod 64 + 0x80) # chr (ch mod 64 + 0x80) # s) = (Some [ch], s)"
    using h by (simp add: decode_octets_def Let_def o)
  moreover have "utf8_bytes ch = [chr (h + 0xE0), chr (m mod 64 + 0x80), chr (ch mod 64 + 0x80)]"
    using assms False h by (simp add: utf8_bytes_def h_def m_def)
  ultimately show ?thesis using parse16_octets [of "chr (h + 0xE0)"] o by simp
qed

lemma surrogate_values:
  "high_surrogate p \<Longrightarrow> p = 0xD800 + p mod 0x400 \<and> 0x800 \<le> p \<and> p < 0x10000 \<and> p \<noteq> 0"
  "low_surrogate c \<Longrightarrow> c = 0xDC00 + c mod 0x400"
proof -
  assume "high_surrogate p"
  then have "0xD800 \<le> p" "p < 0xDC00" by (simp_all add: high_surrogate_def)
  moreover from this have "p mod 0x400 = p - 0xD800" by (simp add: mod_nat_eqI)
  ultimately show "p = 0xD800 + p mod 0x400 \<and> 0x800 \<le> p \<and> p < 0x10000 \<and> p \<noteq> 0" by simp
next
  assume "low_surrogate c"
  then have "0xDC00 \<le> c" "c \<le> 0xDFFF" by (simp_all add: low_surrogate_def)
  moreover from this have "c mod 0x400 = c - 0xDC00" by (simp add: mod_nat_eqI)
  ultimately show "c = 0xDC00 + c mod 0x400" by simp
qed

definition four_octets :: "nat \<Rightarrow> string" where
  "four_octets u = [chr (u div 2 ^ 18 + 0xF0), chr (u div 2 ^ 12 mod 0x40 + 0x80),
     chr (u div 2 ^ 6 mod 0x40 + 0x80), chr (u mod 0x40 + 0x80)]"

definition pair_value :: "nat \<Rightarrow> nat \<Rightarrow> nat" where
  "pair_value p c = p mod 0x400 * 0x400 + c mod 0x400 + 0x10000"

lemma pair_value_range: "0x10000 \<le> pair_value p c" "pair_value p c < 0x110000"
proof -
  have "p mod 0x400 < 0x400" "c mod 0x400 < 0x400" by simp_all
  then show "pair_value p c < 0x110000" unfolding pair_value_def by linarith
qed (simp add: pair_value_def)

lemma join_surrogates_bytes:
  assumes "high_surrogate p"
  shows "join_surrogates p c (d @ utf8_bytes p) = d @ four_octets (pair_value p c)"
proof -
  have "length (utf8_bytes p) = 3" using surrogate_values(1) [OF assms] by (simp add: utf8_bytes_def)
  moreover have "pair_value p c div 2 ^ 18 < 8" using pair_value_range(2) [of p c] by (simp add: less_mult_imp_div_less)
  ultimately show ?thesis by (simp add: join_surrogates_def four_octets_def pair_value_def Let_def)
qed

lemma parse_four_octets:
  assumes "high_surrogate p" and "low_surrogate c"
  shows "parse_string16 str [] (four_octets (pair_value p c) @ s) = parse_string16 (str @ [p, c]) [] s"
proof -
  define u where "u = pair_value p c"
  define a b where "a = u div 2 ^ 18" and "b = u div 2 ^ 12"
  have r: "0x10000 \<le> u" "u < 0x110000" using pair_value_range by (simp_all add: u_def)
  have a: "a \<le> 4" using r(2) by (simp add: a_def less_mult_imp_div_less flip: less_Suc_eq_le)
  have "a = b div 64" by (simp add: a_def b_def flip: div_mult2_eq)
  then have ab: "b = a * 64 + b mod 64" by simp
  have low: "16 \<le> b" "b < 272" using r div_le_mono [OF r(1), of "2 ^ 12"] by (simp_all add: b_def less_mult_imp_div_less)
  have "b = u div 64 div 64" by (simp add: b_def flip: div_mult2_eq)
  then have "u div 64 = b * 64 + u div 64 mod 64" by simp
  moreover have "u = u div 64 * 64 + u mod 64" by simp
  moreover have "x = (a * 0x1000 + e * 0x40 + y) * 0x40 + z"
    if "v = b * 64 + y" "x = v * 64 + z" "b = a * 64 + e" for v x y z e :: nat
    using that by simp
  ultimately have "u = (a * 0x1000 + b mod 64 * 0x40 + u div 64 mod 64) * 0x40 + u mod 64"
    using ab by blast
  then have u: "u = (a * 0x1000 + b mod 64 * 0x40 + u div 2 ^ 6 mod 64) * 0x40 + u mod 64" by simp
  have o: "of_char (chr (a + 0xF0)) = a + 0xF0" using a by simp
  have "(a + 0xF0) div 32 = 7" "(a + 0xF0) div 16 = 15" by (rule div_nat_eqI; use a in simp)+
  then have "(a + 0xF0) div 32 mod 2 = 1" "(a + 0xF0) div 16 mod 2 = 1" "(a + 0xF0) mod 8 = a"
    using a mod_mult_self1 [of a 30 8] by simp_all
  moreover have "0xF090 \<le> (a + 0xF0) * 0x100 + of_char (chr (b mod 0x40 + 0x80))"
      "(a + 0xF0) * 0x100 + of_char (chr (b mod 0x40 + 0x80)) \<le> 0xF48F"
  proof -
    have "b mod 64 < 64" by simp
    then have "a * 0x100 + b mod 64 \<le> 1039" using a ab low by (cases "a = 4", linarith, linarith)
    moreover have "16 \<le> b mod 64" if "a = 0" using ab low that by (metis add_0 mult_0)
    ultimately show "0xF090 \<le> (a + 0xF0) * 0x100 + of_char (chr (b mod 0x40 + 0x80))"
        "(a + 0xF0) * 0x100 + of_char (chr (b mod 0x40 + 0x80)) \<le> 0xF48F"
      by (cases "a = 0", simp_all)
  qed
  ultimately have dec: "decode_octets (chr (a + 0xF0)) (chr (b mod 64 + 0x80) # chr (d mod 64 + 0x80) # chr (u mod 64 + 0x80) # s) =
      (let v = (a * 0x1000 + b mod 64 * 0x40 + d mod 64) * 0x40 + u mod 64 - 0x10000
       in (Some [0xD800 + v div 0x400, 0xDC00 + v mod 0x400], s))" for d
    by (simp add: decode_octets_def Let_def o)
  have tl: "tl (four_octets u) @ s = chr (b mod 64 + 0x80) # chr (u div 2 ^ 6 mod 64 + 0x80) # chr (u mod 64 + 0x80) # s"
    by (simp add: four_octets_def b_def)
  have "decode_octets (chr (a + 0xF0)) (tl (four_octets u) @ s) =
      (Some [0xD800 + (u - 0x10000) div 0x400, 0xDC00 + (u - 0x10000) mod 0x400], s)"
    unfolding tl dec u [symmetric] Let_def ..
  moreover have "u - 0x10000 = p mod 0x400 * 0x400 + c mod 0x400" by (simp add: u_def pair_value_def)
  then have "0xD800 + (u - 0x10000) div 0x400 = p" "0xDC00 + (u - 0x10000) mod 0x400 = c"
    using surrogate_values(1) [OF assms(1)] surrogate_values(2) [OF assms(2)] by simp_all
  ultimately have "decode_octets (chr (a + 0xF0)) (tl (four_octets u) @ s) = (Some [p, c], s)" by simp
  moreover have eq: "four_octets u @ s = chr (a + 0xF0) # tl (four_octets u) @ s"
    by (simp add: four_octets_def a_def)
  moreover have "of_char (chr (a + 0xF0)) \<ge> (0x80 :: nat)" unfolding o by simp
  ultimately show ?thesis unfolding u_def [symmetric] eq by (intro parse16_octets)
qed

lemma parse_control16:
  assumes "ch < 0x20"
  shows "parse_string16 str [] (BSLASH # ''u00'' @
      [chr (ch div 16 + 0x30), chr (ch mod 16 + (if ch mod 16 < 10 then 0x30 else 0x41 - 10))] @ s) =
    parse_string16 (str @ [ch]) [] s"
proof -
  have h: "hex_value (CHR ''0'') = Some 0" by (simp add: hex_value_def)
  have d: "hex_value (chr (ch div 16 + 0x30)) = Some (ch div 16)" using assms by (intro hex_value_chr) simp
  have l: "hex_value (chr (ch mod 16 + (if ch mod 16 < 10 then 0x30 else 0x41 - 10))) = Some (ch mod 16)"
    using hex_value_chr [of "ch mod 16"] by simp
  have "parse_4hexdigits (CHR ''0'' # CHR ''0'' # chr (ch div 16 + 0x30) #
      chr (ch mod 16 + (if ch mod 16 < 10 then 0x30 else 0x41 - 10)) # s) = HexDigits ch"
    using parse_4hexdigits_Some [OF h h d l] by simp
  then show ?thesis by (simp add: parse_string16.simps(2) json_escape_Some json_chars json_escape_def)
qed

lemma parse_quoted16:
  assumes "ch = 0x22 \<or> ch = 0x5C"
  shows "parse_string16 str [] (BSLASH # chr ch # s) = parse_string16 (str @ [ch]) [] s"
proof -
  note o = of_quotes
  have "chr 0x22 = DQUOTE" "chr 0x5C = BSLASH" using chr_of [of DQUOTE] chr_of [of BSLASH] by (simp_all only: o)
  with assms show ?thesis by (auto simp: parse_string16.simps(2) json_escape_Some o) (simp_all add: json_chars)
qed

text \<open>
  Units in front of which a first half of a pair stands, or none: what is appended for them is parsed
  back. The bytes of the first half are not final before the next unit is seen.
\<close>

lemma escape16_read_back:
  assumes "\<forall>u\<in>set us. u < 0x10000"
  shows "\<exists>b. (\<forall>d. escape16 d 0 us = d @ b) \<and>
      (\<forall>str s. parse_string16 str [] (b @ DQUOTE # s) = Inr (Some (str @ us), skip_spaces s))"
    and "high_surrogate p \<Longrightarrow> \<exists>b. (\<forall>d. escape16 (d @ utf8_bytes p) p us = d @ b) \<and>
      (\<forall>str s. parse_string16 str [] (b @ DQUOTE # s) = Inr (Some (str @ p # us), skip_spaces s))"
  using assms
proof (induction us arbitrary: p)
  case Nil
  {
    case 1
    show ?case by (intro exI [of _ "[]"]) (simp add: parse_string16.simps(2))
  next
    case 2
    with surrogate_values(1) [of p] show ?case
      by (intro exI [of _ "utf8_bytes p"]) (simp add: parse_utf8_bytes parse_string16.simps(2))
  }
next
  case (Cons c us)
  have first: "\<exists>b. (\<forall>d. escape16 d 0 (c # us) = d @ b) \<and>
      (\<forall>str s. parse_string16 str [] (b @ DQUOTE # s) = Inr (Some (str @ c # us), skip_spaces s))"
    if us: "\<forall>u\<in>set (c # us). u < 0x10000"
  proof -
    from us have c: "c < 0x10000" "c mod 0x10000 = c" "\<forall>u\<in>set us. u < 0x10000" by simp_all
    obtain b where b: "\<And>d. escape16 d 0 us = d @ b"
        "\<And>str s. parse_string16 str [] (b @ DQUOTE # s) = Inr (Some (str @ us), skip_spaces s)"
      using Cons.IH(1) [OF c(3)] by blast
    consider "c < 0x20" | "\<not> c < 0x20" "c = 0x22 \<or> c = 0x5C" | "\<not> c < 0x20" "\<not> (c = 0x22 \<or> c = 0x5C)" "c < 0x80"
      | "0x80 \<le> c" "\<not> high_surrogate c" | "high_surrogate c" by linarith
    then show ?thesis
    proof cases
      case 1
      let ?e = "BSLASH # ''u00'' @ [chr (c div 16 + 0x30), chr (c mod 16 + (if c mod 16 < 10 then 0x30 else 0x41 - 10))]"
      have "escape16 d 0 (c # us) = d @ ?e @ b" for d
        using 1 by (simp add: escape16.simps(2) c(2) b(1) Let_def)
      moreover have "parse_string16 str [] ((?e @ b) @ DQUOTE # s) = Inr (Some (str @ c # us), skip_spaces s)" for str s
        using parse_control16 [OF 1, of str "b @ DQUOTE # s"] b(2) by simp
      ultimately show ?thesis by blast
    next
      case 2
      have "escape16 d 0 (c # us) = d @ [BSLASH, chr c] @ b" for d
        using 2 by (simp add: escape16.simps(2) c(2) b(1) Let_def)
      moreover have "parse_string16 str [] (([BSLASH, chr c] @ b) @ DQUOTE # s) = Inr (Some (str @ c # us), skip_spaces s)" for str s
        using parse_quoted16 [OF 2(2), of str "b @ DQUOTE # s"] b(2) by simp
      ultimately show ?thesis by blast
    next
      case 3
      have "escape16 d 0 (c # us) = d @ [chr c] @ b" for d
        using 3 by (simp add: escape16.simps(2) c(2) b(1) Let_def)
      moreover have "chr c \<noteq> DQUOTE" "chr c \<noteq> BSLASH"
      proof -
        have "of_char (chr c) = c" using 3(3) by simp
        then show "chr c \<noteq> DQUOTE" "chr c \<noteq> BSLASH" using 3(2) of_quotes by metis+
      qed
      then have "parse_string16 str [] (([chr c] @ b) @ DQUOTE # s) = Inr (Some (str @ c # us), skip_spaces s)" for str s
        using parse16_step [of "chr c" str "b @ DQUOTE # s"] 3(3) b(2) by simp
      ultimately show ?thesis by blast
    next
      case 4
      have "escape16 d 0 (c # us) = d @ utf8_bytes c @ b" for d
        using 4 by (simp add: escape16.simps(2) c(2) b(1) Let_def)
      moreover have "parse_string16 str [] ((utf8_bytes c @ b) @ DQUOTE # s) = Inr (Some (str @ c # us), skip_spaces s)" for str s
        using parse_utf8_bytes [OF 4(1) c(1), of str "b @ DQUOTE # s"] b(2) by simp
      ultimately show ?thesis by blast
    next
      case 5
      note v = surrogate_values(1) [OF 5]
      have "escape16 d 0 (c # us) = escape16 (d @ utf8_bytes c) c us" for d
        using v 5 by (simp add: escape16.simps(2) c(2) Let_def)
      with Cons.IH(2) [OF 5 c(3)] show ?thesis by simp
    qed
  qed
  {
    case 1
    then show ?case by (rule first)
  next
    case 2
    then have p: "high_surrogate p" and c: "c mod 0x10000 = c" "\<forall>u\<in>set us. u < 0x10000" by simp_all
    note v = surrogate_values(1) [OF p]
    show ?case
    proof (cases "low_surrogate c")
      case True
      have c8: "0x800 \<le> c" using surrogate_values(2) [OF True] by linarith
      obtain b where b: "\<And>d. escape16 d 0 us = d @ b"
          "\<And>str s. parse_string16 str [] (b @ DQUOTE # s) = Inr (Some (str @ us), skip_spaces s)"
        using Cons.IH(1) [OF c(2)] by blast
      have "escape16 (d @ utf8_bytes p) p (c # us) = d @ four_octets (pair_value p c) @ b" for d
        using True v c8 by (simp add: escape16.simps(2) c(1) b(1) Let_def join_surrogates_bytes [OF p])
      moreover have "parse_string16 str [] ((four_octets (pair_value p c) @ b) @ DQUOTE # s) =
          Inr (Some (str @ p # c # us), skip_spaces s)" for str s
        using parse_four_octets [OF p True, of str "b @ DQUOTE # s"] b(2) by simp
      ultimately show ?thesis by blast
    next
      case False
      then have "escape16 d p (c # us) = escape16 d 0 (c # us)" for d
        by (simp add: escape16.simps(2) c(1) Let_def)
      moreover obtain b where "\<And>d. escape16 d 0 (c # us) = d @ b"
          "\<And>str s. parse_string16 str [] (b @ DQUOTE # s) = Inr (Some (str @ c # us), skip_spaces s)"
        using first [OF 2(2)] by blast
      ultimately show ?thesis
        using v by (intro exI [of _ "utf8_bytes p @ b"]) (simp add: parse_utf8_bytes)
    qed
  }
qed

text \<open>\<open>parse_string_\<close> and \<open>escape_\<close> as they are called.\<close>

definition json_string16 :: "string \<Rightarrow> error + nat list option \<times> string" where
  "json_string16 s = parse_string16 [] [] s"

definition json_quoted16 :: "nat list \<Rightarrow> string" where
  "json_quoted16 us = DQUOTE # escape16 [] 0 us @ [DQUOTE]"

lemma json_string16_quoted:
  assumes "\<forall>u\<in>set us. u < 0x10000"
  shows "json_string16 (tl (json_quoted16 us) @ s) = Inr (Some us, skip_spaces s)"
proof -
  obtain b where "\<forall>d. escape16 d 0 us = d @ b"
      "\<forall>str s. parse_string16 str [] (b @ DQUOTE # s) = Inr (Some (str @ us), skip_spaces s)"
    using escape16_read_back(1) [OF assms] by blast
  then show ?thesis by (simp add: json_string16_def json_quoted16_def)
qed

end
