(* ===== verification/Json_Order16.thy ===== *)
theory Json_Order16
  imports Json_Utf16
begin

text \<open>
  The order of the keys of an object in the 16-bit variant of \<open>jsonnode\<close>: the string of the packed
  keys, with two units for the length of each, as \<open>push_back\<close> changes it and the printer walks it.
\<close>

section \<open>The loops\<close>

text \<open>\<open>sizeof(keylen_type)\<close> counts bytes, \<open>keylen_size16\<close> units.\<close>

definition keylen_type_size :: nat where "keylen_type_size = 4"

definition next_pos16 :: "nat list \<Rightarrow> nat \<Rightarrow> nat" where
  "next_pos16 order pos = pos + keylen_size16 + get_keylen16 (drop pos order)"

definition key_matches16 :: "nat list \<Rightarrow> nat list \<Rightarrow> nat \<Rightarrow> bool" where
  "key_matches16 key order pos \<longleftrightarrow>
     get_keylen16 (drop pos order) = length key \<and> take (length key) (drop (pos + keylen_size16) order) = key"

function order_keys16 :: "nat list \<Rightarrow> nat \<Rightarrow> nat list list" where
  "order_keys16 order pos =
     (if pos + keylen_size16 < length order
      then take (get_keylen16 (drop pos order)) (drop (pos + keylen_size16) order) #
           order_keys16 order (next_pos16 order pos)
      else [])"
  by pat_completeness auto
termination order_keys16
  by (relation "measure (\<lambda>(order, pos). length order - pos)") (auto simp: next_pos16_def keylen_size16_def)

text \<open>
  The loop of \<open>push_back\<close>: a key that is there already is moved to the end. It goes on while there are
  more than \<open>sizeof(keylen_type)\<close> units.
\<close>

function push_key16 :: "nat list \<Rightarrow> nat list \<Rightarrow> nat \<Rightarrow> nat list" where
  "push_key16 key order pos =
     (if pos + keylen_type_size < length order
      then if key_matches16 key order pos
           then if pos + keylen_size16 + length key = length order then order
                else append_keyinfo16 (take pos order @ drop (pos + (keylen_size16 + length key)) order) key
           else push_key16 key order (next_pos16 order pos)
      else append_keyinfo16 order key)"
  by pat_completeness auto
termination push_key16
  by (relation "measure (\<lambda>(key, order, pos). length order - pos)") (auto simp: next_pos16_def keylen_size16_def)

declare order_keys16.simps [simp del] push_key16.simps [simp del]

section \<open>Packed keys\<close>

definition pack16 :: "nat list list \<Rightarrow> nat list" where
  "pack16 ks = concat (map (append_keyinfo16 []) ks)"

definition keys16_ok :: "nat list list \<Rightarrow> bool" where
  "keys16_ok ks \<longleftrightarrow> distinct ks \<and> (\<forall>k\<in>set ks. k \<noteq> [] \<and> length k < 2 ^ 32)"

lemma append_keyinfo16_pack: "append_keyinfo16 (pack16 ks) k = pack16 (ks @ [k])"
  by (simp add: pack16_def append_keyinfo16_def)

lemma pack16_simps [simp]: "pack16 [] = []" "pack16 (k # ks) = append_keyinfo16 [] k @ pack16 ks"
  "pack16 (ks @ ls) = pack16 ks @ pack16 ls"
  by (simp_all add: pack16_def)

lemma length_keyinfo16 [simp]: "length (append_keyinfo16 order k) = length order + 2 + length k"
  by (simp add: append_keyinfo16_def)

lemma drop_keyinfo16 [simp]: "drop (Suc (Suc n)) (append_keyinfo16 [] k @ s) = drop n (k @ s)"
  by (simp add: append_keyinfo16_def)

lemma get_keylen16_info: "length k < 2 ^ 32 \<Longrightarrow> get_keylen16 (append_keyinfo16 [] k @ s) = length k"
  using get_keylen16_append [of k "[]" s] by simp

lemma packed16:
  assumes "length k < 2 ^ 32" and "pos = length p"
  shows "key_matches16 key (p @ append_keyinfo16 [] k @ s) pos \<longleftrightarrow> key = k"
    and "next_pos16 (p @ append_keyinfo16 [] k @ s) pos = length (p @ append_keyinfo16 [] k)"
    and "take (get_keylen16 (drop pos (p @ append_keyinfo16 [] k @ s))) (drop (pos + 2) (p @ append_keyinfo16 [] k @ s)) = k"
proof -
  let ?o = "p @ append_keyinfo16 [] k @ s"
  have d: "drop pos ?o = append_keyinfo16 [] k @ s" "drop (pos + 2) ?o = k @ s"
    by (simp_all add: assms(2) append_keyinfo16_def)
  note n = get_keylen16_info [OF assms(1), of s]
  have "length k = length key \<and> take (length key) (k @ s) = key \<longleftrightarrow> key = k" by auto
  then show "key_matches16 key ?o pos \<longleftrightarrow> key = k"
    unfolding key_matches16_def keylen_size16_def d n .
  show "next_pos16 ?o pos = length (p @ append_keyinfo16 [] k)"
    unfolding next_pos16_def d n by (simp add: assms(2) keylen_size16_def)
  show "take (get_keylen16 (drop pos ?o)) (drop (pos + 2) ?o) = k" unfolding d n by simp
qed

lemma keys16_ok_Cons: "keys16_ok (k # ks) \<Longrightarrow> k \<noteq> [] \<and> length k < 2 ^ 32 \<and> keys16_ok ks \<and> k \<notin> set ks"
  by (auto simp: keys16_ok_def)

lemma order_keys16_packed:
  "\<forall>k\<in>set ls. k \<noteq> [] \<and> length k < 2 ^ 32 \<Longrightarrow> order_keys16 (pack16 (ks @ ls)) (length (pack16 ks)) = ls"
proof (induction ls arbitrary: ks)
  case Nil
  then show ?case by (simp add: order_keys16.simps)
next
  case (Cons l ls)
  then have l: "length l < 2 ^ 32" "l \<noteq> []" by simp_all
  have "order_keys16 (pack16 ((ks @ [l]) @ ls)) (length (pack16 (ks @ [l]))) = ls"
    by (rule Cons.IH) (use Cons.prems in simp)
  with packed16(2,3) [OF l(1) refl, of "pack16 ks" "pack16 ls"] l(2) show ?case
    by (simp add: order_keys16.simps [of _ "length (pack16 ks)"] keylen_size16_def)
qed

lemma order_keys16_pack: "\<forall>k\<in>set ks. k \<noteq> [] \<and> length k < 2 ^ 32 \<Longrightarrow> order_keys16 (pack16 ks) 0 = ks"
  using order_keys16_packed [of ks "[]"] by simp

text \<open>Only a last key of one or two units is overlooked.\<close>

lemma push_key16_packed:
  "keys16_ok ls \<Longrightarrow> key \<notin> set ks \<Longrightarrow>
     push_key16 key (pack16 (ks @ ls)) (length (pack16 ks)) =
       pack16 (if ls \<noteq> [] \<and> last ls = key \<and> length key \<le> 2 then ks @ ls @ [key]
               else ks @ filter (\<lambda>k. k \<noteq> key) ls @ [key])"
proof (induction ls arbitrary: ks)
  case Nil
  then show ?case by (simp add: push_key16.simps keylen_type_size_def append_keyinfo16_pack flip: pack16_simps(3))
next
  case (Cons l ls)
  note l = keys16_ok_Cons [OF Cons.prems(1)]
  have len: "length l < 2 ^ 32" using l by blast
  note p = packed16(1) [OF len refl, of key "pack16 ks" "pack16 ls"] packed16(2) [OF len refl, of "pack16 ks" "pack16 ls"]
  note eq = push_key16.simps [of key "pack16 (ks @ l # ls)" "length (pack16 ks)"]
  have more: "2 < length (pack16 ls)" if "ls \<noteq> []" using that by (cases ls) (use l in \<open>auto simp: keys16_ok_def\<close>)
  show ?case
  proof (cases "length (pack16 ks) + keylen_type_size < length (pack16 (ks @ l # ls))")
    case False
    have "ls = []" "length l \<le> 2"
      using False more l by (cases "ls = []"; cases l; simp add: keylen_type_size_def)+
    with False show ?thesis
      unfolding eq by (cases "l = key") (simp_all add: append_keyinfo16_pack flip: pack16_simps(3))
  next
    case True
    show ?thesis
    proof (cases "key = l")
      case False
      have "push_key16 key (pack16 ((ks @ [l]) @ ls)) (length (pack16 (ks @ [l]))) =
          pack16 (if ls \<noteq> [] \<and> last ls = key \<and> length key \<le> 2 then (ks @ [l]) @ ls @ [key]
                  else (ks @ [l]) @ filter (\<lambda>k. k \<noteq> key) ls @ [key])"
        by (rule Cons.IH) (use l False Cons.prems(2) in auto)
      with False True p show ?thesis unfolding eq by auto
    next
      case eql: True
      have f: "filter (\<lambda>k. k \<noteq> key) (l # ls) = ls" using eql l by (auto simp: filter_id_conv)
      show ?thesis
      proof (cases "ls = []")
        case True
        with \<open>length (pack16 ks) + keylen_type_size < _\<close> eql p f show ?thesis
          unfolding eq by (simp add: keylen_type_size_def keylen_size16_def)
      next
        case False
        then have "last (l # ls) \<noteq> key" using eql l by (metis last_ConsR last_in_set)
        have o: "pack16 (ks @ l # ls) = pack16 ks @ append_keyinfo16 [] l @ pack16 ls" by simp
        have r: "append_keyinfo16 (pack16 ks @ pack16 ls) l = pack16 (ks @ ls @ [l])"
          by (simp add: append_keyinfo16_def)
        have d: "take (length (pack16 ks)) (pack16 (ks @ l # ls)) = pack16 ks"
          "drop (length (pack16 ks) + (2 + length l)) (pack16 (ks @ l # ls)) = pack16 ls"
          by (simp_all add: append_keyinfo16_def)
        have m: "key_matches16 l (pack16 (ks @ l # ls)) (length (pack16 ks))" unfolding o using p(1) eql by simp
        have n: "length (pack16 ks) + 2 + length l \<noteq> length (pack16 (ks @ l # ls))" using more False by fastforce
        show ?thesis
          unfolding eq [unfolded eql] keylen_size16_def eql d r if_P [OF True [unfolded eql]] if_P [OF m] if_not_P [OF n]
          using \<open>last (l # ls) \<noteq> key\<close> f eql by simp
      qed
    qed
  qed
qed

end
