(* ===== verification/Nestring_Moves.thy ===== *)
theory Nestring_Moves
  imports Nestring Nemap_Facts
begin

text \<open>
  The rest of the string of the JSON library: its constructors and its moves, the overloads that take
  a range of characters one by one, and comparison. A move hands the block on the heap over; where
  the characters stand in the object they are copied.
\<close>

section \<open>Character by character\<close>

fun store_each :: "nat \<Rightarrow> string \<Rightarrow> nestring \<Rightarrow> error + nestring" where
  "store_each pos [] s = Inr s"
| "store_each pos (c # cs) s = bindE (ns_write pos [c] s) (store_each (Suc pos) cs)"

definition ns_assign_each :: "char \<Rightarrow> string \<Rightarrow> nestring \<Rightarrow> error + nestring" where
  "ns_assign_each junk data s = bindE (ns_resize junk (length data) s) (store_each 0 data)"

definition ns_append_each :: "char \<Rightarrow> string \<Rightarrow> nestring \<Rightarrow> error + nestring" where
  "ns_append_each junk data s =
     bindE (ns_resize junk (ns_size s + length data) s) (store_each (ns_size s) data)"

definition ns_insert_fill :: "char \<Rightarrow> nat \<Rightarrow> nat \<Rightarrow> char \<Rightarrow> nestring \<Rightarrow> error + nestring" where
  "ns_insert_fill junk pos count c s = bindE (move_forwards junk pos count s) (store_each pos (replicate count c))"

section \<open>Constructors, copies and moves\<close>

text \<open>\<open>right.size_ - pos\<close> wraps where \<open>pos\<close> is behind the end.\<close>

definition ns_sub :: "char \<Rightarrow> nestring \<Rightarrow> nat \<Rightarrow> nat \<Rightarrow> error + nestring" where
  "ns_sub junk right pos len =
     (let len2 = (if pos \<le> ns_size right then ns_size right - pos else 2 ^ 64 + ns_size right - pos);
          len = (if len > len2 then len2 else len)
      in bindE (ns_resize junk len (nestring_new junk)) (\<lambda>s.
           if len \<noteq> 0 then bindE (copy_out (drop pos (block right)) len) (\<lambda>data. ns_write 0 data s) else Inr s))"

definition ns_copy :: "char \<Rightarrow> nestring \<Rightarrow> nestring \<Rightarrow> error + nestring" where
  "ns_copy junk right s =
     bindE (ns_resize junk (ns_size right) s) (\<lambda>s.
     bindE (copy_out (block right) (ns_size right)) (\<lambda>data. ns_write 0 data s))"

text \<open>From memory that starts with \<open>p\<close>.\<close>

definition ns_make :: "char \<Rightarrow> string \<Rightarrow> nat \<Rightarrow> error + nestring" where
  "ns_make junk p len =
     bindE (ns_resize junk len (nestring_new junk)) (\<lambda>s.
       if len \<noteq> 0 then bindE (copy_out p len) (\<lambda>data. ns_write 0 data s) else Inr s)"

definition ns_substr :: "char \<Rightarrow> nat \<Rightarrow> nat \<Rightarrow> nestring \<Rightarrow> error + nestring" where
  "ns_substr junk pos len s = ns_make junk (drop pos (block s)) len"

text \<open>The result and what is left of \<open>right\<close>.\<close>

definition ns_move :: "char \<Rightarrow> nestring \<Rightarrow> error + nestring \<times> nestring" where
  "ns_move junk right =
     bindE (if \<not> is_localbuf right then Inr (block right)
            else bindE (copy_out (block right) (ns_size right)) (\<lambda>data.
                   Inr (data @ replicate (localbuf_size - ns_size right) junk))) (\<lambda>b.
       Inr (\<lparr>block = b, ns_size = ns_size right, capacity_p1 = capacity_p1 right\<rparr>, nestring_new junk))"

text \<open>
  The capacity is overwritten before it is asked whether the own block stands on the heap: where it
  did not and that of \<open>right\<close> does, \<open>free\<close> gets what the characters of the local block happen to
  say.
\<close>

definition ns_move_assign :: "char \<Rightarrow> nestring \<Rightarrow> nestring \<Rightarrow> error + nestring \<times> nestring" where
  "ns_move_assign junk right s =
     (if \<not> is_localbuf right \<and> is_localbuf s then Inl (Undefined OutOfBounds)
      else ns_move junk right)"

section \<open>Comparison\<close>

definition ns_equal :: "nestring \<Rightarrow> nestring \<Rightarrow> error + bool" where
  "ns_equal right s =
     (if ns_size s \<noteq> ns_size right then Inr False
      else bindE (copy_out (block s) (ns_size s)) (\<lambda>a.
           bindE (copy_out (block right) (ns_size s)) (\<lambda>b. Inr (memcmp a b (ns_size s) = 0))))"

definition ns_compare :: "nat \<Rightarrow> nat \<Rightarrow> string \<Rightarrow> nat \<Rightarrow> nat \<Rightarrow> nestring \<Rightarrow> error + int" where
  "ns_compare pos1 count1 right pos2 count2 s =
     (let count = (if count1 \<le> count2 then count1 else count2) in
      bindE (copy_out (drop pos1 (block s)) count) (\<lambda>a.
      bindE (copy_out (drop pos2 right) count) (\<lambda>b.
        (let cmp = memcmp a b count
         in Inr (if cmp \<noteq> 0 then cmp
                 else if count1 = count2 then 0 else if count1 < count2 then -1 else 1)))))"

section \<open>What they do to the list of characters\<close>

text \<open>One by one is the same as at once.\<close>

lemma store_each_write:
  "nestring_ok s \<Longrightarrow> pos + length data \<le> ns_size s \<Longrightarrow> store_each pos data s = ns_write pos data s"
proof (induction data arbitrary: pos s)
  case Nil
  then show ?case by (simp add: ns_write_def overwrite_def nestring_ok_def)
next
  case (Cons c data)
  have l: "pos + length (c # data) \<le> length (block s)" using Cons.prems by (simp add: nestring_ok_def)
  let ?s = "s\<lparr>block := take pos (block s) @ c # drop (Suc pos) (block s)\<rparr>"
  have w: "ns_write pos [c] s = Inr ?s" using l by (simp add: ns_write_def overwrite_def)
  have "nestring_ok ?s" "Suc pos + length data \<le> ns_size ?s" using Cons.prems l by (auto simp: nestring_ok_def)
  from Cons.IH [OF this] have "store_each (Suc pos) data ?s = ns_write (Suc pos) data ?s" .
  moreover have "ns_write (Suc pos) data ?s = ns_write pos (c # data) s"
  proof -
    have "pos + length data \<le> length (block s) - Suc 0" using l by simp
    then show ?thesis using l by (simp add: ns_write_def overwrite_def min_def add.commute [of "length data" pos])
  qed
  ultimately show ?case using w by simp
qed

lemma ns_assign_each_same:
  assumes "nestring_ok s" and "length data \<le> ns_maxsize"
  shows "ns_assign_each junk data s = ns_assign junk data s"
  using ns_resize_ok [OF assms, of junk] store_each_write
  by (auto simp: ns_assign_each_def ns_assign_def)

lemma ns_append_each_same:
  assumes "nestring_ok s" and "ns_size s + length data \<le> ns_maxsize"
  shows "ns_append_each junk data s = ns_append junk data s"
  using ns_resize_ok [OF assms, of junk] store_each_write
  by (auto simp: ns_append_each_def ns_append_def)

lemma move_forwards_ok:
  assumes "nestring_ok s" and "pos \<le> ns_size s" and "ns_size s + count \<le> ns_maxsize"
  obtains s' where "move_forwards junk pos count s = Inr s'" and "nestring_ok s'" and "ns_size s' = ns_size s + count"
proof -
  from ns_resize_ok [OF assms(1,3), of junk] obtain s1 where
    1: "ns_resize junk (ns_size s + count) s = Inr s1" "nestring_ok s1" "ns_size s1 = ns_size s + count" by auto
  have "pos + count + length (take (ns_size s - pos) (drop pos (block s1))) \<le> ns_size s1" if "pos < ns_size s"
    using that 1(3) by simp
  with ns_write_ok [OF 1(2)] have "\<exists>s2. ns_write (pos + count) (take (ns_size s - pos) (drop pos (block s1))) s1 = Inr s2 \<and>
      nestring_ok s2 \<and> ns_size s2 = ns_size s1" if "pos < ns_size s" using that by blast
  with 1 that show ?thesis by (cases "pos < ns_size s") (auto simp: move_forwards_def)
qed

lemma ns_insert_fill_same:
  assumes "nestring_ok s" and "pos \<le> ns_size s" and "ns_size s + count \<le> ns_maxsize"
  shows "ns_insert_fill junk pos count c s = ns_insert junk pos (replicate count c) s"
  using move_forwards_ok [OF assms, of junk] store_each_write assms(2)
  by (simp add: ns_insert_fill_def ns_insert_def) (metis add.commute add_le_mono1 bindE_simps(2) length_replicate)

lemma ns_data_length: "nestring_ok s \<Longrightarrow> length (ns_data s) = ns_size s"
  by (simp add: nestring_ok_def ns_data_def)

lemma copy_out_data: "nestring_ok s \<Longrightarrow> copy_out (block s) (ns_size s) = Inr (ns_data s)"
  by (simp add: copy_out_def nestring_ok_def ns_data_def)

lemma ns_copy_ok:
  assumes "nestring_ok s" and "nestring_ok right"
  shows "\<exists>s'. ns_copy junk right s = Inr s' \<and> nestring_ok s' \<and> ns_data s' = ns_data right"
proof -
  have "length (ns_data right) \<le> ns_maxsize" using assms(2) by (simp add: ns_data_length nestring_ok_def)
  from ns_assign_ok [OF assms(1) this, of junk] show ?thesis
    by (simp add: ns_assign_def ns_copy_def copy_out_data [OF assms(2)] ns_data_length [OF assms(2)])
qed

lemma ns_make_ok:
  assumes "len \<le> length p" and "len \<le> ns_maxsize"
  shows "\<exists>s. ns_make junk p len = Inr s \<and> nestring_ok s \<and> ns_data s = take len p"
proof -
  have l: "length (take len p) = len" "length (take len p) \<le> ns_maxsize" using assms by simp_all
  from ns_assign_ok [OF nestring_new_ok(1) [of junk] l(2), of junk] obtain s where
    s: "bindE (ns_resize junk len (nestring_new junk)) (ns_write 0 (take len p)) = Inr s" "nestring_ok s" "ns_data s = take len p"
    unfolding ns_assign_def l(1) by blast
  have c: "copy_out p len = Inr (take len p)" using assms(1) by (simp add: copy_out_def)
  have "ns_write 0 [] = (Inr :: nestring \<Rightarrow> error + nestring)"
    by (rule ext) (simp add: ns_write_def overwrite_def)
  with s(1) have "ns_make junk p len = Inr s" by (cases "len = 0") (simp_all add: ns_make_def c)
  with s(2,3) show ?thesis by simp
qed

lemma ns_block_data: "n \<le> ns_size s - pos \<Longrightarrow> take n (drop pos (block s)) = take n (drop pos (ns_data s))"
  by (simp add: ns_data_def drop_take take_take min_absorb1)

lemma ns_substr_ok:
  assumes "nestring_ok s" and "pos + len \<le> ns_size s"
  shows "\<exists>t. ns_substr junk pos len s = Inr t \<and> nestring_ok t \<and> ns_data t = take len (drop pos (ns_data s))"
proof -
  have "len \<le> length (drop pos (block s))" "len \<le> ns_maxsize" "len \<le> ns_size s - pos"
    using assms by (auto simp: nestring_ok_def)
  with ns_make_ok [of len "drop pos (block s)" junk] ns_block_data [of len s pos] show ?thesis
    by (simp add: ns_substr_def)
qed

lemma ns_sub_ok:
  assumes "nestring_ok right" and "pos \<le> ns_size right"
  shows "\<exists>s. ns_sub junk right pos len = Inr s \<and> nestring_ok s \<and> ns_data s = take len (drop pos (ns_data right))"
proof -
  let ?n = "min len (ns_size right - pos)"
  have "(if len > ns_size right - pos then ns_size right - pos else len) = ?n" by simp
  then have "ns_sub junk right pos len = ns_make junk (drop pos (block right)) ?n"
    unfolding ns_sub_def ns_make_def Let_def if_P [OF assms(2)] by (simp only:)
  moreover have "?n \<le> length (drop pos (block right))" "?n \<le> ns_maxsize"
    using assms by (auto simp: nestring_ok_def min_def)
  moreover have "take ?n (drop pos (block right)) = take len (drop pos (ns_data right))"
    using ns_block_data [of ?n right pos] assms(1) by (simp add: ns_data_length take_all_iff min_def)
  ultimately show ?thesis using ns_make_ok [of ?n "drop pos (block right)" junk] by simp
qed

lemma ns_move_ok:
  assumes "nestring_ok right"
  shows "\<exists>s. ns_move junk right = Inr (s, nestring_new junk) \<and> nestring_ok s \<and> ns_data s = ns_data right"
proof (cases "is_localbuf right")
  case False
  with assms show ?thesis by (simp add: ns_move_def nestring_ok_def ns_data_def)
next
  case True
  have "length (block right) = localbuf_size" "capacity_p1 right = localbuf_size + 1" "ns_size right \<le> localbuf_size"
    using assms True local_block [OF assms] by (auto simp: nestring_ok_def)
  with True assms show ?thesis
    by (simp add: ns_move_def copy_out_data nestring_ok_def ns_data_length ns_sizes) (simp add: ns_data_def)
qed

lemma ns_move_assign_ok:
  assumes "nestring_ok right"
  shows "if \<not> is_localbuf right \<and> is_localbuf s then ns_move_assign junk right s = Inl (Undefined OutOfBounds)
    else \<exists>s'. ns_move_assign junk right s = Inr (s', nestring_new junk) \<and> nestring_ok s' \<and> ns_data s' = ns_data right"
  using ns_move_ok [OF assms, of junk] by (simp add: ns_move_assign_def)

lemma memcmp_equal: "length a = n \<Longrightarrow> length b = n \<Longrightarrow> memcmp a b n = 0 \<longleftrightarrow> a = b"
  by (induction a b n rule: memcmp.induct) auto

lemma ns_equal_ok:
  assumes "nestring_ok s" and "nestring_ok right"
  shows "ns_equal right s = Inr (ns_data s = ns_data right)"
  using copy_out_data [OF assms(1)] copy_out_data [OF assms(2)] ns_data_length [OF assms(1)] ns_data_length [OF assms(2)]
    memcmp_equal [of "ns_data s" "ns_size s" "ns_data right"]
  by (auto simp: ns_equal_def)

lemma ns_compare_ok:
  assumes "nestring_ok s" and "pos1 + count1 \<le> ns_size s" and "pos2 + count2 \<le> length right"
  shows "ns_compare pos1 count1 right pos2 count2 s =
    Inr (view_compare (take count1 (drop pos1 (ns_data s))) (take count2 (drop pos2 right)))"
proof -
  let ?n = "min count1 count2" and ?a = "take count1 (drop pos1 (ns_data s))" and ?b = "take count2 (drop pos2 right)"
  have l: "ns_size s \<le> length (block s)" using assms(1) by (simp add: nestring_ok_def)
  have len: "length ?a = count1" "length ?b = count2" using assms ns_data_length [OF assms(1)] by simp_all
  have "take ?n (drop pos1 (block s)) = take ?n ?a"
    using ns_block_data [of ?n s pos1] assms(2) by (simp add: take_take min_def)
  moreover have "take ?n (drop pos2 right) = take ?n ?b" by (simp add: take_take min_def)
  moreover have "?n \<le> length (drop pos1 (block s))" "?n \<le> length (drop pos2 right)" using assms l by simp_all
  ultimately have c: "copy_out (drop pos1 (block s)) ?n = Inr (take ?n ?a)" "copy_out (drop pos2 right) ?n = Inr (take ?n ?b)"
    by (simp_all only: copy_out_def if_True)
  have n: "(if count1 \<le> count2 then count1 else count2) = ?n" by (simp add: min_def)
  show ?thesis
    unfolding ns_compare_def view_compare_def Let_def len n c bindE_simps memcmp_take [symmetric] ..
qed

end
