(* ===== verification/Nevector.thy ===== *)
theory Nevector
  imports Steam_Prelude
begin

text \<open>
  The vector of the JSON library: \<open>nevector\<close> of include/steamclient/external/ctljson.hpp. The block is
  a list of slots, \<open>None\<close> for memory in which no element stands; what a move of memory leaves behind
  are bytes, no element. \<open>insert\<close> makes a new element at the end that the move overwrites, so that it
  is never destroyed; a node that holds nothing does not need it. The elements are values, \<open>esize\<close>
  bytes each; arguments do not point into the vector itself and allocation does not fail below
  \<open>maxsize_\<close>.
\<close>

record 'a nevector =
  slots :: "'a option list"
  nv_size :: nat
  nv_capacity_p1 :: nat

definition nevector_new :: "'a nevector" where
  "nevector_new = \<lparr>slots = [], nv_size = 0, nv_capacity_p1 = 1\<rparr>"

definition nv_maxsize :: "nat \<Rightarrow> nat" where
  "nv_maxsize esize = (2 ^ 64 - 1) div esize div 2"

definition nv_reserve :: "nat \<Rightarrow> nat \<Rightarrow> 'a nevector \<Rightarrow> error + 'a nevector" where
  "nv_reserve esize newsize v =
     (if newsize > nv_maxsize esize then Inl (Exn BadAlloc)
      else
        (let minsize = 16;
             capa2 = (if newsize \<ge> minsize then nv_capacity_p1 v * 2 else minsize);
             newsize = (if newsize < capa2
                        then (if capa2 > nv_maxsize esize then nv_maxsize esize else capa2) else newsize)
         in Inr (v\<lparr>slots := take newsize (slots v) @ replicate (newsize - length (slots v)) None,
                   nv_capacity_p1 := newsize + 1\<rparr>)))"

text \<open>Placement of a new element, and the end of one.\<close>

definition nv_construct :: "nat \<Rightarrow> 'a \<Rightarrow> 'a nevector \<Rightarrow> error + 'a nevector" where
  "nv_construct pos x v =
     (if pos < length (slots v)
      then Inr (v\<lparr>slots := (slots v)[pos := Some x]\<rparr>) else Inl (Undefined OutOfBounds))"

definition nv_destroy :: "nat \<Rightarrow> 'a nevector \<Rightarrow> error + 'a nevector" where
  "nv_destroy pos v =
     (if pos < length (slots v) \<and> slots v ! pos \<noteq> None
      then Inr (v\<lparr>slots := (slots v)[pos := None]\<rparr>) else Inl (Undefined OutOfBounds))"

fun construct_range :: "nat \<Rightarrow> nat \<Rightarrow> 'a \<Rightarrow> 'a nevector \<Rightarrow> error + 'a nevector" where
  "construct_range pos 0 x v = Inr v"
| "construct_range pos (Suc n) x v = bindE (nv_construct pos x v) (construct_range (Suc pos) n x)"

fun destroy_range :: "nat \<Rightarrow> nat \<Rightarrow> 'a nevector \<Rightarrow> error + 'a nevector" where
  "destroy_range pos 0 v = Inr v"
| "destroy_range pos (Suc n) v = bindE (nv_destroy pos v) (destroy_range (Suc pos) n)"

definition nv_resize :: "nat \<Rightarrow> nat \<Rightarrow> 'a \<Rightarrow> 'a nevector \<Rightarrow> error + 'a nevector" where
  "nv_resize esize newsize x v =
     bindE (if newsize > nv_size v then
              bindE (if newsize \<ge> nv_capacity_p1 v then nv_reserve esize newsize v else Inr v) (\<lambda>v.
                construct_range (nv_size v) (newsize - nv_size v) x v)
            else destroy_range newsize (nv_size v - newsize) v) (\<lambda>v.
       Inr (v\<lparr>nv_size := newsize\<rparr>))"

definition nv_clear :: "'a nevector \<Rightarrow> error + 'a nevector" where
  "nv_clear v = bindE (destroy_range 0 (nv_size v) v) (\<lambda>v. Inr (v\<lparr>nv_size := 0\<rparr>))"

text \<open>The size is counted up before the block grows.\<close>

definition nv_push_back :: "nat \<Rightarrow> 'a \<Rightarrow> 'a nevector \<Rightarrow> error + 'a nevector" where
  "nv_push_back esize x v =
     (let oldsize = nv_size v; v = v\<lparr>nv_size := oldsize + 1\<rparr> in
      bindE (if nv_size v \<ge> nv_capacity_p1 v then nv_reserve esize (nv_size v) v else Inr v)
        (nv_construct oldsize x))"

text \<open>The slot behind the last element keeps the old bytes, which nobody looks at: it is empty then.\<close>

definition nv_erase :: "nat \<Rightarrow> 'a nevector \<Rightarrow> error + 'a nevector" where
  "nv_erase pos v =
     (if pos < nv_size v
      then bindE (nv_destroy pos v) (\<lambda>v.
             Inr (v\<lparr>slots := take pos (slots v) @ take (nv_size v - pos - 1) (drop (pos + 1) (slots v)) @
                       None # drop (nv_size v) (slots v),
                    nv_size := nv_size v - 1\<rparr>))
      else Inr v)"

definition nv_move_forwards :: "nat \<Rightarrow> 'a \<Rightarrow> nat \<Rightarrow> nat \<Rightarrow> 'a nevector \<Rightarrow> error + 'a nevector" where
  "nv_move_forwards esize d pos count v =
     (let oldsize = nv_size v in
      bindE (nv_resize esize (oldsize + count) d v) (\<lambda>v.
        if pos < oldsize
        then Inr (v\<lparr>slots := take pos (slots v) @ replicate count None @ take (oldsize - pos) (drop pos (slots v)) @
                      drop (oldsize + count) (slots v)\<rparr>)
        else Inr v))"

definition nv_insert :: "nat \<Rightarrow> 'a \<Rightarrow> nat \<Rightarrow> 'a \<Rightarrow> 'a nevector \<Rightarrow> error + 'a nevector" where
  "nv_insert esize d pos x v = bindE (nv_move_forwards esize d pos 1 v) (nv_construct pos x)"

text \<open>The copy constructor and the assignment.\<close>

fun construct_all :: "nat \<Rightarrow> 'a list \<Rightarrow> 'a nevector \<Rightarrow> error + 'a nevector" where
  "construct_all pos [] v = Inr v"
| "construct_all pos (x # xs) v = bindE (nv_construct pos x v) (construct_all (Suc pos) xs)"

fun store_all :: "nat \<Rightarrow> 'a list \<Rightarrow> 'a nevector \<Rightarrow> error + 'a nevector" where
  "store_all pos [] v = Inr v"
| "store_all pos (x # xs) v =
     (if pos < length (slots v) \<and> slots v ! pos \<noteq> None
      then store_all (Suc pos) xs (v\<lparr>slots := (slots v)[pos := Some x]\<rparr>) else Inl (Undefined OutOfBounds))"

definition nv_elems :: "'a nevector \<Rightarrow> 'a list" where
  "nv_elems v = map the (take (nv_size v) (slots v))"

definition nv_at :: "nat \<Rightarrow> 'a nevector \<Rightarrow> error + 'a" where
  "nv_at pos v = (if pos < length (slots v)
     then (case slots v ! pos of Some x \<Rightarrow> Inr x | None \<Rightarrow> Inl (Undefined OutOfBounds))
     else Inl (Undefined OutOfBounds))"

definition nv_back :: "'a nevector \<Rightarrow> error + 'a" where
  "nv_back v = (if nv_size v = 0 then Inl (Undefined OutOfBounds) else nv_at (nv_size v - 1) v)"

definition nv_copy :: "nat \<Rightarrow> 'a nevector \<Rightarrow> error + 'a nevector" where
  "nv_copy esize right =
     bindE (nv_reserve esize (nv_size right) nevector_new) (\<lambda>v.
     bindE (construct_all 0 (nv_elems right) v) (\<lambda>v. Inr (v\<lparr>nv_size := nv_size right\<rparr>)))"

definition nv_assign :: "nat \<Rightarrow> 'a \<Rightarrow> 'a nevector \<Rightarrow> 'a nevector \<Rightarrow> error + 'a nevector" where
  "nv_assign esize d right v =
     bindE (nv_resize esize (nv_size right) d v) (\<lambda>v. store_all 0 (nv_elems right) v)"

text \<open>The move constructor: the vector takes the block over, and the other one is left empty.\<close>

definition nv_move :: "'a nevector \<Rightarrow> 'a nevector \<times> 'a nevector" where
  "nv_move right = (right, nevector_new)"

section \<open>A vector is the list of its elements\<close>

definition nevector_ok :: "nat \<Rightarrow> 'a nevector \<Rightarrow> bool" where
  "nevector_ok esize v \<longleftrightarrow> nv_capacity_p1 v = length (slots v) + 1 \<and> length (slots v) \<le> nv_maxsize esize \<and>
     nv_size v \<le> length (slots v) \<and> None \<notin> set (take (nv_size v) (slots v))"

text \<open>The slots are those of the elements \<open>xs\<close>, then others.\<close>

definition holds_elems :: "nat \<Rightarrow> 'a nevector \<Rightarrow> 'a list \<Rightarrow> bool" where
  "holds_elems esize v xs \<longleftrightarrow> take (length xs) (slots v) = map Some xs \<and>
     nv_capacity_p1 v = length (slots v) + 1 \<and> length (slots v) \<le> nv_maxsize esize"

lemma holds_length: "holds_elems esize v xs \<Longrightarrow> length xs \<le> length (slots v)"
  by (metis holds_elems_def length_map length_take min.cobounded1)

lemma holds_nth: "holds_elems esize v xs \<Longrightarrow> i < length xs \<Longrightarrow> slots v ! i = Some (xs ! i)"
  by (metis holds_elems_def length_map nth_map nth_take)

lemma nevector_holds: "nevector_ok esize v \<longleftrightarrow> holds_elems esize v (nv_elems v) \<and> nv_size v = length (nv_elems v)"
proof
  assume ok: "nevector_ok esize v"
  then have "map Some (nv_elems v) = take (nv_size v) (slots v)"
    by (auto simp: nevector_ok_def nv_elems_def intro!: map_idI) (metis option.collapse)
  with ok show "holds_elems esize v (nv_elems v) \<and> nv_size v = length (nv_elems v)"
    by (simp add: nevector_ok_def nv_elems_def holds_elems_def)
next
  assume h: "holds_elems esize v (nv_elems v) \<and> nv_size v = length (nv_elems v)"
  then have "take (nv_size v) (slots v) = map Some (nv_elems v)" by (simp add: holds_elems_def)
  then have "None \<notin> set (take (nv_size v) (slots v))" by auto
  with h holds_length [of esize v "nv_elems v"] show "nevector_ok esize v"
    by (simp add: nevector_ok_def holds_elems_def)
qed

lemma holds_ok: "holds_elems esize v xs \<Longrightarrow> nv_size v = length xs \<Longrightarrow> nevector_ok esize v \<and> nv_elems v = xs"
proof -
  assume h: "holds_elems esize v xs" "nv_size v = length xs"
  then have e: "nv_elems v = xs" by (simp add: holds_elems_def nv_elems_def comp_def)
  with h show ?thesis by (simp add: nevector_holds)
qed

lemma nevector_new_ok: "nevector_ok esize nevector_new" "nv_elems nevector_new = []"
  by (simp_all add: nevector_ok_def nevector_new_def nv_elems_def)

lemma nv_at_ok: "nevector_ok esize v \<Longrightarrow> pos < nv_size v \<Longrightarrow> nv_at pos v = Inr (nv_elems v ! pos)"
  using holds_nth [of esize v "nv_elems v" pos] holds_length [of esize v "nv_elems v"]
  by (simp add: nevector_holds nv_at_def)

lemma nv_back_ok: "nevector_ok esize v \<Longrightarrow> nv_elems v \<noteq> [] \<Longrightarrow> nv_back v = Inr (last (nv_elems v))"
  using nv_at_ok [of esize v "nv_size v - 1"] by (simp add: nevector_holds nv_back_def last_conv_nth)

lemma nv_reserve_ok:
  assumes "holds_elems esize v xs" and "length (slots v) \<le> newsize" and "newsize \<le> nv_maxsize esize"
  obtains v' where "nv_reserve esize newsize v = Inr v'" and "holds_elems esize v' xs"
    and "newsize \<le> length (slots v')" and "nv_size v' = nv_size v"
proof -
  define capa2 where "capa2 = (if newsize \<ge> 16 then nv_capacity_p1 v * 2 else 16)"
  define g where "g = (if newsize < capa2 then (if capa2 > nv_maxsize esize then nv_maxsize esize else capa2) else newsize)"
  have g: "newsize \<le> g" "g \<le> nv_maxsize esize" using assms(3) by (auto simp: g_def)
  let ?v = "v\<lparr>slots := take g (slots v) @ replicate (g - length (slots v)) None, nv_capacity_p1 := g + 1\<rparr>"
  have "nv_reserve esize newsize v = Inr ?v"
    using assms(3) unfolding nv_reserve_def Let_def capa2_def [symmetric] g_def [symmetric] by simp
  moreover have "holds_elems esize ?v xs"
    using assms(1,2) g holds_length [OF assms(1)] by (simp add: holds_elems_def)
  ultimately show ?thesis using that [of ?v] g assms(2) by simp
qed

lemma nv_construct_next:
  assumes "holds_elems esize v xs" and "length xs < length (slots v)"
  obtains v' where "nv_construct (length xs) x v = Inr v'" and "holds_elems esize v' (xs @ [x])"
    and "length (slots v') = length (slots v)" and "nv_size v' = nv_size v"
  using assms by (intro that [of "v\<lparr>slots := (slots v)[length xs := Some x]\<rparr>"])
    (simp_all add: nv_construct_def holds_elems_def take_Suc_conv_app_nth)

lemma construct_range_ok:
  "holds_elems esize v xs \<Longrightarrow> length xs + n \<le> length (slots v) \<Longrightarrow>
     \<exists>v'. construct_range (length xs) n x v = Inr v' \<and> holds_elems esize v' (xs @ replicate n x) \<and>
       nv_size v' = nv_size v"
proof (induction n arbitrary: v xs)
  case (Suc n)
  then have "length xs < length (slots v)" by simp
  from nv_construct_next [OF Suc.prems(1) this, of x] obtain v1 where
    v1: "nv_construct (length xs) x v = Inr v1" "holds_elems esize v1 (xs @ [x])"
      "length (slots v1) = length (slots v)" "nv_size v1 = nv_size v" .
  with Suc.IH [OF v1(2)] Suc.prems(2) show ?case by simp
qed simp

lemma construct_all_ok:
  "holds_elems esize v xs \<Longrightarrow> length xs + length ys \<le> length (slots v) \<Longrightarrow>
     \<exists>v'. construct_all (length xs) ys v = Inr v' \<and> holds_elems esize v' (xs @ ys) \<and> nv_size v' = nv_size v"
proof (induction ys arbitrary: v xs)
  case (Cons y ys)
  then have "length xs < length (slots v)" by simp
  from nv_construct_next [OF Cons.prems(1) this, of y] obtain v1 where
    v1: "nv_construct (length xs) y v = Inr v1" "holds_elems esize v1 (xs @ [y])"
      "length (slots v1) = length (slots v)" "nv_size v1 = nv_size v" .
  with Cons.IH [OF v1(2)] Cons.prems(2) show ?case by simp
qed simp

lemma destroy_range_ok:
  "\<forall>i<n. pos + i < length (slots v) \<and> slots v ! (pos + i) \<noteq> None \<Longrightarrow>
     \<exists>v'. destroy_range pos n v = Inr v' \<and> take pos (slots v') = take pos (slots v) \<and>
       length (slots v') = length (slots v) \<and> nv_capacity_p1 v' = nv_capacity_p1 v \<and> nv_size v' = nv_size v"
proof (induction n arbitrary: pos v)
  case (Suc n)
  let ?v = "v\<lparr>slots := (slots v)[pos := None]\<rparr>"
  have "nv_destroy pos v = Inr ?v" using Suc.prems [rule_format, of 0] by (simp add: nv_destroy_def)
  moreover have "\<forall>i<n. Suc pos + i < length (slots ?v) \<and> slots ?v ! (Suc pos + i) \<noteq> None"
    using Suc.prems by (metis Suc_less_eq add_Suc add_Suc_right length_list_update nevector.select_convs(1)
        nevector.simps(1) nevector.surjective nevector.update_convs(1) not_add_less1 nth_list_update_neq lessI less_add_Suc1 nat_neq_iff)
  from Suc.IH [OF this] obtain v' where
    v': "destroy_range (Suc pos) n ?v = Inr v'" "take (Suc pos) (slots v') = take (Suc pos) (slots ?v)"
      "length (slots v') = length (slots ?v)" "nv_capacity_p1 v' = nv_capacity_p1 ?v" "nv_size v' = nv_size ?v" by blast
  from v'(2) have "take pos (slots v') = take pos (slots ?v)" by (metis min.absorb1 le_SucI order_refl take_take)
  with v' calculation show ?case by simp
qed simp

lemma destroy_holds:
  assumes "holds_elems esize v xs" and "pos \<le> length xs"
  obtains v' where "destroy_range pos (length xs - pos) v = Inr v'" and "holds_elems esize v' (take pos xs)"
    and "nv_size v' = nv_size v"
proof -
  have "\<forall>i<length xs - pos. pos + i < length (slots v) \<and> slots v ! (pos + i) \<noteq> None"
    using holds_length [OF assms(1)] holds_nth [OF assms(1)] by auto
  from destroy_range_ok [OF this] obtain v' where
    v': "destroy_range pos (length xs - pos) v = Inr v'" "take pos (slots v') = take pos (slots v)"
      "length (slots v') = length (slots v)" "nv_capacity_p1 v' = nv_capacity_p1 v" "nv_size v' = nv_size v" by blast
  have "take pos (slots v) = map Some (take pos xs)"
    using assms by (metis holds_elems_def min.absorb1 take_map take_take)
  with v' assms show ?thesis by (intro that [of v']) (simp_all add: holds_elems_def)
qed

lemma nv_resize_ok:
  assumes "nevector_ok esize v" and "newsize \<le> nv_maxsize esize"
  shows "\<exists>v'. nv_resize esize newsize x v = Inr v' \<and> nevector_ok esize v' \<and>
    nv_elems v' = take newsize (nv_elems v) @ replicate (newsize - nv_size v) x"
proof -
  let ?xs = "nv_elems v"
  from assms(1) have h: "holds_elems esize v ?xs" "nv_size v = length ?xs" by (simp_all add: nevector_holds)
  show ?thesis
  proof (cases "newsize > nv_size v")
    case True
    obtain v1 where v1: "(if newsize \<ge> nv_capacity_p1 v then nv_reserve esize newsize v else Inr v) = Inr v1"
        "holds_elems esize v1 ?xs" "newsize \<le> length (slots v1)" "nv_size v1 = nv_size v"
    proof (cases "newsize \<ge> nv_capacity_p1 v")
      case big: True
      with h(1) have "length (slots v) \<le> newsize" by (simp add: holds_elems_def)
      from nv_reserve_ok [OF h(1) this assms(2)] big that show ?thesis by (metis (no_types))
    next
      case False
      with h that [of v] show ?thesis by (simp add: holds_elems_def)
    qed
    have "length ?xs + (newsize - nv_size v) \<le> length (slots v1)" using True h(2) v1(3) by simp
    from construct_range_ok [OF v1(2) this, of x] obtain v2 where
      v2: "construct_range (length ?xs) (newsize - nv_size v) x v1 = Inr v2"
        "holds_elems esize v2 (?xs @ replicate (newsize - nv_size v) x)" by blast
    let ?v = "v2\<lparr>nv_size := newsize\<rparr>"
    have "holds_elems esize ?v (?xs @ replicate (newsize - nv_size v) x)" using v2(2) by (simp add: holds_elems_def)
    moreover have "nv_size ?v = length (?xs @ replicate (newsize - nv_size v) x)" using True h(2) by simp
    ultimately have "nevector_ok esize ?v \<and> nv_elems ?v = ?xs @ replicate (newsize - nv_size v) x" by (rule holds_ok)
    moreover have "nv_resize esize newsize x v = Inr ?v"
      using True v1(1,4) v2(1) h(2) by (simp add: nv_resize_def)
    ultimately show ?thesis using True h(2) by simp
  next
    case False
    then have "newsize \<le> length ?xs" using h(2) by simp
    from destroy_holds [OF h(1) this] obtain v1 where
      v1: "destroy_range newsize (length ?xs - newsize) v = Inr v1" "holds_elems esize v1 (take newsize ?xs)" .
    let ?v = "v1\<lparr>nv_size := newsize\<rparr>"
    have "holds_elems esize ?v (take newsize ?xs)" using v1(2) by (simp add: holds_elems_def)
    moreover have "nv_size ?v = length (take newsize ?xs)" using \<open>newsize \<le> length ?xs\<close> by simp
    ultimately have "nevector_ok esize ?v \<and> nv_elems ?v = take newsize ?xs" by (rule holds_ok)
    moreover have "nv_resize esize newsize x v = Inr ?v" using False v1(1) h(2) by (simp add: nv_resize_def)
    ultimately show ?thesis using False by simp
  qed
qed

lemma nv_clear_ok:
  assumes "nevector_ok esize v"
  shows "\<exists>v'. nv_clear v = Inr v' \<and> nevector_ok esize v' \<and> nv_elems v' = []"
  using nv_resize_ok [OF assms, of 0] by (simp add: nv_resize_def nv_clear_def)

lemma nv_push_back_ok:
  assumes "nevector_ok esize v" and "nv_size v < nv_maxsize esize"
  shows "\<exists>v'. nv_push_back esize x v = Inr v' \<and> nevector_ok esize v' \<and> nv_elems v' = nv_elems v @ [x]"
proof -
  let ?xs = "nv_elems v" and ?v = "v\<lparr>nv_size := nv_size v + 1\<rparr>"
  from assms(1) have h: "holds_elems esize ?v ?xs" "nv_size v = length ?xs"
    by (simp_all add: nevector_holds holds_elems_def)
  obtain v1 where v1: "(if nv_size ?v \<ge> nv_capacity_p1 ?v then nv_reserve esize (nv_size ?v) ?v else Inr ?v) = Inr v1"
      "holds_elems esize v1 ?xs" "length ?xs < length (slots v1)" "nv_size v1 = nv_size v + 1"
  proof (cases "nv_size ?v \<ge> nv_capacity_p1 ?v")
    case True
    with h(1) have "length (slots ?v) \<le> nv_size ?v" by (simp add: holds_elems_def)
    moreover have "nv_size ?v \<le> nv_maxsize esize" using assms(2) by simp
    ultimately obtain v1 where "nv_reserve esize (nv_size ?v) ?v = Inr v1" "holds_elems esize v1 ?xs"
        "nv_size ?v \<le> length (slots v1)" "nv_size v1 = nv_size ?v"
      using nv_reserve_ok [OF h(1)] by blast
    with True h(2) that [of v1] show ?thesis by simp
  next
    case False
    with h that [of ?v] show ?thesis by (simp add: holds_elems_def)
  qed
  from nv_construct_next [OF v1(2,3), of x] obtain v2 where
    v2: "nv_construct (length ?xs) x v1 = Inr v2" "holds_elems esize v2 (?xs @ [x])" "nv_size v2 = nv_size v1" .
  have "nv_push_back esize x v = Inr v2"
    using v1(1) v2(1) h(2) unfolding nv_push_back_def Let_def by simp
  moreover have "nevector_ok esize v2 \<and> nv_elems v2 = ?xs @ [x]"
    by (rule holds_ok [OF v2(2)]) (simp add: v2(3) v1(4) h(2))
  ultimately show ?thesis by simp
qed

lemma nv_erase_ok:
  assumes "nevector_ok esize v"
  shows "\<exists>v'. nv_erase pos v = Inr v' \<and> nevector_ok esize v' \<and>
    nv_elems v' = take pos (nv_elems v) @ drop (Suc pos) (nv_elems v)"
proof (cases "pos < nv_size v")
  case False
  with assms show ?thesis by (simp add: nv_erase_def nevector_holds)
next
  case True
  let ?xs = "nv_elems v"
  from assms have h: "holds_elems esize v ?xs" "nv_size v = length ?xs" by (simp_all add: nevector_holds)
  let ?s = "(slots v)[pos := None]"
  let ?v = "v\<lparr>slots := take pos ?s @ take (nv_size v - pos - 1) (drop (pos + 1) ?s) @ None # drop (nv_size v) ?s,
    nv_size := nv_size v - 1\<rparr>"
  have l: "length ?xs \<le> length (slots v)" by (rule holds_length [OF h(1)])
  have "nv_erase pos v = Inr ?v"
    using True h holds_nth [OF h(1), of pos] l by (simp add: nv_erase_def nv_destroy_def)
  moreover have "nevector_ok esize ?v \<and> nv_elems ?v = take pos ?xs @ drop (Suc pos) ?xs"
  proof (rule holds_ok)
    have "take pos ?s = take pos (map Some ?xs)"
      using h True by (metis holds_elems_def less_imp_le min.absorb1 order_refl take_take take_update_cancel)
    moreover have "take (length ?xs - pos - 1) (drop (pos + 1) ?s) = drop (pos + 1) (map Some ?xs)"
    proof -
      have "length ?xs - pos - 1 + (pos + 1) = length ?xs" using True h(2) by simp
      then have "take (length ?xs - pos - 1) (drop (pos + 1) (slots v)) = drop (pos + 1) (take (length ?xs) (slots v))"
        unfolding take_drop by (rule arg_cong)
      then show ?thesis using h(1) by (simp add: holds_elems_def)
    qed
    moreover have "Suc (length (slots v) - Suc 0) = length (slots v)" using h(2) True l by simp
    ultimately show "holds_elems esize ?v (take pos ?xs @ drop (Suc pos) ?xs)"
      using h True l by (simp add: holds_elems_def take_map drop_map)
    show "nv_size ?v = length (take pos ?xs @ drop (Suc pos) ?xs)" using h(2) True by simp
  qed
  ultimately show ?thesis by simp
qed

lemma nv_insert_ok:
  assumes "nevector_ok esize v" and "nv_size v < nv_maxsize esize" and "pos \<le> nv_size v"
  shows "\<exists>v'. nv_insert esize d pos x v = Inr v' \<and> nevector_ok esize v' \<and>
    nv_elems v' = take pos (nv_elems v) @ x # drop pos (nv_elems v)"
proof -
  let ?xs = "nv_elems v"
  have n: "nv_size v = length ?xs" using assms(1) by (simp add: nevector_holds)
  have "nv_size v + 1 \<le> nv_maxsize esize" using assms(2) by simp
  from nv_resize_ok [OF assms(1) this, of d] obtain v1 where
    v1: "nv_resize esize (nv_size v + 1) d v = Inr v1" "nevector_ok esize v1" "nv_elems v1 = ?xs @ [d]" using n by auto
  have h1: "holds_elems esize v1 (?xs @ [d])" "nv_size v1 = length ?xs + 1"
    using v1(2,3) by (simp_all add: nevector_holds)
  have l1: "length ?xs + 1 \<le> length (slots v1)" using holds_length [OF h1(1)] by simp
  have t1: "take (length ?xs) (slots v1) = map Some ?xs"
  proof -
    have "take (length ?xs) (slots v1) = take (length ?xs) (take (length (?xs @ [d])) (slots v1))" by (simp add: min_def)
    also have "\<dots> = take (length ?xs) (map Some (?xs @ [d]))" using h1(1) by (simp only: holds_elems_def)
    also have "\<dots> = map Some ?xs" by simp
    finally show ?thesis .
  qed
  show ?thesis
  proof (cases "pos < length ?xs")
    case True
    let ?v = "v1\<lparr>slots := take pos (slots v1) @ replicate 1 None @ take (length ?xs - pos) (drop pos (slots v1)) @
      drop (length ?xs + 1) (slots v1)\<rparr>"
    let ?w = "?v\<lparr>slots := (slots ?v)[pos := Some x]\<rparr>"
    have "nv_insert esize d pos x v = Inr ?w"
      using v1(1) True n l1 by (simp add: nv_insert_def nv_move_forwards_def nv_construct_def Let_def)
    moreover have "nevector_ok esize ?w \<and> nv_elems ?w = take pos ?xs @ x # drop pos ?xs"
    proof (rule holds_ok)
      have "take pos (slots v1) = map Some (take pos ?xs)"
        using t1 True by (metis less_imp_le min.absorb1 take_map take_take)
      moreover have "take (length ?xs - pos) (drop pos (slots v1)) = map Some (drop pos ?xs)"
        using t1 by (metis drop_map drop_take)
      moreover have "Suc (pos + (length (slots v1) - Suc pos)) = length (slots v1)" using True l1 by simp
      moreover have "length ?xs - pos + (length (slots v1) - Suc (length ?xs)) = length (slots v1) - Suc pos"
        using True l1 by simp
      ultimately show "holds_elems esize ?w (take pos ?xs @ x # drop pos ?xs)"
        using h1(1) True l1 by (simp add: holds_elems_def list_update_append Suc_diff_le)
      show "nv_size ?w = length (take pos ?xs @ x # drop pos ?xs)" using h1(2) True by simp
    qed
    ultimately show ?thesis by simp
  next
    case False
    then have p: "pos = length ?xs" using assms(3) n by simp
    let ?w = "v1\<lparr>slots := (slots v1)[pos := Some x]\<rparr>"
    have "nv_insert esize d pos x v = Inr ?w"
      using v1(1) p n l1 by (simp add: nv_insert_def nv_move_forwards_def nv_construct_def Let_def)
    moreover have "nevector_ok esize ?w \<and> nv_elems ?w = ?xs @ [x]"
    proof (rule holds_ok)
      show "holds_elems esize ?w (?xs @ [x])"
        using h1(1) t1 l1 by (simp add: holds_elems_def p take_Suc_conv_app_nth)
      show "nv_size ?w = length (?xs @ [x])" using h1(2) by simp
    qed
    ultimately show ?thesis using p by simp
  qed
qed

lemma nv_copy_ok:
  assumes "nevector_ok esize v"
  shows "\<exists>v'. nv_copy esize v = Inr v' \<and> nevector_ok esize v' \<and> nv_elems v' = nv_elems v"
proof -
  from assms have n: "nv_size v = length (nv_elems v)" and m: "nv_size v \<le> nv_maxsize esize"
    by (simp_all add: nevector_holds) (use assms in \<open>simp add: nevector_ok_def\<close>)
  have "holds_elems esize (nevector_new :: 'a nevector) []" by (simp add: holds_elems_def nevector_new_def)
  from nv_reserve_ok [OF this _ m] obtain v1 where
    v1: "nv_reserve esize (nv_size v) (nevector_new :: 'a nevector) = Inr v1" "holds_elems esize v1 []"
      "nv_size v \<le> length (slots v1)" by (auto simp: nevector_new_def)
  from construct_all_ok [OF v1(2), of "nv_elems v"] v1(3) n obtain v2 where
    v2: "construct_all 0 (nv_elems v) v1 = Inr v2" "holds_elems esize v2 (nv_elems v)" by auto
  let ?v = "v2\<lparr>nv_size := nv_size v\<rparr>"
  have "nv_copy esize v = Inr ?v" using v1(1) v2(1) by (simp add: nv_copy_def)
  moreover have "nevector_ok esize ?v \<and> nv_elems ?v = nv_elems v"
    by (rule holds_ok) (use v2(2) n in \<open>simp_all add: holds_elems_def\<close>)
  ultimately show ?thesis by simp
qed

lemma store_all_ok:
  "holds_elems esize v (xs @ zs) \<Longrightarrow> length zs = length ys \<Longrightarrow>
     \<exists>v'. store_all (length xs) ys v = Inr v' \<and> holds_elems esize v' (xs @ ys) \<and> nv_size v' = nv_size v"
proof (induction ys arbitrary: v xs zs)
  case (Cons y ys)
  then obtain z zs' where zs: "zs = z # zs'" by (cases zs) auto
  let ?v = "v\<lparr>slots := (slots v)[length xs := Some y]\<rparr>"
  have l: "length xs < length (slots v)" "slots v ! length xs = Some z"
    using holds_length [OF Cons.prems(1)] holds_nth [OF Cons.prems(1), of "length xs"] zs by simp_all
  have "holds_elems esize ?v ((xs @ [y]) @ zs')"
    using Cons.prems(1) by (simp add: holds_elems_def zs take_update_swap list_update_append)
  from Cons.IH [OF this] Cons.prems(2) zs obtain v' where
    "store_all (length (xs @ [y])) ys ?v = Inr v'" "holds_elems esize v' ((xs @ [y]) @ ys)" "nv_size v' = nv_size ?v"
    by auto
  with l show ?case by simp
qed simp

lemma nv_assign_ok:
  assumes "nevector_ok esize v" and "nevector_ok esize right"
  shows "\<exists>v'. nv_assign esize d right v = Inr v' \<and> nevector_ok esize v' \<and> nv_elems v' = nv_elems right"
proof -
  from assms(2) have n: "nv_size right = length (nv_elems right)" and m: "nv_size right \<le> nv_maxsize esize"
    by (simp_all add: nevector_holds) (use assms(2) in \<open>simp add: nevector_ok_def\<close>)
  from nv_resize_ok [OF assms(1) m, of d] obtain v1 where
    v1: "nv_resize esize (nv_size right) d v = Inr v1" "nevector_ok esize v1"
      "nv_elems v1 = take (nv_size right) (nv_elems v) @ replicate (nv_size right - nv_size v) d" by blast
  have nv: "nv_size v = length (nv_elems v)" using assms(1) by (simp add: nevector_holds)
  have h1: "holds_elems esize v1 ([] @ nv_elems v1)" "nv_size v1 = length (nv_elems v1)"
    using v1(2) by (simp_all add: nevector_holds)
  have len: "length (nv_elems v1) = length (nv_elems right)" using v1(3) nv n by simp
  from store_all_ok [OF h1(1) len] obtain v2 where
    v2: "store_all 0 (nv_elems right) v1 = Inr v2" "holds_elems esize v2 (nv_elems right)" "nv_size v2 = nv_size v1" by auto
  have "nv_assign esize d right v = Inr v2" using v1(1) v2(1) by (simp add: nv_assign_def)
  with holds_ok [OF v2(2)] v2(3) h1(2) len show ?thesis by simp
qed

end
