(* ===== verification/Enum_Tables.thy ===== *)
theory Enum_Tables
  imports Steam_Enums
begin

text \<open>
  The other enumerations of include/steamclient/types/generated/SteamLanguage.hpp, each as the list of
  its declarations: name and value, flags as the disjunction that is written there. The constants of
  Steam_Enums are those of the tables, and every value fits the underlying type.
\<close>

unbundle bit_operations_syntax

section \<open>Declarations\<close>

definition EResult_table :: "(string \<times> int) list" where
  "EResult_table =
    [(''Invalid'', 0), (''OK'', 1), (''Fail'', 2), (''NoConnection'', 3), (''InvalidPassword'', 5),
     (''LoggedInElsewhere'', 6), (''InvalidProtocolVer'', 7), (''InvalidParam'', 8),
     (''FileNotFound'', 9), (''Busy'', 10), (''InvalidState'', 11), (''InvalidName'', 12),
     (''InvalidEmail'', 13), (''DuplicateName'', 14), (''AccessDenied'', 15), (''Timeout'', 16),
     (''Banned'', 17), (''AccountNotFound'', 18), (''InvalidSteamID'', 19),
     (''ServiceUnavailable'', 20), (''NotLoggedOn'', 21), (''Pending'', 22),
     (''EncryptionFailure'', 23), (''InsufficientPrivilege'', 24), (''LimitExceeded'', 25),
     (''Revoked'', 26), (''Expired'', 27), (''AlreadyRedeemed'', 28), (''DuplicateRequest'', 29),
     (''AlreadyOwned'', 30), (''IPNotFound'', 31), (''PersistFailed'', 32), (''LockingFailed'', 33),
     (''LogonSessionReplaced'', 34), (''ConnectFailed'', 35), (''HandshakeFailed'', 36),
     (''IOFailure'', 37), (''RemoteDisconnect'', 38), (''ShoppingCartNotFound'', 39),
     (''Blocked'', 40), (''Ignored'', 41), (''NoMatch'', 42), (''AccountDisabled'', 43),
     (''ServiceReadOnly'', 44), (''AccountNotFeatured'', 45), (''AdministratorOK'', 46),
     (''ContentVersion'', 47), (''TryAnotherCM'', 48), (''PasswordRequiredToKickSession'', 49),
     (''AlreadyLoggedInElsewhere'', 50), (''Suspended'', 51), (''Cancelled'', 52),
     (''DataCorruption'', 53), (''DiskFull'', 54), (''RemoteCallFailed'', 55), (''PasswordUnset'', 56),
     (''ExternalAccountUnlinked'', 57), (''PSNTicketInvalid'', 58),
     (''ExternalAccountAlreadyLinked'', 59), (''RemoteFileConflict'', 60), (''IllegalPassword'', 61),
     (''SameAsPreviousValue'', 62), (''AccountLogonDenied'', 63), (''CannotUseOldPassword'', 64),
     (''InvalidLoginAuthCode'', 65), (''AccountLogonDeniedNoMail'', 66),
     (''HardwareNotCapableOfIPT'', 67), (''IPTInitError'', 68), (''ParentalControlRestricted'', 69),
     (''FacebookQueryError'', 70), (''ExpiredLoginAuthCode'', 71), (''IPLoginRestrictionFailed'', 72),
     (''AccountLockedDown'', 73), (''AccountLogonDeniedVerifiedEmailRequired'', 74),
     (''NoMatchingURL'', 75), (''BadResponse'', 76), (''RequirePasswordReEntry'', 77),
     (''ValueOutOfRange'', 78), (''UnexpectedError'', 79), (''Disabled'', 80),
     (''InvalidCEGSubmission'', 81), (''RestrictedDevice'', 82), (''RegionLocked'', 83),
     (''RateLimitExceeded'', 84), (''AccountLoginDeniedNeedTwoFactor'', 85), (''ItemDeleted'', 86),
     (''AccountLoginDeniedThrottle'', 87), (''TwoFactorCodeMismatch'', 88),
     (''TwoFactorActivationCodeMismatch'', 89), (''AccountAssociatedToMultiplePartners'', 90),
     (''NotModified'', 91), (''NoMobileDevice'', 92), (''TimeNotSynced'', 93), (''SMSCodeFailed'', 94),
     (''AccountLimitExceeded'', 95), (''AccountActivityLimitExceeded'', 96),
     (''PhoneActivityLimitExceeded'', 97), (''RefundToWallet'', 98), (''EmailSendFailure'', 99),
     (''NotSettled'', 100), (''NeedCaptcha'', 101), (''GSLTDenied'', 102), (''GSOwnerDenied'', 103),
     (''InvalidItemType'', 104), (''IPBanned'', 105), (''GSLTExpired'', 106),
     (''InsufficientFunds'', 107), (''TooManyPending'', 108), (''NoSiteLicensesFound'', 109),
     (''WGNetworkSendExceeded'', 110), (''AccountNotFriends'', 111), (''LimitedUserAccount'', 112),
     (''CantRemoveItem'', 113), (''AccountDeleted'', 114), (''ExistingUserCancelledLicense'', 115),
     (''CommunityCooldown'', 116), (''NoLauncherSpecified'', 117), (''MustAgreeToSSA'', 118),
     (''LauncherMigrated'', 119), (''SteamRealmMismatch'', 120), (''InvalidSignature'', 121),
     (''ParseFailure'', 122), (''NoVerifiedPhone'', 123), (''InsufficientBattery'', 124),
     (''ChargerRequired'', 125), (''CachedCredentialInvalid'', 126), (''PhoneNumberIsVOIP'', 127),
     (''NotSupported'', 128), (''FamilySizeLimitExceeded'', 129), (''OfflineAppCacheInvalid'', 130),
     (''TryLater'', 131)]"

definition EUniverse_table :: "(string \<times> int) list" where
  "EUniverse_table =
    [(''Invalid'', 0), (''Public'', 1), (''Beta'', 2), (''Internal'', 3), (''Dev'', 4)]"

definition EChatEntryType_table :: "(string \<times> int) list" where
  "EChatEntryType_table =
    [(''Invalid'', 0), (''ChatMsg'', 1), (''Typing'', 2), (''InviteGame'', 3),
     (''LeftConversation'', 6), (''Entered'', 7), (''WasKicked'', 8), (''WasBanned'', 9),
     (''Disconnected'', 10), (''HistoricalChat'', 11), (''Reserved1'', 12), (''Reserved2'', 13),
     (''LinkBlocked'', 14)]"

definition EPersonaState_table :: "(string \<times> int) list" where
  "EPersonaState_table =
    [(''Offline'', 0), (''Online'', 1), (''Busy'', 2), (''Away'', 3), (''Snooze'', 4),
     (''LookingToTrade'', 5), (''LookingToPlay'', 6), (''Invisible'', 7)]"

definition EAccountType_table :: "(string \<times> int) list" where
  "EAccountType_table =
    [(''Invalid'', 0), (''Individual'', 1), (''Multiseat'', 2), (''GameServer'', 3),
     (''AnonGameServer'', 4), (''Pending'', 5), (''ContentServer'', 6), (''Clan'', 7), (''Chat'', 8),
     (''ConsoleUser'', 9), (''AnonUser'', 10)]"

definition EFriendRelationship_table :: "(string \<times> int) list" where
  "EFriendRelationship_table =
    [(''None'', 0), (''Blocked'', 1), (''RequestRecipient'', 2), (''Friend'', 3),
     (''RequestInitiator'', 4), (''Ignored'', 5), (''IgnoredFriend'', 6)]"

definition EAccountFlags_table :: "(string \<times> int) list" where
  "EAccountFlags_table =
    [(''NormalUser'', 0), (''PersonaNameSet'', 1), (''Unbannable'', 2), (''PasswordSet'', 4),
     (''Support'', 8), (''Admin'', 16), (''Supervisor'', 32), (''AppEditor'', 64), (''HWIDSet'', 128),
     (''PersonalQASet'', 256), (''VacBeta'', 512), (''Debug'', 1024), (''Disabled'', 2048),
     (''LimitedUser'', 4096), (''LimitedUserForce'', 8192), (''EmailValidated'', 16384),
     (''ValveEmail'', 32768), (''OGGInviteOptOut'', 65536), (''ForcePasswordChange'', 131072),
     (''ForceEmailVerification'', 262144), (''LogonExtraSecurity'', 524288),
     (''LogonExtraSecurityDisabled'', 1048576), (''Steam2MigrationComplete'', 2097152),
     (''NeedLogs'', 4194304), (''Lockdown'', 8388608), (''MasterAppEditor'', 16777216),
     (''BannedFromWebAPI'', 33554432), (''PartnerMember'', 67108864), (''GlobalModerator'', 134217728),
     (''ParentalSettings'', 268435456), (''ThirdPartySupport'', 536870912),
     (''NeedsSSANextSteamLogon'', 1073741824)]"

definition EClanPermission_table :: "(string \<times> int) list" where
  "EClanPermission_table =
    [(''Nobody'', 0), (''Owner'', 1), (''Officer'', 2), (''OwnerAndOfficer'', 3), (''Member'', 4),
     (''Moderator'', 8), (''OwnerOfficerModerator'', 1 OR 2 OR 8), (''AllMembers'', 1 OR 2 OR 8 OR 4),
     (''OGGGameOwner'', 16), (''NonMember'', 128), (''MemberAllowed'', 128 OR 4),
     (''ModeratorAllowed'', 128 OR 4 OR 8), (''OfficerAllowed'', 128 OR 4 OR 8 OR 2),
     (''OwnerAllowed'', 128 OR 4 OR 8 OR 2 OR 1), (''Anybody'', 128 OR 4 OR 8 OR 2 OR 1)]"

definition EChatPermission_table :: "(string \<times> int) list" where
  "EChatPermission_table =
    [(''Unknown'', 0), (''Close'', 1), (''Invite'', 2), (''Talk'', 8), (''Kick'', 16), (''Mute'', 32),
     (''SetMetadata'', 64), (''ChangePermissions'', 128), (''Ban'', 256), (''ChangeAccess'', 512),
     (''EveryoneNotInClanDefault'', 8), (''EveryoneDefault'', 8 OR 2),
     (''MemberDefault'', 256 OR 16 OR 8 OR 2), (''OfficerDefault'', 256 OR 16 OR 8 OR 2),
     (''OwnerDefault'', 512 OR 256 OR 64 OR 32 OR 16 OR 8 OR 2 OR 1), (''Mask'', 1019)]"

definition EFriendFlags_table :: "(string \<times> int) list" where
  "EFriendFlags_table =
    [(''None'', 0), (''Blocked'', 1), (''FriendshipRequested'', 2), (''Immediate'', 4),
     (''ClanMember'', 8), (''OnGameServer'', 16), (''RequestingFriendship'', 128),
     (''RequestingInfo'', 256), (''Ignored'', 512), (''IgnoredFriend'', 1024), (''Suggested'', 2048),
     (''ChatMember'', 4096), (''FlagAll'', 65535)]"

definition EPersonaStateFlag_table :: "(string \<times> int) list" where
  "EPersonaStateFlag_table =
    [(''HasRichPresence'', 1), (''InJoinableGame'', 2), (''Golden'', 4), (''RemotePlayTogether'', 8),
     (''ClientTypeWeb'', 256), (''ClientTypeMobile'', 512), (''ClientTypeTenfoot'', 1024),
     (''ClientTypeVR'', 2048), (''LaunchTypeGamepad'', 4096), (''LaunchTypeCompatTool'', 8192)]"

definition EClientPersonaStateFlag_table :: "(string \<times> int) list" where
  "EClientPersonaStateFlag_table =
    [(''Status'', 1), (''PlayerName'', 2), (''QueryPort'', 4), (''SourceID'', 8), (''Presence'', 16),
     (''LastSeen'', 64), (''UserClanRank'', 128), (''GameExtraInfo'', 256), (''GameDataBlob'', 512),
     (''ClanData'', 1024), (''Facebook'', 2048), (''RichPresence'', 4096), (''Broadcast'', 8192),
     (''Watching'', 16384)]"

definition EAppUsageEvent_table :: "(string \<times> int) list" where
  "EAppUsageEvent_table =
    [(''Unknown'', 0), (''GameLaunch'', 1), (''GameLaunchTrial'', 2), (''Media'', 3),
     (''PreloadStart'', 4), (''PreloadFinish'', 5), (''MarketingMessageView'', 6),
     (''InGameAdViewed'', 7), (''GameLaunchFreeWeekend'', 8)]"

definition ELicenseFlags_table :: "(string \<times> int) list" where
  "ELicenseFlags_table =
    [(''None'', 0), (''Renew'', 1), (''RenewalFailed'', 2), (''Pending'', 4), (''Expired'', 8),
     (''CancelledByUser'', 16), (''CancelledByAdmin'', 32), (''LowViolenceContent'', 64),
     (''ImportedFromSteam2'', 128), (''ForceRunRestriction'', 256),
     (''RegionRestrictionExpired'', 512), (''CancelledByFriendlyFraudLock'', 1024),
     (''NotActivated'', 2048), (''PendingRefund'', 8192), (''Borrowed'', 16384),
     (''ReleaseStateOverride'', 32768), (''CancelledByPartner'', 262144), (''NonPermanent'', 524288),
     (''PreferredOwner'', 1048576)]"

definition ELicenseType_table :: "(string \<times> int) list" where
  "ELicenseType_table =
    [(''NoLicense'', 0), (''SinglePurchase'', 1), (''SinglePurchaseLimitedUse'', 2),
     (''RecurringCharge'', 3), (''RecurringChargeLimitedUse'', 4),
     (''RecurringChargeLimitedUseWithOverages'', 5), (''RecurringOption'', 6),
     (''LimitedUseDelayedActivation'', 7)]"

definition EPaymentMethod_table :: "(string \<times> int) list" where
  "EPaymentMethod_table =
    [(''None'', 0), (''ActivationCode'', 1), (''CreditCard'', 2), (''Giropay'', 3), (''PayPal'', 4),
     (''Ideal'', 5), (''PaySafeCard'', 6), (''Sofort'', 7), (''GuestPass'', 8), (''WebMoney'', 9),
     (''MoneyBookers'', 10), (''AliPay'', 11), (''Yandex'', 12), (''Kiosk'', 13), (''Qiwi'', 14),
     (''GameStop'', 15), (''HardwarePromo'', 16), (''MoPay'', 17), (''BoletoBancario'', 18),
     (''BoaCompraGold'', 19), (''BancoDoBrasilOnline'', 20), (''ItauOnline'', 21),
     (''BradescoOnline'', 22), (''Pagseguro'', 23), (''VisaBrazil'', 24), (''AmexBrazil'', 25),
     (''Aura'', 26), (''Hipercard'', 27), (''MastercardBrazil'', 28), (''DinersCardBrazil'', 29),
     (''AuthorizedDevice'', 30), (''MOLPoints'', 31), (''ClickAndBuy'', 32), (''Beeline'', 33),
     (''Konbini'', 34), (''EClubPoints'', 35), (''CreditCardJapan'', 36), (''BankTransferJapan'', 37),
     (''PayEasy'', 38), (''Zong'', 39), (''CultureVoucher'', 40), (''BookVoucher'', 41),
     (''HappymoneyVoucher'', 42), (''ConvenientStoreVoucher'', 43), (''GameVoucher'', 44),
     (''Multibanco'', 45), (''Payshop'', 46), (''MaestroBoaCompra'', 47), (''OXXO'', 48),
     (''ToditoCash'', 49), (''Carnet'', 50), (''SPEI'', 51), (''ThreePay'', 52), (''IsBank'', 53),
     (''Garanti'', 54), (''Akbank'', 55), (''YapiKredi'', 56), (''Halkbank'', 57), (''BankAsya'', 58),
     (''Finansbank'', 59), (''DenizBank'', 60), (''PTT'', 61), (''CashU'', 62), (''SantanderRio'', 63),
     (''AutoGrant'', 64), (''WebMoneyJapan'', 65), (''OneCard'', 66), (''PSE'', 67), (''Exito'', 68),
     (''Efecty'', 69), (''Paloto'', 70), (''PinValidda'', 71), (''MangirKart'', 72),
     (''BancoCreditoDePeru'', 73), (''BBVAContinental'', 74), (''SafetyPay'', 75),
     (''PagoEfectivo'', 76), (''Trustly'', 77), (''UnionPay'', 78), (''BitCoin'', 79),
     (''LicensedSite'', 80), (''BitCash'', 81), (''NetCash'', 82), (''Nanaco'', 83), (''Tenpay'', 84),
     (''WeChat'', 85), (''CashonDelivery'', 86), (''CreditCardNodwin'', 87), (''DebitCardNodwin'', 88),
     (''NetBankingNodwin'', 89), (''CashCardNodwin'', 90), (''WalletNodwin'', 91),
     (''MobileDegica'', 92), (''Naranja'', 93), (''Cencosud'', 94), (''Cabal'', 95),
     (''PagoFacil'', 96), (''Rapipago'', 97), (''BancoNacionaldeCostaRica'', 98),
     (''BancoPoplar'', 99), (''RedPagos'', 100), (''SPE'', 101), (''Multicaja'', 102),
     (''RedCompra'', 103), (''ZiraatBank'', 104), (''VakiflarBank'', 105), (''KuveytTurkBank'', 106),
     (''EkonomiBank'', 107), (''Pichincha'', 108), (''PichinchaCash'', 109), (''Przelewy24'', 110),
     (''Trustpay'', 111), (''POLi'', 112), (''MercadoPago'', 113), (''PayU'', 114),
     (''VTCPayWallet'', 115), (''MrCash'', 116), (''EPS'', 117), (''Interac'', 118),
     (''VTCPayCards'', 119), (''VTCPayOnlineBanking'', 120), (''VisaElectronBoaCompra'', 121),
     (''CafeFunded'', 122), (''OCA'', 123), (''Lider'', 124), (''WebMoneySteamCardJapan'', 125),
     (''WebMoneySteamCardTopUpJapan'', 126), (''Toss'', 127), (''Wallet'', 128), (''Valve'', 129),
     (''MasterComp'', 130), (''Promotional'', 131), (''MasterSubscription'', 134), (''Payco'', 135),
     (''MobileWalletJapan'', 136), (''BoletoFlash'', 137), (''PIX'', 138), (''GCash'', 139),
     (''KakaoPay'', 140), (''Dana'', 141), (''TrueMoney'', 142), (''TouchnGo'', 143),
     (''LinePay'', 144), (''MerPay'', 145), (''PayPay'', 146), (''AlfaClick'', 147),
     (''Sberbank'', 148), (''YooMoney'', 149), (''Tinkoff'', 150), (''CashInCIS'', 151),
     (''AuPAY'', 152), (''AliPayHK'', 153), (''NaverPay'', 154), (''Linkaja'', 155),
     (''ShopeePay'', 156), (''GrabPay'', 157), (''PayNow'', 158), (''OnlineBankingThailand'', 159),
     (''CashOptionsThailand'', 160), (''OEMTicket'', 256), (''Split'', 512), (''Complimentary'', 1024),
     (''FamilyGroup'', 1025)]"

definition EPurchaseResultDetail_table :: "(string \<times> int) list" where
  "EPurchaseResultDetail_table =
    [(''NoDetail'', 0), (''AVSFailure'', 1), (''InsufficientFunds'', 2), (''ContactSupport'', 3),
     (''Timeout'', 4), (''InvalidPackage'', 5), (''InvalidPaymentMethod'', 6), (''InvalidData'', 7),
     (''OthersInProgress'', 8), (''AlreadyPurchased'', 9), (''WrongPrice'', 10),
     (''FraudCheckFailed'', 11), (''CancelledByUser'', 12), (''RestrictedCountry'', 13),
     (''BadActivationCode'', 14), (''DuplicateActivationCode'', 15), (''UseOtherPaymentMethod'', 16),
     (''UseOtherFunctionSource'', 17), (''InvalidShippingAddress'', 18), (''RegionNotSupported'', 19),
     (''AcctIsBlocked'', 20), (''AcctNotVerified'', 21), (''InvalidAccount'', 22),
     (''StoreBillingCountryMismatch'', 23), (''DoesNotOwnRequiredApp'', 24),
     (''CanceledByNewTransaction'', 25), (''ForceCanceledPending'', 26),
     (''FailCurrencyTransProvider'', 27), (''FailedCyberCafe'', 28), (''NeedsPreApproval'', 29),
     (''PreApprovalDenied'', 30), (''WalletCurrencyMismatch'', 31), (''EmailNotValidated'', 32),
     (''ExpiredCard'', 33), (''TransactionExpired'', 34), (''WouldExceedMaxWallet'', 35),
     (''MustLoginPS3AppForPurchase'', 36), (''CannotShipToPOBox'', 37),
     (''InsufficientInventory'', 38), (''CannotGiftShippedGoods'', 39),
     (''CannotShipInternationally'', 40), (''BillingAgreementCancelled'', 41), (''InvalidCoupon'', 42),
     (''ExpiredCoupon'', 43), (''AccountLocked'', 44), (''OtherAbortableInProgress'', 45),
     (''ExceededSteamLimit'', 46), (''OverlappingPackagesInCart'', 47), (''NoWallet'', 48),
     (''NoCachedPaymentMethod'', 49), (''CannotRedeemCodeFromClient'', 50),
     (''PurchaseAmountNoSupportedByProvider'', 51), (''OverlappingPackagesInPendingTransaction'', 52),
     (''RateLimited'', 53), (''OwnsExcludedApp'', 54), (''CreditCardBinMismatchesType'', 55),
     (''CartValueTooHigh'', 56), (''BillingAgreementAlreadyExists'', 57),
     (''POSACodeNotActivated'', 58), (''CannotShipToCountry'', 59), (''HungTransactionCancelled'', 60),
     (''PaypalInternalError'', 61), (''UnknownGlobalCollectError'', 62), (''InvalidTaxAddress'', 63),
     (''PhysicalProductLimitExceeded'', 64), (''PurchaseCannotBeReplayed'', 65),
     (''DelayedCompletion'', 66), (''BundleTypeCannotBeGifted'', 67), (''BlockedByUSGov'', 68),
     (''ItemsReservedForCommercialUse'', 69), (''GiftAlreadyOwned'', 70),
     (''GiftInvalidForRecipientRegion'', 71), (''GiftPricingImbalance'', 72),
     (''GiftRecipientNotSpecified'', 73), (''ItemsNotAllowedForCommercialUse'', 74),
     (''BusinessStoreCountryCodeMismatch'', 75), (''UserAssociatedWithManyCafes'', 76),
     (''UserNotAssociatedWithCafe'', 77), (''AddressInvalid'', 78), (''CreditCardNumberInvalid'', 79),
     (''CannotShipToMilitaryPostOffice'', 80), (''BillingNameInvalidResemblesCreditCard'', 81),
     (''PaymentMethodTemporarilyUnavailable'', 82), (''PaymentMethodNotSupportedForProduct'', 83)]"

definition EIntroducerRouting_table :: "(string \<times> int) list" where
  "EIntroducerRouting_table =
    [(''Unknown'', 0), (''P2PVoiceChat'', 1), (''P2PNetworking'', 2)]"

definition EServerFlags_table :: "(string \<times> int) list" where
  "EServerFlags_table =
    [(''None'', 0), (''Active'', 1), (''Secure'', 2), (''Dedicated'', 4), (''Linux'', 8),
     (''Passworded'', 16), (''Private'', 32)]"

definition EDenyReason_table :: "(string \<times> int) list" where
  "EDenyReason_table =
    [(''Unknown'', 0), (''InvalidVersion'', 1), (''Generic'', 2), (''NotLoggedOn'', 3),
     (''NoLicense'', 4), (''Cheater'', 5), (''LoggedInElseWhere'', 6), (''UnknownText'', 7),
     (''IncompatibleAnticheat'', 8), (''MemoryCorruption'', 9), (''IncompatibleSoftware'', 10),
     (''SteamConnectionLost'', 11), (''SteamConnectionError'', 12), (''SteamResponseTimedOut'', 13),
     (''SteamValidationStalled'', 14), (''SteamOwnerLeftGuestUser'', 15)]"

definition EClanRank_table :: "(string \<times> int) list" where
  "EClanRank_table =
    [(''None'', 0), (''Owner'', 1), (''Officer'', 2), (''Member'', 3), (''Moderator'', 4)]"

definition EClanRelationship_table :: "(string \<times> int) list" where
  "EClanRelationship_table =
    [(''None'', 0), (''Blocked'', 1), (''Invited'', 2), (''Member'', 3), (''Kicked'', 4),
     (''KickAcknowledged'', 5), (''PendingApproval'', 6), (''RequestDenied'', 7)]"

definition EAuthSessionResponse_table :: "(string \<times> int) list" where
  "EAuthSessionResponse_table =
    [(''OK'', 0), (''UserNotConnectedToSteam'', 1), (''NoLicenseOrExpired'', 2), (''VACBanned'', 3),
     (''LoggedInElseWhere'', 4), (''VACCheckTimedOut'', 5), (''AuthTicketCanceled'', 6),
     (''AuthTicketInvalidAlreadyUsed'', 7), (''AuthTicketInvalid'', 8), (''PublisherIssuedBan'', 9)]"

definition EChatRoomEnterResponse_table :: "(string \<times> int) list" where
  "EChatRoomEnterResponse_table =
    [(''Unknown'', 0), (''Success'', 1), (''DoesntExist'', 2), (''NotAllowed'', 3), (''Full'', 4),
     (''Error'', 5), (''Banned'', 6), (''Limited'', 7), (''ClanDisabled'', 8), (''CommunityBan'', 9),
     (''MemberBlockedYou'', 10), (''YouBlockedMember'', 11)]"

definition EChatRoomType_table :: "(string \<times> int) list" where
  "EChatRoomType_table =
    [(''Unknown'', 0), (''Friend'', 1), (''MUC'', 2), (''Lobby'', 3)]"

definition EChatInfoType_table :: "(string \<times> int) list" where
  "EChatInfoType_table =
    [(''Unknown'', 0), (''StateChange'', 1), (''InfoUpdate'', 2), (''MemberLimitChange'', 3)]"

definition EChatAction_table :: "(string \<times> int) list" where
  "EChatAction_table =
    [(''Unknown'', 0), (''InviteChat'', 1), (''Kick'', 2), (''Ban'', 3), (''UnBan'', 4),
     (''StartVoiceSpeak'', 5), (''EndVoiceSpeak'', 6), (''LockChat'', 7), (''UnlockChat'', 8),
     (''CloseChat'', 9), (''SetJoinable'', 10), (''SetUnjoinable'', 11), (''SetOwner'', 12),
     (''SetInvisibleToFriends'', 13), (''SetVisibleToFriends'', 14), (''SetModerated'', 15),
     (''SetUnmoderated'', 16)]"

definition EChatActionResult_table :: "(string \<times> int) list" where
  "EChatActionResult_table =
    [(''Unknown'', 0), (''Success'', 1), (''Error'', 2), (''NotPermitted'', 3),
     (''NotAllowedOnClanMember'', 4), (''NotAllowedOnBannedUser'', 5), (''NotAllowedOnChatOwner'', 6),
     (''NotAllowedOnSelf'', 7), (''ChatDoesntExist'', 8), (''ChatFull'', 9), (''VoiceSlotsFull'', 10)]"

definition EAppInfoSection_table :: "(string \<times> int) list" where
  "EAppInfoSection_table =
    [(''Unknown'', 0), (''All'', 1), (''First'', 2), (''Common'', 2), (''Extended'', 3),
     (''Config'', 4), (''Stats'', 5), (''Install'', 6), (''Depots'', 7), (''UFS'', 10), (''OGG'', 11),
     (''Policies'', 13), (''SysReqs'', 14), (''Community'', 15), (''Store'', 16),
     (''Localization'', 17), (''Broadcastgamedata'', 18), (''Computed'', 19), (''Albummetadata'', 20)]"

definition EContentDownloadSourceType_table :: "(string \<times> int) list" where
  "EContentDownloadSourceType_table =
    [(''Invalid'', 0), (''CS'', 1), (''CDN'', 2), (''LCS'', 3), (''ProxyCache'', 4), (''LANPeer'', 5),
     (''SLS'', 6), (''SteamCache'', 7), (''OpenCache'', 8), (''LANCache'', 9)]"

definition EPlatformType_table :: "(string \<times> int) list" where
  "EPlatformType_table =
    [(''Unknown'', 0), (''Win32'', 1), (''Win64'', 2), (''Linux64'', 3), (''OSX'', 4), (''PS3'', 5),
     (''Linux32'', 6), (''Android32'', 7), (''Android64'', 8), (''IOS32'', 9), (''IOS64'', 10),
     (''TVOS'', 11), (''EmbeddedClient'', 12), (''Browser'', 13)]"

definition EOSType_table :: "(string \<times> int) list" where
  "EOSType_table =
    [(''Unknown'', -1), (''Web'', -700), (''IOSUnknown'', -600), (''IOS1'', -599), (''IOS2'', -598),
     (''IOS3'', -597), (''IOS4'', -596), (''IOS5'', -595), (''IOS6'', -594), (''IOS6_1'', -593),
     (''IOS7'', -592), (''IOS7_1'', -591), (''IOS8'', -590), (''IOS8_1'', -589), (''IOS8_2'', -588),
     (''IOS8_3'', -587), (''IOS8_4'', -586), (''IOS9'', -585), (''IOS9_1'', -584), (''IOS9_2'', -583),
     (''IOS9_3'', -582), (''IOS10'', -581), (''IOS10_1'', -580), (''IOS10_2'', -579),
     (''IOS10_3'', -578), (''IOS11'', -577), (''IOS11_1'', -576), (''IOS11_2'', -575),
     (''IOS11_3'', -574), (''IOS11_4'', -573), (''IOS12'', -572), (''IOS12_1'', -571),
     (''AndroidUnknown'', -500), (''Android6'', -499), (''Android7'', -498), (''Android8'', -497),
     (''Android9'', -496), (''UMQ'', -400), (''PS3'', -300), (''MacOSUnknown'', -102),
     (''MacOS104'', -101), (''MacOS105'', -100), (''MacOS1058'', -99), (''MacOS106'', -95),
     (''MacOS1063'', -94), (''MacOS1064_slgu'', -93), (''MacOS1067'', -92), (''MacOS107'', -90),
     (''MacOS108'', -89), (''MacOS109'', -88), (''MacOS1010'', -87), (''MacOS1011'', -86),
     (''MacOS1012'', -85), (''Macos1013'', -84), (''Macos1014'', -83), (''Macos1015'', -82),
     (''MacOS1016'', -81), (''MacOS11'', -80), (''MacOS111'', -79), (''MacOS1017'', -78),
     (''MacOS12'', -77), (''MacOS1018'', -76), (''MacOS13'', -75), (''MacOS1019'', -74),
     (''MacOS14'', -73), (''MacOS1020'', -72), (''MacOS15'', -71), (''MacOSMax'', -1),
     (''LinuxUnknown'', -203), (''Linux22'', -202), (''Linux24'', -201), (''Linux26'', -200),
     (''Linux32'', -199), (''Linux35'', -198), (''Linux36'', -197), (''Linux310'', -196),
     (''Linux316'', -195), (''Linux318'', -194), (''Linux3x'', -193), (''Linux4x'', -192),
     (''Linux41'', -191), (''Linux44'', -190), (''Linux49'', -189), (''Linux414'', -188),
     (''Linux419'', -187), (''Linux5x'', -186), (''Linux54'', -185), (''Linux6x'', -184),
     (''Linux7x'', -183), (''Linux510'', -182), (''LinuxMax'', -101), (''WinUnknown'', 0),
     (''Win311'', 1), (''Win95'', 2), (''Win98'', 3), (''WinME'', 4), (''WinNT'', 5), (''Win2000'', 6),
     (''WinXP'', 7), (''Win2003'', 8), (''WinVista'', 9), (''Windows7'', 10), (''Win2008'', 11),
     (''Win2012'', 12), (''Windows8'', 13), (''Windows81'', 14), (''Win2012R2'', 15),
     (''Windows10'', 16), (''Win2016'', 17), (''Win2019'', 18), (''Win2022'', 19), (''Win11'', 20),
     (''WinMAX'', 21)]"

definition EServerType_table :: "(string \<times> int) list" where
  "EServerType_table =
    [(''Util'', -2), (''Client'', -3), (''CServer'', -4), (''CEconBase'', -5), (''Invalid'', -1),
     (''First'', 0), (''Shell'', 0), (''GM'', 1), (''AM'', 3), (''BS'', 4), (''VS'', 5), (''ATS'', 6),
     (''CM'', 7), (''FBS'', 8), (''BoxMonitor'', 9), (''SS'', 10), (''DRMS'', 11), (''Console'', 13),
     (''PICS'', 14), (''ContentStats'', 16), (''DP'', 17), (''WG'', 18), (''SM'', 19), (''SLC'', 20),
     (''UFS'', 21), (''Community'', 24), (''AppInformation'', 26), (''Spare'', 27), (''FTS'', 28),
     (''SiteLicense'', 29), (''PS'', 30), (''IS'', 31), (''CCS'', 32), (''DFS'', 33), (''LBS'', 34),
     (''MDS'', 35), (''CS'', 36), (''GC'', 37), (''NS'', 38), (''OGS'', 39), (''WebAPI'', 40),
     (''UDS'', 41), (''MMS'', 42), (''GMS'', 43), (''KGS'', 44), (''UCM'', 45), (''RM'', 46),
     (''FS'', 47), (''Econ'', 48), (''Backpack'', 49), (''UGS'', 50), (''StoreFeature'', 51),
     (''MoneyStats'', 52), (''CRE'', 53), (''UMQ'', 54), (''Workshop'', 55), (''BRP'', 56),
     (''GCH'', 57), (''MPAS'', 58), (''Trade'', 59), (''Secrets'', 60), (''Logsink'', 61),
     (''Market'', 62), (''Quest'', 63), (''WDS'', 64), (''ACS'', 65), (''PNP'', 66), (''TaxForm'', 67),
     (''ExternalMonitor'', 68), (''Parental'', 69), (''PartnerUpload'', 70), (''Partner'', 71),
     (''ES'', 72), (''DepotWebContent'', 73), (''ExternalConfig'', 74), (''GameNotifications'', 75),
     (''MarketRepl'', 76), (''MarketSearch'', 77), (''Localization'', 78), (''Steam2Emulator'', 79),
     (''PublicTest'', 80), (''SolrMgr'', 81), (''BroadcastIngester'', 82),
     (''BroadcastDirectory'', 83), (''VideoManager'', 84), (''TradeOffer'', 85),
     (''BroadcastChat'', 86), (''Phone'', 87), (''AccountScore'', 88), (''Support'', 89),
     (''LogRequest'', 90), (''LogWorker'', 91), (''EmailDelivery'', 92), (''InventoryManagement'', 93),
     (''Auth'', 94), (''StoreCatalog'', 95), (''HLTVRelay'', 96), (''IDLS'', 97), (''Perf'', 98),
     (''ItemInventory'', 99), (''Watchdog'', 100), (''AccountHistory'', 101), (''Chat'', 102),
     (''Shader'', 103), (''AccountHardware'', 104), (''WebRTC'', 105), (''Giveaway'', 106),
     (''ChatRoom'', 107), (''VoiceChat'', 108), (''QMS'', 109), (''Trust'', 110),
     (''TimeMachine'', 111), (''VACDBMaster'', 112), (''ContentServerConfig'', 113),
     (''Minigame'', 114), (''MLTrain'', 115), (''VACTest'', 116), (''TaxService'', 117),
     (''MLInference'', 118), (''UGSAggregate'', 119), (''TURN'', 120), (''RemoteClient'', 121),
     (''BroadcastOrigin'', 122), (''BroadcastChannel'', 123), (''SteamAR'', 124), (''China'', 125),
     (''CrashDump'', 126)]"

definition EBillingType_table :: "(string \<times> int) list" where
  "EBillingType_table =
    [(''NoCost'', 0), (''BillOnceOnly'', 1), (''BillMonthly'', 2), (''ProofOfPrepurchaseOnly'', 3),
     (''GuestPass'', 4), (''HardwarePromo'', 5), (''Gift'', 6), (''AutoGrant'', 7), (''OEMTicket'', 8),
     (''RecurringOption'', 9), (''BillOnceOrCDKey'', 10), (''Repurchaseable'', 11),
     (''FreeOnDemand'', 12), (''Rental'', 13), (''CommercialLicense'', 14),
     (''FreeCommercialLicense'', 15), (''NumBillingTypes'', 16)]"

definition EPackageStatus_table :: "(string \<times> int) list" where
  "EPackageStatus_table =
    [(''Available'', 0), (''Preorder'', 1), (''Unavailable'', 2), (''Invalid'', 3)]"

definition EActivationCodeClass_table :: "(string \<times> int) list" where
  "EActivationCodeClass_table =
    [(''WonCDKey'', 0), (''ValveCDKey'', 1), (''Doom3CDKey'', 2), (''DBLookup'', 3),
     (''Steam2010Key'', 4), (''Max'', 5), (''Test'', 2147483647), (''Invalid'', 4294967295)]"

definition EChatMemberStateChange_table :: "(string \<times> int) list" where
  "EChatMemberStateChange_table =
    [(''Entered'', 1), (''Left'', 2), (''Disconnected'', 4), (''Kicked'', 8), (''Banned'', 16),
     (''VoiceSpeaking'', 4096), (''VoiceDoneSpeaking'', 8192)]"

definition ERegionCode_table :: "(string \<times> int) list" where
  "ERegionCode_table =
    [(''USEast'', 0), (''USWest'', 1), (''SouthAmerica'', 2), (''Europe'', 3), (''Asia'', 4),
     (''Australia'', 5), (''MiddleEast'', 6), (''Africa'', 7), (''World'', 255)]"

definition ECurrencyCode_table :: "(string \<times> int) list" where
  "ECurrencyCode_table =
    [(''Invalid'', 0), (''USD'', 1), (''GBP'', 2), (''EUR'', 3), (''CHF'', 4), (''RUB'', 5),
     (''PLN'', 6), (''BRL'', 7), (''JPY'', 8), (''NOK'', 9), (''IDR'', 10), (''MYR'', 11),
     (''PHP'', 12), (''SGD'', 13), (''THB'', 14), (''VND'', 15), (''KRW'', 16), (''TRY'', 17),
     (''UAH'', 18), (''MXN'', 19), (''CAD'', 20), (''AUD'', 21), (''NZD'', 22), (''CNY'', 23),
     (''INR'', 24), (''CLP'', 25), (''PEN'', 26), (''COP'', 27), (''ZAR'', 28), (''HKD'', 29),
     (''TWD'', 30), (''SAR'', 31), (''AED'', 32), (''ARS'', 34), (''ILS'', 35), (''BYN'', 36),
     (''KZT'', 37), (''KWD'', 38), (''QAR'', 39), (''CRC'', 40), (''UYU'', 41), (''BGN'', 42),
     (''HRK'', 43), (''CZK'', 44), (''DKK'', 45), (''HUF'', 46), (''RON'', 47)]"

definition EDepotFileFlag_table :: "(string \<times> int) list" where
  "EDepotFileFlag_table =
    [(''UserConfig'', 1), (''VersionedUserConfig'', 2), (''Encrypted'', 4), (''ReadOnly'', 8),
     (''Hidden'', 16), (''Executable'', 32), (''Directory'', 64), (''CustomExecutable'', 128),
     (''InstallScript'', 256), (''Symlink'', 512)]"

definition EWorkshopEnumerationType_table :: "(string \<times> int) list" where
  "EWorkshopEnumerationType_table =
    [(''RankedByVote'', 0), (''Recent'', 1), (''Trending'', 2), (''FavoriteOfFriends'', 3),
     (''VotedByFriends'', 4), (''ContentByFriends'', 5), (''RecentFromFollowedUsers'', 6)]"

definition EPublishedFileVisibility_table :: "(string \<times> int) list" where
  "EPublishedFileVisibility_table =
    [(''Public'', 0), (''FriendsOnly'', 1), (''Private'', 2), (''Unlisted'', 3)]"

definition EWorkshopFileType_table :: "(string \<times> int) list" where
  "EWorkshopFileType_table =
    [(''First'', 0), (''Community'', 0), (''Microtransaction'', 1), (''Collection'', 2), (''Art'', 3),
     (''Video'', 4), (''Screenshot'', 5), (''Game'', 6), (''Software'', 7), (''Concept'', 8),
     (''WebGuide'', 9), (''IntegratedGuide'', 10), (''Merch'', 11), (''ControllerBinding'', 12),
     (''SteamworksAccessInvite'', 13), (''SteamVideo'', 14), (''GameManagedItem'', 15), (''Clip'', 16)]"

definition EWorkshopFileAction_table :: "(string \<times> int) list" where
  "EWorkshopFileAction_table =
    [(''Played'', 0), (''Completed'', 1)]"

definition EEconTradeResponse_table :: "(string \<times> int) list" where
  "EEconTradeResponse_table =
    [(''Accepted'', 0), (''Declined'', 1), (''TradeBannedInitiator'', 2), (''TradeBannedTarget'', 3),
     (''TargetAlreadyTrading'', 4), (''Disabled'', 5), (''NotLoggedIn'', 6), (''Cancel'', 7),
     (''TooSoon'', 8), (''TooSoonPenalty'', 9), (''ConnectionFailed'', 10), (''AlreadyTrading'', 11),
     (''AlreadyHasTradeRequest'', 12), (''NoResponse'', 13), (''CyberCafeInitiator'', 14),
     (''CyberCafeTarget'', 15), (''SchoolLabInitiator'', 16), (''SchoolLabTarget'', 17),
     (''InitiatorBlockedTarget'', 18), (''InitiatorNeedsVerifiedEmail'', 20),
     (''InitiatorNeedsSteamGuard'', 21), (''TargetAccountCannotTrade'', 22),
     (''InitiatorSteamGuardDuration'', 23), (''InitiatorPasswordResetProbation'', 24),
     (''InitiatorNewDeviceCooldown'', 25), (''InitiatorSentInvalidCookie'', 26),
     (''NeedsEmailConfirmation'', 27), (''InitiatorRecentEmailChange'', 28),
     (''NeedsMobileConfirmation'', 29), (''TradingHoldForClearedTradeOffersInitiator'', 30),
     (''WouldExceedMaxAssetCount'', 31), (''DisabledInRegion'', 32), (''DisabledInPartnerRegion'', 33),
     (''OKToDeliver'', 50)]"

definition EMarketingMessageFlags_table :: "(string \<times> int) list" where
  "EMarketingMessageFlags_table =
    [(''None'', 0), (''HighPriority'', 1), (''PlatformWindows'', 2), (''PlatformMac'', 4),
     (''PlatformLinux'', 8), (''PlatformRestrictions'', 2 OR 4 OR 8)]"

definition ENewsUpdateType_table :: "(string \<times> int) list" where
  "ENewsUpdateType_table =
    [(''AppNews'', 0), (''SteamAds'', 1), (''SteamNews'', 2), (''CDDBUpdate'', 3),
     (''ClientUpdate'', 4)]"

definition ESystemIMType_table :: "(string \<times> int) list" where
  "ESystemIMType_table =
    [(''RawText'', 0), (''InvalidCard'', 1), (''RecurringPurchaseFailed'', 2), (''CardWillExpire'', 3),
     (''SubscriptionExpired'', 4), (''GuestPassReceived'', 5), (''GuestPassGranted'', 6),
     (''GiftRevoked'', 7), (''SupportMessage'', 8), (''SupportMessageClearAlert'', 9)]"

definition EChatFlags_table :: "(string \<times> int) list" where
  "EChatFlags_table =
    [(''Locked'', 1), (''InvisibleToFriends'', 2), (''Moderated'', 4), (''Unjoinable'', 8)]"

definition ERemoteStoragePlatform_table :: "(string \<times> int) list" where
  "ERemoteStoragePlatform_table =
    [(''None'', 0), (''Windows'', 1), (''OSX'', 2), (''PS3'', 4), (''Linux'', 8), (''Switch'', 16),
     (''Android'', 32), (''IPhoneOS'', 64), (''All'', -1)]"

definition EDRMBlobDownloadType_table :: "(string \<times> int) list" where
  "EDRMBlobDownloadType_table =
    [(''Error'', 0), (''File'', 1), (''Parts'', 2), (''Compressed'', 4), (''AllMask'', 7),
     (''IsJob'', 8), (''HighPriority'', 16), (''AddTimestamp'', 32), (''LowPriority'', 64)]"

definition EDRMBlobDownloadErrorDetail_table :: "(string \<times> int) list" where
  "EDRMBlobDownloadErrorDetail_table =
    [(''None'', 0), (''DownloadFailed'', 1), (''TargetLocked'', 2), (''OpenZip'', 3),
     (''ReadZipDirectory'', 4), (''UnexpectedZipEntry'', 5), (''UnzipFullFile'', 6),
     (''UnknownBlobType'', 7), (''UnzipStrips'', 8), (''UnzipMergeGuid'', 9), (''UnzipSignature'', 10),
     (''ApplyStrips'', 11), (''ApplyMergeGuid'', 12), (''ApplySignature'', 13),
     (''AppIdMismatch'', 14), (''AppIdUnexpected'', 15), (''AppliedSignatureCorrupt'', 16),
     (''ApplyValveSignatureHeader'', 17), (''UnzipValveSignatureHeader'', 18),
     (''PathManipulationError'', 19), (''TargetLocked_Base'', 65536), (''TargetLocked_Max'', 131071),
     (''NextBase'', 131072)]"

definition EClientStat_table :: "(string \<times> int) list" where
  "EClientStat_table =
    [(''P2PConnectionsUDP'', 0), (''P2PConnectionsRelay'', 1), (''P2PGameConnections'', 2),
     (''P2PVoiceConnections'', 3), (''BytesDownloaded'', 4)]"

definition EClientStatAggregateMethod_table :: "(string \<times> int) list" where
  "EClientStatAggregateMethod_table =
    [(''LatestOnly'', 0), (''Sum'', 1), (''Event'', 2), (''Scalar'', 3)]"

definition ELeaderboardDataRequest_table :: "(string \<times> int) list" where
  "ELeaderboardDataRequest_table =
    [(''Global'', 0), (''GlobalAroundUser'', 1), (''Friends'', 2), (''Users'', 3)]"

definition ELeaderboardSortMethod_table :: "(string \<times> int) list" where
  "ELeaderboardSortMethod_table =
    [(''None'', 0), (''Ascending'', 1), (''Descending'', 2)]"

definition ELeaderboardDisplayType_table :: "(string \<times> int) list" where
  "ELeaderboardDisplayType_table =
    [(''None'', 0), (''Numeric'', 1), (''TimeSeconds'', 2), (''TimeMilliSeconds'', 3)]"

definition ELeaderboardUploadScoreMethod_table :: "(string \<times> int) list" where
  "ELeaderboardUploadScoreMethod_table =
    [(''None'', 0), (''KeepBest'', 1), (''ForceUpdate'', 2)]"

definition EUCMFilePrivacyState_table :: "(string \<times> int) list" where
  "EUCMFilePrivacyState_table =
    [(''Invalid'', -1), (''Private'', 2), (''FriendsOnly'', 4), (''Public'', 8), (''Unlisted'', 16),
     (''All'', 8 OR 4 OR 2 OR 16)]"

definition EPublishedFileQueryType_table :: "(string \<times> int) list" where
  "EPublishedFileQueryType_table =
    [(''RankedByVote'', 0), (''RankedByPublicationDate'', 1),
     (''AcceptedForGameRankedByAcceptanceDate'', 2), (''RankedByTrend'', 3),
     (''FavoritedByFriendsRankedByPublicationDate'', 4),
     (''CreatedByFriendsRankedByPublicationDate'', 5), (''RankedByNumTimesReported'', 6),
     (''CreatedByFollowedUsersRankedByPublicationDate'', 7), (''NotYetRated'', 8),
     (''RankedByTotalUniqueSubscriptions'', 9), (''RankedByTotalVotesAsc'', 10),
     (''RankedByVotesUp'', 11), (''RankedByTextSearch'', 12), (''RankedByPlaytimeTrend'', 13),
     (''RankedByTotalPlaytime'', 14), (''RankedByAveragePlaytimeTrend'', 15),
     (''RankedByLifetimeAveragePlaytime'', 16), (''RankedByPlaytimeSessionsTrend'', 17),
     (''RankedByLifetimePlaytimeSessions'', 18), (''RankedByInappropriateContentRating'', 19)]"

definition EPublishedFileInappropriateProvider_table :: "(string \<times> int) list" where
  "EPublishedFileInappropriateProvider_table =
    [(''Invalid'', 0), (''Google'', 1), (''Amazon'', 2)]"

definition EPublishedFileInappropriateResult_table :: "(string \<times> int) list" where
  "EPublishedFileInappropriateResult_table =
    [(''NotScanned'', 0), (''VeryUnlikely'', 1), (''Unlikely'', 30), (''Possible'', 50),
     (''Likely'', 75), (''VeryLikely'', 100)]"

definition EDisplayStatus_table :: "(string \<times> int) list" where
  "EDisplayStatus_table =
    [(''Invalid'', 0), (''Launching'', 1), (''Uninstalling'', 2), (''Installing'', 3),
     (''Running'', 4), (''Validating'', 5), (''Updating'', 6), (''Downloading'', 7),
     (''Synchronizing'', 8), (''ReadyToInstall'', 9), (''ReadyToPreload'', 10),
     (''ReadyToLaunch'', 11), (''RegionRestricted'', 12), (''PresaleOnly'', 13),
     (''InvalidPlatform'', 14), (''ParentalBlocked'', 15), (''PreloadComplete'', 16),
     (''BorrowerLocked'', 17), (''UpdatePaused'', 18), (''UpdateQueued'', 19),
     (''UpdateRequired'', 20), (''UpdateDisabled'', 21), (''DownloadPaused'', 22),
     (''DownloadQueued'', 23), (''DownloadRequired'', 24), (''DownloadDisabled'', 25),
     (''LicensePending'', 26), (''LicenseExpired'', 27), (''AvailForFree'', 28),
     (''AvailToBorrow'', 29), (''AvailGuestPass'', 30), (''Purchase'', 31), (''Unavailable'', 32),
     (''NotLaunchable'', 33), (''CloudError'', 34), (''CloudOutOfDate'', 35), (''Terminating'', 36),
     (''OwnerLocked'', 37), (''DownloadFailed'', 38), (''UpdateFailed'', 39)]"

definition EAppType_table :: "(string \<times> int) list" where
  "EAppType_table =
    [(''Invalid'', 0), (''Game'', 1), (''Application'', 2), (''Tool'', 4), (''Demo'', 8),
     (''Deprected'', 16), (''DLC'', 32), (''Guide'', 64), (''Driver'', 128), (''Config'', 256),
     (''Hardware'', 512), (''Franchise'', 1024), (''Video'', 2048), (''Plugin'', 4096),
     (''Music'', 8192), (''Series'', 16384), (''Comic'', 32768), (''Beta'', 65536),
     (''Shortcut'', 1073741824), (''DepotOnly'', -2147483648)]"

definition EChatRoomGroupType_table :: "(string \<times> int) list" where
  "EChatRoomGroupType_table =
    [(''Default'', 0), (''Unmoderated'', 1)]"

definition EChatroomNotificationLevel_table :: "(string \<times> int) list" where
  "EChatroomNotificationLevel_table =
    [(''Invalid'', 0), (''None'', 1), (''MentionMe'', 2), (''MentionAll'', 3), (''AllMessages'', 4)]"

definition EChatRoomMemberStateChange_table :: "(string \<times> int) list" where
  "EChatRoomMemberStateChange_table =
    [(''Invalid'', 0), (''Joined'', 1), (''Parted'', 2), (''Kicked'', 3), (''Invited'', 4),
     (''RankChanged'', 7), (''InviteDismissed'', 8), (''Muted'', 9), (''Banned'', 10),
     (''RolesChanged'', 12)]"

definition EChatRoomServerMsg_table :: "(string \<times> int) list" where
  "EChatRoomServerMsg_table =
    [(''Invalid'', 0), (''RenameChatRoom'', 1), (''Joined'', 2), (''Parted'', 3), (''Kicked'', 4),
     (''Invited'', 5), (''InviteDismissed'', 8), (''ChatRoomTaglineChanged'', 9),
     (''ChatRoomAvatarChanged'', 10), (''AppCustom'', 11)]"

definition EChatRoomGroupRank_table :: "(string \<times> int) list" where
  "EChatRoomGroupRank_table =
    [(''Default'', 0), (''Viewer'', 10), (''Guest'', 15), (''Member'', 20), (''Moderator'', 30),
     (''Officer'', 40), (''Owner'', 50), (''TestInvalid'', 99)]"

definition EChatRoomGroupPermissions_table :: "(string \<times> int) list" where
  "EChatRoomGroupPermissions_table =
    [(''Default'', 0), (''Valid'', 1), (''CanInvite'', 2), (''CanKick'', 4), (''CanBan'', 8),
     (''CanAdminChannel'', 16)]"

definition EChatRoomGroupAction_table :: "(string \<times> int) list" where
  "EChatRoomGroupAction_table =
    [(''Default'', 0), (''CreateRenameDeleteChannel'', 1), (''Kick'', 2), (''Ban'', 3),
     (''Invite'', 4), (''ChangeTaglineAvatarName'', 5), (''Chat'', 6), (''ViewHistory'', 7),
     (''ChangeGroupRoles'', 8), (''ChangeUserRoles'', 9), (''MentionAll'', 10),
     (''SetWatchingBroadcast'', 11)]"

definition EChatRoomJoinState_table :: "(string \<times> int) list" where
  "EChatRoomJoinState_table =
    [(''Default'', 0), (''None'', 1), (''Joined'', 2), (''TestInvalid'', 99)]"

definition EVoiceCallState_table :: "(string \<times> int) list" where
  "EVoiceCallState_table =
    [(''None'', 0), (''ScheduledInitiate'', 1), (''RequestedMicAccess'', 2), (''LocalMicOnly'', 3),
     (''CreatePeerConnection'', 4), (''InitatedWebRTCSession'', 5), (''UpdatingWebRTCSession'', 6),
     (''WebRTCConnectedWaitingOnIceConnected'', 7), (''RequestedPermission'', 8),
     (''NotifyingVoiceChatOfWebRTCSession'', 9), (''Connected'', 10)]"

definition ETradeOfferState_table :: "(string \<times> int) list" where
  "ETradeOfferState_table =
    [(''Invalid'', 1), (''Active'', 2), (''Accepted'', 3), (''Countered'', 4), (''Expired'', 5),
     (''Canceled'', 6), (''Declined'', 7), (''InvalidItems'', 8), (''CreatedNeedsConfirmation'', 9),
     (''CanceledBySecondFactor'', 10), (''InEscrow'', 11), (''Reverted'', 12)]"

definition ETradeOfferConfirmationMethod_table :: "(string \<times> int) list" where
  "ETradeOfferConfirmationMethod_table =
    [(''Invalid'', 0), (''Email'', 1), (''MobileApp'', 2)]"

definition ELobbyType_table :: "(string \<times> int) list" where
  "ELobbyType_table =
    [(''Private'', 0), (''FriendsOnly'', 1), (''Public'', 2), (''Invisible'', 3),
     (''PrivateUnique'', 4)]"

definition ELobbyFilterType_table :: "(string \<times> int) list" where
  "ELobbyFilterType_table =
    [(''String'', 0), (''Numerical'', 1), (''SlotsAvailable'', 2), (''NearValue'', 3),
     (''Distance'', 4)]"

definition ELobbyComparison_table :: "(string \<times> int) list" where
  "ELobbyComparison_table =
    [(''EqualToOrLessThan'', -2), (''LessThan'', -1), (''Equal'', 0), (''GreaterThan'', 1),
     (''EqualToOrGreaterThan'', 2), (''NotEqual'', 3)]"

definition ELobbyDistanceFilter_table :: "(string \<times> int) list" where
  "ELobbyDistanceFilter_table =
    [(''Close'', 0), (''Default'', 1), (''Far'', 2), (''Worldwide'', 3)]"

definition ESteamIPv6ConnectivityProtocol_table :: "(string \<times> int) list" where
  "ESteamIPv6ConnectivityProtocol_table =
    [(''Invalid'', 0), (''Http'', 1), (''Udp'', 2)]"

definition ESteamIPv6ConnectivityState_table :: "(string \<times> int) list" where
  "ESteamIPv6ConnectivityState_table =
    [(''Unknown'', 0), (''Good'', 1), (''Bad'', 2)]"

definition ESteamRealm_table :: "(string \<times> int) list" where
  "ESteamRealm_table =
    [(''Unknown'', 0), (''SteamGlobal'', 1), (''SteamChina'', 2)]"

definition ELauncherType_table :: "(string \<times> int) list" where
  "ELauncherType_table =
    [(''Default'', 0), (''PerfectWorld'', 1), (''Nexon'', 2), (''CmdLine'', 3), (''CSGO'', 4),
     (''ClientUI'', 5), (''Headless'', 6), (''SteamChina'', 7), (''SingleApp'', 8),
     (''GameServer'', 9)]"

definition EUIMode_table :: "(string \<times> int) list" where
  "EUIMode_table =
    [(''Unknown'', -1), (''VGUI'', 0), (''Tenfoot'', 1), (''Mobile'', 2), (''Web'', 3),
     (''GamePadUI'', 4), (''MobileChat'', 5), (''EmbeddedClient'', 6), (''DesktopUI'', 7)]"

definition EGamingDeviceType_table :: "(string \<times> int) list" where
  "EGamingDeviceType_table =
    [(''Unknown'', 0), (''StandardPC'', 1), (''ConsoleLegacy'', 256), (''PS3'', 273),
     (''Steambox'', 288), (''Tesla'', 320), (''Handheld_Legacy'', 512), (''Phone'', 528),
     (''Console'', 540), (''SteamOSGeneric'', 541), (''SteamDeck'', 544), (''LegionGoS'', 545),
     (''Fremont'', 546), (''VR'', 768), (''SteamFrame'', 769)]"

definition EMobileConfirmationAction_table :: "(string \<times> int) list" where
  "EMobileConfirmationAction_table =
    [(''None'', 0), (''Allow'', 1), (''Cancel'', 2)]"

definition EMobileConfirmationType_table :: "(string \<times> int) list" where
  "EMobileConfirmationType_table =
    [(''Invalid'', 0), (''Test'', 1), (''Trade'', 2), (''MarketListing'', 3), (''FeatureOptOut'', 4),
     (''PhoneNumberChange'', 5), (''AccountRecovery'', 6), (''BuildChangeRequest'', 7),
     (''AddUser'', 8), (''RegisterApiKey'', 9), (''InviteToFamilyGroup'', 10),
     (''JoinFamilyGroup'', 11), (''MarketPurchase'', 12), (''RequestRefund'', 13)]"

definition ECommentPermission_table :: "(string \<times> int) list" where
  "ECommentPermission_table =
    [(''Invalid'', -1), (''FriendsOnly'', 0), (''Anyone'', 1), (''SelfOnly'', 2)]"

definition ECommunityPrivacy_table :: "(string \<times> int) list" where
  "ECommunityPrivacy_table =
    [(''Invalid'', 0), (''Private'', 1), (''FriendsOnly'', 2), (''Public'', 3)]"

definition EUdpPacketType_table :: "(string \<times> int) list" where
  "EUdpPacketType_table =
    [(''Invalid'', 0), (''ChallengeReq'', 1), (''Challenge'', 2), (''Connect'', 3), (''Accept'', 4),
     (''Disconnect'', 5), (''Data'', 6), (''Datagram'', 7), (''Max'', 8)]"

section \<open>The underlying types\<close>

definition fits_int :: "(string \<times> int) list \<Rightarrow> bool" where
  "fits_int table \<longleftrightarrow> list_all (\<lambda>e. - (2 ^ 31) \<le> snd e \<and> snd e < 2 ^ 31) table"

definition fits_uint :: "(string \<times> int) list \<Rightarrow> bool" where
  "fits_uint table \<longleftrightarrow> list_all (\<lambda>e. 0 \<le> snd e \<and> snd e < 2 ^ 32) table"

definition fits_uchar :: "(string \<times> int) list \<Rightarrow> bool" where
  "fits_uchar table \<longleftrightarrow> list_all (\<lambda>e. 0 \<le> snd e \<and> snd e < 2 ^ 8) table"

lemma EResult_table_fits: "fits_int EResult_table"
  by (simp add: fits_int_def EResult_table_def)

lemma EUniverse_table_fits: "fits_int EUniverse_table"
  by (simp add: fits_int_def EUniverse_table_def)

lemma EChatEntryType_table_fits: "fits_int EChatEntryType_table"
  by (simp add: fits_int_def EChatEntryType_table_def)

lemma EPersonaState_table_fits: "fits_int EPersonaState_table"
  by (simp add: fits_int_def EPersonaState_table_def)

lemma EAccountType_table_fits: "fits_int EAccountType_table"
  by (simp add: fits_int_def EAccountType_table_def)

lemma EFriendRelationship_table_fits: "fits_int EFriendRelationship_table"
  by (simp add: fits_int_def EFriendRelationship_table_def)

lemma EAccountFlags_table_fits: "fits_int EAccountFlags_table"
  by (simp add: fits_int_def EAccountFlags_table_def)

lemma EClanPermission_table_fits: "fits_int EClanPermission_table"
  by (simp add: fits_int_def EClanPermission_table_def)

lemma EChatPermission_table_fits: "fits_int EChatPermission_table"
  by (simp add: fits_int_def EChatPermission_table_def)

lemma EFriendFlags_table_fits: "fits_int EFriendFlags_table"
  by (simp add: fits_int_def EFriendFlags_table_def)

lemma EPersonaStateFlag_table_fits: "fits_int EPersonaStateFlag_table"
  by (simp add: fits_int_def EPersonaStateFlag_table_def)

lemma EClientPersonaStateFlag_table_fits: "fits_int EClientPersonaStateFlag_table"
  by (simp add: fits_int_def EClientPersonaStateFlag_table_def)

lemma EAppUsageEvent_table_fits: "fits_int EAppUsageEvent_table"
  by (simp add: fits_int_def EAppUsageEvent_table_def)

lemma ELicenseFlags_table_fits: "fits_int ELicenseFlags_table"
  by (simp add: fits_int_def ELicenseFlags_table_def)

lemma ELicenseType_table_fits: "fits_int ELicenseType_table"
  by (simp add: fits_int_def ELicenseType_table_def)

lemma EPaymentMethod_table_fits: "fits_int EPaymentMethod_table"
  by (simp add: fits_int_def EPaymentMethod_table_def)

lemma EPurchaseResultDetail_table_fits: "fits_int EPurchaseResultDetail_table"
  by (simp add: fits_int_def EPurchaseResultDetail_table_def)

lemma EIntroducerRouting_table_fits: "fits_int EIntroducerRouting_table"
  by (simp add: fits_int_def EIntroducerRouting_table_def)

lemma EServerFlags_table_fits: "fits_int EServerFlags_table"
  by (simp add: fits_int_def EServerFlags_table_def)

lemma EDenyReason_table_fits: "fits_int EDenyReason_table"
  by (simp add: fits_int_def EDenyReason_table_def)

lemma EClanRank_table_fits: "fits_int EClanRank_table"
  by (simp add: fits_int_def EClanRank_table_def)

lemma EClanRelationship_table_fits: "fits_int EClanRelationship_table"
  by (simp add: fits_int_def EClanRelationship_table_def)

lemma EAuthSessionResponse_table_fits: "fits_int EAuthSessionResponse_table"
  by (simp add: fits_int_def EAuthSessionResponse_table_def)

lemma EChatRoomEnterResponse_table_fits: "fits_int EChatRoomEnterResponse_table"
  by (simp add: fits_int_def EChatRoomEnterResponse_table_def)

lemma EChatRoomType_table_fits: "fits_int EChatRoomType_table"
  by (simp add: fits_int_def EChatRoomType_table_def)

lemma EChatInfoType_table_fits: "fits_int EChatInfoType_table"
  by (simp add: fits_int_def EChatInfoType_table_def)

lemma EChatAction_table_fits: "fits_int EChatAction_table"
  by (simp add: fits_int_def EChatAction_table_def)

lemma EChatActionResult_table_fits: "fits_int EChatActionResult_table"
  by (simp add: fits_int_def EChatActionResult_table_def)

lemma EAppInfoSection_table_fits: "fits_int EAppInfoSection_table"
  by (simp add: fits_int_def EAppInfoSection_table_def)

lemma EContentDownloadSourceType_table_fits: "fits_int EContentDownloadSourceType_table"
  by (simp add: fits_int_def EContentDownloadSourceType_table_def)

lemma EPlatformType_table_fits: "fits_int EPlatformType_table"
  by (simp add: fits_int_def EPlatformType_table_def)

lemma EOSType_table_fits: "fits_int EOSType_table"
  by (simp add: fits_int_def EOSType_table_def)

lemma EServerType_table_fits: "fits_int EServerType_table"
  by (simp add: fits_int_def EServerType_table_def)

lemma EBillingType_table_fits: "fits_int EBillingType_table"
  by (simp add: fits_int_def EBillingType_table_def)

lemma EPackageStatus_table_fits: "fits_int EPackageStatus_table"
  by (simp add: fits_int_def EPackageStatus_table_def)

lemma EActivationCodeClass_table_fits: "fits_uint EActivationCodeClass_table"
  by (simp add: fits_uint_def EActivationCodeClass_table_def)

lemma EChatMemberStateChange_table_fits: "fits_int EChatMemberStateChange_table"
  by (simp add: fits_int_def EChatMemberStateChange_table_def)

lemma ERegionCode_table_fits: "fits_uchar ERegionCode_table"
  by (simp add: fits_uchar_def ERegionCode_table_def)

lemma ECurrencyCode_table_fits: "fits_int ECurrencyCode_table"
  by (simp add: fits_int_def ECurrencyCode_table_def)

lemma EDepotFileFlag_table_fits: "fits_int EDepotFileFlag_table"
  by (simp add: fits_int_def EDepotFileFlag_table_def)

lemma EWorkshopEnumerationType_table_fits: "fits_int EWorkshopEnumerationType_table"
  by (simp add: fits_int_def EWorkshopEnumerationType_table_def)

lemma EPublishedFileVisibility_table_fits: "fits_int EPublishedFileVisibility_table"
  by (simp add: fits_int_def EPublishedFileVisibility_table_def)

lemma EWorkshopFileType_table_fits: "fits_int EWorkshopFileType_table"
  by (simp add: fits_int_def EWorkshopFileType_table_def)

lemma EWorkshopFileAction_table_fits: "fits_int EWorkshopFileAction_table"
  by (simp add: fits_int_def EWorkshopFileAction_table_def)

lemma EEconTradeResponse_table_fits: "fits_int EEconTradeResponse_table"
  by (simp add: fits_int_def EEconTradeResponse_table_def)

lemma EMarketingMessageFlags_table_fits: "fits_int EMarketingMessageFlags_table"
  by (simp add: fits_int_def EMarketingMessageFlags_table_def)

lemma ENewsUpdateType_table_fits: "fits_int ENewsUpdateType_table"
  by (simp add: fits_int_def ENewsUpdateType_table_def)

lemma ESystemIMType_table_fits: "fits_int ESystemIMType_table"
  by (simp add: fits_int_def ESystemIMType_table_def)

lemma EChatFlags_table_fits: "fits_int EChatFlags_table"
  by (simp add: fits_int_def EChatFlags_table_def)

lemma ERemoteStoragePlatform_table_fits: "fits_int ERemoteStoragePlatform_table"
  by (simp add: fits_int_def ERemoteStoragePlatform_table_def)

lemma EDRMBlobDownloadType_table_fits: "fits_int EDRMBlobDownloadType_table"
  by (simp add: fits_int_def EDRMBlobDownloadType_table_def)

lemma EDRMBlobDownloadErrorDetail_table_fits: "fits_int EDRMBlobDownloadErrorDetail_table"
  by (simp add: fits_int_def EDRMBlobDownloadErrorDetail_table_def)

lemma EClientStat_table_fits: "fits_int EClientStat_table"
  by (simp add: fits_int_def EClientStat_table_def)

lemma EClientStatAggregateMethod_table_fits: "fits_int EClientStatAggregateMethod_table"
  by (simp add: fits_int_def EClientStatAggregateMethod_table_def)

lemma ELeaderboardDataRequest_table_fits: "fits_int ELeaderboardDataRequest_table"
  by (simp add: fits_int_def ELeaderboardDataRequest_table_def)

lemma ELeaderboardSortMethod_table_fits: "fits_int ELeaderboardSortMethod_table"
  by (simp add: fits_int_def ELeaderboardSortMethod_table_def)

lemma ELeaderboardDisplayType_table_fits: "fits_int ELeaderboardDisplayType_table"
  by (simp add: fits_int_def ELeaderboardDisplayType_table_def)

lemma ELeaderboardUploadScoreMethod_table_fits: "fits_int ELeaderboardUploadScoreMethod_table"
  by (simp add: fits_int_def ELeaderboardUploadScoreMethod_table_def)

lemma EUCMFilePrivacyState_table_fits: "fits_int EUCMFilePrivacyState_table"
  by (simp add: fits_int_def EUCMFilePrivacyState_table_def)

lemma EPublishedFileQueryType_table_fits: "fits_int EPublishedFileQueryType_table"
  by (simp add: fits_int_def EPublishedFileQueryType_table_def)

lemma EPublishedFileInappropriateProvider_table_fits: "fits_int EPublishedFileInappropriateProvider_table"
  by (simp add: fits_int_def EPublishedFileInappropriateProvider_table_def)

lemma EPublishedFileInappropriateResult_table_fits: "fits_int EPublishedFileInappropriateResult_table"
  by (simp add: fits_int_def EPublishedFileInappropriateResult_table_def)

lemma EDisplayStatus_table_fits: "fits_int EDisplayStatus_table"
  by (simp add: fits_int_def EDisplayStatus_table_def)

lemma EAppType_table_fits: "fits_int EAppType_table"
  by (simp add: fits_int_def EAppType_table_def)

lemma EChatRoomGroupType_table_fits: "fits_int EChatRoomGroupType_table"
  by (simp add: fits_int_def EChatRoomGroupType_table_def)

lemma EChatroomNotificationLevel_table_fits: "fits_int EChatroomNotificationLevel_table"
  by (simp add: fits_int_def EChatroomNotificationLevel_table_def)

lemma EChatRoomMemberStateChange_table_fits: "fits_int EChatRoomMemberStateChange_table"
  by (simp add: fits_int_def EChatRoomMemberStateChange_table_def)

lemma EChatRoomServerMsg_table_fits: "fits_int EChatRoomServerMsg_table"
  by (simp add: fits_int_def EChatRoomServerMsg_table_def)

lemma EChatRoomGroupRank_table_fits: "fits_int EChatRoomGroupRank_table"
  by (simp add: fits_int_def EChatRoomGroupRank_table_def)

lemma EChatRoomGroupPermissions_table_fits: "fits_int EChatRoomGroupPermissions_table"
  by (simp add: fits_int_def EChatRoomGroupPermissions_table_def)

lemma EChatRoomGroupAction_table_fits: "fits_int EChatRoomGroupAction_table"
  by (simp add: fits_int_def EChatRoomGroupAction_table_def)

lemma EChatRoomJoinState_table_fits: "fits_int EChatRoomJoinState_table"
  by (simp add: fits_int_def EChatRoomJoinState_table_def)

lemma EVoiceCallState_table_fits: "fits_int EVoiceCallState_table"
  by (simp add: fits_int_def EVoiceCallState_table_def)

lemma ETradeOfferState_table_fits: "fits_int ETradeOfferState_table"
  by (simp add: fits_int_def ETradeOfferState_table_def)

lemma ETradeOfferConfirmationMethod_table_fits: "fits_int ETradeOfferConfirmationMethod_table"
  by (simp add: fits_int_def ETradeOfferConfirmationMethod_table_def)

lemma ELobbyType_table_fits: "fits_int ELobbyType_table"
  by (simp add: fits_int_def ELobbyType_table_def)

lemma ELobbyFilterType_table_fits: "fits_int ELobbyFilterType_table"
  by (simp add: fits_int_def ELobbyFilterType_table_def)

lemma ELobbyComparison_table_fits: "fits_int ELobbyComparison_table"
  by (simp add: fits_int_def ELobbyComparison_table_def)

lemma ELobbyDistanceFilter_table_fits: "fits_int ELobbyDistanceFilter_table"
  by (simp add: fits_int_def ELobbyDistanceFilter_table_def)

lemma ESteamIPv6ConnectivityProtocol_table_fits: "fits_int ESteamIPv6ConnectivityProtocol_table"
  by (simp add: fits_int_def ESteamIPv6ConnectivityProtocol_table_def)

lemma ESteamIPv6ConnectivityState_table_fits: "fits_int ESteamIPv6ConnectivityState_table"
  by (simp add: fits_int_def ESteamIPv6ConnectivityState_table_def)

lemma ESteamRealm_table_fits: "fits_int ESteamRealm_table"
  by (simp add: fits_int_def ESteamRealm_table_def)

lemma ELauncherType_table_fits: "fits_int ELauncherType_table"
  by (simp add: fits_int_def ELauncherType_table_def)

lemma EUIMode_table_fits: "fits_int EUIMode_table"
  by (simp add: fits_int_def EUIMode_table_def)

lemma EGamingDeviceType_table_fits: "fits_int EGamingDeviceType_table"
  by (simp add: fits_int_def EGamingDeviceType_table_def)

lemma EMobileConfirmationAction_table_fits: "fits_int EMobileConfirmationAction_table"
  by (simp add: fits_int_def EMobileConfirmationAction_table_def)

lemma EMobileConfirmationType_table_fits: "fits_int EMobileConfirmationType_table"
  by (simp add: fits_int_def EMobileConfirmationType_table_def)

lemma ECommentPermission_table_fits: "fits_int ECommentPermission_table"
  by (simp add: fits_int_def ECommentPermission_table_def)

lemma ECommunityPrivacy_table_fits: "fits_int ECommunityPrivacy_table"
  by (simp add: fits_int_def ECommunityPrivacy_table_def)

lemma EUdpPacketType_table_fits: "fits_uchar EUdpPacketType_table"
  by (simp add: fits_uchar_def EUdpPacketType_table_def)

section \<open>The constants\<close>

lemma EResult_constants:
  "map_of EResult_table ''Invalid'' = Some (uint EResult_Invalid) \<and>
    map_of EResult_table ''OK'' = Some (uint EResult_OK)"
  by (simp add: EResult_table_def EResult_Invalid_def EResult_OK_def)

lemma EUniverse_constants:
  "map_of EUniverse_table ''Invalid'' = Some (uint EUniverse_Invalid) \<and>
    map_of EUniverse_table ''Public'' = Some (uint EUniverse_Public)"
  by (simp add: EUniverse_table_def EUniverse_Invalid_def EUniverse_Public_def)

lemma EChatEntryType_constants:
  "map_of EChatEntryType_table ''Invalid'' = Some (uint EChatEntryType_Invalid)"
  by (simp add: EChatEntryType_table_def EChatEntryType_Invalid_def)

lemma EAccountType_constants:
  "map_of EAccountType_table ''AnonUser'' = Some (uint EAccountType_AnonUser)"
  by (simp add: EAccountType_table_def EAccountType_AnonUser_def)

lemma EChatPermission_constants:
  "map_of EChatPermission_table ''Close'' = Some (uint EChatPermission_Close) \<and>
    map_of EChatPermission_table ''Invite'' = Some (uint EChatPermission_Invite) \<and>
    map_of EChatPermission_table ''Talk'' = Some (uint EChatPermission_Talk) \<and>
    map_of EChatPermission_table ''Kick'' = Some (uint EChatPermission_Kick) \<and>
    map_of EChatPermission_table ''Mute'' = Some (uint EChatPermission_Mute) \<and>
    map_of EChatPermission_table ''SetMetadata'' = Some (uint EChatPermission_SetMetadata) \<and>
    map_of EChatPermission_table ''Ban'' = Some (uint EChatPermission_Ban) \<and>
    map_of EChatPermission_table ''ChangeAccess'' = Some (uint EChatPermission_ChangeAccess) \<and>
    map_of EChatPermission_table ''MemberDefault'' = Some (uint EChatPermission_MemberDefault) \<and>
    map_of EChatPermission_table ''OfficerDefault'' = Some (uint EChatPermission_OfficerDefault) \<and>
    map_of EChatPermission_table ''OwnerDefault'' = Some (uint EChatPermission_OwnerDefault)"
  by (simp add: EChatPermission_table_def EChatPermission_Close_def EChatPermission_Invite_def EChatPermission_Talk_def EChatPermission_Kick_def EChatPermission_Mute_def EChatPermission_SetMetadata_def EChatPermission_Ban_def EChatPermission_ChangeAccess_def EChatPermission_MemberDefault_def EChatPermission_OfficerDefault_def EChatPermission_OwnerDefault_def)

lemma EAppUsageEvent_constants:
  "map_of EAppUsageEvent_table ''Unknown'' = Some (uint EAppUsageEvent_Unknown)"
  by (simp add: EAppUsageEvent_table_def EAppUsageEvent_Unknown_def)

lemma EIntroducerRouting_constants:
  "map_of EIntroducerRouting_table ''Unknown'' = Some (uint EIntroducerRouting_Unknown)"
  by (simp add: EIntroducerRouting_table_def EIntroducerRouting_Unknown_def)

lemma EDenyReason_constants:
  "map_of EDenyReason_table ''Unknown'' = Some (uint EDenyReason_Unknown)"
  by (simp add: EDenyReason_table_def EDenyReason_Unknown_def)

lemma EClanRank_constants:
  "map_of EClanRank_table ''None'' = Some (uint EClanRank_None)"
  by (simp add: EClanRank_table_def EClanRank_None_def)

lemma EClanRelationship_constants:
  "map_of EClanRelationship_table ''None'' = Some (uint EClanRelationship_None)"
  by (simp add: EClanRelationship_table_def EClanRelationship_None_def)

lemma EChatRoomEnterResponse_constants:
  "map_of EChatRoomEnterResponse_table ''Unknown'' = Some (uint EChatRoomEnterResponse_Unknown)"
  by (simp add: EChatRoomEnterResponse_table_def EChatRoomEnterResponse_Unknown_def)

lemma EChatRoomType_constants:
  "map_of EChatRoomType_table ''Unknown'' = Some (uint EChatRoomType_Unknown)"
  by (simp add: EChatRoomType_table_def EChatRoomType_Unknown_def)

lemma EChatInfoType_constants:
  "map_of EChatInfoType_table ''Unknown'' = Some (uint EChatInfoType_Unknown)"
  by (simp add: EChatInfoType_table_def EChatInfoType_Unknown_def)

lemma EChatAction_constants:
  "map_of EChatAction_table ''Unknown'' = Some (uint EChatAction_Unknown)"
  by (simp add: EChatAction_table_def EChatAction_Unknown_def)

lemma EChatActionResult_constants:
  "map_of EChatActionResult_table ''Unknown'' = Some (uint EChatActionResult_Unknown)"
  by (simp add: EChatActionResult_table_def EChatActionResult_Unknown_def)

lemma EServerType_constants:
  "map_of EServerType_table ''First'' = Some (uint EServerType_First)"
  by (simp add: EServerType_table_def EServerType_First_def)

lemma EUdpPacketType_constants:
  "map_of EUdpPacketType_table ''Invalid'' = Some (uint EUdpPacketType_Invalid)"
  by (simp add: EUdpPacketType_table_def EUdpPacketType_Invalid_def)

end
