(* ===== verification/Text_Properties.thy ===== *)
theory Text_Properties
  imports Json_Number Json_Order16 Nestring_Moves Nevector Enum_Tables
begin

text \<open>
  The properties of the text and the containers of the JSON library that the parser does not use:
  what a number put into a node is printed as, the strings of the 16-bit variant, and the vector.
\<close>

section \<open>Numbers\<close>

text \<open>\<open>to_string\<close> in base 10 is the usual decimal text.\<close>

lemma digit_list_decimal: "0 < n \<Longrightarrow> rev (map (\<lambda>d. casetable uc ! d) (digit_list 10 n)) = dec_string n"
proof (induction n rule: less_induct)
  case (less n)
  have "casetable uc ! (n mod 10) = digit_char (n mod 10)" using table_digits [of "[n mod 10]" uc] by simp
  moreover have "digit_list 10 (n div 10) = []" if "n div 10 = 0" using that by (simp add: digit_list.simps)
  ultimately show ?case
    using less by (cases "n < 10") (simp_all add: digit_list.simps [of 10 n] dec_string.simps [of n])
qed

lemma to_string_decimal:
  assumes "- (2 ^ (w - 1)) < val"
  shows "to_string w val 10 1 = Inr (int_string val)"
proof (cases "val = 0")
  case True
  then show ?thesis
    using table_digits [of "[0]" False] by (simp add: to_string_def Let_def digit_list.simps int_string_def dec_string.simps)
next
  case False
  then have n: "0 < nat \<bar>val\<bar>" by simp
  then have "digit_list 10 (nat \<bar>val\<bar>) \<noteq> []" by (simp add: digit_list.simps)
  moreover have "nat (- val) = nat \<bar>val\<bar>" if "val < 0" using that by simp
  moreover have "nat val = nat \<bar>val\<bar>" if "\<not> val < 0" using that by simp
  ultimately show ?thesis
    using assms digit_list_decimal [OF n, of False] False
    by (auto simp: to_string_def Let_def int_string_def table_point Suc_le_eq rev_map)
qed

text \<open>
  A finite \<open>double\<close> put into a node becomes a number that JSON has, whatever the precision
  (sums near the limits of \<open>int\<close> apart):
  its text says the exact value of the \<open>double\<close> rounded to that many places (a negative precision
  also strips zeros behind the point), half of the last place away from zero, with the sign in
  front. The parser reads the printed node back.
\<close>

theorem set_num_rounds:
  assumes "fp_finite w" and "node \<noteq> JFallback"
  shows "\<exists>s. json_set_num w precision node = Inr (JNumber s) \<and>
    decimal_value s = (if fp_negative w then -1 else 1) * round_half_up (nat \<bar>precision\<bar>) (fp_abs w) \<and>
    json_parse (json_stringify (JNumber s)) node = Inr (True, JNumber s, \<lparr>code_ = 0, pos_ = 0\<rparr>)"
proof -
  from to_string_fp_fixed [OF assms(1), of precision] obtain s where
    s: "to_string_fp w CHR ''f'' precision = Inr s" "number_text s"
      "decimal_value s = (if fp_negative w then -1 else 1) * round_half_up (nat \<bar>precision\<bar>) (fp_abs w)" by blast
  then have "json_ok (JNumber s)" by simp
  from json_read_back [OF this assms(2)] s assms(2) show ?thesis
    by (intro exI [of _ s]) (simp add: json_set_num_def)
qed

text \<open>-2.5 to no place is -3.\<close>

theorem set_num_rounds_witness:
  "\<exists>s. json_set_num 0xC004000000000000 0 JNull = Inr (JNumber s) \<and> decimal_value s = - 3 \<and>
    json_parse (json_stringify (JNumber s)) JNull = Inr (True, JNumber s, \<lparr>code_ = 0, pos_ = 0\<rparr>)"
proof -
  have "fp_finite 0xC004000000000000" by (simp add: fp_finite_def fp_exponent_def)
  from set_num_rounds [OF this, of JNull 0] show ?thesis
    by (simp add: fp_negative_def fp_abs_def fp_exponent_def fp_fraction_def pow2_def round_half_up_def)
qed

text \<open>What is not finite becomes a text that JSON does not have, or, for a NaN of another payload, 0.\<close>

lemma set_num_infinity:
  "json_set_num fp_infinity precision JNull = Inr (JNumber ''inf'')"
  "json_set_num (fp_neg fp_infinity) precision JNull = Inr (JNumber ''-inf'')"
  "\<not> json_ok (JNumber ''inf'')" "\<not> json_ok (JNumber ''-inf'')"
proof -
  have "json_number ''inf'' \<noteq> (0, JNumber ''inf'', [])" "json_number ''-inf'' \<noteq> (0, JNumber ''-inf'', [])"
    by code_simp+
  then show "\<not> json_ok (JNumber ''inf'')" "\<not> json_ok (JNumber ''-inf'')" by (simp_all add: number_text_def)
qed (simp_all add: json_set_num_def to_string_fp_def Let_def fp_special_def fp_infinity_def fp_neg_def casetable_def)

lemma set_num_other_NaN: "json_set_num 0x7FF0000000000001 (-6) JNull = Inr (JNumber ''0'')"
proof -
  have "\<not> fp_finite 0x7FF0000000000001" by (simp add: fp_finite_def fp_exponent_def)
  moreover have "fp_special (casetable False) 0x7FF0000000000001 = None"
    by (simp add: fp_special_def fp_infinity_def fp_neg_def fp_quiet_NaN_def fp_signaling_NaN_def)
  moreover have "fp_mantissa 10 None = ([], - 1)" by code_simp
  moreover have "fp_styled (casetable False) 10 CHR ''f'' True 6 [] (- 1) = Inr ''0''" by code_simp
  ultimately show ?thesis by (simp add: json_set_num_def to_string_fp_def Let_def)
qed

section \<open>Strings of 16-bit units\<close>

text \<open>
  C27. A string of the 16-bit variant comes back from what is printed of it, unit by unit: control
  characters, quotes and backslashes from their escapes, pairs of surrogates from the four bytes
  they are joined to, and surrogates that have no partner from three bytes of their own.
\<close>

theorem utf16_roundtrip:
  assumes "\<forall>u\<in>set us. u < 0x10000"
  shows "\<exists>b. json_quoted16 us = DQUOTE # b \<and> json_string16 (b @ s) = Inr (Some us, skip_spaces s)"
  using json_string16_quoted [OF assms, of s] by (intro exI [of _ "tl (json_quoted16 us)"]) (simp add: json_quoted16_def)

definition sample_units :: "nat list" where
  "sample_units = [0x41, 0x22, 7, 0xE9, 0xD83D, 0xDE00, 0xD83D, 0xD83D, 0xDE00, 0xDE00, 0x20AC]"

theorem utf16_roundtrip_witness:
  "\<exists>b. json_quoted16 sample_units = DQUOTE # b \<and> json_string16 (b @ '' ,'') = Inr (Some sample_units, '','')"
  using utf16_roundtrip [of sample_units "'' ,''"] by (simp add: sample_units_def skip_spaces_def json_space_def)

text \<open>
  \<open>push_back\<close> on an object of the 16-bit variant moves a key that is there already to the end of
  the order and adds a new one there, except that a last key of one or two units is overlooked: it
  stands in the order twice then, and the member is printed twice.
\<close>

theorem push_back16_keys:
  assumes "keys16_ok ks" and "key \<noteq> []" and "length key < 2 ^ 32"
  shows "order_keys16 (push_key16 key (pack16 ks) 0) 0 =
    (if ks \<noteq> [] \<and> last ks = key \<and> length key \<le> 2 then ks @ [key] else filter (\<lambda>k. k \<noteq> key) ks @ [key])"
proof -
  have "\<forall>k\<in>set (if ks \<noteq> [] \<and> last ks = key \<and> length key \<le> 2 then ks @ [key] else filter (\<lambda>k. k \<noteq> key) ks @ [key]).
      k \<noteq> [] \<and> length k < 2 ^ 32"
    using assms by (auto simp: keys16_ok_def)
  moreover have "push_key16 key (pack16 ks) 0 =
      pack16 (if ks \<noteq> [] \<and> last ks = key \<and> length key \<le> 2 then ks @ [key] else filter (\<lambda>k. k \<noteq> key) ks @ [key])"
    using push_key16_packed [OF assms(1), of key "[]"] by (simp only: append_Nil pack16_simps(1) list.size set_simps empty_iff not_False_eq_True)
  ultimately show ?thesis by (simp only: order_keys16_pack)
qed

theorem push_back16_keys_witness:
  "order_keys16 (push_key16 [0x62] (pack16 [[0x61], [0x62]]) 0) 0 = [[0x61], [0x62], [0x62]] \<and>
   order_keys16 (push_key16 [0x61] (pack16 [[0x61], [0x62]]) 0) 0 = [[0x62], [0x61]]"
  by (subst push_back16_keys, simp add: keys16_ok_def, simp, simp, subst push_back16_keys)
    (simp_all add: keys16_ok_def)

section \<open>The vector\<close>

definition sample_vector :: "nat nevector" where
  "sample_vector = \<lparr>slots = [Some 1, Some 2, Some 3, None], nv_size = 3, nv_capacity_p1 = 5\<rparr>"

text \<open>
  C32. The vector of the JSON library is the list of its elements: every operation keeps it in order,
  reads and destroys only elements that are there, constructs only inside its block, and does to
  the list what its name says, with a size that stays within the largest one.
\<close>

theorem nevector_refines_list:
  assumes "nevector_ok esize v" and "nv_size v < nv_maxsize esize" and "pos \<le> nv_size v"
    and "newsize \<le> nv_maxsize esize" and "nevector_ok esize right"
  shows "(\<exists>v'. nv_push_back esize x v = Inr v' \<and> nevector_ok esize v' \<and> nv_elems v' = nv_elems v @ [x]) \<and>
    (\<exists>v'. nv_insert esize d pos x v = Inr v' \<and> nevector_ok esize v' \<and>
      nv_elems v' = take pos (nv_elems v) @ x # drop pos (nv_elems v)) \<and>
    (\<exists>v'. nv_erase pos v = Inr v' \<and> nevector_ok esize v' \<and>
      nv_elems v' = take pos (nv_elems v) @ drop (Suc pos) (nv_elems v)) \<and>
    (\<exists>v'. nv_resize esize newsize x v = Inr v' \<and> nevector_ok esize v' \<and>
      nv_elems v' = take newsize (nv_elems v) @ replicate (newsize - nv_size v) x) \<and>
    (\<exists>v'. nv_clear v = Inr v' \<and> nevector_ok esize v' \<and> nv_elems v' = []) \<and>
    (\<exists>v'. nv_copy esize v = Inr v' \<and> nevector_ok esize v' \<and> nv_elems v' = nv_elems v) \<and>
    (\<exists>v'. nv_assign esize d right v = Inr v' \<and> nevector_ok esize v' \<and> nv_elems v' = nv_elems right)"
  by (intro conjI nv_push_back_ok nv_insert_ok nv_erase_ok nv_resize_ok nv_clear_ok nv_copy_ok nv_assign_ok assms)

theorem nevector_refines_list_witness:
  "\<exists>v'. nv_insert 16 0 1 9 sample_vector = Inr v' \<and> nevector_ok 16 v' \<and> nv_elems v' = [1, 9, 2, 3]"
proof -
  have "nevector_ok 16 sample_vector" by (simp add: nevector_ok_def sample_vector_def nv_maxsize_def)
  from nevector_refines_list [OF this, of 1 5 sample_vector, OF _ _ _ this]
  show ?thesis by (simp add: sample_vector_def nv_maxsize_def nv_elems_def)
qed

end
