(* ===== verification/Transport_Properties.thy ===== *)
theory Transport_Properties
  imports Sample_World
begin

text \<open>
  The properties of the transport: what reaches the wire, what is delivered, and what becomes of
  the connection when something goes wrong; and the list of servers it connects to.
\<close>

section \<open>Sending\<close>

text \<open>
  C1. Whatever the client, the network and the completions do, the bytes on the wire are the
  frames of what was sent, in the order of sending, up to some point: a receiver that cuts
  frames out of them gets a prefix of the list of sent messages, and the rest waits in the queue.
\<close>

theorem tcp_sends_in_order:
  assumes "tcp_start s" and "tcp_step\<^sup>*\<^sup>* s (c, sent)" and "\<forall>m \<in> set sent. sendable m"
  shows "\<exists>k t. drain (Suc (length sent)) tcp_unframe (wire (sock c)) = (take k sent, t) \<and>
    wire (sock c) = concat (map send_buffer (take k sent)) @ t \<and>
    t @ concat (write_queue c) = concat (map send_buffer (drop k sent))"
proof -
  have "tcp_inv (c, sent)" using tcp_system.inv_reachable [OF assms(1,2)] .
  then have w: "wire (sock c) @ concat (write_queue c) = concat (map send_buffer sent)"
    by (simp add: tcp_inv_def)
  from tcp.drain_prefix [OF assms(3) this, of "Suc (length sent)"] obtain k t where
    k: "drain (Suc (length sent)) tcp_unframe (wire (sock c)) = (take k sent, t)"
      "wire (sock c) = concat (map send_buffer (take k sent)) @ t" by blast
  have "concat (map send_buffer sent) =
      concat (map send_buffer (take k sent)) @ concat (map send_buffer (drop k sent))"
    by (metis append_take_drop_id concat_append map_append)
  with w k(2) have "t @ concat (write_queue c) = concat (map send_buffer (drop k sent))" by simp
  with k show ?thesis by blast
qed

text \<open>A reachable state with a write under way: connected to the one server of the sample world.\<close>

definition sample_connecting :: "unit TCPConnection" where
  "sample_connecting = TCPConnection_new\<lparr>fetcher := \<lparr>servers = [(''10.0.0.1'', 27017)]\<rparr>,
     conn_state := CONNECTING,
     sock := socket_connect [''10.0.0.1:27017''] socket_new\<rparr>"

definition sample_connected :: "unit TCPConnection" where
  "sample_connected = connect_done True (take_outstanding (AsyncConnect [''10.0.0.1:27017'']) sample_connecting)"

definition sample_sending :: "unit TCPConnection" where
  "sample_sending = sample_connected\<lparr>write_queue := [send_buffer [1, 2]],
     sock := socket_start (AsyncWrite (send_buffer [1, 2])) (sock sample_connected)\<rparr>"

lemmas sample_defs = sample_sending_def sample_connected_def sample_connecting_def
  TCPConnection_new_def socket_new_def tcp_defs

lemma sample_perform: "curl_easy_perform sample_curl CM_LIST_URL = ([take 10 sample_reply, drop 10 sample_reply], 0)"
  "curl_easy_init sample_curl"
  by (simp_all add: sample_curl_def)

lemma sample_fetch: "fetch_cm_servers sample_curl f = (Inr True, f\<lparr>servers := [(''10.0.0.1'', 27017)]\<rparr>)"
  using fetch_printed [OF sample_perform _ server_reply_ok endpoints_server_reply, of "[(''10.0.0.1'', 27017)]" f]
  by (simp add: sample_reply_def)

lemma sample_port: "int_string 27017 = ''27017''"
  by (simp add: int_string_def dec_string.simps digit_char_def char_of_def bit_0)

lemma sample_connect:
  "network_connect sample_curl sample_resolve (c :: 'f TCPConnection) =
     (if conn_state c = DISCONNECTED
      then (Inr (), c\<lparr>fetcher := \<lparr>servers = [(''10.0.0.1'', 27017)]\<rparr>, conn_state := CONNECTING,
        sock := socket_connect [''10.0.0.1:27017''] (sock c)\<rparr>)
      else (Inr (), c))"
  by (cases "fetcher c")
    (simp add: network_connect_def connect_with_def sample_fetch sample_resolve_def get_servers_def sample_port)

lemma sample_reachable: "tcp_step\<^sup>*\<^sup>* (TCPConnection_new, []) (sample_sending, [[1, 2]])"
proof -
  have "network_connect sample_curl sample_resolve (TCPConnection_new :: unit TCPConnection) =
      (Inr (), sample_connecting)"
    unfolding sample_connect by (simp add: sample_connecting_def TCPConnection_new_def)
  then have 1: "tcp_step (TCPConnection_new, []) (sample_connecting, [])"
    unfolding network_connect_def by (intro tcp_client client_connect)
  have 2: "tcp_step (sample_connecting, []) (sample_connected, [])"
    unfolding sample_connected_def by (rule tcp_connected) (simp add: sample_connecting_def socket_connect_def)
  have "async_send [1, 2] sample_connected = Inr sample_sending"
    by (simp add: async_send_def do_write_def sample_defs)
  then have 3: "tcp_step (sample_connected, []) (sample_sending, [] @ [[1, 2]])"
    by (intro tcp_client client_send)
  from 1 2 3 show ?thesis by (simp add: converse_rtranclp_into_rtranclp)
qed

theorem tcp_sends_in_order_witness:
  "\<exists>k t. drain (Suc (length [[1, 2 :: byte]])) tcp_unframe (wire (sock sample_sending)) = (take k [[1, 2]], t) \<and>
    wire (sock sample_sending) = concat (map send_buffer (take k [[1, 2]])) @ t \<and>
    t @ concat (write_queue sample_sending) = concat (map send_buffer (drop k [[1, 2]]))"
  by (rule tcp_sends_in_order [OF _ sample_reachable]) (simp_all add: tcp_start_def sendable_def)

text \<open>
  C19. In every reachable state at most one write is outstanding, it writes the front of
  the queue, and neither its handler nor that of a header runs into an empty queue or another
  undefined access.
\<close>

theorem tcp_completions_defined:
  assumes "tcp_start s" and "tcp_step\<^sup>*\<^sup>* s (c, sent)"
    and "AsyncWrite bs \<in> set (outstanding (sock c))" and "length hdr = 8"
  shows "pending_writes c = [AsyncWrite bs] \<and>
    (\<exists>c'. write_done (put_wire bs (take_outstanding (AsyncWrite bs) c)) = Inr c' \<and>
      write_queue c = bs # write_queue c') \<and>
    (\<exists>c'. header_done hdr c = Inr c')"
proof (intro conjI)
  have inv: "tcp_inv (c, sent)" using tcp_system.inv_reachable [OF assms(1,2)] .
  have "AsyncWrite bs \<in> set (pending_writes c)" using assms(3) by (simp add: pending_writes_def)
  with inv show "pending_writes c = [AsyncWrite bs]"
    unfolding tcp_inv_def fst_conv snd_conv by (cases "write_queue c") auto
  show "\<exists>c'. write_done (put_wire bs (take_outstanding (AsyncWrite bs) c)) = Inr c' \<and>
      write_queue c = bs # write_queue c'"
    using write_done_eq [OF inv assms(3)] by force
  show "\<exists>c'. header_done hdr c = Inr c'"
    using assms(4) by (simp add: header_done_def parse_message_length_def Let_def)
qed

theorem tcp_completions_defined_witness:
  "pending_writes sample_sending = [AsyncWrite (send_buffer [1, 2])] \<and>
    (\<exists>c'. write_done (put_wire (send_buffer [1, 2]) (take_outstanding (AsyncWrite (send_buffer [1, 2])) sample_sending)) = Inr c' \<and>
      write_queue sample_sending = send_buffer [1, 2] # write_queue c') \<and>
    (\<exists>c'. header_done (le_bytes (3 :: u32) @ MAGIC) sample_sending = Inr c')"
  by (rule tcp_completions_defined [OF _ sample_reachable]) (simp_all add: tcp_start_def sample_defs)

text \<open>
  C20. As long as the queue is not stuck, the completions of its writes, one for each queued
  buffer, bring everything that was sent onto the wire.
\<close>

theorem tcp_flush:
  assumes "tcp_start s" and "tcp_step\<^sup>*\<^sup>* s (c, sent)" and "\<not> stuck c"
  shows "\<exists>c'. writes_complete (length (write_queue c)) c = Inr c' \<and> write_queue c' = [] \<and>
    wire (sock c') = concat (map send_buffer sent)"
  using writes_complete_queue [OF tcp_system.inv_reachable [OF assms(1,2)] assms(3)] by blast

theorem tcp_flush_witness:
  "\<exists>c'. writes_complete (length (write_queue sample_sending)) sample_sending = Inr c' \<and>
    write_queue c' = [] \<and> wire (sock c') = concat (map send_buffer [[1, 2]])"
  by (rule tcp_flush [OF _ sample_reachable])
    (simp_all add: tcp_start_def stuck_def pending_writes_def sample_defs)

text \<open>
  C38. A queue that was left behind by a write that failed, or that was started while the
  connection was closed, stops the connection for good: no later connect, send or completion
  puts another byte on the wire.
\<close>

theorem tcp_stuck_forever:
  assumes "stuck c" and "tcp_step\<^sup>*\<^sup>* (c, sent) (c', sent')"
  shows "stuck c' \<and> wire (sock c') = wire (sock c)"
  using stuck_system.inv_reachable [of "wire (sock c)" "(c, sent)" "(c', sent')"] assms
  by (simp add: stuck_at_def)

theorem tcp_stuck_forever_witness:
  "\<exists>c d :: unit TCPConnection. async_send [1] TCPConnection_new = Inr c \<and> async_send [2] c = Inr d \<and>
    stuck d \<and> wire (sock d) = wire (sock c)"
proof -
  obtain c :: "unit TCPConnection" where c: "async_send [1] TCPConnection_new = Inr c" "stuck c"
    using closed_send_sticks [of TCPConnection_new "[1]"]
    by (auto simp: TCPConnection_new_def socket_new_def)
  obtain d where d: "async_send [2] c = Inr d" using async_send_total [of "[2]" c] by auto
  have "tcp_step\<^sup>*\<^sup>* (c, [[1]]) (d, [[1]] @ [[2]])"
    by (intro r_into_rtranclp tcp_client client_send d)
  from tcp_stuck_forever [OF c(2) this] c d show ?thesis by blast
qed

section \<open>Receiving\<close>

text \<open>
  C8. What a peer framed with \<open>async_send\<close> is handed to the callback frame by frame, whole
  and in order; a header that is still incomplete waits, and the connection keeps reading.
\<close>

theorem tcp_delivers_frames:
  assumes "reading c" and "inbox (sock c) = concat (map send_buffer ms) @ r" and "length r < 8"
    and "\<forall>m \<in> set ms. sendable m" and "on_frame c = Some f"
  shows "\<exists>c'. receive (2 * length ms) c = (map (Pair f) ms, c') \<and> reading c' \<and> inbox (sock c') = r \<and>
    conn_state c' = conn_state c"
  using receive_frames [OF assms] by (metis prod.collapse)

definition sample_reading :: "byte list \<Rightarrow> unit TCPConnection" where
  "sample_reading bs =
     connect_done True (TCPConnection_new\<lparr>on_frame := Some (),
       sock := socket_new\<lparr>is_open := True, inbox := bs\<rparr>\<rparr>)"

lemma sample_reading_simps:
  "reading (sample_reading bs)" "inbox (sock (sample_reading bs)) = bs"
  "on_frame (sample_reading bs) = Some ()" "conn_state (sample_reading bs) = CONNECTED"
proof -
  show "reading (sample_reading bs)"
    unfolding sample_reading_def
    by (rule reading_connected) (simp_all add: pending_reads_def socket_new_def)
qed (simp_all add: sample_reading_def tcp_defs)

theorem tcp_delivers_frames_witness:
  "\<exists>c'. receive (2 * length [[1, 2], [3 :: byte]])
      (sample_reading (concat (map send_buffer [[1, 2], [3]]) @ [9])) = (map (Pair ()) [[1, 2], [3]], c') \<and>
    reading c' \<and> inbox (sock c') = [9] \<and>
    conn_state c' = conn_state (sample_reading (concat (map send_buffer [[1, 2], [3]]) @ [9]))"
  by (rule tcp_delivers_frames) (simp_all only: sample_reading_simps, simp_all add: sendable_def)

text \<open>
  A header whose second half is not \<open>VT01\<close> ends the connection, whatever follows it;
  nothing is delivered.
\<close>

theorem tcp_rejects_bad_magic:
  assumes "reading c" and "8 \<le> length (inbox (sock c))" and "conn_state c = CONNECTED"
    and "\<not> validate_magic (take 8 (inbox (sock c))) MAGIC"
  shows "fst (receive (Suc n) c) = [] \<and> conn_state (snd (receive (Suc n) c)) = DISCONNECTED \<and>
    \<not> is_open (sock (snd (receive (Suc n) c)))"
  by (rule receive_bad_magic [OF assms])

theorem tcp_rejects_bad_magic_witness:
  "fst (receive (Suc 5) (sample_reading (replicate 20 0))) = [] \<and>
    conn_state (snd (receive (Suc 5) (sample_reading (replicate 20 0)))) = DISCONNECTED \<and>
    \<not> is_open (sock (snd (receive (Suc 5) (sample_reading (replicate 20 0)))))"
  by (rule tcp_rejects_bad_magic)
    (simp_all only: sample_reading_simps, simp_all add: validate_magic_def MAGIC_def byte_of_char_def)

section \<open>Connecting\<close>

text \<open>
  The connection becomes connected in no other way than by the completion of a
  connect that was outstanding: no call of the client, no data and no failure does it.
\<close>

theorem tcp_connected_by_completion:
  assumes "tcp_step s t" and "conn_state (fst s) \<noteq> CONNECTED" and "conn_state (fst t) = CONNECTED"
  shows "\<exists>eps. AsyncConnect eps \<in> set (outstanding (sock (fst s)))"
  by (rule tcp_step_connects [OF assms])

theorem tcp_connected_by_completion_witness:
  "\<exists>eps. AsyncConnect eps \<in> set (outstanding (sock (fst ((TCPConnection_new :: unit TCPConnection)\<lparr>sock :=
    socket_connect [''a''] socket_new\<rparr>, [] :: byte list list))))"
proof (rule tcp_connected_by_completion [OF tcp_connected])
  show "AsyncConnect [''a''] \<in> set (outstanding (sock ((TCPConnection_new :: unit TCPConnection)\<lparr>sock := socket_connect [''a''] socket_new\<rparr>)))"
    by (simp add: socket_connect_def)
qed (simp_all add: TCPConnection_new_def tcp_defs)

text \<open>
  When \<open>network_connect\<close> throws (no server, no address) the connection stays in the
  state \<open>CONNECTING\<close> with no connect under way: further calls do nothing and report no error,
  and the client, which closes only what is connected, cannot reset it.
\<close>

theorem connect_failure_sticks:
  assumes "network_connect curl resolve c = (Inl (Exn x), c')"
  shows "conn_state c' = CONNECTING \<and> sock c' = sock c \<and> TCPConnection_destroy c' = c' \<and>
    network_connect curl' resolve' c' = (Inr (), c')"
proof -
  have "conn_state c' = CONNECTING" "sock c' = sock c"
    using connect_throws [of "fetch_cm_servers curl" resolve c "Exn x" c'] assms
    by (simp_all add: network_connect_def)
  then show ?thesis
    by (simp add: TCPConnection_destroy_def is_connected_def network_connect_def connect_ignored)
qed

theorem connect_failure_sticks_witness:
  "\<exists>c' :: unit TCPConnection. conn_state c' = CONNECTING \<and>
    sock c' = sock (TCPConnection_new :: unit TCPConnection) \<and> TCPConnection_destroy c' = c' \<and>
    network_connect sample_curl sample_resolve c' = (Inr (), c')"
proof -
  let ?curl = "sample_curl\<lparr>curl_easy_init := False\<rparr>"
  have "network_connect ?curl sample_resolve (TCPConnection_new :: unit TCPConnection) =
      (Inl (Exn (RuntimeError ''No CM servers'')), TCPConnection_new\<lparr>conn_state := CONNECTING\<rparr>)"
    by (simp add: network_connect_def connect_with_def TCPConnection_new_def fetch_cm_servers_def
        sample_curl_def CMFetcher_new_def get_servers_def)
  from connect_failure_sticks [OF this] show ?thesis by (intro exI)
qed

text \<open>
  A connection that is closed and connected again is taken down by the read of the old
  one: the aborted read completes after the new connect was started, and its handler closes.
\<close>

theorem reconnect_is_aborted:
  assumes "AsyncReadHeader \<in> set (outstanding (sock c))" and "conn_state c = CONNECTED"
    and "network_connect curl resolve (network_close c) = (Inr (), c')"
  shows "AsyncReadHeader \<in> set (cancelled (sock c')) \<and> conn_state c' = CONNECTING \<and>
    conn_state (op_failed AsyncReadHeader (take_cancelled AsyncReadHeader c')) = DISCONNECTED \<and>
    \<not> is_open (sock (op_failed AsyncReadHeader (take_cancelled AsyncReadHeader c')))"
  using stale_read_closes [OF assms(1) _ assms(2)] assms(3) by (simp add: network_connect_def)

theorem reconnect_is_aborted_witness:
  "\<exists>c' :: unit TCPConnection. AsyncReadHeader \<in> set (cancelled (sock c')) \<and> conn_state c' = CONNECTING \<and>
    conn_state (op_failed AsyncReadHeader (take_cancelled AsyncReadHeader c')) = DISCONNECTED \<and>
    \<not> is_open (sock (op_failed AsyncReadHeader (take_cancelled AsyncReadHeader c')))"
proof -
  let ?c = "sample_reading []"
  have o: "AsyncReadHeader \<in> set (outstanding (sock ?c))"
    by (simp add: sample_reading_def tcp_defs)
  obtain c' where "network_connect sample_curl sample_resolve (network_close ?c) = (Inr (), c')"
    by (simp add: sample_connect sample_reading_def tcp_defs)
  from reconnect_is_aborted [OF o sample_reading_simps(4) this] show ?thesis by blast
qed



end
