(* ===== verification/Client_Properties.thy ===== *)
theory Client_Properties
  imports Sample_World
begin

text \<open>
  The properties of the routing tables and of the client: what it does with a received frame,
  what it sends for a command, and what it keeps.
\<close>

section \<open>Routing\<close>

lemma route_id_slots:
  assumes "length t = MAX_EMSG" and "length t' = MAX_EMSG" and "slot t m = slot t' m"
  shows "route_id t m = route_id t' m"
proof -
  consider "unat m < MAX_EMSG" | "unat m = MAX_EMSG" | "MAX_EMSG < unat m" by linarith
  then show ?thesis
    using assms by cases (simp_all add: route_id_inside route_id_edge route_id_above)
qed

lemma distinct_registrations:
  "distinct (map fst proto_registrations)" "distinct (map fst msg_registrations)"
  by (simp_all add: proto_registrations_def msg_registrations_def emsg_defs)

text \<open>
  The handlers are registered by static objects of several translation units, in an
  order the language leaves open: every order routes every message number alike.
\<close>

theorem registration_order:
  assumes "set ps = set proto_registrations" and "distinct (map fst ps)"
    and "set ms = set msg_registrations" and "distinct (map fst ms)"
  shows "route_proto (put_all ProtoRegister ps (put_all MsgRegister ms DispatchTable_new)) m =
      route_proto g_dispatch m \<and>
    route_msg (put_all ProtoRegister ps (put_all MsgRegister ms DispatchTable_new)) m =
      route_msg g_dispatch m"
proof -
  let ?n = "DispatchTable_new :: (ProtoHandler, MsgHandler) DispatchTable"
  let ?t = "put_all ProtoRegister ps (put_all MsgRegister ms ?n)"
  have n: "proto_table ?n = replicate MAX_EMSG None" "msg_table ?n = replicate MAX_EMSG None"
    by (simp_all add: DispatchTable_new_def)
  have "table_ok ?t" by (simp add: table_ok_put table_ok_new)
  then have l: "length (proto_table ?t) = MAX_EMSG" "length (msg_table ?t) = MAX_EMSG"
    "length (proto_table g_dispatch) = MAX_EMSG" "length (msg_table g_dispatch) = MAX_EMSG"
    using table_ok_g_dispatch by (simp_all add: table_ok_def)
  have mp: "map_of ps = map_of proto_registrations" "map_of ms = map_of msg_registrations"
    using assms distinct_registrations map_of_inject_set by metis+
  have "slot (proto_table (put_all ProtoRegister ps (put_all MsgRegister ms ?n))) k =
    (case map_of ps k of Some v \<Rightarrow> Some v | None \<Rightarrow> slot (proto_table (put_all MsgRegister ms ?n)) k)" for k
    by (rule proto_registry.look_put_all)
      (use assms(1,2) in \<open>auto simp: separate_tables n proto_registrations_def emsg_defs MAX_EMSG_def\<close>)
  then have p: "slot (proto_table ?t) k = slot (proto_table g_dispatch) k" for k
    by (simp add: mp slot_proto separate_tables n slot_new split: option.splits)
  have "slot (msg_table (put_all MsgRegister ms ?n)) k =
    (case map_of ms k of Some v \<Rightarrow> Some v | None \<Rightarrow> slot (msg_table ?n) k)" for k
    by (rule msg_registry.look_put_all)
      (use assms(3,4) in \<open>auto simp: n msg_registrations_def emsg_defs MAX_EMSG_def\<close>)
  then have s: "slot (msg_table ?t) k = slot (msg_table g_dispatch) k" for k
    by (simp add: mp slot_msg separate_tables n slot_new split: option.splits)
  show ?thesis
    using route_id_slots [OF l(1,3) p] route_id_slots [OF l(2,4) s]
    by (simp add: route_proto_def route_msg_def)
qed

theorem registration_order_witness:
  "route_proto (put_all ProtoRegister (rev proto_registrations)
      (put_all MsgRegister (rev msg_registrations) DispatchTable_new)) EMsg_Multi = route_proto g_dispatch EMsg_Multi \<and>
    route_msg (put_all ProtoRegister (rev proto_registrations)
      (put_all MsgRegister (rev msg_registrations) DispatchTable_new)) EMsg_Multi = route_msg g_dispatch EMsg_Multi"
  by (rule registration_order) (simp_all only: set_rev distinct_rev rev_map [symmetric] distinct_registrations)

text \<open>
  C37. The guard \<open>id <= MAX_EMSG\<close> admits exactly one number that the tables do not have,
  12301, which the enumeration defines as \<open>ClientPendingGameLaunchResponse\<close>: a frame with it reads
  behind the array, and every other number is looked up inside it or ignored.
\<close>

theorem dispatch_one_past_end:
  assumes "e_dispatch env = g_dispatch" and "proto_frame_ok env hs bd"
  shows "(route_proto g_dispatch m = Inl e \<longleftrightarrow> unat (get_msg m) = 12301 \<and> e = Undefined OutOfBounds) \<and>
    (route_msg g_dispatch m = Inl e \<longleftrightarrow> unat m = 12301 \<and> e = Undefined OutOfBounds) \<and>
    consume_frame env (Suc n) (proto_hdr_bytes EMsg_ClientPendingGameLaunchResponse hs @ bd) False w =
      (Inl (Undefined OutOfBounds), w)"
proof (intro conjI)
  have l: "length (proto_table g_dispatch) = MAX_EMSG" "length (msg_table g_dispatch) = MAX_EMSG"
    using table_ok_g_dispatch by (simp_all add: table_ok_def)
  show r: "route_proto g_dispatch m = Inl e \<longleftrightarrow> unat (get_msg m) = 12301 \<and> e = Undefined OutOfBounds" for m e
    using route_id_undefined_iff [OF l(1)] by (simp add: route_proto_def MAX_EMSG_def)
  show "route_msg g_dispatch m = Inl e \<longleftrightarrow> unat m = 12301 \<and> e = Undefined OutOfBounds"
    using route_id_undefined_iff [OF l(2)] by (simp add: route_msg_def MAX_EMSG_def)
  let ?m = "EMsg_ClientPendingGameLaunchResponse"
  let ?f = "proto_hdr_bytes ?m hs @ bd"
  have g: "get_msg (make_msg ?m True) = ?m"
    by (rule get_msg_make_msg) (simp add: bit31_iff EMsg_ClientPendingGameLaunchResponse_def)
  then have "route_proto g_dispatch (make_msg ?m True) = Inl (Undefined OutOfBounds)"
    by (simp add: r EMsg_ClientPendingGameLaunchResponse_def)
  moreover have "PacketClientMsgProtobuf_make (e_header env) (make_msg ?m True) ?f = Inr (proto_packet env ?m hs bd)"
    using PacketClientMsgProtobuf_make_bytes [of "e_header env" hs] assms(2)
    by (cases "ParseFromArray (e_header env) hs") (simp add: proto_packet_def proto_frame_ok_def)
  moreover have "frame_emsg ?f = make_msg ?m True"
    by (simp add: proto_hdr_bytes_def frame_emsg_bytes)
  ultimately have "parse_and_dispatch env again (frame_emsg ?f) ?f = throwW (Undefined OutOfBounds)" for again
    using assms(1) by (simp add: parse_and_dispatch_def not_encryption_make_msg is_protobuf_make_msg
        dispatch_proto_def proto_packet_def withE_def)
  then show "consume_frame env (Suc n) ?f False w = (Inl (Undefined OutOfBounds), w)"
    using consume_plain [of ?f False w env n] by (simp add: throwW_def catchW_def)
qed

lemma sample_frame_ok:
  "length bd < 2 ^ 31 \<Longrightarrow> proto_frame_ok sample_env (le_bytes (a :: u64) @ le_bytes (b :: u32) @
     le_bytes (c :: u64) @ le_bytes (d :: u64)) bd"
  by (simp add: proto_frame_ok_def sample_header_def vec_limit_def)

theorem dispatch_one_past_end_witness:
  "(route_proto g_dispatch 5 = Inl (Undefined OutOfBounds) \<longleftrightarrow>
      unat (get_msg 5) = 12301 \<and> Undefined OutOfBounds = Undefined OutOfBounds) \<and>
    (route_msg g_dispatch 5 = Inl (Undefined OutOfBounds) \<longleftrightarrow>
      unat (5 :: u32) = 12301 \<and> Undefined OutOfBounds = Undefined OutOfBounds) \<and>
    consume_frame sample_env (Suc 0) (proto_hdr_bytes EMsg_ClientPendingGameLaunchResponse
        (le_bytes (1 :: u64) @ le_bytes (2 :: u32) @ le_bytes (3 :: u64) @ le_bytes (4 :: u64)) @ []) False sample_start =
      (Inl (Undefined OutOfBounds), sample_start)"
  by (rule dispatch_one_past_end) (simp, rule sample_frame_ok, simp)

section \<open>Received frames\<close>


lemma sample_onW:
  "listeners sample_listening = (\<lambda>_. Some ())" "channel_secured sample_listening = False"
  "user sample_listening = []" "connection sample_listening = TCPConnection_new"
proof -
  have "listeners sample_listening t = Some ()" for t
    by (cases t) (simp_all add: sample_listening_def onW_def EventEmitter_on_def)
  then show "listeners sample_listening = (\<lambda>_. Some ())" by (rule ext)
qed (simp_all add: sample_listening_def onW_def)


lemma sample_emit:
  "emitW sample_env ev (set_channel_secured b sample_listening) =
     (Inr (), (set_channel_secured b sample_listening)\<lparr>user := [ev]\<rparr>)"
  by (simp add: emitW_def EventEmitter_emit_def EventEmitter_find_def Listener_emit_def sample_onW
      set_channel_secured_def)


text \<open>
  C7. A \<open>Multi\<close> message does exactly what its frames would do one after the other, whether its
  payload came compressed or not; bytes behind the last complete frame are dropped, and no
  exception of a frame keeps the next from being consumed.
\<close>

theorem multi_in_order:
  assumes "e_dispatch env = g_dispatch" and "proto_frame_ok env hs bd"
    and "encrypt = False \<or> \<not> channel_secured w"
    and "ParseFromArray (e_multi env) bd = (True, multi)"
    and "multi_payload env multi = Inr (concat (map part_buffer fs) @ take k (part_buffer f))"
    and "\<forall>f \<in> set fs. sendable f" and "sendable f" and "k < length (part_buffer f)"
  shows "consume_frame env (Suc n) (proto_hdr_bytes EMsg_Multi hs @ bd) encrypt w =
      forW (\<lambda>f. consume_frame env n f False) fs w"
  using multi.unframe_partial [OF assms(7,8)] by (intro consume_multi [OF assms(1-6)])

theorem multi_in_order_witness:
  "consume_frame sample_env (Suc 5) (proto_hdr_bytes EMsg_Multi
        (le_bytes (1 :: u64) @ le_bytes (2 :: u32) @ le_bytes (3 :: u64) @ le_bytes (4 :: u64)) @
        (le_bytes (0 :: u32) @ concat (map part_buffer [[1, 0, 0, 0], [2, 0, 0, 0]]) @ take 2 (part_buffer [7])))
      False sample_start =
    forW (\<lambda>f. consume_frame sample_env 5 f False) [[1, 0, 0, 0], [2, 0, 0, 0]] sample_start"
proof (rule multi_in_order [where k = 2 and f = "[7]"])
  show "ParseFromArray (e_multi sample_env) (le_bytes (0 :: u32) @
      concat (map part_buffer [[1, 0, 0, 0], [2, 0, 0, 0]]) @ take 2 (part_buffer [7])) =
    (True, \<lparr>size_unzipped = 0,
      message_body = concat (map part_buffer [[1, 0, 0, 0], [2, 0, 0, 0]]) @ take 2 (part_buffer [7])\<rparr>)"
    by (simp add: sample_multi_def)
  show "proto_frame_ok sample_env (le_bytes (1 :: u64) @ le_bytes (2 :: u32) @ le_bytes (3 :: u64) @ le_bytes (4 :: u64))
      (le_bytes (0 :: u32) @ concat (map part_buffer [[1, 0, 0, 0], [2, 0, 0, 0]]) @ take 2 (part_buffer [7]))"
    by (rule sample_frame_ok) (simp add: part_buffer_def)
qed (simp_all add: multi_payload_def sendable_def part_buffer_def)



text \<open>
  C18. The one exception that leaves \<open>consume_frame\<close> is that of the decryption, which stands
  outside the \<open>try\<close> block; then nothing has been done. Whatever the handlers throw is swallowed.
\<close>

theorem only_decryption_throws:
  assumes "fst (consume_frame env n frame encrypt w) = Inl (Exn x)"
  shows "encrypt \<and> channel_secured w \<and>
    process_incoming_encrypted_message (e_crypto env) (crypto w) frame = Inl (Exn x) \<and>
    snd (consume_frame env n frame encrypt w) = w"
  using consume_exception [OF assms] by (auto simp: incoming_def split: if_splits)

theorem only_decryption_throws_witness:
  "True \<and> channel_secured (set_channel_secured True sample_start) \<and>
    process_incoming_encrypted_message (e_crypto sample_env) (crypto (set_channel_secured True sample_start)) [1, 2, 3, 4] =
      Inl (Exn (RuntimeError ''Invalid encrypted data'')) \<and>
    snd (consume_frame sample_env 1 [1, 2, 3, 4] True (set_channel_secured True sample_start)) =
      set_channel_secured True sample_start"
  by (rule only_decryption_throws)
    (simp add: incoming_def process_incoming_encrypted_message_def symmetric_decrypt_hmac_iv_def
      set_channel_secured_def IV_LENGTH_def)

text \<open>
  C12. The answer to a logon reaches the application as an event with the SteamID of the body and
  the session number of the header, successful exactly for the result \<open>OK\<close>.
\<close>

theorem logon_event:
  assumes "e_dispatch env = g_dispatch" and "proto_frame_ok env hs bd"
    and "encrypt = False \<or> \<not> channel_secured w"
    and "ParseFromArray (e_logon_response env) bd = (True, body)"
    and "ParseFromArray (e_header env) hs = (True, hdr)"
  shows "consume_frame env (Suc n) (proto_hdr_bytes EMsg_ClientLogOnResponse hs @ bd) encrypt w =
    emitW env (ClientLogonEvent
      (if eresult body = EResult_OK then EventResult_ok
       else EventResult_fail ''Client login failed; incorrect information?'')
      (Some (client_supplied_steamid body)) (Some (client_sessionid (e_header env) hdr))) w"
  by (rule consume_logon_response [OF assms])

theorem logon_event_witness:
  "consume_frame sample_env (Suc 0) (proto_hdr_bytes EMsg_ClientLogOnResponse
        (le_bytes (1 :: u64) @ le_bytes (2 :: u32) @ le_bytes (3 :: u64) @ le_bytes (4 :: u64)) @
        (le_bytes EResult_OK @ le_bytes (5 :: u64))) False (set_channel_secured True sample_listening) =
    (Inr (), (set_channel_secured True sample_listening)\<lparr>user :=
      [ClientLogonEvent EventResult_ok (Some 5) (Some 2)]\<rparr>)"
proof -
  have "consume_frame sample_env (Suc 0) (proto_hdr_bytes EMsg_ClientLogOnResponse
        (le_bytes (1 :: u64) @ le_bytes (2 :: u32) @ le_bytes (3 :: u64) @ le_bytes (4 :: u64)) @
        (le_bytes EResult_OK @ le_bytes (5 :: u64))) False (set_channel_secured True sample_listening) =
    emitW sample_env (ClientLogonEvent
      (if eresult \<lparr>eresult = EResult_OK, client_supplied_steamid = 5\<rparr> = EResult_OK then EventResult_ok
       else EventResult_fail ''Client login failed; incorrect information?'')
      (Some (client_supplied_steamid \<lparr>eresult = EResult_OK, client_supplied_steamid = 5\<rparr>))
      (Some (client_sessionid (e_header sample_env)
        \<lparr>sh_steamid = 1, sh_session = 2, sh_source = 3, sh_target = 4\<rparr>))) (set_channel_secured True sample_listening)"
    by (rule logon_event) (simp, rule sample_frame_ok, simp_all add: sample_logon_response_def sample_header_def)
  then show ?thesis by (simp add: sample_emit del: consume_frame.simps)
qed

section \<open>State\<close>

text \<open>
  C16. No received frame, no command and no change of the session touches the keys, provided
  that the application's callbacks, which the client calls in between, do not.
\<close>

theorem keys_never_change:
  assumes "callbacks_keep env (has_keys key secret)" and "e_dispatch env = g_dispatch"
    and "has_keys key secret w"
  shows "has_keys key secret (snd (consume_frame env n frame encrypt w)) \<and>
    has_keys key secret (snd (execute env req w)) \<and>
    has_keys key secret (snd (start_session env w)) \<and> has_keys key secret (shutdown env w)"
proof -
  note k = neutral_keys [OF assms(1)]
  have "keeps (has_keys key secret) (consume_frame env n frame encrypt)"
    by (rule keeps_consume [OF k _ assms(2)]) (simp add: has_keys_def set_channel_secured_def)
  with keeps_commands [OF k, of req] keeps_session(1) [OF blind_keys(1), where env = env]
    keeps_session(2) [OF blind_keys(1), where env = env] assms(3) show ?thesis
    by (simp add: keeps_def)
qed

theorem keys_never_change_witness:
  "has_keys (replicate 32 1) (replicate 16 1) (snd (consume_frame sample_env 3 [1, 2, 3, 4] True sample_start)) \<and>
    has_keys (replicate 32 1) (replicate 16 1) (snd (execute sample_env AnonymousLogin sample_start)) \<and>
    has_keys (replicate 32 1) (replicate 16 1) (snd (start_session sample_env sample_start)) \<and>
    has_keys (replicate 32 1) (replicate 16 1) (shutdown sample_env sample_start)"
  by (rule keys_never_change [OF sample_callbacks(1)]) (simp_all add: has_keys_def)

text \<open>
  C17. The secured flag changes by the result of the handshake alone: a frame that does not carry
  it, neither as its own message nor inside a \<open>Multi\<close> message at any depth, leaves the flag as it
  is, and so do the commands, connecting and shutting down.
\<close>

theorem secured_only_by_result:
  assumes "callbacks_keep env (secured_is b)" and "e_dispatch env = g_dispatch"
    and "channel_secured w = b"
    and "\<And>data. incoming env frame encrypt w = Inr data \<Longrightarrow> quiet env n data"
  shows "channel_secured (snd (consume_frame env n frame encrypt w)) = b \<and>
    channel_secured (snd (execute env req w)) = b \<and>
    channel_secured (snd (start_session env w)) = b \<and> channel_secured (shutdown env w) = b"
  using keeps_consume_quiet [OF neutral_secured [OF assms(1)] assms(2) _ assms(4)]
    keeps_commands [OF neutral_secured [OF assms(1)], of req]
    keeps_session(1) [OF blind_keys(2), where env = env]
    keeps_session(2) [OF blind_keys(2), where env = env] assms(3)
  by (simp add: keeps_def secured_is_def)

theorem secured_only_by_result_witness:
  "channel_secured (snd (consume_frame sample_env 3 (le_bytes (make_msg 5 True) @ []) False sample_start)) = False \<and>
    channel_secured (snd (execute sample_env ClientLogoff sample_start)) = False \<and>
    channel_secured (snd (start_session sample_env sample_start)) = False \<and>
    channel_secured (shutdown sample_env sample_start) = False"
proof (rule secured_only_by_result [OF sample_callbacks(2)])
  have "get_msg (make_msg 5 True) = 5" by (rule get_msg_make_msg) (simp add: bit31_iff)
  then have m: "get_msg (frame_emsg (le_bytes (make_msg 5 True) @ [])) \<noteq> EMsg_Multi"
    unfolding frame_emsg_bytes by (simp add: EMsg_Multi_def)
  have "frame_emsg (le_bytes (make_msg 5 True) @ []) \<noteq> EMsg_ChannelEncryptResult"
    unfolding frame_emsg_bytes by (simp add: make_msg_def PROTO_MASK_def emsg_defs)
  from quiet_other [OF this m] show "quiet sample_env 3 data"
    if "incoming sample_env (le_bytes (make_msg 5 True) @ []) False sample_start = Inr data" for data
    using that by (simp add: incoming_def)
qed simp_all

section \<open>Commands\<close>

text \<open>
  C34. An anonymous login on an unsecured channel sends nothing and reports the failure; on a
  secured one it sends the logon message, with the anonymous SteamID of the public universe.
\<close>

theorem anonymous_logon:
  assumes "router w = g_request_router"
    and "SerializeToString (e_header env) (set_steamid (e_header env) 0x01A0000000000000
      (proto_new (e_header env))) = Some hs"
    and "SerializeToString (e_logon env) ((proto_new (e_logon env))\<lparr>client_package_version := 1561159470,
      protocol_version := 65580\<rparr>) = Some bd"
  shows "execute env AnonymousLogin w =
    (if channel_secured w then send_msg_impl env (proto_hdr_bytes EMsg_ClientLogon hs @ bd) w
     else emitW env (ClientLogonEvent (EventResult_fail ''Channel not secured'') None None) w)"
  using execute_routed(1) [OF assms(1), of env] anon_logon_bytes [OF assms(2,3), of w]
  by (simp add: exec_anon_logon_def ClientLogonEvent_of_result_def)

theorem anonymous_logon_witness:
  "execute sample_env AnonymousLogin sample_start =
    (if channel_secured sample_start
     then send_msg_impl sample_env (proto_hdr_bytes EMsg_ClientLogon
       (le_bytes (0x01A0000000000000 :: u64) @ le_bytes (0 :: u32) @ le_bytes (- 1 :: u64) @ le_bytes (- 1 :: u64)) @
       (le_bytes (1561159470 :: u32) @ le_bytes (65580 :: u32))) sample_start
     else emitW sample_env (ClientLogonEvent (EventResult_fail ''Channel not secured'') None None) sample_start)"
  by (rule anonymous_logon) simp_all

end
