(* ===== verification/Example_Programs.thy ===== *)
theory Example_Programs
  imports Sample_World
begin

text \<open>
  The programs examples/anonymous_login.cpp and examples/get_info.cpp: callbacks that print and go on
  with the next command. A callback captures the client, so it is a step of the client; what is
  printed is collected in \<open>user\<close>. \<open>io_context::run\<close>, on a thread of its own, runs the handlers of
  the connection, \<open>std::cin.get()\<close> waits for the end.
\<close>

section \<open>Printing\<close>

type_synonym ('t, 'r, 'k) program = "('t, 'r, 'k, string list) action"

definition printW :: "string \<Rightarrow> ('t, 'r, 'k) program" where
  "printW s w = (Inr (), w\<lparr>user := user w @ [s]\<rparr>)"

definition NEWLINE :: char where "NEWLINE = CHR 0x0A"

text \<open>What \<open>%s\<close> prints of \<open>c_str()\<close>, and \<open>%u\<close>.\<close>

definition c_str :: "string \<Rightarrow> string" where
  "c_str s = takeWhile (\<lambda>c. c \<noteq> CHR 0x00) s"

definition udec :: "u32 \<Rightarrow> string" where
  "udec n = dec_string (unat n)"

section \<open>The callbacks\<close>

datatype callback = on_not_implemented | on_product_info | on_logon | on_secured | on_logon_only

definition line :: "string \<Rightarrow> ('t, 'r, 'k) program" where
  "line s = printW (s @ [NEWLINE])"

definition on_not_implemented_fn :: "u32 \<Rightarrow> ('t, 'r, 'k) program" where
  "on_not_implemented_fn emsg = line (''Msg with id '' @ udec emsg @ '' is not implemented.'')"

text \<open>Nothing in the \<open>try\<close> block throws.\<close>

definition print_app :: "ProductAppInfo \<Rightarrow> ('t, 'r, 'k) program" where
  "print_app app =
     seqW (line (''AppID: '' @ udec (app_id app) @ '' | SHA: '' @ c_str (app_sha app)))
       (case get ''common'' (app_appinfo app) of
          Some common \<Rightarrow> line (''Name: '' @ c_str (get_string_or ''name'' ''Unknown'' common))
        | None \<Rightarrow> skipW)"

definition print_package :: "ProductPackageInfo \<Rightarrow> ('t, 'r, 'k) program" where
  "print_package pkg = line (''PackageID: '' @ udec (pkg_packageid pkg) @ '' | SHA: '' @ c_str (pkg_sha pkg))"

definition on_product_info_fn :: "ProductAppInfo list \<Rightarrow> ProductPackageInfo list \<Rightarrow> ('t, 'r, 'k) program" where
  "on_product_info_fn apps packages =
     seqW (line ''Received ProductInfoResult'') (
     seqW (line (''Apps: '' @ dec_string (length apps))) (
     seqW (line (''Packages: '' @ dec_string (length packages))) (
     seqW (forW print_app apps) (forW print_package packages))))"

text \<open>The numbers of an event that has none of its own are not initialized.\<close>

definition on_logon_fn ::
    "('h, 'r, 't, 'k, string list) env \<Rightarrow> EventResult \<Rightarrow> u64 option \<Rightarrow> u32 option \<Rightarrow> ('t, 'r, 'k) program" where
  "on_logon_fn env res steamid session =
     (if success res then
        seqW (line ''Successfully logged on'') (
        seqW (line (''Attempting to get information about this app ID: '' @ udec 440)) (
          case (steamid, session) of
            (Some s, Some n) \<Rightarrow> SteamClient_execute env (ProductInfoCommand (GetProductInfo_make 440 s n))
          | _ \<Rightarrow> throwW (Undefined OutOfBounds)))
      else line (''Logon failed: '' @ c_str (result_message res)))"

definition on_logon_only_fn :: "EventResult \<Rightarrow> ('t, 'r, 'k) program" where
  "on_logon_only_fn res =
     (if success res then line ''Successfully logged on''
      else line (''Logon failed: '' @ c_str (result_message res)))"

definition on_secured_fn :: "('h, 'r, 't, 'k, string list) env \<Rightarrow> EventResult \<Rightarrow> ('t, 'r, 'k) program" where
  "on_secured_fn env res =
     (if success res
      then seqW (line ''Successfully secured channel'') (SteamClient_execute env AnonymousLogin)
      else line ''Failed to secure channel :('')"

text \<open>A callback gets events of its own type only.\<close>

fun example_call ::
    "('h, 'r, 't, callback, string list) env \<Rightarrow> callback \<Rightarrow> 'h Event \<Rightarrow> ('t, 'r, callback) program" where
  "example_call env on_not_implemented (MsgNotImplementedEvent emsg _) = on_not_implemented_fn emsg"
| "example_call env on_product_info (ProductInfoResult apps packages) = on_product_info_fn apps packages"
| "example_call env on_logon (ClientLogonEvent res s n) = on_logon_fn env res s n"
| "example_call env on_logon_only (ClientLogonEvent res s n) = on_logon_only_fn res"
| "example_call env on_secured (ChannelSecuredEvent res) = on_secured_fn env res"
| "example_call env _ _ = throwW (Undefined OutOfBounds)"

text \<open>
  A callback uses the client, which may call a callback: the first argument bounds how deep. Two
  levels are enough, see \<open>callbacks_end\<close>.
\<close>

primrec program_env ::
    "nat \<Rightarrow> ('h, 'r, 't, callback, string list) env \<Rightarrow> ('h, 'r, 't, callback, string list) env" where
  "program_env 0 base = base\<lparr>e_call := \<lambda>_ _. throwW (Undefined StackExhausted)\<rparr>"
| "program_env (Suc n) base = base\<lparr>e_call := example_call (program_env n base)\<rparr>"

section \<open>The main functions\<close>

definition get_info_client :: "'r crypto_api \<Rightarrow> 'r \<Rightarrow> 't \<Rightarrow> u64 \<Rightarrow> ('t, 'r, callback, string list) CMClient" where
  "get_info_client api rng t jobs =
     (let client = CMClient_new api rng t jobs g_request_router [];
          client = SteamClient_on MsgNotImplemented_type on_not_implemented client;
          client = SteamClient_on ProductInfoResult_type on_product_info client;
          client = SteamClient_on ClientLogon_type on_logon client
      in SteamClient_on ChannelSecured_type on_secured client)"

definition anonymous_login_client :: "'r crypto_api \<Rightarrow> 'r \<Rightarrow> 't \<Rightarrow> u64 \<Rightarrow> ('t, 'r, callback, string list) CMClient" where
  "anonymous_login_client api rng t jobs =
     (let client = CMClient_new api rng t jobs g_request_router [];
          client = SteamClient_on ClientLogon_type on_logon_only client
      in SteamClient_on ChannelSecured_type on_secured client)"

definition get_info_main ::
    "('h, 'r, 't, callback, string list) env \<Rightarrow> 'r \<Rightarrow> 't \<Rightarrow> u64 \<Rightarrow> (error + unit) \<times> ('t, 'r, callback, string list) CMClient" where
  "get_info_main env rng t jobs = SteamClient_connect env (get_info_client (e_crypto env) rng t jobs)"

definition anonymous_login_main ::
    "('h, 'r, 't, callback, string list) env \<Rightarrow> 'r \<Rightarrow> 't \<Rightarrow> u64 \<Rightarrow> (error + unit) \<times> ('t, 'r, callback, string list) CMClient" where
  "anonymous_login_main env rng t jobs = SteamClient_connect env (anonymous_login_client (e_crypto env) rng t jobs)"

section \<open>Depth of the callbacks\<close>

lemma program_env_simps [simp]:
  "e_crypto (program_env n base) = e_crypto base" "e_header (program_env n base) = e_header base"
  "e_multi (program_env n base) = e_multi base" "e_logon (program_env n base) = e_logon base"
  "e_logon_response (program_env n base) = e_logon_response base"
  "e_pics_request (program_env n base) = e_pics_request base"
  "e_pics_response (program_env n base) = e_pics_response base"
  "e_gunzip (program_env n base) = e_gunzip base" "e_transport (program_env n base) = e_transport base"
  "e_what (program_env n base) = e_what base" "e_dispatch (program_env n base) = e_dispatch base"
  by (cases n; simp)+

lemma listeners_on: "listeners (SteamClient_on type k w) = (listeners w)(type \<mapsto> k)"
  by (simp add: SteamClient_on_def onW_def EventEmitter_on_def)

lemma printed: "printW s w = (Inr (), w\<lparr>user := user w @ [s]\<rparr>)" "line s w = (Inr (), w\<lparr>user := user w @ [s @ [NEWLINE]]\<rparr>)"
  by (simp_all add: printW_def line_def)

text \<open>Sending depends on the environment through its cryptography and its transport.\<close>

lemma send_msg_program: "send_msg (program_env n base) = send_msg base" "send_msg_impl (program_env n base) = send_msg_impl base"
proof -
  show "send_msg_impl (program_env n base) = send_msg_impl base"
    by (intro ext) (simp add: send_msg_impl_def conn_send_def split: prod.split sum.split)
  then show "send_msg (program_env n base) = send_msg base"
    by (intro ext) (simp add: send_msg_def)
qed

lemma failed_logon_heard:
  "success res = False \<Longrightarrow>
     emitW (program_env (Suc n) base) (ClientLogonEvent res None None) =
     emitW (program_env (Suc m) base) (ClientLogonEvent res None None)"
proof -
  assume f: "success res = False"
  have "example_call (program_env n base) k (ClientLogonEvent res None None) =
      example_call (program_env m base) k (ClientLogonEvent res None None)" for k
    by (cases k) (simp_all add: on_logon_fn_def f)
  then show ?thesis by (intro ext) (simp add: emitW_def EventEmitter_emit_def split: option.split)
qed

lemma command_program:
  "exec_anon_logon (program_env (Suc n) base) = exec_anon_logon (program_env (Suc m) base)"
  "exec_logoff (program_env n base) = exec_logoff base"
  "exec_get_product_info (program_env n base) = exec_get_product_info base"
proof -
  have f: "success (EventResult_fail s) = False" for s by (simp add: EventResult_fail_def)
  show "exec_anon_logon (program_env (Suc n) base) = exec_anon_logon (program_env (Suc m) base)"
    using failed_logon_heard [OF f, of n base _ m]
    by (intro ext) (simp add: exec_anon_logon_def anon_logon_msg_def ClientLogonEvent_of_result_def send_msg_program
        del: program_env.simps)
  show "exec_logoff (program_env n base) = exec_logoff base"
    by (intro ext) (simp add: exec_logoff_def send_msg_program)
  show "exec_get_product_info (program_env n base) = exec_get_product_info base"
    by (intro ext) (simp add: exec_get_product_info_def product_info_msg_def send_msg_program)
qed

lemma execute_program: "execute (program_env (Suc n) base) = execute (program_env (Suc m) base)"
proof -
  have "run_command (program_env (Suc n) base) f req = run_command (program_env (Suc m) base) f req" for f req
    by (cases f; cases req)
      (simp_all add: command_program(2,3) command_program(1) [of n base m] del: program_env.simps)
  then show ?thesis
    by (intro ext) (simp add: execute_def Let_def del: program_env.simps split: prod.split sum.split option.split)
qed

text \<open>Two levels of callbacks are enough: a third is never asked for.\<close>

lemma callbacks_end: "program_env (Suc (Suc n)) base = program_env (Suc (Suc m)) base"
proof -
  have eq: "example_call (program_env (Suc n) base) k ev = example_call (program_env (Suc m) base) k ev" for k ev
    by (cases k; cases ev)
      (simp_all add: on_logon_fn_def on_secured_fn_def SteamClient_execute_def execute_program [of n base m]
        del: program_env.simps split: option.split)
  have "example_call (program_env (Suc n) base) = example_call (program_env (Suc m) base)"
    by (rule ext, rule ext, rule eq)
  then show ?thesis by (simp only: program_env.simps(2) [of "Suc n"] program_env.simps(2) [of "Suc m"])
qed

end
