(* ===== verification/Session_Properties.thy ===== *)
theory Session_Properties
  imports Example_Programs
begin

text \<open>
  A session of the program examples/get_info.cpp: the parts of the library together, from the end of
  the handshake to the request for product information.
\<close>

section \<open>Sending and hearing\<close>

text \<open>What a secured client sends on a TCP connection is queued, and decrypts to what was sent.\<close>

definition sends :: "'r crypto_api \<Rightarrow> 'r EncryptionManager \<Rightarrow> unit TCPConnection \<Rightarrow> byte list \<Rightarrow> byte list \<Rightarrow>
    'r EncryptionManager \<Rightarrow> unit TCPConnection \<Rightarrow> bool" where
  "sends api em t c p em' t' \<longleftrightarrow>
     write_queue t' = write_queue t @ [send_buffer c] \<and>
     process_incoming_encrypted_message api em c = Inr p \<and> manager_ok em' \<and>
     process_incoming_encrypted_message api em' = process_incoming_encrypted_message api em"

lemma secured_send:
  assumes "e_transport env = TCP_IConnection curl resolve" and "crypto_lawful (e_crypto env)"
    and "manager_ok (crypto w)" and "channel_secured w" and "length p < vec_limit"
  shows "\<exists>c em t. send_msg_impl env p w = (Inr (), w\<lparr>crypto := em, connection := t\<rparr>) \<and>
    sends (e_crypto env) (crypto w) (connection w) c p em t"
proof (rule symmetric_decrypt_encrypt [OF assms(2) manager_ok_key [OF assms(3)] assms(5),
    of "hmac_secret (crypto w)" "rng_state (crypto w)"])
  fix c
  assume c: "fst (symmetric_encrypt_hmac_iv (e_crypto env) p (session_key (crypto w))
        (hmac_secret (crypto w)) (rng_state (crypto w))) = Inr c"
    and d: "symmetric_decrypt_hmac_iv (e_crypto env) c (session_key (crypto w)) (hmac_secret (crypto w)) = Inr p"
  then obtain g where "process_outgoing_encrypted_message (e_crypto env) p (crypto w) = (Inr c, (crypto w)\<lparr>rng_state := g\<rparr>)"
    by (cases "symmetric_encrypt_hmac_iv (e_crypto env) p (session_key (crypto w))
        (hmac_secret (crypto w)) (rng_state (crypto w))") (simp add: process_outgoing_encrypted_message_def)
  moreover obtain t where t: "async_send c (connection w) = Inr t" using async_send_total by blast
  ultimately have "send_msg_impl env p w = (Inr (), w\<lparr>crypto := (crypto w)\<lparr>rng_state := g\<rparr>, connection := t\<rparr>)"
    using assms(1,4) by (simp add: send_msg_impl_def conn_send_def TCP_IConnection_def)
  moreover have "sends (e_crypto env) (crypto w) (connection w) c p ((crypto w)\<lparr>rng_state := g\<rparr>) t"
    using d async_send_queue [OF t] assms(3)
    by (simp add: sends_def process_incoming_encrypted_message_def manager_ok_def fun_eq_iff)
  ultimately show ?thesis by blast
qed

lemma program_hears:
  assumes "listeners w (event_type ev) = Some k" and "fst (example_call (program_env n base) k ev w) = Inr ()"
  shows "emitW (program_env (Suc n) base) ev w = example_call (program_env n base) k ev w"
  using assms by (cases "example_call (program_env n base) k ev w")
    (simp add: emitW_def EventEmitter_emit_def EventEmitter_find_def Listener_emit_def)

text \<open>An encrypted frame is handled as the plain one that it decrypts to.\<close>

lemma consume_decrypted:
  assumes "channel_secured w" and "process_incoming_encrypted_message (e_crypto env) (crypto w) c = Inr f"
    and "4 \<le> length c" and "4 \<le> length f"
  shows "consume_frame env (Suc n) c True w = consume_frame env (Suc n) f False w"
  using assms by (simp add: incoming_def)

lemma udec_440: "udec 440 = ''440''"
  by (simp add: udec_def dec_string.simps digit_char_def char_of_def bit_0)

section \<open>The session\<close>

text \<open>The end of the handshake makes the program log on.\<close>

lemma program_secured:
  assumes "e_transport base = TCP_IConnection curl resolve" and "e_dispatch base = g_dispatch"
    and "crypto_lawful (e_crypto base)" and "manager_ok (crypto w)"
    and "router w = g_request_router" and "\<not> channel_secured w"
    and "listeners w ChannelSecured_type = Some on_secured"
    and "Msg_Serialize MsgChannelEncryptResult_ops m = Inr bs" and "Payload m = []"
    and "MsgHdr_Msg (Header m) = EMsg_ChannelEncryptResult" and "MsgChannelEncryptResult_result (Body m) = EResult_OK"
    and "SerializeToString (e_header base) (set_steamid (e_header base) 0x01A0000000000000
      (proto_new (e_header base))) = Some hs"
    and "SerializeToString (e_logon base) ((proto_new (e_logon base))\<lparr>client_package_version := 1561159470,
      protocol_version := 65580\<rparr>) = Some bd"
    and "8 + length hs + length bd < vec_limit"
  shows "\<exists>c em t. consume_frame (program_env (Suc (Suc d)) base) (Suc n) bs True w =
      (Inr (), w\<lparr>channel_secured := True, user := user w @ [''Successfully secured channel'' @ [NEWLINE]],
        crypto := em, connection := t\<rparr>) \<and>
    sends (e_crypto base) (crypto w) (connection w) c (proto_hdr_bytes EMsg_ClientLogon hs @ bd) em t"
proof -
  let ?env = "program_env (Suc (Suc d)) base" and ?env1 = "program_env (Suc d) base"
  let ?s = "w\<lparr>channel_secured := True, user := user w @ [''Successfully secured channel'' @ [NEWLINE]]\<rparr>"
  obtain c em t where 1: "send_msg_impl ?env1 (proto_hdr_bytes EMsg_ClientLogon hs @ bd) ?s =
      (Inr (), ?s\<lparr>crypto := em, connection := t\<rparr>)"
    "sends (e_crypto base) (crypto w) (connection w) c (proto_hdr_bytes EMsg_ClientLogon hs @ bd) em t"
    using secured_send [of ?env1 curl resolve ?s "proto_hdr_bytes EMsg_ClientLogon hs @ bd"] assms(1,3,4,14)
    by (auto simp del: program_env.simps)
  have "SteamClient_execute ?env1 AnonymousLogin ?s = (Inr (), ?s\<lparr>crypto := em, connection := t\<rparr>)"
    using execute_routed(1) [of ?s ?env1] anon_logon_bytes [of ?env1 hs bd ?s] assms(5,12,13) 1(1)
    by (simp add: SteamClient_execute_def del: program_env.simps)
  then have 2: "example_call ?env1 on_secured (ChannelSecuredEvent EventResult_ok) (set_channel_secured True w) =
      (Inr (), ?s\<lparr>crypto := em, connection := t\<rparr>)"
    by (simp add: on_secured_fn_def EventResult_ok_def seqW_def printed set_channel_secured_def del: program_env.simps)
  have "consume_frame ?env (Suc n) bs True w = emitW ?env (ChannelSecuredEvent EventResult_ok) (set_channel_secured True w)"
    using handshake_result [of ?env, OF _ assms(6,8,10,9)] assms(2,11)
    by (simp add: emit_catch del: program_env.simps consume_frame.simps)
  also have "\<dots> = (Inr (), ?s\<lparr>crypto := em, connection := t\<rparr>)"
    using program_hears [of "set_channel_secured True w" "ChannelSecuredEvent EventResult_ok" on_secured "Suc d" base] 2 assms(7)
    by (simp add: set_channel_secured_def del: program_env.simps)
  finally show ?thesis using 1(2) by auto
qed

text \<open>An accepted logon makes it ask for product information.\<close>

lemma program_logged_on:
  assumes "e_transport base = TCP_IConnection curl resolve" and "e_dispatch base = g_dispatch"
    and "crypto_lawful (e_crypto base)" and "manager_ok (crypto w)"
    and "router w = g_request_router" and "channel_secured w"
    and "listeners w ClientLogon_type = Some on_logon"
    and "process_incoming_encrypted_message (e_crypto base) (crypto w) c2 =
      Inr (proto_hdr_bytes EMsg_ClientLogOnResponse hs2 @ bd2)" and "4 \<le> length c2"
    and "proto_frame_ok base hs2 bd2" and "ParseFromArray (e_header base) hs2 = (True, hdr)"
    and "ParseFromArray (e_logon_response base) bd2 = (True, body)" and "eresult body = EResult_OK"
    and "SerializeToString (e_header base) (set_steamid (e_header base) (client_supplied_steamid body)
      (set_client_sessionid (e_header base) (client_sessionid (e_header base) hdr)
        (set_jobid_source (e_header base) (next_jobid w) (proto_new (e_header base))))) = Some hs"
    and "SerializeToString (e_pics_request base) \<lparr>req_apps = req_apps (proto_new (e_pics_request base)) @
      [\<lparr>ra_appid = 440, ra_access_token = 0\<rparr>]\<rparr> = Some bd"
    and "8 + length hs + length bd < vec_limit"
  shows "\<exists>c em t. consume_frame (program_env (Suc (Suc d)) base) (Suc n) c2 True w =
      (Inr (), w\<lparr>user := user w @ [''Successfully logged on'' @ [NEWLINE],
          ''Attempting to get information about this app ID: 440'' @ [NEWLINE]],
        next_jobid := next_jobid w + 1, crypto := em, connection := t\<rparr>) \<and>
    sends (e_crypto base) (crypto w) (connection w) c
      (proto_hdr_bytes EMsg_ClientPICSProductInfoRequest hs @ bd) em t"
proof -
  let ?env = "program_env (Suc (Suc d)) base" and ?env1 = "program_env (Suc d) base"
  let ?p = "proto_hdr_bytes EMsg_ClientPICSProductInfoRequest hs @ bd"
  let ?req = "GetProductInfo_make 440 (client_supplied_steamid body) (client_sessionid (e_header base) hdr)"
  let ?ev = "ClientLogonEvent EventResult_ok (Some (client_supplied_steamid body)) (Some (client_sessionid (e_header base) hdr))"
  let ?u = "w\<lparr>user := user w @ [''Successfully logged on'' @ [NEWLINE],
    ''Attempting to get information about this app ID: 440'' @ [NEWLINE]]\<rparr>"
  let ?v = "?u\<lparr>next_jobid := next_jobid w + 1\<rparr>"
  obtain c em t where 1: "send_msg_impl ?env1 ?p ?v = (Inr (), ?v\<lparr>crypto := em, connection := t\<rparr>)"
    "sends (e_crypto base) (crypto w) (connection w) c ?p em t"
    using secured_send [of ?env1 curl resolve ?v ?p] assms(1,3,4,6,16) by (auto simp del: program_env.simps)
  have "SteamClient_execute ?env1 (ProductInfoCommand ?req) ?u = (Inr (), ?v\<lparr>crypto := em, connection := t\<rparr>)"
    using execute_routed(3) [of ?u ?env1 ?req] product_info_bytes [of ?env1 ?req ?u hs bd] assms(5,14,15) 1(1)
    by (simp add: SteamClient_execute_def GetProductInfo_make_def del: program_env.simps)
  then have 2: "example_call ?env1 on_logon ?ev w = (Inr (), ?v\<lparr>crypto := em, connection := t\<rparr>)"
    by (simp add: on_logon_fn_def EventResult_ok_def seqW_def printed udec_440 del: program_env.simps)
  have "consume_frame ?env (Suc n) c2 True w =
      consume_frame ?env (Suc n) (proto_hdr_bytes EMsg_ClientLogOnResponse hs2 @ bd2) False w"
    using assms(6,8,9) by (intro consume_decrypted) (simp_all del: program_env.simps)
  also have "\<dots> = emitW ?env ?ev w"
    using consume_logon_response [of ?env hs2 bd2 False w body hdr n] assms(2,10-13)
    by (simp add: proto_frame_ok_def del: program_env.simps consume_frame.simps)
  also have "\<dots> = (Inr (), ?v\<lparr>crypto := em, connection := t\<rparr>)"
    using program_hears [of w ?ev on_logon "Suc d" base] 2 assms(7) by (simp del: program_env.simps)
  finally show ?thesis using 1(2) by auto
qed

text \<open>
  C5. The program get_info in a session with a server that has its keys: when the handshake
  has succeeded it sends the anonymous logon, and when the server accepts that it asks for app
  440 under the SteamID and the session number that it was given. Both requests stand encrypted in
  the queue, in this order, behind what was there, and decrypt to the messages; nothing is thrown,
  and the program has printed its three lines.
\<close>

theorem get_info_session:
  assumes "e_transport base = TCP_IConnection curl resolve" and "e_dispatch base = g_dispatch"
    and "crypto_lawful (e_crypto base)" and "manager_ok (crypto w)"
    and "router w = g_request_router" and "\<not> channel_secured w"
    and "listeners w ChannelSecured_type = Some on_secured" and "listeners w ClientLogon_type = Some on_logon"
    and "Msg_Serialize MsgChannelEncryptResult_ops m = Inr bs" and "Payload m = []"
    and "MsgHdr_Msg (Header m) = EMsg_ChannelEncryptResult" and "MsgChannelEncryptResult_result (Body m) = EResult_OK"
    and "SerializeToString (e_header base) (set_steamid (e_header base) 0x01A0000000000000
      (proto_new (e_header base))) = Some hs1"
    and "SerializeToString (e_logon base) ((proto_new (e_logon base))\<lparr>client_package_version := 1561159470,
      protocol_version := 65580\<rparr>) = Some bd1"
    and "process_incoming_encrypted_message (e_crypto base) (crypto w) c2 =
      Inr (proto_hdr_bytes EMsg_ClientLogOnResponse hs2 @ bd2)" and "4 \<le> length c2"
    and "proto_frame_ok base hs2 bd2" and "ParseFromArray (e_header base) hs2 = (True, hdr)"
    and "ParseFromArray (e_logon_response base) bd2 = (True, body)" and "eresult body = EResult_OK"
    and "SerializeToString (e_header base) (set_steamid (e_header base) (client_supplied_steamid body)
      (set_client_sessionid (e_header base) (client_sessionid (e_header base) hdr)
        (set_jobid_source (e_header base) (next_jobid w) (proto_new (e_header base))))) = Some hs3"
    and "SerializeToString (e_pics_request base) \<lparr>req_apps = req_apps (proto_new (e_pics_request base)) @
      [\<lparr>ra_appid = 440, ra_access_token = 0\<rparr>]\<rparr> = Some bd3"
    and "8 + length hs1 + length bd1 < vec_limit" and "8 + length hs3 + length bd3 < vec_limit"
  shows "\<exists>w1 w2 c1 c3.
    consume_frame (program_env (Suc (Suc d)) base) (Suc n) bs True w = (Inr (), w1) \<and>
    consume_frame (program_env (Suc (Suc d)) base) (Suc n) c2 True w1 = (Inr (), w2) \<and>
    write_queue (connection w2) = write_queue (connection w) @ [send_buffer c1, send_buffer c3] \<and>
    process_incoming_encrypted_message (e_crypto base) (crypto w) c1 = Inr (proto_hdr_bytes EMsg_ClientLogon hs1 @ bd1) \<and>
    process_incoming_encrypted_message (e_crypto base) (crypto w) c3 =
      Inr (proto_hdr_bytes EMsg_ClientPICSProductInfoRequest hs3 @ bd3) \<and>
    user w2 = user w @ [''Successfully secured channel'' @ [NEWLINE], ''Successfully logged on'' @ [NEWLINE],
      ''Attempting to get information about this app ID: 440'' @ [NEWLINE]]"
proof -
  from program_secured [OF assms(1-7,9-14,23)] obtain c1 em1 t1 where
    1: "consume_frame (program_env (Suc (Suc d)) base) (Suc n) bs True w =
      (Inr (), w\<lparr>channel_secured := True, user := user w @ [''Successfully secured channel'' @ [NEWLINE]],
        crypto := em1, connection := t1\<rparr>)" (is "_ = (_, ?w1)")
    "sends (e_crypto base) (crypto w) (connection w) c1 (proto_hdr_bytes EMsg_ClientLogon hs1 @ bd1) em1 t1" by blast
  note k = 1(2) [unfolded sends_def]
  have "\<exists>c em t. consume_frame (program_env (Suc (Suc d)) base) (Suc n) c2 True ?w1 =
      (Inr (), ?w1\<lparr>user := user ?w1 @ [''Successfully logged on'' @ [NEWLINE],
          ''Attempting to get information about this app ID: 440'' @ [NEWLINE]],
        next_jobid := next_jobid ?w1 + 1, crypto := em, connection := t\<rparr>) \<and>
    sends (e_crypto base) (crypto ?w1) (connection ?w1) c
      (proto_hdr_bytes EMsg_ClientPICSProductInfoRequest hs3 @ bd3) em t"
    by (rule program_logged_on [OF assms(1-3) _ _ _ _ _ assms(16-20) _ assms(22,24)])
      (use k assms(5,8,15,21) in simp_all)
  then obtain c3 em3 t3 where 3: "consume_frame (program_env (Suc (Suc d)) base) (Suc n) c2 True ?w1 =
      (Inr (), ?w1\<lparr>user := user ?w1 @ [''Successfully logged on'' @ [NEWLINE],
          ''Attempting to get information about this app ID: 440'' @ [NEWLINE]],
        next_jobid := next_jobid ?w1 + 1, crypto := em3, connection := t3\<rparr>)"
    "sends (e_crypto base) em1 t1 c3 (proto_hdr_bytes EMsg_ClientPICSProductInfoRequest hs3 @ bd3) em3 t3" by auto
  note k3 = 3(2) [unfolded sends_def]
  show ?thesis
    by (rule exI [of _ ?w1], rule exI, rule exI [of _ c1], rule exI [of _ c3],
        rule conjI [OF 1(1)], rule conjI [OF 3(1)]) (use k k3 in simp)
qed

definition session_base :: "(SampleHeader, nat, unit TCPConnection, callback, string list) env" where
  "session_base =
     \<lparr>e_crypto = sample_crypto, e_header = sample_header, e_multi = sample_multi,
      e_logon = sample_logon, e_logon_response = sample_logon_response,
      e_pics_request = sample_request, e_pics_response = sample_response,
      e_gunzip = \<lambda>_. Inl ''no gzip'',
      e_transport = TCP_IConnection sample_curl sample_resolve,
      e_call = \<lambda>_ _. skipW,
      e_what = \<lambda>_. ''exception'',
      e_dispatch = g_dispatch\<rparr>"

definition session_start :: "(unit TCPConnection, nat, callback, string list) CMClient" where
  "session_start = get_info_client sample_crypto 1 TCPConnection_new 0"

definition session_result :: "MsgChannelEncryptResult Msg" where
  "session_result = (Msg_new MsgChannelEncryptResult_ops)\<lparr>Body := \<lparr>MsgChannelEncryptResult_result = EResult_OK\<rparr>\<rparr>"

lemma session_start_simps:
  "channel_secured session_start = False" "connection session_start = TCPConnection_new"
  "router session_start = g_request_router" "next_jobid session_start = 0" "user session_start = []"
  "listeners session_start ChannelSecured_type = Some on_secured"
  "listeners session_start ClientLogon_type = Some on_logon" "manager_ok (crypto session_start)"
  by (simp_all add: session_start_def get_info_client_def Let_def listeners_on CMClient_new_def
      manager_ok_def EncryptionManager_new_def generate_random_bytes_def sample_crypto_def)
    (simp_all add: SteamClient_on_def onW_def)

theorem get_info_session_witness:
  "\<exists>bs c2 w1 w2 c1 c3. Msg_Serialize MsgChannelEncryptResult_ops session_result = Inr bs \<and>
    consume_frame (program_env 2 session_base) 1 bs True session_start = (Inr (), w1) \<and>
    consume_frame (program_env 2 session_base) 1 c2 True w1 = (Inr (), w2) \<and>
    write_queue (connection w2) = [send_buffer c1, send_buffer c3] \<and>
    process_incoming_encrypted_message sample_crypto (crypto session_start) c1 = Inr (proto_hdr_bytes EMsg_ClientLogon
      (le_bytes (0x01A0000000000000 :: u64) @ le_bytes (0 :: u32) @ le_bytes (- 1 :: u64) @ le_bytes (- 1 :: u64)) @
      (le_bytes (1561159470 :: u32) @ le_bytes (65580 :: u32))) \<and>
    process_incoming_encrypted_message sample_crypto (crypto session_start) c3 =
      Inr (proto_hdr_bytes EMsg_ClientPICSProductInfoRequest
        (le_bytes (5 :: u64) @ le_bytes (2 :: u32) @ le_bytes (0 :: u64) @ le_bytes (- 1 :: u64)) @
        (le_bytes (440 :: u32) @ le_bytes (0 :: u64))) \<and>
    length (user w2) = 3"
proof -
  let ?hs = "le_bytes (1 :: u64) @ le_bytes (2 :: u32) @ le_bytes (3 :: u64) @ le_bytes (4 :: u64)"
  let ?f = "proto_hdr_bytes EMsg_ClientLogOnResponse ?hs @ (le_bytes EResult_OK @ le_bytes (5 :: u64))"
  have "writes (body_Serialize MsgChannelEncryptResult_ops (Body session_result)) (le_bytes EResult_OK)"
    by (simp add: MsgChannelEncryptResult_ops_def MsgChannelEncryptResult_Serialize_def session_result_def writes_word)
  from Msg_Serialize_bytes [OF this] obtain bs where
    bs: "Msg_Serialize MsgChannelEncryptResult_ops session_result = Inr bs" by blast
  have "length ?f < vec_limit" by (simp add: vec_limit_def)
  then obtain c2 where
    d: "symmetric_decrypt_hmac_iv sample_crypto c2 (session_key (crypto session_start)) (hmac_secret (crypto session_start)) = Inr ?f"
    and l: "length c2 = 16 + (length ?f div 16 + 1) * 16"
    by (rule symmetric_decrypt_encrypt [OF sample_crypto_lawful manager_ok_key [OF session_start_simps(8)],
      of _ "hmac_secret (crypto session_start)" 0])
  have c2: "process_incoming_encrypted_message sample_crypto (crypto session_start) c2 = Inr ?f" "4 \<le> length c2"
    using d l by (simp_all add: process_incoming_encrypted_message_def)
  have "\<exists>w1 w2 c1 c3.
    consume_frame (program_env (Suc (Suc 0)) session_base) (Suc 0) bs True session_start = (Inr (), w1) \<and>
    consume_frame (program_env (Suc (Suc 0)) session_base) (Suc 0) c2 True w1 = (Inr (), w2) \<and>
    write_queue (connection w2) = write_queue (connection session_start) @ [send_buffer c1, send_buffer c3] \<and>
    process_incoming_encrypted_message (e_crypto session_base) (crypto session_start) c1 = Inr (proto_hdr_bytes EMsg_ClientLogon
      (le_bytes (0x01A0000000000000 :: u64) @ le_bytes (0 :: u32) @ le_bytes (- 1 :: u64) @ le_bytes (- 1 :: u64)) @
      (le_bytes (1561159470 :: u32) @ le_bytes (65580 :: u32))) \<and>
    process_incoming_encrypted_message (e_crypto session_base) (crypto session_start) c3 =
      Inr (proto_hdr_bytes EMsg_ClientPICSProductInfoRequest
        (le_bytes (5 :: u64) @ le_bytes (2 :: u32) @ le_bytes (0 :: u64) @ le_bytes (- 1 :: u64)) @
        (le_bytes (440 :: u32) @ le_bytes (0 :: u64))) \<and>
    user w2 = user session_start @ [''Successfully secured channel'' @ [NEWLINE], ''Successfully logged on'' @ [NEWLINE],
      ''Attempting to get information about this app ID: 440'' @ [NEWLINE]]"
    by (rule get_info_session [where m = session_result and ?c2.0 = c2 and ?hs2.0 = ?hs and
          ?bd2.0 = "le_bytes EResult_OK @ le_bytes (5 :: u64)" and curl = sample_curl and resolve = sample_resolve and
          hdr = "\<lparr>sh_steamid = 1, sh_session = 2, sh_source = 3, sh_target = 4\<rparr>" and
          body = "\<lparr>eresult = EResult_OK, client_supplied_steamid = 5\<rparr>"])
      (use bs c2 in \<open>simp_all add: session_base_def session_start_simps sample_crypto_lawful session_result_def Msg_new_def
        MsgHdr_SetEMsg_def MsgChannelEncryptResult_ops_def MsgChannelEncryptResult_GetEMsg_def proto_frame_ok_def
        sample_header_def sample_logon_response_def sample_logon_def sample_request_def vec_limit_def\<close>)
  with bs show ?thesis
    by (simp only: numeral_2_eq_2 One_nat_def) (simp add: session_start_simps session_base_def TCPConnection_new_def
        del: program_env.simps consume_frame.simps, metis length_Cons list.size(3) numeral_3_eq_3)
qed

end
