(* ===== verification/Client_Session.thy ===== *)
theory Client_Session
  imports Example_Programs
begin

text \<open>
  The whole client on its TCP connection, as one transition system: the application connects,
  disconnects, registers callbacks and gives commands, the network delivers bytes and completes or
  fails operations, and a received body goes through \<open>consume_frame\<close> with everything that the
  handlers and the callbacks do. What this does to the connection is a run of the transition system
  of Tcp_Connection, and on a secured channel it sends nothing but ciphertexts.
\<close>

section \<open>What an operation does to the connection\<close>

type_synonym ('r, 'k, 'u) tcp_client = "(unit TCPConnection, 'r, 'k, 'u) CMClient"

type_synonym ('h, 'r, 'k, 'u) tcp_env = "('h, 'r, unit TCPConnection, 'k, 'u) env"

definition on_tcp :: "('h, 'r, 'k, 'u) tcp_env \<Rightarrow> bool" where
  "on_tcp env \<longleftrightarrow>
     e_dispatch env = g_dispatch \<and> (\<exists>curl resolve. e_transport env = TCP_IConnection curl resolve)"

text \<open>The client has come from the state \<open>s\<close> of its connection by steps that send data with \<open>Q\<close> only.\<close>

definition sends_only ::
    "(byte list \<Rightarrow> bool) \<Rightarrow> unit TCPConnection \<times> byte list list \<Rightarrow> ('r, 'k, 'u) tcp_client \<Rightarrow> bool" where
  "sends_only Q s w \<longleftrightarrow> (\<exists>ds. client_step\<^sup>*\<^sup>* s (connection w, snd s @ ds) \<and> (\<forall>d\<in>set ds. Q d))"

lemma sends_only_start: "sends_only Q (connection w, sent) w"
  unfolding sends_only_def by (intro exI [of _ "[]"]) simp

lemma sends_only_simps [simp]:
  "sends_only Q s (w\<lparr>crypto := em\<rparr>) = sends_only Q s w" "sends_only Q s (w\<lparr>channel_secured := b\<rparr>) = sends_only Q s w"
  "sends_only Q s (w\<lparr>next_jobid := j\<rparr>) = sends_only Q s w" "sends_only Q s (w\<lparr>router := rt\<rparr>) = sends_only Q s w"
  "sends_only Q s (w\<lparr>user := u\<rparr>) = sends_only Q s w" "sends_only Q s (w\<lparr>listeners := l\<rparr>) = sends_only Q s w"
  by (simp_all add: sends_only_def)

lemma sends_only_more:
  assumes "sends_only Q s w" and "\<And>sent. client_step (connection w, sent) (c, sent @ ds)" and "\<forall>d\<in>set ds. Q d"
  shows "sends_only Q s (w\<lparr>connection := c\<rparr>)"
proof -
  from assms(1) obtain es where e: "client_step\<^sup>*\<^sup>* s (connection w, snd s @ es)" "\<forall>d\<in>set es. Q d"
    by (auto simp: sends_only_def)
  from e(1) assms(2) [of "snd s @ es"] have "client_step\<^sup>*\<^sup>* s (c, snd s @ es @ ds)"
    by (simp add: rtranclp.rtrancl_into_rtrancl)
  with e(2) assms(3) show ?thesis unfolding sends_only_def by (intro exI [of _ "es @ ds"]) auto
qed

lemma sends_only_send:
  assumes "on_tcp env" and "sends_only Q s w" and "Q d"
  shows "sends_only Q s (snd (conn_send env d w))"
proof -
  from assms(1) have "i_async_send (e_transport env) = async_send" by (auto simp: on_tcp_def TCP_IConnection_def)
  with async_send_total [of d "connection w"] obtain c where
    c: "async_send d (connection w) = Inr c" "snd (conn_send env d w) = w\<lparr>connection := c\<rparr>"
    by (auto simp: conn_send_def)
  have "sends_only Q s (w\<lparr>connection := c\<rparr>)"
    using assms(2,3) client_send [OF c(1)] by (intro sends_only_more [where ds = "[d]"]) simp_all
  with c(2) show ?thesis by simp
qed

lemma sends_only_session:
  assumes "on_tcp env" and "sends_only Q s w"
  shows "sends_only Q s (snd (start_session env w))" and "sends_only Q s (shutdown env w)"
proof -
  from assms(1) obtain curl resolve where t: "e_transport env = TCP_IConnection curl resolve"
    by (auto simp: on_tcp_def)
  let ?c = "set_on_frame (Some ()) (connection w)"
  have "sends_only Q s (w\<lparr>connection := ?c\<rparr>)"
    using assms(2) client_on_frame by (intro sends_only_more [where ds = "[]"]) simp_all
  moreover obtain r c where r: "connect_with (fetch_cm_servers curl) resolve ?c = (r, c)" by fastforce
  then have "client_step (?c, sent) (c, sent @ [])" for sent using client_connect by simp
  ultimately have "sends_only Q s (w\<lparr>connection := ?c\<rparr>\<lparr>connection := c\<rparr>)"
    using sends_only_more [of Q s "w\<lparr>connection := ?c\<rparr>" c "[]"] by simp
  with t r show "sends_only Q s (snd (start_session env w))"
    by (simp add: start_session_def TCP_IConnection_def network_connect_def)
  have "sends_only Q s (w\<lparr>connection := network_close (connection w)\<rparr>)"
    using assms(2) client_close by (intro sends_only_more [where ds = "[]"]) simp_all
  with t assms(2) show "sends_only Q s (shutdown env w)"
    by (simp add: shutdown_def TCP_IConnection_def)
qed

text \<open>A ciphertext of the channel, and a client that has been secured and sent nothing else since \<open>s\<close>.\<close>

definition sealed :: "'r crypto_api \<Rightarrow> byte list \<Rightarrow> byte list \<Rightarrow> byte list \<Rightarrow> bool" where
  "sealed api key secret d \<longleftrightarrow> (\<exists>p g. fst (symmetric_encrypt_hmac_iv api p key secret g) = Inr d)"

definition secure_since ::
    "('h, 'r, 'k, 'u) tcp_env \<Rightarrow> byte list \<Rightarrow> byte list \<Rightarrow> unit TCPConnection \<times> byte list list \<Rightarrow>
       ('r, 'k, 'u) tcp_client \<Rightarrow> bool" where
  "secure_since env key secret s w \<longleftrightarrow>
     channel_secured w \<and> has_keys key secret w \<and> sends_only (sealed (e_crypto env) key secret) s w"

lemma keeps_sends_any: "on_tcp env \<Longrightarrow> keeps (sends_only (\<lambda>_. True) s) (send_msg_impl env d)"
  unfolding keeps_def send_msg_impl_def
  by (auto intro!: sends_only_send split: prod.split sum.split)

lemma keeps_sends_sealed:
  assumes "on_tcp env"
  shows "keeps (secure_since env key secret s) (send_msg_impl env d)"
  unfolding keeps_def
proof (intro allI impI)
  fix w
  assume w: "secure_since env key secret s w"
  obtain r em where p: "process_outgoing_encrypted_message (e_crypto env) d (crypto w) = (r, em)" by fastforce
  from p w have k: "session_key em = key" "hmac_secret em = secret"
    by (auto simp: secure_since_def has_keys_def process_outgoing_encrypted_message_def split: prod.splits)
  have c: "secure_since env key secret s (w\<lparr>crypto := em\<rparr>)"
    using w k by (simp add: secure_since_def has_keys_def)
  show "secure_since env key secret s (snd (send_msg_impl env d w))"
  proof (cases r)
    case (Inl e)
    with w p c show ?thesis by (simp add: send_msg_impl_def secure_since_def)
  next
    case (Inr b)
    with w p have "sealed (e_crypto env) key secret b"
      by (auto simp: secure_since_def has_keys_def sealed_def process_outgoing_encrypted_message_def split: prod.splits)
        (metis fst_conv)
    with c have "sends_only (sealed (e_crypto env) key secret) s (snd (conn_send env b (w\<lparr>crypto := em\<rparr>)))"
      by (intro sends_only_send assms) (simp_all add: secure_since_def)
    moreover have "channel_secured (snd (conn_send env b v)) = channel_secured v"
      "crypto (snd (conn_send env b v)) = crypto v" for v
      by (simp_all add: conn_send_def split: sum.split)
    ultimately show ?thesis using w p c Inr by (simp add: send_msg_impl_def secure_since_def has_keys_def)
  qed
qed

text \<open>The callbacks reach the connection through the client only.\<close>

definition callbacks_send :: "('h, 'r, 'k, 'u) tcp_env \<Rightarrow> bool" where
  "callbacks_send env \<longleftrightarrow>
     (\<forall>s. callbacks_keep env (sends_only (\<lambda>_. True) s)) \<and>
     (\<forall>key secret s. callbacks_keep env (secure_since env key secret s))"

lemma neutral_sends: "on_tcp env \<Longrightarrow> callbacks_send env \<Longrightarrow> neutral env (sends_only (\<lambda>_. True) s)"
  using keeps_sends_any [of env s]
  by (simp add: neutral_def callbacks_send_def callbacks_keep_def del: split_paired_All)

lemma neutral_sealed: "on_tcp env \<Longrightarrow> callbacks_send env \<Longrightarrow> neutral env (secure_since env key secret s)"
  using keeps_sends_sealed [of env key secret s]
  by (simp add: neutral_def callbacks_send_def callbacks_keep_def del: split_paired_All)
    (simp add: secure_since_def has_keys_def)

section \<open>Runs of the client\<close>

text \<open>The completions that do not call the client, and bytes that arrive.\<close>

inductive net_step :: "unit TCPConnection \<Rightarrow> unit TCPConnection \<Rightarrow> bool" where
  net_arrive: "is_open (sock c) \<Longrightarrow> net_step c (c\<lparr>sock := (sock c)\<lparr>inbox := inbox (sock c) @ bs\<rparr>\<rparr>)"
| net_connected: "AsyncConnect eps \<in> set (outstanding (sock c)) \<Longrightarrow>
    net_step c (connect_done True (take_outstanding (AsyncConnect eps) c))"
| net_header: "AsyncReadHeader \<in> set (outstanding (sock c)) \<Longrightarrow> 8 \<le> length (inbox (sock c)) \<Longrightarrow>
    take_inbox 8 (take_outstanding AsyncReadHeader c) = (bs, c') \<Longrightarrow> header_done bs c' = Inr c'' \<Longrightarrow>
    net_step c c''"
| net_written: "AsyncWrite bs \<in> set (outstanding (sock c)) \<Longrightarrow>
    write_done (put_wire bs (take_outstanding (AsyncWrite bs) c)) = Inr c' \<Longrightarrow> net_step c c'"
| net_failed: "p \<in> set (outstanding (sock c)) \<Longrightarrow> net_step c (op_failed p (take_outstanding p c))"
| net_aborted: "p \<in> set (cancelled (sock c)) \<Longrightarrow> net_step c (op_failed p (take_cancelled p c))"

text \<open>
  \<open>F\<close> restricts the frames that the server sends, \<open>n\<close> bounds the depth of nested messages. A step
  may end with an exception, which leaves what was done before.
\<close>

inductive session_step ::
    "('h, 'r, 'k, 'u) tcp_env \<Rightarrow> nat \<Rightarrow> (('r, 'k, 'u) tcp_client \<Rightarrow> byte list \<Rightarrow> bool) \<Rightarrow>
       ('r, 'k, 'u) tcp_client \<Rightarrow> ('r, 'k, 'u) tcp_client \<Rightarrow> bool" for env n F where
  session_connect: "session_step env n F w (snd (SteamClient_connect env w))"
| session_disconnect: "session_step env n F w (SteamClient_disconnect env w)"
| session_command: "session_step env n F w (snd (SteamClient_execute env req w))"
| session_on: "session_step env n F w (SteamClient_on type k w)"
| session_net: "net_step (connection w) c \<Longrightarrow> session_step env n F w (w\<lparr>connection := c\<rparr>)"
| session_frame: "AsyncReadBody m \<in> set (outstanding (sock (connection w))) \<Longrightarrow>
    m \<le> length (inbox (sock (connection w))) \<Longrightarrow>
    take_inbox m (take_outstanding (AsyncReadBody m) (connection w)) = (bs, c) \<Longrightarrow> F w bs \<Longrightarrow>
    tcp_body_handler env n bs (w\<lparr>connection := c\<rparr>) = (r, w') \<Longrightarrow> session_step env n F w w'"

lemma net_step_tcp: "net_step c c' \<Longrightarrow> tcp_step (c, sent) (c', sent)"
  by (induction rule: net_step.induct)
    (auto intro: tcp_arrive tcp_connected tcp_header tcp_written tcp_failed tcp_aborted)

lemma clients_tcp: "client_step\<^sup>*\<^sup>* s t \<Longrightarrow> tcp_step\<^sup>*\<^sup>* s t"
  by (induction rule: rtranclp_induct) (auto intro: rtranclp.rtrancl_into_rtrancl tcp_client)

text \<open>A body is read, handed to the client and the next read started, or the client threw.\<close>

lemma frame_tcp:
  assumes f: "AsyncReadBody m \<in> set (outstanding (sock (connection w)))" "m \<le> length (inbox (sock (connection w)))"
    "take_inbox m (take_outstanding (AsyncReadBody m) (connection w)) = (bs, c)"
    "tcp_body_handler env n bs (w\<lparr>connection := c\<rparr>) = (r, w')"
    and P: "\<And>v. connection v = c\<lparr>body_buffer := bs\<rparr> \<Longrightarrow> v = w\<lparr>connection := connection v\<rparr> \<Longrightarrow>
      on_frame c = Some () \<Longrightarrow>
      sends_only Q (connection v, sent) (snd (consume_frame env n bs True v))"
  shows "\<exists>ds. tcp_step\<^sup>*\<^sup>* (connection w, sent) (connection w', sent @ ds) \<and> (\<forall>d\<in>set ds. Q d)"
proof -
  let ?c = "c\<lparr>body_buffer := bs\<rparr>"
  let ?v = "w\<lparr>connection := ?c\<rparr>"
  have b: "body_done bs c = (map_option (\<lambda>f. (f, bs)) (on_frame c), ?c)" by (simp add: body_done_def)
  show ?thesis
  proof (cases "on_frame c")
    case None
    with f(4) have w': "connection w' = start_read_header ?c"
      by (auto simp: tcp_body_handler_def b)
    from tcp_body [OF f(1,2,3) b, of sent ?c sent] None have "tcp_step (connection w, sent) (connection w', sent)"
      unfolding w' by simp
    then show ?thesis by (intro exI [of _ "[]"]) auto
  next
    case (Some u)
    obtain r2 w2 where c: "consume_frame env n bs True ?v = (r2, w2)" by fastforce
    from P [of ?v] Some c obtain ds where
      d: "client_step\<^sup>*\<^sup>* (?c, sent) (connection w2, sent @ ds)" "\<forall>d\<in>set ds. Q d"
      by (auto simp: sends_only_def)
    have "tcp_step (connection w, sent) (connection w', sent @ ds)"
    proof (cases r2)
      case (Inl e)
      with f(4) c Some have "w' = w2" by (simp add: tcp_body_handler_def b)
      with tcp_body_throw [OF f(1,2,3), of "(u, bs)" ?c] b Some d(1) show ?thesis by simp
    next
      case (Inr x)
      with f(4) c Some have "connection w' = start_read_header (connection w2)"
        by (auto simp: tcp_body_handler_def b)
      with tcp_body [OF f(1,2,3) b d(1)] Some show ?thesis by simp
    qed
    with d(2) show ?thesis by blast
  qed
qed

text \<open>Every step of the client is a run of the connection.\<close>

lemma session_step_tcp:
  assumes "on_tcp env" and "callbacks_send env" and "session_step env n F w w'"
  shows "\<exists>ds. tcp_step\<^sup>*\<^sup>* (connection w, sent) (connection w', sent @ ds)"
proof -
  note start = sends_only_start [of "\<lambda>_. True" w sent]
  have run: "\<exists>ds. tcp_step\<^sup>*\<^sup>* (connection w, sent) (connection v, sent @ ds)"
    if "sends_only (\<lambda>_. True) (connection w, sent) v" for v
    using that clients_tcp unfolding sends_only_def by fastforce
  from assms(3) show ?thesis
  proof (cases rule: session_step.cases)
    case session_connect
    with run [OF sends_only_session(1) [OF assms(1) start]] show ?thesis by (simp add: SteamClient_connect_def)
  next
    case session_disconnect
    with run [OF sends_only_session(2) [OF assms(1) start]] show ?thesis by (simp add: SteamClient_disconnect_def)
  next
    case (session_command req)
    have "sends_only (\<lambda>_. True) (connection w, sent) (snd (execute env req w))"
      using keeps_commands [OF neutral_sends [OF assms(1,2)], of "(connection w, sent)" req] start
      by (simp add: keeps_def)
    from run [OF this] session_command show ?thesis by (simp add: SteamClient_execute_def)
  next
    case (session_on type k)
    with run [OF start] show ?thesis by (simp add: SteamClient_on_def onW_def)
  next
    case (session_net c)
    from net_step_tcp [OF session_net(2), of sent] session_net(1) show ?thesis
      by (intro exI [of _ "[]"]) auto
  next
    case (session_frame m bs c r)
    have "keeps (sends_only (\<lambda>_. True) s) (consume_frame env n bs True)" for s
      using assms(1) by (intro keeps_consume neutral_sends assms) (simp_all add: on_tcp_def set_channel_secured_def)
    then have "sends_only (\<lambda>_. True) (connection v, sent) (snd (consume_frame env n bs True v))" for v
      using sends_only_start [of "\<lambda>_. True" v sent] by (auto simp: keeps_def)
    from frame_tcp [OF session_frame(1-3,5) this] show ?thesis by blast
  qed
qed

lemma session_run_tcp:
  assumes "on_tcp env" and "callbacks_send env" and "(session_step env n F)\<^sup>*\<^sup>* w w'"
  shows "\<exists>ds. tcp_step\<^sup>*\<^sup>* (connection w, sent) (connection w', sent @ ds)"
  using assms(3)
proof (induction rule: rtranclp_induct)
  case base
  show ?case by (intro exI [of _ "[]"]) simp
next
  case (step v u)
  then obtain ds where d: "tcp_step\<^sup>*\<^sup>* (connection w, sent) (connection v, sent @ ds)" by blast
  from session_step_tcp [OF assms(1,2) step(2), of "sent @ ds"] obtain es where
    "tcp_step\<^sup>*\<^sup>* (connection v, sent @ ds) (connection u, (sent @ ds) @ es)" by blast
  with d show ?case by (intro exI [of _ "ds @ es"]) (simp add: rtranclp_trans)
qed

text \<open>
  A disconnect that comes while the connection is being established does nothing: the connect
  completes, and the client is connected.
\<close>

lemma disconnect_while_connecting:
  assumes "on_tcp env" and "conn_state (connection w) = CONNECTING"
    and "AsyncConnect eps \<in> set (outstanding (sock (connection w)))"
  shows "\<exists>w'. SteamClient_disconnect env w = w \<and> session_step env n F w w' \<and> SteamClient_is_connected env w'"
proof (intro exI conjI)
  let ?c = "connect_done True (take_outstanding (AsyncConnect eps) (connection w))"
  from assms(1) obtain curl resolve where t: "e_transport env = TCP_IConnection curl resolve"
    by (auto simp: on_tcp_def)
  show "SteamClient_disconnect env w = w"
    using assms(2) t by (simp add: SteamClient_disconnect_def shutdown_def client_is_connected_def
        i_is_connected_def TCP_IConnection_def)
  show "session_step env n F w (w\<lparr>connection := ?c\<rparr>)"
    using assms(3) by (intro session_net net_connected)
  show "SteamClient_is_connected env (w\<lparr>connection := ?c\<rparr>)"
    using t by (simp add: SteamClient_is_connected_def client_is_connected_def i_is_connected_def
        TCP_IConnection_def connect_done_def start_read_header_def)
qed

section \<open>On a secured channel\<close>

text \<open>Frames without a result of the handshake, as they are after the decryption.\<close>

definition no_result :: "('h, 'r, 'k, 'u) tcp_env \<Rightarrow> nat \<Rightarrow> ('r, 'k, 'u) tcp_client \<Rightarrow> byte list \<Rightarrow> bool" where
  "no_result env n w bs \<longleftrightarrow> (\<forall>data. incoming env bs True w = Inr data \<longrightarrow> quiet env n data)"

lemma body_keeps:
  assumes "blind P" and "P w" and "\<And>v. v = w\<lparr>connection := connection v\<rparr> \<Longrightarrow> P (snd (consume_frame env n bs True v))"
    and "tcp_body_handler env n bs (w\<lparr>connection := c\<rparr>) = (r, w')"
  shows "P w'"
proof -
  let ?v = "w\<lparr>connection := c\<lparr>body_buffer := bs\<rparr>\<rparr>"
  obtain r2 w2 where c: "consume_frame env n bs True ?v = (r2, w2)" by fastforce
  have p: "P ?v" "P w2" using assms(1,2) assms(3) [of ?v] c by (simp_all add: blind_def)
  have b: "body_done bs c = (map_option (\<lambda>f. (f, bs)) (on_frame c), c\<lparr>body_buffer := bs\<rparr>)"
    by (simp add: body_done_def)
  show ?thesis
    using assms(1,4) p c by (cases "on_frame c"; cases r2) (auto simp: tcp_body_handler_def b blind_def)
qed

lemma secure_step:
  assumes "on_tcp env" and "callbacks_send env" and "session_step env n (no_result env n) w w'"
    and w: "channel_secured w" "has_keys key secret w"
  shows "channel_secured w' \<and> has_keys key secret w' \<and>
    (\<exists>ds. tcp_step\<^sup>*\<^sup>* (connection w, sent) (connection w', sent @ ds) \<and>
      (\<forall>d\<in>set ds. sealed (e_crypto env) key secret d))"
proof -
  let ?P = "secure_since env key secret"
  have start: "?P (connection v, sent) v" if "channel_secured v" "has_keys key secret v" for v
    using that sends_only_start by (simp add: secure_since_def)
  have run: ?thesis if "?P (connection w, sent) w'"
  proof -
    from that obtain ds where "client_step\<^sup>*\<^sup>* (connection w, sent) (connection w', sent @ ds)"
        "\<forall>d\<in>set ds. sealed (e_crypto env) key secret d" "channel_secured w'" "has_keys key secret w'"
      by (auto simp: secure_since_def sends_only_def)
    with clients_tcp show ?thesis by blast
  qed
  from assms(3) show ?thesis
  proof (cases rule: session_step.cases)
    case session_connect
    with sends_only_session(1) [OF assms(1) sends_only_start, of _ w sent] w session_keeps_secured(1) [of env w]
      keeps_session(1) [OF blind_keys(1), where env = env]
    show ?thesis by (intro run) (simp add: secure_since_def SteamClient_connect_def keeps_def)
  next
    case session_disconnect
    with sends_only_session(2) [OF assms(1) sends_only_start, of _ w sent] w session_keeps_secured(2) [of env w]
      keeps_session(2) [OF blind_keys(1), where env = env]
    show ?thesis by (intro run) (simp add: secure_since_def SteamClient_disconnect_def)
  next
    case (session_command req)
    with keeps_commands [OF neutral_sealed [OF assms(1,2)], of key secret "(connection w, sent)" req] start [OF w]
    show ?thesis by (intro run) (simp add: keeps_def SteamClient_execute_def)
  next
    case (session_on type k)
    with start [OF w] show ?thesis
      by (intro run) (simp add: SteamClient_on_def onW_def secure_since_def has_keys_def)
  next
    case (session_net c)
    from net_step_tcp [OF session_net(2), of sent] session_net(1) w show ?thesis
      by (auto simp: has_keys_def intro!: exI [of _ "[]"])
  next
    case (session_frame m bs c r)
    have consumed: "?P (connection v, sent) (snd (consume_frame env n bs True v))"
      if "v = w\<lparr>connection := connection v\<rparr>" for v
    proof (rule keeps_consume_quiet [OF neutral_sealed [OF assms(1,2)]])
      show "e_dispatch env = g_dispatch" using assms(1) by (simp add: on_tcp_def)
      have v: "channel_secured v = channel_secured w" "crypto v = crypto w"
        using that by (metis CMClient.select_convs(1) CMClient.surjective CMClient.update_convs(2), metis CMClient.select_convs(3) CMClient.surjective CMClient.update_convs(2))
      with w show "?P (connection v, sent) v" by (intro start) (simp_all add: has_keys_def)
      have "incoming env bs True v = incoming env bs True w" unfolding incoming_def v ..
      with session_frame(4) show "quiet env n data" if "incoming env bs True v = Inr data" for data
        using that by (simp add: no_result_def)
    qed
    have "channel_secured w' \<and> has_keys key secret w'"
    proof (rule body_keeps [OF _ _ _ session_frame(5)])
      show "blind (\<lambda>w. channel_secured w \<and> has_keys key secret w)" by (simp add: blind_def has_keys_def)
      show "channel_secured (snd (consume_frame env n bs True v)) \<and> has_keys key secret (snd (consume_frame env n bs True v))"
        if "v = w\<lparr>connection := connection v\<rparr>" for v
        using consumed [OF that] unfolding secure_since_def by blast
    qed (use w in blast)
    moreover have "\<exists>ds. tcp_step\<^sup>*\<^sup>* (connection w, sent) (connection w', sent @ ds) \<and>
        (\<forall>d\<in>set ds. sealed (e_crypto env) key secret d)"
      using consumed unfolding secure_since_def by (intro frame_tcp [OF session_frame(1-3,5)]) blast
    ultimately show ?thesis by simp
  qed
qed

lemma secure_run:
  assumes "on_tcp env" and "callbacks_send env" and "(session_step env n (no_result env n))\<^sup>*\<^sup>* w w'"
    and "channel_secured w" and "has_keys key secret w"
  shows "channel_secured w' \<and> has_keys key secret w' \<and>
    (\<exists>ds. tcp_step\<^sup>*\<^sup>* (connection w, sent) (connection w', sent @ ds) \<and>
      (\<forall>d\<in>set ds. sealed (e_crypto env) key secret d))"
  using assms(3)
proof (induction rule: rtranclp_induct)
  case base
  with assms(4,5) show ?case by (auto intro!: exI [of _ "[]"])
next
  case (step v u)
  from step.IH obtain ds where d: "tcp_step\<^sup>*\<^sup>* (connection w, sent) (connection v, sent @ ds)"
      "\<forall>d\<in>set ds. sealed (e_crypto env) key secret d" and v: "channel_secured v" "has_keys key secret v" by blast
  from secure_step [OF assms(1,2) step.hyps(2) v, of "sent @ ds"] obtain es where
    e: "tcp_step\<^sup>*\<^sup>* (connection v, sent @ ds) (connection u, (sent @ ds) @ es)"
      "\<forall>d\<in>set es. sealed (e_crypto env) key secret d" and u: "channel_secured u" "has_keys key secret u" by blast
  have "tcp_step\<^sup>*\<^sup>* (connection w, sent) (connection u, sent @ ds @ es)"
    using d(1) e(1) by (simp add: rtranclp_trans)
  with d(2) e(2) u show ?case by (intro conjI exI [of _ "ds @ es"]) auto
qed

section \<open>The example programs\<close>

text \<open>Their callbacks print and give commands, so they keep whatever these keep.\<close>

lemma keeps_line: "(\<And>w u. P w \<Longrightarrow> P (w\<lparr>user := u\<rparr>)) \<Longrightarrow> keeps P (line s)"
  by (simp add: keeps_def line_def printW_def)

lemma program_neutral:
  assumes "\<And>d. keeps P (send_msg_impl base d)" and u: "\<And>w u. P w \<Longrightarrow> P (w\<lparr>user := u\<rparr>)"
    and "\<And>w g. P w \<Longrightarrow> P (w\<lparr>crypto := (crypto w)\<lparr>rng_state := g\<rparr>\<rparr>)"
    and "\<And>w j. P w \<Longrightarrow> P (w\<lparr>next_jobid := j\<rparr>)" and "\<And>w rt. P w \<Longrightarrow> P (w\<lparr>router := rt\<rparr>)"
  shows "neutral (program_env n base) P"
proof (induction n)
  case 0
  then show ?case using assms by (simp add: neutral_def send_msg_program(2) [of 0, simplified] keeps_skip)
next
  case (Suc n)
  have l: "keeps P (line s)" for s by (rule keeps_line) (rule u)
  note prints = l keeps_seq keeps_skip keeps_for
  have p: "keeps P (print_app a)" "keeps P (print_package b)" for a b
    unfolding print_app_def print_package_def by (auto intro!: prints split: option.split)
  have x: "keeps P (SteamClient_execute (program_env n base) req)" for req
    unfolding SteamClient_execute_def by (rule keeps_commands [OF Suc])
  have "keeps P (example_call (program_env n base) k ev)" for k ev
    by (cases "(program_env n base, k, ev)" rule: example_call.cases)
      (auto simp: on_not_implemented_fn_def on_product_info_fn_def on_logon_fn_def on_logon_only_fn_def
        on_secured_fn_def intro!: prints p x split: option.split)
  then show ?case
    using assms send_msg_program(2) [of "Suc n" base] by (simp add: neutral_def)
qed

lemma program_callbacks:
  assumes "on_tcp base"
  shows "on_tcp (program_env n base)" and "callbacks_send (program_env n base)"
proof -
  show "on_tcp (program_env n base)" using assms by (simp add: on_tcp_def)
  have "neutral (program_env n base) (sends_only (\<lambda>_. True) s)" for s
    using keeps_sends_any [OF assms] by (intro program_neutral) simp_all
  moreover have "neutral (program_env n base) (secure_since base key secret s)" for key secret s
    using keeps_sends_sealed [OF assms] by (intro program_neutral) (simp_all add: secure_since_def has_keys_def)
  moreover have "secure_since (program_env n base) = secure_since base"
    by (intro ext) (simp add: secure_since_def)
  ultimately show "callbacks_send (program_env n base)"
    by (simp add: callbacks_send_def callbacks_keep_def neutral_def del: split_paired_All)
qed

end
