(* ===== verification/Run_Properties.thy ===== *)
theory Run_Properties
  imports Client_Session Session_Properties
begin

text \<open>
  Properties of whole runs: the application, the client with its handlers and callbacks, the
  connection and the network together.
\<close>

lemma pending_le_1: "tcp_inv (c, sent) \<Longrightarrow> length (pending_writes c) \<le> 1"
  by (auto simp: tcp_inv_def)

lemma tcp_run_inv: "tcp_step\<^sup>*\<^sup>* s t \<Longrightarrow> tcp_start s \<Longrightarrow> tcp_inv t"
  by (rule tcp_system.inv_reachable)

text \<open>
  C2. Whatever the application and the network do, in any order, and whatever
  the handlers and the callbacks do in between: the connection of the client is in a state that the
  connection reaches on its own by the steps of its interface, its handlers and its socket, for some
  list of sent data. So what holds of all reachable connections holds of the whole client; in
  particular the wire and the queue together hold the frames of what was sent, and at most one
  write is outstanding.
\<close>

theorem client_runs_connection:
  assumes "on_tcp env" and "callbacks_send env" and "(session_step env n F)\<^sup>*\<^sup>* w w'"
    and "connection w = TCPConnection_new"
  shows "\<exists>sent. tcp_step\<^sup>*\<^sup>* (TCPConnection_new, []) (connection w', sent) \<and>
    wire (sock (connection w')) @ concat (write_queue (connection w')) = concat (map send_buffer sent) \<and>
    length (pending_writes (connection w')) \<le> 1"
proof -
  from session_run_tcp [OF assms(1-3), of "[]"] assms(4) obtain sent where
    s: "tcp_step\<^sup>*\<^sup>* (TCPConnection_new, []) (connection w', sent)" by auto
  then have i: "tcp_inv (connection w', sent)" by (rule tcp_run_inv) (simp add: tcp_start_def)
  from s i pending_le_1 [OF i] show ?thesis by (auto simp: tcp_inv_def)
qed

text \<open>A run of the program get_info: it connects and gives a command.\<close>

lemma session_base_tcp: "on_tcp session_base"
  by (auto simp: on_tcp_def session_base_def)

lemma session_fresh: "connection session_start = TCPConnection_new"
  by (rule session_start_simps)

definition session_connected :: "(unit TCPConnection, nat, callback, string list) CMClient" where
  "session_connected = snd (SteamClient_connect (program_env 2 session_base) session_start)"

definition session_asked :: "(unit TCPConnection, nat, callback, string list) CMClient" where
  "session_asked = snd (SteamClient_execute (program_env 2 session_base)
     (ProductInfoCommand (GetProductInfo_make 440 5 2)) session_connected)"

lemma session_sample_run: "(session_step (program_env 2 session_base) 9 (\<lambda>_ _. True))\<^sup>*\<^sup>* session_start session_asked"
proof (rule converse_rtranclp_into_rtranclp [OF _ r_into_rtranclp])
  show "session_step (program_env 2 session_base) 9 (\<lambda>_ _. True) session_start session_connected"
    unfolding session_connected_def by (rule session_connect)
  show "session_step (program_env 2 session_base) 9 (\<lambda>_ _. True) session_connected session_asked"
    unfolding session_asked_def by (rule session_command)
qed

theorem client_runs_connection_witness:
  "\<exists>sent. tcp_step\<^sup>*\<^sup>* (TCPConnection_new, []) (connection session_asked, sent) \<and>
    wire (sock (connection session_asked)) @ concat (write_queue (connection session_asked)) =
      concat (map send_buffer sent) \<and>
    length (pending_writes (connection session_asked)) \<le> 1"
  by (rule client_runs_connection [OF program_callbacks [OF session_base_tcp] session_sample_run session_fresh])

text \<open>
  C3. From the moment the channel is secured, and until the server sends
  another result of the handshake, the client puts nothing but ciphertexts of the channel behind
  what was queued before, under the keys it had then: whatever frames arrive, the application does,
  and the handlers and callbacks do in between, reconnecting included.
\<close>

theorem nothing_plain_when_secured:
  assumes "on_tcp env" and "callbacks_send env"
    and "(session_step env n F)\<^sup>*\<^sup>* w0 w" and "connection w0 = TCPConnection_new"
    and "channel_secured w" and "(session_step env n (no_result env n))\<^sup>*\<^sup>* w w'"
  shows "channel_secured w' \<and>
    (\<exists>ds. wire (sock (connection w')) @ concat (write_queue (connection w')) =
        wire (sock (connection w)) @ concat (write_queue (connection w)) @ concat (map send_buffer ds) \<and>
      (\<forall>d\<in>set ds. \<exists>p g.
        fst (symmetric_encrypt_hmac_iv (e_crypto env) p (session_key (crypto w)) (hmac_secret (crypto w)) g) = Inr d))"
proof -
  from session_run_tcp [OF assms(1-3), of "[]"] assms(4) obtain sent where
    s: "tcp_step\<^sup>*\<^sup>* (TCPConnection_new, []) (connection w, sent)" by auto
  have k: "has_keys (session_key (crypto w)) (hmac_secret (crypto w)) w" by (simp add: has_keys_def)
  from secure_run [OF assms(1,2,6,5) k, of sent] obtain ds where
    d: "channel_secured w'" "tcp_step\<^sup>*\<^sup>* (connection w, sent) (connection w', sent @ ds)"
      "\<forall>d\<in>set ds. sealed (e_crypto env) (session_key (crypto w)) (hmac_secret (crypto w)) d" by blast
  have "tcp_step\<^sup>*\<^sup>* (TCPConnection_new, []) (connection w', sent @ ds)" using s d(2) by (rule rtranclp_trans)
  then have "tcp_inv (connection w, sent)" "tcp_inv (connection w', sent @ ds)"
    using s by (auto intro: tcp_run_inv simp: tcp_start_def)
  then have "wire (sock (connection w')) @ concat (write_queue (connection w')) =
      wire (sock (connection w)) @ concat (write_queue (connection w)) @ concat (map send_buffer ds)"
    by (simp add: tcp_inv_def)
  with d(1,3) show ?thesis unfolding sealed_def by blast
qed

definition session_secured :: "(unit TCPConnection, nat, callback, string list) CMClient" where
  "session_secured = set_channel_secured True session_start"

text \<open>A logon that is given before the connection is up is queued, and encrypted.\<close>

theorem nothing_plain_when_secured_witness:
  "\<exists>ds. wire (sock (connection (snd (SteamClient_execute (program_env 2 session_base) AnonymousLogin session_secured)))) @
      concat (write_queue (connection (snd (SteamClient_execute (program_env 2 session_base) AnonymousLogin session_secured)))) =
      concat (map send_buffer ds) \<and>
    (\<forall>d\<in>set ds. \<exists>p g.
      fst (symmetric_encrypt_hmac_iv sample_crypto p (session_key (crypto session_start)) (hmac_secret (crypto session_start)) g) = Inr d)"
proof -
  let ?env = "program_env 2 session_base"
  have s: "channel_secured session_secured" "connection session_secured = TCPConnection_new" "crypto session_secured = crypto session_start"
    by (simp_all add: session_secured_def set_channel_secured_def session_fresh)
  have "(session_step ?env 9 (no_result ?env 9))\<^sup>*\<^sup>* session_secured (snd (SteamClient_execute ?env AnonymousLogin session_secured))"
    by (intro r_into_rtranclp session_command)
  from nothing_plain_when_secured [OF program_callbacks [OF session_base_tcp] rtranclp.rtrancl_refl s(2,1) this]
  show ?thesis by (simp add: s session_base_def TCPConnection_new_def socket_new_def del: program_env.simps)
qed

end
