(* ===== verification/Double_Value.thy ===== *)
theory Double_Value
  imports Json_Number
begin

text \<open>
  Reading a number: \<open>std::strtod\<close> on the texts that the JSON parser hands to it. A \<open>double\<close> is its
  64 bits. The magnitudes of the doubles that are not negative are strictly increasing in these
  bits, so the double below a value is found bit by bit, and the nearer one of it and its successor
  is the result; a tie goes to the even one, and what is too large becomes the infinity, which stands
  where the double behind the largest finite one would. This is the rounding of IEEE 754 to nearest,
  in the C locale, which the program never leaves.
\<close>

section \<open>Magnitudes in the order of their bits\<close>

text \<open>The magnitude that the low 63 bits stand for, as a multiple of the least positive one.\<close>

definition fp_units :: "nat \<Rightarrow> nat" where
  "fp_units n =
     (let e = n div 2 ^ 52; f = n mod 2 ^ 52 in if e = 0 then f else (2 ^ 52 + f) * 2 ^ (e - 1))"

definition fp_mag :: "nat \<Rightarrow> rat" where
  "fp_mag n = of_nat (fp_units n) * pow2 (-1074)"

definition fp_inf_bits :: nat where "fp_inf_bits = 2047 * 2 ^ 52"

lemma units_parts: "f < 2 ^ 52 \<Longrightarrow> fp_units (e * 2 ^ 52 + f) = (if e = 0 then f else (2 ^ 52 + f) * 2 ^ (e - 1))"
  by (simp add: fp_units_def)

lemma bits_parts: obtains e f where "n = e * 2 ^ 52 + f" and "f < (2 :: nat) ^ 52"
  using that [of "n div 2 ^ 52" "n mod 2 ^ 52"] by simp

lemma units_Suc: "fp_units n < fp_units (Suc n)"
proof -
  obtain e f where n: "n = e * 2 ^ 52 + f" "f < 2 ^ 52" by (rule bits_parts)
  note u = units_parts [OF n(2), of e, folded n(1)]
  show ?thesis
  proof (cases "Suc f < 2 ^ 52")
    case True
    then have s: "fp_units (Suc n) = (if e = 0 then Suc f else (2 ^ 52 + Suc f) * 2 ^ (e - 1))"
      unfolding n(1) add_Suc_right [symmetric] by (rule units_parts)
    show ?thesis unfolding s u by simp
  next
    case False
    with n(2) have f: "f = 2 ^ 52 - 1" by simp
    have "Suc n = Suc e * 2 ^ 52 + 0" unfolding n(1) f by simp
    then have s: "fp_units (Suc n) = 2 ^ 52 * 2 ^ e" using units_parts [of 0 "Suc e"] by simp
    show ?thesis
    proof (cases e)
      case 0
      then show ?thesis unfolding s u f by simp
    next
      case (Suc k)
      have "(2 ^ 52 + f) * 2 ^ k < (2 * 2 ^ 52) * (2 :: nat) ^ k" using n(2) by simp
      with Suc show ?thesis unfolding s u by simp
    qed
  qed
qed

lemma units_less_iff [simp]: "fp_units m < fp_units n \<longleftrightarrow> m < n"
  using strict_mono_less strict_mono_Suc_iff units_Suc by blast

lemma mag_less_iff [simp]: "fp_mag m < fp_mag n \<longleftrightarrow> m < n"
  by (simp add: fp_mag_def)

lemma mag_le_iff [simp]: "fp_mag m \<le> fp_mag n \<longleftrightarrow> m \<le> n"
  by (meson leD leI mag_less_iff)

lemma mag_eq_iff [simp]: "fp_mag m = fp_mag n \<longleftrightarrow> m = n"
  by (metis mag_le_iff order_antisym order_refl)

lemma mag_zero [simp]: "fp_mag 0 = 0"
  by (simp add: fp_mag_def fp_units_def)

definition fp_bits :: "u64 \<Rightarrow> nat" where
  "fp_bits w = unat w mod 2 ^ 63"

lemma bits_fields: "fp_bits w div 2 ^ 52 = fp_exponent w" "fp_bits w mod 2 ^ 52 = fp_fraction w"
proof -
  have "unat w mod 2 ^ 63 = unat w mod (2 ^ 52 * 2 ^ 11)" by simp
  then show "fp_bits w div 2 ^ 52 = fp_exponent w"
    unfolding fp_bits_def fp_exponent_def by (simp only: div_mult2_eq mod_mult2_eq) simp
  have "(2 :: nat) ^ 52 dvd 2 ^ 63" by (rule le_imp_power_dvd) simp
  then show "fp_bits w mod 2 ^ 52 = fp_fraction w"
    unfolding fp_bits_def fp_fraction_def by (rule mod_mod_cancel)
qed

lemma mag_bits: "fp_mag (fp_bits w) = fp_abs w"
proof (cases "fp_exponent w")
  case 0
  then show ?thesis unfolding fp_mag_def fp_units_def Let_def bits_fields fp_abs_def by simp
next
  case (Suc k)
  have "pow2 (int (Suc k) - 1075) = 2 ^ k * pow2 (- 1074)" using pow2_add [of "- 1074" k] by simp
  with Suc show ?thesis unfolding fp_mag_def fp_units_def Let_def bits_fields fp_abs_def by simp
qed

lemma bits_finite: "fp_finite w \<longleftrightarrow> fp_bits w < fp_inf_bits"
proof -
  have "fp_bits w div 2 ^ 52 < 2047 \<longleftrightarrow> fp_bits w < 2047 * 2 ^ 52" by (rule div_less_iff_less_mult) simp
  then show ?thesis unfolding bits_fields fp_finite_def fp_inf_bits_def .
qed

section \<open>The nearest double\<close>

text \<open>The largest bits whose magnitude is not above \<open>v\<close>, from bit \<open>k - 1\<close> downwards.\<close>

fun fp_search :: "nat \<Rightarrow> rat \<Rightarrow> nat \<Rightarrow> nat" where
  "fp_search 0 v n = n"
| "fp_search (Suc k) v n = fp_search k v (if fp_mag (n + 2 ^ k) \<le> v then n + 2 ^ k else n)"

lemma fp_search_ok:
  "fp_mag n \<le> v \<Longrightarrow> v < fp_mag (n + 2 ^ k) \<Longrightarrow>
     fp_mag (fp_search k v n) \<le> v \<and> v < fp_mag (fp_search k v n + 1)"
  by (induction k arbitrary: n) (auto simp: add.assoc mult_2 [symmetric] not_le)

definition nearest_bits :: "rat \<Rightarrow> nat" where
  "nearest_bits v =
     (let n = fp_search 63 v 0;
          below = v - fp_mag n; above = fp_mag (n + 1) - v;
          n = (if above < below \<or> above = below \<and> odd n then n + 1 else n)
      in min n fp_inf_bits)"

text \<open>The double of a rational number; \<open>neg\<close> makes a zero negative too.\<close>

definition fp_of :: "bool \<Rightarrow> rat \<Rightarrow> u64" where
  "fp_of neg v = of_nat (nearest_bits v + (if neg then 2 ^ 63 else 0))"

lemma fp_of_parts: "fp_bits (fp_of neg v) = nearest_bits v" "fp_negative (fp_of neg v) = neg"
proof -
  have le: "nearest_bits v < 2 ^ 63" by (simp add: nearest_bits_def fp_inf_bits_def Let_def min_def)
  define n where "n = nearest_bits v + (if neg then 2 ^ 63 else 0)"
  from le have "n < 2 ^ 64" by (simp add: n_def)
  then have u: "unat (fp_of neg v) = n" unfolding fp_of_def n_def [symmetric] by (simp add: unat_of_nat)
  show "fp_bits (fp_of neg v) = nearest_bits v" unfolding fp_bits_def u n_def using le by simp
  show "fp_negative (fp_of neg v) = neg" unfolding fp_negative_def u n_def using le by simp
qed

text \<open>A double is its sign and its other bits.\<close>

lemma fp_parts_eq: "fp_bits w = fp_bits w' \<Longrightarrow> fp_negative w = fp_negative w' \<Longrightarrow> w = w'"
proof -
  assume eq: "fp_bits w = fp_bits w'" "fp_negative w = fp_negative w'"
  have u: "unat x = fp_bits x + (if fp_negative x then 2 ^ 63 else 0)" for x
  proof (cases "fp_negative x")
    case True
    have "unat x < 2 ^ 64" using unsigned_less [of x] by simp
    with True have "unat x - 2 ^ 63 < 2 ^ 63" "unat x = (unat x - 2 ^ 63) + 2 ^ 63"
      by (simp_all add: fp_negative_def)
    then have "unat x mod 2 ^ 63 = unat x - 2 ^ 63" by (metis mod_add_self2 mod_less)
    with True show ?thesis by (simp add: fp_bits_def fp_negative_def)
  next
    case False
    then show ?thesis by (simp add: fp_bits_def fp_negative_def)
  qed
  have "unat w = unat w'" unfolding u [of w] u [of w'] eq ..
  then show "w = w'" by (rule word_unat_eq_iff [THEN iffD2])
qed

text \<open>No finite double is nearer to the value than the result, if the result is finite.\<close>

lemma search_bounds:
  assumes "0 \<le> v" and "v < fp_mag (2 ^ 63)"
  shows "fp_mag (fp_search 63 v 0) \<le> v" and "v < fp_mag (fp_search 63 v 0 + 1)"
  using fp_search_ok [of 0 v 63] assms by simp_all

lemma nearer_end:
  fixes a b v x :: rat
  assumes "a \<le> v" and "v < b" and "x \<le> a \<or> b \<le> x"
    and "r = a \<and> v - a \<le> b - v \<or> r = b \<and> b - v \<le> v - a"
  shows "\<bar>r - v\<bar> \<le> \<bar>x - v\<bar>"
  using assms by (auto simp: abs_if)

lemma nearest_bits_least:
  assumes v: "0 \<le> v" "v < fp_mag (2 ^ 63)" and fin: "nearest_bits v < fp_inf_bits"
  shows "\<bar>fp_mag (nearest_bits v) - v\<bar> \<le> \<bar>fp_mag m - v\<bar>"
proof -
  define n where "n = fp_search 63 v 0"
  have n: "fp_mag n \<le> v" "v < fp_mag (n + 1)" unfolding n_def using v by (rule search_bounds)+
  define up where "up \<longleftrightarrow> fp_mag (n + 1) - v < v - fp_mag n \<or> fp_mag (n + 1) - v = v - fp_mag n \<and> odd n"
  have r: "nearest_bits v = (if up then n + 1 else n)"
    using fin unfolding nearest_bits_def Let_def n_def [symmetric] up_def [symmetric] by (simp add: min_def split: if_splits)
  have "fp_mag m \<le> fp_mag n \<or> fp_mag (n + 1) \<le> fp_mag m" by auto
  moreover have "fp_mag (nearest_bits v) = fp_mag n \<and> v - fp_mag n \<le> fp_mag (n + 1) - v \<or>
      fp_mag (nearest_bits v) = fp_mag (n + 1) \<and> fp_mag (n + 1) - v \<le> v - fp_mag n"
    unfolding r up_def by auto
  ultimately show ?thesis by (rule nearer_end [OF n])
qed

lemma nearest_bits_exact:
  assumes "n \<le> fp_inf_bits"
  shows "nearest_bits (fp_mag n) = n"
proof -
  have i: "fp_inf_bits < 2 ^ 63" by (simp add: fp_inf_bits_def)
  have "0 \<le> fp_mag n" by (simp add: fp_mag_def less_imp_le)
  moreover have "fp_mag n < fp_mag (2 ^ 63)" using assms i by simp
  ultimately have "fp_mag (fp_search 63 (fp_mag n) 0) \<le> fp_mag n" "fp_mag n < fp_mag (fp_search 63 (fp_mag n) 0 + 1)"
    by (rule search_bounds)+
  then have s: "fp_search 63 (fp_mag n) 0 = n" by simp
  have "0 < fp_mag (n + 1) - fp_mag n" by simp
  then show ?thesis using assms unfolding nearest_bits_def s by (simp add: Let_def)
qed

text \<open>A value that a finite double bounds is read as one.\<close>

lemma nearest_bits_finite:
  assumes "0 \<le> v" and "v \<le> fp_mag m" and "m < fp_inf_bits"
  shows "nearest_bits v \<le> m"
proof -
  have i: "fp_inf_bits < 2 ^ 63" by (simp add: fp_inf_bits_def)
  have v: "v < fp_mag (2 ^ 63)" using assms(2,3) i by (meson le_less_trans mag_less_iff less_trans)
  define n where "n = fp_search 63 v 0"
  have n: "fp_mag n \<le> v" "v < fp_mag (n + 1)" unfolding n_def using assms(1) v by (rule search_bounds)+
  from n(1) assms(2) have "n \<le> m" by (meson mag_le_iff order_trans)
  show ?thesis
  proof (cases "n = m")
    case True
    with n(1) assms(2) have "v = fp_mag m" by simp
    then show ?thesis using nearest_bits_exact [of m] assms(3) by simp
  next
    case False
    with \<open>n \<le> m\<close> show ?thesis
      unfolding nearest_bits_def Let_def n_def [symmetric] by (auto simp: min_def)
  qed
qed

section \<open>The text\<close>

text \<open>
  The digits that \<open>parse_value_\<close> collects for \<open>strtod\<close>: the text of the number with a capital \<open>E\<close>. The
  terminating zero is not part of the list.
\<close>

definition cdigits :: "string \<Rightarrow> string" where
  "cdigits t = map (\<lambda>c. if c = CHR ''e'' then CHR ''E'' else c) t"

definition pow10 :: "int \<Rightarrow> rat" where
  "pow10 k = (if k \<ge> 0 then 10 ^ nat k else 1 / 10 ^ nat (- k))"

definition exponent_value :: "string \<Rightarrow> int" where
  "exponent_value s =
     (case s of
        [] \<Rightarrow> 0
      | c # cs \<Rightarrow> if c = CHR ''-'' then - int (dec_value cs)
                  else if c = CHR ''+'' then int (dec_value cs) else int (dec_value s))"

definition strtod_value :: "string \<Rightarrow> rat" where
  "strtod_value s = decimal_value (takeWhile (\<lambda>c. c \<noteq> CHR ''E'') s) *
     pow10 (exponent_value (drop 1 (dropWhile (\<lambda>c. c \<noteq> CHR ''E'') s)))"

definition strtod :: "string \<Rightarrow> u64" where
  "strtod s =
     (let neg = (take 1 s = ''-''); s = (if neg then tl s else s)
      in fp_of neg (strtod_value s))"

end
