(* ===== verification/Json_Stored.thy ===== *)
theory Json_Stored
  imports Double_Value
begin

text \<open>
  The nodes of \<open>ctl::json\<close> with what a number holds beside its text: the \<open>double\<close> of
  \<open>strnum_type\<close>, which \<open>set_num\<close> stores, the parser makes with \<open>std::strtod\<close>, and \<open>num()\<close> returns.
  \<open>text_node\<close> forgets it; the operations of Ctl_Json, which hand the record on with its node and look
  at the text only, are stated on what is left.
\<close>

section \<open>Nodes\<close>

record strnum_type =
  strnum_num :: u64
  strnum_str :: string

datatype stored =
    StArray "stored list"
  | StObject "(string \<times> stored) list"
  | StNumber strnum_type
  | StString string
  | StBool bool
  | StNull
  | StUnassigned
  | StFallback

fun text_node :: "stored \<Rightarrow> json" where
  "text_node (StArray vs) = JArray (map text_node vs)"
| "text_node (StObject ms) = JObject (map (\<lambda>(k, v). (k, text_node v)) ms)"
| "text_node (StNumber n) = JNumber (strnum_str n)"
| "text_node (StString s) = JString s"
| "text_node (StBool b) = JBool b"
| "text_node StNull = JNull"
| "text_node StUnassigned = JUnassigned"
| "text_node StFallback = JFallback"

section \<open>Parsing\<close>

text \<open>
  \<open>parse\<close> destroys what was there, so every number of the result has been made by the branch of
  \<open>parse_value_\<close> for numbers, which stores the text and its value.
\<close>

definition stored_number :: "string \<Rightarrow> strnum_type" where
  "stored_number t = \<lparr>strnum_num = strtod (cdigits t), strnum_str = t\<rparr>"

fun parsed_node :: "json \<Rightarrow> stored" where
  "parsed_node (JArray vs) = StArray (map parsed_node vs)"
| "parsed_node (JObject ms) = StObject (map (\<lambda>(k, v). (k, parsed_node v)) ms)"
| "parsed_node (JNumber t) = StNumber (stored_number t)"
| "parsed_node (JString s) = StString s"
| "parsed_node (JBool b) = StBool b"
| "parsed_node JNull = StNull"
| "parsed_node JUnassigned = StUnassigned"
| "parsed_node JFallback = StFallback"

definition stored_parse :: "string \<Rightarrow> stored \<Rightarrow> error + bool \<times> stored \<times> json_error" where
  "stored_parse s node =
     (if node = StFallback then Inr (False, StFallback, \<lparr>code_ = 0, pos_ = 0\<rparr>)
      else bindE (json_parse s JUnassigned) (\<lambda>(ok, v, e). Inr (ok, parsed_node v, e)))"

lemma text_of_parsed: "text_node (parsed_node v) = v"
proof (induction v)
  case (JObject ms)
  then have "\<And>k v. (k, v) \<in> set ms \<Longrightarrow> text_node (parsed_node v) = v" by (force simp: snds.simps)
  then show ?case by (auto intro!: map_idI)
qed (simp_all add: map_idI stored_number_def)

lemma text_node_fallback [simp]: "text_node v = JFallback \<longleftrightarrow> v = StFallback"
  by (cases v) simp_all

text \<open>But for the doubles it is the parser of Ctl_Json.\<close>

lemma stored_parse_text:
  "json_parse s (text_node node) = bindE (stored_parse s node) (\<lambda>(ok, v, e). Inr (ok, text_node v, e))"
  by (auto simp: stored_parse_def json_parse_def text_of_parsed split: sum.split)

section \<open>Numbers\<close>

definition fp_one :: u64 where "fp_one = 0x3FF0000000000000"

definition stored_num :: "stored \<Rightarrow> u64" where
  "stored_num node =
     (case node of
        StNumber n \<Rightarrow> strnum_num n
      | StBool b \<Rightarrow> if b then fp_one else 0
      | _ \<Rightarrow> 0)"

text \<open>
  \<open>num<NumType>()\<close> for an integral type with the values from \<open>lo\<close> to \<open>hi\<close>: the conversion drops the
  fraction, and is undefined where the rest does not fit.
\<close>

definition fp_trunc :: "u64 \<Rightarrow> int" where
  "fp_trunc w = (if fp_negative w then - \<lfloor>fp_abs w\<rfloor> else \<lfloor>fp_abs w\<rfloor>)"

definition fp_to_int :: "int \<Rightarrow> int \<Rightarrow> u64 \<Rightarrow> error + int" where
  "fp_to_int lo hi w =
     (if fp_finite w \<and> lo \<le> fp_trunc w \<and> fp_trunc w \<le> hi then Inr (fp_trunc w)
      else Inl (Undefined OutOfBounds))"

definition stored_num_as :: "int \<Rightarrow> int \<Rightarrow> stored \<Rightarrow> error + int" where
  "stored_num_as lo hi node = fp_to_int lo hi (stored_num node)"

definition stored_set_num :: "u64 \<Rightarrow> int \<Rightarrow> stored \<Rightarrow> error + stored" where
  "stored_set_num d precision node =
     (if node = StFallback then Inr StFallback
      else bindE (to_string_fp d CHR ''f'' precision) (\<lambda>s.
        Inr (StNumber \<lparr>strnum_num = d, strnum_str = s\<rparr>)))"

text \<open>The assignment of an integer converts it to a \<open>double\<close> first.\<close>

definition fp_of_int :: "int \<Rightarrow> u64" where
  "fp_of_int i = fp_of (i < 0) (of_int \<bar>i\<bar>)"

definition stored_assign_int :: "int \<Rightarrow> stored \<Rightarrow> error + stored" where
  "stored_assign_int i node = stored_set_num (fp_of_int i) (-6) node"

lemma stored_set_num_text:
  "json_set_num d precision (text_node node) = bindE (stored_set_num d precision node) (\<lambda>v. Inr (text_node v))"
  by (auto simp: json_set_num_def stored_set_num_def bindE_def split: sum.split)

section \<open>What is read\<close>

text \<open>A text without an exponent.\<close>

lemma digit_no_e: "d < 10 \<Longrightarrow> digit_char d \<notin> {CHR ''e'', CHR ''E'', CHR ''-''}"
proof -
  assume "d < 10"
  moreover have "list_all (\<lambda>d. digit_char d \<noteq> CHR ''e'' \<and> digit_char d \<noteq> CHR ''E'' \<and> digit_char d \<noteq> CHR ''-'') [0..<10]"
    by code_simp
  ultimately show ?thesis by (simp add: list_all_iff)
qed

lemma digits_text_chars:
  assumes "digits_ok 10 s" and "c \<in> set (digits_text s d)"
  shows "c \<notin> {CHR ''e'', CHR ''E'', CHR ''-''}"
proof -
  have "c = CHR ''.'' \<or> c \<in> digit_char ` set s"
    using assms(2) by (auto simp: digits_text_def insert_at_def Let_def dest!: in_set_takeD in_set_dropD split: if_splits)
  with assms(1) digit_no_e show ?thesis by (auto simp: digits_ok_def)
qed

lemma strtod_placed:
  assumes "placed t d"
  shows "strtod (cdigits ((if neg then ''-'' else []) @ rev (digits_text t d))) = fp_of neg (placed_value t d)"
proof -
  let ?s = "rev (digits_text t d)"
  from assms have ok: "digits_ok 10 t" by (simp add: placed_def)
  note chars = digits_text_chars [OF ok, of _ d]
  have "map (\<lambda>c. if c = CHR ''e'' then CHR ''E'' else c) ?s = ?s"
    using chars by (intro map_idI) auto
  then have c: "cdigits ((if neg then ''-'' else []) @ ?s) = (if neg then ''-'' else []) @ ?s"
    by (simp add: cdigits_def)
  have sign: "(take 1 ((if neg then ''-'' else []) @ ?s) = ''-'') = neg"
  proof (cases neg)
    case False
    have "take 1 ?s \<noteq> ''-''" using chars [of "CHR ''-''"] by (cases ?s) (auto dest: arg_cong [of _ _ set])
    with False show ?thesis by simp
  qed simp
  have w: "takeWhile (\<lambda>c. c \<noteq> CHR ''E'') ?s = ?s" "dropWhile (\<lambda>c. c \<noteq> CHR ''E'') ?s = []"
    using chars by auto
  have "decimal_value ?s = placed_value t d"
    using signed_text_value(1) [OF assms, of False] by simp
  then have v: "strtod_value ?s = placed_value t d"
    unfolding strtod_value_def w by (simp add: exponent_value_def pow10_def)
  have "(if neg then tl ((if neg then ''-'' else []) @ ?s) else (if neg then ''-'' else []) @ ?s) = ?s" by simp
  then show ?thesis unfolding c strtod_def Let_def sign by (simp only: v)
qed

lemma fp_of_abs: "fp_finite w \<Longrightarrow> fp_of (fp_negative w) (fp_abs w) = w"
proof (rule fp_parts_eq)
  assume "fp_finite w"
  then have "nearest_bits (fp_abs w) = fp_bits w"
    unfolding mag_bits [symmetric] bits_finite by (intro nearest_bits_exact) simp
  then show "fp_bits (fp_of (fp_negative w) (fp_abs w)) = fp_bits w" by (simp add: fp_of_parts)
qed (simp add: fp_of_parts)

lemma round_half_up_mono: "v \<le> v' \<Longrightarrow> round_half_up q v \<le> round_half_up q v'"
  by (simp add: round_half_up_def divide_right_mono floor_mono mult_right_mono)

lemma round_half_up_nonneg: "0 \<le> v \<Longrightarrow> 0 \<le> round_half_up q v"
  using round_half_up_mono [of 0 v q] round_exact [of 0 q 0] by simp

text \<open>The largest finite double is an integer, so that no rounding of a finite one is above it.\<close>

lemma largest_mag: "fp_mag (fp_inf_bits - 1) = of_nat ((2 ^ 53 - 1) * 2 ^ 971)"
proof -
  have "fp_inf_bits - 1 = 2046 * 2 ^ 52 + (2 ^ 52 - 1)" by (simp add: fp_inf_bits_def)
  then have "fp_units (fp_inf_bits - 1) = (2 ^ 53 - 1) * 2 ^ 2045"
    using units_parts [of "2 ^ 52 - 1" 2046] by simp
  moreover have "2 ^ 2045 * pow2 (- 1074) = 2 ^ 971" using pow2_add [of "- 1074" 2045] by (simp add: pow2_def)
  ultimately show ?thesis unfolding fp_mag_def by (simp only: of_nat_mult of_nat_power mult.assoc) simp
qed

lemma rounded_largest:
  assumes "fp_finite w"
  shows "round_half_up q (fp_abs w) \<le> fp_mag (fp_inf_bits - 1)"
proof -
  have "fp_abs w \<le> fp_mag (fp_inf_bits - 1)" using assms unfolding mag_bits [symmetric] bits_finite by simp
  then have "round_half_up q (fp_abs w) \<le> round_half_up q (fp_mag (fp_inf_bits - 1))" by (rule round_half_up_mono)
  also have "\<dots> = fp_mag (fp_inf_bits - 1)"
    unfolding largest_mag using round_exact [of 0 q "(2 ^ 53 - 1) * 2 ^ 971"]
    by (simp only: power_0 div_by_1 le0 simp_thms)
  finally show ?thesis .
qed

lemma rounded_finite: "fp_finite w \<Longrightarrow> nearest_bits (round_half_up q (fp_abs w)) < fp_inf_bits"
  using nearest_bits_finite [OF round_half_up_nonneg [OF fp_abs_nonneg] rounded_largest, of w q]
  by (fastforce simp: fp_inf_bits_def)

lemma rounded_below: "fp_finite w \<Longrightarrow> round_half_up q (fp_abs w) < fp_mag (2 ^ 63)"
proof -
  assume "fp_finite w"
  then have "round_half_up q (fp_abs w) \<le> fp_mag (fp_inf_bits - 1)" by (rule rounded_largest)
  also have "\<dots> < fp_mag (2 ^ 63)" unfolding mag_less_iff by (simp add: fp_inf_bits_def)
  finally show ?thesis .
qed

lemma fp_value_of: "fp_value (fp_of neg v) = (if neg then -1 else 1) * fp_mag (nearest_bits v)"
  unfolding fp_value_def fp_of_parts mag_bits [symmetric] ..

lemma signed_distance:
  fixes a b x :: rat
  assumes "\<bar>a - v\<bar> \<le> \<bar>b - v\<bar>" and "0 \<le> b" and "0 \<le> v" and "neg' \<noteq> neg \<Longrightarrow> \<bar>a - v\<bar> \<le> v"
  shows "\<bar>(if neg then -1 else 1) * a - (if neg then -1 else 1) * v\<bar> \<le> \<bar>(if neg' then -1 else 1) * b - (if neg then -1 else 1) * v\<bar>"
  using assms by (auto simp: abs_if split: if_splits)

lemma fp_of_nearest:
  assumes "0 \<le> v" and "nearest_bits v < fp_inf_bits" and "v < fp_mag (2 ^ 63)"
  shows "\<bar>fp_value (fp_of neg v) - (if neg then -1 else 1) * v\<bar> \<le> \<bar>fp_value x - (if neg then -1 else 1) * v\<bar>"
proof -
  have "\<bar>fp_mag (nearest_bits v) - v\<bar> \<le> \<bar>fp_abs x - v\<bar>"
    unfolding mag_bits [symmetric] using assms by (intro nearest_bits_least)
  moreover have "\<bar>fp_mag (nearest_bits v) - v\<bar> \<le> v"
    using nearest_bits_least [OF assms(1,3,2), of 0] assms(1) by simp
  ultimately show ?thesis
    unfolding fp_value_of unfolding fp_value_def using fp_abs_nonneg assms(1) by (intro signed_distance)
qed

end
