(* ===== verification/Stored_Properties.thy ===== *)
theory Stored_Properties
  imports Json_Stored
begin

text \<open>
  What a \<open>double\<close> or an integer that is put into a JSON node is when the node is asked for it, and
  when the text that is printed of it has been parsed again.
\<close>

section \<open>Doubles\<close>

lemma set_num_read_back:
  fixes precision :: int
  assumes "fp_finite w" and "node \<noteq> StFallback"
  defines "r \<equiv> round_half_up (nat \<bar>precision\<bar>) (fp_abs w)"
  shows "\<exists>s. stored_set_num w precision node = Inr (StNumber \<lparr>strnum_num = w, strnum_str = s\<rparr>) \<and>
    decimal_value s = (if fp_negative w then -1 else 1) * r \<and>
    stored_parse (json_stringify (JNumber s)) StUnassigned =
      Inr (True, StNumber \<lparr>strnum_num = fp_of (fp_negative w) r, strnum_str = s\<rparr>, \<lparr>code_ = 0, pos_ = 0\<rparr>)"
proof -
  from to_string_fp_digits [OF assms(1), of precision] obtain t d where
    t: "to_string_fp w CHR ''f'' precision = Inr ((if fp_negative w then ''-'' else []) @ rev (digits_text t d))"
      "placed t d" "placed_value t d = r"
    unfolding r_def by blast
  let ?s = "(if fp_negative w then ''-'' else []) @ rev (digits_text t d)"
  note signed = signed_text_value [OF t(2), of "fp_negative w", unfolded t(3)]
  from signed(2) have "json_ok (JNumber ?s)" by simp
  from json_read_back [OF this, of JUnassigned]
  have p: "json_parse (json_stringify (JNumber ?s)) JUnassigned = Inr (True, JNumber ?s, \<lparr>code_ = 0, pos_ = 0\<rparr>)"
    by simp
  have "strtod (cdigits ?s) = fp_of (fp_negative w) r" using strtod_placed [OF t(2)] t(3) by simp
  then show ?thesis
    using signed(1) p t(1) assms(2)
    by (intro exI [of _ ?s]) (simp add: stored_set_num_def stored_parse_def stored_number_def)
qed



section \<open>Integers\<close>

text \<open>Every natural number up to \<open>2 ^ 53\<close> is a double.\<close>

lemma small_mag:
  assumes "n \<le> 2 ^ 53"
  obtains m where "fp_mag m = of_nat n" and "m < fp_inf_bits"
proof -
  have part: "fp_mag ((1075 - j) * 2 ^ 52 + f) = of_nat n" "(1075 - j) * 2 ^ 52 + f < fp_inf_bits"
    if "f < 2 ^ 52" "j \<le> 52" "n * 2 ^ j = 2 ^ 52 + f" for f j
  proof -
    have "fp_units ((1075 - j) * 2 ^ 52 + f) = n * 2 ^ j * 2 ^ (1074 - j)"
      using units_parts [OF that(1), of "1075 - j"] that(2,3) by simp
    also have "\<dots> = n * 2 ^ 1074" using that(2) by (simp add: mult.assoc flip: power_add)
    moreover have "2 ^ 1074 * pow2 (- 1074) = 1" using pow2_add [of "- 1074" 1074] by (simp add: pow2_def)
    ultimately show "fp_mag ((1075 - j) * 2 ^ 52 + f) = of_nat n"
      unfolding fp_mag_def by (simp only: of_nat_mult of_nat_power mult.assoc) simp
    have "(1075 - j) * 2 ^ 52 \<le> 1075 * (2 :: nat) ^ 52" by simp
    with that(1) show "(1075 - j) * 2 ^ 52 + f < fp_inf_bits" by (simp add: fp_inf_bits_def)
  qed
  consider "n = 0" | "n = 2 ^ 53" | "1 \<le> n" "n < 2 ^ 53" using assms by linarith
  then show ?thesis
  proof cases
    case 1
    then show ?thesis using that [of 0] by (simp add: fp_inf_bits_def)
  next
    case 2
    have "fp_units (1076 * 2 ^ 52 + 0) = 2 ^ 53 * 2 ^ 1074" using units_parts [of 0 1076] by simp
    moreover have "2 ^ 1074 * pow2 (- 1074) = 1" using pow2_add [of "- 1074" 1074] by (simp add: pow2_def)
    ultimately have "fp_mag (1076 * 2 ^ 52 + 0) = of_nat n"
      unfolding fp_mag_def 2 by (simp only: of_nat_mult of_nat_power mult.assoc) simp
    then show ?thesis by (rule that) (simp add: fp_inf_bits_def)
  next
    case 3
    from ex_power_ivl1 [of 2 n] 3(1) obtain k where k: "2 ^ k \<le> n" "n < 2 ^ (k + 1)" by auto
    have "k \<le> 52"
    proof (rule ccontr)
      assume "\<not> k \<le> 52"
      then have "(2 :: nat) ^ 53 \<le> 2 ^ k" by (intro power_increasing) simp_all
      with k(1) 3(2) show False by simp
    qed
    then have e: "2 ^ k * 2 ^ (52 - k) = (2 :: nat) ^ 52" "2 ^ (k + 1) * 2 ^ (52 - k) = (2 :: nat) ^ 53"
      by (simp_all flip: power_add)
    have "2 ^ 52 \<le> n * 2 ^ (52 - k)" using mult_le_mono1 [OF k(1), of "2 ^ (52 - k)"] unfolding e .
    moreover have "n * 2 ^ (52 - k) < 2 ^ 53" using mult_less_mono1 [OF k(2), of "2 ^ (52 - k)"] unfolding e by simp
    ultimately have "n * 2 ^ (52 - k) - 2 ^ 52 < 2 ^ 52" "n * 2 ^ (52 - k) = 2 ^ 52 + (n * 2 ^ (52 - k) - 2 ^ 52)"
      by simp_all
    from part [OF this(1) _ this(2)] show ?thesis by (rule that) simp_all
  qed
qed

lemma fp_of_int_exact:
  assumes "\<bar>i\<bar> \<le> 2 ^ 53"
  shows "fp_finite (fp_of_int i)" "fp_abs (fp_of_int i) = of_int \<bar>i\<bar>" "fp_negative (fp_of_int i) = (i < 0)"
proof -
  have "nat \<bar>i\<bar> \<le> 2 ^ 53" using assms by simp
  then obtain m where m: "fp_mag m = of_nat (nat \<bar>i\<bar>)" "m < fp_inf_bits" by (rule small_mag)
  have a: "of_int \<bar>i\<bar> = fp_mag m" using m(1) by simp
  have "nearest_bits (fp_mag m) = m" using m(2) by (intro nearest_bits_exact) simp
  then have b: "fp_bits (fp_of_int i) = m" unfolding fp_of_int_def a fp_of_parts .
  show "fp_finite (fp_of_int i)" unfolding bits_finite b by (rule m(2))
  show "fp_abs (fp_of_int i) = of_int \<bar>i\<bar>" unfolding mag_bits [symmetric] b a ..
  show "fp_negative (fp_of_int i) = (i < 0)" by (simp add: fp_of_int_def fp_of_parts)
qed

lemma fp_trunc_of_int: "\<bar>i\<bar> \<le> 2 ^ 53 \<Longrightarrow> fp_trunc (fp_of_int i) = i"
  unfolding fp_trunc_def fp_of_int_exact by simp

text \<open>
  An integer of at most 53 bits that is assigned to a node comes back from \<open>num<NumType>()\<close>, at once
  and when its text, which says exactly the integer, has been printed and parsed.
\<close>

theorem int_roundtrip:
  assumes "\<bar>i\<bar> \<le> 2 ^ 53" and "lo \<le> i" and "i \<le> hi" and "node \<noteq> StFallback"
  shows "\<exists>v s u. stored_assign_int i node = Inr v \<and> text_node v = JNumber s \<and> decimal_value s = of_int i \<and>
    stored_num_as lo hi v = Inr i \<and>
    stored_parse (json_stringify (text_node v)) StUnassigned = Inr (True, u, \<lparr>code_ = 0, pos_ = 0\<rparr>) \<and>
    stored_num_as lo hi u = Inr i"
proof -
  let ?w = "fp_of_int i"
  note w = fp_of_int_exact [OF assms(1)]
  have r: "round_half_up (nat \<bar>- 6\<bar>) (of_int \<bar>i\<bar>) = of_int \<bar>i\<bar>"
    using round_exact [of 0 6 "nat \<bar>i\<bar>"] by simp
  have same: "fp_of (i < 0) (of_int \<bar>i\<bar>) = ?w" by (simp add: fp_of_int_def)
  from set_num_read_back [OF w(1) assms(4), of "-6", unfolded w(2,3) r same] obtain s where
    s: "stored_set_num ?w (- 6) node = Inr (StNumber \<lparr>strnum_num = ?w, strnum_str = s\<rparr>)"
      "decimal_value s = (if i < 0 then - 1 else 1) * of_int \<bar>i\<bar>"
      "stored_parse (json_stringify (JNumber s)) StUnassigned =
        Inr (True, StNumber \<lparr>strnum_num = ?w, strnum_str = s\<rparr>, \<lparr>code_ = 0, pos_ = 0\<rparr>)"
    by blast
  have n: "fp_to_int lo hi ?w = Inr i"
    using w(1) fp_trunc_of_int [OF assms(1)] assms(2,3) by (simp add: fp_to_int_def)
  from s(2) have "decimal_value s = of_int i" by (cases "i < 0") simp_all
  with s(1,3) n show ?thesis
    by (intro exI [of _ "StNumber \<lparr>strnum_num = ?w, strnum_str = s\<rparr>"] exI [of _ s])
      (simp add: stored_assign_int_def stored_num_as_def stored_num_def)
qed

end
