(* ===== verification/Repo_Tests.thy ===== *)
theory Repo_Tests
  imports Byte_Stream Vdf_Text Vdf_Binary
begin

text \<open>
  The test cases of the repository, run on the model: src/test/test_stream.cpp and
  src/test/test_vdf.cpp. A test case is the list of the outcomes of its checks, in order, or the
  exception that ends it. Every check succeeds on the definitions that the other theories reason
  about, so what the authors of the program expect of it holds of the model as well.
\<close>

section \<open>Checks\<close>

text \<open>\<open>BOOST_REQUIRE_THROW(expression, std::runtime_error)\<close>.\<close>

definition requires_throw :: "error + 'a \<Rightarrow> bool" where
  "requires_throw r \<longleftrightarrow> (case r of Inl (Exn (RuntimeError _)) \<Rightarrow> True | _ \<Rightarrow> False)"

section \<open>The stream\<close>

definition EXPECTED :: "byte list" where
  "EXPECTED = [0x54, 0x45, 0x53, 0x54]"

definition test_StreamWriting :: "error + bool list" where
  "test_StreamWriting =
     bindE (Write_word (0x54534554 :: u32) Stream_new) (\<lambda>(_, s).
       Inr [Length s = 4, GetBuffer s = EXPECTED, requires_throw (Read_word s :: error + byte \<times> stream)])"

definition test_StreamReading :: "error + bool list" where
  "test_StreamReading =
     bindE (ReadBytes 4 (Stream_read EXPECTED)) (\<lambda>(bytes, s).
       Inr [Length (Stream_read EXPECTED) = 4, bytes = EXPECTED, requires_throw (Write_word (123 :: u32) s)])"

text \<open>
  The vector of the third case is a temporary, of which the stream keeps the address: it is gone
  when the read looks at it. The model, in which a stream holds the bytes themselves, gives what
  the case means.
\<close>

definition test_StreamUnderflow :: "error + bool list" where
  "test_StreamUnderflow = Inr [requires_throw (Read_word (Stream_read [0x01]) :: error + u32 \<times> stream)]"

lemma small_reads:
  "sz_add 0 1 = 1" "sz_add 0 4 = 4"
  by (simp_all add: sz_add_def)

lemma test_StreamWriting_passes: "test_StreamWriting = Inr [True, True, True]"
  by (simp add: test_StreamWriting_def Write_word_def Stream_new_def Length_def GetBuffer_def EXPECTED_def
      le_bytes_def requires_throw_def Read_word_def read_slice_def write_mode_error_def upt_rec)

lemma test_StreamReading_passes: "test_StreamReading = Inr [True, True, True]"
  by (simp add: test_StreamReading_def ReadBytes_def read_slice_def Stream_read_def EXPECTED_def small_reads
      Length_def requires_throw_def Write_word_def read_mode_error_def)

lemma test_StreamUnderflow_passes: "test_StreamUnderflow = Inr [True]"
  by (simp add: test_StreamUnderflow_def requires_throw_def Read_word_def read_slice_def Stream_read_def
      small_reads underflow_error_def)

section \<open>VDF\<close>

text \<open>The text of the test, line by line.\<close>

definition TEST_STRING :: string where
  "TEST_STRING =
     (let q = quoted; entry = (\<lambda>indent k gap v. replicate indent CHR '' '' @ q k @ replicate gap CHR '' '' @ q v);
          line = (\<lambda>indent s. replicate indent CHR '' '' @ s)
      in concat (map (\<lambda>l. l @ [NL])
        ['' // Root comment'',
         q ''AppState'',
         ''{'',
         entry 4 ''appid'' 6 ''440'',
         entry 4 ''name'' 7 ''Team Fortress 2'',
         entry 4 ''installdir'' 1 ''Team Fortress 2'',
         [],
         line 4 ''// nested object'',
         line 4 (q ''UserConfig''),
         line 4 ''{'',
         entry 8 ''language'' 1 ''english'',
         entry 8 ''beta'' 5 ''public'',
         line 4 ''}'',
         [],
         line 4 (q ''Mounts''),
         line 4 ''{'',
         line 8 (q ''0''),
         line 8 ''{'',
         entry 12 ''name'' 2 ''tf'',
         entry 12 ''path'' 2 ''tf/'',
         line 8 ''}'',
         [],
         line 8 (q ''1''),
         line 8 ''{'',
         entry 12 ''name'' 2 ''hl2'',
         entry 12 ''path'' 2 ''hl2/'',
         line 8 ''}'',
         line 4 ''}'',
         [],
         line 4 ''// escape test'',
         entry 4 ''Message'' 1 (''Line1'' @ BACKSLASH # ''nLine2'' @ BACKSLASH # ''tTabbed '' @ BACKSLASH # QUOTE #
           ''quote'' @ [BACKSLASH, QUOTE])]) @ ''} '')"

definition test_VdfTextParsing :: "error + bool list" where
  "test_VdfTextParsing =
     bindE (parse_text TEST_STRING) (\<lambda>vdf_obj.
       let (app_state, vdf_obj) = obj_index ''AppState'' vdf_obj;
           appid = get_string_or ''appid'' [] app_state;
           escaped_msg = get_string_or ''Message'' [] app_state
       in Inr [appid = ''440'',
               escaped_msg = ''Line1'' @ NL # ''Line2'' @ TAB # ''Tabbed '' @ quoted ''quote''])"

definition TEST_BIN :: "byte list" where
  "TEST_BIN =
     [0x02] @ bin_cstring ''appid'' @ [0xB8, 0x01, 0x00, 0x00] @
     [0x03] @ bin_cstring ''ratio'' @ [0x00, 0x00, 0xC0, 0x3F] @
     [0x07] @ bin_cstring ''steamid'' @ [0xFA, 0xFF, 0xFF, 0xFF, 0xFF, 0xFF, 0xFF, 0x01] @
     [0x01] @ bin_cstring ''name'' @ bin_cstring ''TF2'' @ [0x08]"

text \<open>\<open>1.5f\<close> as its bits.\<close>

definition test_VdfBinaryParsing :: "error + bool list" where
  "test_VdfBinaryParsing =
     bindE (parse_binary TEST_BIN) (\<lambda>obj.
       let (appid, obj) = obj_index ''appid'' obj;
           (ratio, obj) = obj_index ''ratio'' obj;
           (name, obj) = obj_index ''name'' obj
       in bindE (as_int appid) (\<lambda>a. bindE (as_float ratio) (\<lambda>r. bindE (as_string name) (\<lambda>n.
            Inr [a = 440, r = 0x3FC00000, n = ''TF2'']))))"

definition test_VdfBinaryOverflow :: "error + bool list" where
  "test_VdfBinaryOverflow = Inr [requires_throw (parse_binary [0x02, 0x61, 0x00])]"

lemma vdf_binary_tests_pass:
  "test_VdfBinaryParsing = Inr [True, True, True]"
  "test_VdfBinaryOverflow = Inr [True]"
  by code_simp+

lemma vdf_text_test_passes: "test_VdfTextParsing = Inr [True, True]"
  by code_simp

end
