(* ===== verification/Spec2Isabelle.thy ===== *)
theory Spec2Isabelle
  imports Format_Properties Json_Properties Container_Properties Text_Properties Transport_Properties Client_Properties Session_Properties
    Run_Properties Stored_Properties Repo_Tests
begin

text \<open>
  A model of steam-min-cpp, a client library for the connection managers (CM) of Steam: it finds
  a CM server, connects over TCP, negotiates an encrypted channel, logs on anonymously and asks
  for product information.

  The program. \<open>SteamClient\<close> (src/client.cpp) owns one \<open>CMClient\<close> (src/network/cmclient.cpp), which
  owns a transport \<open>IConnection\<close> and an \<open>EncryptionManager\<close>. \<open>TCPConnection\<close>
  (src/network/connection/tcp.cpp) asks \<open>CMFetcher\<close> (src/web/cmfetcher.cpp) for a server, cuts the
  byte stream into frames and hands each to \<open>consume_frame\<close>, which decrypts it if the channel is
  secured, reads the message number from the first four bytes, builds a packet and dispatches it
  through \<open>g_dispatch\<close> to a handler. A handler parses the body, may send a message or consume
  further frames (\<open>Multi\<close>), and emits an event to the application. Commands of the application
  go through \<open>g_request_router\<close> to functions that build a message and send it.

  Theories, from the bottom up.
  \<^item> Steam_Prelude: machine integers, errors (an exception of the program or an undefined access),
    little-endian bytes, and the locales \<open>registry\<close> (put and look up), \<open>framing\<close> (messages cut out of
    a byte stream) and \<open>invariant_system\<close> (reachable states).
  \<^item> Byte_Stream: \<open>Stream\<close>, and the contract \<open>struct_codec\<close> of a serialized structure.
  \<^item> Steam_Enums, Enum_Tables, Steam_Headers, Steam_Bodies: the generated headers SteamLanguage.hpp
    and SteamLanguageInternal.hpp, the enumerations as tables of their values, the structures one by
    one, each an interpretation of \<open>struct_codec\<close>.
  \<^item> Msg_Utils, Steam_Messages: message numbers, payload helpers, packets and typed messages.
  \<^item> Runtime_Err: decimal text and the assertion macros.
  \<^item> Steam_Crypto: the symmetric encryption with the HMAC in the IV, and the handshake answer.
  \<^item> Steam_Vdf, Vdf_Binary, Vdf_Text: the VDF tree, its two parsers and its printer.
  \<^item> Steam_Events, Steam_Dispatch: events, commands, the emitter, the routing tables.
  \<^item> Ctl_Json: the JSON parser and printer of external/ctljson.hpp; Json_Facts: it reads back what
    is printed; Json_Valid: what it accepts; Json_Bounds: where it stops and what it is undefined on.
  \<^item> Nemap: the red-black map of the JSON library, with the path to the root in place of the parent
    pointers; Nemap_Facts and Nemap_Map: sorted, coloured and balanced after every insertion and
    erasure, and so an interpretation of the contract \<open>finite_map\<close>.
  \<^item> Json_Object: the stored object, a map and a string of packed keys, and that it implements the
    list of members of Ctl_Json. Nestring: the string with its local block, and that it is a list;
    Nestring_Moves: its moves, ranges and comparison.
    Nevector: the vector as slots that hold an element or not, and that it is a list.
  \<^item> Number_Text: how the JSON library prints integers and \<open>double\<close>, digit by digit; Number_Facts:
    its arithmetic on digits; Number_Exact: the digits of a \<open>double\<close> are exact; Json_Number: numbers
    in nodes and what their text says. Double_Value: how \<open>strtod\<close> reads such a text, which is rounding
    to the nearest \<open>double\<close>; Json_Stored: nodes with the \<open>double\<close> of each number. Json_Utf16: strings of the variant with
    16-bit characters; Json_Order16: the order of its keys.
  \<^item> Cm_Fetcher, Tcp_Connection, Tcp_Receive: the server list, the connection as a transition
    system over what its socket may do, its read loop, and the contract \<open>transport\<close> that it keeps.
  \<^item> Cm_Client: the client, all handlers and commands, over any transport.
  \<^item> Client_Facts, Client_Safety, Client_State, Client_Wire: lemmas on routing and frames, on
    exceptions and depth, on what is preserved, and on the bytes of each exchange.
  \<^item> Sample_World: a concrete instance of every parameter, for the instances of the properties.
  \<^item> Example_Programs: the two programs under examples/, whose callbacks print and use the client.
  \<^item> Client_Session: application, client, connection and network as one transition system; its
    connection is that of Tcp_Connection, and on a secured channel it sends ciphertexts only.
  \<^item> Format_Properties, Json_Properties, Container_Properties, Text_Properties,
    Stored_Properties, Transport_Properties, Client_Properties, Session_Properties, Run_Properties and this theory:
    the properties. Repo_Tests: the test cases of the repository, which all succeed on the model.

  State. An object is a record with its members as fields. An operation takes the record
  and returns it with its outcome, so that what was done before an exception stays done. The
  state of the application's callbacks is a field \<open>user\<close> of the client, the callbacks are a
  parameter. A scoped enumeration is a word of its width; \<open>size_t\<close> is \<open>nat\<close> with the wrapping
  addition written out where an overflow can happen; \<open>float\<close> and \<open>double\<close> are their bits.

  Parameters. Crypto++, the classes that protoc generates, libcurl, the resolver, gunzip
  and the callbacks are arguments. What is assumed of them is named:
  \<open>crypto_lawful\<close> (decryption undoes encryption, sizes), \<open>proto_lawful\<close> (parsing undoes
  serializing), \<open>calm\<close> and \<open>callbacks_keep\<close> (what callbacks leave alone), \<open>modest\<close> (a payload is
  no longer than its message). Boost.Asio is modelled by the set of started operations, each of
  which completes, fails or is aborted by a close, in any order.

  Bounds. \<open>consume_frame\<close> takes a bound on the depth of nested \<open>Multi\<close> messages; the length of
  the frame plus one suffices for \<open>modest\<close> payloads (C15). \<open>receive\<close> runs a number of read
  completions, two for a frame. A callback that uses the client may make it call another callback:
  two levels are enough for the example programs (lemma \<open>callbacks_end\<close>). The parsers are total functions; that of JSON consumes a character
  or changes from a value to an element in each call. A vector holds fewer than
  \<open>2 ^ 63\<close> bytes (\<open>vec_limit\<close>).

  Not modelled. In the containers of the JSON library the failure of an allocation. Logging, the
  protobuf and steamd inputs of the code generators, and the build, none of which is code with a
  state. A locale other than C, in which \<open>strtod\<close> reads another decimal point. That a \<open>Stream\<close> keeps the
  address of the vector it reads, which the caller has to keep alive. The mutex of \<open>CMFetcher\<close>, because one
  thread uses it. The lifetime of objects that handlers capture. The depth of the C++ stack in
  the recursive VDF and JSON parsers. \<open>std::isspace\<close> of a negative \<open>char\<close> is taken as false. The hash map
  of a VDF object is an association list in the (unspecified) order of traversal.
\<close>

section \<open>Client and connection together\<close>

text \<open>
  C6. A client on a TCP connection answers the request of the encryption handshake with the
  RSA encryption of its session key and the challenge, followed by the CRC of that: the answer
  is queued behind what was sent before, nothing is thrown, and the keys stay what they were.
\<close>

theorem handshake_answered:
  assumes "e_transport env = TCP_IConnection curl resolve" and "e_dispatch env = g_dispatch"
    and "\<not> channel_secured w"
    and "Msg_Serialize MsgChannelEncryptRequest_ops m = Inr bs"
    and "MsgHdr_Msg (Header m) = EMsg_ChannelEncryptRequest"
    and "MsgChannelEncryptRequest_protocolVersion (Body m) = 1"
    and "MsgChannelEncryptRequest_universe (Body m) = EUniverse_Public"
    and "length (Payload m) = 16"
    and "rsa_oaep_sha1 (e_crypto env) STEAM_PUBLIC_KEY_DER (session_key (crypto w) @ Payload m)
      (rng_state (crypto w)) = (Some k, g)"
  shows "\<exists>t. async_send (response_bytes k (crc_to_vector (crc32_hash (e_crypto env) k))) (connection w) = Inr t \<and>
    write_queue t = write_queue (connection w) @
      [send_buffer (response_bytes k (crc_to_vector (crc32_hash (e_crypto env) k)))] \<and>
    consume_frame env (Suc n) bs True w =
      (Inr (), w\<lparr>crypto := (crypto w)\<lparr>rng_state := g\<rparr>, connection := t\<rparr>)"
proof -
  let ?r = "response_bytes k (crc_to_vector (crc32_hash (e_crypto env) k))"
  obtain t where t: "async_send ?r (connection w) = Inr t" using async_send_total by blast
  have "consume_frame env (Suc n) bs True w = conn_send env ?r (w\<lparr>crypto := (crypto w)\<lparr>rng_state := g\<rparr>\<rparr>)"
    by (rule handshake_request [OF assms(2-9)]) (simp add: tcp_transport.conn_send_ok [OF assms(1)])
  with t assms(1) have "consume_frame env (Suc n) bs True w =
      (Inr (), w\<lparr>crypto := (crypto w)\<lparr>rng_state := g\<rparr>, connection := t\<rparr>)"
    by (simp add: conn_send_def TCP_IConnection_def)
  with t async_send_queue [OF t] show ?thesis by blast
qed

definition sample_encrypt_request :: "MsgChannelEncryptRequest Msg" where
  "sample_encrypt_request =
     (Msg_new MsgChannelEncryptRequest_ops)\<lparr>Payload := replicate 16 9,
        Body := \<lparr>MsgChannelEncryptRequest_protocolVersion = 1,
          MsgChannelEncryptRequest_universe = EUniverse_Public\<rparr>\<rparr>"

theorem handshake_answered_witness:
  "\<exists>bs t. Msg_Serialize MsgChannelEncryptRequest_ops sample_encrypt_request = Inr bs \<and>
    write_queue t = [send_buffer (response_bytes (rev (replicate 32 1 @ replicate 16 9))
      (crc_to_vector (crc32_hash sample_crypto (rev (replicate 32 1 @ replicate 16 9)))))] \<and>
    consume_frame sample_env (Suc 0) bs True sample_start =
      (Inr (), sample_start\<lparr>crypto := (crypto sample_start)\<lparr>rng_state := 3\<rparr>, connection := t\<rparr>)"
proof -
  have "codec (\<lambda>_. True) (body_Serialize MsgChannelEncryptRequest_ops) (body_Deserialize MsgChannelEncryptRequest_ops) 8"
    by (rule MsgChannelEncryptRequest_codec_ops)
  then obtain enc where "writes (body_Serialize MsgChannelEncryptRequest_ops (Body sample_encrypt_request)) enc"
    unfolding codec_def by blast
  from Msg_Serialize_bytes [OF this] obtain bs where
    bs: "Msg_Serialize MsgChannelEncryptRequest_ops sample_encrypt_request = Inr bs" by blast
  have q: "write_queue (TCPConnection_new :: unit TCPConnection) = []" by (simp add: TCPConnection_new_def)
  have "\<exists>t. async_send (response_bytes (rev (replicate 32 1 @ replicate 16 9))
        (crc_to_vector (crc32_hash (e_crypto sample_env) (rev (replicate 32 1 @ replicate 16 9))))) (connection sample_start) = Inr t \<and>
    write_queue t = write_queue (connection sample_start) @
      [send_buffer (response_bytes (rev (replicate 32 1 @ replicate 16 9))
        (crc_to_vector (crc32_hash (e_crypto sample_env) (rev (replicate 32 1 @ replicate 16 9)))))] \<and>
    consume_frame sample_env (Suc 0) bs True sample_start =
      (Inr (), sample_start\<lparr>crypto := (crypto sample_start)\<lparr>rng_state := 3\<rparr>, connection := t\<rparr>)"
    by (rule handshake_answered [OF _ _ _ bs])
      (simp_all add: sample_encrypt_request_def Msg_new_def MsgHdr_SetEMsg_def
        MsgChannelEncryptRequest_ops_def MsgChannelEncryptRequest_GetEMsg_def sample_crypto_def)
  with bs q show ?thesis by (auto simp del: consume_frame.simps)
qed

text \<open>
  C4. A frame that a secured client sends travels encrypted and framed: it is queued as one
  frame, the connection of a peer that reads it hands exactly that frame over, and the peer,
  if it has the same keys, does what the plain frame would make it do.
\<close>

theorem secured_delivery:
  assumes "e_transport env = TCP_IConnection curl resolve"
    and "crypto_lawful (e_crypto env)" and "manager_ok (crypto w)"
    and "channel_secured w" and "channel_secured v"
    and "session_key (crypto v) = session_key (crypto w)" and "hmac_secret (crypto v) = hmac_secret (crypto w)"
    and "4 \<le> length p" and "length p < 2 ^ 31"
    and "reading (connection v)" and "on_frame (connection v) = Some ()"
  shows "\<exists>c w'. send_msg_impl env p w = (Inr (), w') \<and>
    write_queue (connection w') = write_queue (connection w) @ [send_buffer c] \<and>
    fst (receive 2 ((connection v)\<lparr>sock := (sock (connection v))\<lparr>inbox := send_buffer c\<rparr>\<rparr>)) = [((), c)] \<and>
    consume_frame env (Suc n) c True v = consume_frame env (Suc n) p False v"
proof -
  have "has_keys (session_key (crypto w)) (hmac_secret (crypto w)) v"
    using assms(6,7) by (simp add: has_keys_def)
  moreover have "length p < vec_limit" using assms(9) by (simp add: vec_limit_def)
  ultimately obtain c em where s: "send_msg_impl env p w = conn_send env c (w\<lparr>crypto := em\<rparr>)"
    and r: "consume_frame env (Suc n) c True v = consume_frame env (Suc n) p False v"
    and l: "length c = 16 + (length p div 16 + 1) * 16"
    using encrypted_transport [OF assms(2-5) _ assms(8)] by blast
  obtain t where t: "async_send c (connection w) = Inr t" using async_send_total by blast
  then have "send_msg_impl env p w = (Inr (), w\<lparr>crypto := em, connection := t\<rparr>)"
    using s assms(1) by (simp add: conn_send_def TCP_IConnection_def)
  moreover have "sendable c" using l assms(9) by (simp add: sendable_def)
  then have "fst (receive 2 ((connection v)\<lparr>sock := (sock (connection v))\<lparr>inbox := send_buffer c\<rparr>\<rparr>)) = [((), c)]"
    using receive_frames [of "(connection v)\<lparr>sock := (sock (connection v))\<lparr>inbox := send_buffer c\<rparr>\<rparr>" "[c]" "[]" "()"]
      assms(10,11) by (simp add: reading_def pending_reads_def)
  ultimately show ?thesis using r async_send_queue [OF t] by fastforce
qed

theorem secured_delivery_witness:
  "\<exists>c w'. send_msg_impl sample_env [1, 0, 0, 128, 9] (set_channel_secured True sample_start) = (Inr (), w') \<and>
    write_queue (connection w') = [send_buffer c] \<and>
    fst (receive 2 (sample_reading (send_buffer c))) = [((), c)] \<and>
    consume_frame sample_env (Suc 3) c True ((set_channel_secured True sample_start)\<lparr>connection := sample_reading []\<rparr>) =
      consume_frame sample_env (Suc 3) [1, 0, 0, 128, 9] False
        ((set_channel_secured True sample_start)\<lparr>connection := sample_reading []\<rparr>)"
proof -
  let ?w = "set_channel_secured True sample_start"
  let ?v = "?w\<lparr>connection := sample_reading []\<rparr>"
  have i: "(sample_reading [])\<lparr>sock := (sock (sample_reading []))\<lparr>inbox := bs\<rparr>\<rparr> = sample_reading bs" for bs
    by (simp add: sample_reading_def tcp_defs)
  have "\<exists>c w'. send_msg_impl sample_env [1, 0, 0, 128, 9] ?w = (Inr (), w') \<and>
    write_queue (connection w') = write_queue (connection ?w) @ [send_buffer c] \<and>
    fst (receive 2 ((connection ?v)\<lparr>sock := (sock (connection ?v))\<lparr>inbox := send_buffer c\<rparr>\<rparr>)) = [((), c)] \<and>
    consume_frame sample_env (Suc 3) c True ?v = consume_frame sample_env (Suc 3) [1, 0, 0, 128, 9] False ?v"
    by (rule secured_delivery [OF sample_env_simps(10)])
      (simp_all add: sample_crypto_lawful sample_manager_ok set_channel_secured_def sample_reading_simps)
  then show ?thesis
    by (simp add: i set_channel_secured_def TCPConnection_new_def del: consume_frame.simps receive.simps)
qed

text \<open>
  The product info request of the application is sent under the next job number, which it
  uses up, with the session number and SteamID that the application gave; secured or not.
\<close>

theorem product_info_request:
  assumes "router w = g_request_router"
    and "SerializeToString (e_header env) (set_steamid (e_header env) (req_steamid req)
      (set_client_sessionid (e_header env) (req_client_sessionid req)
        (set_jobid_source (e_header env) (next_jobid w) (proto_new (e_header env))))) = Some hs"
    and "SerializeToString (e_pics_request env) \<lparr>req_apps = req_apps (proto_new (e_pics_request env)) @
      [\<lparr>ra_appid = req_id req, ra_access_token = req_app_token req\<rparr>]\<rparr> = Some bd"
  shows "execute env (ProductInfoCommand req) w =
    send_msg_impl env (proto_hdr_bytes EMsg_ClientPICSProductInfoRequest hs @ bd)
      (w\<lparr>next_jobid := next_jobid w + 1\<rparr>)"
  using execute_routed(3) [OF assms(1), of env req] product_info_bytes [OF assms(2,3)] by simp

definition sample_info :: GetProductInfo where
  "sample_info = \<lparr>req_id = 440, req_steamid = 76561197960265728, req_client_sessionid = 3, req_app_token = 0\<rparr>"

theorem product_info_request_witness:
  "execute sample_env (ProductInfoCommand sample_info) sample_start =
    send_msg_impl sample_env (proto_hdr_bytes EMsg_ClientPICSProductInfoRequest
       (le_bytes (76561197960265728 :: u64) @ le_bytes (3 :: u32) @ le_bytes (0 :: u64) @ le_bytes (- 1 :: u64)) @
       (le_bytes (440 :: u32) @ le_bytes (0 :: u64)))
      (sample_start\<lparr>next_jobid := next_jobid sample_start + 1\<rparr>)"
  by (rule product_info_request) (simp_all add: sample_info_def sample_request_def)



text \<open>
  C40. The secured flag outlives the connection: a client that is shut down and connected
  again decrypts the plain handshake of its next server. If that throws, the exception leaves the
  handler of the frame before it has started another read, and the connection hears nothing more.
\<close>

theorem reconnect_decrypts_handshake:
  assumes "e_transport env = TCP_IConnection curl resolve" and "channel_secured w"
    and "snd (start_session env (shutdown env w)) = v"
    and "on_frame c = on_frame (connection v)" and "pending_reads c = []" and "4 \<le> length bs"
    and "process_incoming_encrypted_message (e_crypto env) (crypto w) bs = Inl (Exn x)"
  shows "\<exists>v'. tcp_body_handler env (Suc n) bs (v\<lparr>connection := c\<rparr>) = (Inl (Exn x), v') \<and>
    channel_secured v' \<and> pending_reads (connection v') = [] \<and> sock (connection v') = sock c"
proof -
  have s: "channel_secured v" "crypto v = crypto w"
    using assms(2,3) by (auto simp: start_session_def shutdown_def split: prod.splits)
  have "on_frame (connection v) = Some ()"
    using assms(1,3) by (auto simp: start_session_def TCP_IConnection_def network_connect_def set_on_frame_def
        split: prod.splits elim!: connect_with_cases)
  with assms s have "tcp_body_handler env (Suc n) bs (v\<lparr>connection := c\<rparr>) =
      (Inl (Exn x), (v\<lparr>connection := c\<rparr>)\<lparr>connection := c\<lparr>body_buffer := bs\<rparr>\<rparr>)"
    using tcp_body_undecryptable [of "v\<lparr>connection := c\<rparr>" bs env x n] by (simp add: incoming_def)
  with s(1) assms(5) show ?thesis by (simp add: pending_reads_def)
qed

theorem reconnect_decrypts_handshake_witness:
  "\<exists>v'. tcp_body_handler sample_env (Suc 0) [1, 2, 3, 4]
      ((snd (start_session sample_env (shutdown sample_env (set_channel_secured True sample_start))))
        \<lparr>connection := TCPConnection_new\<lparr>on_frame := Some ()\<rparr>\<rparr>) =
      (Inl (Exn (RuntimeError ''Invalid encrypted data'')), v') \<and>
    channel_secured v' \<and> pending_reads (connection v') = [] \<and>
    sock (connection v') = sock (TCPConnection_new\<lparr>on_frame := Some ()\<rparr>)"
proof (rule reconnect_decrypts_handshake [OF sample_env_simps(10) _ refl])
  have "on_frame (connection (snd (start_session sample_env u))) = Some ()" for u
    by (auto simp: start_session_def TCP_IConnection_def network_connect_def set_on_frame_def
        split: prod.splits elim!: connect_with_cases)
  then show "on_frame (TCPConnection_new\<lparr>on_frame := Some ()\<rparr>) =
      on_frame (connection (snd (start_session sample_env (shutdown sample_env (set_channel_secured True sample_start)))))"
    by simp
qed (simp_all add: set_channel_secured_def pending_reads_def TCPConnection_new_def socket_new_def
    process_incoming_encrypted_message_def symmetric_decrypt_hmac_iv_def IV_LENGTH_def)

end
